(* ===== verification/Prelude.thy ===== *)
theory Prelude
  imports Main "HOL-Library.Multiset"
begin

text \<open>
  What every component of the model shares.  A Go call either panics, which ends the
  process, or returns; a call that changes state takes the state and returns the new one
  (type \<open>go\<close>).  The order in which a Go \<open>range\<close> visits a map is not determined by the
  program, so every definition that ranges over a map takes the order as an argument and
  \<open>range_order\<close> says which lists are such orders.  The rest are lemmas on lists and
  maps that the component theories use, and the collections their proofs share.
\<close>

section \<open>Proof collections\<close>

named_theorems queue_simps "rewrite rules of the scheduling queue's operations"
named_theorems queue_invs "preservation of the scheduling queue's invariant"
named_theorems wp_simps "rewrite rules of the waiting pod's operations"
named_theorems fw_simps "what the scheduling framework documents of its own operations"

section \<open>Panics and state\<close>

datatype panic = NilDeref | IndexOutOfRange | PanicMsg string

type_synonym ('w, 'a) go = "'w \<Rightarrow> panic + 'a \<times> 'w"

section \<open>Go maps\<close>

text \<open>
  A Go map is a HOL map.  \<open>range_order ks m\<close>: a \<open>range\<close> over \<open>m\<close> may visit the keys in
  the order \<open>ks\<close>, each exactly once.
\<close>

definition range_order :: "'k list \<Rightarrow> ('k \<rightharpoonup> 'v) \<Rightarrow> bool" where
  "range_order ks m \<longleftrightarrow> distinct ks \<and> set ks = dom m"

primrec range_values :: "'k list \<Rightarrow> ('k \<rightharpoonup> 'v) \<Rightarrow> 'v list" where
  "range_values [] m = []"
| "range_values (k # ks) m =
     (case m k of None \<Rightarrow> range_values ks m | Some v \<Rightarrow> v # range_values ks m)"

lemma range_order_finite: "range_order ks m \<Longrightarrow> finite (dom m)"
  unfolding range_order_def by (metis List.finite_set)

lemma range_order_ex: "finite (dom m) \<Longrightarrow> \<exists>ks. range_order ks m"
  unfolding range_order_def by (metis finite_distinct_list)

lemma range_order_empty [simp]: "range_order ks Map.empty \<longleftrightarrow> ks = []"
  by (auto simp: range_order_def)

lemma range_order_single [simp]: "range_order ks [k \<mapsto> v] \<longleftrightarrow> ks = [k]"
proof (cases ks)
  case (Cons a xs)
  have "k \<notin> set xs \<Longrightarrow> set xs \<subseteq> {k} \<Longrightarrow> xs = []"
    by (cases xs) auto
  with Cons show ?thesis by (auto simp: range_order_def)
qed (auto simp: range_order_def)

lemma set_range_values: "set (range_values ks m) = {v. \<exists>k \<in> set ks. m k = Some v}"
  by (induction ks) (auto split: option.splits)

lemma set_range_values_ran:
  assumes "range_order ks m"
  shows "set (range_values ks m) = ran m"
proof -
  have "set (range_values ks m) = {v. \<exists>k \<in> dom m. m k = Some v}"
    using assms by (simp add: set_range_values range_order_def)
  also have "\<dots> = ran m"
    by (auto simp: ran_def)
  finally show ?thesis .
qed

lemma range_values_cong:
  "(\<And>k. k \<in> set ks \<Longrightarrow> m k = m' k) \<Longrightarrow> range_values ks m = range_values ks m'"
  by (induction ks) (auto split: option.splits)

lemma range_values_map: "set ks \<subseteq> dom m \<Longrightarrow> range_values ks m = map (\<lambda>k. the (m k)) ks"
  by (induction ks) (auto split: option.splits)

lemma mset_range_values_unique:
  assumes "range_order ks m" and "range_order ks' m"
  shows "mset (range_values ks m) = mset (range_values ks' m)"
proof -
  have "mset ks = mset ks'"
    using assms by (metis range_order_def set_eq_iff_mset_eq_distinct)
  then show ?thesis
    using assms by (metis mset_map range_order_def subset_refl range_values_map)
qed

text \<open>The values of a finite map, as a multiset: what a \<open>range\<close> visits, in any order.\<close>

definition map_values :: "('k \<rightharpoonup> 'v) \<Rightarrow> 'v multiset" where
  "map_values m = image_mset (\<lambda>k. the (m k)) (mset_set (dom m))"

lemma mset_range_values:
  assumes "range_order ks m"
  shows "mset (range_values ks m) = map_values m"
proof -
  have "mset_set (dom m) = mset ks"
    using assms by (metis mset_set_set range_order_def)
  then show ?thesis
    using assms by (simp add: map_values_def range_values_map range_order_def)
qed

lemma map_values_empty [simp]: "map_values Map.empty = {#}"
  by (simp add: map_values_def)

lemma map_values_upd_new:
  assumes "finite (dom m)" and "m k = None"
  shows "map_values (m(k \<mapsto> v)) = add_mset v (map_values m)"
proof -
  have "k \<notin> dom m" using assms(2) by auto
  then have "image_mset (\<lambda>x. the ((m(k \<mapsto> v)) x)) (mset_set (dom m))
      = image_mset (\<lambda>x. the (m x)) (mset_set (dom m))"
    by (intro image_mset_cong) (use assms(1) in auto)
  then show ?thesis
    using assms(1) \<open>k \<notin> dom m\<close> by (simp add: map_values_def)
qed

lemma map_values_remove:
  assumes "finite (dom m)" and "m k = Some v"
  shows "map_values m = add_mset v (map_values (m(k := None)))"
proof -
  have "(m(k := None))(k \<mapsto> v) = m"
    using assms(2) by auto
  moreover have "map_values ((m(k := None))(k \<mapsto> v)) = add_mset v (map_values (m(k := None)))"
    by (rule map_values_upd_new) (use assms(1) in auto)
  ultimately show ?thesis by simp
qed

lemma map_values_remove_none: "m k = None \<Longrightarrow> map_values (m(k := None)) = map_values m"
  by (metis fun_upd_triv)

lemma set_map_values: "finite (dom m) \<Longrightarrow> set_mset (map_values m) = ran m"
  by (auto simp: map_values_def ran_def image_iff dom_def) force+

section \<open>Lists\<close>

lemma append_sep_inject:
  assumes "a @ c # b = a' @ c # b'" and "c \<notin> set a" and "c \<notin> set a'"
  shows "a = a' \<and> b = b'"
  using assms
proof (induction a arbitrary: a')
  case Nil
  then show ?case by (cases a') auto
next
  case (Cons x xs)
  then show ?case by (cases a') auto
qed

lemma append_sep_inject_last:
  assumes "a @ c # b = a' @ c # b'" and "c \<notin> set b" and "c \<notin> set b'"
  shows "a = a' \<and> b = b'"
proof -
  have "rev b @ c # rev a = rev b' @ c # rev a'"
    using arg_cong [OF assms(1), of rev] by simp
  then have "rev b = rev b' \<and> rev a = rev a'"
    using assms(2,3) by (intro append_sep_inject) auto
  then show ?thesis by simp
qed

section \<open>Keys made of two strings\<close>

text \<open>
  Both the scheduling queue and the result store index a Go map with a string built from two
  names.  The contract: on well-formed names (\<open>ok\<close>) the key determines both, so an entry
  is found again under its own names and under no others.
\<close>

locale pair_key =
  fixes key :: "string \<Rightarrow> string \<Rightarrow> string"
    and ok :: "string \<Rightarrow> string \<Rightarrow> bool"
  assumes key_inject: "ok a b \<Longrightarrow> ok a' b' \<Longrightarrow> key a b = key a' b' \<Longrightarrow> a = a' \<and> b = b'"
begin

lemma key_eq_iff: "ok a b \<Longrightarrow> ok a' b' \<Longrightarrow> key a b = key a' b' \<longleftrightarrow> a = a' \<and> b = b'"
  using key_inject by blast

lemma lookup_update:
  assumes "ok a b" and "ok a' b'"
  shows "(m(key a b \<mapsto> v)) (key a' b') = (if a = a' \<and> b = b' then Some v else m (key a' b'))"
  by (auto simp: key_eq_iff [OF assms(2,1)])

lemma lookup_delete:
  assumes "ok a b" and "ok a' b'"
  shows "(m(key a b := None)) (key a' b') = (if a = a' \<and> b = b' then None else m (key a' b'))"
  by (auto simp: key_eq_iff [OF assms(2,1)])

end

end
