(* ===== verification/Go_Std.thy ===== *)
theory Go_Std
  imports Prelude "HOL-Library.Word"
begin

text \<open>
  The parts of the Go language and its standard library that the program calls: \<open>int64\<close>
  durations and scores as 64-bit words read with \<open>sint\<close>, instants of time as a count of
  nanoseconds from the zero \<open>time.Time\<close>, the decimal conversions of \<open>strconv\<close>, and the slice \<open>s[len(s)-1:]\<close>.
  A string is the list of its bytes, as in Go.
\<close>

type_synonym int64 = "64 word"
type_synonym duration = int64
type_synonym time = int

definition Second :: duration where
  "Second = 1000000000"

text \<open>\<open>t.Add(d)\<close> and \<open>t.After(u)\<close>.\<close>

definition time_Add :: "time \<Rightarrow> duration \<Rightarrow> time" where
  "time_Add t d = t + sint d"

definition time_After :: "time \<Rightarrow> time \<Rightarrow> bool" where
  "time_After t u \<longleftrightarrow> u < t"

section \<open>Decimal numbers\<close>

definition digit_val :: "char \<Rightarrow> nat option" where
  "digit_val c = (let n = of_char c :: nat in if 48 \<le> n \<and> n \<le> 57 then Some (n - 48) else None)"

definition digit_char :: "nat \<Rightarrow> char" where
  "digit_char d = char_of (48 + d)"

fun digits_val :: "nat \<Rightarrow> string \<Rightarrow> nat option" where
  "digits_val acc [] = Some acc"
| "digits_val acc (c # cs) =
     (case digit_val c of None \<Rightarrow> None | Some d \<Rightarrow> digits_val (10 * acc + d) cs)"

text \<open>
  \<open>strconv.Atoi\<close>: an optional sign and at least one digit, in the range of a 64-bit
  \<open>int\<close>; \<open>None\<close> where it returns an error (no caller looks at which).
\<close>

definition Atoi :: "string \<Rightarrow> int option" where
  "Atoi s =
     (let (neg, ds) = (case s of
            [] \<Rightarrow> (False, [])
          | c # cs \<Rightarrow> if c = CHR ''-'' then (True, cs)
                      else if c = CHR ''+'' then (False, cs) else (False, s))
      in if ds = [] then None
         else case digits_val 0 ds of
             None \<Rightarrow> None
           | Some n \<Rightarrow>
               let i = (if neg then - int n else int n)
               in if - (2 ^ 63) \<le> i \<and> i < 2 ^ 63 then Some i else None)"

text \<open>\<open>strconv.FormatInt(i, 10)\<close>, and \<open>strconv.Itoa\<close>.\<close>

fun nat_digits :: "nat \<Rightarrow> string" where
  "nat_digits n = (if n < 10 then [digit_char n] else nat_digits (n div 10) @ [digit_char (n mod 10)])"

declare nat_digits.simps [simp del]

definition FormatInt :: "int \<Rightarrow> string" where
  "FormatInt i = (if i < 0 then CHR ''-'' # nat_digits (nat (- i)) else nat_digits (nat i))"

lemma digit_val_char: "d < 10 \<Longrightarrow> digit_val (digit_char d) = Some d"
  by (simp add: digit_val_def digit_char_def)

lemma digits_val_append:
  "digits_val acc (xs @ ys) =
     (case digits_val acc xs of None \<Rightarrow> None | Some a \<Rightarrow> digits_val a ys)"
  by (induction acc xs rule: digits_val.induct) (auto split: option.splits)

lemma nat_digits_not_Nil [simp]: "nat_digits n \<noteq> []"
  by (subst nat_digits.simps) simp

lemma digits_val_nat_digits: "digits_val 0 (nat_digits n) = Some n"
proof (induction n rule: nat_digits.induct)
  case (1 n)
  show ?case
  proof (cases "n < 10")
    case True
    then show ?thesis by (simp add: nat_digits.simps digit_val_char)
  next
    case False
    then show ?thesis
      using 1 by (simp add: nat_digits.simps [of n] digits_val_append digit_val_char)
  qed
qed

lemma digit_char_not_sign:
  assumes "d < 10"
  shows "digit_char d \<noteq> CHR ''-'' \<and> digit_char d \<noteq> CHR ''+''"
proof -
  have "digit_val (CHR ''-'') = None" "digit_val (CHR ''+'') = None"
    by (simp_all add: digit_val_def)
  then show ?thesis
    using digit_val_char [OF assms] by (metis option.distinct(1))
qed

lemma nat_digits_head: "\<exists>d cs. d < 10 \<and> nat_digits n = digit_char d # cs"
proof (induction n rule: nat_digits.induct)
  case (1 n)
  show ?case
  proof (cases "n < 10")
    case True
    then show ?thesis by (subst nat_digits.simps) auto
  next
    case False
    with 1 obtain d cs where "d < 10" and "nat_digits (n div 10) = digit_char d # cs"
      by auto
    with False show ?thesis by (subst nat_digits.simps) auto
  qed
qed

lemma Atoi_FormatInt:
  assumes "- (2 ^ 63) \<le> i" and "i < 2 ^ 63"
  shows "Atoi (FormatInt i) = Some i"
proof (cases "i < 0")
  case True
  with assms show ?thesis
    by (simp add: Atoi_def FormatInt_def digits_val_nat_digits)
next
  case False
  obtain d cs where d: "d < 10" and digits: "nat_digits (nat i) = digit_char d # cs"
    using nat_digits_head by blast
  have "digits_val 0 (digit_char d # cs) = Some (nat i)"
    using digits_val_nat_digits [of "nat i"] by (simp only: digits)
  with False assms digit_char_not_sign [OF d] show ?thesis
    by (simp add: Atoi_def FormatInt_def digits del: digits_val.simps)
qed

section \<open>The last byte of a string\<close>

text \<open>
  \<open>s[len(s)-1:]\<close>: on the empty string the lower bound is \<open>-1\<close> and the slice panics.
\<close>

definition last_char_slice :: "string \<Rightarrow> panic + string" where
  "last_char_slice s = (if s = [] then Inl IndexOutOfRange else Inr [last s])"

lemma Atoi_singleton: "Atoi [c] = map_option int (digit_val c)"
proof -
  have "digit_val c = None" if "c = CHR ''-'' \<or> c = CHR ''+''"
    using that by (auto simp: digit_val_def)
  moreover have "d < 10" if "digit_val c = Some d" for d
    using that by (auto simp: digit_val_def Let_def split: if_splits)
  ultimately show ?thesis
    by (force simp: Atoi_def split: option.splits)
qed

lemma digit_val_less: "digit_val c = Some d \<Longrightarrow> d < 10"
  by (auto simp: digit_val_def Let_def split: if_splits)

section \<open>Printing durations\<close>

text \<open>
  \<open>Duration.String\<close>, which \<open>%v\<close> prints: hours, minutes and seconds with a fraction, or a
  smaller unit below a second; trailing zeros of the fraction are dropped.
\<close>

definition fmtFrac :: "nat \<Rightarrow> nat \<Rightarrow> string" where
  "fmtFrac u prec =
     (let ds = nat_digits (u mod 10 ^ prec);
          padded = replicate (prec - length ds) (CHR ''0'') @ ds;
          kept = rev (dropWhile (\<lambda>c. c = CHR ''0'') (rev padded))
      in if kept = [] then [] else CHR ''.'' # kept)"

definition Duration_String :: "duration \<Rightarrow> string" where
  "Duration_String d =
     (let u = nat \<bar>sint d\<bar>;
          body =
            (if u = 0 then ''0s''
             else if u < 1000 then nat_digits u @ ''ns''
             else if u < 1000000 then nat_digits (u div 1000) @ fmtFrac u 3 @ [CHR 0xC2, CHR 0xB5] @ ''s''
             else if u < 1000000000 then nat_digits (u div 1000000) @ fmtFrac u 6 @ ''ms''
             else
               let secs = u div 1000000000; mins = secs div 60; hours = mins div 60;
                   s = nat_digits (secs mod 60) @ fmtFrac u 9 @ ''s'';
                   ms = (if mins = 0 then s else nat_digits (mins mod 60) @ ''m'' @ s)
               in if hours = 0 then ms else nat_digits hours @ ''h'' @ ms)
      in if sint d < 0 then CHR ''-'' # body else body)"

lemma Duration_String_examples:
  "Duration_String 10000000000 = ''10s''"
  "Duration_String 1500000000 = ''1.5s''"
  "Duration_String 3723000000000 = ''1h2m3s''"
  by (simp_all add: Duration_String_def fmtFrac_def nat_digits.simps digit_char_def char_of_def bit_0 Let_def)

section \<open>Quoting\<close>

text \<open>
  The verb \<open>%q\<close> of \<open>fmt\<close>, \<open>strconv.Quote\<close>, for strings of ASCII characters: quotes and
  backslashes are escaped, control characters written as escape sequences.
\<close>

definition hex_digit :: "nat \<Rightarrow> char" where
  "hex_digit d = (if d < 10 then char_of (48 + d) else char_of (87 + d))"

definition quote_char :: "char \<Rightarrow> string" where
  "quote_char c =
     (let n = of_char c :: nat; esc = (\<lambda>k. [CHR 0x5C, char_of k])
      in if n = 34 \<or> n = 92 then [CHR 0x5C, c]
         else if n = 7 then esc (97 :: nat) else if n = 8 then esc 98
         else if n = 9 then esc 116 else if n = 10 then esc 110
         else if n = 11 then esc 118 else if n = 12 then esc 102
         else if n = 13 then esc 114
         else if n < 32 \<or> n = 127
         then [CHR 0x5C, CHR ''x'', hex_digit (n div 16), hex_digit (n mod 16)]
         else [c])"

definition Quote :: "string \<Rightarrow> string" where
  "Quote s = [CHR 0x22] @ concat (map quote_char s) @ [CHR 0x22]"

lemma Quote_example: "Quote ''pod1'' = [CHR 0x22] @ ''pod1'' @ [CHR 0x22]"
  by (simp add: Quote_def quote_char_def)

end
