(* ===== verification/Framework.thy ===== *)
theory Framework
  imports Go_Std
begin

text \<open>
  The interface of the Kubernetes libraries as the program uses it.  Their code is not part
  of the repository, so their structs are records of the fields the program reads, their
  functions are the fields of \<open>framework\<close>, a parameter of every definition that
  calls one, and what their documentation says of them is \<open>framework_laws\<close>, a named
  hypothesis of the properties that depend on it.  Plugins are values of the framework's
  plugin interfaces, so the definitions that run plugins take them as arguments too.
\<close>

section \<open>API objects\<close>

record pod =
  podName :: string
  podNamespace :: string
  podUID :: string
  podNodeName :: string   \<comment> \<open>\<open>Spec.NodeName\<close>\<close>

record node =
  nodeName :: string
  nodeUnschedulable :: bool   \<comment> \<open>\<open>Spec.Unschedulable\<close>\<close>

record node_info =
  Node :: node   \<comment> \<open>what \<open>SetNode\<close> stored and \<open>Node()\<close> returns\<close>

text \<open>
  \<open>sets.String\<close>, a Go map from strings to the empty struct: the list of its keys, in the
  order in which the next \<open>range\<close> visits them.
\<close>

type_synonym string_set = "string list"

record diagnosis =
  diagUnschedulablePlugins :: string_set

datatype goerror =
    FitError pod diagnosis       \<comment> \<open>\<open>*framework.FitError\<close>\<close>
  | Errorf string "string list" "goerror option"
      \<comment> \<open>\<open>fmt.Errorf\<close>: the format, its string arguments, the error it wraps\<close>
  | ErrorString string           \<comment> \<open>a message\<close>
  | ExtError string              \<comment> \<open>an error of code outside the repository\<close>

text \<open>The error that \<open>errors/errors.go\<close> declares; nothing in the repository returns it.\<close>

definition ErrNotFound :: goerror where
  "ErrNotFound = ErrorString ''resource not found''"

datatype code = Success | Unschedulable | Wait | OtherCode int

record cluster_event =
  Resource :: string
  ActionType :: int64
  Label :: string

record node_score =
  nsName :: string
  nsScore :: int64

record queued_pod_info =
  Pod :: pod
  Timestamp :: time
  Attempts :: int
  InitialAttemptTimestamp :: time
  UnschedulablePlugins :: string_set

datatype state_data = PreScoreState int | ForeignData nat

section \<open>The functions of the framework\<close>

text \<open>
  \<open>'s\<close> is the type of a \<open>framework.Status\<close> and \<open>'c\<close> the type of a
  \<open>framework.CycleState\<close>.  A \<open>*Status\<close> may be nil: \<open>None\<close>.
\<close>

record ('s, 'c) framework =
  Code :: "'s option \<Rightarrow> code"
  IsSuccess :: "'s option \<Rightarrow> bool"
  IsUnschedulable :: "'s option \<Rightarrow> bool"
  Message :: "'s option \<Rightarrow> string"
  FailedPlugin :: "'s option \<Rightarrow> string"
  AsError :: "'s option \<Rightarrow> goerror option"
  NewStatus :: "code \<Rightarrow> string \<Rightarrow> 's"
  AsStatus :: "goerror option \<Rightarrow> 's"
  WithFailedPlugin :: "'s \<Rightarrow> string \<Rightarrow> 's"   \<comment> \<open>also \<open>SetFailedPlugin\<close>\<close>
  NewCycleState :: 'c
  stateRead :: "'c \<Rightarrow> string \<Rightarrow> goerror + state_data"
  stateWrite :: "'c \<Rightarrow> string \<Rightarrow> state_data \<Rightarrow> 'c"
  IsWildCard :: "cluster_event \<Rightarrow> bool"
  NodeGVK :: string
  ActionAdd :: int64
  ActionUpdate :: int64
  ActionDelete :: int64
  setsNewString :: "string list \<Rightarrow> string_set"
  setsInsert :: "string_set \<Rightarrow> string \<Rightarrow> string_set"
  setsHas :: "string_set \<Rightarrow> string \<Rightarrow> bool"

text \<open>
  What the libraries document: a nil status is a success; \<open>IsSuccess\<close> is "the code is
  Success"; an unschedulable status is neither a success nor a wait; the constructors set
  what they are given; a value written to a cycle state is read back and a new one is
  empty; the action types are distinct bits; \<open>sets.String\<close> is a set.
\<close>

definition status_laws :: "('s, 'c) framework \<Rightarrow> bool" where
  "status_laws fw \<longleftrightarrow>
     Code fw None = Success \<and>
     (\<forall>st. IsSuccess fw st \<longleftrightarrow> Code fw st = Success) \<and>
     (\<forall>st. Code fw st = Unschedulable \<longrightarrow> IsUnschedulable fw st) \<and>
     (\<forall>st. IsUnschedulable fw st \<longrightarrow> Code fw st \<noteq> Success \<and> Code fw st \<noteq> Wait) \<and>
     (\<forall>c m. Code fw (Some (NewStatus fw c m)) = c) \<and>
     (\<forall>c m. Message fw (Some (NewStatus fw c m)) = m) \<and>
     (\<forall>e. \<exists>i. Code fw (Some (AsStatus fw e)) = OtherCode i \<and>
        \<not> IsUnschedulable fw (Some (AsStatus fw e))) \<and>
     (\<forall>s p. Code fw (Some (WithFailedPlugin fw s p)) = Code fw (Some s)) \<and>
     (\<forall>s p. IsUnschedulable fw (Some (WithFailedPlugin fw s p)) = IsUnschedulable fw (Some s)) \<and>
     (\<forall>s p. Message fw (Some (WithFailedPlugin fw s p)) = Message fw (Some s)) \<and>
     (\<forall>s p. FailedPlugin fw (Some (WithFailedPlugin fw s p)) = p)"

definition cycle_laws :: "('s, 'c) framework \<Rightarrow> bool" where
  "cycle_laws fw \<longleftrightarrow>
     (\<forall>k. \<exists>e. stateRead fw (NewCycleState fw) k = Inl e) \<and>
     (\<forall>c k v. stateRead fw (stateWrite fw c k v) k = Inr v)"

definition event_laws :: "('s, 'c) framework \<Rightarrow> bool" where
  "event_laws fw \<longleftrightarrow>
     ActionAdd fw \<noteq> 0 \<and> ActionUpdate fw \<noteq> 0 \<and> ActionDelete fw \<noteq> 0 \<and>
     and (ActionAdd fw) (ActionUpdate fw) = 0 \<and> and (ActionAdd fw) (ActionDelete fw) = 0 \<and>
     and (ActionUpdate fw) (ActionDelete fw) = 0 \<and>
     (\<forall>e. IsWildCard fw e \<longrightarrow> Resource e \<noteq> NodeGVK fw)"

definition sets_laws :: "('s, 'c) framework \<Rightarrow> bool" where
  "sets_laws fw \<longleftrightarrow>
     (\<forall>vs. set (setsNewString fw vs) = set vs \<and> distinct (setsNewString fw vs)) \<and>
     (\<forall>x v. set (setsInsert fw x v) = insert v (set x)) \<and>
     (\<forall>x v. distinct x \<longrightarrow> distinct (setsInsert fw x v)) \<and>
     (\<forall>x v. setsHas fw x v \<longleftrightarrow> v \<in> set x)"

definition framework_laws :: "('s, 'c) framework \<Rightarrow> bool" where
  "framework_laws fw \<longleftrightarrow> status_laws fw \<and> cycle_laws fw \<and> event_laws fw \<and> sets_laws fw"

lemma status_laws_simps [fw_simps]:
  assumes "status_laws fw"
  shows "Code fw None = Success"
    and "IsSuccess fw st \<longleftrightarrow> Code fw st = Success"
    and "Code fw (Some (NewStatus fw c m)) = c"
    and "Message fw (Some (NewStatus fw c m)) = m"
    and "Code fw (Some (WithFailedPlugin fw s p)) = Code fw (Some s)"
    and "IsUnschedulable fw (Some (WithFailedPlugin fw s p)) = IsUnschedulable fw (Some s)"
    and "Message fw (Some (WithFailedPlugin fw s p)) = Message fw (Some s)"
    and "FailedPlugin fw (Some (WithFailedPlugin fw s p)) = p"
    and "Code fw (Some (AsStatus fw e)) \<noteq> Success"
    and "Code fw (Some (AsStatus fw e)) \<noteq> Wait"
    and "Code fw (Some (AsStatus fw e)) \<noteq> Unschedulable"
    and "\<not> IsUnschedulable fw (Some (AsStatus fw e))"
proof -
  have ex: "\<exists>i. Code fw (Some (AsStatus fw e)) = OtherCode i \<and>
      \<not> IsUnschedulable fw (Some (AsStatus fw e))"
    using assms unfolding status_laws_def by blast
  then show "Code fw (Some (AsStatus fw e)) \<noteq> Success" "Code fw (Some (AsStatus fw e)) \<noteq> Wait"
    "Code fw (Some (AsStatus fw e)) \<noteq> Unschedulable" "\<not> IsUnschedulable fw (Some (AsStatus fw e))"
    by auto
qed (use assms in \<open>simp_all add: status_laws_def\<close>)

lemma IsUnschedulable_code:
  "status_laws fw \<Longrightarrow> IsUnschedulable fw st \<Longrightarrow> Code fw st \<noteq> Success \<and> Code fw st \<noteq> Wait"
  by (simp add: status_laws_def)

lemma Unschedulable_IsUnschedulable:
  "status_laws fw \<Longrightarrow> Code fw st = Unschedulable \<Longrightarrow> IsUnschedulable fw st"
  by (simp add: status_laws_def)

lemma cycle_laws_simps [fw_simps]:
  assumes "cycle_laws fw"
  shows "stateRead fw (stateWrite fw c k v) k = Inr v"
    and "stateRead fw (NewCycleState fw) k \<noteq> Inr v"
proof -
  have "\<exists>e. stateRead fw (NewCycleState fw) k = Inl e"
    using assms unfolding cycle_laws_def by blast
  then show "stateRead fw (NewCycleState fw) k \<noteq> Inr v" by auto
qed (use assms in \<open>simp add: cycle_laws_def\<close>)

lemma sets_laws_simps [fw_simps]:
  assumes "sets_laws fw"
  shows "set (setsNewString fw vs) = set vs" and "distinct (setsNewString fw vs)"
    and "set (setsInsert fw x v) = insert v (set x)"
    and "distinct x \<Longrightarrow> distinct (setsInsert fw x v)"
    and "setsHas fw x v \<longleftrightarrow> v \<in> set x"
  using assms by (simp_all add: sets_laws_def)

lemma setsNewString_Nil [fw_simps]: "sets_laws fw \<Longrightarrow> setsNewString fw [] = []"
  using sets_laws_simps(1) [of fw "[]"] by simp

lemma framework_lawsD:
  assumes "framework_laws fw"
  shows "status_laws fw" and "cycle_laws fw" and "event_laws fw" and "sets_laws fw"
  using assms by (simp_all add: framework_laws_def)

section \<open>Plugins\<close>

text \<open>
  A plugin is its name and the method of the extension point.  \<open>'w\<close> is what plugins may
  change: the cycle state they share and whatever else they write (the timers they arm).
\<close>

record ('w, 's) filter_plugin =
  filterName :: string
  Filter :: "pod \<Rightarrow> node_info \<Rightarrow> ('w, 's option) go"

record ('w, 's) pre_score_plugin =
  preScoreName :: string
  PreScore :: "pod \<Rightarrow> node list \<Rightarrow> ('w, 's option) go"

record ('w, 's) score_plugin =
  scoreName :: string
  Score :: "pod \<Rightarrow> string \<Rightarrow> ('w, int64 \<times> 's option) go"
  ScoreExtensions :: "(pod \<Rightarrow> node_score list \<Rightarrow> ('w, node_score list \<times> 's option) go) option"

record ('w, 's) permit_plugin =
  permitName :: string
  Permit :: "pod \<Rightarrow> string \<Rightarrow> ('w, 's option \<times> duration) go"

section \<open>An instance of the framework\<close>

text \<open>
  A concrete framework that satisfies the laws, at which the properties are evaluated.
\<close>

record sample_status =
  smpCode :: code
  smpMessage :: string
  smpPlugin :: string
  smpErr :: "goerror option"

definition sample_pod :: "string \<Rightarrow> pod" where
  "sample_pod name =
     \<lparr>podName = name, podNamespace = ''default'', podUID = name, podNodeName = []\<rparr>"

definition sample_framework :: "(sample_status, string \<rightharpoonup> state_data) framework" where
  "sample_framework =
     \<lparr>Code = (\<lambda>st. case st of None \<Rightarrow> Success | Some s \<Rightarrow> smpCode s),
      IsSuccess = (\<lambda>st. (case st of None \<Rightarrow> Success | Some s \<Rightarrow> smpCode s) = Success),
      IsUnschedulable =
        (\<lambda>st. (case st of None \<Rightarrow> Success | Some s \<Rightarrow> smpCode s) = Unschedulable),
      Message = (\<lambda>st. case st of None \<Rightarrow> [] | Some s \<Rightarrow> smpMessage s),
      FailedPlugin = (\<lambda>st. case st of None \<Rightarrow> [] | Some s \<Rightarrow> smpPlugin s),
      AsError = (\<lambda>st. case st of None \<Rightarrow> None
         | Some s \<Rightarrow> if smpCode s = Success then None
                     else if smpErr s = None then Some (ExtError (smpMessage s)) else smpErr s),
      NewStatus = (\<lambda>c m. \<lparr>smpCode = c, smpMessage = m, smpPlugin = [], smpErr = None\<rparr>),
      AsStatus = (\<lambda>e. \<lparr>smpCode = OtherCode 1, smpMessage = [], smpPlugin = [], smpErr = e\<rparr>),
      WithFailedPlugin = (\<lambda>s p. s\<lparr>smpPlugin := p\<rparr>),
      NewCycleState = Map.empty,
      stateRead = (\<lambda>c k. case c k of None \<Rightarrow> Inl (ExtError ''not found'') | Some v \<Rightarrow> Inr v),
      stateWrite = (\<lambda>c k v. c(k \<mapsto> v)),
      IsWildCard = (\<lambda>e. Resource e = ''*'' \<and> ActionType e = 7),
      NodeGVK = ''Node'',
      ActionAdd = 1,
      ActionUpdate = 4,
      ActionDelete = 2,
      setsNewString = remdups,
      setsInsert = (\<lambda>x v. if v \<in> set x then x else x @ [v]),
      setsHas = (\<lambda>x v. v \<in> set x)\<rparr>"

lemma sample_framework_laws: "framework_laws sample_framework"
proof -
  have "status_laws sample_framework"
    by (auto simp: status_laws_def sample_framework_def split: option.splits)
  moreover have "cycle_laws sample_framework"
    by (simp add: cycle_laws_def sample_framework_def)
  moreover have "event_laws sample_framework"
    by (simp add: event_laws_def sample_framework_def)
  moreover have "sets_laws sample_framework"
    by (auto simp: sets_laws_def sample_framework_def)
  ultimately show ?thesis
    by (simp add: framework_laws_def)
qed

lemma sample_sel [simp]:
  "Code sample_framework st = (case st of None \<Rightarrow> Success | Some s \<Rightarrow> smpCode s)"
  "IsSuccess sample_framework st \<longleftrightarrow> Code sample_framework st = Success"
  "IsUnschedulable sample_framework st \<longleftrightarrow> Code sample_framework st = Unschedulable"
  "NewStatus sample_framework c m =
     \<lparr>smpCode = c, smpMessage = m, smpPlugin = [], smpErr = None\<rparr>"
  "AsStatus sample_framework e =
     \<lparr>smpCode = OtherCode 1, smpMessage = [], smpPlugin = [], smpErr = e\<rparr>"
  "WithFailedPlugin sample_framework s p = s\<lparr>smpPlugin := p\<rparr>"
  "FailedPlugin sample_framework st = (case st of None \<Rightarrow> [] | Some s \<Rightarrow> smpPlugin s)"
  "Message sample_framework st = (case st of None \<Rightarrow> [] | Some s \<Rightarrow> smpMessage s)"
  "AsError sample_framework st = (case st of None \<Rightarrow> None
     | Some s \<Rightarrow> if smpCode s = Success then None
                 else if smpErr s = None then Some (ExtError (smpMessage s)) else smpErr s)"
  "NewCycleState sample_framework = Map.empty"
  "stateRead sample_framework cs k =
     (case cs k of None \<Rightarrow> Inl (ExtError ''not found'') | Some v \<Rightarrow> Inr v)"
  "stateWrite sample_framework cs k v = cs(k \<mapsto> v)"
  "IsWildCard sample_framework evt \<longleftrightarrow> Resource evt = ''*'' \<and> ActionType evt = 7"
  "NodeGVK sample_framework = ''Node''"
  "ActionAdd sample_framework = 1"
  "ActionUpdate sample_framework = 4"
  "ActionDelete sample_framework = 2"
  "setsNewString sample_framework = remdups"
  "setsInsert sample_framework x y = (if y \<in> set x then x else x @ [y])"
  "setsHas sample_framework x y \<longleftrightarrow> y \<in> set x"
  by (simp_all add: sample_framework_def)

lemmas sample_laws = framework_lawsD [OF sample_framework_laws]

end
