(* ===== verification/Queue_Contract.thy ===== *)
theory Queue_Contract
  imports Framework
begin

text \<open>
  The contract between the scheduler and its queue.  A queue hands out the pods that are
  ready in the order they became ready (\<open>next_pod\<close>), and holds the others: \<open>park\<close> puts a
  pod that could not be scheduled among the held ones, and \<open>move\<close> makes some of the held
  pods ready.  The locale states the laws of these operations, and proves of every run of
  them that pods come out in the order they became ready and that none is lost or
  duplicated.
\<close>

datatype ('i, 'j, 'm) queue_op = OpAdd 'i pod | OpNext | OpPark 'j | OpMove 'm

text \<open>
  A run of operations, with the pods handed out in order.  \<open>next_pod\<close> gives \<open>None\<close> while
  no pod is ready; then the caller waits and nothing changes.
\<close>

fun run_ops ::
    "('i \<Rightarrow> pod \<Rightarrow> 'q \<Rightarrow> 'q) \<Rightarrow> ('q \<Rightarrow> (pod \<times> 'q) option) \<Rightarrow> ('j \<Rightarrow> 'q \<Rightarrow> 'q) \<Rightarrow> ('m \<Rightarrow> 'q \<Rightarrow> 'q)
       \<Rightarrow> ('i, 'j, 'm) queue_op list \<Rightarrow> 'q \<Rightarrow> pod list \<times> 'q" where
  "run_ops add next park move [] q = ([], q)"
| "run_ops add next park move (OpAdd i p # ops) q = run_ops add next park move ops (add i p q)"
| "run_ops add next park move (OpNext # ops) q =
     (case next q of
        None \<Rightarrow> run_ops add next park move ops q
      | Some (p, q') \<Rightarrow>
          let (ps, q'') = run_ops add next park move ops q' in (p # ps, q''))"
| "run_ops add next park move (OpPark j # ops) q = run_ops add next park move ops (park j q)"
| "run_ops add next park move (OpMove m # ops) q = run_ops add next park move ops (move m q)"

text \<open>
  \<open>good j q\<close>: parking \<open>j\<close> overwrites no pod of the queue; \<open>good_move m q\<close>: the order in
  \<open>m\<close> is one in which \<open>range\<close> may visit the held pods.  Both at every step of a run:
\<close>

fun run_ok ::
    "('i \<Rightarrow> pod \<Rightarrow> 'q \<Rightarrow> 'q) \<Rightarrow> ('q \<Rightarrow> (pod \<times> 'q) option) \<Rightarrow> ('j \<Rightarrow> 'q \<Rightarrow> 'q) \<Rightarrow> ('m \<Rightarrow> 'q \<Rightarrow> 'q)
       \<Rightarrow> ('j \<Rightarrow> 'q \<Rightarrow> bool) \<Rightarrow> ('m \<Rightarrow> 'q \<Rightarrow> bool)
       \<Rightarrow> ('i, 'j, 'm) queue_op list \<Rightarrow> 'q \<Rightarrow> bool" where
  "run_ok add next park move good good_move [] q = True"
| "run_ok add next park move good good_move (OpAdd i p # ops) q =
     run_ok add next park move good good_move ops (add i p q)"
| "run_ok add next park move good good_move (OpNext # ops) q =
     (case next q of
        None \<Rightarrow> run_ok add next park move good good_move ops q
      | Some (p, q') \<Rightarrow> run_ok add next park move good good_move ops q')"
| "run_ok add next park move good good_move (OpPark j # ops) q =
     (good j q \<and> run_ok add next park move good good_move ops (park j q))"
| "run_ok add next park move good good_move (OpMove m # ops) q =
     (good_move m q \<and> run_ok add next park move good good_move ops (move m q))"

text \<open>The pods that a run puts into the queue.\<close>

fun run_added :: "('j \<Rightarrow> pod) \<Rightarrow> ('i, 'j, 'm) queue_op list \<Rightarrow> pod list" where
  "run_added pod_of [] = []"
| "run_added pod_of (OpAdd i p # ops) = p # run_added pod_of ops"
| "run_added pod_of (OpNext # ops) = run_added pod_of ops"
| "run_added pod_of (OpPark j # ops) = pod_of j # run_added pod_of ops"
| "run_added pod_of (OpMove m # ops) = run_added pod_of ops"

text \<open>
  The pods that a run makes ready, in order: \<open>moved m q\<close> are those that \<open>m\<close> makes ready in \<open>q\<close>.
\<close>

fun run_activated ::
    "('i \<Rightarrow> pod \<Rightarrow> 'q \<Rightarrow> 'q) \<Rightarrow> ('q \<Rightarrow> (pod \<times> 'q) option) \<Rightarrow> ('j \<Rightarrow> 'q \<Rightarrow> 'q) \<Rightarrow> ('m \<Rightarrow> 'q \<Rightarrow> 'q)
       \<Rightarrow> ('m \<Rightarrow> 'q \<Rightarrow> pod list) \<Rightarrow> ('i, 'j, 'm) queue_op list \<Rightarrow> 'q \<Rightarrow> pod list" where
  "run_activated add next park move moved [] q = []"
| "run_activated add next park move moved (OpAdd i p # ops) q =
     p # run_activated add next park move moved ops (add i p q)"
| "run_activated add next park move moved (OpNext # ops) q =
     run_activated add next park move moved ops (case next q of None \<Rightarrow> q | Some (p, q') \<Rightarrow> q')"
| "run_activated add next park move moved (OpPark j # ops) q =
     run_activated add next park move moved ops (park j q)"
| "run_activated add next park move moved (OpMove m # ops) q =
     moved m q @ run_activated add next park move moved ops (move m q)"

locale pod_queue =
  fixes add :: "'i \<Rightarrow> pod \<Rightarrow> 'q \<Rightarrow> 'q"
    and next_pod :: "'q \<Rightarrow> (pod \<times> 'q) option"
    and park :: "'j \<Rightarrow> 'q \<Rightarrow> 'q"
    and move :: "'m \<Rightarrow> 'q \<Rightarrow> 'q"
    and ready :: "'q \<Rightarrow> pod list"
    and held :: "'q \<Rightarrow> pod multiset"
    and pod_of :: "'j \<Rightarrow> pod"
    and good :: "'j \<Rightarrow> 'q \<Rightarrow> bool"
    and good_move :: "'m \<Rightarrow> 'q \<Rightarrow> bool"
    and moved :: "'m \<Rightarrow> 'q \<Rightarrow> pod list"
    and inv :: "'q \<Rightarrow> bool"
  assumes ready_add: "ready (add i p q) = ready q @ [p]"
    and held_add: "held (add i p q) = held q"
    and inv_add: "inv q \<Longrightarrow> inv (add i p q)"
    and next_None: "next_pod q = None \<longleftrightarrow> ready q = []"
    and next_Some: "next_pod q = Some (p, q') \<Longrightarrow>
          ready q = p # ready q' \<and> held q' = held q \<and> (inv q \<longrightarrow> inv q')"
    and ready_park: "ready (park j q) = ready q"
    and held_park: "inv q \<Longrightarrow> good j q \<Longrightarrow> held (park j q) = add_mset (pod_of j) (held q)"
    and inv_park: "inv q \<Longrightarrow> inv (park j q)"
    and ready_move: "inv q \<Longrightarrow> good_move m q \<Longrightarrow> ready (move m q) = ready q @ moved m q"
    and held_move: "inv q \<Longrightarrow> good_move m q \<Longrightarrow> mset (moved m q) + held (move m q) = held q"
    and inv_move: "inv q \<Longrightarrow> good_move m q \<Longrightarrow> inv (move m q)"
begin

lemma contents_move:
  assumes "inv q" and "good_move m q"
  shows "mset (ready (move m q)) + held (move m q) = mset (ready q) + held q"
  using held_move [OF assms] by (simp add: ready_move [OF assms] add.assoc)

text \<open>
  One step of a run, as an elimination rule over the kind of the operation: what the run of
  \<open>op # ops\<close> is in terms of the run of \<open>ops\<close> from the next state.
\<close>

lemma run_next_cases:
  obtains (idle) "next_pod q = None" and "ready q = []"
  | (pod) p q' where "next_pod q = Some (p, q')" and "ready q = p # ready q'"
      and "held q' = held q" and "inv q \<Longrightarrow> inv q'"
proof (cases "next_pod q")
  case None
  then show ?thesis using idle next_None by simp
next
  case (Some x)
  obtain p q' where "x = (p, q')" by (cases x)
  with Some show ?thesis using pod next_Some by blast
qed

lemma run_inv:
  assumes "inv q" and "run_ok add next_pod park move good good_move ops q"
  shows "inv (snd (run_ops add next_pod park move ops q))"
  using assms
proof (induction ops arbitrary: q)
  case (Cons op ops)
  show ?case
  proof (cases op)
    case OpNext
    then show ?thesis
      by (cases q rule: run_next_cases) (use Cons in \<open>simp_all add: split_beta\<close>)
  qed (use Cons in \<open>simp_all add: inv_add inv_park inv_move\<close>)
qed simp

text \<open>Pods come out in the order in which they became ready.\<close>

lemma run_fifo:
  assumes "inv q" and "run_ok add next_pod park move good good_move ops q"
  shows "fst (run_ops add next_pod park move ops q) @
           ready (snd (run_ops add next_pod park move ops q)) =
         ready q @ run_activated add next_pod park move moved ops q"
  using assms
proof (induction ops arbitrary: q)
  case (Cons op ops)
  show ?case
  proof (cases op)
    case (OpAdd i p)
    with Cons.IH [of "add i p q"] Cons.prems show ?thesis
      by (auto simp: inv_add ready_add)
  next
    case OpNext
    show ?thesis
    proof (cases q rule: run_next_cases)
      case idle
      with Cons OpNext show ?thesis by simp
    next
      case (pod p q')
      with Cons.IH [of q'] Cons.prems OpNext show ?thesis by (simp add: split_beta)
    qed
  next
    case (OpPark j)
    with Cons.IH [of "park j q"] Cons.prems show ?thesis
      by (auto simp: inv_park ready_park)
  next
    case (OpMove m)
    with Cons.IH [of "move m q"] Cons.prems show ?thesis
      by (simp add: inv_move ready_move)
  qed
qed simp

text \<open>No pod is lost and none is duplicated.\<close>

lemma run_conserves:
  assumes "inv q" and "run_ok add next_pod park move good good_move ops q"
  shows "mset (fst (run_ops add next_pod park move ops q)) +
           (mset (ready (snd (run_ops add next_pod park move ops q))) +
            held (snd (run_ops add next_pod park move ops q))) =
         mset (ready q) + held q + mset (run_added pod_of ops)"
  using assms
proof (induction ops arbitrary: q)
  case (Cons op ops)
  show ?case
  proof (cases op)
    case (OpAdd i p)
    with Cons show ?thesis by (simp add: inv_add ready_add held_add)
  next
    case OpNext
    show ?thesis
      by (cases q rule: run_next_cases) (use Cons OpNext in \<open>simp_all add: split_beta\<close>)
  next
    case (OpPark j)
    with Cons show ?thesis by (simp add: inv_park ready_park held_park)
  next
    case (OpMove m)
    with Cons show ?thesis by (simp add: inv_move contents_move)
  qed
qed simp

end

end
