(* ===== verification/Scheduling_Queue.thy ===== *)
theory Scheduling_Queue
  imports Queue_Contract
begin

text \<open>
  The scheduling queue, \<open>minisched/queue/queue.go\<close>: an active FIFO queue, a backoff queue
  and a map of unschedulable pods.  The operations take the readings of \<open>time.Now()\<close> and
  the visiting orders of \<open>range\<close> as arguments.  The contract that the scheduler relies on
  is the locale \<open>pod_queue\<close>, interpreted here on the model of the code.
\<close>

section \<open>State\<close>

text \<open>
  \<open>clusterEventMap\<close> is only read after \<open>New\<close>; it is the association list of the map, in
  the order in which \<open>range\<close> visits it.
\<close>

record sched_queue =
  activeQ :: "queued_pod_info list"
  podBackoffQ :: "queued_pod_info list"
  unschedulableQ :: "string \<rightharpoonup> queued_pod_info"
  clusterEventMap :: "(cluster_event \<times> string_set) list"

definition queue_New :: "(cluster_event \<times> string_set) list \<Rightarrow> sched_queue" where
  "queue_New evm =
     \<lparr>activeQ = [], podBackoffQ = [], unschedulableQ = Map.empty, clusterEventMap = evm\<rparr>"

section \<open>Utilities\<close>

definition keyFunc :: "queued_pod_info \<Rightarrow> string" where
  "keyFunc pInfo = podName (Pod pInfo) @ ''_'' @ podNamespace (Pod pInfo)"

text \<open>
  The key of a pod is its name and namespace around an underscore.  Kubernetes allows no
  underscore in a namespace, and then the key determines both.
\<close>

definition pod_key :: "string \<Rightarrow> string \<Rightarrow> string" where
  "pod_key name namespace = name @ ''_'' @ namespace"

lemma keyFunc_pod_key: "keyFunc p = pod_key (podName (Pod p)) (podNamespace (Pod p))"
  by (simp add: keyFunc_def pod_key_def)

interpretation pk: pair_key pod_key "\<lambda>name namespace. CHR ''_'' \<notin> set namespace"
proof (unfold_locales, goal_cases)
  case (1 a b a' b')
  then show ?case
    using append_sep_inject_last [of a "CHR ''_''" b a' b'] by (simp add: pod_key_def)
qed

definition newQueuedPodInfo ::
    "('s, 'c) framework \<Rightarrow> time \<Rightarrow> pod \<Rightarrow> string list \<Rightarrow> queued_pod_info" where
  "newQueuedPodInfo fw now pod unschedulableplugins =
     \<lparr>Pod = pod, Timestamp = now, Attempts = 0, InitialAttemptTimestamp = now,
      UnschedulablePlugins = setsNewString fw unschedulableplugins\<rparr>"

fun intersect_loop :: "('s, 'c) framework \<Rightarrow> string_set \<Rightarrow> string_set \<Rightarrow> bool" where
  "intersect_loop fw [] y = False"
| "intersect_loop fw (v # x) y = (if setsHas fw y v then True else intersect_loop fw x y)"

definition intersect :: "('s, 'c) framework \<Rightarrow> string_set \<Rightarrow> string_set \<Rightarrow> bool" where
  "intersect fw x y =
     (let (x, y) = (if length y < length x then (y, x) else (x, y)) in intersect_loop fw x y)"

definition evtMatch :: "('s, 'c) framework \<Rightarrow> cluster_event \<Rightarrow> cluster_event \<Rightarrow> bool" where
  "evtMatch fw evt clusterEvent \<longleftrightarrow>
     IsWildCard fw evt \<or>
     (Resource evt = Resource clusterEvent \<and> and (ActionType evt) (ActionType clusterEvent) \<noteq> 0)"

fun podMatchesEvent_loop ::
    "('s, 'c) framework \<Rightarrow> queued_pod_info \<Rightarrow> cluster_event
       \<Rightarrow> (cluster_event \<times> string_set) list \<Rightarrow> bool" where
  "podMatchesEvent_loop fw podInfo clusterEvent [] = False"
| "podMatchesEvent_loop fw podInfo clusterEvent ((evt, nameSet) # evm) =
     (if evtMatch fw evt clusterEvent \<and> intersect fw nameSet (UnschedulablePlugins podInfo) then True
      else podMatchesEvent_loop fw podInfo clusterEvent evm)"

definition podMatchesEvent ::
    "('s, 'c) framework \<Rightarrow> sched_queue \<Rightarrow> queued_pod_info \<Rightarrow> cluster_event \<Rightarrow> bool" where
  "podMatchesEvent fw s podInfo clusterEvent =
     (if IsWildCard fw clusterEvent then True
      else podMatchesEvent_loop fw podInfo clusterEvent (clusterEventMap s))"

section \<open>Backoff\<close>

definition podInitialBackoffDuration :: duration where
  "podInitialBackoffDuration = 1 * Second"

definition podMaxBackoffDuration :: duration where
  "podMaxBackoffDuration = 10 * Second"

text \<open>The \<open>for\<close> loop of \<open>calculateBackoffDuration\<close>; \<open>int64\<close> arithmetic wraps.\<close>

function backoff_loop :: "int \<Rightarrow> int \<Rightarrow> duration \<Rightarrow> duration" where
  "backoff_loop i attempts duration =
     (if i < attempts then
        if sint (podMaxBackoffDuration - duration) < sint duration then podMaxBackoffDuration
        else backoff_loop (i + 1) attempts (duration + duration)
      else duration)"
  by pat_completeness auto
termination
  by (relation "measure (\<lambda>(i, attempts, duration). nat (attempts - i))") auto

declare backoff_loop.simps [simp del]

definition calculateBackoffDuration :: "queued_pod_info \<Rightarrow> duration" where
  "calculateBackoffDuration podInfo = backoff_loop 1 (Attempts podInfo) podInitialBackoffDuration"

definition getBackoffTime :: "queued_pod_info \<Rightarrow> time" where
  "getBackoffTime podInfo = time_Add (Timestamp podInfo) (calculateBackoffDuration podInfo)"

definition isPodBackingoff :: "time \<Rightarrow> queued_pod_info \<Rightarrow> bool" where
  "isPodBackingoff now podInfo = time_After (getBackoffTime podInfo) now"

section \<open>Operations\<close>

definition queue_Add ::
    "('s, 'c) framework \<Rightarrow> time \<Rightarrow> pod \<Rightarrow> sched_queue \<Rightarrow> sched_queue" where
  "queue_Add fw now pod s = s\<lparr>activeQ := activeQ s @ [newQueuedPodInfo fw now pod []]\<rparr>"

text \<open>
  \<open>clk i\<close> is the reading of the clock in iteration \<open>i\<close>, if that iteration reads it.
\<close>

fun movePodsToActiveOrBackoffQueue ::
    "('s, 'c) framework \<Rightarrow> (nat \<Rightarrow> time) \<Rightarrow> queued_pod_info list \<Rightarrow> cluster_event
       \<Rightarrow> sched_queue \<Rightarrow> sched_queue" where
  "movePodsToActiveOrBackoffQueue fw clk [] event s = s"
| "movePodsToActiveOrBackoffQueue fw clk (pInfo # podInfoList) event s =
     (if length (UnschedulablePlugins pInfo) \<noteq> 0 \<and> \<not> podMatchesEvent fw s pInfo event
      then movePodsToActiveOrBackoffQueue fw (\<lambda>i. clk (Suc i)) podInfoList event s
      else
        let s1 = (if isPodBackingoff (clk 0) pInfo
                  then s\<lparr>podBackoffQ := podBackoffQ s @ [pInfo]\<rparr>
                  else s\<lparr>activeQ := activeQ s @ [pInfo]\<rparr>);
            s2 = s1\<lparr>unschedulableQ := (unschedulableQ s1)(keyFunc pInfo := None)\<rparr>
        in movePodsToActiveOrBackoffQueue fw (\<lambda>i. clk (Suc i)) podInfoList event s2)"

definition MoveAllToActiveOrBackoffQueue ::
    "('s, 'c) framework \<Rightarrow> (nat \<Rightarrow> time) \<Rightarrow> string list \<Rightarrow> cluster_event
       \<Rightarrow> sched_queue \<Rightarrow> sched_queue" where
  "MoveAllToActiveOrBackoffQueue fw clk order event s =
     (let unschedulablePods = range_values order (unschedulableQ s)
      in movePodsToActiveOrBackoffQueue fw clk unschedulablePods event s)"

text \<open>\<open>NextPod\<close> spins while the active queue is empty: \<open>None\<close>.\<close>

definition NextPod :: "sched_queue \<Rightarrow> (pod \<times> sched_queue) option" where
  "NextPod s = (case activeQ s of [] \<Rightarrow> None | p # rest \<Rightarrow> Some (Pod p, s\<lparr>activeQ := rest\<rparr>))"

definition AddUnschedulable :: "time \<Rightarrow> queued_pod_info \<Rightarrow> sched_queue \<Rightarrow> sched_queue" where
  "AddUnschedulable now pInfo s =
     (let pInfo = pInfo\<lparr>Timestamp := now\<rparr>
      in s\<lparr>unschedulableQ := (unschedulableQ s)(keyFunc pInfo \<mapsto> pInfo)\<rparr>)"

text \<open>The operations that are not implemented panic.\<close>

definition queue_Update :: "pod \<Rightarrow> pod \<Rightarrow> (sched_queue, goerror option) go" where
  "queue_Update oldPod newPod s = Inl (PanicMsg ''not implemented'')"

definition queue_Delete :: "pod \<Rightarrow> (sched_queue, goerror option) go" where
  "queue_Delete pod s = Inl (PanicMsg ''not implemented'')"

definition AssignedPodAdded :: "pod \<Rightarrow> (sched_queue, unit) go" where
  "AssignedPodAdded pod s = Inl (PanicMsg ''not implemented'')"

definition AssignedPodUpdated :: "pod \<Rightarrow> (sched_queue, unit) go" where
  "AssignedPodUpdated pod s = Inl (PanicMsg ''not implemented'')"

definition flushBackoffQCompleted :: "(sched_queue, unit) go" where
  "flushBackoffQCompleted s = Inl (PanicMsg ''note implemented'')"

definition flushUnschedulableQLeftover :: "(sched_queue, unit) go" where
  "flushUnschedulableQLeftover s = Inl (PanicMsg ''note implemented'')"


section \<open>Backoff durations\<close>

lemma sint_add_exact:
  fixes a b :: int64
  assumes "- (2 ^ 63) \<le> sint a + sint b" and "sint a + sint b < 2 ^ 63"
  shows "sint (a + b) = sint a + sint b"
  using assms by (simp add: sint_word_ariths signed_take_bit_int_eq_self)

lemma sint_diff_exact:
  fixes a b :: int64
  assumes "- (2 ^ 63) \<le> sint a - sint b" and "sint a - sint b < 2 ^ 63"
  shows "sint (a - b) = sint a - sint b"
  using assms by (simp add: sint_word_ariths signed_take_bit_int_eq_self)

lemma sint_podMax: "sint podMaxBackoffDuration = 10000000000"
  by (simp add: podMaxBackoffDuration_def Second_def)

lemma sint_podInitial: "sint podInitialBackoffDuration = 1000000000"
  by (simp add: podInitialBackoffDuration_def Second_def)

lemma sint_backoff_loop:
  assumes "0 < sint duration" and "sint duration \<le> 10000000000"
  shows "sint (backoff_loop i attempts duration) =
           min 10000000000 (sint duration * 2 ^ nat (attempts - i))"
  using assms
proof (induction i attempts duration rule: backoff_loop.induct)
  case (1 i attempts duration)
  let ?d = "sint duration"
  have diff: "sint (podMaxBackoffDuration - duration) = 10000000000 - ?d"
    using "1.prems" by (subst sint_diff_exact) (auto simp: sint_podMax)
  have dbl: "sint (duration + duration) = ?d + ?d"
    using "1.prems" by (subst sint_add_exact) auto
  show ?case
  proof (cases "i < attempts")
    case False
    then show ?thesis using "1.prems" by (simp add: backoff_loop.simps [of i])
  next
    case True
    then have pow: "(2::int) ^ nat (attempts - i) = 2 * 2 ^ nat (attempts - (i + 1))"
    proof -
      have "nat (attempts - i) = Suc (nat (attempts - (i + 1)))" using True by simp
      then show ?thesis by simp
    qed
    show ?thesis
    proof (cases "10000000000 - ?d < ?d")
      case big: True
      have "10000000000 \<le> (?d + ?d) * 1" using big by simp
      also have "\<dots> \<le> (?d + ?d) * 2 ^ nat (attempts - (i + 1))"
        using "1.prems" by (intro mult_left_mono) auto
      also have "\<dots> = ?d * 2 ^ nat (attempts - i)" by (simp add: pow algebra_simps)
      finally show ?thesis
        using True big diff by (simp add: backoff_loop.simps [of i] sint_podMax)
    next
      case False
      then have "sint (backoff_loop (i + 1) attempts (duration + duration)) =
          min 10000000000 ((?d + ?d) * 2 ^ nat (attempts - (i + 1)))"
        using "1.IH" "1.prems" True diff dbl by simp
      then show ?thesis
        using True False diff by (simp add: backoff_loop.simps [of i] pow algebra_simps)
    qed
  qed
qed

text \<open>
  C31: the backoff of a pod after \<open>n\<close> attempts is \<open>2 ^ (n - 1)\<close> seconds, at most ten
  seconds, and one second when there was no attempt: the doubling loop stops before the
  \<open>int64\<close> arithmetic can wrap, whatever the number of attempts.
\<close>

theorem calculateBackoffDuration_eq:
  "sint (calculateBackoffDuration p) =
     min 10000000000 (1000000000 * 2 ^ nat (Attempts p - 1))"
  by (simp add: calculateBackoffDuration_def sint_backoff_loop sint_podInitial)

lemma calculateBackoffDuration_ge: "1000000000 \<le> sint (calculateBackoffDuration p)"
proof -
  have "(1000000000::int) * 1 \<le> 1000000000 * 2 ^ nat (Attempts p - 1)"
    by (intro mult_left_mono) auto
  then show ?thesis
    by (simp add: calculateBackoffDuration_def sint_backoff_loop sint_podInitial)
qed

lemma isPodBackingoff_iff:
  "isPodBackingoff now p \<longleftrightarrow> now < Timestamp p + sint (calculateBackoffDuration p)"
  by (simp add: isPodBackingoff_def getBackoffTime_def time_Add_def time_After_def)

section \<open>Matching events\<close>

lemma intersect_loop_iff:
  "sets_laws fw \<Longrightarrow> intersect_loop fw x y \<longleftrightarrow> set x \<inter> set y \<noteq> {}"
  by (induction x) (auto simp: fw_simps)

lemma intersect_iff: "sets_laws fw \<Longrightarrow> intersect fw x y \<longleftrightarrow> set x \<inter> set y \<noteq> {}"
  by (auto simp: intersect_def intersect_loop_iff Int_commute)

lemma podMatchesEvent_loop_iff:
  assumes "sets_laws fw"
  shows "podMatchesEvent_loop fw p ev evm \<longleftrightarrow>
     (\<exists>evt names. (evt, names) \<in> set evm \<and> evtMatch fw evt ev \<and>
        set names \<inter> set (UnschedulablePlugins p) \<noteq> {})"
proof (induction evm)
  case (Cons x evm)
  obtain evt names where "x = (evt, names)" by (cases x)
  with Cons show ?case
    by (cases "evtMatch fw evt ev \<and> set names \<inter> set (UnschedulablePlugins p) \<noteq> {}")
       (auto simp: intersect_iff [OF assms] simp del: disjoint_iff)
qed simp

text \<open>
  A pod matches a cluster event exactly when the event is the wildcard or a plugin that
  failed the pod is registered for a compatible event; the order in which the registry and
  the plugin sets are visited, and the swap in \<open>intersect\<close>, do not matter.
\<close>

theorem podMatchesEvent_iff:
  assumes "sets_laws fw"
  shows "podMatchesEvent fw s p ev \<longleftrightarrow>
     IsWildCard fw ev \<or>
     (\<exists>evt names. (evt, names) \<in> set (clusterEventMap s) \<and>
        (IsWildCard fw evt \<or>
         (Resource evt = Resource ev \<and> and (ActionType evt) (ActionType ev) \<noteq> 0)) \<and>
        set names \<inter> set (UnschedulablePlugins p) \<noteq> {})"
  unfolding podMatchesEvent_def podMatchesEvent_loop_iff [OF assms] evtMatch_def by simp

theorem podMatchesEvent_iff_witness:
  "podMatchesEvent sample_framework
     (queue_New [(\<lparr>Resource = ''Node'', ActionType = 5, Label = []\<rparr>, [''A'', ''B''])])
     \<lparr>Pod = \<lparr>podName = ''p'', podNamespace = ''d'', podUID = ''u'', podNodeName = []\<rparr>,
      Timestamp = 0, Attempts = 0, InitialAttemptTimestamp = 0,
      UnschedulablePlugins = [''B'']\<rparr>
     \<lparr>Resource = ''Node'', ActionType = 1, Label = ''NodeAdd''\<rparr>"
  by (subst podMatchesEvent_iff [OF sample_laws(4)]) (simp add: queue_New_def)


section \<open>What the operations do\<close>

text \<open>
  The keys of the map are those of its values, and the map is finite.  This is what the
  operations keep true.
\<close>

definition queue_inv :: "sched_queue \<Rightarrow> bool" where
  "queue_inv s \<longleftrightarrow> finite (dom (unschedulableQ s)) \<and>
     (\<forall>k p. unschedulableQ s k = Some p \<longrightarrow> k = keyFunc p)"

definition movable ::
    "('s, 'c) framework \<Rightarrow> sched_queue \<Rightarrow> cluster_event \<Rightarrow> queued_pod_info \<Rightarrow> bool" where
  "movable fw s ev p \<longleftrightarrow> UnschedulablePlugins p = [] \<or> podMatchesEvent fw s p ev"

text \<open>The pods of the loop, each with the clock reading of its iteration.\<close>

primrec timed :: "(nat \<Rightarrow> time) \<Rightarrow> queued_pod_info list \<Rightarrow> (time \<times> queued_pod_info) list" where
  "timed clk [] = []"
| "timed clk (p # ps) = (clk 0, p) # timed (\<lambda>i. clk (Suc i)) ps"

lemma map_snd_timed: "map snd (timed clk ps) = ps"
  by (induction ps arbitrary: clk) simp_all

lemma keyFunc_Timestamp [simp]: "keyFunc (p\<lparr>Timestamp := t\<rparr>) = keyFunc p"
  by (simp add: keyFunc_def)

lemma queue_Add_sel [queue_simps]:
  "activeQ (queue_Add fw now p s) = activeQ s @ [newQueuedPodInfo fw now p []]"
  "podBackoffQ (queue_Add fw now p s) = podBackoffQ s"
  "unschedulableQ (queue_Add fw now p s) = unschedulableQ s"
  "clusterEventMap (queue_Add fw now p s) = clusterEventMap s"
  by (simp_all add: queue_Add_def)

lemma AddUnschedulable_sel [queue_simps]:
  "activeQ (AddUnschedulable now p s) = activeQ s"
  "podBackoffQ (AddUnschedulable now p s) = podBackoffQ s"
  "unschedulableQ (AddUnschedulable now p s) =
     (unschedulableQ s)(keyFunc p \<mapsto> p\<lparr>Timestamp := now\<rparr>)"
  "clusterEventMap (AddUnschedulable now p s) = clusterEventMap s"
  by (simp_all add: AddUnschedulable_def)

lemma movable_cong: "clusterEventMap s = clusterEventMap s' \<Longrightarrow> movable fw s = movable fw s'"
  by (intro ext) (simp add: movable_def podMatchesEvent_def)

text \<open>One iteration of the loop that moves pods.\<close>

definition move_one ::
    "('s, 'c) framework \<Rightarrow> time \<Rightarrow> cluster_event \<Rightarrow> queued_pod_info \<Rightarrow> sched_queue \<Rightarrow> sched_queue" where
  "move_one fw now ev p s =
     (if movable fw s ev p
      then s\<lparr>activeQ := activeQ s @ (if isPodBackingoff now p then [] else [p]),
             podBackoffQ := podBackoffQ s @ (if isPodBackingoff now p then [p] else []),
             unschedulableQ := (unschedulableQ s)(keyFunc p := None)\<rparr>
      else s)"

lemma movePods_Cons:
  "movePodsToActiveOrBackoffQueue fw clk (p # ps) ev s =
     movePodsToActiveOrBackoffQueue fw (\<lambda>i. clk (Suc i)) ps ev (move_one fw (clk 0) ev p s)"
  by (simp add: move_one_def movable_def Let_def)

lemma movePods_effect:
  "clusterEventMap (movePodsToActiveOrBackoffQueue fw clk ps ev s) = clusterEventMap s \<and>
   activeQ (movePodsToActiveOrBackoffQueue fw clk ps ev s) = activeQ s @
     map snd (filter (\<lambda>(t, p). movable fw s ev p \<and> \<not> isPodBackingoff t p) (timed clk ps)) \<and>
   podBackoffQ (movePodsToActiveOrBackoffQueue fw clk ps ev s) = podBackoffQ s @
     map snd (filter (\<lambda>(t, p). movable fw s ev p \<and> isPodBackingoff t p) (timed clk ps)) \<and>
   unschedulableQ (movePodsToActiveOrBackoffQueue fw clk ps ev s) =
     (\<lambda>k. if \<exists>p \<in> set ps. movable fw s ev p \<and> keyFunc p = k then None
          else unschedulableQ s k)"
proof (induction ps arbitrary: s clk)
  case (Cons p ps)
  have mv: "movable fw (move_one fw (clk 0) ev p s) = movable fw s"
    by (rule movable_cong) (simp add: move_one_def)
  show ?case
    unfolding movePods_Cons using Cons.IH [of "\<lambda>i. clk (Suc i)" "move_one fw (clk 0) ev p s"]
    unfolding mv by (auto simp: fun_eq_iff move_one_def)
qed simp

lemmas movePods_sel =
  movePods_effect [THEN conjunct1]
  movePods_effect [THEN conjunct2, THEN conjunct1]
  movePods_effect [THEN conjunct2, THEN conjunct2, THEN conjunct1]
  movePods_effect [THEN conjunct2, THEN conjunct2, THEN conjunct2]

lemma queue_inv_range_values:
  assumes "queue_inv s" and "range_order order (unschedulableQ s)"
  shows "(\<exists>p \<in> set (range_values order (unschedulableQ s)). P p \<and> keyFunc p = k) \<longleftrightarrow>
           (\<exists>p. unschedulableQ s k = Some p \<and> P p)"
proof -
  have "set (range_values order (unschedulableQ s)) = ran (unschedulableQ s)"
    by (rule set_range_values_ran [OF assms(2)])
  with assms(1) show ?thesis
    by (fastforce simp: queue_inv_def ran_def)
qed

lemma MoveAll_sel:
  assumes "queue_inv s" and "range_order order (unschedulableQ s)"
  shows "clusterEventMap (MoveAllToActiveOrBackoffQueue fw clk order ev s) = clusterEventMap s"
    and "activeQ (MoveAllToActiveOrBackoffQueue fw clk order ev s) = activeQ s @
           map snd (filter (\<lambda>(t, p). movable fw s ev p \<and> \<not> isPodBackingoff t p)
             (timed clk (range_values order (unschedulableQ s))))"
    and "podBackoffQ (MoveAllToActiveOrBackoffQueue fw clk order ev s) = podBackoffQ s @
           map snd (filter (\<lambda>(t, p). movable fw s ev p \<and> isPodBackingoff t p)
             (timed clk (range_values order (unschedulableQ s))))"
    and "unschedulableQ (MoveAllToActiveOrBackoffQueue fw clk order ev s) k =
           (case unschedulableQ s k of
              None \<Rightarrow> None
            | Some p \<Rightarrow> if movable fw s ev p then None else Some p)"
  unfolding MoveAllToActiveOrBackoffQueue_def Let_def movePods_sel
    queue_inv_range_values [OF assms]
  by (simp_all split: option.splits)

lemma queue_inv_New [queue_invs]: "queue_inv (queue_New evm)"
  by (simp add: queue_inv_def queue_New_def)

lemma queue_inv_Add [queue_invs]: "queue_inv s \<Longrightarrow> queue_inv (queue_Add fw now p s)"
  by (simp add: queue_inv_def queue_simps)

lemma queue_inv_NextPod [queue_invs]: "queue_inv s \<Longrightarrow> NextPod s = Some (p, s') \<Longrightarrow> queue_inv s'"
  by (auto simp: queue_inv_def NextPod_def split: list.splits)

lemma queue_inv_AddUnschedulable [queue_invs]:
  "queue_inv s \<Longrightarrow> queue_inv (AddUnschedulable now p s)"
  by (auto simp: queue_inv_def queue_simps)

lemma queue_inv_MoveAll [queue_invs]:
  assumes "queue_inv s" and "range_order order (unschedulableQ s)"
  shows "queue_inv (MoveAllToActiveOrBackoffQueue fw clk order ev s)"
proof -
  let ?u = "unschedulableQ (MoveAllToActiveOrBackoffQueue fw clk order ev s)"
  have sub: "unschedulableQ s k = Some p" if "?u k = Some p" for k p
    using that unfolding MoveAll_sel [OF assms] by (auto split: option.splits if_splits)
  then have "dom ?u \<subseteq> dom (unschedulableQ s)"
    by (auto simp: dom_def)
  with assms(1) show ?thesis
    unfolding queue_inv_def using sub by (meson rev_finite_subset)
qed

section \<open>The contract\<close>

definition ready_pods :: "sched_queue \<Rightarrow> pod list" where
  "ready_pods s = map Pod (activeQ s)"

definition held_pods :: "sched_queue \<Rightarrow> pod multiset" where
  "held_pods s = image_mset Pod (mset (podBackoffQ s) + map_values (unschedulableQ s))"

definition queue_park :: "time \<times> queued_pod_info \<Rightarrow> sched_queue \<Rightarrow> sched_queue" where
  "queue_park j = AddUnschedulable (fst j) (snd j)"

definition queue_move ::
    "('s, 'c) framework \<Rightarrow> (nat \<Rightarrow> time) \<times> string list \<times> cluster_event
       \<Rightarrow> sched_queue \<Rightarrow> sched_queue" where
  "queue_move fw m =
     MoveAllToActiveOrBackoffQueue fw (fst m) (fst (snd m)) (snd (snd m))"

definition park_fresh :: "time \<times> queued_pod_info \<Rightarrow> sched_queue \<Rightarrow> bool" where
  "park_fresh j s \<longleftrightarrow> unschedulableQ s (keyFunc (snd j)) = None"

definition move_order ::
    "(nat \<Rightarrow> time) \<times> string list \<times> cluster_event \<Rightarrow> sched_queue \<Rightarrow> bool" where
  "move_order m s \<longleftrightarrow> range_order (fst (snd m)) (unschedulableQ s)"

text \<open>The pods that an event moves to the active queue, in the order of the \<open>range\<close>.\<close>

definition queue_moved ::
    "('s, 'c) framework \<Rightarrow> (nat \<Rightarrow> time) \<times> string list \<times> cluster_event
       \<Rightarrow> sched_queue \<Rightarrow> pod list" where
  "queue_moved fw m s =
     map (\<lambda>(t, p). Pod p)
       (filter (\<lambda>(t, p). movable fw s (snd (snd m)) p \<and> \<not> isPodBackingoff t p)
         (timed (fst m) (range_values (fst (snd m)) (unschedulableQ s))))"

lemma map_values_restrict:
  assumes "range_order ks m"
    and "\<And>k. m' k = (case m k of None \<Rightarrow> None | Some v \<Rightarrow> if P v then None else Some v)"
  shows "map_values m = mset (filter P (range_values ks m)) + map_values m'"
proof -
  have "finite (dom m)" using assms(1) by (rule range_order_finite)
  then show ?thesis
    using assms
  proof (induction ks arbitrary: m m')
    case Nil
    then have "dom m = {}" by (simp add: range_order_def)
    then have "m = Map.empty" by simp
    moreover from this have "m' = Map.empty" by (simp add: Nil fun_eq_iff)
    ultimately show ?case by simp
  next
    case (Cons k ks)
    obtain v where v: "m k = Some v"
      using Cons.prems(2) by (auto simp: range_order_def)
    let ?m = "m(k := None)" and ?m' = "m'(k := None)"
    have fin: "finite (dom ?m)" by (rule finite_subset [OF _ Cons.prems(1)]) auto
    have fin': "finite (dom m')"
      by (rule finite_subset [OF _ Cons.prems(1)]) (auto simp: Cons.prems(3) split: option.splits if_splits)
    have ord: "range_order ks ?m"
      using Cons.prems(2) by (auto simp: range_order_def)
    have vals: "range_values ks ?m = range_values ks m"
      by (rule range_values_cong) (use Cons.prems(2) in \<open>auto simp: range_order_def\<close>)
    have m': "?m' a = (case ?m a of None \<Rightarrow> None | Some v \<Rightarrow> if P v then None else Some v)" for a
      by (simp add: Cons.prems(3))
    have IH: "map_values ?m = mset (filter P (range_values ks m)) + map_values ?m'"
      using Cons.IH [OF fin ord m'] unfolding vals .
    have m: "map_values m = add_mset v (map_values ?m)"
      using Cons.prems(1) v by (rule map_values_remove)
    show ?case
    proof (cases "P v")
      case True
      then have "m' k = None" by (simp add: Cons.prems(3) v)
      then show ?thesis using True IH m v by (simp add: map_values_remove_none)
    next
      case False
      then have "m' k = Some v" by (simp add: Cons.prems(3) v)
      then have "map_values m' = add_mset v (map_values ?m')"
        using fin' by (intro map_values_remove)
      then show ?thesis using False IH m v by simp
    qed
  qed
qed

lemma filter_split_timed:
  "mset (map snd (filter (\<lambda>(t, p). Q p \<and> \<not> R t p) (timed clk ps))) +
   mset (map snd (filter (\<lambda>(t, p). Q p \<and> R t p) (timed clk ps))) = mset (filter Q ps)"
  by (induction ps arbitrary: clk) auto

lemma map_values_MoveAll:
  assumes "queue_inv s" and "range_order order (unschedulableQ s)"
  shows "map_values (unschedulableQ s) =
     mset (filter (movable fw s ev) (range_values order (unschedulableQ s))) +
     map_values (unschedulableQ (MoveAllToActiveOrBackoffQueue fw clk order ev s))"
  by (rule map_values_restrict [OF assms(2)]) (rule MoveAll_sel(4) [OF assms])

lemma queue_move_split:
  assumes "queue_inv s" and "move_order m s"
  shows "ready_pods (queue_move fw m s) = ready_pods s @ queue_moved fw m s \<and>
         mset (queue_moved fw m s) + held_pods (queue_move fw m s) = held_pods s"
proof -
  obtain clk order ev where m: "m = (clk, order, ev)" by (cases m)
  have ord: "range_order order (unschedulableQ s)"
    using assms(2) by (simp add: move_order_def m)
  let ?vals = "range_values order (unschedulableQ s)"
  define act where "act = map snd
    (filter (\<lambda>(t, p). movable fw s ev p \<and> \<not> isPodBackingoff t p) (timed clk ?vals))"
  define boff where "boff = map snd
    (filter (\<lambda>(t, p). movable fw s ev p \<and> isPodBackingoff t p) (timed clk ?vals))"
  have "mset act + mset boff = mset (filter (movable fw s ev) ?vals)"
    unfolding act_def boff_def by (rule filter_split_timed)
  then have "map_values (unschedulableQ s) = mset act + mset boff +
      map_values (unschedulableQ (MoveAllToActiveOrBackoffQueue fw clk order ev s))"
    using map_values_MoveAll [OF assms(1) ord, of fw ev clk] by simp
  moreover have "activeQ (queue_move fw m s) = activeQ s @ act"
    and "podBackoffQ (queue_move fw m s) = podBackoffQ s @ boff"
    unfolding act_def boff_def
    by (simp_all only: queue_move_def m fst_conv snd_conv MoveAll_sel [OF assms(1) ord])
  moreover have "queue_moved fw m s = map Pod act"
    by (simp add: queue_moved_def act_def m split_def)
  ultimately show ?thesis
    by (simp add: ready_pods_def held_pods_def queue_move_def m ac_simps)
qed

lemma NextPod_None: "NextPod s = None \<longleftrightarrow> ready_pods s = []"
  by (simp add: NextPod_def ready_pods_def split: list.splits)

lemma NextPod_Some:
  "NextPod s = Some (p, s') \<Longrightarrow>
     ready_pods s = p # ready_pods s' \<and> held_pods s' = held_pods s \<and> (queue_inv s \<longrightarrow> queue_inv s')"
  by (auto simp: NextPod_def ready_pods_def held_pods_def queue_inv_def split: list.splits)

lemma held_pods_park:
  assumes "queue_inv s" and "park_fresh j s"
  shows "held_pods (queue_park j s) = add_mset (Pod (snd j)) (held_pods s)"
proof -
  have "finite (dom (unschedulableQ s))" using assms(1) by (simp add: queue_inv_def)
  then show ?thesis
    using assms(2) by (simp add: held_pods_def queue_park_def park_fresh_def queue_simps map_values_upd_new)
qed

interpretation sq: pod_queue "queue_Add fw" NextPod queue_park "queue_move fw"
    ready_pods held_pods "\<lambda>j. Pod (snd j)" park_fresh move_order "queue_moved fw" queue_inv
  for fw :: "('s, 'c) framework"
proof (unfold_locales, goal_cases)
  case (1 i p q)
  show ?case by (simp add: ready_pods_def queue_simps newQueuedPodInfo_def)
next
  case (2 i p q)
  show ?case by (simp add: held_pods_def queue_simps)
next
  case (3 q i p)
  then show ?case by (rule queue_inv_Add)
next
  case (4 q)
  show ?case by (rule NextPod_None)
next
  case (5 q p q')
  then show ?case by (rule NextPod_Some)
next
  case (6 j q)
  show ?case by (simp add: ready_pods_def queue_park_def queue_simps)
next
  case (7 q j)
  then show ?case by (rule held_pods_park)
next
  case (8 q j)
  then show ?case by (simp add: queue_park_def queue_inv_AddUnschedulable)
next
  case (9 q m)
  then show ?case by (rule queue_move_split [THEN conjunct1])
next
  case (10 q m)
  then show ?case by (rule queue_move_split [THEN conjunct2])
next
  case (11 q m)
  then show ?case by (simp add: queue_move_def move_order_def queue_inv_MoveAll)
qed


section \<open>Runs of the queue\<close>

definition queue_run ::
    "('s, 'c) framework
       \<Rightarrow> (time, time \<times> queued_pod_info, (nat \<Rightarrow> time) \<times> string list \<times> cluster_event) queue_op list
       \<Rightarrow> sched_queue \<Rightarrow> pod list \<times> sched_queue" where
  "queue_run fw = run_ops (queue_Add fw) NextPod queue_park (queue_move fw)"

definition queue_run_ok ::
    "('s, 'c) framework
       \<Rightarrow> (time, time \<times> queued_pod_info, (nat \<Rightarrow> time) \<times> string list \<times> cluster_event) queue_op list
       \<Rightarrow> sched_queue \<Rightarrow> bool" where
  "queue_run_ok fw =
     run_ok (queue_Add fw) NextPod queue_park (queue_move fw) park_fresh move_order"

definition queue_run_activated ::
    "('s, 'c) framework
       \<Rightarrow> (time, time \<times> queued_pod_info, (nat \<Rightarrow> time) \<times> string list \<times> cluster_event) queue_op list
       \<Rightarrow> sched_queue \<Rightarrow> pod list" where
  "queue_run_activated fw =
     run_activated (queue_Add fw) NextPod queue_park (queue_move fw) (queue_moved fw)"



text \<open>
  No run of the queue loses or duplicates a pod, as long as no pod is parked under the
  key of another one: the pods handed out and those in the three queues at the end are those
  in the queues at the start and those that were put in.
\<close>

theorem queue_run_conserves:
  assumes "queue_inv s" and "queue_run_ok fw ops s"
  shows "mset (fst (queue_run fw ops s)) + (mset (ready_pods (snd (queue_run fw ops s))) +
           held_pods (snd (queue_run fw ops s))) =
         mset (ready_pods s) + held_pods s + mset (run_added (\<lambda>j. Pod (snd j)) ops)"
  using sq.run_conserves [OF assms(1)] assms(2) unfolding queue_run_def queue_run_ok_def by blast

theorem queue_run_conserves_witness:
  "mset (fst (queue_run sample_framework
     [OpAdd 0 (sample_pod ''p1''), OpPark (1, newQueuedPodInfo sample_framework 0 (sample_pod ''p2'') [])]
     (queue_New []))) +
   (mset (ready_pods (snd (queue_run sample_framework
     [OpAdd 0 (sample_pod ''p1''), OpPark (1, newQueuedPodInfo sample_framework 0 (sample_pod ''p2'') [])]
     (queue_New [])))) +
    held_pods (snd (queue_run sample_framework
     [OpAdd 0 (sample_pod ''p1''), OpPark (1, newQueuedPodInfo sample_framework 0 (sample_pod ''p2'') [])]
     (queue_New [])))) =
   {#sample_pod ''p1'', sample_pod ''p2''#}"
proof -
  let ?ops = "[OpAdd 0 (sample_pod ''p1''),
    OpPark (1, newQueuedPodInfo sample_framework 0 (sample_pod ''p2'') [])]"
  have ok: "queue_run_ok sample_framework ?ops (queue_New [])"
    by (simp add: queue_run_ok_def park_fresh_def queue_New_def queue_Add_def)
  show ?thesis
    by (subst queue_run_conserves [OF queue_inv_New ok])
       (simp add: queue_New_def ready_pods_def held_pods_def newQueuedPodInfo_def)
qed

text \<open>
  C7: an event moves exactly the parked pods it can help: each of them leaves the
  unschedulable map and is appended to the active queue, or to the backoff queue if its
  backoff is not over when its turn comes; the others stay where they are.
\<close>

theorem MoveAllToActiveOrBackoffQueue_effect:
  assumes "queue_inv s" and "range_order order (unschedulableQ s)"
  shows "activeQ (MoveAllToActiveOrBackoffQueue fw clk order ev s) = activeQ s @
           map snd (filter (\<lambda>(t, p). movable fw s ev p \<and> \<not> isPodBackingoff t p)
             (timed clk (range_values order (unschedulableQ s)))) \<and>
         podBackoffQ (MoveAllToActiveOrBackoffQueue fw clk order ev s) = podBackoffQ s @
           map snd (filter (\<lambda>(t, p). movable fw s ev p \<and> isPodBackingoff t p)
             (timed clk (range_values order (unschedulableQ s)))) \<and>
         unschedulableQ (MoveAllToActiveOrBackoffQueue fw clk order ev s) =
           (\<lambda>k. case unschedulableQ s k of
                  None \<Rightarrow> None
                | Some p \<Rightarrow> if movable fw s ev p then None else Some p)"
  by (simp add: MoveAll_sel [OF assms] fun_eq_iff)

theorem MoveAllToActiveOrBackoffQueue_effect_witness:
  "(let p = newQueuedPodInfo sample_framework 0 (sample_pod ''p'') [];
        s = AddUnschedulable 5 p (queue_New []);
        ev = \<lparr>Resource = ''Node'', ActionType = 1, Label = ''NodeAdd''\<rparr>;
        s' = MoveAllToActiveOrBackoffQueue sample_framework (\<lambda>_. 2000000000) [keyFunc p] ev s
    in queue_inv s \<and> range_order [keyFunc p] (unschedulableQ s) \<and>
       activeQ s' = [p\<lparr>Timestamp := 5\<rparr>] \<and> unschedulableQ s' = Map.empty)"
proof -
  let ?p = "newQueuedPodInfo sample_framework 0 (sample_pod ''p'') []"
  let ?s = "AddUnschedulable 5 ?p (queue_New [])"
  let ?ev = "\<lparr>Resource = ''Node'', ActionType = 1, Label = ''NodeAdd''\<rparr>"
  have inv: "queue_inv ?s" by (simp add: queue_invs)
  have ord: "range_order [keyFunc ?p] (unschedulableQ ?s)"
    by (auto simp: range_order_def queue_simps queue_New_def)
  have mv: "movable sample_framework ?s ?ev (?p\<lparr>Timestamp := 5\<rparr>)"
    by (simp add: movable_def newQueuedPodInfo_def)
  have nb: "\<not> isPodBackingoff 2000000000 (?p\<lparr>Timestamp := 5\<rparr>)"
    by (simp add: isPodBackingoff_iff calculateBackoffDuration_def sint_backoff_loop
          sint_podInitial newQueuedPodInfo_def)
  show ?thesis
    using MoveAllToActiveOrBackoffQueue_effect
      [OF inv ord, of sample_framework "\<lambda>_. 2000000000" ?ev] inv ord mv nb
    by (simp add: Let_def queue_simps queue_New_def fun_eq_iff)
qed

text \<open>
  The backoff queue is only ever appended to: with pods put in front of it, every run hands
  out the same pods and ends in the same state but for those pods.
\<close>

definition backed_off :: "queued_pod_info list \<Rightarrow> sched_queue \<Rightarrow> sched_queue" where
  "backed_off b s = s\<lparr>podBackoffQ := b @ podBackoffQ s\<rparr>"

lemma movable_backed_off [simp]: "movable fw (backed_off b s) = movable fw s"
  by (rule movable_cong) (simp add: backed_off_def)

lemma move_one_backed_off:
  "move_one fw now ev p (backed_off b s) = backed_off b (move_one fw now ev p s)"
  by (rule sched_queue.equality) (simp_all add: move_one_def movable_backed_off, simp_all add: backed_off_def)

lemma movePods_backed_off:
  "movePodsToActiveOrBackoffQueue fw clk ps ev (backed_off b s) =
     backed_off b (movePodsToActiveOrBackoffQueue fw clk ps ev s)"
  by (induction ps arbitrary: clk s)
     (simp_all add: movePods_Cons move_one_backed_off del: movePodsToActiveOrBackoffQueue.simps(2))

lemma queue_ops_backed_off:
  "queue_Add fw now p (backed_off b s) = backed_off b (queue_Add fw now p s)"
  "queue_park j (backed_off b s) = backed_off b (queue_park j s)"
  "queue_move fw m (backed_off b s) = backed_off b (queue_move fw m s)"
  "NextPod (backed_off b s) = map_option (map_prod id (backed_off b)) (NextPod s)"
proof -
  show "queue_move fw m (backed_off b s) = backed_off b (queue_move fw m s)"
    by (simp add: queue_move_def MoveAllToActiveOrBackoffQueue_def flip: movePods_backed_off)
       (simp add: backed_off_def)
qed (simp_all add: queue_Add_def queue_park_def AddUnschedulable_def NextPod_def backed_off_def
       split: list.split)

text \<open>
  C36: a pod in the backoff queue stays there for good.  No operation reads that queue, and
  the flush that would empty it is not implemented, so no sequence of operations ever hands
  such a pod out: the run from a state with pods \<open>b\<close> in front of the backoff queue hands out
  the same pods as the run without them, and ends with \<open>b\<close> still in place.
\<close>

theorem podBackoffQ_is_never_read:
  "queue_run fw ops (backed_off b s) =
     (fst (queue_run fw ops s), backed_off b (snd (queue_run fw ops s)))"
  unfolding queue_run_def
proof (induction ops arbitrary: s)
  case (Cons op ops)
  then show ?case
    by (cases op) (auto simp: queue_ops_backed_off split: option.split prod.splits)
qed simp

end
