(* ===== verification/Plugin_Runs.thy ===== *)
theory Plugin_Runs
  imports Framework
begin

text \<open>
  The extension points of \<open>minisched/minisched.go\<close>: \<open>RunFilterPlugins\<close>,
  \<open>RunPreScorePlugins\<close>, \<open>RunScorePlugins\<close> with \<open>createPluginToNodeScores\<close>, and the loop of
  \<open>RunPermitPlugins\<close>.  The plugins are arguments and may change the state \<open>'w\<close> they share;
  a panic of a plugin ends the run.  The properties relate each run to what the plugins say
  of each node, for plugins that answer as a function of their arguments.
\<close>

section \<open>Filter\<close>

text \<open>The inner loop: \<open>status\<close> is the status of the last plugin that ran.\<close>

fun run_filters ::
    "('s, 'c) framework \<Rightarrow> ('w, 's) filter_plugin list \<Rightarrow> pod \<Rightarrow> node_info \<Rightarrow> 's option
       \<Rightarrow> diagnosis \<Rightarrow> ('w, 's option \<times> diagnosis) go" where
  "run_filters fw [] pod nodeInfo status diagnosis w = Inr ((status, diagnosis), w)"
| "run_filters fw (pl # pls) pod nodeInfo status diagnosis w =
     (case Filter pl pod nodeInfo w of
        Inl e \<Rightarrow> Inl e
      | Inr (status, w) \<Rightarrow>
          if \<not> IsSuccess fw status
          then (case status of
                  None \<Rightarrow> Inl NilDeref
                | Some st \<Rightarrow>
                    let status = Some (WithFailedPlugin fw st (filterName pl));
                        diagnosis = diagnosis\<lparr>diagUnschedulablePlugins :=
                          setsInsert fw (diagUnschedulablePlugins diagnosis) (FailedPlugin fw status)\<rparr>
                    in Inr ((status, diagnosis), w))
          else run_filters fw pls pod nodeInfo status diagnosis w)"

fun filter_nodes ::
    "('s, 'c) framework \<Rightarrow> ('w, 's) filter_plugin list \<Rightarrow> pod \<Rightarrow> node list \<Rightarrow> node list
       \<Rightarrow> diagnosis \<Rightarrow> ('w, node list \<times> diagnosis) go" where
  "filter_nodes fw pls pod [] feasibleNodes diagnosis w = Inr ((feasibleNodes, diagnosis), w)"
| "filter_nodes fw pls pod (n # nodes) feasibleNodes diagnosis w =
     (let nodeInfo = \<lparr>Node = n\<rparr>; status = Some (NewStatus fw Success [])
      in case run_filters fw pls pod nodeInfo status diagnosis w of
           Inl e \<Rightarrow> Inl e
         | Inr ((status, diagnosis), w) \<Rightarrow>
             filter_nodes fw pls pod nodes
               (if IsSuccess fw status then feasibleNodes @ [Node nodeInfo] else feasibleNodes)
               diagnosis w)"

definition RunFilterPlugins ::
    "('s, 'c) framework \<Rightarrow> ('w, 's) filter_plugin list \<Rightarrow> pod \<Rightarrow> node list
       \<Rightarrow> ('w, goerror + node list) go" where
  "RunFilterPlugins fw pls pod nodes w =
     (let diagnosis = \<lparr>diagUnschedulablePlugins = setsNewString fw []\<rparr>
      in case filter_nodes fw pls pod nodes [] diagnosis w of
           Inl e \<Rightarrow> Inl e
         | Inr ((feasibleNodes, diagnosis), w) \<Rightarrow>
             if length feasibleNodes = 0 then Inr (Inl (FitError pod diagnosis), w)
             else Inr (Inr feasibleNodes, w))"

section \<open>PreScore\<close>

fun RunPreScorePlugins ::
    "('s, 'c) framework \<Rightarrow> ('w, 's) pre_score_plugin list \<Rightarrow> pod \<Rightarrow> node list
       \<Rightarrow> ('w, 's option) go" where
  "RunPreScorePlugins fw [] pod nodes w = Inr (None, w)"
| "RunPreScorePlugins fw (pl # pls) pod nodes w =
     (case PreScore pl pod nodes w of
        Inl e \<Rightarrow> Inl e
      | Inr (status, w) \<Rightarrow>
          if \<not> IsSuccess fw status then Inr (status, w)
          else RunPreScorePlugins fw pls pod nodes w)"

section \<open>Score\<close>

type_synonym scores_map = "string \<rightharpoonup> node_score list"

definition createPluginToNodeScores :: "('w, 's) score_plugin list \<Rightarrow> node list \<Rightarrow> scores_map" where
  "createPluginToNodeScores scorePlugins nodes =
     foldl (\<lambda>m pl. m(scoreName pl \<mapsto> replicate (length nodes) \<lparr>nsName = [], nsScore = 0\<rparr>))
       Map.empty scorePlugins"

text \<open>
  The plugins on one node.  \<open>Inl status\<close> is the early return with that status.  An element
  is assigned in the slice that the map holds, which \<open>NormalizeScore\<close> then changes in place.
\<close>

fun score_node ::
    "('s, 'c) framework \<Rightarrow> ('w, 's) score_plugin list \<Rightarrow> pod \<Rightarrow> nat \<Rightarrow> node \<Rightarrow> scores_map
       \<Rightarrow> ('w, 's option + scores_map) go" where
  "score_node fw [] pod index n scoresMap w = Inr (Inr scoresMap, w)"
| "score_node fw (pl # pls) pod index n scoresMap w =
     (case Score pl pod (nodeName n) w of
        Inl e \<Rightarrow> Inl e
      | Inr ((score, status), w) \<Rightarrow>
          if \<not> IsSuccess fw status then Inr (Inl status, w)
          else case scoresMap (scoreName pl) of
              None \<Rightarrow> Inl IndexOutOfRange
            | Some scores \<Rightarrow>
                if length scores \<le> index then Inl IndexOutOfRange
                else
                  let scores = scores[index := \<lparr>nsName = nodeName n, nsScore = score\<rparr>];
                      scoresMap = scoresMap(scoreName pl \<mapsto> scores)
                  in case ScoreExtensions pl of
                       None \<Rightarrow> score_node fw pls pod index n scoresMap w
                     | Some normalizeScore \<Rightarrow>
                         case normalizeScore pod scores w of
                           Inl e \<Rightarrow> Inl e
                         | Inr ((scores, status), w) \<Rightarrow>
                             if \<not> IsSuccess fw status then Inr (Inl status, w)
                             else score_node fw pls pod index n
                                    (scoresMap(scoreName pl \<mapsto> scores)) w)"

fun score_nodes ::
    "('s, 'c) framework \<Rightarrow> ('w, 's) score_plugin list \<Rightarrow> pod \<Rightarrow> nat \<Rightarrow> node list \<Rightarrow> scores_map
       \<Rightarrow> ('w, 's option + scores_map) go" where
  "score_nodes fw pls pod index [] scoresMap w = Inr (Inr scoresMap, w)"
| "score_nodes fw pls pod index (n # nodes) scoresMap w =
     (case score_node fw pls pod index n scoresMap w of
        Inl e \<Rightarrow> Inl e
      | Inr (Inl status, w) \<Rightarrow> Inr (Inl status, w)
      | Inr (Inr scoresMap, w) \<Rightarrow> score_nodes fw pls pod (Suc index) nodes scoresMap w)"

text \<open>\<open>result[i].Score\<close>, summed over the plugins in the order \<open>range scoresMap\<close> visits them.\<close>

fun sum_scores :: "string list \<Rightarrow> scores_map \<Rightarrow> nat \<Rightarrow> int64 \<Rightarrow> panic + int64" where
  "sum_scores [] scoresMap i acc = Inr acc"
| "sum_scores (j # order) scoresMap i acc =
     (case scoresMap j of
        None \<Rightarrow> Inl IndexOutOfRange
      | Some scores \<Rightarrow>
          if length scores \<le> i then Inl IndexOutOfRange
          else sum_scores order scoresMap i (acc + nsScore (scores ! i)))"

fun total_scores ::
    "(nat \<Rightarrow> string list) \<Rightarrow> scores_map \<Rightarrow> nat \<Rightarrow> node list \<Rightarrow> node_score list
       \<Rightarrow> panic + node_score list" where
  "total_scores order scoresMap i [] result = Inr result"
| "total_scores order scoresMap i (n # nodes) result =
     (case sum_scores (order i) scoresMap i 0 of
        Inl e \<Rightarrow> Inl e
      | Inr score \<Rightarrow>
          total_scores order scoresMap (Suc i) nodes
            (result @ [\<lparr>nsName = nodeName n, nsScore = score\<rparr>]))"

definition RunScorePlugins ::
    "('s, 'c) framework \<Rightarrow> ('w, 's) score_plugin list \<Rightarrow> (nat \<Rightarrow> string list) \<Rightarrow> pod \<Rightarrow> node list
       \<Rightarrow> ('w, node_score list \<times> 's option) go" where
  "RunScorePlugins fw pls order pod nodes w =
     (case score_nodes fw pls pod 0 nodes (createPluginToNodeScores pls nodes) w of
        Inl e \<Rightarrow> Inl e
      | Inr (Inl status, w) \<Rightarrow> Inr (([], status), w)
      | Inr (Inr scoresMap, w) \<Rightarrow>
          (case total_scores order scoresMap 0 nodes [] of
             Inl e \<Rightarrow> Inl e
           | Inr result \<Rightarrow> Inr ((result, None), w)))"

section \<open>Permit\<close>

text \<open>
  The loop of \<open>RunPermitPlugins\<close>: \<open>Inl status\<close> is an early return, \<open>Inr\<close> the plugins
  that asked to wait and the status code at the end of the loop.
\<close>

fun permit_loop ::
    "('s, 'c) framework \<Rightarrow> ('w, 's) permit_plugin list \<Rightarrow> pod \<Rightarrow> string
       \<Rightarrow> (string \<rightharpoonup> duration) \<Rightarrow> code \<Rightarrow> ('w, 's option + (string \<rightharpoonup> duration) \<times> code) go" where
  "permit_loop fw [] pod nodename pluginsWaitTime statusCode w =
     Inr (Inr (pluginsWaitTime, statusCode), w)"
| "permit_loop fw (pl # pls) pod nodename pluginsWaitTime statusCode w =
     (case Permit pl pod nodename w of
        Inl e \<Rightarrow> Inl e
      | Inr ((status, timeout), w) \<Rightarrow>
          if \<not> IsSuccess fw status
          then
            if IsUnschedulable fw status
            then (case status of
                    None \<Rightarrow> Inl NilDeref
                  | Some st \<Rightarrow> Inr (Inl (Some (WithFailedPlugin fw st (permitName pl))), w))
            else if Code fw status = Wait
            then permit_loop fw pls pod nodename
                   (pluginsWaitTime(permitName pl \<mapsto> timeout)) Wait w
            else
              let err = AsError fw status
              in Inr (Inl (Some (WithFailedPlugin fw
                   (AsStatus fw (Some (Errorf ''running Permit plugin %q: %w'' [permitName pl] err)))
                   (permitName pl))), w)
          else permit_loop fw pls pod nodename pluginsWaitTime statusCode w)"

section \<open>Filtering, for plugins that answer as functions\<close>

definition stateless_filter ::
    "string \<times> (pod \<Rightarrow> node_info \<Rightarrow> 's option) \<Rightarrow> ('w, 's) filter_plugin" where
  "stateless_filter s = \<lparr>filterName = fst s, Filter = (\<lambda>pod ni w. Inr (snd s pod ni, w))\<rparr>"

definition passes ::
    "('s, 'c) framework \<Rightarrow> (string \<times> (pod \<Rightarrow> node_info \<Rightarrow> 's option)) list \<Rightarrow> pod \<Rightarrow> node \<Rightarrow> bool" where
  "passes fw specs pod n = list_all (\<lambda>s. IsSuccess fw (snd s pod \<lparr>Node = n\<rparr>)) specs"

text \<open>The first plugin that fails a node.\<close>

definition blocker ::
    "('s, 'c) framework \<Rightarrow> (string \<times> (pod \<Rightarrow> node_info \<Rightarrow> 's option)) list \<Rightarrow> pod \<Rightarrow> node
       \<Rightarrow> string option" where
  "blocker fw specs pod n =
     map_option fst (find (\<lambda>s. \<not> IsSuccess fw (snd s pod \<lparr>Node = n\<rparr>)) specs)"

definition blame :: "('s, 'c) framework \<Rightarrow> string option \<Rightarrow> diagnosis \<Rightarrow> diagnosis" where
  "blame fw b diag =
     (case b of None \<Rightarrow> diag
      | Some p \<Rightarrow> diag\<lparr>diagUnschedulablePlugins := setsInsert fw (diagUnschedulablePlugins diag) p\<rparr>)"

lemma run_filters_stateless:
  assumes "status_laws fw" and "IsSuccess fw st"
  shows "\<exists>st'. run_filters fw (map stateless_filter specs) pod \<lparr>Node = n\<rparr> st diag w =
             Inr ((st', blame fw (blocker fw specs pod n) diag), w) \<and>
           (IsSuccess fw st' \<longleftrightarrow> passes fw specs pod n)"
  using assms(2)
proof (induction specs arbitrary: st)
  case Nil
  then show ?case by (simp add: blame_def blocker_def passes_def)
next
  case (Cons s specs)
  show ?case
  proof (cases "IsSuccess fw (snd s pod \<lparr>Node = n\<rparr>)")
    case True
    with Cons.IH [OF True] show ?thesis
      by (simp add: stateless_filter_def blocker_def passes_def)
  next
    case False
    then obtain x where "snd s pod \<lparr>Node = n\<rparr> = Some x"
      using status_laws_simps(1,2) [OF assms(1)] by (cases "snd s pod \<lparr>Node = n\<rparr>") auto
    with False show ?thesis
      by (simp add: stateless_filter_def blocker_def passes_def blame_def
            status_laws_simps [OF assms(1)])
  qed
qed

lemma filter_nodes_stateless:
  assumes "status_laws fw"
  shows "filter_nodes fw (map stateless_filter specs) pod nodes feas diag w =
     Inr ((feas @ filter (passes fw specs pod) nodes,
           fold (\<lambda>n. blame fw (blocker fw specs pod n)) nodes diag), w)"
proof (induction nodes arbitrary: feas diag)
  case (Cons n nodes)
  have "IsSuccess fw (Some (NewStatus fw Success []))"
    by (simp add: status_laws_simps [OF assms])
  from run_filters_stateless [OF assms this, of specs pod n diag w] Cons show ?case
    by (auto simp: Let_def)
qed simp

lemma set_fold_blame:
  assumes "sets_laws fw"
  shows "set (diagUnschedulablePlugins (fold (\<lambda>n. blame fw (blocker fw specs pod n)) nodes diag)) =
     set (diagUnschedulablePlugins diag) \<union> {p. \<exists>n \<in> set nodes. blocker fw specs pod n = Some p}"
  by (induction nodes arbitrary: diag)
     (auto simp: blame_def sets_laws_simps [OF assms] split: option.splits)

lemma RunFilterPlugins_diag:
  assumes "status_laws fw" and "sets_laws fw"
  obtains diag where "RunFilterPlugins fw (map stateless_filter specs) pod nodes w =
             Inr (if filter (passes fw specs pod) nodes = [] then Inl (FitError pod diag)
                  else Inr (filter (passes fw specs pod) nodes), w)"
    and "set (diagUnschedulablePlugins diag) =
             {p. \<exists>n \<in> set nodes. blocker fw specs pod n = Some p}"
proof -
  let ?diag = "fold (\<lambda>n. blame fw (blocker fw specs pod n)) nodes
    \<lparr>diagUnschedulablePlugins = setsNewString fw []\<rparr>"
  show thesis
    by (rule that [of ?diag])
       (simp_all add: RunFilterPlugins_def Let_def filter_nodes_stateless [OF assms(1)]
          set_fold_blame [OF assms(2)] sets_laws_simps [OF assms(2)])
qed

text \<open>
  C17: filtering keeps, in order, exactly the nodes that every filter plugin passes; when there
  is none it returns a \<open>FitError\<close> whose diagnosis names exactly the plugins that were the
  first to fail some node.
\<close>

theorem RunFilterPlugins_stateless:
  assumes "status_laws fw" and "sets_laws fw"
  shows "\<exists>diag. RunFilterPlugins fw (map stateless_filter specs) pod nodes w =
             Inr (if filter (passes fw specs pod) nodes = [] then Inl (FitError pod diag)
                  else Inr (filter (passes fw specs pod) nodes), w) \<and>
           set (diagUnschedulablePlugins diag) =
             {p. \<exists>n \<in> set nodes. blocker fw specs pod n = Some p}"
  by (rule RunFilterPlugins_diag [OF assms, of specs pod nodes w]) blast

theorem RunFilterPlugins_stateless_witness:
  "\<exists>diag. RunFilterPlugins sample_framework
        (map stateless_filter
          [(''Unsched'', \<lambda>p ni. if nodeUnschedulable (Node ni)
              then Some (NewStatus sample_framework Unschedulable ''no'') else None)])
        (sample_pod ''p'') [\<lparr>nodeName = ''a'', nodeUnschedulable = True\<rparr>] () =
      Inr (Inl (FitError (sample_pod ''p'') diag), ()) \<and>
    set (diagUnschedulablePlugins diag) = {''Unsched''}"
  using RunFilterPlugins_stateless [OF sample_laws(1,4),
      of "[(''Unsched'', \<lambda>p ni. if nodeUnschedulable (Node ni)
            then Some (NewStatus sample_framework Unschedulable ''no'') else None)]"
         "sample_pod ''p''" "[\<lparr>nodeName = ''a'', nodeUnschedulable = True\<rparr>]" "()"]
  by (simp add: passes_def blocker_def)

text \<open>Whatever the plugins, feasible nodes are among the nodes that were given.\<close>

lemma filter_nodes_subset:
  "filter_nodes fw pls pod nodes feas diag w = Inr ((feas', diag'), w') \<Longrightarrow>
     set feas' \<subseteq> set feas \<union> set nodes"
  by (induction fw pls pod nodes feas diag w arbitrary: feas' diag' w' rule: filter_nodes.induct)
     (fastforce simp: Let_def split: sum.splits if_splits)+

lemma RunFilterPlugins_nodes:
  "RunFilterPlugins fw pls pod nodes w = Inr (Inr feas, w') \<Longrightarrow> feas \<noteq> [] \<and> set feas \<subseteq> set nodes"
  by (auto simp: RunFilterPlugins_def Let_def split: sum.splits if_splits
        dest!: filter_nodes_subset)

section \<open>Scoring, for plugins that answer as functions\<close>

definition stateless_score ::
    "string \<times> (pod \<Rightarrow> string \<Rightarrow> int64 \<times> 's option) \<Rightarrow> ('w, 's) score_plugin" where
  "stateless_score s =
     \<lparr>scoreName = fst s, Score = (\<lambda>pod n w. Inr (snd s pod n, w)), ScoreExtensions = None\<rparr>"

lemma stateless_score_sel [simp]:
  "scoreName (stateless_score s) = fst s"
  "Score (stateless_score s) pod n w = Inr (snd s pod n, w)"
  "ScoreExtensions (stateless_score s) = None"
  by (simp_all add: stateless_score_def)

definition node_failures ::
    "('s, 'c) framework \<Rightarrow> (string \<times> (pod \<Rightarrow> string \<Rightarrow> int64 \<times> 's option)) list \<Rightarrow> pod \<Rightarrow> node
       \<Rightarrow> 's option list" where
  "node_failures fw specs pod n =
     filter (\<lambda>st. \<not> IsSuccess fw st) (map (\<lambda>s. snd (snd s pod (nodeName n))) specs)"

definition node_total ::
    "(string \<times> (pod \<Rightarrow> string \<Rightarrow> int64 \<times> 's option)) list \<Rightarrow> pod \<Rightarrow> node \<Rightarrow> int64" where
  "node_total specs pod n = sum_list (map (\<lambda>s. fst (snd s pod (nodeName n))) specs)"

definition score_entry :: "(pod \<Rightarrow> string \<Rightarrow> int64 \<times> 's option) \<Rightarrow> pod \<Rightarrow> node \<Rightarrow> node_score" where
  "score_entry g pod n = \<lparr>nsName = nodeName n, nsScore = fst (g pod (nodeName n))\<rparr>"

text \<open>
  The scores map while node \<open>index\<close> is next: for each plugin a list with an element per node,
  the first ones set.
\<close>

definition scored ::
    "(string \<times> (pod \<Rightarrow> string \<Rightarrow> int64 \<times> 's option)) list \<Rightarrow> pod \<Rightarrow> node list \<Rightarrow> nat \<Rightarrow> nat
       \<Rightarrow> scores_map \<Rightarrow> bool" where
  "scored specs pod nodes index len m \<longleftrightarrow>
     (\<forall>s \<in> set specs. \<exists>l. m (fst s) = Some l \<and> length l = len \<and>
        (\<forall>i < index. l ! i = score_entry (snd s) pod (nodes ! i)))"

definition score_update ::
    "(string \<times> (pod \<Rightarrow> string \<Rightarrow> int64 \<times> 's option)) list \<Rightarrow> pod \<Rightarrow> nat \<Rightarrow> node
       \<Rightarrow> scores_map \<Rightarrow> scores_map" where
  "score_update specs pod index n m =
     (\<lambda>k. case map_of specs k of
            None \<Rightarrow> m k
          | Some g \<Rightarrow> map_option (\<lambda>l. l[index := score_entry g pod n]) (m k))"

lemma score_node_stateless:
  assumes "distinct (map fst specs)"
    and "\<forall>s \<in> set specs. \<exists>l. m (fst s) = Some l \<and> index < length l"
  shows "score_node fw (map stateless_score specs) pod index n m w =
     Inr (case node_failures fw specs pod n of
            [] \<Rightarrow> Inr (score_update specs pod index n m) | st # _ \<Rightarrow> Inl st, w)"
  using assms
proof (induction specs arbitrary: m)
  case Nil
  then show ?case by (simp add: node_failures_def score_update_def)
next
  case (Cons s specs)
  obtain name g where s: "s = (name, g)" by (cases s)
  obtain l where l: "m name = Some l" "index < length l" using Cons.prems(2) s by auto
  let ?m = "m(name \<mapsto> l[index := score_entry g pod n])"
  have pre: "\<forall>s \<in> set specs. \<exists>l. ?m (fst s) = Some l \<and> index < length l"
    using Cons.prems s l by auto
  have fresh: "map_of specs name = None"
    using Cons.prems(1) s by (simp add: map_of_eq_None_iff)
  have upd: "score_update specs pod index n ?m = score_update (s # specs) pod index n m"
    using fresh l s by (auto simp: score_update_def fun_eq_iff split: option.split)
  have dist: "distinct (map fst specs)" using Cons.prems(1) by simp
  obtain sc st where g: "g pod (nodeName n) = (sc, st)" by (cases "g pod (nodeName n)")
  have IH: "score_node fw (map stateless_score specs) pod index n ?m w =
     Inr (case node_failures fw specs pod n of
            [] \<Rightarrow> Inr (score_update (s # specs) pod index n m) | st # _ \<Rightarrow> Inl st, w)"
    using Cons.IH [OF dist pre] unfolding upd .
  have entry: "score_entry g pod n = \<lparr>nsName = nodeName n, nsScore = sc\<rparr>"
    by (simp add: score_entry_def g)
  show ?case
  proof (cases "IsSuccess fw st")
    case True
    then show ?thesis
      using IH l s g unfolding entry by (simp add: node_failures_def Let_def)
  next
    case False
    then show ?thesis
      using s g by (simp add: node_failures_def)
  qed
qed

lemma scored_update:
  assumes "distinct (map fst specs)" and "scored specs pod nodes index len m"
    and "index < len"
  shows "scored specs pod nodes (Suc index) len (score_update specs pod index (nodes ! index) m)"
  unfolding scored_def
proof
  fix s assume s: "s \<in> set specs"
  then obtain l where l: "m (fst s) = Some l" "length l = len"
      "\<forall>i < index. l ! i = score_entry (snd s) pod (nodes ! i)"
    using assms(2) by (auto simp: scored_def)
  have "map_of specs (fst s) = Some (snd s)"
    using s assms(1) by (simp add: map_of_eq_Some_iff)
  with l assms(3) show "\<exists>l. score_update specs pod index (nodes ! index) m (fst s) = Some l \<and>
      length l = len \<and> (\<forall>i < Suc index. l ! i = score_entry (snd s) pod (nodes ! i))"
    by (auto simp: score_update_def nth_list_update less_Suc_eq)
qed

lemma score_nodes_stateless:
  assumes "distinct (map fst specs)" and "scored specs pod nodes index (length nodes) m"
    and "rest = drop index nodes"
  shows "\<exists>m'. score_nodes fw (map stateless_score specs) pod index rest m w =
       Inr (case concat (map (node_failures fw specs pod) rest) of
              [] \<Rightarrow> Inr m' | st # _ \<Rightarrow> Inl st, w) \<and>
     (concat (map (node_failures fw specs pod) rest) = [] \<longrightarrow>
        scored specs pod nodes (length nodes) (length nodes) m')"
  using assms(2,3)
proof (induction rest arbitrary: index m)
  case Nil
  then have "length nodes \<le> index" by simp
  with Nil.prems(1) show ?case by (auto simp: scored_def)
next
  case (Cons n rest)
  then have i: "index < length nodes" and n: "n = nodes ! index" and rest: "rest = drop (Suc index) nodes"
    by (metis drop_all list.distinct(1) not_le, metis nth_via_drop, metis drop_Suc list.sel(3) tl_drop)
  have pre: "\<forall>s \<in> set specs. \<exists>l. m (fst s) = Some l \<and> index < length l"
    using Cons.prems(1) i by (fastforce simp: scored_def)
  note node = score_node_stateless [OF assms(1) pre, of fw pod n w]
  show ?case
  proof (cases "node_failures fw specs pod n")
    case Nil
    with Cons.IH [OF scored_update [OF assms(1) Cons.prems(1) i] rest] node show ?thesis
      unfolding n by simp
  next
    case (Cons st sts)
    then show ?thesis using node by simp
  qed
qed

lemma createPluginToNodeScores_lookup:
  "name \<in> scoreName ` set pls \<Longrightarrow>
     createPluginToNodeScores pls nodes name = Some (replicate (length nodes) \<lparr>nsName = [], nsScore = 0\<rparr>)"
  unfolding createPluginToNodeScores_def
  by (induction pls rule: rev_induct) auto

lemma scored_create:
  "scored specs pod nodes 0 (length nodes)
     (createPluginToNodeScores (map stateless_score specs :: ('w, 's) score_plugin list) nodes)"
  (is "scored _ _ _ _ _ (createPluginToNodeScores ?pls nodes)")
  unfolding scored_def
proof
  fix s assume "s \<in> set specs"
  then have "fst s \<in> scoreName ` set ?pls"
    by force
  then have "createPluginToNodeScores ?pls nodes (fst s) =
      Some (replicate (length nodes) \<lparr>nsName = [], nsScore = 0\<rparr>)"
    by (rule createPluginToNodeScores_lookup)
  then show "\<exists>l. createPluginToNodeScores ?pls nodes (fst s) = Some l \<and>
      length l = length nodes \<and> (\<forall>i < 0. l ! i = score_entry (snd s) pod (nodes ! i))"
    by simp
qed

lemma sum_scores_eq:
  assumes "\<forall>j \<in> set order. \<exists>l. m j = Some l \<and> i < length l"
  shows "sum_scores order m i acc = Inr (acc + sum_list (map (\<lambda>j. nsScore (the (m j) ! i)) order))"
  using assms by (induction order arbitrary: acc) (auto simp: not_le add.assoc)

lemma sum_list_mset_cong:
  fixes h :: "'a \<Rightarrow> int64"
  assumes "mset xs = mset ys"
  shows "sum_list (map h xs) = sum_list (map h ys)"
proof -
  have "sum_mset (image_mset h (mset xs)) = sum_mset (image_mset h (mset ys))"
    using assms by simp
  then show ?thesis by (simp add: sum_mset_sum_list flip: mset_map)
qed

lemma sum_scores_scored:
  assumes "distinct (map fst specs)" and "scored specs pod nodes (length nodes) (length nodes) m"
    and "distinct order" and "set order = set (map fst specs)" and "i < length nodes"
  shows "sum_scores order m i 0 = Inr (node_total specs pod (nodes ! i))"
proof -
  have "sum_scores order m i 0 = Inr (sum_list (map (\<lambda>j. nsScore (the (m j) ! i)) order))"
    using assms(2,4,5) by (subst sum_scores_eq) (fastforce simp: scored_def)+
  also have "sum_list (map (\<lambda>j. nsScore (the (m j) ! i)) order) =
      sum_list (map (\<lambda>j. nsScore (the (m j) ! i)) (map fst specs))"
    using assms(1,3,4) by (intro sum_list_mset_cong) (metis set_eq_iff_mset_eq_distinct)
  also have "\<dots> = node_total specs pod (nodes ! i)"
    unfolding node_total_def map_map
    by (intro arg_cong [of _ _ sum_list] map_cong refl)
       (use assms(2,5) in \<open>fastforce simp: scored_def score_entry_def\<close>)
  finally show ?thesis .
qed

lemma total_scores_scored:
  assumes "distinct (map fst specs)" and "scored specs pod nodes (length nodes) (length nodes) m"
    and "\<forall>i. distinct (order i) \<and> set (order i) = set (map fst specs)"
    and "rest = drop i nodes"
  shows "total_scores order m i rest result =
     Inr (result @ map (\<lambda>n. \<lparr>nsName = nodeName n, nsScore = node_total specs pod n\<rparr>) rest)"
  using assms(4)
proof (induction rest arbitrary: i result)
  case (Cons n rest)
  then have i: "i < length nodes" and n: "n = nodes ! i" and rest: "rest = drop (Suc i) nodes"
    by (metis drop_all list.distinct(1) not_le, metis nth_via_drop, metis drop_Suc list.sel(3) tl_drop)
  have "sum_scores (order i) m i 0 = Inr (node_total specs pod n)"
    unfolding n using sum_scores_scored [OF assms(1,2)] assms(3) i by blast
  with Cons.IH [OF rest] show ?case by simp
qed simp

lemma RunScorePlugins_specs:
  fixes fw :: "('s, 'c) framework" and w :: 'w
  assumes "distinct (map fst specs)"
    and "\<forall>i. distinct (order i) \<and> set (order i) = set (map fst specs)"
  shows "RunScorePlugins fw (map stateless_score specs) order pod nodes w =
     Inr (case concat (map (node_failures fw specs pod) nodes) of
            [] \<Rightarrow> (map (\<lambda>n. \<lparr>nsName = nodeName n, nsScore = node_total specs pod n\<rparr>) nodes, None)
          | st # _ \<Rightarrow> ([], st), w)"
proof -
  let ?m = "createPluginToNodeScores (map stateless_score specs :: ('w, 's) score_plugin list) nodes"
  obtain m' where run: "score_nodes fw (map stateless_score specs) pod 0 nodes ?m w =
       Inr (case concat (map (node_failures fw specs pod) nodes) of
              [] \<Rightarrow> Inr m' | st # _ \<Rightarrow> Inl st, w)"
    and m': "concat (map (node_failures fw specs pod) nodes) = [] \<Longrightarrow>
        scored specs pod nodes (length nodes) (length nodes) m'"
    using score_nodes_stateless [OF assms(1) scored_create, of nodes nodes fw pod w] by auto
  show ?thesis
  proof (cases "concat (map (node_failures fw specs pod) nodes)")
    case Nil
    have "total_scores order m' 0 nodes [] =
        Inr ([] @ map (\<lambda>n. \<lparr>nsName = nodeName n, nsScore = node_total specs pod n\<rparr>) nodes)"
      by (rule total_scores_scored [OF assms(1) m' [OF Nil] assms(2)]) simp
    then show ?thesis unfolding RunScorePlugins_def run Nil by simp
  next
    case (Cons st sts)
    then show ?thesis unfolding RunScorePlugins_def run by simp
  qed
qed

text \<open>
  A plugin answers as \<open>s\<close> in the state \<open>w\<close> on the given nodes: its scores may depend on
  the state, but it does not change it, and it has no score extensions.
\<close>

definition answers ::
    "pod \<Rightarrow> node list \<Rightarrow> 'w \<Rightarrow> ('w, 's) score_plugin
       \<Rightarrow> string \<times> (pod \<Rightarrow> string \<Rightarrow> int64 \<times> 's option) \<Rightarrow> bool" where
  "answers pod nodes w pl s \<longleftrightarrow>
     scoreName pl = fst s \<and> ScoreExtensions pl = None \<and>
     (\<forall>n \<in> set nodes. Score pl pod (nodeName n) w = Inr (snd s pod (nodeName n), w))"

lemma answers_stateless: "answers pod nodes w (stateless_score s) s"
  by (simp add: answers_def)

lemma score_node_answers:
  assumes "list_all2 (answers pod nodes w) pls specs" and "n \<in> set nodes"
  shows "score_node fw pls pod index n m w = score_node fw (map stateless_score specs) pod index n m w"
  using assms(1)
proof (induction pls specs arbitrary: m rule: list_all2_induct)
  case (Cons pl pls s specs)
  then have "scoreName pl = fst s" "ScoreExtensions pl = None"
    "Score pl pod (nodeName n) w = Inr (snd s pod (nodeName n), w)"
    using assms(2) by (auto simp: answers_def)
  then show ?case
    by (cases "snd s pod (nodeName n)") (simp add: Cons.IH split: option.split)
qed simp

lemma score_node_state:
  "score_node fw (map stateless_score specs) pod index n m w = Inr (r, w') \<Longrightarrow> w' = w"
  by (induction specs arbitrary: m) (auto simp: Let_def split: prod.splits option.splits if_splits)

lemma score_nodes_answers:
  assumes "list_all2 (answers pod nodes w) pls specs" and "set rest \<subseteq> set nodes"
  shows "score_nodes fw pls pod index rest m w =
           score_nodes fw (map stateless_score specs) pod index rest m w"
  using assms(2)
proof (induction rest arbitrary: index m)
  case (Cons n rest)
  then have n: "n \<in> set nodes" and rest: "set rest \<subseteq> set nodes" by auto
  show ?case
    using score_node_answers [OF assms(1) n, of fw index m] Cons.IH [OF rest]
    by (auto split: sum.split dest: score_node_state)
qed simp

lemma createPluginToNodeScores_names:
  "createPluginToNodeScores pls nodes =
     foldl (\<lambda>m name. m(name \<mapsto> replicate (length nodes) \<lparr>nsName = [], nsScore = 0\<rparr>))
       Map.empty (map scoreName pls)"
  unfolding createPluginToNodeScores_def by (induction pls rule: rev_induct) simp_all

lemma RunScorePlugins_answers:
  fixes pls :: "('w, 's) score_plugin list"
  assumes "list_all2 (answers pod nodes w) pls specs"
  shows "RunScorePlugins fw pls order pod nodes w =
     RunScorePlugins fw (map stateless_score specs) order pod nodes w"
proof -
  have "map scoreName pls = map scoreName (map stateless_score specs :: ('w, 's) score_plugin list)"
    using assms by (induction pls specs rule: list_all2_induct) (auto simp: answers_def)
  then show ?thesis
    unfolding RunScorePlugins_def createPluginToNodeScores_names
      score_nodes_answers [OF assms order_refl] by simp
qed



text \<open>
  A plugin with score extensions.  The scheduling framework documents \<open>NormalizeScore\<close> as
  called once, on the scores of all nodes; here it is inside the loop over the nodes.
\<close>

definition normalizing_score ::
    "string \<Rightarrow> (pod \<Rightarrow> string \<Rightarrow> int64) \<Rightarrow> (int64 \<Rightarrow> int64) \<Rightarrow> ('w, 's) score_plugin" where
  "normalizing_score name g norm =
     \<lparr>scoreName = name, Score = (\<lambda>pod n w. Inr ((g pod n, None), w)),
      ScoreExtensions = Some (\<lambda>pod scores w.
        Inr ((map (\<lambda>ns. ns\<lparr>nsScore := norm (nsScore ns)\<rparr>) scores, None), w))\<rparr>"

lemma normalizing_score_sel [simp]:
  "scoreName (normalizing_score name g norm) = name"
  "Score (normalizing_score name g norm) pod n w = Inr ((g pod n, None), w)"
  "ScoreExtensions (normalizing_score name g norm) = Some (\<lambda>pod scores w.
     Inr ((map (\<lambda>ns. ns\<lparr>nsScore := norm (nsScore ns)\<rparr>) scores, None), w))"
  by (simp_all add: normalizing_score_def)

text \<open>
  The list of such a plugin while node \<open>index\<close> is next: the score of an earlier node has been
  normalised once for every node scored since, itself included.
\<close>

definition normalized_entry ::
    "(pod \<Rightarrow> string \<Rightarrow> int64) \<Rightarrow> (int64 \<Rightarrow> int64) \<Rightarrow> pod \<Rightarrow> node \<Rightarrow> nat \<Rightarrow> node_score" where
  "normalized_entry g norm pod n k =
     \<lparr>nsName = nodeName n, nsScore = (norm ^^ k) (g pod (nodeName n))\<rparr>"

lemma score_nodes_normalizing:
  assumes "status_laws fw" and "m name = Some l" and "length l = length nodes"
    and "\<forall>i < index. l ! i = normalized_entry g norm pod (nodes ! i) (index - i)"
    and "rest = drop index nodes"
  shows "\<exists>m' l'. score_nodes fw [normalizing_score name g norm] pod index rest m w = Inr (Inr m', w) \<and>
     m' name = Some l' \<and> length l' = length nodes \<and>
     (\<forall>i < length nodes. l' ! i = normalized_entry g norm pod (nodes ! i) (max (length nodes) index - i))"
  using assms(2-)
proof (induction rest arbitrary: index m l)
  case Nil
  then show ?case by simp
next
  case (Cons n rest)
  then have i: "index < length nodes" and n: "n = nodes ! index" and rest: "rest = drop (Suc index) nodes"
    by (metis drop_all list.distinct(1) not_le, metis nth_via_drop, metis drop_Suc list.sel(3) tl_drop)
  let ?norm = "\<lambda>ns. ns\<lparr>nsScore := norm (nsScore ns)\<rparr>"
  define l1 where "l1 = map ?norm (l[index := normalized_entry g norm pod n 0])"
  have l1: "(m(name \<mapsto> l1)) name = Some l1" "length l1 = length nodes"
    by (simp_all add: l1_def Cons.prems(2))
  have inv: "\<forall>i < Suc index. l1 ! i = normalized_entry g norm pod (nodes ! i) (Suc index - i)"
    using Cons.prems(2,3) i
    by (auto simp: l1_def n normalized_entry_def less_Suc_eq nth_list_update Suc_diff_le)
  have "score_node fw [normalizing_score name g norm] pod index n m w = Inr (Inr (m(name \<mapsto> l1)), w)"
    using Cons.prems(1,2) i
    by (simp add: status_laws_simps [OF assms(1)] Let_def l1_def normalized_entry_def)
  moreover have "max (length nodes) (Suc index) = length nodes" "max (length nodes) index = length nodes"
    using i by simp_all
  ultimately show ?case
    using Cons.IH [of "m(name \<mapsto> l1)" l1 "Suc index", OF l1 inv rest]
    by (simp del: score_node.simps fun_upd_apply)
qed

lemma total_scores_single:
  assumes "m name = Some l" and "length l = length nodes"
    and "\<forall>i < length nodes. l ! i = normalized_entry g norm pod (nodes ! i) (k i)"
    and "rest = drop i nodes"
  shows "total_scores (\<lambda>_. [name]) m i rest result =
     Inr (result @ map (\<lambda>i. normalized_entry g norm pod (nodes ! i) (k i)) [i..<length nodes])"
  using assms(4)
proof (induction rest arbitrary: i result)
  case Nil
  then show ?case by simp
next
  case (Cons n rest)
  then have i: "i < length nodes" and n: "n = nodes ! i" and rest: "rest = drop (Suc i) nodes"
    by (metis drop_all list.distinct(1) not_le, metis nth_via_drop, metis drop_Suc list.sel(3) tl_drop)
  show ?case
    using Cons.IH [OF rest] i assms(1-3)
    by (simp add: n normalized_entry_def upt_conv_Cons)
qed



section \<open>Permitting, for plugins that answer as functions\<close>

definition stateless_permit ::
    "string \<times> (pod \<Rightarrow> string \<Rightarrow> 's option \<times> duration) \<Rightarrow> ('w, 's) permit_plugin" where
  "stateless_permit s =
     \<lparr>permitName = fst s, Permit = (\<lambda>pod n w. Inr (snd s pod n, w))\<rparr>"

lemma stateless_permit_sel [simp]:
  "permitName (stateless_permit s) = fst s"
  "Permit (stateless_permit s) pod n w = Inr (snd s pod n, w)"
  by (simp_all add: stateless_permit_def)

text \<open>
  A plugin refuses the pod when its status is neither a success nor a wait; \<open>refusal\<close> is the
  status that the loop returns then.  \<open>waits\<close> are the plugins that ask to wait.
\<close>

definition refuses ::
    "('s, 'c) framework \<Rightarrow> pod \<Rightarrow> string \<Rightarrow> string \<times> (pod \<Rightarrow> string \<Rightarrow> 's option \<times> duration) \<Rightarrow> bool" where
  "refuses fw pod n s \<longleftrightarrow>
     Code fw (fst (snd s pod n)) \<noteq> Success \<and> Code fw (fst (snd s pod n)) \<noteq> Wait"

definition refusal ::
    "('s, 'c) framework \<Rightarrow> pod \<Rightarrow> string \<Rightarrow> string \<times> (pod \<Rightarrow> string \<Rightarrow> 's option \<times> duration)
       \<Rightarrow> 's" where
  "refusal fw pod n s =
     (let st = fst (snd s pod n)
      in if IsUnschedulable fw st then WithFailedPlugin fw (the st) (fst s)
         else WithFailedPlugin fw
           (AsStatus fw (Some (Errorf ''running Permit plugin %q: %w'' [fst s] (AsError fw st)))) (fst s))"

definition waits ::
    "('s, 'c) framework \<Rightarrow> pod \<Rightarrow> string \<Rightarrow> (string \<times> (pod \<Rightarrow> string \<Rightarrow> 's option \<times> duration)) list
       \<Rightarrow> (string \<times> duration) list" where
  "waits fw pod n specs =
     map (\<lambda>s. (fst s, snd (snd s pod n))) (filter (\<lambda>s. Code fw (fst (snd s pod n)) = Wait) specs)"

lemma refusal_status:
  assumes "status_laws fw" and "refuses fw pod n s"
  shows "FailedPlugin fw (Some (refusal fw pod n s)) = fst s"
    and "Code fw (Some (refusal fw pod n s)) \<noteq> Success"
    and "Code fw (Some (refusal fw pod n s)) \<noteq> Wait"
    and "IsUnschedulable fw (Some (refusal fw pod n s)) \<longleftrightarrow> IsUnschedulable fw (fst (snd s pod n))"
proof -
  obtain x where "fst (snd s pod n) = Some x"
    using assms(2) by (cases "fst (snd s pod n)") (auto simp: refuses_def status_laws_simps [OF assms(1)])
  then show "FailedPlugin fw (Some (refusal fw pod n s)) = fst s"
    "Code fw (Some (refusal fw pod n s)) \<noteq> Success" "Code fw (Some (refusal fw pod n s)) \<noteq> Wait"
    "IsUnschedulable fw (Some (refusal fw pod n s)) \<longleftrightarrow> IsUnschedulable fw (fst (snd s pod n))"
    using assms(2) by (auto simp: refusal_def refuses_def Let_def status_laws_simps [OF assms(1)])
qed

lemma waits_simps [simp]:
  "waits fw pod n [] = []"
  "waits fw pod n (s # specs) =
     (if Code fw (fst (snd s pod n)) = Wait then [(fst s, snd (snd s pod n))] else []) @
       waits fw pod n specs"
  by (simp_all add: waits_def)

lemma permit_loop_stateless:
  assumes "status_laws fw"
  shows "permit_loop fw (map stateless_permit specs) pod n m c w =
     Inr (case find (refuses fw pod n) specs of
            Some s \<Rightarrow> Inl (Some (refusal fw pod n s))
          | None \<Rightarrow> Inr (m ++ map_of (rev (waits fw pod n specs)),
                          if waits fw pod n specs = [] then c else Wait), w)"
proof (induction specs arbitrary: m c)
  case Nil
  then show ?case by simp
next
  case (Cons s specs)
  have un: "\<not> IsUnschedulable fw (fst (snd s pod n))"
    if "Code fw (fst (snd s pod n)) = Success \<or> Code fw (fst (snd s pod n)) = Wait"
    using that IsUnschedulable_code [OF assms] by auto
  obtain x d where x: "snd s pod n = (x, d)" by (cases "snd s pod n")
  consider "Code fw x = Success" | "Code fw x = Wait" | "Code fw x \<noteq> Success" "Code fw x \<noteq> Wait"
    by blast
  then show ?case
  proof cases
    case 2
    then show ?thesis
      using Cons un x
      by (auto simp: refuses_def status_laws_simps [OF assms] map_add_upd_left
            split: option.split)
  next
    case 3
    then obtain y where "x = Some y" by (cases x) (auto simp: status_laws_simps [OF assms])
    with 3 x show ?thesis
      by (simp add: refuses_def refusal_def status_laws_simps [OF assms])
  qed (use Cons x in \<open>simp add: refuses_def status_laws_simps [OF assms] split: option.split\<close>)
qed

end
