(* ===== verification/Waiting_Pod.thy ===== *)
theory Waiting_Pod
  imports Framework
begin

text \<open>
  A pod in the permit phase, \<open>minisched/waitingpod/waitingpod.go\<close>: the plugins that must
  still allow it, each with the timer that rejects the pod when it expires, and a channel of
  capacity one for the verdict.  The methods hold the mutex, so each is one step; the step
  function \<open>wp_step\<close> interleaves them with the timers and with the goroutine that waits for
  the verdict.
\<close>

section \<open>State and operations\<close>

record timer =
  waitTime :: duration
  armed :: bool   \<comment> \<open>neither stopped nor expired\<close>

record 's waiting_pod =
  wpPod :: pod
  pendingPlugins :: "string \<rightharpoonup> timer"
  signal :: "'s list"   \<comment> \<open>the buffer of the channel\<close>

definition NewWaitingPod :: "pod \<Rightarrow> (string \<rightharpoonup> duration) \<Rightarrow> 's waiting_pod" where
  "NewWaitingPod pod pluginsMaxWaitTime =
     \<lparr>wpPod = pod,
      pendingPlugins =
        (\<lambda>plugin. map_option (\<lambda>d. \<lparr>waitTime = d, armed = True\<rparr>) (pluginsMaxWaitTime plugin)),
      signal = []\<rparr>"

text \<open>The message of the timer that \<open>NewWaitingPod\<close> arms for a plugin.\<close>

definition timeout_msg :: "duration \<Rightarrow> string \<Rightarrow> string" where
  "timeout_msg d plugin =
     ''rejected due to timeout after waiting '' @ Duration_String d @ '' at plugin '' @ plugin"

definition GetPod :: "'s waiting_pod \<Rightarrow> pod" where
  "GetPod w = wpPod w"

text \<open>\<open>GetSignal\<close> blocks while the channel is empty: \<open>None\<close>.\<close>

definition GetSignal :: "'s waiting_pod \<Rightarrow> ('s \<times> 's waiting_pod) option" where
  "GetSignal w =
     (case signal w of [] \<Rightarrow> None | st # rest \<Rightarrow> Some (st, w\<lparr>signal := rest\<rparr>))"

definition GetPendingPlugins :: "string list \<Rightarrow> 's waiting_pod \<Rightarrow> string list" where
  "GetPendingPlugins order w = filter (\<lambda>p. pendingPlugins w p \<noteq> None) order"

text \<open>The \<open>select\<close> with a \<open>default\<close>: a send that does nothing when the buffer is full.\<close>

definition send_nonblocking :: "'s \<Rightarrow> 's waiting_pod \<Rightarrow> 's waiting_pod" where
  "send_nonblocking st w = (if length (signal w) < 1 then w\<lparr>signal := signal w @ [st]\<rparr> else w)"

definition Allow :: "('s, 'c) framework \<Rightarrow> string \<Rightarrow> 's waiting_pod \<Rightarrow> 's waiting_pod" where
  "Allow fw pluginName w =
     (let w = (case pendingPlugins w pluginName of
                 Some timer \<Rightarrow> w\<lparr>pendingPlugins := (pendingPlugins w)(pluginName := None)\<rparr>
               | None \<Rightarrow> w)
      in if pendingPlugins w \<noteq> Map.empty then w
         else send_nonblocking (NewStatus fw Success []) w)"

definition Reject ::
    "('s, 'c) framework \<Rightarrow> string \<Rightarrow> string \<Rightarrow> 's waiting_pod \<Rightarrow> 's waiting_pod" where
  "Reject fw pluginName msg w =
     send_nonblocking (WithFailedPlugin fw (NewStatus fw Unschedulable msg) pluginName)
       (w\<lparr>pendingPlugins :=
           (\<lambda>p. map_option (\<lambda>t. t\<lparr>armed := False\<rparr>) (pendingPlugins w p))\<rparr>)"

section \<open>The waiting pod among its clients\<close>

text \<open>
  The events: a plugin allows or rejects the pod, a timer expires (its function starts in a
  goroutine of its own), that function runs, the goroutine of \<open>WaitOnPermit\<close> receives.
  \<open>calls\<close> records the calls of \<open>Allow\<close> and \<open>Reject\<close> in the order they took the mutex.
\<close>

datatype wp_call = CAllow string | CReject string string

datatype wp_event =
  EvAllow string | EvReject string string | EvExpire string | EvTimerFunc string | EvReceive

record 's wp_sys =
  wp :: "'s waiting_pod"
  expired :: "string list"
  received :: "'s option"
  calls :: "wp_call list"

definition wp_init :: "pod \<Rightarrow> (string \<rightharpoonup> duration) \<Rightarrow> 's wp_sys" where
  "wp_init pod m = \<lparr>wp = NewWaitingPod pod m, expired = [], received = None, calls = []\<rparr>"

definition wp_reject ::
    "('s, 'c) framework \<Rightarrow> string \<Rightarrow> string \<Rightarrow> 's wp_sys \<Rightarrow> 's wp_sys" where
  "wp_reject fw p msg x =
     x\<lparr>wp := Reject fw p msg (wp x), calls := calls x @ [CReject p msg]\<rparr>"

fun wp_step ::
    "('s, 'c) framework \<Rightarrow> (string \<rightharpoonup> duration) \<Rightarrow> wp_event \<Rightarrow> 's wp_sys \<Rightarrow> 's wp_sys" where
  "wp_step fw m (EvAllow p) x = x\<lparr>wp := Allow fw p (wp x), calls := calls x @ [CAllow p]\<rparr>"
| "wp_step fw m (EvReject p msg) x = wp_reject fw p msg x"
| "wp_step fw m (EvExpire p) x =
     (case pendingPlugins (wp x) p of
        None \<Rightarrow> x
      | Some t \<Rightarrow>
          if armed t
          then x\<lparr>wp := (wp x)\<lparr>pendingPlugins := (pendingPlugins (wp x))(p \<mapsto> t\<lparr>armed := False\<rparr>)\<rparr>,
                 expired := p # expired x\<rparr>
          else x)"
| "wp_step fw m (EvTimerFunc p) x =
     (if p \<in> set (expired x)
      then wp_reject fw p (timeout_msg (the (m p)) p) (x\<lparr>expired := remove1 p (expired x)\<rparr>)
      else x)"
| "wp_step fw m EvReceive x =
     (if received x \<noteq> None then x
      else case GetSignal (wp x) of
             None \<Rightarrow> x
           | Some (st, w) \<Rightarrow> x\<lparr>wp := w, received := Some st\<rparr>)"

primrec wp_run ::
    "('s, 'c) framework \<Rightarrow> (string \<rightharpoonup> duration) \<Rightarrow> wp_event list \<Rightarrow> 's wp_sys \<Rightarrow> 's wp_sys" where
  "wp_run fw m [] x = x"
| "wp_run fw m (e # es) x = wp_run fw m es (wp_step fw m e x)"

lemma wp_run_append: "wp_run fw m (es @ fs) x = wp_run fw m fs (wp_run fw m es x)"
  by (induction es arbitrary: x) simp_all

section \<open>The verdict\<close>

text \<open>
  The abstract contract: the plugins that have not allowed the pod, and the verdict of the
  calls made so far.  The first decisive call wins: a rejection, or the call that allows the
  last plugin that was missing.
\<close>

datatype verdict = Allowed | Rejected string string

fun verdict_of :: "string set \<Rightarrow> wp_call list \<Rightarrow> verdict option" where
  "verdict_of P [] = None"
| "verdict_of P (CReject p msg # cs) = Some (Rejected p msg)"
| "verdict_of P (CAllow p # cs) =
     (if P - {p} = {} then Some Allowed else verdict_of (P - {p}) cs)"

fun allowed_by :: "wp_call list \<Rightarrow> string set" where
  "allowed_by [] = {}"
| "allowed_by (CReject p msg # cs) = allowed_by cs"
| "allowed_by (CAllow p # cs) = insert p (allowed_by cs)"

primrec verdict_status :: "('s, 'c) framework \<Rightarrow> verdict \<Rightarrow> 's" where
  "verdict_status fw Allowed = NewStatus fw Success []"
| "verdict_status fw (Rejected p msg) = WithFailedPlugin fw (NewStatus fw Unschedulable msg) p"

lemma allowed_by_append: "allowed_by (cs @ ds) = allowed_by cs \<union> allowed_by ds"
  by (induction cs rule: allowed_by.induct) auto

lemma verdict_of_append:
  "verdict_of P (cs @ ds) =
     (case verdict_of P cs of None \<Rightarrow> verdict_of (P - allowed_by cs) ds | Some v \<Rightarrow> Some v)"
proof (induction P cs rule: verdict_of.induct)
  case (3 P p cs)
  have "P - insert p (allowed_by cs) = P - {p} - allowed_by cs" by auto
  with 3 show ?case by (cases "P - {p} = {}") (simp_all split: option.split)
qed simp_all

lemma verdict_of_None: "verdict_of P cs = None \<Longrightarrow> P \<noteq> {} \<Longrightarrow> P - allowed_by cs \<noteq> {}"
  by (induction P cs rule: verdict_of.induct) (auto split: if_splits)

lemma verdict_of_Allowed: "verdict_of P cs = Some Allowed \<Longrightarrow> P \<subseteq> allowed_by cs"
  by (induction P cs rule: verdict_of.induct) (auto split: if_splits)

text \<open>
  How the code's state stands to the calls made so far: before a verdict the missing plugins
  are pending, each with an armed timer or one that has expired and whose function will run;
  from the verdict on it is in the channel until it is received.
\<close>

definition wp_inv ::
    "('s, 'c) framework \<Rightarrow> (string \<rightharpoonup> duration) \<Rightarrow> 's wp_sys \<Rightarrow> bool" where
  "wp_inv fw m x \<longleftrightarrow>
     length (signal (wp x)) \<le> 1 \<and>
     dom (pendingPlugins (wp x)) = dom m - allowed_by (calls x) \<and>
     (case verdict_of (dom m) (calls x) of
        None \<Rightarrow> signal (wp x) = [] \<and> received x = None \<and>
          (\<forall>p t. pendingPlugins (wp x) p = Some t \<longrightarrow> armed t \<or> p \<in> set (expired x))
      | Some v \<Rightarrow>
          (case received x of
             None \<Rightarrow> signal (wp x) = [verdict_status fw v]
           | Some st \<Rightarrow> st = verdict_status fw v))"

lemma wp_inv_init: "wp_inv fw m (wp_init pod m)"
  by (auto simp: wp_inv_def wp_init_def NewWaitingPod_def dom_def)

lemma Allow_eq:
  "Allow fw p w =
     (if (pendingPlugins w)(p := None) \<noteq> Map.empty
      then w\<lparr>pendingPlugins := (pendingPlugins w)(p := None)\<rparr>
      else send_nonblocking (NewStatus fw Success [])
             (w\<lparr>pendingPlugins := (pendingPlugins w)(p := None)\<rparr>))"
proof (cases "pendingPlugins w p")
  case None
  then have "(pendingPlugins w)(p := None) = pendingPlugins w" by (metis fun_upd_triv)
  with None show ?thesis by (cases w) (simp add: Allow_def Let_def)
next
  case (Some t)
  then show ?thesis by (simp add: Allow_def Let_def)
qed

lemma Allow_sel [wp_simps]:
  "pendingPlugins (Allow fw p w) = (pendingPlugins w)(p := None)"
  "signal (Allow fw p w) =
     (if (pendingPlugins w)(p := None) = Map.empty \<and> signal w = []
      then [NewStatus fw Success []] else signal w)"
  unfolding Allow_eq send_nonblocking_def by simp_all

lemma Reject_sel [wp_simps]:
  "pendingPlugins (Reject fw p msg w) =
     (\<lambda>q. map_option (\<lambda>t. t\<lparr>armed := False\<rparr>) (pendingPlugins w q))"
  "signal (Reject fw p msg w) =
     (if signal w = [] then [WithFailedPlugin fw (NewStatus fw Unschedulable msg) p] else signal w)"
  by (simp_all add: Reject_def send_nonblocking_def)

lemma dom_upd_None_empty: "m(p := None) = Map.empty \<longleftrightarrow> dom m - {p} = {}"
  by (metis dom_eq_empty_conv dom_fun_upd)

lemma wp_inv_allow:
  assumes "wp_inv fw m x"
  shows "wp_inv fw m (wp_step fw m (EvAllow p) x)"
proof (cases "verdict_of (dom m) (calls x)")
  case None
  with assms show ?thesis
    by (auto simp: wp_inv_def wp_simps verdict_of_append allowed_by_append dom_upd_None_empty
          split: if_splits)
next
  case (Some v)
  with assms show ?thesis
    by (auto simp: wp_inv_def wp_simps verdict_of_append allowed_by_append split: option.splits)
qed

lemma dom_Reject: "dom (pendingPlugins (Reject fw p msg w)) = dom (pendingPlugins w)"
  by (auto simp: wp_simps dom_def)

lemma wp_inv_reject:
  assumes "wp_inv fw m x"
  shows "wp_inv fw m (wp_reject fw p msg (x\<lparr>expired := ps\<rparr>))"
  using assms
  by (auto simp: wp_inv_def wp_reject_def dom_Reject Reject_sel(2) verdict_of_append
        allowed_by_append split: option.splits)

lemma wp_inv_step:
  assumes "wp_inv fw m x"
  shows "wp_inv fw m (wp_step fw m e x)"
proof (cases e)
  case (EvAllow p)
  then show ?thesis using wp_inv_allow [OF assms] by simp
next
  case (EvReject p msg)
  then show ?thesis using wp_inv_reject [OF assms, of p msg "expired x"] by simp
next
  case (EvExpire p)
  with assms show ?thesis
    by (auto simp: wp_inv_def split: option.splits)
next
  case (EvTimerFunc p)
  then show ?thesis using assms wp_inv_reject [OF assms] by simp
next
  case EvReceive
  with assms show ?thesis
    by (auto simp: wp_inv_def GetSignal_def split: option.splits list.splits)
qed

lemma wp_inv_run: "wp_inv fw m x \<Longrightarrow> wp_inv fw m (wp_run fw m es x)"
  by (induction es arbitrary: x) (simp_all add: wp_inv_step)


lemma wp_inv_reachable: "wp_inv fw m (wp_run fw m es (wp_init pod m))"
  by (rule wp_inv_run) (rule wp_inv_init)

lemma wp_inv_success:
  assumes "status_laws fw" and "wp_inv fw m x" and "received x = Some st"
    and "Code fw (Some st) = Success"
  shows "dom m \<subseteq> allowed_by (calls x)"
proof -
  obtain v where v: "verdict_of (dom m) (calls x) = Some v" and st: "st = verdict_status fw v"
    using assms(2,3) by (auto simp: wp_inv_def split: option.splits)
  have "v = Allowed"
    using assms(4) st by (cases v) (auto simp: status_laws_simps [OF assms(1)])
  with v show ?thesis by (simp add: verdict_of_Allowed)
qed

text \<open>
  C9: the goroutine that waits for the permit phase receives the verdict of the first decisive
  call, under every interleaving of the plugins, the timers and the receiver: calls that come
  later neither replace it in the channel nor block.
\<close>

theorem waiting_pod_first_verdict:
  assumes "received (wp_run fw m es (wp_init pod m)) = Some st"
  shows "map_option (verdict_status fw)
           (verdict_of (dom m) (calls (wp_run fw m es (wp_init pod m)))) = Some st"
  using wp_inv_reachable [of fw m es pod] assms by (auto simp: wp_inv_def split: option.splits)

theorem waiting_pod_first_verdict_witness:
  "map_option (verdict_status sample_framework)
     (verdict_of (dom [''N'' \<mapsto> Second]) (calls (wp_run sample_framework [''N'' \<mapsto> Second]
        [EvReject ''N'' ''no'', EvAllow ''N'', EvReceive]
        (wp_init (sample_pod ''p'') [''N'' \<mapsto> Second])))) =
   Some \<lparr>smpCode = Unschedulable, smpMessage = ''no'', smpPlugin = ''N'', smpErr = None\<rparr>"
  by (rule waiting_pod_first_verdict)
     (simp add: wp_init_def NewWaitingPod_def wp_reject_def Reject_def Allow_eq
        send_nonblocking_def GetSignal_def fun_eq_iff)

text \<open>
  A pod passes the permit phase only after every plugin that asked to wait has allowed it.
\<close>

theorem waiting_pod_success_allowed:
  assumes "status_laws fw"
    and "received (wp_run fw m es (wp_init pod m)) = Some st" and "Code fw (Some st) = Success"
  shows "dom m \<subseteq> allowed_by (calls (wp_run fw m es (wp_init pod m)))"
  by (rule wp_inv_success [OF assms(1) wp_inv_reachable assms(2,3)])

theorem waiting_pod_success_allowed_witness:
  "dom [''N'' \<mapsto> Second] \<subseteq> allowed_by (calls (wp_run sample_framework [''N'' \<mapsto> Second]
     [EvAllow ''N'', EvReceive] (wp_init (sample_pod ''p'') [''N'' \<mapsto> Second])))"
  by (rule waiting_pod_success_allowed [OF sample_laws(1)],
      simp add: wp_init_def NewWaitingPod_def Allow_eq send_nonblocking_def GetSignal_def
        fun_eq_iff)
     simp

text \<open>
  When no call was decisive yet, the expiry of a pending plugin's timer is: its function
  rejects the pod.  Once a call was decisive the receiver gets its verdict.
\<close>

lemma wp_step_calls: "\<exists>cs. calls (wp_step fw m e x) = calls x @ cs"
  by (cases e) (auto simp: wp_reject_def GetSignal_def split: option.splits list.splits)

lemma wp_step_decided:
  assumes "verdict_of P (calls x) = Some v"
  shows "verdict_of P (calls (wp_step fw m e x)) = Some v"
proof -
  obtain cs where "calls (wp_step fw m e x) = calls x @ cs"
    using wp_step_calls by blast
  with assms show ?thesis by (simp add: verdict_of_append)
qed

lemma wp_receive_decided:
  assumes "wp_inv fw m x" and "verdict_of (dom m) (calls x) = Some v"
  shows "received (wp_step fw m EvReceive x) \<noteq> None"
  using assms by (auto simp: wp_inv_def GetSignal_def split: option.splits)

lemma wp_expire_decides:
  assumes "wp_inv fw m x" and "verdict_of (dom m) (calls x) = None"
    and "pendingPlugins (wp x) p = Some t"
  shows "\<exists>v. verdict_of (dom m)
           (calls (wp_step fw m (EvTimerFunc p) (wp_step fw m (EvExpire p) x))) = Some v"
proof -
  have "armed t \<or> p \<in> set (expired x)"
    using assms by (auto simp: wp_inv_def)
  then have "p \<in> set (expired (wp_step fw m (EvExpire p) x))"
    using assms(3) by auto
  moreover have "calls (wp_step fw m (EvExpire p) x) = calls x"
    by (simp split: option.split)
  ultimately show ?thesis
    using assms(2) by (simp add: wp_reject_def verdict_of_append del: wp_step.simps(3))
qed

lemma wp_timers_decide:
  assumes "wp_inv fw m x" and "dom m \<noteq> {}"
  shows "\<exists>p \<in> dom m. \<exists>v. verdict_of (dom m)
           (calls (wp_step fw m (EvTimerFunc p) (wp_step fw m (EvExpire p) x))) = Some v"
proof (cases "verdict_of (dom m) (calls x)")
  case None
  then have "dom (pendingPlugins (wp x)) \<noteq> {}"
    using assms(1) verdict_of_None [OF None assms(2)] by (simp add: wp_inv_def)
  then obtain p t where "pendingPlugins (wp x) p = Some t" by blast
  moreover from this have "p \<in> dom m" using assms(1) by (auto simp: wp_inv_def)
  ultimately show ?thesis using wp_expire_decides [OF assms(1) None] by blast
next
  case (Some v)
  with assms(2) show ?thesis using wp_step_decided by blast
qed

text \<open>
  A waiting pod never waits for ever.  If some plugin asked to wait, then from every
  reachable state the timers alone unblock the receiver: a timer expires, its function runs,
  and the receiver has a verdict, whatever the plugins do.
\<close>

theorem waiting_pod_unblocks:
  assumes "dom m \<noteq> {}"
  shows "\<exists>p \<in> dom m. received (wp_run fw m [EvExpire p, EvTimerFunc p, EvReceive]
           (wp_run fw m es (wp_init pod m))) \<noteq> None"
proof -
  let ?x = "wp_run fw m es (wp_init pod m)"
  let ?y = "\<lambda>p. wp_step fw m (EvTimerFunc p) (wp_step fw m (EvExpire p) ?x)"
  have inv: "wp_inv fw m ?x" by (rule wp_inv_reachable)
  obtain p v where p: "p \<in> dom m" and v: "verdict_of (dom m) (calls (?y p)) = Some v"
    using wp_timers_decide [OF inv assms] by blast
  have "wp_inv fw m (?y p)" by (intro wp_inv_step inv)
  from wp_receive_decided [OF this v]
  have "received (wp_run fw m [EvExpire p, EvTimerFunc p, EvReceive] ?x) \<noteq> None"
    by (simp del: wp_step.simps)
  with p show ?thesis by blast
qed

theorem waiting_pod_unblocks_witness:
  "\<exists>p \<in> dom [''N'' \<mapsto> Second]. received (wp_run sample_framework [''N'' \<mapsto> Second]
           [EvExpire p, EvTimerFunc p, EvReceive]
           (wp_run sample_framework [''N'' \<mapsto> Second] []
             (wp_init (sample_pod ''p'') [''N'' \<mapsto> Second]))) \<noteq> None"
  by (rule waiting_pod_unblocks) simp

end
