(* ===== verification/Select_Host.thy ===== *)
theory Select_Host
  imports Framework
begin

text \<open>
  \<open>selectHost\<close> of \<open>minisched/minisched.go\<close>: one pass over the scores that keeps a node of
  maximal score, and replaces it by the \<open>n\<close>-th node of that score with probability
  \<open>1/n\<close>.  The outcomes of \<open>rand.Intn\<close> are an argument: \<open>rnd k\<close> is the result of call
  \<open>k\<close>.  The lemmas show that the result has maximal score whatever the outcomes, and that
  every node of maximal score is the result of equally many outcomes.
\<close>

section \<open>The code\<close>

record select_state =
  maxScore :: int64
  selected :: string
  cntOfMaxScore :: nat
  intnArgs :: "nat list"   \<comment> \<open>the arguments of the calls of \<open>rand.Intn\<close> so far\<close>

definition select_step :: "(nat \<Rightarrow> nat) \<Rightarrow> select_state \<Rightarrow> node_score \<Rightarrow> select_state" where
  "select_step rnd st ns =
     (if sint (maxScore st) < sint (nsScore ns)
      then st\<lparr>maxScore := nsScore ns, selected := nsName ns, cntOfMaxScore := 1\<rparr>
      else if nsScore ns = maxScore st
      then
        let cnt = cntOfMaxScore st + 1;
            st' = st\<lparr>cntOfMaxScore := cnt, intnArgs := intnArgs st @ [cnt]\<rparr>
        in if rnd (length (intnArgs st)) = 0 then st'\<lparr>selected := nsName ns\<rparr> else st'
      else st)"

definition select_init :: "node_score \<Rightarrow> select_state" where
  "select_init ns =
     \<lparr>maxScore = nsScore ns, selected = nsName ns, cntOfMaxScore = 1, intnArgs = []\<rparr>"

definition selectHost :: "(nat \<Rightarrow> nat) \<Rightarrow> node_score list \<Rightarrow> goerror + string" where
  "selectHost rnd nodeScoreList =
     (case nodeScoreList of
        [] \<Rightarrow> Inl (ErrorString ''empty priorityList'')
      | ns # rest \<Rightarrow> Inr (selected (foldl (select_step rnd) (select_init ns) rest)))"

section \<open>The selected node has maximal score\<close>

lemma sint_eq_iff: "x = y \<longleftrightarrow> sint x = sint y" for x y :: int64
  by (rule word_eq_iff_signed)

definition best_scores :: "node_score list \<Rightarrow> node_score list" where
  "best_scores xs =
     filter (\<lambda>ns. list_all (\<lambda>ns'. sint (nsScore ns') \<le> sint (nsScore ns)) xs) xs"

definition select_inv :: "node_score list \<Rightarrow> select_state \<Rightarrow> bool" where
  "select_inv xs st \<longleftrightarrow>
     (\<exists>ns \<in> set xs. nsName ns = selected st \<and> nsScore ns = maxScore st) \<and>
     (\<forall>ns \<in> set xs. sint (nsScore ns) \<le> sint (maxScore st)) \<and>
     cntOfMaxScore st = length (filter (\<lambda>ns. nsScore ns = maxScore st) xs)"

lemma select_inv_init: "select_inv [ns] (select_init ns)"
  by (simp add: select_inv_def select_init_def)

lemma select_inv_step:
  assumes "select_inv xs st"
  shows "select_inv (xs @ [ns]) (select_step rnd st ns)"
proof -
  have eq: "nsScore ns = maxScore st \<longleftrightarrow> sint (nsScore ns) = sint (maxScore st)"
    by (simp add: sint_eq_iff)
  consider "sint (maxScore st) < sint (nsScore ns)" | "nsScore ns = maxScore st"
    | "sint (nsScore ns) < sint (maxScore st)"
    using eq by linarith
  then show ?thesis
  proof cases
    case 1
    have "nsScore x \<noteq> nsScore ns" if "x \<in> set xs" for x
      using assms that 1 unfolding sint_eq_iff by (auto simp: select_inv_def)
    then have "filter (\<lambda>x. nsScore x = nsScore ns) xs = []"
      by (simp add: filter_empty_conv)
    with 1 assms show ?thesis
      by (auto simp: select_inv_def select_step_def)
  next
    case 2
    with assms show ?thesis
      by (auto simp: select_inv_def select_step_def Let_def)
  next
    case 3
    with assms eq show ?thesis
      by (auto simp: select_inv_def select_step_def)
  qed
qed

lemma select_inv_foldl:
  "select_inv (ns # xs) (foldl (select_step rnd) (select_init ns) xs)"
proof (induction xs rule: rev_induct)
  case Nil
  then show ?case by (simp add: select_inv_init)
next
  case (snoc x xs)
  from select_inv_step [OF this, of x rnd] show ?case by simp
qed

lemma select_invD:
  assumes "select_inv xs st"
  obtains m where "m \<in> set xs" and "nsName m = selected st" and "nsScore m = maxScore st"
  using assms by (auto simp: select_inv_def)

lemma best_scores_inv:
  assumes "select_inv xs st"
  shows "best_scores xs = filter (\<lambda>ns. nsScore ns = maxScore st) xs"
  unfolding best_scores_def
proof (rule filter_cong [OF refl])
  fix ns assume ns: "ns \<in> set xs"
  have max: "sint (nsScore x) \<le> sint (maxScore st)" if "x \<in> set xs" for x
    using assms that by (simp add: select_inv_def)
  from assms obtain m where m: "m \<in> set xs" "nsScore m = maxScore st"
    by (rule select_invD)
  show "list_all (\<lambda>ns'. sint (nsScore ns') \<le> sint (nsScore ns)) xs \<longleftrightarrow>
      nsScore ns = maxScore st"
  proof
    assume "list_all (\<lambda>ns'. sint (nsScore ns') \<le> sint (nsScore ns)) xs"
    then have "sint (maxScore st) \<le> sint (nsScore ns)"
      using m by (auto simp: list_all_iff)
    then show "nsScore ns = maxScore st"
      using max [OF ns] unfolding sint_eq_iff by (rule order_antisym [rotated])
  qed (use max in \<open>simp add: list_all_iff\<close>)
qed

lemma selected_best:
  assumes "select_inv xs st"
  shows "selected st \<in> nsName ` set (best_scores xs)"
proof -
  from assms obtain m where "m \<in> set xs" "nsName m = selected st" "nsScore m = maxScore st"
    by (rule select_invD)
  then have "m \<in> set (best_scores xs)" unfolding best_scores_inv [OF assms] by simp
  then show ?thesis by (rule rev_image_eqI) (simp add: \<open>nsName m = selected st\<close>)
qed

text \<open>
  \<open>selectHost\<close> fails exactly on an empty list of scores, and otherwise returns a node
  whose score no other exceeds, whatever the random outcomes.
\<close>

theorem selectHost_maximal:
  "case selectHost rnd xs of
     Inl e \<Rightarrow> xs = [] \<and> e = ErrorString ''empty priorityList''
   | Inr name \<Rightarrow> xs \<noteq> [] \<and> name \<in> nsName ` set (best_scores xs)"
proof (cases xs)
  case (Cons ns rest)
  with selected_best [OF select_inv_foldl, of rnd ns rest] show ?thesis
    by (simp add: selectHost_def)
qed (simp add: selectHost_def)

section \<open>The random outcomes\<close>

text \<open>
  \<open>rand.Intn(n)\<close> returns each of \<open>0, ..., n - 1\<close> with the same probability.  Which calls
  are made, and with which arguments, depends on the scores only; the outcomes of the calls
  with arguments \<open>bs\<close> are the lists \<open>outcomes bs\<close>, all equally probable.
\<close>

definition outcomes :: "nat list \<Rightarrow> nat list set" where
  "outcomes bs = {rs. list_all2 (<) rs bs}"

definition intn_args :: "node_score list \<Rightarrow> nat list" where
  "intn_args xs =
     (case xs of [] \<Rightarrow> [] | ns # rest \<Rightarrow> intnArgs (foldl (select_step (\<lambda>_. 0)) (select_init ns) rest))"

definition append_choices :: "nat list set \<Rightarrow> nat set \<Rightarrow> nat list set" where
  "append_choices A B = (\<lambda>(rs, r). rs @ [r]) ` (A \<times> B)"

lemma card_append_choices: "card (append_choices A B) = card A * card B"
proof -
  have "inj_on (\<lambda>(rs, r). rs @ [r]) (A \<times> B)" by (auto simp: inj_on_def)
  then show ?thesis by (simp add: append_choices_def card_image card_cartesian_product)
qed

lemma outcomes_Nil: "outcomes [] = {[]}"
  by (simp add: outcomes_def)

lemma outcomes_snoc: "outcomes (bs @ [b]) = append_choices (outcomes bs) {..<b}"
proof -
  have "rs \<in> append_choices (outcomes bs) {..<b}" if "list_all2 (<) rs (bs @ [b])" for rs
  proof -
    from that obtain us r where "rs = us @ [r]" "list_all2 (<) us bs" "r < b"
      by (auto simp: list_all2_append2 list_all2_Cons2)
    then show ?thesis by (auto simp: append_choices_def outcomes_def)
  qed
  then show ?thesis
    by (auto simp: append_choices_def outcomes_def list_all2_appendI)
qed

lemma outcomes_length: "rs \<in> outcomes bs \<Longrightarrow> length rs = length bs"
  by (simp add: outcomes_def list_all2_lengthD)

text \<open>The outcomes of the calls still to come do not change the state.\<close>

lemma select_step_cong:
  assumes "\<And>k. k < length (intnArgs (select_step rnd' st x)) \<Longrightarrow> rnd k = rnd' k"
  shows "select_step rnd st x = select_step rnd' st x"
  using assms by (auto simp: select_step_def Let_def split: if_splits)

lemma select_step_args: "length (intnArgs st) \<le> length (intnArgs (select_step rnd st x))"
  by (simp add: select_step_def Let_def)

lemma foldl_select_cong:
  assumes "\<And>k. k < length (intnArgs (foldl (select_step rnd') st xs)) \<Longrightarrow> rnd k = rnd' k"
  shows "foldl (select_step rnd) st xs = foldl (select_step rnd') st xs"
  using assms
proof (induction xs rule: rev_induct)
  case (snoc x xs)
  have "foldl (select_step rnd) st xs = foldl (select_step rnd') st xs"
    using snoc.prems order_less_le_trans [OF _ select_step_args] by (intro snoc.IH) simp
  moreover have "select_step rnd (foldl (select_step rnd') st xs) x =
      select_step rnd' (foldl (select_step rnd') st xs) x"
    using snoc.prems by (intro select_step_cong) simp
  ultimately show ?case by simp
qed simp

lemma foldl_select_scores:
  "maxScore (foldl (select_step rnd) st xs) = maxScore (foldl (select_step rnd') st xs) \<and>
   cntOfMaxScore (foldl (select_step rnd) st xs) = cntOfMaxScore (foldl (select_step rnd') st xs) \<and>
   intnArgs (foldl (select_step rnd) st xs) = intnArgs (foldl (select_step rnd') st xs)"
  by (induction xs rule: rev_induct) (auto simp: select_step_def Let_def)

lemma foldl_select_append:
  assumes "length rs = length (intnArgs (foldl (select_step (\<lambda>_. 0)) st xs))"
  shows "foldl (select_step (nth (rs @ ts))) st xs = foldl (select_step (nth rs)) st xs"
proof (rule foldl_select_cong)
  fix k assume "k < length (intnArgs (foldl (select_step (nth rs)) st xs))"
  then have "k < length rs"
    using assms foldl_select_scores [of "nth rs" st xs "\<lambda>_. 0"] by simp
  then show "(rs @ ts) ! k = rs ! k" by (simp add: nth_append)
qed

definition wins :: "node_score \<Rightarrow> node_score list \<Rightarrow> string \<Rightarrow> nat list set" where
  "wins ns xs name =
     {rs \<in> outcomes (intn_args (ns # xs)).
        selected (foldl (select_step (nth rs)) (select_init ns) xs) = name}"

lemma wins_snoc_tie:
  assumes "nsScore x = maxScore (foldl (select_step (\<lambda>_. 0)) (select_init ns) xs)"
  defines "c \<equiv> cntOfMaxScore (foldl (select_step (\<lambda>_. 0)) (select_init ns) xs)"
  shows "intn_args (ns # xs @ [x]) = intn_args (ns # xs) @ [c + 1]"
    and "wins ns (xs @ [x]) name =
      append_choices (outcomes (intn_args (ns # xs))) (if name = nsName x then {0} else {}) \<union>
      append_choices (wins ns xs name) {1..<c + 1}"
proof -
  let ?st = "\<lambda>rs. foldl (select_step (nth rs)) (select_init ns) xs"
  let ?bs = "intn_args (ns # xs)"
  show args: "intn_args (ns # xs @ [x]) = ?bs @ [c + 1]"
    using assms by (simp add: intn_args_def select_step_def Let_def)
  have sel: "selected (foldl (select_step (nth (rs @ [r]))) (select_init ns) (xs @ [x])) =
      (if r = 0 then nsName x else selected (?st rs))" if "rs \<in> outcomes ?bs" for rs r
  proof -
    have len: "length rs = length (intnArgs (foldl (select_step (\<lambda>_. 0)) (select_init ns) xs))"
      using outcomes_length [OF that] by (simp add: intn_args_def)
    have sc: "maxScore (?st rs) = nsScore x" "length (intnArgs (?st rs)) = length rs"
      using foldl_select_scores [of "nth rs" "select_init ns" xs "\<lambda>_. 0"] assms(1) len by simp_all
    show ?thesis
      by (simp add: foldl_select_append [OF len] select_step_def Let_def sc)
  qed
  have "wins ns (xs @ [x]) name =
      {us \<in> append_choices (outcomes ?bs) {..<c + 1}.
         selected (foldl (select_step (nth us)) (select_init ns) (xs @ [x])) = name}"
    unfolding wins_def by (simp only: args outcomes_snoc append_Cons)
  also have "\<dots> = append_choices (outcomes ?bs) (if name = nsName x then {0} else {}) \<union>
      append_choices (wins ns xs name) {1..<c + 1}"
    unfolding append_choices_def wins_def
    by (auto simp: sel image_iff simp del: foldl_append split: if_splits)
  finally show "wins ns (xs @ [x]) name =
      append_choices (outcomes ?bs) (if name = nsName x then {0} else {}) \<union>
      append_choices (wins ns xs name) {1..<c + 1}" .
qed

lemma wins_snoc_no_call:
  assumes "nsScore x \<noteq> maxScore (foldl (select_step (\<lambda>_. 0)) (select_init ns) xs)"
  shows "intn_args (ns # xs @ [x]) = intn_args (ns # xs)"
    and "wins ns (xs @ [x]) name =
      (if sint (maxScore (foldl (select_step (\<lambda>_. 0)) (select_init ns) xs)) < sint (nsScore x)
       then (if name = nsName x then outcomes (intn_args (ns # xs)) else {})
       else wins ns xs name)"
proof -
  let ?st = "\<lambda>rs. foldl (select_step (nth rs)) (select_init ns) xs"
  show args: "intn_args (ns # xs @ [x]) = intn_args (ns # xs)"
    using assms by (simp add: intn_args_def select_step_def)
  have "selected (select_step (nth rs) (?st rs) x) =
     (if sint (maxScore (foldl (select_step (\<lambda>_. 0)) (select_init ns) xs)) < sint (nsScore x)
      then nsName x else selected (?st rs))" for rs
    using foldl_select_scores [of "nth rs" "select_init ns" xs "\<lambda>_. 0"] assms
    by (simp add: select_step_def)
  then show "wins ns (xs @ [x]) name =
      (if sint (maxScore (foldl (select_step (\<lambda>_. 0)) (select_init ns) xs)) < sint (nsScore x)
       then (if name = nsName x then outcomes (intn_args (ns # xs)) else {})
       else wins ns xs name)"
    by (auto simp: wins_def args)
qed

lemma best_scores_snoc:
  assumes "select_inv xs st"
  shows "best_scores (xs @ [x]) =
    (if sint (maxScore st) < sint (nsScore x) then [x]
     else if nsScore x = maxScore st then best_scores xs @ [x] else best_scores xs)"
proof -
  have step: "select_inv (xs @ [x]) (select_step (\<lambda>_. 0) st x)"
    by (rule select_inv_step [OF assms])
  have "nsScore y \<noteq> nsScore x" if "y \<in> set xs" "sint (maxScore st) < sint (nsScore x)" for y
    using assms that unfolding sint_eq_iff by (auto simp: select_inv_def)
  then show ?thesis
    unfolding best_scores_inv [OF step] best_scores_inv [OF assms]
    by (auto simp: select_step_def Let_def filter_empty_conv)
qed

lemma wins_uniform:
  assumes "distinct (map nsName (ns # xs))"
    and "name \<in> nsName ` set (best_scores (ns # xs))"
  shows "card (wins ns xs name) * length (best_scores (ns # xs)) =
           card (outcomes (intn_args (ns # xs)))"
  using assms
proof (induction xs arbitrary: name rule: rev_induct)
  case Nil
  then have "wins ns [] name = {[]}"
    by (auto simp: wins_def intn_args_def outcomes_Nil select_init_def best_scores_def)
  then show ?case by (simp add: intn_args_def select_init_def outcomes_Nil best_scores_def)
next
  case (snoc x xs)
  let ?st = "foldl (select_step (\<lambda>_. 0)) (select_init ns) xs"
  let ?best = "best_scores (ns # xs)" and ?T = "card (outcomes (intn_args (ns # xs)))"
  have inv: "select_inv (ns # xs) ?st" by (rule select_inv_foldl)
  have best: "best_scores (ns # xs @ [x]) =
      (if sint (maxScore ?st) < sint (nsScore x) then [x]
       else if nsScore x = maxScore ?st then ?best @ [x] else ?best)"
    using best_scores_snoc [OF inv, of x] by simp
  have IH: "card (wins ns xs name) * length ?best = ?T" if "name \<in> nsName ` set ?best" for name
    using snoc.IH [OF _ that] snoc.prems(1) by simp
  show ?case
  proof (cases "nsScore x = maxScore ?st")
    case False
    show ?thesis
    proof (cases "sint (maxScore ?st) < sint (nsScore x)")
      case True
      then show ?thesis
        using snoc.prems(2) unfolding best wins_snoc_no_call [OF False] by simp
    next
      case low: False
      then show ?thesis
        using snoc.prems(2) IH [of name] False unfolding best wins_snoc_no_call [OF False] by simp
    qed
  next
    case True
    have len: "cntOfMaxScore ?st = length ?best"
      using inv unfolding best_scores_inv [OF inv] by (simp add: select_inv_def)
    have fresh: "nsName x \<notin> nsName ` set (ns # xs)" using snoc.prems(1) by auto
    have sub: "set ?best \<subseteq> set (ns # xs)" by (auto simp: best_scores_def)
    have T: "card (outcomes (intn_args (ns # xs @ [x]))) = ?T * (length ?best + 1)"
      unfolding wins_snoc_tie(1) [OF True] outcomes_snoc card_append_choices len by simp
    have "card (wins ns (xs @ [x]) name) = ?T"
    proof (cases "name = nsName x")
      case new: True
      have "selected (foldl (select_step rnd) (select_init ns) xs) \<in> nsName ` set (ns # xs)" for rnd
        using selected_best [OF select_inv_foldl, of rnd ns xs] sub by blast
      then have "selected (foldl (select_step rnd) (select_init ns) xs) \<noteq> name" for rnd
        using new fresh by metis
      then have "wins ns xs name = {}"
        by (simp add: wins_def)
      then show ?thesis
        unfolding wins_snoc_tie(2) [OF True] using new
        by (simp add: card_append_choices append_choices_def [of "{}"])
    next
      case old: False
      then have "name \<in> nsName ` set ?best" using snoc.prems(2) True unfolding best by auto
      then show ?thesis
        unfolding wins_snoc_tie(2) [OF True] len using old IH
        by (simp add: card_append_choices append_choices_def [of _ "{}"])
    qed
    then show ?thesis using True unfolding T best by simp
  qed
qed

text \<open>
  C15: among nodes of equal maximal score the choice is uniform: with distinct node names, each
  of them is the result of the same number of equally likely outcomes of \<open>rand.Intn\<close>, the
  total divided by the number of such nodes.
\<close>

theorem selectHost_uniform:
  assumes "distinct (map nsName xs)" and "name \<in> nsName ` set (best_scores xs)"
  shows "card {rs \<in> outcomes (intn_args xs). selectHost (nth rs) xs = Inr name} *
           length (best_scores xs) =
         card (outcomes (intn_args xs))"
proof (cases xs)
  case (Cons ns rest)
  then have "{rs \<in> outcomes (intn_args xs). selectHost (nth rs) xs = Inr name} = wins ns rest name"
    by (simp add: wins_def selectHost_def)
  then show ?thesis using wins_uniform assms unfolding Cons by metis
qed (use assms(2) in \<open>simp add: best_scores_def\<close>)

theorem selectHost_uniform_witness:
  "card {rs \<in> outcomes (intn_args [\<lparr>nsName = ''a'', nsScore = 10\<rparr>, \<lparr>nsName = ''b'', nsScore = 10\<rparr>]).
          selectHost (nth rs) [\<lparr>nsName = ''a'', nsScore = 10\<rparr>, \<lparr>nsName = ''b'', nsScore = 10\<rparr>] =
            Inr ''b''} * 2 =
   card (outcomes (intn_args [\<lparr>nsName = ''a'', nsScore = 10\<rparr>, \<lparr>nsName = ''b'', nsScore = 10\<rparr>]))"
  using selectHost_uniform
    [of "[\<lparr>nsName = ''a'', nsScore = 10\<rparr>, \<lparr>nsName = ''b'', nsScore = 10\<rparr>]" "''b''"]
  by (simp add: best_scores_def)

end
