(* ===== verification/Node_Number.thy ===== *)
theory Node_Number
  imports Plugin_Runs Waiting_Pod
begin

text \<open>
  The plugin \<open>NodeNumber\<close>, \<open>minisched/plugins/score/nodenumber/nodenumber.go\<close>: it prefers
  nodes whose name ends in the same digit as the name of the pod (\<open>PreScore\<close>, \<open>Score\<close>)
  and delays the binding by the digit of the node in seconds (\<open>Permit\<close>).  The plugins'
  shared state is the cycle state of the scheduling cycle and, for this plugin, the functions
  that \<open>time.AfterFunc\<close> will run.
\<close>

record ('c, 'x) plugin_world =
  cycleState :: 'c
  pluginState :: 'x

text \<open>
  \<open>afHandle\<close> identifies the scheduler that was passed to \<open>New\<close> as the
  \<open>waitingpod.Handle\<close>, in which the function looks the waiting pod up.
\<close>

record after_func =
  afDelay :: duration
  afHandle :: nat
  afUID :: string
  afPlugin :: string

record node_number =
  nnHandle :: nat

definition Name :: string where
  "Name = ''NodeNumber''"

definition preScoreStateKey :: string where
  "preScoreStateKey = ''PreScore'' @ Name"

definition NodeNumber_New :: "nat \<Rightarrow> node_number \<times> goerror option" where
  "NodeNumber_New h = (\<lparr>nnHandle = h\<rparr>, None)"

definition NodeNumber_PreScore ::
    "('s, 'c) framework \<Rightarrow> pod \<Rightarrow> node list \<Rightarrow> (('c, 'x) plugin_world, 's option) go" where
  "NodeNumber_PreScore fw pod nodes w =
     (case last_char_slice (podName pod) of
        Inl e \<Rightarrow> Inl e
      | Inr podNameLastChar \<Rightarrow>
          (case Atoi podNameLastChar of
             None \<Rightarrow> Inr (None, w)
           | Some podnum \<Rightarrow>
               Inr (None, w\<lparr>cycleState :=
                 stateWrite fw (cycleState w) preScoreStateKey (PreScoreState podnum)\<rparr>)))"

definition NodeNumber_EventsToRegister :: "('s, 'c) framework \<Rightarrow> cluster_event list" where
  "NodeNumber_EventsToRegister fw =
     [\<lparr>Resource = NodeGVK fw, ActionType = ActionAdd fw, Label = []\<rparr>]"

definition NodeNumber_Score ::
    "('s, 'c) framework \<Rightarrow> pod \<Rightarrow> string \<Rightarrow> (('c, 'x) plugin_world, int64 \<times> 's option) go" where
  "NodeNumber_Score fw pod nodename w =
     (case stateRead fw (cycleState w) preScoreStateKey of
        Inl err \<Rightarrow> Inr ((0, Some (AsStatus fw (Some err))), w)
      | Inr (ForeignData d) \<Rightarrow> Inl (PanicMsg ''interface conversion'')
      | Inr (PreScoreState podSuffixNumber) \<Rightarrow>
          (case last_char_slice nodename of
             Inl e \<Rightarrow> Inl e
           | Inr nodeNameLastChar \<Rightarrow>
               (case Atoi nodeNameLastChar of
                  None \<Rightarrow> Inr ((0, None), w)
                | Some nodenum \<Rightarrow>
                    if podSuffixNumber = nodenum then Inr ((10, None), w)
                    else Inr ((0, None), w))))"

definition NodeNumber_Permit ::
    "('s, 'c) framework \<Rightarrow> node_number \<Rightarrow> pod \<Rightarrow> string
       \<Rightarrow> (('c, after_func list) plugin_world, 's option \<times> duration) go" where
  "NodeNumber_Permit fw pl p nodename w =
     (case last_char_slice nodename of
        Inl e \<Rightarrow> Inl e
      | Inr nodeNameLastChar \<Rightarrow>
          (case Atoi nodeNameLastChar of
             None \<Rightarrow> Inr ((None, 0), w)
           | Some nodenum \<Rightarrow>
               let w = w\<lparr>pluginState := pluginState w @
                     [\<lparr>afDelay = of_int nodenum * Second, afHandle = nnHandle pl,
                       afUID = podUID p, afPlugin = Name\<rparr>]\<rparr>;
                   timeout = 10 * Second
               in Inr ((Some (NewStatus fw Wait []), timeout), w)))"

text \<open>
  The function of \<open>time.AfterFunc\<close>: \<open>waiting\<close> is what \<open>GetWaitingPod\<close> returns; \<open>Allow\<close> on
  a nil waiting pod takes the mutex of a nil struct and panics.
\<close>

definition delayed_allow ::
    "('s, 'c) framework \<Rightarrow> string \<Rightarrow> 's waiting_pod option \<Rightarrow> panic + 's waiting_pod" where
  "delayed_allow fw plugin waiting =
     (case waiting of None \<Rightarrow> Inl NilDeref | Some w \<Rightarrow> Inr (Allow fw plugin w))"

section \<open>The plugin as a value of the plugin interfaces\<close>

definition nodenumber_pre_score ::
    "('s, 'c) framework \<Rightarrow> (('c, 'x) plugin_world, 's) pre_score_plugin" where
  "nodenumber_pre_score fw = \<lparr>preScoreName = Name, PreScore = NodeNumber_PreScore fw\<rparr>"

definition nodenumber_score ::
    "('s, 'c) framework \<Rightarrow> (('c, 'x) plugin_world, 's) score_plugin" where
  "nodenumber_score fw =
     \<lparr>scoreName = Name, Score = NodeNumber_Score fw, ScoreExtensions = None\<rparr>"

definition nodenumber_permit ::
    "('s, 'c) framework \<Rightarrow> node_number \<Rightarrow> (('c, after_func list) plugin_world, 's) permit_plugin" where
  "nodenumber_permit fw pl = \<lparr>permitName = Name, Permit = NodeNumber_Permit fw pl\<rparr>"

section \<open>What the plugin computes\<close>

text \<open>The digit at the end of a name, if there is one.\<close>

definition suffix_digit :: "string \<Rightarrow> nat option" where
  "suffix_digit s = (if s = [] then None else digit_val (last s))"

definition pre_scored ::
    "('s, 'c) framework \<Rightarrow> pod \<Rightarrow> ('c, 'x) plugin_world \<Rightarrow> ('c, 'x) plugin_world" where
  "pre_scored fw pod w =
     (case suffix_digit (podName pod) of
        None \<Rightarrow> w
      | Some d \<Rightarrow> w\<lparr>cycleState :=
          stateWrite fw (cycleState w) preScoreStateKey (PreScoreState (int d))\<rparr>)"

lemma NodeNumber_PreScore_eq:
  "podName pod \<noteq> [] \<Longrightarrow> NodeNumber_PreScore fw pod nodes w = Inr (None, pre_scored fw pod w)"
  by (auto simp: NodeNumber_PreScore_def pre_scored_def suffix_digit_def last_char_slice_def
        Atoi_singleton split: option.split)

definition match_score :: "pod \<Rightarrow> string \<Rightarrow> int64" where
  "match_score pod nodename =
     (if suffix_digit nodename = suffix_digit (podName pod) then 10 else 0)"

lemma NodeNumber_Score_eq:
  assumes "cycle_laws fw" and "suffix_digit (podName pod) = Some d" and "nodename \<noteq> []"
  shows "NodeNumber_Score fw pod nodename (pre_scored fw pod w) =
           Inr ((match_score pod nodename, None), pre_scored fw pod w)"
  using assms(2,3)
  by (auto simp: NodeNumber_Score_def pre_scored_def match_score_def suffix_digit_def
        last_char_slice_def Atoi_singleton cycle_laws_simps [OF assms(1)] split: option.split if_splits)

text \<open>
  In a new scheduling cycle, after \<open>PreScore\<close>, the plugin scores a node 10 if its name
  ends in the digit that the pod's name ends in and 0 otherwise; but for a pod whose name does
  not end in a digit, for which \<open>PreScore\<close> reports success, \<open>Score\<close> fails on every node.
\<close>

theorem NodeNumber_score_cases:
  assumes "cycle_laws fw" and "podName pod \<noteq> []" and "nodename \<noteq> []"
    and "cycleState w = NewCycleState fw"
  shows "\<exists>w'. NodeNumber_PreScore fw pod nodes w = Inr (None, w') \<and>
     (case suffix_digit (podName pod) of
        Some d \<Rightarrow> NodeNumber_Score fw pod nodename w' =
          Inr ((if suffix_digit nodename = Some d then 10 else 0, None), w')
      | None \<Rightarrow> \<exists>err. NodeNumber_Score fw pod nodename w' =
          Inr ((0, Some (AsStatus fw (Some err))), w'))"
proof (cases "suffix_digit (podName pod)")
  case None
  then have "pre_scored fw pod w = w" by (simp add: pre_scored_def)
  moreover obtain err where "stateRead fw (NewCycleState fw) preScoreStateKey = Inl err"
    using assms(1) unfolding cycle_laws_def by blast
  ultimately show ?thesis
    using None assms(4) NodeNumber_PreScore_eq [OF assms(2), of fw nodes w]
    by (auto simp: NodeNumber_Score_def)
next
  case (Some d)
  then show ?thesis
    using NodeNumber_PreScore_eq [OF assms(2), of fw nodes w]
      NodeNumber_Score_eq [OF assms(1) Some assms(3), of w]
    by (simp add: match_score_def)
qed

theorem NodeNumber_score_cases_witness:
  "suffix_digit ''pod1'' = Some 1 \<and>
   (\<exists>w'. NodeNumber_PreScore sample_framework (sample_pod ''pod1'') []
        \<lparr>cycleState = Map.empty, pluginState = ()\<rparr> = Inr (None, w') \<and>
      NodeNumber_Score sample_framework (sample_pod ''pod1'') ''node1'' w' = Inr ((10, None), w'))"
proof -
  have d: "suffix_digit ''pod1'' = Some 1" "suffix_digit ''node1'' = Some 1"
    by (simp_all add: suffix_digit_def digit_val_def)
  show ?thesis
    using NodeNumber_score_cases [OF sample_laws(2), of "sample_pod ''pod1''" "''node1''"
        "\<lparr>cycleState = Map.empty, pluginState = ()\<rparr>" "[]"] d
    by (simp add: sample_pod_def)
qed

lemma NodeNumber_Permit_eq:
  "nodename \<noteq> [] \<Longrightarrow> NodeNumber_Permit fw pl p nodename w =
     Inr (case suffix_digit nodename of
            None \<Rightarrow> ((None, 0), w)
          | Some d \<Rightarrow> ((Some (NewStatus fw Wait []), 10 * Second),
              w\<lparr>pluginState := pluginState w @
                [\<lparr>afDelay = of_nat d * Second, afHandle = nnHandle pl, afUID = podUID p,
                  afPlugin = Name\<rparr>]\<rparr>))"
  by (simp add: NodeNumber_Permit_def suffix_digit_def last_char_slice_def Atoi_singleton
        split: option.split)

text \<open>
  The permit phase waits only for nodes whose name ends in a digit \<open>d\<close>; then one function
  is armed that allows the pod after \<open>d\<close> seconds, always before the timeout of ten seconds
  that rejects it.
\<close>

theorem NodeNumber_Permit_cases:
  assumes "nodename \<noteq> []"
  shows "case suffix_digit nodename of
       None \<Rightarrow> NodeNumber_Permit fw pl p nodename w = Inr ((None, 0), w)
     | Some d \<Rightarrow> \<exists>delay timeout.
         NodeNumber_Permit fw pl p nodename w =
           Inr ((Some (NewStatus fw Wait []), timeout),
                w\<lparr>pluginState := pluginState w @
                  [\<lparr>afDelay = delay, afHandle = nnHandle pl, afUID = podUID p, afPlugin = Name\<rparr>]\<rparr>) \<and>
         sint delay = int d * 1000000000 \<and> sint delay < sint timeout \<and>
         sint timeout = 10000000000"
proof (cases "suffix_digit nodename")
  case None
  with assms show ?thesis
    by (simp add: NodeNumber_Permit_eq)
next
  case (Some d)
  then have dv: "digit_val (last nodename) = Some d" using assms by (simp add: suffix_digit_def)
  have d: "d < 10" using dv by (rule digit_val_less)
  have "(of_nat d * Second :: duration) = word_of_int (int d * 1000000000)"
    by (simp add: Second_def)
  moreover have "sint (word_of_int (int d * 1000000000) :: duration) = int d * 1000000000"
    using d by (simp only: sint_sbintrunc signed_of_int) (simp add: signed_take_bit_int_eq_self)
  ultimately have delay: "sint (of_nat d * Second :: duration) = int d * 1000000000"
    by simp
  have "sint (10 * Second :: duration) = 10000000000"
    by (simp add: Second_def)
  moreover have "(0 :: int) \<le> int d" and "int d < 10" using d by simp_all
  ultimately show ?thesis
    using Some delay assms
    by (auto simp: NodeNumber_Permit_eq
          intro!: exI [of _ "of_nat d * Second"])
qed

theorem NodeNumber_Permit_cases_witness:
  "\<exists>delay timeout.
     NodeNumber_Permit sample_framework \<lparr>nnHandle = 0\<rparr> (sample_pod ''p1'') ''node9''
         \<lparr>cycleState = Map.empty, pluginState = []\<rparr> =
       Inr ((Some (NewStatus sample_framework Wait []), timeout),
            \<lparr>cycleState = Map.empty, pluginState =
              [\<lparr>afDelay = delay, afHandle = 0, afUID = ''p1'', afPlugin = Name\<rparr>]\<rparr>) \<and>
     sint delay = 9000000000 \<and> sint timeout = 10000000000"
  using NodeNumber_Permit_cases [of "''node9''" sample_framework "\<lparr>nnHandle = 0\<rparr>"
      "sample_pod ''p1''" "\<lparr>cycleState = Map.empty, pluginState = []\<rparr>"]
  by (auto simp: suffix_digit_def digit_val_def sample_pod_def)

end
