(* ===== verification/Scheduler.thy ===== *)
theory Scheduler
  imports Scheduling_Queue Plugin_Runs Waiting_Pod Select_Host Node_Number
begin

text \<open>
  The main logic, \<open>minisched/minisched.go\<close>: one scheduling cycle (\<open>scheduleOne\<close>) and the
  goroutine it spawns, which waits for the permit phase and binds the pod.  The waiting pods
  are shared by pointer between the scheduler's map, the goroutines and the timers, so they
  live in a heap and the map holds their addresses.
\<close>

section \<open>State\<close>

record ('w, 's) scheduler =
  SchedulingQueue :: sched_queue
  waitingPods :: "string \<rightharpoonup> nat"   \<comment> \<open>from UIDs to addresses in \<open>wpHeap\<close>\<close>
  filterPlugins :: "('w, 's) filter_plugin list"
  preScorePlugins :: "('w, 's) pre_score_plugin list"
  scorePlugins :: "('w, 's) score_plugin list"
  permitPlugins :: "('w, 's) permit_plugin list"

text \<open>
  The scheduler with the memory it works on: the waiting pods allocated so far, by address,
  and what the plugins may change.
\<close>

record ('c, 'x, 's) sched_state =
  sched :: "(('c, 'x) plugin_world, 's) scheduler"
  wpHeap :: "'s waiting_pod list"
  world :: "('c, 'x) plugin_world"

text \<open>
  What a cycle reads from outside: the answer of the API server to the list of nodes, the
  orders in which the scores map is visited, the random numbers and the clock.
\<close>

record cycle_env =
  envNodes :: "goerror + node list"
  envOrder :: "nat \<Rightarrow> string list"
  envRand :: "nat \<Rightarrow> nat"
  envNow :: time

text \<open>The variables the goroutine of a cycle closes over.\<close>

record binding_cycle =
  bcPod :: pod
  bcNode :: string
  bcErr :: "goerror option"

text \<open>\<open>v1.Binding\<close>, the fields that \<open>Bind\<close> sets.\<close>

record binding =
  bindNamespace :: string
  bindName :: string
  bindUID :: string
  bindKind :: string
  bindTarget :: string

section \<open>Operations\<close>

definition ErrorFunc ::
    "time \<Rightarrow> pod \<Rightarrow> goerror option \<Rightarrow> ('c, 'x, 's) sched_state \<Rightarrow> ('c, 'x, 's) sched_state" where
  "ErrorFunc now pod err st =
     (let podInfo = \<lparr>Pod = pod, Timestamp = 0, Attempts = 0, InitialAttemptTimestamp = 0,
                     UnschedulablePlugins = []\<rparr>;
          podInfo = (case err of
              Some (FitError p diag) \<Rightarrow>
                podInfo\<lparr>UnschedulablePlugins := diagUnschedulablePlugins diag\<rparr>
            | _ \<Rightarrow> podInfo)
      in st\<lparr>sched := (sched st)\<lparr>SchedulingQueue :=
              AddUnschedulable now podInfo (SchedulingQueue (sched st))\<rparr>\<rparr>)"

definition GetWaitingPod :: "string \<Rightarrow> ('c, 'x, 's) sched_state \<Rightarrow> nat option" where
  "GetWaitingPod uid st = waitingPods (sched st) uid"

definition wait_msg :: "pod \<Rightarrow> string" where
  "wait_msg pod = ''one or more plugins asked to wait and no plugin rejected pod '' @ Quote (podName pod)"

definition RunPermitPlugins ::
    "('s, 'c) framework \<Rightarrow> pod \<Rightarrow> string \<Rightarrow> (('c, 'x, 's) sched_state, 's option) go" where
  "RunPermitPlugins fw pod nodename st =
     (case permit_loop fw (permitPlugins (sched st)) pod nodename Map.empty Success (world st) of
        Inl e \<Rightarrow> Inl e
      | Inr (Inl status, w) \<Rightarrow> Inr (status, st\<lparr>world := w\<rparr>)
      | Inr (Inr (pluginsWaitTime, statusCode), w) \<Rightarrow>
          if statusCode = Wait
          then
            let waitingPod = NewWaitingPod pod pluginsWaitTime;
                addr = length (wpHeap st)
            in Inr (Some (NewStatus fw Wait (wait_msg pod)),
                    st\<lparr>world := w,
                       wpHeap := wpHeap st @ [waitingPod],
                       sched := (sched st)\<lparr>waitingPods :=
                         (waitingPods (sched st))(podUID pod \<mapsto> addr)\<rparr>\<rparr>)
          else Inr (None, st\<lparr>world := w\<rparr>))"

text \<open>
  \<open>WaitOnPermit\<close> after its wait: what it returns for the status \<open>s\<close> that it received.
\<close>

definition wait_status :: "('s, 'c) framework \<Rightarrow> 's \<Rightarrow> 's option" where
  "wait_status fw s =
     (if \<not> IsSuccess fw (Some s)
      then
        if IsUnschedulable fw (Some s)
        then Some (WithFailedPlugin fw s (FailedPlugin fw (Some s)))
        else
          let err = AsError fw (Some s)
          in Some (WithFailedPlugin fw
               (AsStatus fw (Some (Errorf ''waiting on permit for pod: %w'' [] err)))
               (FailedPlugin fw (Some s)))
      else None)"

text \<open>
  The wait itself, on the waiting pod at \<open>addr\<close>: \<open>None\<close> while it blocks.  On return the
  deferred \<open>delete\<close> removes the UID from the map, whatever it maps to by then.
\<close>

definition wait_on ::
    "('s, 'c) framework \<Rightarrow> pod \<Rightarrow> nat \<Rightarrow> ('c, 'x, 's) sched_state
       \<Rightarrow> ('s option \<times> ('c, 'x, 's) sched_state) option" where
  "wait_on fw pod addr st =
     (case GetSignal (wpHeap st ! addr) of
        None \<Rightarrow> None
      | Some (s, w) \<Rightarrow>
          Some (wait_status fw s,
                st\<lparr>wpHeap := (wpHeap st)[addr := w],
                   sched := (sched st)\<lparr>waitingPods :=
                     (waitingPods (sched st))(podUID pod := None)\<rparr>\<rparr>))"

definition WaitOnPermit ::
    "('s, 'c) framework \<Rightarrow> pod \<Rightarrow> ('c, 'x, 's) sched_state
       \<Rightarrow> ('s option \<times> ('c, 'x, 's) sched_state) option" where
  "WaitOnPermit fw pod st =
     (case waitingPods (sched st) (podUID pod) of
        None \<Rightarrow> Some (None, st)
      | Some addr \<Rightarrow> wait_on fw pod addr st)"

text \<open>\<open>api\<close> is the answer of the API server to the request.\<close>

definition Bind :: "(binding \<Rightarrow> goerror option) \<Rightarrow> pod \<Rightarrow> string \<Rightarrow> binding \<times> goerror option" where
  "Bind api p nodename =
     (let binding = \<lparr>bindNamespace = podNamespace p, bindName = podName p, bindUID = podUID p,
                     bindKind = ''Node'', bindTarget = nodename\<rparr>;
          err = api binding
      in (binding, err))"

text \<open>
  A cycle for the pod it popped, from \<open>framework.NewCycleState()\<close> on.  The result is the
  goroutine it starts, if it gets that far.  \<open>err\<close> is nil after a successful call, so a
  failure of PreScore, Score or Permit, whose status is not turned into an error, is reported
  to \<open>ErrorFunc\<close> as nil.
\<close>

definition schedule_pod ::
    "('s, 'c) framework \<Rightarrow> cycle_env \<Rightarrow> pod \<Rightarrow> (('c, 'x, 's) sched_state, binding_cycle option) go" where
  "schedule_pod fw env pod st =
     (let st = st\<lparr>world := (world st)\<lparr>cycleState := NewCycleState fw\<rparr>\<rparr>;
          failed = (\<lambda>err st. Inr (None, ErrorFunc (envNow env) pod err st))
      in case envNodes env of
           Inl err \<Rightarrow> failed (Some err) st
         | Inr nodes \<Rightarrow>
      (case RunFilterPlugins fw (filterPlugins (sched st)) pod nodes (world st) of
         Inl e \<Rightarrow> Inl e
       | Inr (Inl err, w) \<Rightarrow> failed (Some err) (st\<lparr>world := w\<rparr>)
       | Inr (Inr fasibleNodes, w) \<Rightarrow>
      (case RunPreScorePlugins fw (preScorePlugins (sched st)) pod fasibleNodes w of
         Inl e \<Rightarrow> Inl e
       | Inr (status, w) \<Rightarrow>
          if \<not> IsSuccess fw status then failed None (st\<lparr>world := w\<rparr>) else
      (case RunScorePlugins fw (scorePlugins (sched st)) (envOrder env) pod fasibleNodes w of
         Inl e \<Rightarrow> Inl e
       | Inr ((score, status), w) \<Rightarrow>
          if \<not> IsSuccess fw status then failed None (st\<lparr>world := w\<rparr>) else
      (case selectHost (envRand env) score of
         Inl err \<Rightarrow> failed (Some err) (st\<lparr>world := w\<rparr>)
       | Inr nodename \<Rightarrow>
      (case RunPermitPlugins fw pod nodename (st\<lparr>world := w\<rparr>) of
         Inl e \<Rightarrow> Inl e
       | Inr (status, st) \<Rightarrow>
          if Code fw status \<noteq> Wait \<and> \<not> IsSuccess fw status then failed None st
          else Inr (Some \<lparr>bcPod = pod, bcNode = nodename, bcErr = None\<rparr>, st)))))))"

text \<open>\<open>None\<close> while \<open>NextPod\<close> spins on an empty queue.\<close>

definition scheduleOne ::
    "('s, 'c) framework \<Rightarrow> cycle_env \<Rightarrow> ('c, 'x, 's) sched_state
       \<Rightarrow> (panic + binding_cycle option \<times> ('c, 'x, 's) sched_state) option" where
  "scheduleOne fw env st =
     (case NextPod (SchedulingQueue (sched st)) of
        None \<Rightarrow> None
      | Some (pod, q) \<Rightarrow>
          Some (schedule_pod fw env pod (st\<lparr>sched := (sched st)\<lparr>SchedulingQueue := q\<rparr>\<rparr>)))"

text \<open>
  The goroutine, after \<open>WaitOnPermit\<close> returned \<open>status\<close>: it binds or reports the failure.
  The request it sends, if it sends one, is part of the result.
\<close>

definition finish_binding ::
    "('s, 'c) framework \<Rightarrow> (binding \<Rightarrow> goerror option) \<Rightarrow> time \<Rightarrow> binding_cycle \<Rightarrow> 's option
       \<Rightarrow> ('c, 'x, 's) sched_state \<Rightarrow> binding option \<times> ('c, 'x, 's) sched_state" where
  "finish_binding fw api now bc status st =
     (if \<not> IsSuccess fw status then (None, ErrorFunc now (bcPod bc) (bcErr bc) st)
      else
        let (request, err) = Bind api (bcPod bc) (bcNode bc)
        in (Some request, if err \<noteq> None then ErrorFunc now (bcPod bc) err st else st))"

definition binding_goroutine ::
    "('s, 'c) framework \<Rightarrow> (binding \<Rightarrow> goerror option) \<Rightarrow> time \<Rightarrow> binding_cycle
       \<Rightarrow> ('c, 'x, 's) sched_state \<Rightarrow> (binding option \<times> ('c, 'x, 's) sched_state) option" where
  "binding_goroutine fw api now bc st =
     (case WaitOnPermit fw (bcPod bc) st of
        None \<Rightarrow> None
      | Some (status, st) \<Rightarrow> Some (finish_binding fw api now bc status st))"

section \<open>What a cycle does with its pod\<close>

text \<open>What \<open>ErrorFunc\<close> puts into the queue.\<close>

definition diag_plugins :: "goerror option \<Rightarrow> string_set" where
  "diag_plugins err =
     (case err of Some (FitError p diag) \<Rightarrow> diagUnschedulablePlugins diag | _ \<Rightarrow> [])"

definition parked_info :: "pod \<Rightarrow> goerror option \<Rightarrow> queued_pod_info" where
  "parked_info pod err =
     \<lparr>Pod = pod, Timestamp = 0, Attempts = 0, InitialAttemptTimestamp = 0,
      UnschedulablePlugins = diag_plugins err\<rparr>"

lemma ErrorFunc_eq:
  "ErrorFunc now pod err st =
     st\<lparr>sched := (sched st)\<lparr>SchedulingQueue :=
       AddUnschedulable now (parked_info pod err) (SchedulingQueue (sched st))\<rparr>\<rparr>"
  by (simp add: ErrorFunc_def parked_info_def diag_plugins_def Let_def
        split: option.split goerror.split)

lemma parked_info_sel [simp]:
  "Pod (parked_info pod err) = pod"
  "Attempts (parked_info pod err) = 0"
  "UnschedulablePlugins (parked_info pod err) = diag_plugins err"
  "keyFunc (parked_info pod err) = pod_key (podName pod) (podNamespace pod)"
  by (simp_all add: parked_info_def keyFunc_def pod_key_def)

lemma total_scores_names:
  "total_scores order m i nodes result = Inr scores \<Longrightarrow>
     map nsName scores = map nsName result @ map nodeName nodes"
  by (induction order m i nodes result rule: total_scores.induct) (auto split: sum.splits)

lemma RunScorePlugins_names:
  "status_laws fw \<Longrightarrow> RunScorePlugins fw pls order pod nodes w = Inr ((scores, status), w') \<Longrightarrow>
     IsSuccess fw status \<Longrightarrow> scores = [] \<or> map nsName scores = map nodeName nodes"
  by (auto simp: RunScorePlugins_def dest!: total_scores_names split: sum.splits)

lemma selectHost_best:
  assumes "scores \<noteq> []"
  shows "\<exists>ns \<in> set (best_scores scores). selectHost rnd scores = Inr (nsName ns)"
proof -
  obtain ns rest where scores: "scores = ns # rest" using assms by (cases scores) auto
  have "selected (foldl (select_step rnd) (select_init ns) rest) \<in> nsName ` set (best_scores scores)"
    unfolding scores by (rule selected_best) (rule select_inv_foldl)
  then show ?thesis by (auto simp: selectHost_def scores)
qed

lemma selectHost_Inr:
  assumes "selectHost rnd scores = Inr name"
  shows "name \<in> nsName ` set scores"
proof -
  have "scores \<noteq> []" using assms by (auto simp: selectHost_def)
  from selectHost_best [OF this, of rnd] assms show ?thesis
    by (auto simp: best_scores_def)
qed

text \<open>
  What the permit phase changes of the waiting pods: nothing, or one is registered, for which
  the plugins in the domain of \<open>m\<close> asked to wait.
\<close>

definition registers ::
    "pod \<Rightarrow> ('c, 'x, 's) sched_state \<Rightarrow> (string \<rightharpoonup> duration) option \<Rightarrow> ('c, 'x, 's) sched_state \<Rightarrow> bool" where
  "registers pod st reg st' \<longleftrightarrow>
     (case reg of
        None \<Rightarrow> wpHeap st' = wpHeap st \<and> waitingPods (sched st') = waitingPods (sched st)
      | Some m \<Rightarrow> m \<noteq> Map.empty \<and> wpHeap st' = wpHeap st @ [NewWaitingPod pod m] \<and>
          waitingPods (sched st') = (waitingPods (sched st))(podUID pod \<mapsto> length (wpHeap st)))"

lemma permit_loop_waits:
  "permit_loop fw pls pod n m c w = Inr (Inr (m', c'), w') \<Longrightarrow> c' = Wait \<Longrightarrow> c = Wait \<longrightarrow> m \<noteq> Map.empty \<Longrightarrow>
     m' \<noteq> Map.empty"
  by (induction fw pls pod n m c w rule: permit_loop.induct)
     (auto simp: Let_def split: sum.splits prod.splits if_splits option.splits)

lemma permit_loop_refused:
  assumes "status_laws fw" and "permit_loop fw pls pod n m c w = Inr (Inl status, w')"
  shows "Code fw status \<noteq> Wait"
  using assms(2)
proof (induction pls arbitrary: m c w)
  case (Cons pl pls)
  have "Code fw (Some (WithFailedPlugin fw x p)) \<noteq> Wait" if "IsUnschedulable fw (Some x)" for x p
    using IsUnschedulable_code [OF assms(1) that] by (simp add: status_laws_simps [OF assms(1)])
  with Cons show ?case
    by (auto simp: Let_def status_laws_simps [OF assms(1)]
          split: sum.splits prod.splits if_splits option.splits)
qed simp

lemma RunPermitPlugins_frame:
  assumes "status_laws fw" and "RunPermitPlugins fw pod nodename st = Inr (status, st')"
  shows "SchedulingQueue (sched st') = SchedulingQueue (sched st) \<and>
     (if Code fw status = Wait then \<exists>m. registers pod st (Some m) st' else registers pod st None st')"
proof (cases "permit_loop fw (permitPlugins (sched st)) pod nodename Map.empty Success (world st)")
  case (Inr r)
  obtain res w where r: "r = (res, w)" by (cases r)
  show ?thesis
  proof (cases res)
    case (Inl stat)
    with Inr r assms(2) have "status = stat" "st' = st\<lparr>world := w\<rparr>"
      by (simp_all add: RunPermitPlugins_def)
    moreover have "Code fw stat \<noteq> Wait"
      by (rule permit_loop_refused [OF assms(1), of "permitPlugins (sched st)"]) (use Inr Inl r in simp)
    ultimately show ?thesis by (simp add: registers_def)
  next
    case (Inr mc)
    obtain m c where mc: "mc = (m, c)" by (cases mc)
    have run: "permit_loop fw (permitPlugins (sched st)) pod nodename Map.empty Success (world st) =
        Inr (Inr (m, c), w)"
      using \<open>permit_loop _ _ _ _ _ _ _ = Inr r\<close> r Inr mc by simp
    show ?thesis
    proof (cases "c = Wait")
      case True
      have "m \<noteq> Map.empty" using permit_loop_waits [OF run True] by simp
      with True run assms(2) show ?thesis
        by (auto simp: RunPermitPlugins_def registers_def Let_def status_laws_simps [OF assms(1)])
    next
      case False
      with run assms(2) show ?thesis
        by (auto simp: RunPermitPlugins_def registers_def status_laws_simps [OF assms(1)])
    qed
  qed
qed (use assms(2) in \<open>simp add: RunPermitPlugins_def\<close>)

lemma schedule_pod_no_fit:
  assumes "envNodes env = Inr nodes"
    and "RunFilterPlugins fw (filterPlugins (sched st)) pod nodes
           ((world st)\<lparr>cycleState := NewCycleState fw\<rparr>) = Inr (Inl err, w)"
  shows "schedule_pod fw env pod st = Inr (None, ErrorFunc (envNow env) pod (Some err) (st\<lparr>world := w\<rparr>))"
  using assms by (simp add: schedule_pod_def Let_def)

lemma schedule_pod_scored:
  assumes "envNodes env = Inr nodes"
    and "RunFilterPlugins fw (filterPlugins (sched st)) pod nodes
           ((world st)\<lparr>cycleState := NewCycleState fw\<rparr>) = Inr (Inr feas, w1)"
    and "RunPreScorePlugins fw (preScorePlugins (sched st)) pod feas w1 = Inr (status, w2)"
    and "IsSuccess fw status"
    and "RunScorePlugins fw (scorePlugins (sched st)) (envOrder env) pod feas w2 =
           Inr ((scores, status'), w3)"
  shows "schedule_pod fw env pod st =
     (if \<not> IsSuccess fw status' then Inr (None, ErrorFunc (envNow env) pod None (st\<lparr>world := w3\<rparr>))
      else case selectHost (envRand env) scores of
             Inl err \<Rightarrow> Inr (None, ErrorFunc (envNow env) pod (Some err) (st\<lparr>world := w3\<rparr>))
           | Inr nodename \<Rightarrow>
               (case RunPermitPlugins fw pod nodename (st\<lparr>world := w3\<rparr>) of
                  Inl e \<Rightarrow> Inl e
                | Inr (status, st) \<Rightarrow>
                    if Code fw status \<noteq> Wait \<and> \<not> IsSuccess fw status
                    then Inr (None, ErrorFunc (envNow env) pod None st)
                    else Inr (Some \<lparr>bcPod = pod, bcNode = nodename, bcErr = None\<rparr>, st)))"
  using assms by (simp add: schedule_pod_def Let_def split: sum.split)

text \<open>
  The two ways a cycle ends, for any plugins: the pod goes to the queue of unschedulable pods,
  or one goroutine takes it, with a node that passed the filters.
\<close>

lemma schedule_pod_cases:
  assumes "status_laws fw" and "schedule_pod fw env pod st = Inr (bc, st')"
  obtains (parked) err where "bc = None"
      and "SchedulingQueue (sched st') =
             AddUnschedulable (envNow env) (parked_info pod err) (SchedulingQueue (sched st))"
      and "registers pod st None st'"
  | (handed) nodename nodes fasibleNodes w w' reg where "bc = Some \<lparr>bcPod = pod, bcNode = nodename, bcErr = None\<rparr>"
      and "SchedulingQueue (sched st') = SchedulingQueue (sched st)"
      and "envNodes env = Inr nodes"
      and "RunFilterPlugins fw (filterPlugins (sched st)) pod nodes w = Inr (Inr fasibleNodes, w')"
      and "nodename \<in> nodeName ` set fasibleNodes"
      and "registers pod st reg st'"
proof -
  note run = assms(2) [unfolded schedule_pod_def Let_def]
  show thesis
  proof (cases bc)
    case None
    have "(\<exists>err. SchedulingQueue (sched st') =
             AddUnschedulable (envNow env) (parked_info pod err) (SchedulingQueue (sched st))) \<and>
          registers pod st None st'"
      using run unfolding None ErrorFunc_eq
      by (auto simp: registers_def split: sum.splits if_splits
            dest!: RunPermitPlugins_frame [OF assms(1)]) blast+
    then show thesis using parked None by blast
  next
    case (Some b)
    obtain nodes where nodes: "envNodes env = Inr nodes"
      using run Some by (auto split: sum.splits)
    obtain feas w where feas: "RunFilterPlugins fw (filterPlugins (sched st)) pod nodes
        ((world st)\<lparr>cycleState := NewCycleState fw\<rparr>) = Inr (Inr feas, w)"
      using run Some nodes by (auto split: sum.splits)
    obtain w1 scores stat w2 nodename status where
        score: "RunScorePlugins fw (scorePlugins (sched st)) (envOrder env) pod feas w1 =
          Inr ((scores, stat), w2)" "IsSuccess fw stat"
      and host: "selectHost (envRand env) scores = Inr nodename"
      and permit: "RunPermitPlugins fw pod nodename (st\<lparr>world := w2\<rparr>) = Inr (status, st')"
      and b: "b = \<lparr>bcPod = pod, bcNode = nodename, bcErr = None\<rparr>"
      using run Some nodes feas by (auto split: sum.splits if_splits prod.splits)
    have "nodename \<in> nsName ` set scores" by (rule selectHost_Inr [OF host])
    with RunScorePlugins_names [OF assms(1) score] have "nodename \<in> nodeName ` set feas"
      by (metis image_set list.set(1) empty_iff image_empty)
    moreover obtain reg where "registers pod (st\<lparr>world := w2\<rparr>) reg st'"
      using RunPermitPlugins_frame [OF assms(1) permit] by (auto split: if_splits)
    then have "registers pod st reg st'" by (simp add: registers_def split: option.splits)
    ultimately show thesis
      using handed Some b nodes feas RunPermitPlugins_frame [OF assms(1) permit] by simp
  qed
qed

lemma scheduleOne_cases:
  assumes "status_laws fw" and "scheduleOne fw env st = Some (Inr (bc, st'))"
  obtains (parked) pod q err where "NextPod (SchedulingQueue (sched st)) = Some (pod, q)"
      and "bc = None"
      and "SchedulingQueue (sched st') = AddUnschedulable (envNow env) (parked_info pod err) q"
      and "registers pod st None st'"
  | (handed) pod q nodename nodes reg where "NextPod (SchedulingQueue (sched st)) = Some (pod, q)"
      and "bc = Some \<lparr>bcPod = pod, bcNode = nodename, bcErr = None\<rparr>"
      and "SchedulingQueue (sched st') = q"
      and "envNodes env = Inr nodes" and "nodename \<in> nodeName ` set nodes"
      and "registers pod st reg st'"
proof -
  obtain pod q where q: "NextPod (SchedulingQueue (sched st)) = Some (pod, q)"
    and run: "schedule_pod fw env pod (st\<lparr>sched := (sched st)\<lparr>SchedulingQueue := q\<rparr>\<rparr>) = Inr (bc, st')"
    using assms(2) by (auto simp: scheduleOne_def split: option.splits)
  have reg: "registers pod (st\<lparr>sched := (sched st)\<lparr>SchedulingQueue := q\<rparr>\<rparr>) r st' \<Longrightarrow>
      registers pod st r st'" for r
    by (simp add: registers_def split: option.splits)
  from assms(1) run show thesis
  proof (cases rule: schedule_pod_cases)
    case (parked err)
    show thesis
      by (rule that(1) [OF q parked(1) _ reg [OF parked(3)]]) (use parked(2) in simp)
  next
    case (handed nodename nodes fasibleNodes w w' r)
    have "nodename \<in> nodeName ` set nodes"
      using handed(4,5) RunFilterPlugins_nodes by fastforce
    then show thesis
      by (intro that(2) [OF q handed(1) _ handed(3) _ reg [OF handed(6)]]) (use handed(2) in simp_all)
  qed
qed

text \<open>A concrete state with the given plugins and active pods, and what a cycle reads there.\<close>

definition sample_state ::
    "((string \<rightharpoonup> state_data, unit) plugin_world, sample_status) filter_plugin list
       \<Rightarrow> ((string \<rightharpoonup> state_data, unit) plugin_world, sample_status) permit_plugin list
       \<Rightarrow> pod list \<Rightarrow> (string \<rightharpoonup> state_data, unit, sample_status) sched_state" where
  "sample_state fps prms pods =
     \<lparr>sched = \<lparr>SchedulingQueue = (queue_New [])
                 \<lparr>activeQ := map (\<lambda>p. newQueuedPodInfo sample_framework 0 p []) pods\<rparr>,
               waitingPods = Map.empty, filterPlugins = fps, preScorePlugins = [],
               scorePlugins = [], permitPlugins = prms\<rparr>,
      wpHeap = [], world = \<lparr>cycleState = Map.empty, pluginState = ()\<rparr>\<rparr>"

definition sample_env :: "node list \<Rightarrow> cycle_env" where
  "sample_env nodes = \<lparr>envNodes = Inr nodes, envOrder = (\<lambda>_. []), envRand = (\<lambda>_. 0), envNow = 0\<rparr>"

definition sample_node :: "string \<Rightarrow> node" where
  "sample_node name = \<lparr>nodeName = name, nodeUnschedulable = False\<rparr>"

lemma sample_sched_sel [simp]:
  "filterPlugins (sched (sample_state fps prms pods)) = fps"
  "permitPlugins (sched (sample_state fps prms pods)) = prms"
  "preScorePlugins (sched (sample_state fps prms pods)) = []"
  "scorePlugins (sched (sample_state fps prms pods)) = []"
  "NextPod (SchedulingQueue (sched (sample_state fps prms (pod # pods)))) =
     Some (pod, SchedulingQueue (sched (sample_state fps prms pods)))"
  "wpHeap (sample_state fps prms pods) = []"
  "envNodes (sample_env nodes) = Inr nodes"
  by (simp_all add: sample_state_def sample_env_def NextPod_def newQueuedPodInfo_def)

text \<open>
  C14: a scheduling cycle never loses its pod, whatever the plugins do: when it ends, either
  exactly the pod it popped is in the queue of unschedulable pods, or exactly one goroutine
  holds it, for a node that the API server listed.  Nothing else in the queue changes, and
  a parked pod leaves no waiting pod behind.
\<close>

theorem scheduleOne_parks_or_hands_over:
  assumes "status_laws fw" and "scheduleOne fw env st = Some (Inr (bc, st'))"
  shows "\<exists>pod q. NextPod (SchedulingQueue (sched st)) = Some (pod, q) \<and>
     (case bc of
        None \<Rightarrow>
          (\<exists>err. SchedulingQueue (sched st') = AddUnschedulable (envNow env) (parked_info pod err) q) \<and>
          waitingPods (sched st') = waitingPods (sched st)
      | Some b \<Rightarrow>
          bcPod b = pod \<and> SchedulingQueue (sched st') = q \<and>
          (\<exists>nodes. envNodes env = Inr nodes \<and> bcNode b \<in> nodeName ` set nodes))"
  using assms
proof (cases rule: scheduleOne_cases)
  case (parked pod q err)
  then show ?thesis by (auto simp: registers_def)
qed auto

theorem scheduleOne_parks_or_hands_over_witness:
  "\<exists>b st'. scheduleOne sample_framework (sample_env [sample_node ''n1''])
       (sample_state [] [] [sample_pod ''p1'']) = Some (Inr (Some b, st')) \<and>
     bcPod b = sample_pod ''p1'' \<and> bcNode b = ''n1''"
proof -
  have "\<exists>b st'. scheduleOne sample_framework (sample_env [sample_node ''n1''])
       (sample_state [] [] [sample_pod ''p1'']) = Some (Inr (Some b, st'))"
    by (simp add: scheduleOne_def schedule_pod_def Let_def RunFilterPlugins_def RunScorePlugins_def
          sample_env_def selectHost_def RunPermitPlugins_def)
  then obtain b st' where run: "scheduleOne sample_framework (sample_env [sample_node ''n1''])
       (sample_state [] [] [sample_pod ''p1'']) = Some (Inr (Some b, st'))"
    by blast
  from scheduleOne_parks_or_hands_over [OF sample_laws(1) run] run show ?thesis
    by (auto simp: sample_node_def)
qed

text \<open>
  With filter plugins that answer as functions, a pod that no listed node suits is parked
  with exactly the plugins that were the first to fail some node as its unschedulable
  plugins; and the node of a pod that is handed over passes every filter plugin.
\<close>

theorem scheduleOne_filters:
  assumes "status_laws fw" and "sets_laws fw"
    and "filterPlugins (sched st) = map stateless_filter specs"
    and "envNodes env = Inr nodes"
    and "NextPod (SchedulingQueue (sched st)) = Some (pod, q)"
  shows "if filter (passes fw specs pod) nodes = []
     then \<exists>diag st'. scheduleOne fw env st = Some (Inr (None, st')) \<and>
       SchedulingQueue (sched st') =
         AddUnschedulable (envNow env) (parked_info pod (Some (FitError pod diag))) q \<and>
       set (diagUnschedulablePlugins diag) = {p. \<exists>n \<in> set nodes. blocker fw specs pod n = Some p}
     else \<forall>b st'. scheduleOne fw env st = Some (Inr (Some b, st')) \<longrightarrow>
       (\<exists>n \<in> set nodes. nodeName n = bcNode b \<and> passes fw specs pod n)"
proof -
  let ?st = "st\<lparr>sched := (sched st)\<lparr>SchedulingQueue := q\<rparr>\<rparr>"
  obtain diag where run: "RunFilterPlugins fw (map stateless_filter specs) pod nodes
        ((world st)\<lparr>cycleState := NewCycleState fw\<rparr>) =
      Inr (if filter (passes fw specs pod) nodes = [] then Inl (FitError pod diag)
           else Inr (filter (passes fw specs pod) nodes),
           (world st)\<lparr>cycleState := NewCycleState fw\<rparr>)"
    and diag: "set (diagUnschedulablePlugins diag) =
      {p. \<exists>n \<in> set nodes. blocker fw specs pod n = Some p}"
    by (rule RunFilterPlugins_diag [OF assms(1,2)])
  show ?thesis
  proof (cases "filter (passes fw specs pod) nodes = []")
    case True
    have "schedule_pod fw env pod ?st = Inr (None, ErrorFunc (envNow env) pod
        (Some (FitError pod diag)) (?st\<lparr>world := (world st)\<lparr>cycleState := NewCycleState fw\<rparr>\<rparr>))"
      by (rule schedule_pod_no_fit [OF assms(4)]) (use run True assms(3) in simp)
    then show ?thesis
      using True diag assms(5) by (auto simp: scheduleOne_def ErrorFunc_eq)
  next
    case False
    have "\<exists>n \<in> set nodes. nodeName n = bcNode b \<and> passes fw specs pod n"
      if "scheduleOne fw env st = Some (Inr (Some b, st'))" for b st'
    proof -
      have "schedule_pod fw env pod ?st = Inr (Some b, st')"
        using that assms(5) by (simp add: scheduleOne_def)
      with assms(1) show ?thesis
      proof (cases rule: schedule_pod_cases)
        case (handed nodename nodes' fasibleNodes w w' reg)
        obtain diag' where "RunFilterPlugins fw (map stateless_filter specs) pod nodes w =
            Inr (if filter (passes fw specs pod) nodes = [] then Inl (FitError pod diag')
                 else Inr (filter (passes fw specs pod) nodes), w)"
          by (rule RunFilterPlugins_diag [OF assms(1,2)])
        with handed assms(3,4) False have "fasibleNodes = filter (passes fw specs pod) nodes"
          by simp
        with handed show ?thesis by auto
      qed simp
    qed
    with False show ?thesis by auto
  qed
qed

theorem scheduleOne_filters_witness:
  "\<exists>diag st'. scheduleOne sample_framework (sample_env [sample_node ''n1''])
       (sample_state [stateless_filter (''F'', \<lambda>p ni. Some (NewStatus sample_framework Unschedulable ''no''))]
         [] [sample_pod ''p1'']) = Some (Inr (None, st')) \<and>
     set (diagUnschedulablePlugins diag) = {''F''} \<and>
     SchedulingQueue (sched st') =
       AddUnschedulable 0 (parked_info (sample_pod ''p1'')
         (Some (FitError (sample_pod ''p1'') diag))) (queue_New [])"
  using scheduleOne_filters [OF sample_laws(1,4), of
      "sample_state [stateless_filter
         (''F'', \<lambda>p ni. Some (NewStatus sample_framework Unschedulable ''no''))] [] [sample_pod ''p1'']"
      "[(''F'', \<lambda>p ni. Some (NewStatus sample_framework Unschedulable ''no''))]"
      "sample_env [sample_node ''n1'']" "[sample_node ''n1'']" "sample_pod ''p1''" "queue_New []"]
  by (auto simp: passes_def blocker_def sample_state_def sample_env_def NextPod_def
        newQueuedPodInfo_def queue_New_def)

text \<open>
  The permit phase, for plugins that answer as functions.  The first plugin that refuses
  the pod decides: its name is the failed plugin of the status returned, which is
  unschedulable exactly if the plugin's status is, and nothing is registered.  If none
  refuses and some ask to wait, a new waiting pod is registered under the pod's UID whose
  pending plugins are exactly those, each with its timeout.
\<close>

theorem RunPermitPlugins_stateless:
  assumes "status_laws fw" and "permitPlugins (sched st) = map stateless_permit specs"
  shows "case find (refuses fw pod n) specs of
     Some s \<Rightarrow> \<exists>status. RunPermitPlugins fw pod n st = Inr (Some status, st) \<and>
       FailedPlugin fw (Some status) = fst s \<and>
       Code fw (Some status) \<noteq> Success \<and> Code fw (Some status) \<noteq> Wait \<and>
       (IsUnschedulable fw (Some status) \<longleftrightarrow> IsUnschedulable fw (fst (snd s pod n)))
   | None \<Rightarrow>
       if waits fw pod n specs = [] then RunPermitPlugins fw pod n st = Inr (None, st)
       else \<exists>waiting status st'. RunPermitPlugins fw pod n st = Inr (Some status, st') \<and>
         Code fw (Some status) = Wait \<and>
         GetWaitingPod (podUID pod) st' = Some (length (wpHeap st)) \<and>
         wpHeap st' = wpHeap st @ [waiting] \<and>
         wpPod waiting = pod \<and> signal waiting = [] \<and>
         pendingPlugins waiting =
           map_option (\<lambda>d. \<lparr>waitTime = d, armed = True\<rparr>) \<circ> map_of (rev (waits fw pod n specs)) \<and>
         SchedulingQueue (sched st') = SchedulingQueue (sched st)"
proof (cases "find (refuses fw pod n) specs")
  case None
  then show ?thesis
    by (simp add: RunPermitPlugins_def assms(2) permit_loop_stateless [OF assms(1)] Let_def
          GetWaitingPod_def NewWaitingPod_def status_laws_simps [OF assms(1)] comp_def)
next
  case (Some s)
  then have "refuses fw pod n s"
    by (auto simp: find_Some_iff)
  from refusal_status [OF assms(1) this] Some show ?thesis
    by (simp add: RunPermitPlugins_def assms(2) permit_loop_stateless [OF assms(1)])
qed

theorem RunPermitPlugins_stateless_witness:
  "\<exists>waiting status st'.
     RunPermitPlugins sample_framework (sample_pod ''p1'') ''n1''
       (sample_state [] [stateless_permit (''N'', \<lambda>p n. (Some (NewStatus sample_framework Wait []), Second))] []) =
       Inr (Some status, st') \<and>
     wpHeap st' = [waiting] \<and> pendingPlugins waiting = [''N'' \<mapsto> \<lparr>waitTime = Second, armed = True\<rparr>]"
  using RunPermitPlugins_stateless [OF sample_laws(1), of
      "sample_state [] [stateless_permit (''N'', \<lambda>p n. (Some (NewStatus sample_framework Wait []), Second))] []"
      "[(''N'', \<lambda>p n. (Some (NewStatus sample_framework Wait []), Second))]"
      "sample_pod ''p1''" "''n1''"]
  by (auto simp: refuses_def)

end
