(* ===== verification/Initialize.thy ===== *)
theory Initialize
  imports Scheduler
begin

text \<open>
  The construction of a scheduler, \<open>minisched/initialize.go\<close>, and the handlers it registers
  with the informers, \<open>minisched/eventhandler.go\<close>.  The two plugins are package variables,
  set by the first call that creates them.  The plugin \<open>nodeunschedulable\<close> is Kubernetes
  code, so the outcome of its \<open>New\<close> is an argument.
\<close>

section \<open>Plugins as values of \<open>framework.Plugin\<close>\<close>

text \<open>
  A plugin with the interfaces that a type assertion finds in it; \<open>asEnqueue\<close> is what its
  \<open>EventsToRegister\<close> returns.
\<close>

record ('w, 's) plugin_obj =
  plName :: string
  asFilter :: "('w, 's) filter_plugin option"
  asPreScore :: "('w, 's) pre_score_plugin option"
  asScore :: "('w, 's) score_plugin option"
  asPermit :: "('w, 's) permit_plugin option"
  asEnqueue :: "cluster_event list option"

text \<open>The package variables; \<open>None\<close> is nil.\<close>

record ('w, 's) plugin_globals =
  nodeunschedulableplugin :: "('w, 's) plugin_obj option"
  nodenumberplugin :: "('w, 's) plugin_obj option"

definition type_assert :: "('p \<Rightarrow> 'i option) \<Rightarrow> 'p option \<Rightarrow> panic + 'i" where
  "type_assert as p =
     (case p of
        None \<Rightarrow> Inl (PanicMsg ''interface conversion: interface is nil'')
      | Some p \<Rightarrow>
          (case as p of
             None \<Rightarrow> Inl (PanicMsg ''interface conversion: missing method'')
           | Some i \<Rightarrow> Inr i))"

definition nodenumber_obj ::
    "('s, 'c) framework \<Rightarrow> node_number \<Rightarrow> (('c, after_func list) plugin_world, 's) plugin_obj" where
  "nodenumber_obj fw pl =
     \<lparr>plName = Name, asFilter = None, asPreScore = Some (nodenumber_pre_score fw),
      asScore = Some (nodenumber_score fw), asPermit = Some (nodenumber_permit fw pl),
      asEnqueue = Some (NodeNumber_EventsToRegister fw)\<rparr>"

section \<open>Creating the plugins\<close>

text \<open>\<open>nu\<close> is what \<open>nodeunschedulable.New(nil, nil)\<close> returns.\<close>

definition createNodeUnschedulablePlugin ::
    "('w, 's) plugin_obj option \<times> goerror option \<Rightarrow> ('w, 's) plugin_globals
       \<Rightarrow> (('w, 's) plugin_obj option \<times> goerror option) \<times> ('w, 's) plugin_globals" where
  "createNodeUnschedulablePlugin nu g =
     (if nodeunschedulableplugin g \<noteq> None then ((nodeunschedulableplugin g, None), g)
      else
        let (p, err) = nu; g = g\<lparr>nodeunschedulableplugin := p\<rparr>
        in ((p, err), g))"

definition createNodeNumberPlugin ::
    "('s, 'c) framework \<Rightarrow> nat \<Rightarrow> (('c, after_func list) plugin_world, 's) plugin_globals
       \<Rightarrow> ((('c, after_func list) plugin_world, 's) plugin_obj option \<times> goerror option) \<times>
          (('c, after_func list) plugin_world, 's) plugin_globals" where
  "createNodeNumberPlugin fw h g =
     (if nodenumberplugin g \<noteq> None then ((nodenumberplugin g, None), g)
      else
        let (p, err) = NodeNumber_New h;
            p = Some (nodenumber_obj fw p);
            g = g\<lparr>nodenumberplugin := p\<rparr>
        in ((p, err), g))"

text \<open>
  The four lists.  Each is a call of a constructor, an error wrapped with \<open>msg\<close>, and a type
  assertion to the interface of the extension point.
\<close>

definition plugin_list ::
    "string \<Rightarrow> ('p \<Rightarrow> 'i option) \<Rightarrow> ('p option \<times> goerror option) \<times> 'g
       \<Rightarrow> panic + (goerror + 'i list) \<times> 'g" where
  "plugin_list msg as r =
     (let ((p, err), g) = r
      in if err \<noteq> None then Inr (Inl (Errorf msg [] err), g)
         else case type_assert as p of
             Inl e \<Rightarrow> Inl e
           | Inr i \<Rightarrow> Inr (Inr [i], g))"

definition createFilterPlugins ::
    "('w, 's) plugin_obj option \<times> goerror option \<Rightarrow> nat
       \<Rightarrow> (('w, 's) plugin_globals, goerror + ('w, 's) filter_plugin list) go" where
  "createFilterPlugins nu h g =
     plugin_list ''create nodeunschedulable plugin: %w'' asFilter (createNodeUnschedulablePlugin nu g)"

definition createPreScorePlugins ::
    "('s, 'c) framework \<Rightarrow> nat
       \<Rightarrow> ((('c, after_func list) plugin_world, 's) plugin_globals,
           goerror + (('c, after_func list) plugin_world, 's) pre_score_plugin list) go" where
  "createPreScorePlugins fw h g =
     plugin_list ''create nodenumber plugin: %w'' asPreScore (createNodeNumberPlugin fw h g)"

definition createScorePlugins ::
    "('s, 'c) framework \<Rightarrow> nat
       \<Rightarrow> ((('c, after_func list) plugin_world, 's) plugin_globals,
           goerror + (('c, after_func list) plugin_world, 's) score_plugin list) go" where
  "createScorePlugins fw h g =
     plugin_list ''create nodenumber plugin: %w'' asScore (createNodeNumberPlugin fw h g)"

definition createPermitPlugins ::
    "('s, 'c) framework \<Rightarrow> nat
       \<Rightarrow> ((('c, after_func list) plugin_world, 's) plugin_globals,
           goerror + (('c, after_func list) plugin_world, 's) permit_plugin list) go" where
  "createPermitPlugins fw h g =
     plugin_list ''create nodenumber plugin: %w'' asPermit (createNodeNumberPlugin fw h g)"

section \<open>The events that make pods schedulable\<close>

type_synonym event_map = "cluster_event \<rightharpoonup> string_set"

fun registerClusterEvents ::
    "('s, 'c) framework \<Rightarrow> string \<Rightarrow> event_map \<Rightarrow> cluster_event list \<Rightarrow> event_map" where
  "registerClusterEvents fw name eventToPlugins [] = eventToPlugins"
| "registerClusterEvents fw name eventToPlugins (evt # evts) =
     registerClusterEvents fw name
       (case eventToPlugins evt of
          None \<Rightarrow> eventToPlugins(evt \<mapsto> setsNewString fw [name])
        | Some x \<Rightarrow> eventToPlugins(evt \<mapsto> setsInsert fw x name)) evts"

definition eventsToRegister ::
    "('s, 'c) framework
       \<Rightarrow> (('c, after_func list) plugin_world, 's) plugin_obj option \<times> goerror option \<Rightarrow> nat
       \<Rightarrow> ((('c, after_func list) plugin_world, 's) plugin_globals, goerror + event_map) go" where
  "eventsToRegister fw nu h g =
     (let ((nunschedulablePlugin, err), g) = createNodeUnschedulablePlugin nu g
      in if err \<noteq> None
         then Inr (Inl (Errorf ''create node unschedulable plugin: %w'' [] err), g)
         else
           let ((nnumberPlugin, err), g) = createNodeNumberPlugin fw h g
           in if err \<noteq> None then Inr (Inl (Errorf ''create node number plugin: %w'' [] err), g)
              else
                case type_assert asEnqueue nunschedulablePlugin of
                  Inl e \<Rightarrow> Inl e
                | Inr nunschedulablePluginEvents \<Rightarrow>
                    (case type_assert asEnqueue nnumberPlugin of
                       Inl e \<Rightarrow> Inl e
                     | Inr nnumberPluginEvents \<Rightarrow>
                         let name = plName (the nunschedulablePlugin);
                             m = registerClusterEvents fw name Map.empty nunschedulablePluginEvents;
                             m = registerClusterEvents fw name m nnumberPluginEvents
                         in Inr (Inr m, g)))"

text \<open>\<open>order\<close> lists the keys of the map as \<open>range\<close> visits them.\<close>

fun unionedGVKs_loop :: "cluster_event list \<Rightarrow> (string \<rightharpoonup> int64) \<Rightarrow> (string \<rightharpoonup> int64)" where
  "unionedGVKs_loop [] gvkMap = gvkMap"
| "unionedGVKs_loop (evt # evts) gvkMap =
     unionedGVKs_loop evts
       (case gvkMap (Resource evt) of
          Some at \<Rightarrow> gvkMap(Resource evt \<mapsto> or at (ActionType evt))
        | None \<Rightarrow> gvkMap(Resource evt \<mapsto> ActionType evt))"

definition unionedGVKs :: "cluster_event list \<Rightarrow> (string \<rightharpoonup> int64)" where
  "unionedGVKs order = unionedGVKs_loop order Map.empty"

section \<open>Event handlers\<close>

text \<open>
  What the scheduler gives to the informers.  A handler acts on the scheduler; a function
  that is nil is \<open>None\<close>.  The calls of \<open>MoveAllToActiveOrBackoffQueue\<close> take the clock and the
  order in which the unschedulable pods are visited.
\<close>

datatype api_obj = PodObj pod | OtherObj nat

record ('w, 's) event_funcs =
  AddFunc :: "((nat \<Rightarrow> time) \<Rightarrow> string list \<Rightarrow> ('w, 's) scheduler \<Rightarrow> ('w, 's) scheduler) option"
  UpdateFunc :: "((nat \<Rightarrow> time) \<Rightarrow> string list \<Rightarrow> ('w, 's) scheduler \<Rightarrow> ('w, 's) scheduler) option"
  DeleteFunc :: "((nat \<Rightarrow> time) \<Rightarrow> string list \<Rightarrow> ('w, 's) scheduler \<Rightarrow> ('w, 's) scheduler) option"

record ('w, 's) pod_handler =
  FilterFunc :: "api_obj \<Rightarrow> bool"
  PodAddFunc :: "time \<Rightarrow> api_obj \<Rightarrow> (('w, 's) scheduler, unit) go"

record ('w, 's) informers =
  podInformer :: "('w, 's) pod_handler list"
  nodeInformer :: "('w, 's) event_funcs list"

definition assignedPod :: "pod \<Rightarrow> bool" where
  "assignedPod pod \<longleftrightarrow> length (podNodeName pod) \<noteq> 0"

definition addPodToSchedulingQueue ::
    "('s, 'c) framework \<Rightarrow> time \<Rightarrow> api_obj \<Rightarrow> (('w, 's) scheduler, unit) go" where
  "addPodToSchedulingQueue fw now obj s =
     (case obj of
        PodObj pod \<Rightarrow> Inr ((), s\<lparr>SchedulingQueue := queue_Add fw now pod (SchedulingQueue s)\<rparr>)
      | OtherObj i \<Rightarrow> Inl (PanicMsg ''interface conversion''))"

definition unassigned_filter :: "api_obj \<Rightarrow> bool" where
  "unassigned_filter obj = (case obj of PodObj t \<Rightarrow> \<not> assignedPod t | OtherObj i \<Rightarrow> False)"

definition move_all ::
    "('s, 'c) framework \<Rightarrow> cluster_event \<Rightarrow> (nat \<Rightarrow> time) \<Rightarrow> string list
       \<Rightarrow> ('w, 's) scheduler \<Rightarrow> ('w, 's) scheduler" where
  "move_all fw evt clk order s =
     s\<lparr>SchedulingQueue := MoveAllToActiveOrBackoffQueue fw clk order evt (SchedulingQueue s)\<rparr>"

definition buildEvtResHandler ::
    "('s, 'c) framework \<Rightarrow> int64 \<Rightarrow> string \<Rightarrow> string \<Rightarrow> ('w, 's) event_funcs" where
  "buildEvtResHandler fw at gvk shortGVK =
     (let funcs = \<lparr>AddFunc = None, UpdateFunc = None, DeleteFunc = None\<rparr>;
          funcs = (if and at (ActionAdd fw) \<noteq> 0
            then funcs\<lparr>AddFunc := Some (move_all fw
              \<lparr>Resource = gvk, ActionType = ActionAdd fw, Label = shortGVK @ ''Add''\<rparr>)\<rparr>
            else funcs);
          funcs = (if and at (ActionUpdate fw) \<noteq> 0
            then funcs\<lparr>UpdateFunc := Some (move_all fw
              \<lparr>Resource = gvk, ActionType = ActionUpdate fw, Label = shortGVK @ ''Update''\<rparr>)\<rparr>
            else funcs);
          funcs = (if and at (ActionDelete fw) \<noteq> 0
            then funcs\<lparr>DeleteFunc := Some (move_all fw
              \<lparr>Resource = gvk, ActionType = ActionDelete fw, Label = shortGVK @ ''Delete''\<rparr>)\<rparr>
            else funcs)
      in funcs)"

text \<open>\<open>order\<close> lists the resources as \<open>range gvkMap\<close> visits them.\<close>

fun node_handlers ::
    "('s, 'c) framework \<Rightarrow> string list \<Rightarrow> (string \<rightharpoonup> int64) \<Rightarrow> ('w, 's) event_funcs list" where
  "node_handlers fw [] gvkMap = []"
| "node_handlers fw (gvk # order) gvkMap =
     (if gvk = NodeGVK fw
      then buildEvtResHandler fw (case gvkMap gvk of None \<Rightarrow> 0 | Some at \<Rightarrow> at) (NodeGVK fw) ''Node'' #
             node_handlers fw order gvkMap
      else node_handlers fw order gvkMap)"

definition addAllEventHandlers ::
    "('s, 'c) framework \<Rightarrow> string list \<Rightarrow> (string \<rightharpoonup> int64)
       \<Rightarrow> ('w, 's) informers \<Rightarrow> ('w, 's) informers" where
  "addAllEventHandlers fw order gvkMap informerFactory =
     informerFactory\<lparr>podInformer := podInformer informerFactory @
           [\<lparr>FilterFunc = unassigned_filter, PodAddFunc = addPodToSchedulingQueue fw\<rparr>],
         nodeInformer := nodeInformer informerFactory @ node_handlers fw order gvkMap\<rparr>"

section \<open>The constructor\<close>

text \<open>
  The orders in which \<open>range\<close> visits the maps built here.  \<open>queueOrder\<close> is the one of the
  queue's searches, which the model of the queue takes from its list of events.
\<close>

record range_orders =
  queueOrder :: "cluster_event list"
  unionOrder :: "cluster_event list"
  gvkOrder :: "string list"

definition event_list :: "cluster_event list \<Rightarrow> event_map \<Rightarrow> (cluster_event \<times> string_set) list" where
  "event_list order m = map (\<lambda>e. (e, case m e of None \<Rightarrow> [] | Some x \<Rightarrow> x)) order"

text \<open>\<open>h\<close> identifies the scheduler that is allocated, which is the handle of its plugins.\<close>

definition New ::
    "('s, 'c) framework
       \<Rightarrow> (('c, after_func list) plugin_world, 's) plugin_obj option \<times> goerror option
       \<Rightarrow> nat \<Rightarrow> range_orders \<Rightarrow> (('c, after_func list) plugin_world, 's) informers
       \<Rightarrow> ((('c, after_func list) plugin_world, 's) plugin_globals,
           goerror + (('c, after_func list) plugin_world, 's) scheduler \<times>
                     (('c, after_func list) plugin_world, 's) informers) go" where
  "New fw nu h ords informerFactory g =
     (case createFilterPlugins nu h g of
        Inl e \<Rightarrow> Inl e
      | Inr (Inl err, g) \<Rightarrow> Inr (Inl (Errorf ''create filter plugins: %w'' [] (Some err)), g)
      | Inr (Inr filterP, g) \<Rightarrow>
     (case createPreScorePlugins fw h g of
        Inl e \<Rightarrow> Inl e
      | Inr (Inl err, g) \<Rightarrow> Inr (Inl (Errorf ''create pre score plugins: %w'' [] (Some err)), g)
      | Inr (Inr preScoreP, g) \<Rightarrow>
     (case createScorePlugins fw h g of
        Inl e \<Rightarrow> Inl e
      | Inr (Inl err, g) \<Rightarrow> Inr (Inl (Errorf ''create score plugins: %w'' [] (Some err)), g)
      | Inr (Inr scoreP, g) \<Rightarrow>
     (case createPermitPlugins fw h g of
        Inl e \<Rightarrow> Inl e
      | Inr (Inl err, g) \<Rightarrow> Inr (Inl (Errorf ''create permit plugins: %w'' [] (Some err)), g)
      | Inr (Inr permitP, g) \<Rightarrow>
     (case eventsToRegister fw nu h g of
        Inl e \<Rightarrow> Inl e
      | Inr (Inl err, g) \<Rightarrow> Inr (Inl (Errorf ''create gvks: %w'' [] None), g)
      | Inr (Inr events, g) \<Rightarrow>
          let s = \<lparr>SchedulingQueue = queue_New (event_list (queueOrder ords) events),
                   waitingPods = Map.empty, filterPlugins = filterP, preScorePlugins = preScoreP,
                   scorePlugins = scoreP, permitPlugins = permitP\<rparr>;
              informerFactory = addAllEventHandlers fw (gvkOrder ords) (unionedGVKs (unionOrder ords)) informerFactory
          in Inr (Inr (s, informerFactory), g))))))"

section \<open>The registered events\<close>

lemma registerClusterEvents_dom:
  "dom (registerClusterEvents fw name m evts) = dom m \<union> set evts"
  by (induction fw name m evts rule: registerClusterEvents.induct) (auto split: option.splits)

lemma registerClusterEvents_names:
  assumes "sets_laws fw" and "\<And>e x. m e = Some x \<Longrightarrow> set x = {name}"
    and "registerClusterEvents fw name m evts e = Some x"
  shows "set x = {name}"
  using assms(2,3)
proof (induction evts arbitrary: m)
  case (Cons evt evts)
  let ?m = "case m evt of None \<Rightarrow> m(evt \<mapsto> setsNewString fw [name])
      | Some x \<Rightarrow> m(evt \<mapsto> setsInsert fw x name)"
  have "set y = {name}" if "?m e = Some y" for e y
    using that Cons.prems(1)
    by (auto simp: sets_laws_simps [OF assms(1)] split: option.splits if_splits)
  with Cons.IH [of ?m] Cons.prems(2) show ?case by simp
qed simp

text \<open>
  What the first call of \<open>New\<close> or a later one finds in the package variables: nothing, or the
  plugins of the first call, whose handle was \<open>h0\<close>.
\<close>

definition first_handle ::
    "('s, 'c) framework \<Rightarrow> (('c, after_func list) plugin_world, 's) plugin_obj \<Rightarrow> nat \<Rightarrow> nat
       \<Rightarrow> (('c, after_func list) plugin_world, 's) plugin_globals \<Rightarrow> bool" where
  "first_handle fw p h h0 g \<longleftrightarrow>
     (nodeunschedulableplugin g = None \<or> nodeunschedulableplugin g = Some p) \<and>
     (nodenumberplugin g = None \<and> h0 = h \<or>
      nodenumberplugin g = Some (nodenumber_obj fw \<lparr>nnHandle = h0\<rparr>))"

definition registered_events ::
    "('s, 'c) framework \<Rightarrow> string \<Rightarrow> cluster_event list \<Rightarrow> event_map" where
  "registered_events fw name evs =
     registerClusterEvents fw name (registerClusterEvents fw name Map.empty evs)
       (NodeNumber_EventsToRegister fw)"

lemma plugin_globals_eq:
  fixes g :: "('w, 's) plugin_globals"
  shows "g = g' \<longleftrightarrow> nodeunschedulableplugin g = nodeunschedulableplugin g' \<and>
     nodenumberplugin g = nodenumberplugin g'"
  by (cases g; cases g') simp

lemma registered_events_dom:
  "dom (registered_events fw name evs) = set evs \<union> set (NodeNumber_EventsToRegister fw)"
  by (simp add: registered_events_def registerClusterEvents_dom)

lemma registered_events_names:
  assumes "sets_laws fw" and "registered_events fw name evs e = Some x"
  shows "set x = {name}"
proof (rule registerClusterEvents_names [OF assms(1) _ assms(2) [unfolded registered_events_def]])
  fix e x
  assume "registerClusterEvents fw name Map.empty evs e = Some x"
  then show "set x = {name}"
    by (rule registerClusterEvents_names [OF assms(1), rotated]) simp
qed

lemma New_eq:
  assumes "asFilter p = Some fp" and "asEnqueue p = Some evs" and "first_handle fw p h h0 g"
  shows "New fw (Some p, None) h ords informerFactory g =
     Inr (Inr (\<lparr>SchedulingQueue =
                  queue_New (event_list (queueOrder ords) (registered_events fw (plName p) evs)),
                waitingPods = Map.empty, filterPlugins = [fp],
                preScorePlugins = [nodenumber_pre_score fw],
                scorePlugins = [nodenumber_score fw],
                permitPlugins = [nodenumber_permit fw \<lparr>nnHandle = h0\<rparr>]\<rparr>,
               addAllEventHandlers fw (gvkOrder ords) (unionedGVKs (unionOrder ords)) informerFactory),
          \<lparr>nodeunschedulableplugin = Some p,
           nodenumberplugin = Some (nodenumber_obj fw \<lparr>nnHandle = h0\<rparr>)\<rparr>)"
  using assms
  by (auto simp: New_def createFilterPlugins_def createPreScorePlugins_def createScorePlugins_def
        createPermitPlugins_def eventsToRegister_def plugin_list_def type_assert_def
        createNodeUnschedulablePlugin_def createNodeNumberPlugin_def NodeNumber_New_def
        first_handle_def nodenumber_obj_def registered_events_def Let_def plugin_globals_eq)

section \<open>A cycle of the scheduler that \<open>New\<close> builds\<close>

text \<open>
  The plugins of such a scheduler, where the filter \<open>nodeunschedulable\<close> answers as \<open>f\<close>.
\<close>

definition default_plugins ::
    "('s, 'c) framework \<Rightarrow> string \<times> (pod \<Rightarrow> node_info \<Rightarrow> 's option) \<Rightarrow> nat
       \<Rightarrow> (('c, after_func list) plugin_world, 's) scheduler \<Rightarrow> bool" where
  "default_plugins fw spec h0 s \<longleftrightarrow>
     filterPlugins s = [stateless_filter spec] \<and>
     preScorePlugins s = [nodenumber_pre_score fw] \<and>
     scorePlugins s = [nodenumber_score fw] \<and>
     permitPlugins s = [nodenumber_permit fw \<lparr>nnHandle = h0\<rparr>]"

text \<open>
  A plugin object as \<open>nodeunschedulable.New\<close> may return it, with which the properties are
  evaluated: it fails unschedulable nodes and registers for added and updated nodes.
\<close>

definition sample_filter :: "string \<times> (pod \<Rightarrow> node_info \<Rightarrow> sample_status option)" where
  "sample_filter =
     (''NodeUnschedulable'', \<lambda>pod ni. if nodeUnschedulable (Node ni)
        then Some (NewStatus sample_framework Unschedulable ''node(s) were unschedulable'') else None)"

definition sample_nodeunschedulable ::
    "((string \<rightharpoonup> state_data, after_func list) plugin_world, sample_status) plugin_obj" where
  "sample_nodeunschedulable =
     \<lparr>plName = ''NodeUnschedulable'', asFilter = Some (stateless_filter sample_filter),
      asPreScore = None, asScore = None, asPermit = None,
      asEnqueue = Some [\<lparr>Resource = ''Node'', ActionType = 5, Label = []\<rparr>]\<rparr>"

definition no_plugins :: "('w, 's) plugin_globals" where
  "no_plugins = \<lparr>nodeunschedulableplugin = None, nodenumberplugin = None\<rparr>"

definition sample_orders :: range_orders where
  "sample_orders =
     \<lparr>queueOrder = [\<lparr>Resource = ''Node'', ActionType = 5, Label = []\<rparr>,
                    \<lparr>Resource = ''Node'', ActionType = 1, Label = []\<rparr>],
      unionOrder = [\<lparr>Resource = ''Node'', ActionType = 1, Label = []\<rparr>,
                    \<lparr>Resource = ''Node'', ActionType = 5, Label = []\<rparr>],
      gvkOrder = [''Node'']\<rparr>"

definition no_informers :: "('w, 's) informers" where
  "no_informers = \<lparr>podInformer = [], nodeInformer = []\<rparr>"

lemma sample_nodeunschedulable_sel [simp]:
  "plName sample_nodeunschedulable = ''NodeUnschedulable''"
  "asFilter sample_nodeunschedulable = Some (stateless_filter sample_filter)"
  "asEnqueue sample_nodeunschedulable = Some [\<lparr>Resource = ''Node'', ActionType = 5, Label = []\<rparr>]"
  by (simp_all add: sample_nodeunschedulable_def)

text \<open>
  C37: \<open>New\<close> builds a scheduler with the two plugins and an empty queue.  But the plugins are
  package variables: a second call of \<open>New\<close>, for the scheduler of a restart, gets the plugin
  \<open>NodeNumber\<close> of the first call, which looks waiting pods up in the first scheduler.
\<close>

theorem New_keeps_first_handle:
  assumes "asFilter p = Some (stateless_filter spec)" and "asEnqueue p = Some evs"
  shows "\<exists>s1 i1 g1. New fw (Some p, None) h1 ords1 inf1 no_plugins = Inr (Inr (s1, i1), g1) \<and>
     default_plugins fw spec h1 s1 \<and> ready_pods (SchedulingQueue s1) = [] \<and>
     held_pods (SchedulingQueue s1) = {#} \<and> queue_inv (SchedulingQueue s1) \<and>
     (\<exists>s2 i2. New fw (Some p, None) h2 ords2 inf2 g1 = Inr (Inr (s2, i2), g1) \<and>
        default_plugins fw spec h1 s2)"
proof -
  have first: "first_handle fw p h1 h1 no_plugins"
    and later: "first_handle fw p h2 h1 \<lparr>nodeunschedulableplugin = Some p,
      nodenumberplugin = Some (nodenumber_obj fw \<lparr>nnHandle = h1\<rparr>)\<rparr>"
    by (simp_all add: first_handle_def no_plugins_def)
  show ?thesis
    using New_eq [OF assms first, of ords1 inf1] New_eq [OF assms later, of ords2 inf2]
    by (simp add: default_plugins_def ready_pods_def held_pods_def queue_New_def queue_inv_def)
qed

theorem New_keeps_first_handle_witness:
  "\<exists>s1 i1 g1. New sample_framework (Some sample_nodeunschedulable, None) 1 sample_orders no_informers
       no_plugins = Inr (Inr (s1, i1), g1) \<and> default_plugins sample_framework sample_filter 1 s1 \<and>
     (\<exists>s2 i2. New sample_framework (Some sample_nodeunschedulable, None) 2 sample_orders no_informers
        g1 = Inr (Inr (s2, i2), g1) \<and> default_plugins sample_framework sample_filter 1 s2)"
  using New_keeps_first_handle [of sample_nodeunschedulable sample_filter _ sample_framework 1
      sample_orders no_informers 2 sample_orders no_informers]
  by auto

section \<open>Which events wake parked pods\<close>

lemma unionedGVKs_loop_dom:
  "dom (unionedGVKs_loop evts m) = dom m \<union> Resource ` set evts"
  by (induction evts m rule: unionedGVKs_loop.induct) (auto split: option.splits)

lemma unionedGVKs_loop_bit:
  "(\<exists>at. unionedGVKs_loop evts m r = Some at \<and> bit at n) \<longleftrightarrow>
     (\<exists>at. m r = Some at \<and> bit at n) \<or> (\<exists>e \<in> set evts. Resource e = r \<and> bit (ActionType e) n)"
proof (induction evts m rule: unionedGVKs_loop.induct)
  case (2 evt evts m)
  then show ?case
    by (auto simp: bit_or_iff split: option.splits)
qed simp

text \<open>
  The union has an entry for exactly the resources of the registered events, and an action
  bit is set in it exactly if it is set in an event of that resource, so the order in which
  the map of events is visited does not matter.
\<close>

theorem unionedGVKs_bits:
  "dom (unionedGVKs order) = Resource ` set order \<and>
   ((\<exists>at. unionedGVKs order r = Some at \<and> bit at n) \<longleftrightarrow>
      (\<exists>e \<in> set order. Resource e = r \<and> bit (ActionType e) n))"
  using unionedGVKs_loop_dom [of order Map.empty] unionedGVKs_loop_bit [of order Map.empty r n]
  by (simp add: unionedGVKs_def)

text \<open>
  C38: the events of both plugins are registered, but all of them under the name of
  \<open>nodeunschedulable\<close> alone: the second registration passes the first plugin's name too.
\<close>

theorem eventsToRegister_names:
  assumes "sets_laws fw" and "asEnqueue p = Some evs" and "first_handle fw p h h0 g"
  shows "\<exists>m g'. eventsToRegister fw (Some p, None) h g = Inr (Inr m, g') \<and>
     dom m = set evs \<union> set (NodeNumber_EventsToRegister fw) \<and>
     (\<forall>names \<in> ran m. set names = {plName p})"
proof -
  have "\<exists>g'. eventsToRegister fw (Some p, None) h g =
      Inr (Inr (registered_events fw (plName p) evs), g')"
    using assms(2,3)
    by (auto simp: eventsToRegister_def createNodeUnschedulablePlugin_def createNodeNumberPlugin_def
          NodeNumber_New_def first_handle_def nodenumber_obj_def registered_events_def Let_def
          type_assert_def)
  moreover have "\<forall>names \<in> ran (registered_events fw (plName p) evs). set names = {plName p}"
    using registered_events_names [OF assms(1)] by (fastforce simp: ran_def)
  ultimately show ?thesis
    using registered_events_dom by metis
qed

theorem eventsToRegister_names_witness:
  "\<exists>m g'. eventsToRegister sample_framework (Some sample_nodeunschedulable, None) 1 no_plugins =
       Inr (Inr m, g') \<and> (\<forall>names \<in> ran m. set names = {''NodeUnschedulable''})"
  using eventsToRegister_names [OF sample_laws(4), of sample_nodeunschedulable _ 1 1 no_plugins]
  by (fastforce simp: first_handle_def no_plugins_def)

text \<open>The order of each map that \<open>New\<close> ranges over lists its keys.\<close>

definition orders_ok :: "range_orders \<Rightarrow> event_map \<Rightarrow> bool" where
  "orders_ok ords m \<longleftrightarrow>
     range_order (queueOrder ords) m \<and> range_order (unionOrder ords) m \<and>
     range_order (gvkOrder ords) (unionedGVKs (unionOrder ords))"

lemma node_handlers_distinct:
  "distinct order \<Longrightarrow> NodeGVK fw \<in> set order \<Longrightarrow> m (NodeGVK fw) = Some at \<Longrightarrow>
     node_handlers fw order m = [buildEvtResHandler fw at (NodeGVK fw) ''Node'']"
proof (induction order)
  case (Cons gvk order)
  have none: "NodeGVK fw \<notin> set ord \<Longrightarrow> node_handlers fw ord m = []" for ord
    by (induction ord) auto
  from Cons none [of order] show ?case by auto
qed simp

lemma and_nonzero_bit:
  fixes a b :: int64
  shows "and a b \<noteq> 0 \<longleftrightarrow> (\<exists>n. bit a n \<and> bit b n)"
  by (auto simp: bit_eq_iff bit_and_iff) (use bit_imp_le_length in fastforce)

lemma node_add_event_movable:
  assumes "sets_laws fw" and "event_laws fw"
    and "clusterEventMap q = event_list order (registered_events fw name evs)"
    and "set order = dom (registered_events fw name evs)"
    and "set (UnschedulablePlugins info) \<subseteq> {name}"
    and "Resource ev = NodeGVK fw" and "ActionType ev = ActionAdd fw"
  shows "movable fw q ev info"
proof (cases "UnschedulablePlugins info = []")
  case False
  let ?e = "\<lparr>Resource = NodeGVK fw, ActionType = ActionAdd fw, Label = []\<rparr>"
  have "?e \<in> dom (registered_events fw name evs)"
    by (simp only: registered_events_dom) (simp add: NodeNumber_EventsToRegister_def)
  then obtain x where x: "registered_events fw name evs ?e = Some x" by blast
  have "(?e, x) \<in> set (clusterEventMap q)"
    using x assms(4) by (auto simp: assms(3) event_list_def image_iff dom_def
        intro!: bexI [of _ ?e])
  moreover have "set x \<inter> set (UnschedulablePlugins info) \<noteq> {}"
    using False assms(5) registered_events_names [OF assms(1) x] by (cases "UnschedulablePlugins info") auto
  moreover have "evtMatch fw ?e ev"
    using assms(2,6,7) by (simp add: evtMatch_def event_laws_def)
  ultimately show ?thesis
    unfolding movable_def podMatchesEvent_def podMatchesEvent_loop_iff [OF assms(1)] by auto
qed (simp add: movable_def)

text \<open>
  The handler that \<open>New\<close> registers for nodes: it is the only one, and a new node is an event
  that can help every pod that the filter plugin failed, or that no plugin is named for.
\<close>

lemma New_node_handler:
  assumes "framework_laws fw"
    and "asFilter p = Some fp" and "asEnqueue p = Some evs"
    and "orders_ok ords (registered_events fw (plName p) evs)"
    and "New fw (Some p, None) h ords informerFactory no_plugins = Inr (Inr (s, informerFactory'), g)"
  obtains handler where "nodeInformer informerFactory' = nodeInformer informerFactory @ [handler]"
    and "AddFunc handler =
      Some (move_all fw \<lparr>Resource = NodeGVK fw, ActionType = ActionAdd fw, Label = ''NodeAdd''\<rparr>)"
    and "\<And>q info. clusterEventMap q = clusterEventMap (SchedulingQueue s) \<Longrightarrow>
      set (UnschedulablePlugins info) \<subseteq> {plName p} \<Longrightarrow>
      movable fw q \<lparr>Resource = NodeGVK fw, ActionType = ActionAdd fw, Label = ''NodeAdd''\<rparr> info"
proof -
  note laws = framework_lawsD [OF assms(1)]
  let ?e = "\<lparr>Resource = NodeGVK fw, ActionType = ActionAdd fw, Label = []\<rparr>"
  let ?m = "registered_events fw (plName p) evs" and ?u = "unionedGVKs (unionOrder ords)"
  have "first_handle fw p h h no_plugins"
    by (simp add: first_handle_def no_plugins_def)
  from New_eq [OF assms(2,3) this, of ords informerFactory] assms(5)
  have queue: "SchedulingQueue s = queue_New (event_list (queueOrder ords) ?m)"
    and handlers: "nodeInformer informerFactory' =
      nodeInformer informerFactory @ node_handlers fw (gvkOrder ords) ?u"
    by (auto simp: addAllEventHandlers_def)
  have e: "?e \<in> set (unionOrder ords)"
    using assms(4) by (simp add: orders_ok_def range_order_def registered_events_dom
        NodeNumber_EventsToRegister_def)
  obtain i where i: "bit (ActionAdd fw) i"
    using laws(3) and_nonzero_bit [of "ActionAdd fw" "ActionAdd fw"] by (auto simp: event_laws_def)
  obtain at where "at": "?u (NodeGVK fw) = Some at" "bit at i"
    using unionedGVKs_loop_bit [of "unionOrder ords" Map.empty "NodeGVK fw" i] bexI [OF _ e] i
    by (fastforce simp: unionedGVKs_def)
  have "and at (ActionAdd fw) \<noteq> 0" using at(2) i and_nonzero_bit by blast
  then have add: "AddFunc (buildEvtResHandler fw at (NodeGVK fw) ''Node'') =
      Some (move_all fw \<lparr>Resource = NodeGVK fw, ActionType = ActionAdd fw, Label = ''NodeAdd''\<rparr>)"
    by (simp add: buildEvtResHandler_def Let_def)
  have hd: "node_handlers fw (gvkOrder ords) ?u = [buildEvtResHandler fw at (NodeGVK fw) ''Node'']"
    using assms(4) at(1) by (intro node_handlers_distinct) (auto simp: orders_ok_def range_order_def)
  have "movable fw q \<lparr>Resource = NodeGVK fw, ActionType = ActionAdd fw, Label = ''NodeAdd''\<rparr> info"
    if "clusterEventMap q = clusterEventMap (SchedulingQueue s)"
      and "set (UnschedulablePlugins info) \<subseteq> {plName p}" for q info
    using that assms(4) queue
    by (intro node_add_event_movable [OF laws(4,3), of q "queueOrder ords" "plName p" evs])
       (auto simp: queue_New_def orders_ok_def range_order_def)
  from that [OF handlers [unfolded hd] add this] show thesis .
qed

text \<open>
  The scheduler that \<open>New\<close> builds registers exactly one handler for nodes.  When a node is
  added it empties the map of unschedulable pods: no pod that the filter plugin or a failing
  PreScore, Score or Permit parked is left behind.
\<close>

theorem node_added_frees_parked_pods:
  assumes "framework_laws fw"
    and "asFilter p = Some (stateless_filter (plName p, f))" and "asEnqueue p = Some evs"
    and "orders_ok ords (registered_events fw (plName p) evs)"
    and "New fw (Some p, None) h ords informerFactory no_plugins = Inr (Inr (s, informerFactory'), g)"
    and "clusterEventMap q = clusterEventMap (SchedulingQueue s)" and "queue_inv q"
    and "\<forall>info \<in> ran (unschedulableQ q). set (UnschedulablePlugins info) \<subseteq> filterName ` set (filterPlugins s)"
    and "range_order order (unschedulableQ q)"
  shows "\<exists>handler f. nodeInformer informerFactory' = nodeInformer informerFactory @ [handler] \<and>
     AddFunc handler = Some f \<and>
     unschedulableQ (SchedulingQueue (f clk order (s\<lparr>SchedulingQueue := q\<rparr>))) = Map.empty"
proof -
  let ?ev = "\<lparr>Resource = NodeGVK fw, ActionType = ActionAdd fw, Label = ''NodeAdd''\<rparr>"
  obtain handler where handler: "nodeInformer informerFactory' = nodeInformer informerFactory @ [handler]"
      "AddFunc handler = Some (move_all fw ?ev)"
    and mov: "\<And>q info. clusterEventMap q = clusterEventMap (SchedulingQueue s) \<Longrightarrow>
      set (UnschedulablePlugins info) \<subseteq> {plName p} \<Longrightarrow> movable fw q ?ev info"
    by (rule New_node_handler [OF assms(1-5)]) (rule that)
  have "first_handle fw p h h no_plugins"
    by (simp add: first_handle_def no_plugins_def)
  from New_eq [OF assms(2,3) this, of ords informerFactory] assms(5)
  have "filterPlugins s = [stateless_filter (plName p, f)]" by auto
  then have "movable fw q ?ev info" if "info \<in> ran (unschedulableQ q)" for info
    using that assms(8) by (intro mov [OF assms(6)]) (auto simp: stateless_filter_def)
  then have "unschedulableQ (MoveAllToActiveOrBackoffQueue fw clk order ?ev q) = Map.empty"
    by (intro ext) (auto simp: MoveAll_sel(4) [OF assms(7,9)] ran_def split: option.split)
  then have "unschedulableQ (SchedulingQueue (move_all fw ?ev clk order (s\<lparr>SchedulingQueue := q\<rparr>))) = Map.empty"
    by (simp add: move_all_def)
  then show ?thesis by (intro exI conjI) (rule handler)+
qed

lemma sample_orders_ok:
  "orders_ok sample_orders
      (registered_events sample_framework (plName sample_nodeunschedulable)
         [\<lparr>Resource = ''Node'', ActionType = 5, Label = []\<rparr>])"
  by (auto simp: orders_ok_def range_order_def registered_events_dom sample_orders_def
        NodeNumber_EventsToRegister_def unionedGVKs_def)

theorem node_added_frees_parked_pods_witness:
  "\<exists>s informerFactory' g handler f.
     New sample_framework (Some sample_nodeunschedulable, None) 1 sample_orders no_informers no_plugins =
       Inr (Inr (s, informerFactory'), g) \<and>
     nodeInformer informerFactory' = [handler] \<and> AddFunc handler = Some f \<and>
     unschedulableQ (SchedulingQueue (f (\<lambda>_. 0) [''p_default'']
       (s\<lparr>SchedulingQueue := AddUnschedulable 0 (parked_info (sample_pod ''p'')
           (Some (FitError (sample_pod ''p'') \<lparr>diagUnschedulablePlugins = [''NodeUnschedulable'']\<rparr>)))
           (SchedulingQueue s)\<rparr>))) = Map.empty"
proof -
  let ?info = "parked_info (sample_pod ''p'') (Some (FitError (sample_pod ''p'')
      \<lparr>diagUnschedulablePlugins = [''NodeUnschedulable'']\<rparr>))"
  obtain s informerFactory' g where run: "New sample_framework (Some sample_nodeunschedulable, None) 1
      sample_orders no_informers no_plugins = Inr (Inr (s, informerFactory'), g)"
    and queue: "unschedulableQ (SchedulingQueue s) = Map.empty" "queue_inv (SchedulingQueue s)"
    and filters: "filterPlugins s = [stateless_filter sample_filter]"
    using New_eq [of sample_nodeunschedulable _ _ sample_framework 1 1 no_plugins sample_orders no_informers]
    by (auto simp: first_handle_def no_plugins_def queue_New_def queue_inv_def)
  have filter: "asFilter sample_nodeunschedulable =
      Some (stateless_filter (plName sample_nodeunschedulable, snd sample_filter))"
    by (simp add: sample_filter_def)
  have enq: "asEnqueue sample_nodeunschedulable = Some [\<lparr>Resource = ''Node'', ActionType = 5, Label = []\<rparr>]"
    by simp
  have inv: "queue_inv (AddUnschedulable 0 ?info (SchedulingQueue s))"
    using queue(2) by (rule queue_inv_AddUnschedulable)
  show ?thesis
    using node_added_frees_parked_pods [OF sample_framework_laws filter enq sample_orders_ok run _ inv,
        of "[''p_default'']" "\<lambda>_. 0"] run queue filters
    by (auto simp: queue_simps diag_plugins_def sample_filter_def stateless_filter_def
          no_informers_def range_order_def pod_key_def sample_pod_def)
qed

end
