(* ===== verification/Sched_System.thy ===== *)
theory Sched_System
  imports Initialize
begin

text \<open>
  The running scheduler as a state machine: the loop of \<open>scheduleOne\<close>, the informer handlers,
  the goroutine of every cycle that got past the permit phase, the plugins and the timers of
  the waiting pods, interleaved in any order.  Every step is an operation of the code on the
  scheduler's state; a step that panics ends the process and has no successor.  The plugins
  are arbitrary.  Properties of reachable states follow by rule induction.
\<close>

section \<open>The state machine\<close>

text \<open>
  A goroutine, with the address of the waiting pod that its cycle registered, if it did.
\<close>

record goroutine =
  gCycle :: binding_cycle
  gReg :: "nat option"

abbreviation gPod :: "goroutine \<Rightarrow> pod" where
  "gPod g \<equiv> bcPod (gCycle g)"

text \<open>
  \<open>sst\<close> is the scheduler.  The goroutines are those that have not yet called \<open>WaitOnPermit\<close>,
  those that block in it on an address, and those that have its result.  \<open>bound\<close> are the
  requests that the API server accepted and \<open>arrived\<close> the pods the informer delivered.
  \<open>wps\<close> are the waiting pods of the heap with the expired timers and the calls they saw,
  and \<open>waitTimes\<close> what they were created with.
\<close>

record ('c, 'x, 's) system =
  sst :: "('c, 'x, 's) sched_state"
  started :: "goroutine multiset"
  blocked :: "(goroutine \<times> nat) multiset"
  returned :: "(goroutine \<times> 's option) multiset"
  bound :: "(goroutine \<times> binding) multiset"
  arrived :: "pod list"
  wps :: "'s wp_sys list"
  waitTimes :: "(string \<rightharpoonup> duration) list"

abbreviation queue_of :: "('c, 'x, 's) system \<Rightarrow> sched_queue" where
  "queue_of s \<equiv> SchedulingQueue (sched (sst s))"

abbreviation waiting_of :: "('c, 'x, 's) system \<Rightarrow> string \<Rightarrow> nat option" where
  "waiting_of s \<equiv> waitingPods (sched (sst s))"

abbreviation pkey :: "pod \<Rightarrow> string" where
  "pkey p \<equiv> pod_key (podName p) (podNamespace p)"

text \<open>
  The API server gives every pod its own UID and, among the pods that exist, its own name in
  its namespace.  A pod that is deleted and created again under its name is outside the model.
\<close>

definition fresh :: "pod \<Rightarrow> ('c, 'x, 's) system \<Rightarrow> bool" where
  "fresh p s \<longleftrightarrow> podUID p \<notin> podUID ` set (arrived s) \<and> pkey p \<notin> pkey ` set (arrived s)"

definition sys_init ::
    "(('c, 'x) plugin_world, 's) scheduler \<Rightarrow> ('c, 'x) plugin_world \<Rightarrow> ('c, 'x, 's) system" where
  "sys_init sc w =
     \<lparr>sst = \<lparr>sched = sc, wpHeap = [], world = w\<rparr>, started = {#}, blocked = {#}, returned = {#},
      bound = {#}, arrived = [], wps = [], waitTimes = []\<rparr>"

text \<open>A call, an expiry or a timer function on the waiting pod at an address.\<close>

definition wp_at ::
    "('s, 'c) framework \<Rightarrow> nat \<Rightarrow> wp_event \<Rightarrow> ('c, 'x, 's) system \<Rightarrow> ('c, 'x, 's) system" where
  "wp_at fw addr e s =
     (let ws = (wps s)[addr := wp_step fw (waitTimes s ! addr) e (wps s ! addr)]
      in s\<lparr>wps := ws, sst := (sst s)\<lparr>wpHeap := map wp ws\<rparr>\<rparr>)"

text \<open>The goroutine of a cycle that ended in \<open>st'\<close>.\<close>

definition spawn ::
    "binding_cycle \<Rightarrow> ('c, 'x, 's) sched_state \<Rightarrow> ('c, 'x, 's) system \<Rightarrow> ('c, 'x, 's) system" where
  "spawn b st' s =
     (if length (wpHeap st') = length (wpHeap (sst s))
      then s\<lparr>sst := st', started := add_mset \<lparr>gCycle = b, gReg = None\<rparr> (started s)\<rparr>
      else
        let w = last (wpHeap st')
        in s\<lparr>sst := st',
             started := add_mset \<lparr>gCycle = b, gReg = Some (length (wpHeap (sst s)))\<rparr> (started s),
             wps := wps s @ [\<lparr>wp = w, expired = [], received = None, calls = []\<rparr>],
             waitTimes := waitTimes s @ [\<lambda>p. map_option waitTime (pendingPlugins w p)]\<rparr>)"

inductive sys_step ::
    "('s, 'c) framework \<Rightarrow> ('c, 'x, 's) system \<Rightarrow> ('c, 'x, 's) system \<Rightarrow> bool"
  for fw :: "('s, 'c) framework" where
  pod_added:
    "unassigned_filter (PodObj p) \<Longrightarrow> fresh p s \<Longrightarrow>
       addPodToSchedulingQueue fw now (PodObj p) (sched (sst s)) = Inr ((), sc) \<Longrightarrow>
       sys_step fw s (s\<lparr>sst := (sst s)\<lparr>sched := sc\<rparr>, arrived := arrived s @ [p]\<rparr>)"
| node_event:
    "range_order order (unschedulableQ (queue_of s)) \<Longrightarrow>
       sys_step fw s (s\<lparr>sst := (sst s)\<lparr>sched := move_all fw ev clk order (sched (sst s))\<rparr>\<rparr>)"
| cycle_parked:
    "scheduleOne fw env (sst s) = Some (Inr (None, st')) \<Longrightarrow> sys_step fw s (s\<lparr>sst := st'\<rparr>)"
| cycle_handed:
    "scheduleOne fw env (sst s) = Some (Inr (Some b, st')) \<Longrightarrow> sys_step fw s (spawn b st' s)"
| no_wait:
    "started s = add_mset g M \<Longrightarrow> waiting_of s (podUID (gPod g)) = None \<Longrightarrow>
       sys_step fw s (s\<lparr>started := M, returned := add_mset (g, None) (returned s)\<rparr>)"
| wait:
    "started s = add_mset g M \<Longrightarrow> waiting_of s (podUID (gPod g)) = Some addr \<Longrightarrow>
       sys_step fw s (s\<lparr>started := M, blocked := add_mset (g, addr) (blocked s)\<rparr>)"
| receive:
    "blocked s = add_mset (g, addr) M \<Longrightarrow> wait_on fw (gPod g) addr (sst s) = Some (status, st') \<Longrightarrow>
       sys_step fw s (s\<lparr>sst := st', blocked := M, returned := add_mset (g, status) (returned s),
         wps := (wps s)[addr := wp_step fw (waitTimes s ! addr) EvReceive (wps s ! addr)]\<rparr>)"
| finish:
    "returned s = add_mset (g, status) M \<Longrightarrow>
       finish_binding fw api now (gCycle g) status (sst s) = (request, st') \<Longrightarrow>
       sys_step fw s (s\<lparr>sst := st', returned := M, bound :=
         (case request of
            None \<Rightarrow> bound s
          | Some r \<Rightarrow> if api r = None then add_mset (g, r) (bound s) else bound s)\<rparr>)"
| waiting_pod:
    "addr < length (wps s) \<Longrightarrow> e \<noteq> EvReceive \<Longrightarrow> sys_step fw s (wp_at fw addr e s)"
| plugins_act:
    "sys_step fw s (s\<lparr>sst := (sst s)\<lparr>world := w\<rparr>\<rparr>)"

abbreviation sys_reachable ::
    "('s, 'c) framework \<Rightarrow> ('c, 'x, 's) system \<Rightarrow> ('c, 'x, 's) system \<Rightarrow> bool" where
  "sys_reachable fw \<equiv> (sys_step fw)\<^sup>*\<^sup>*"

section \<open>Every pod is in one place\<close>

text \<open>The pods of the system, each as often as it occurs somewhere.\<close>

definition flying_pods :: "('c, 'x, 's) system \<Rightarrow> pod multiset" where
  "flying_pods s =
     image_mset gPod (started s) + image_mset (gPod \<circ> fst) (blocked s) +
     image_mset (gPod \<circ> fst) (returned s)"

definition bound_pods :: "('c, 'x, 's) system \<Rightarrow> pod multiset" where
  "bound_pods s = image_mset (gPod \<circ> fst) (bound s)"

definition all_pods :: "('c, 'x, 's) system \<Rightarrow> pod multiset" where
  "all_pods s =
     mset (ready_pods (queue_of s)) + held_pods (queue_of s) + flying_pods s + bound_pods s"

definition place_inv :: "('c, 'x, 's) system \<Rightarrow> bool" where
  "place_inv s \<longleftrightarrow>
     queue_inv (queue_of s) \<and> all_pods s = mset (arrived s) \<and>
     distinct (map podUID (arrived s)) \<and> distinct (map pkey (arrived s))"

lemma distinct_image_mset:
  assumes "distinct (map f xs)" and "mset xs = add_mset a (add_mset b M)"
  shows "f a \<noteq> f b"
proof
  assume eq: "f a = f b"
  have "mset (map f xs) = add_mset (f a) (add_mset (f b) (image_mset f M))"
    using assms(2) by simp
  then have "count (mset (map f xs)) (f a) \<ge> 2" using eq by simp
  moreover have "count (mset (map f xs)) (f a) \<le> 1"
    using assms(1) distinct_count_atmost_1 [of "map f xs"] by simp
  ultimately show False by linarith
qed

text \<open>Two different occurrences of pods have different UIDs and keys.\<close>

lemma place_inv_distinct:
  assumes "place_inv s" and "all_pods s = add_mset a (add_mset b M)"
  shows "podUID a \<noteq> podUID b" and "pkey a \<noteq> pkey b"
  using assms distinct_image_mset [of podUID "arrived s" a b M]
    distinct_image_mset [of pkey "arrived s" a b M]
  by (simp_all add: place_inv_def)

text \<open>A pod that is in flight or has just been popped can be parked: its key is free.\<close>

lemma park_fresh_from:
  assumes "queue_inv q" and "distinct (map pkey ps)"
    and "mset ps = add_mset p (held_pods q + M)"
  shows "unschedulableQ q (pkey p) = None"
proof (rule ccontr)
  assume "unschedulableQ q (pkey p) \<noteq> None"
  then obtain info where info: "unschedulableQ q (pkey p) = Some info" by blast
  then have key: "pkey (Pod info) = pkey p"
    using assms(1) by (auto simp: queue_inv_def keyFunc_pod_key)
  have "finite (dom (unschedulableQ q))" using assms(1) by (simp add: queue_inv_def)
  then have "info \<in># map_values (unschedulableQ q)"
    using info by (simp add: set_map_values ran_def) blast
  then have "Pod info \<in># held_pods q" by (simp add: held_pods_def)
  then obtain H where "held_pods q = add_mset (Pod info) H" by (metis multi_member_split)
  with assms(3) have "mset ps = add_mset p (add_mset (Pod info) (H + M))" by simp
  from distinct_image_mset [OF assms(2) this] key show False by simp
qed

lemma AddUnschedulable_parked:
  assumes "queue_inv q" and "distinct (map pkey ps)"
    and "mset ps = add_mset p (held_pods q + M)"
  shows "held_pods (AddUnschedulable now (parked_info p err) q) = add_mset p (held_pods q)"
    and "ready_pods (AddUnschedulable now (parked_info p err) q) = ready_pods q"
    and "queue_inv (AddUnschedulable now (parked_info p err) q)"
  using held_pods_park [of q "(now, parked_info p err)"] park_fresh_from [OF assms] assms(1)
    sq.ready_park [of "(now, parked_info p err)" q] queue_inv_AddUnschedulable
  by (simp_all add: queue_park_def park_fresh_def)

section \<open>The steps keep every pod in one place\<close>

lemma place_inv_init:
  assumes "SchedulingQueue sc = queue_New evm"
  shows "place_inv (sys_init sc w)"
  using assms
  by (simp add: place_inv_def sys_init_def all_pods_def flying_pods_def bound_pods_def queue_invs)
     (simp add: queue_New_def ready_pods_def held_pods_def)

text \<open>A step that moves pods between the places, keeping the queue's invariant.\<close>

lemma place_inv_move:
  assumes "place_inv s" and "arrived s' = arrived s"
    and "queue_inv (queue_of s')" and "all_pods s' = all_pods s"
  shows "place_inv s'"
  using assms by (simp add: place_inv_def)

lemma place_inv_pod_added:
  assumes "place_inv s" and "fresh p s"
    and "addPodToSchedulingQueue fw now (PodObj p) (sched (sst s)) = Inr ((), sc)"
  shows "place_inv (s\<lparr>sst := (sst s)\<lparr>sched := sc\<rparr>, arrived := arrived s @ [p]\<rparr>)"
proof -
  have sc: "SchedulingQueue sc = queue_Add fw now p (queue_of s)"
    using assms(3) by (auto simp: addPodToSchedulingQueue_def)
  show ?thesis
    using assms(1,2)
    by (simp add: place_inv_def sc queue_invs fresh_def all_pods_def flying_pods_def bound_pods_def
          sq.ready_add sq.held_add ac_simps)
qed

lemma place_inv_node_event:
  assumes "place_inv s" and "range_order order (unschedulableQ (queue_of s))"
  shows "place_inv (s\<lparr>sst := (sst s)\<lparr>sched := move_all fw ev clk order (sched (sst s))\<rparr>\<rparr>)"
proof -
  let ?m = "(clk, order, ev)"
  have inv: "queue_inv (queue_of s)" using assms(1) by (simp add: place_inv_def)
  have ok: "move_order ?m (queue_of s)" using assms(2) by (simp add: move_order_def)
  have "MoveAllToActiveOrBackoffQueue fw clk order ev (queue_of s) = queue_move fw ?m (queue_of s)"
    by (simp add: queue_move_def)
  moreover have "mset (ready_pods (queue_move fw ?m (queue_of s))) +
      held_pods (queue_move fw ?m (queue_of s)) = mset (ready_pods (queue_of s)) + held_pods (queue_of s)"
    by (rule sq.contents_move [OF inv ok])
  ultimately show ?thesis
    using sq.inv_move [OF inv ok, of fw]
    by (intro place_inv_move [OF assms(1)])
       (simp_all add: move_all_def all_pods_def flying_pods_def bound_pods_def)
qed

lemma place_inv_cycle_parked:
  assumes "status_laws fw" and "place_inv s" and "scheduleOne fw env (sst s) = Some (Inr (None, st'))"
  shows "place_inv (s\<lparr>sst := st'\<rparr>)"
  using assms(1,3)
proof (cases rule: scheduleOne_cases)
  case (parked pod q err)
  have q: "ready_pods (queue_of s) = pod # ready_pods q" "held_pods q = held_pods (queue_of s)"
    "queue_inv q"
    using sq.next_Some [OF parked(1)] assms(2) by (simp_all add: place_inv_def)
  have "mset (arrived s) =
      add_mset pod (held_pods q + (mset (ready_pods q) + flying_pods s + bound_pods s))"
    using assms(2) q by (simp add: place_inv_def all_pods_def ac_simps flip: add_mset_add_single)
  note park = AddUnschedulable_parked [OF q(3) _ this, of "envNow env" err]
  have keys: "distinct (map pkey (arrived s))" using assms(2) by (simp add: place_inv_def)
  show ?thesis
    using park [OF keys] q
    by (intro place_inv_move [OF assms(2)])
       (simp_all add: parked all_pods_def flying_pods_def bound_pods_def)
qed simp

lemma spawn_sel [simp]:
  "sst (spawn b st' s) = st'" "blocked (spawn b st' s) = blocked s"
  "returned (spawn b st' s) = returned s" "bound (spawn b st' s) = bound s"
  "arrived (spawn b st' s) = arrived s"
  "started (spawn b st' s) = add_mset
     \<lparr>gCycle = b, gReg = (if length (wpHeap st') = length (wpHeap (sst s)) then None
        else Some (length (wpHeap (sst s))))\<rparr> (started s)"
  by (simp_all add: spawn_def Let_def)

lemma place_inv_cycle_handed:
  assumes "status_laws fw" and "place_inv s" and "scheduleOne fw env (sst s) = Some (Inr (Some b, st'))"
  shows "place_inv (spawn b st' s)"
  using assms(1,3)
proof (cases rule: scheduleOne_cases)
  case (handed pod q nodename nodes reg)
  then show ?thesis
    using sq.next_Some [OF handed(1)] assms(2)
    by (intro place_inv_move [OF assms(2)])
       (auto simp: place_inv_def all_pods_def flying_pods_def bound_pods_def)
qed simp

lemma finish_binding_cases:
  assumes "finish_binding fw api now bc status st = (request, st')"
  obtains (parked) err where "st' = ErrorFunc now (bcPod bc) err st"
      and "case request of None \<Rightarrow> True | Some r \<Rightarrow> api r \<noteq> None"
  | (bound) r where "st' = st" and "request = Some r" and "api r = None" and "IsSuccess fw status"
      and "r = fst (Bind api (bcPod bc) (bcNode bc))"
proof (cases "IsSuccess fw status")
  case False
  then show thesis using assms parked by (auto simp: finish_binding_def)
next
  case True
  define r where "r = fst (Bind api (bcPod bc) (bcNode bc))"
  have r: "Bind api (bcPod bc) (bcNode bc) = (r, api r)"
    by (simp add: r_def Bind_def Let_def)
  have run: "(request, st') = (Some r, if api r \<noteq> None then ErrorFunc now (bcPod bc) (api r) st else st)"
    using assms True unfolding finish_binding_def r by simp
  show thesis
  proof (cases "api r")
    case None
    then show thesis using bound [of r] run True r_def by simp
  next
    case (Some e)
    then show thesis using parked [of "Some e"] run by simp
  qed
qed

lemma place_inv_finish:
  assumes "place_inv s" and "returned s = add_mset (g, status) M"
    and "finish_binding fw api now (gCycle g) status (sst s) = (request, st')"
  shows "place_inv (s\<lparr>sst := st', returned := M, bound :=
         (case request of
            None \<Rightarrow> bound s
          | Some r \<Rightarrow> if api r = None then add_mset (g, r) (bound s) else bound s)\<rparr>)"
    (is "place_inv ?s'")
  using assms(3)
proof (cases rule: finish_binding_cases)
  case (parked err)
  have "bound ?s' = bound s" using parked(2) by (auto split: option.splits)
  have inv: "queue_inv (queue_of s)" "distinct (map pkey (arrived s))"
    using assms(1) by (simp_all add: place_inv_def)
  have "mset (arrived s) = add_mset (gPod g) (held_pods (queue_of s) +
      (mset (ready_pods (queue_of s)) + image_mset gPod (started s) +
       image_mset (gPod \<circ> fst) (blocked s) + image_mset (gPod \<circ> fst) M + bound_pods s))"
    using assms(1,2) by (simp add: place_inv_def all_pods_def flying_pods_def ac_simps)
  note park = AddUnschedulable_parked [OF inv this, of now err]
  have queue: "queue_of ?s' = AddUnschedulable now (parked_info (gPod g) err) (queue_of s)"
    by (simp add: parked(1) ErrorFunc_eq)
  have flying: "flying_pods s = add_mset (gPod g) (flying_pods ?s')"
    using assms(2) by (simp add: flying_pods_def)
  have "bound_pods ?s' = bound_pods s"
    unfolding bound_pods_def \<open>bound ?s' = bound s\<close> ..
  then have "all_pods ?s' = all_pods s"
    unfolding all_pods_def queue park flying by simp
  moreover have "queue_inv (queue_of ?s')" unfolding queue by (rule park(3))
  ultimately show ?thesis by (intro place_inv_move [OF assms(1)]) simp_all
next
  case (bound r)
  then show ?thesis
    using assms(1,2)
    by (intro place_inv_move [OF assms(1)])
       (simp_all add: place_inv_def all_pods_def flying_pods_def bound_pods_def)
qed

lemma wait_on_queue:
  "wait_on fw p addr st = Some (status, st') \<Longrightarrow> SchedulingQueue (sched st') = SchedulingQueue (sched st)"
  by (auto simp: wait_on_def split: option.splits)

lemma place_inv_step:
  assumes "status_laws fw" and "sys_step fw s s'" and "place_inv s"
  shows "place_inv s'"
  using assms(2)
proof cases
  case (pod_added p now sc)
  then show ?thesis using place_inv_pod_added [OF assms(3)] by simp
next
  case (node_event order ev clk)
  then show ?thesis using place_inv_node_event [OF assms(3)] by simp
next
  case (cycle_parked env st')
  then show ?thesis using place_inv_cycle_parked [OF assms(1,3)] by simp
next
  case (cycle_handed env b st')
  then show ?thesis using place_inv_cycle_handed [OF assms(1,3)] by simp
next
  case (receive g addr M status st')
  then show ?thesis
    using assms(3) wait_on_queue [OF receive(3)]
    by (intro place_inv_move [OF assms(3)])
       (simp_all add: place_inv_def all_pods_def flying_pods_def bound_pods_def)
next
  case (finish g status M api now request st')
  then show ?thesis using place_inv_finish [OF assms(3)] by simp
qed (use assms(3) in \<open>auto intro!: place_inv_move [OF assms(3)]
       simp: place_inv_def all_pods_def flying_pods_def bound_pods_def wp_at_def Let_def\<close>)

lemma place_inv_reachable:
  assumes "status_laws fw" and "SchedulingQueue sc = queue_New evm"
    and "sys_reachable fw (sys_init sc w) s"
  shows "place_inv s"
  using assms(3)
proof (induction rule: rtranclp_induct)
  case base
  show ?case by (rule place_inv_init [OF assms(2)])
next
  case (step s s')
  then show ?case using place_inv_step [OF assms(1)] by blast
qed


section \<open>The permit phase\<close>

text \<open>
  How the scheduler's map, the heap and the goroutines fit together: the map has an entry for
  a UID exactly while the goroutine whose cycle registered it has not received a verdict; the
  waiting pods are states of the component \<open>Waiting_Pod\<close>; and a goroutine that has a
  successful result was allowed by every plugin that asked to wait.
\<close>

definition allowed_in ::
    "(string \<rightharpoonup> duration) list \<Rightarrow> 's wp_sys list \<Rightarrow> goroutine \<Rightarrow> bool" where
  "allowed_in ts ws g \<longleftrightarrow>
     (case gReg g of
        None \<Rightarrow> True
      | Some a \<Rightarrow> a < length ws \<and> ts ! a \<noteq> Map.empty \<and> dom (ts ! a) \<subseteq> allowed_by (calls (ws ! a)))"

abbreviation allowed :: "('c, 'x, 's) system \<Rightarrow> goroutine \<Rightarrow> bool" where
  "allowed s \<equiv> allowed_in (waitTimes s) (wps s)"

definition heap_inv :: "('s, 'c) framework \<Rightarrow> ('c, 'x, 's) system \<Rightarrow> bool" where
  "heap_inv fw s \<longleftrightarrow>
     wpHeap (sst s) = map wp (wps s) \<and> length (waitTimes s) = length (wps s) \<and>
     (\<forall>a < length (wps s). wp_inv fw (waitTimes s ! a) (wps s ! a) \<and> waitTimes s ! a \<noteq> Map.empty)"

definition entry_inv :: "('c, 'x, 's) system \<Rightarrow> bool" where
  "entry_inv s \<longleftrightarrow>
     (\<forall>uid a. waiting_of s uid = Some a \<longrightarrow>
        a < length (wps s) \<and> podUID (wpPod (wp (wps s ! a))) = uid \<and> received (wps s ! a) = None \<and>
        uid \<in> podUID ` gPod ` (set_mset (started s) \<union> fst ` set_mset (blocked s))) \<and>
     (\<forall>g \<in># started s. waiting_of s (podUID (gPod g)) = gReg g) \<and>
     (\<forall>(g, a) \<in># blocked s. waiting_of s (podUID (gPod g)) = Some a \<and> gReg g = Some a)"

definition verdict_inv :: "('s, 'c) framework \<Rightarrow> ('c, 'x, 's) system \<Rightarrow> bool" where
  "verdict_inv fw s \<longleftrightarrow>
     (\<forall>(g, status) \<in># returned s. IsSuccess fw status \<longrightarrow> allowed s g) \<and>
     (\<forall>(g, r) \<in># bound s. allowed s g \<and>
        r = \<lparr>bindNamespace = podNamespace (gPod g), bindName = podName (gPod g),
             bindUID = podUID (gPod g), bindKind = ''Node'', bindTarget = bcNode (gCycle g)\<rparr>)"

definition permit_inv :: "('s, 'c) framework \<Rightarrow> ('c, 'x, 's) system \<Rightarrow> bool" where
  "permit_inv fw s \<longleftrightarrow> heap_inv fw s \<and> entry_inv s \<and> verdict_inv fw s"

lemma wpPod_step [simp]: "wpPod (wp (wp_step fw m e x)) = wpPod (wp x)"
  by (cases e)
     (auto simp: wp_reject_def Allow_eq Reject_def send_nonblocking_def GetSignal_def
        split: option.splits list.splits)

lemma received_step: "e \<noteq> EvReceive \<Longrightarrow> received (wp_step fw m e x) = received x"
  by (cases e) (auto simp: wp_reject_def split: option.splits)

lemma allowed_by_step: "allowed_by (calls x) \<subseteq> allowed_by (calls (wp_step fw m e x))"
  using wp_step_calls [of fw m e x] by (auto simp: allowed_by_append)

lemma nth_step:
  "(xs[a := wp_step fw m e (xs ! a)]) ! i = (if i = a then (if a < length xs then wp_step fw m e (xs ! a)
     else xs ! a) else xs ! i)"
  by (cases "a < length xs") (auto simp: nth_list_update list_update_beyond)

lemma allowed_step:
  assumes "allowed s g" and "wps s' = (wps s)[a := wp_step fw m e (wps s ! a)]"
    and "waitTimes s' = waitTimes s"
  shows "allowed s' g"
proof -
  have "allowed_by (calls (wps s ! i)) \<subseteq> allowed_by (calls (wps s' ! i))" for i
    unfolding assms(2) nth_step by (simp add: allowed_by_step)
  moreover have "length (wps s') = length (wps s)" by (simp add: assms(2))
  ultimately show ?thesis
    using assms(1) unfolding allowed_in_def assms(3) by (auto split: option.splits)
qed

lemma allowed_grow:
  assumes "allowed s g" and "length (waitTimes s) = length (wps s)"
    and "wps s' = wps s @ xs" and "waitTimes s' = waitTimes s @ ms"
  shows "allowed s' g"
  using assms by (auto simp: allowed_in_def nth_append split: option.splits)

lemma heap_inv_update:
  assumes "heap_inv fw s" and "addr < length (wps s)"
    and "wps s' = (wps s)[addr := wp_step fw (waitTimes s ! addr) e (wps s ! addr)]"
    and "waitTimes s' = waitTimes s" and "wpHeap (sst s') = map wp (wps s')"
  shows "heap_inv fw s'"
  using assms wp_inv_step [of fw "waitTimes s ! addr" "wps s ! addr" e]
  by (auto simp: heap_inv_def nth_list_update)

lemma permit_inv_init:
  assumes "waitingPods sc = Map.empty"
  shows "permit_inv fw (sys_init sc w)"
  using assms
  by (simp add: permit_inv_def heap_inv_def entry_inv_def verdict_inv_def sys_init_def)

text \<open>A step that touches none of the components that the invariant is about.\<close>

lemma permit_inv_frame:
  assumes "permit_inv fw s"
    and "wpHeap (sst s') = wpHeap (sst s)" and "waiting_of s' = waiting_of s"
    and "started s' = started s" and "blocked s' = blocked s" and "returned s' = returned s"
    and "bound s' = bound s" and "wps s' = wps s" and "waitTimes s' = waitTimes s"
  shows "permit_inv fw s'"
proof -
  have "permit_inv fw s' = permit_inv fw s"
    by (simp only: permit_inv_def heap_inv_def entry_inv_def verdict_inv_def allowed_in_def assms(2-9))
  with assms(1) show ?thesis by simp
qed

lemma permit_inv_waiting_pod:
  assumes "permit_inv fw s" and "addr < length (wps s)" and "e \<noteq> EvReceive"
  shows "permit_inv fw (wp_at fw addr e s)"
proof -
  let ?s = "wp_at fw addr e s"
  have sel: "wps ?s = (wps s)[addr := wp_step fw (waitTimes s ! addr) e (wps s ! addr)]"
    "waitTimes ?s = waitTimes s" "wpHeap (sst ?s) = map wp (wps ?s)" "waiting_of ?s = waiting_of s"
    "started ?s = started s" "blocked ?s = blocked s" "returned ?s = returned s" "bound ?s = bound s"
    by (simp_all add: wp_at_def Let_def)
  have "heap_inv fw ?s"
    using assms by (intro heap_inv_update [OF _ assms(2) sel(1-3)]) (simp add: permit_inv_def)
  moreover have "entry_inv ?s = entry_inv s"
  proof -
    have "wpPod (wp (wps ?s ! a)) = wpPod (wp (wps s ! a))" "received (wps ?s ! a) = received (wps s ! a)"
        "length (wps ?s) = length (wps s)" for a
      unfolding sel(1) nth_step by (simp_all add: received_step [OF assms(3)])
    then show ?thesis by (simp only: entry_inv_def sel(4-6))
  qed
  moreover have "verdict_inv fw ?s"
    using assms(1) allowed_step [OF _ sel(1,2)]
    by (auto simp: permit_inv_def verdict_inv_def sel(7,8))
  ultimately show ?thesis using assms(1) by (simp add: permit_inv_def)
qed

text \<open>Pods in different places have different UIDs.\<close>

lemma uid_ready_flying:
  assumes "place_inv s" and "pod \<in> set (ready_pods (queue_of s))" and "p \<in># flying_pods s"
  shows "podUID pod \<noteq> podUID p"
proof -
  obtain A where A: "mset (ready_pods (queue_of s)) = add_mset pod A"
    using assms(2) by (metis multi_member_split set_mset_mset)
  obtain B where B: "flying_pods s = add_mset p B"
    using assms(3) by (metis multi_member_split)
  have "all_pods s = add_mset pod (add_mset p (A + held_pods (queue_of s) + B + bound_pods s))"
    by (simp add: all_pods_def A B)
  from place_inv_distinct(1) [OF assms(1) this] show ?thesis .
qed

lemma uid_blocked:
  assumes "place_inv s" and "blocked s = add_mset (g, a) M"
    and "p \<in># image_mset gPod (started s) + image_mset (gPod \<circ> fst) M"
  shows "podUID (gPod g) \<noteq> podUID p"
proof -
  obtain B where B: "image_mset gPod (started s) + image_mset (gPod \<circ> fst) M = add_mset p B"
    using assms(3) by (metis multi_member_split)
  then have "all_pods s = add_mset (gPod g) (add_mset p (mset (ready_pods (queue_of s)) +
      held_pods (queue_of s) + B + image_mset (gPod \<circ> fst) (returned s) + bound_pods s))"
    using assms(2) by (simp add: all_pods_def flying_pods_def flip: B)
  from place_inv_distinct(1) [OF assms(1) this] show ?thesis .
qed

lemma permit_inv_started:
  assumes "permit_inv fw s" and "status_laws fw" and "started s = add_mset g M"
  shows "waiting_of s (podUID (gPod g)) = None \<Longrightarrow>
           permit_inv fw (s\<lparr>started := M, returned := add_mset (g, None) (returned s)\<rparr>)"
    and "waiting_of s (podUID (gPod g)) = Some addr \<Longrightarrow>
           permit_inv fw (s\<lparr>started := M, blocked := add_mset (g, addr) (blocked s)\<rparr>)"
proof -
  have reg: "waiting_of s (podUID (gPod g)) = gReg g"
    using assms(1,3) by (simp add: permit_inv_def entry_inv_def)
  show "permit_inv fw (s\<lparr>started := M, returned := add_mset (g, None) (returned s)\<rparr>)"
    if none: "waiting_of s (podUID (gPod g)) = None"
  proof -
    have "allowed s g" using reg none by (simp add: allowed_in_def)
    moreover have "uid \<in> podUID ` gPod ` (set_mset M \<union> fst ` set_mset (blocked s))"
      if "waiting_of s uid = Some a" for uid a
    proof -
      have "uid \<in> podUID ` gPod ` (set_mset (started s) \<union> fst ` set_mset (blocked s))"
        using assms(1) that by (simp add: permit_inv_def entry_inv_def)
      moreover have "uid \<noteq> podUID (gPod g)" using that none by auto
      ultimately show ?thesis using assms(3) by auto
    qed
    ultimately show ?thesis
      using assms(1,3)
      by (simp add: permit_inv_def heap_inv_def entry_inv_def verdict_inv_def)
  qed
  show "permit_inv fw (s\<lparr>started := M, blocked := add_mset (g, addr) (blocked s)\<rparr>)"
    if "waiting_of s (podUID (gPod g)) = Some addr"
    using assms(1,3) reg that
    by (simp add: permit_inv_def heap_inv_def entry_inv_def verdict_inv_def)
qed

lemma permit_inv_cycle_parked:
  assumes "status_laws fw" and "permit_inv fw s"
    and "scheduleOne fw env (sst s) = Some (Inr (None, st'))"
  shows "permit_inv fw (s\<lparr>sst := st'\<rparr>)"
  using assms(1,3)
proof (cases rule: scheduleOne_cases)
  case (parked pod q err)
  then show ?thesis
    by (intro permit_inv_frame [OF assms(2)]) (simp_all add: registers_def)
qed simp

lemma permit_inv_cycle_handed:
  assumes "status_laws fw" and "place_inv s" and "permit_inv fw s"
    and "scheduleOne fw env (sst s) = Some (Inr (Some b, st'))"
  shows "permit_inv fw (spawn b st' s)"
  using assms(1,4)
proof (cases rule: scheduleOne_cases)
  case (handed pod q nodename nodes reg)
  have pod: "pod \<in> set (ready_pods (queue_of s))"
    using sq.next_Some [OF handed(1)] by simp
  have uid: "podUID (gPod g) \<noteq> podUID pod"
    if "g \<in> set_mset (started s) \<union> fst ` set_mset (blocked s)" for g
  proof -
    have "gPod g \<in># flying_pods s" using that by (auto simp: flying_pods_def)
    from uid_ready_flying [OF assms(2) pod this] show ?thesis by simp
  qed
  have b: "bcPod b = pod" using handed(2) by simp
  have inv: "heap_inv fw s" "entry_inv s" "verdict_inv fw s"
    using assms(3) by (simp_all add: permit_inv_def)
  have len: "length (wpHeap (sst s)) = length (wps s)" "length (waitTimes s) = length (wps s)"
    using inv(1) by (simp_all add: heap_inv_def)
  have none: "waiting_of s (podUID pod) = None"
  proof (rule ccontr)
    assume "waiting_of s (podUID pod) \<noteq> None"
    then obtain a where "waiting_of s (podUID pod) = Some a" by blast
    with inv(2) have "podUID pod \<in> podUID ` gPod ` (set_mset (started s) \<union> fst ` set_mset (blocked s))"
      unfolding entry_inv_def by blast
    then obtain g where "g \<in> set_mset (started s) \<union> fst ` set_mset (blocked s)"
      and "podUID pod = podUID (gPod g)" by (elim imageE) simp
    with uid [of g] show False by simp
  qed
  show ?thesis
  proof (cases reg)
    case None
    then have same: "wpHeap st' = wpHeap (sst s)" "waitingPods (sched st') = waiting_of s"
      using handed(6) by (simp_all add: registers_def)
    have "wps (spawn b st' s) = wps s" "waitTimes (spawn b st' s) = waitTimes s"
      using same by (simp_all add: spawn_def)
    then show ?thesis
      using inv same none b
      by (simp add: permit_inv_def heap_inv_def entry_inv_def verdict_inv_def)
  next
    case (Some m)
    let ?n = "length (wps s)" and ?x = "wp_init pod m"
    have new: "m \<noteq> Map.empty" "wpHeap st' = wpHeap (sst s) @ [NewWaitingPod pod m]"
      "waitingPods (sched st') = (waiting_of s)(podUID pod \<mapsto> ?n)"
      using handed(6) Some len(1) by (simp_all add: registers_def)
    have wps': "wps (spawn b st' s) = wps s @ [?x]"
      and times': "waitTimes (spawn b st' s) = waitTimes s @ [m]"
      using new(2)
      by (simp_all add: spawn_def wp_init_def NewWaitingPod_def option.map_comp comp_def option.map_ident)
    have "heap_inv fw (spawn b st' s)"
      using inv(1) new(1,2) wp_inv_init [of fw m pod]
      by (auto simp: heap_inv_def wps' times' nth_append less_Suc_eq wp_init_def)
    moreover have "entry_inv (spawn b st' s)"
    proof -
      have x: "podUID (wpPod (wp ?x)) = podUID pod" "received ?x = None"
        by (simp_all add: wp_init_def NewWaitingPod_def)
      have "\<forall>g \<in># started s. podUID (gPod g) \<noteq> podUID pod"
        "\<forall>(g, a) \<in># blocked s. podUID (gPod g) \<noteq> podUID pod"
        using uid by force+
      with inv(2) x show ?thesis
        unfolding entry_inv_def by (auto simp: wps' new(2,3) len b nth_append intro: less_SucI)
    qed
    moreover have "verdict_inv fw (spawn b st' s)"
      using inv(3) allowed_grow [OF _ len(2) wps' times'] by (fastforce simp: verdict_inv_def)
    ultimately show ?thesis by (simp add: permit_inv_def)
  qed
qed simp

lemma wait_status_success:
  assumes "status_laws fw" and "IsSuccess fw (wait_status fw st)"
  shows "Code fw (Some st) = Success"
  using assms(2) IsUnschedulable_code [OF assms(1)]
  by (auto simp: wait_status_def Let_def status_laws_simps [OF assms(1)] split: if_splits)

lemma permit_inv_receive:
  assumes "status_laws fw" and "place_inv s" and "permit_inv fw s"
    and "blocked s = add_mset (g, addr) M"
    and "wait_on fw (gPod g) addr (sst s) = Some (status, st')"
  shows "permit_inv fw (s\<lparr>sst := st', blocked := M, returned := add_mset (g, status) (returned s),
         wps := (wps s)[addr := wp_step fw (waitTimes s ! addr) EvReceive (wps s ! addr)]\<rparr>)"
    (is "permit_inv fw ?s'")
proof -
  let ?m = "waitTimes s ! addr" and ?x = "wps s ! addr"
  let ?y = "wp_step fw ?m EvReceive ?x"
  have inv: "heap_inv fw s" "entry_inv s" "verdict_inv fw s"
    using assms(3) by (simp_all add: permit_inv_def)
  have entry: "waiting_of s (podUID (gPod g)) = Some addr" "gReg g = Some addr"
    using inv(2) assms(4) by (simp_all add: entry_inv_def)
  have x: "addr < length (wps s)" "received ?x = None" "podUID (wpPod (wp ?x)) = podUID (gPod g)"
    using inv(2) entry(1) unfolding entry_inv_def by blast+
  have heap: "wpHeap (sst s) ! addr = wp ?x" "length (wpHeap (sst s)) = length (wps s)"
    using inv(1) x(1) by (simp_all add: heap_inv_def)
  obtain st w where sig: "GetSignal (wp ?x) = Some (st, w)"
    and st': "status = wait_status fw st" "wpHeap st' = (wpHeap (sst s))[addr := w]"
      "waitingPods (sched st') = (waiting_of s)(podUID (gPod g) := None)"
    using assms(5) heap by (auto simp: wait_on_def split: option.splits)
  have y: "wp ?y = w" "received ?y = Some st"
    using sig x(2) by simp_all
  have wps': "wps ?s' = (wps s)[addr := wp_step fw (waitTimes s ! addr) EvReceive (wps s ! addr)]"
    "waitTimes ?s' = waitTimes s" by simp_all
  have "heap_inv fw ?s'"
    using inv(1) st'(2) y(1)
    by (intro heap_inv_update [OF inv(1) x(1) wps']) (simp add: heap_inv_def map_update del: wp_step.simps)
  moreover have "entry_inv ?s'"
  proof -
    have uid: "podUID (gPod g') \<noteq> podUID (gPod g)" if "g' \<in> set_mset (started s) \<union> fst ` set_mset M" for g'
      using uid_blocked [OF assms(2,4), of "gPod g'"] that by force
    have other: "a \<noteq> addr" if "waiting_of s uid = Some a" "uid \<noteq> podUID (gPod g)" for uid a
      using inv(2) that x(3) unfolding entry_inv_def by blast
    have at: "uid \<in> podUID ` gPod ` (set_mset (started s) \<union> fst ` set_mset M)"
      if "waiting_of s uid = Some a" "uid \<noteq> podUID (gPod g)" for uid a
    proof -
      have "uid \<in> podUID ` gPod ` (set_mset (started s) \<union> fst ` set_mset (blocked s))"
        using inv(2) that(1) unfolding entry_inv_def by blast
      with assms(4) that(2) show ?thesis by auto
    qed
    have "\<forall>uid a. waiting_of ?s' uid = Some a \<longrightarrow>
        a < length (wps ?s') \<and> podUID (wpPod (wp (wps ?s' ! a))) = uid \<and> received (wps ?s' ! a) = None \<and>
        uid \<in> podUID ` gPod ` (set_mset (started ?s') \<union> fst ` set_mset (blocked ?s'))"
    proof (intro allI impI)
      fix uid a assume "waiting_of ?s' uid = Some a"
      then have a: "waiting_of s uid = Some a" "uid \<noteq> podUID (gPod g)"
        using st'(3) by (auto split: if_splits)
      with inv(2) other [OF a] at [OF a] show "a < length (wps ?s') \<and>
          podUID (wpPod (wp (wps ?s' ! a))) = uid \<and> received (wps ?s' ! a) = None \<and>
          uid \<in> podUID ` gPod ` (set_mset (started ?s') \<union> fst ` set_mset (blocked ?s'))"
        by (simp add: entry_inv_def)
    qed
    moreover have "\<forall>g' \<in># started ?s'. waiting_of ?s' (podUID (gPod g')) = gReg g'"
      using inv(2) uid st'(3) by (simp add: entry_inv_def)
    moreover have "\<forall>(g', a) \<in># blocked ?s'. waiting_of ?s' (podUID (gPod g')) = Some a \<and> gReg g' = Some a"
      using inv(2) uid st'(3) assms(4) by (force simp: entry_inv_def)
    ultimately show ?thesis unfolding entry_inv_def by blast
  qed
  moreover have "verdict_inv fw ?s'"
  proof -
    have old: "allowed ?s' g'" if "allowed s g'" for g'
      by (rule allowed_step [OF that wps'])
    have "allowed ?s' g" if "IsSuccess fw status"
    proof -
      have "wp_inv fw ?m ?y" and m: "?m \<noteq> Map.empty"
        using inv(1) x(1) wp_inv_step [of fw ?m ?x EvReceive] by (simp_all add: heap_inv_def del: wp_step.simps)
      moreover have "Code fw (Some st) = Success"
        using wait_status_success [OF assms(1)] that st'(1) by simp
      ultimately have "dom ?m \<subseteq> allowed_by (calls ?y)"
        using wp_inv_success [OF assms(1) _ y(2)] by blast
      then show ?thesis using entry(2) x(1) m by (simp add: allowed_in_def del: wp_step.simps)
    qed
    with inv(3) old show ?thesis
      unfolding verdict_inv_def by auto
  qed
  ultimately show ?thesis by (simp add: permit_inv_def)
qed

lemma permit_inv_finish:
  assumes "permit_inv fw s" and "returned s = add_mset (g, status) M"
    and "finish_binding fw api now (gCycle g) status (sst s) = (request, st')"
  shows "permit_inv fw (s\<lparr>sst := st', returned := M, bound :=
         (case request of
            None \<Rightarrow> bound s
          | Some r \<Rightarrow> if api r = None then add_mset (g, r) (bound s) else bound s)\<rparr>)"
    (is "permit_inv fw ?s'")
  using assms(3)
proof (cases rule: finish_binding_cases)
  case (parked err)
  have b: "bound ?s' = bound s" using parked(2) by (auto split: option.splits)
  have "wpHeap st' = wpHeap (sst s)" "waitingPods (sched st') = waiting_of s"
    by (simp_all add: parked(1) ErrorFunc_eq)
  then have "heap_inv fw ?s'" "entry_inv ?s'"
    using assms(1) by (simp_all add: permit_inv_def heap_inv_def entry_inv_def)
  moreover have "verdict_inv fw ?s'"
    using assms(1,2) unfolding permit_inv_def verdict_inv_def b by simp
  ultimately show ?thesis by (simp add: permit_inv_def)
next
  case (bound r)
  then show ?thesis
    using assms(1,2)
    by (simp add: permit_inv_def heap_inv_def entry_inv_def verdict_inv_def Bind_def Let_def)
qed

lemma permit_inv_step:
  assumes "status_laws fw" and "sys_step fw s s'" and "place_inv s" and "permit_inv fw s"
  shows "permit_inv fw s'"
  using assms(2)
proof cases
  case (pod_added p now sc)
  then have "waitingPods sc = waiting_of s" by (auto simp: addPodToSchedulingQueue_def)
  then show ?thesis unfolding pod_added(1) by (intro permit_inv_frame [OF assms(4)]) simp_all
next
  case (node_event order ev clk)
  then show ?thesis by (intro permit_inv_frame [OF assms(4)]) (simp_all add: move_all_def)
next
  case (cycle_parked env st')
  then show ?thesis using permit_inv_cycle_parked [OF assms(1,4)] by simp
next
  case (cycle_handed env b st')
  then show ?thesis using permit_inv_cycle_handed [OF assms(1,3,4)] by simp
next
  case (no_wait g M)
  then show ?thesis using permit_inv_started(1) [OF assms(4,1)] by simp
next
  case (wait g M addr)
  then show ?thesis using permit_inv_started(2) [OF assms(4,1)] by simp
next
  case (receive g addr M status st')
  then show ?thesis using permit_inv_receive [OF assms(1,3,4)] by (simp del: wp_step.simps)
next
  case (finish g status M api now request st')
  then show ?thesis using permit_inv_finish [OF assms(4)] by simp
next
  case (waiting_pod addr e)
  then show ?thesis using permit_inv_waiting_pod [OF assms(4)] by simp
next
  case (plugins_act w)
  then show ?thesis by (intro permit_inv_frame [OF assms(4)]) simp_all
qed

lemma permit_inv_reachable:
  assumes "status_laws fw" and "SchedulingQueue sc = queue_New evm" and "waitingPods sc = Map.empty"
    and "sys_reachable fw (sys_init sc w) s"
  shows "permit_inv fw s"
  using assms(4)
proof (induction rule: rtranclp_induct)
  case base
  show ?case by (rule permit_inv_init [OF assms(3)])
next
  case (step s s')
  have "place_inv s" by (rule place_inv_reachable [OF assms(1,2) step(1)])
  with step permit_inv_step [OF assms(1)] show ?case by blast
qed


text \<open>
  C10: no goroutine waits for ever: in every reachable state, when a goroutine blocks in the
  permit phase, its waiting pod has a timer whose expiry is enough: once its function has
  run, the scheduler being in a reachable state again, the receive in \<open>WaitOnPermit\<close> of that
  goroutine returns, whatever the plugins do.
\<close>

theorem blocked_goroutine_unblocks:
  assumes "status_laws fw" and "SchedulingQueue sc = queue_New evm" and "waitingPods sc = Map.empty"
    and "sys_reachable fw (sys_init sc w) s" and "(g, a) \<in># blocked s"
  shows "\<exists>p \<in> dom (waitTimes s ! a).
     let s' = wp_at fw a (EvTimerFunc p) (wp_at fw a (EvExpire p) s)
     in sys_reachable fw s s' \<and> (g, a) \<in># blocked s' \<and>
        (\<exists>status st'. wait_on fw (gPod g) a (sst s') = Some (status, st'))"
proof -
  note reach = assms(4)
  have inv: "permit_inv fw t" if "sys_reachable fw s t" for t
    using reach that by (intro permit_inv_reachable [OF assms(1-3)]) (rule rtranclp_trans)
  let ?m = "waitTimes s ! a" and ?x = "wps s ! a"
  have a: "a < length (wps s)" "received ?x = None"
    and wp: "wp_inv fw ?m ?x" "dom ?m \<noteq> {}"
  proof -
    have "waiting_of s (podUID (gPod g)) = Some a"
      using inv [OF rtranclp.rtrancl_refl] assms(5) unfolding permit_inv_def entry_inv_def by blast
    then show a: "a < length (wps s)" "received ?x = None"
      using inv [OF rtranclp.rtrancl_refl] unfolding permit_inv_def entry_inv_def by blast+
    then show "wp_inv fw ?m ?x" "dom ?m \<noteq> {}"
      using inv [OF rtranclp.rtrancl_refl] by (simp_all add: permit_inv_def heap_inv_def)
  qed
  obtain p v where p: "p \<in> dom ?m" and v: "verdict_of (dom ?m)
      (calls (wp_step fw ?m (EvTimerFunc p) (wp_step fw ?m (EvExpire p) ?x))) = Some v"
    using wp_timers_decide [OF wp] by blast
  define s1 where "s1 = wp_at fw a (EvExpire p) s"
  define s2 where "s2 = wp_at fw a (EvTimerFunc p) s1"
  have s2: "wps s2 ! a = wp_step fw ?m (EvTimerFunc p) (wp_step fw ?m (EvExpire p) ?x)"
    "waitTimes s2 ! a = ?m" "length (wps s2) = length (wps s)" "blocked s2 = blocked s"
    using a(1) by (simp_all add: s1_def s2_def wp_at_def Let_def del: wp_step.simps)
  have len: "length (wps s1) = length (wps s)" by (simp add: s1_def wp_at_def Let_def)
  have "sys_step fw s s1"
    unfolding s1_def by (rule sys_step.waiting_pod) (simp_all add: a(1))
  moreover have "sys_step fw s1 s2"
    unfolding s2_def by (rule sys_step.waiting_pod) (simp_all add: a(1) len)
  ultimately have s1s2: "sys_reachable fw s s2" by (meson converse_rtranclp_into_rtranclp rtranclp.rtrancl_refl)
  have "received (wps s2 ! a) = None"
    unfolding s2(1) using a(2) by (simp add: received_step del: wp_step.simps)
  moreover have "wp_inv fw ?m (wps s2 ! a)"
    unfolding s2(1) by (intro wp_inv_step wp(1))
  ultimately have "signal (wp (wps s2 ! a)) \<noteq> []"
    using v unfolding s2(1) [symmetric] by (auto simp: wp_inv_def)
  then obtain st w where "GetSignal (wp (wps s2 ! a)) = Some (st, w)"
    by (cases "signal (wp (wps s2 ! a))") (simp_all add: GetSignal_def)
  moreover have "wpHeap (sst s2) ! a = wp (wps s2 ! a)"
    using inv [OF s1s2] a(1) s2(3) by (simp add: permit_inv_def heap_inv_def)
  ultimately obtain status st' where "wait_on fw (gPod g) a (sst s2) = Some (status, st')"
    by (simp add: wait_on_def)
  with p s1s2 assms(5) s2(4) show ?thesis
    unfolding s2_def s1_def Let_def by auto
qed

section \<open>A run of a concrete scheduler\<close>

text \<open>
  A scheduler with one permit plugin that asks every pod to wait for a second, and a run in
  which a pod arrives, passes a cycle, waits, is allowed by the plugin, and is bound.
\<close>

definition sample_permit ::
    "string \<times> (pod \<Rightarrow> string \<Rightarrow> sample_status option \<times> duration)" where
  "sample_permit = (''N'', \<lambda>p n. (Some (NewStatus sample_framework Wait []), Second))"

definition sample_scheduler ::
    "((string \<rightharpoonup> state_data, unit) plugin_world, sample_status) scheduler" where
  "sample_scheduler =
     \<lparr>SchedulingQueue = queue_New [], waitingPods = Map.empty, filterPlugins = [],
      preScorePlugins = [], scorePlugins = [], permitPlugins = [stateless_permit sample_permit]\<rparr>"

definition sample_system :: "(string \<rightharpoonup> state_data, unit, sample_status) system" where
  "sample_system = sys_init sample_scheduler \<lparr>cycleState = Map.empty, pluginState = ()\<rparr>"

lemma sample_scheduler_sel [simp]:
  "SchedulingQueue sample_scheduler = queue_New []"
  "waitingPods sample_scheduler = Map.empty"
  by (simp_all add: sample_scheduler_def)

lemma sample_added:
  "sys_step sample_framework sample_system
     (sample_system\<lparr>sst := (sst sample_system)\<lparr>sched := sample_scheduler
        \<lparr>SchedulingQueue := queue_Add sample_framework 0 (sample_pod ''p1'') (queue_New [])\<rparr>\<rparr>,
      arrived := [sample_pod ''p1'']\<rparr>)"
proof -
  have "sys_step sample_framework sample_system
     (sample_system\<lparr>sst := (sst sample_system)\<lparr>sched := sample_scheduler
        \<lparr>SchedulingQueue := queue_Add sample_framework 0 (sample_pod ''p1'') (queue_New [])\<rparr>\<rparr>,
      arrived := arrived sample_system @ [sample_pod ''p1'']\<rparr>)"
    by (rule sys_step.pod_added [where now = 0])
       (simp_all add: unassigned_filter_def assignedPod_def sample_pod_def fresh_def sample_system_def
          sys_init_def addPodToSchedulingQueue_def)
  then show ?thesis by (simp add: sample_system_def sys_init_def)
qed

lemma sample_run_blocked:
  obtains s g where "sys_reachable sample_framework sample_system s"
    and "blocked s = {#(g, 0)#}" and "gReg g = Some 0" and "gPod g = sample_pod ''p1''"
    and "waitTimes s = [[''N'' \<mapsto> Second]]"
    and "wps s = [wp_init (sample_pod ''p1'') [''N'' \<mapsto> Second]]"
    and "started s = {#}" and "returned s = {#}" and "bound s = {#}"
proof -
  let ?p = "sample_pod ''p1''" and ?m = "[''N'' \<mapsto> Second]"
  let ?s1 = "sample_system\<lparr>sst := (sst sample_system)\<lparr>sched := sample_scheduler
        \<lparr>SchedulingQueue := queue_Add sample_framework 0 ?p (queue_New [])\<rparr>\<rparr>,
      arrived := [?p]\<rparr>"
  let ?b = "\<lparr>bcPod = ?p, bcNode = ''n1'', bcErr = None\<rparr>"
  have "\<exists>st'. scheduleOne sample_framework (sample_env [sample_node ''n1'']) (sst ?s1) =
      Some (Inr (Some ?b, st')) \<and>
     wpHeap st' = [NewWaitingPod ?p ?m] \<and> waitingPods (sched st') = [''p1'' \<mapsto> 0]"
    by (simp add: scheduleOne_def schedule_pod_def Let_def RunFilterPlugins_def RunScorePlugins_def
          sample_env_def sample_node_def selectHost_def select_init_def RunPermitPlugins_def NextPod_def
          queue_Add_def queue_New_def newQueuedPodInfo_def sample_scheduler_def sample_permit_def
          sample_system_def sys_init_def sample_pod_def)
  then obtain st' where run: "scheduleOne sample_framework (sample_env [sample_node ''n1'']) (sst ?s1) =
      Some (Inr (Some ?b, st'))"
    and st': "wpHeap st' = [NewWaitingPod ?p ?m]" "waitingPods (sched st') = [''p1'' \<mapsto> 0]"
    by blast
  let ?s2 = "spawn ?b st' ?s1"
  let ?g = "\<lparr>gCycle = ?b, gReg = Some 0\<rparr>"
  have s2: "started ?s2 = {#?g#}" "blocked ?s2 = {#}" "returned ?s2 = {#}" "bound ?s2 = {#}"
      "wps ?s2 = [wp_init ?p ?m]" "waitTimes ?s2 = [?m]"
    using st' by (simp_all add: spawn_def sample_system_def sys_init_def wp_init_def NewWaitingPod_def
        fun_eq_iff)
  have step2: "sys_step sample_framework ?s1 ?s2"
    by (rule sys_step.cycle_handed [OF run])
  have "sys_step sample_framework ?s2
      (?s2\<lparr>started := {#}, blocked := add_mset (?g, 0) (blocked ?s2)\<rparr>)" (is "sys_step _ _ ?s3")
    by (rule sys_step.wait) (use s2(1) st'(2) in \<open>simp_all add: sample_pod_def\<close>)
  with sample_added step2 have "sys_reachable sample_framework sample_system ?s3"
    by (meson converse_rtranclp_into_rtranclp r_into_rtranclp)
  then show thesis
    by (rule that [of ?s3 ?g]) (use s2 in simp_all)
qed


theorem blocked_goroutine_unblocks_witness:
  "\<exists>s g. sys_reachable sample_framework sample_system s \<and> (g, 0) \<in># blocked s \<and>
     (\<exists>p \<in> dom (waitTimes s ! 0).
       let s' = wp_at sample_framework 0 (EvTimerFunc p) (wp_at sample_framework 0 (EvExpire p) s)
       in sys_reachable sample_framework s s' \<and> (g, 0) \<in># blocked s' \<and>
          (\<exists>status st'. wait_on sample_framework (gPod g) 0 (sst s') = Some (status, st')))"
proof -
  obtain s g where s: "sys_reachable sample_framework sample_system s" "blocked s = {#(g, 0)#}"
    by (rule sample_run_blocked)
  then have g: "(g, 0) \<in># blocked s" by simp
  note unblocks = blocked_goroutine_unblocks
    [OF sample_laws(1) sample_scheduler_sel s(1) [unfolded sample_system_def] g]
  from s(1) g unblocks show ?thesis by (intro exI conjI)
qed

lemma sample_run_bound:
  obtains s g r where "sys_reachable sample_framework sample_system s" and "(g, r) \<in># bound s"
    and "gReg g = Some 0" and "gPod g = sample_pod ''p1''" and "waitTimes s = [[''N'' \<mapsto> Second]]"
proof -
  let ?m = "[''N'' \<mapsto> Second]" and ?x = "wp_init (sample_pod ''p1'') [''N'' \<mapsto> Second]"
  obtain s g where s: "sys_reachable sample_framework sample_system s" "blocked s = {#(g, 0)#}"
      "gReg g = Some 0" "gPod g = sample_pod ''p1''" "waitTimes s = [?m]" "wps s = [?x]" "bound s = {#}"
    by (rule sample_run_blocked)
  let ?y = "wp_step sample_framework ?m (EvAllow ''N'') ?x"
  let ?s1 = "wp_at sample_framework 0 (EvAllow ''N'') s"
  have step1: "sys_step sample_framework s ?s1"
    by (rule sys_step.waiting_pod) (simp_all add: s)
  have s1: "blocked ?s1 = {#(g, 0)#}" "wpHeap (sst ?s1) = [wp ?y]" "waitTimes ?s1 = [?m]" "bound ?s1 = {#}"
    by (simp_all add: wp_at_def Let_def s)
  have "GetSignal (wp ?y) = Some (NewStatus sample_framework Success [],
      (wp ?y)\<lparr>signal := []\<rparr>)"
    by (simp add: wp_init_def NewWaitingPod_def Allow_eq send_nonblocking_def GetSignal_def fun_eq_iff)
  then obtain st' where wait: "wait_on sample_framework (gPod g) 0 (sst ?s1) = Some (None, st')"
    using s1(2) by (simp add: wait_on_def wait_status_def)
  let ?s2 = "?s1\<lparr>sst := st', blocked := {#}, returned := add_mset (g, None) (returned ?s1),
      wps := (wps ?s1)[0 := wp_step sample_framework (waitTimes ?s1 ! 0) EvReceive (wps ?s1 ! 0)]\<rparr>"
  have step2: "sys_step sample_framework ?s1 ?s2"
    by (rule sys_step.receive [OF _ wait]) (simp add: s1)
  let ?api = "\<lambda>_. None :: goerror option"
  obtain r where "finish_binding sample_framework ?api 0 (gCycle g) None (sst ?s2) = (Some r, sst ?s2)"
    by (simp add: finish_binding_def Bind_def Let_def)
  from sys_step.finish [OF _ this, of "returned ?s1"]
  have "sys_step sample_framework ?s2 (?s2\<lparr>sst := sst ?s2, returned := returned ?s1,
      bound := add_mset (g, r) (bound ?s2)\<rparr>)" (is "sys_step _ _ ?s3")
    by simp
  with s(1) step1 step2 have "sys_reachable sample_framework sample_system ?s3"
    by (meson rtranclp.rtrancl_into_rtrancl)
  then show thesis
    by (rule that [of ?s3 g r]) (use s s1(3) in simp_all)
qed


end

