(* ===== verification/Run_Loop.thy ===== *)
theory Run_Loop
  imports Sched_System
begin

text \<open>
  The loop of \<open>Run\<close> under a context: \<open>wait.UntilWithContext(ctx, sched.scheduleOne, 0)\<close> looks at
  the context before every cycle and never during one.  The step relation refines the one of
  \<open>Sched_System\<close>, so its invariants hold here, and says what happens once the service has
  cancelled the context.
\<close>

section \<open>The loop\<close>

text \<open>
  Where the goroutine of \<open>Run\<close> is: about to look at the context, in \<open>NextPod\<close>, which waits for
  an active pod, or returned.
\<close>

datatype loop_pc = AtCheck | InNextPod | Returned

text \<open>
  \<open>delivering\<close>: the informers, which were started with the same context, still run handlers.
\<close>

record ('c, 'x, 's) run_state =
  rsys :: "('c, 'x, 's) system"
  rpc :: loop_pc
  ctxDone :: bool
  delivering :: bool

definition run_init ::
    "(('c, 'x) plugin_world, 's) scheduler \<Rightarrow> ('c, 'x) plugin_world \<Rightarrow> ('c, 'x, 's) run_state" where
  "run_init sc w = \<lparr>rsys = sys_init sc w, rpc = AtCheck, ctxDone = False, delivering = True\<rparr>"

text \<open>
  A request with a context that is done fails: the list of nodes is an error, and the API server
  accepts no binding.  \<open>Wait\<close> in the permit phase does not look at the context, and neither do
  the timers.  Handlers that were being delivered may still run when the context is done, until
  the informers have stopped.
\<close>

definition env_ok :: "bool \<Rightarrow> cycle_env \<Rightarrow> bool" where
  "env_ok done env \<longleftrightarrow> (done \<longrightarrow> (\<exists>err. envNodes env = Inl err))"

definition api_ok :: "bool \<Rightarrow> (binding \<Rightarrow> goerror option) \<Rightarrow> bool" where
  "api_ok done api \<longleftrightarrow> (done \<longrightarrow> (\<forall>r. api r \<noteq> None))"

inductive run_step ::
    "('s, 'c) framework \<Rightarrow> ('c, 'x, 's) run_state \<Rightarrow> ('c, 'x, 's) run_state \<Rightarrow> bool"
  for fw :: "('s, 'c) framework" where
  enter:
    "rpc r = AtCheck \<Longrightarrow> \<not> ctxDone r \<Longrightarrow> run_step fw r (r\<lparr>rpc := InNextPod\<rparr>)"
| return:
    "rpc r = AtCheck \<Longrightarrow> ctxDone r \<Longrightarrow> run_step fw r (r\<lparr>rpc := Returned\<rparr>)"
| parked:
    "rpc r = InNextPod \<Longrightarrow> env_ok (ctxDone r) env \<Longrightarrow> rsys r = s \<Longrightarrow>
       scheduleOne fw env (sst s) = Some (Inr (None, st')) \<Longrightarrow>
       run_step fw r (r\<lparr>rsys := s\<lparr>sst := st'\<rparr>, rpc := AtCheck\<rparr>)"
| handed:
    "rpc r = InNextPod \<Longrightarrow> env_ok (ctxDone r) env \<Longrightarrow> rsys r = s \<Longrightarrow>
       scheduleOne fw env (sst s) = Some (Inr (Some b, st')) \<Longrightarrow>
       run_step fw r (r\<lparr>rsys := spawn b st' s, rpc := AtCheck\<rparr>)"
| pod_handler:
    "delivering r \<Longrightarrow> rsys r = s \<Longrightarrow> unassigned_filter (PodObj p) \<Longrightarrow> fresh p s \<Longrightarrow>
       addPodToSchedulingQueue fw now (PodObj p) (sched (sst s)) = Inr ((), sc) \<Longrightarrow>
       run_step fw r (r\<lparr>rsys := s\<lparr>sst := (sst s)\<lparr>sched := sc\<rparr>, arrived := arrived s @ [p]\<rparr>\<rparr>)"
| node_handler:
    "delivering r \<Longrightarrow> rsys r = s \<Longrightarrow> range_order order (unschedulableQ (queue_of s)) \<Longrightarrow>
       run_step fw r (r\<lparr>rsys := s\<lparr>sst := (sst s)\<lparr>sched := move_all fw ev clk order (sched (sst s))\<rparr>\<rparr>\<rparr>)"
| skip_wait:
    "rsys r = s \<Longrightarrow> started s = add_mset g M \<Longrightarrow> waiting_of s (podUID (gPod g)) = None \<Longrightarrow>
       run_step fw r (r\<lparr>rsys := s\<lparr>started := M, returned := add_mset (g, None) (returned s)\<rparr>\<rparr>)"
| begin_wait:
    "rsys r = s \<Longrightarrow> started s = add_mset g M \<Longrightarrow> waiting_of s (podUID (gPod g)) = Some addr \<Longrightarrow>
       run_step fw r (r\<lparr>rsys := s\<lparr>started := M, blocked := add_mset (g, addr) (blocked s)\<rparr>\<rparr>)"
| end_wait:
    "rsys r = s \<Longrightarrow> blocked s = add_mset (g, addr) M \<Longrightarrow>
       wait_on fw (gPod g) addr (sst s) = Some (status, st') \<Longrightarrow>
       run_step fw r (r\<lparr>rsys := s\<lparr>sst := st', blocked := M, returned := add_mset (g, status) (returned s),
         wps := (wps s)[addr := wp_step fw (waitTimes s ! addr) EvReceive (wps s ! addr)]\<rparr>\<rparr>)"
| bind:
    "rsys r = s \<Longrightarrow> returned s = add_mset (g, status) M \<Longrightarrow> api_ok (ctxDone r) api \<Longrightarrow>
       finish_binding fw api now (gCycle g) status (sst s) = (request, st') \<Longrightarrow>
       run_step fw r (r\<lparr>rsys := s\<lparr>sst := st', returned := M, bound :=
         (case request of
            None \<Rightarrow> bound s
          | Some q \<Rightarrow> if api q = None then add_mset (g, q) (bound s) else bound s)\<rparr>\<rparr>)"
| waiting:
    "rsys r = s \<Longrightarrow> addr < length (wps s) \<Longrightarrow> e \<noteq> EvReceive \<Longrightarrow>
       run_step fw r (r\<lparr>rsys := wp_at fw addr e s\<rparr>)"
| plugins:
    "rsys r = s \<Longrightarrow> run_step fw r (r\<lparr>rsys := s\<lparr>sst := (sst s)\<lparr>world := w\<rparr>\<rparr>\<rparr>)"
| cancel:
    "run_step fw r (r\<lparr>ctxDone := True\<rparr>)"
| informers_stop:
    "ctxDone r \<Longrightarrow> run_step fw r (r\<lparr>delivering := False\<rparr>)"

abbreviation run_reachable ::
    "('s, 'c) framework \<Rightarrow> ('c, 'x, 's) run_state \<Rightarrow> ('c, 'x, 's) run_state \<Rightarrow> bool" where
  "run_reachable fw \<equiv> (run_step fw)\<^sup>*\<^sup>*"

section \<open>The loop refines the system\<close>

text \<open>Every step of the loop is a step of the system or leaves the system as it is.\<close>

lemma run_step_sys:
  assumes "run_step fw r r'"
  shows "rsys r' = rsys r \<or> sys_step fw (rsys r) (rsys r')"
  using assms
proof cases
  case (parked env s st')
  then show ?thesis by (auto intro: sys_step.cycle_parked)
next
  case (handed env s b st')
  then show ?thesis by (auto intro: sys_step.cycle_handed)
next
  case (pod_handler s p now sc)
  then show ?thesis by (auto intro: sys_step.pod_added)
next
  case (node_handler s order ev clk)
  then show ?thesis by (auto intro: sys_step.node_event)
next
  case (skip_wait s g M)
  then show ?thesis by (auto intro: sys_step.no_wait)
next
  case (begin_wait s g M addr)
  then show ?thesis by (auto intro: sys_step.wait)
next
  case (end_wait s g addr M status st')
  from sys_step.receive [OF end_wait(3,4)] show ?thesis
    by (simp add: end_wait(1,2) del: wp_step.simps)
next
  case (bind s g status M api now request st')
  then show ?thesis by (auto intro!: sys_step.finish)
next
  case (waiting s addr e)
  then show ?thesis by (auto intro: sys_step.waiting_pod)
next
  case (plugins s w)
  then show ?thesis by (auto intro: sys_step.plugins_act)
qed simp_all

lemma run_reachable_sys:
  "run_reachable fw r r' \<Longrightarrow> sys_reachable fw (rsys r) (rsys r')"
proof (induction rule: rtranclp_induct)
  case (step r' r'')
  with run_step_sys [of fw r' r''] show ?case by (auto intro: rtranclp.rtrancl_into_rtrancl)
qed simp

section \<open>After the context was cancelled\<close>

lemma scheduleOne_no_nodes:
  assumes "envNodes env = Inl err"
  shows "scheduleOne fw env st =
     (case NextPod (SchedulingQueue (sched st)) of
        None \<Rightarrow> None
      | Some (pod, q) \<Rightarrow> Some (Inr (None, ErrorFunc (envNow env) pod (Some err)
          (st\<lparr>sched := (sched st)\<lparr>SchedulingQueue := q\<rparr>, world := (world st)\<lparr>cycleState := NewCycleState fw\<rparr>\<rparr>))))"
  using assms by (simp add: scheduleOne_def schedule_pod_def Let_def split: option.split)

text \<open>
  What a step may do then, \<open>taken\<close> being the pods that a cycle takes from the queue and
  \<open>activated\<close> those that become active: it binds nothing, starts no goroutine for a pod, and
  leaves \<open>NextPod\<close> with at most one pod.
\<close>

definition winding_down :: "('c, 'x, 's) run_state \<Rightarrow> ('c, 'x, 's) run_state \<Rightarrow> bool" where
  "winding_down r r' \<longleftrightarrow>
     bound (rsys r') = bound (rsys r) \<and> flying_pods (rsys r') \<subseteq># flying_pods (rsys r) \<and>
     (\<exists>taken activated. taken @ ready_pods (queue_of (rsys r')) = ready_pods (queue_of (rsys r)) @ activated \<and>
        length taken + of_bool (rpc r' = InNextPod) \<le> (of_bool (rpc r = InNextPod) :: nat))"

lemma winding_downI:
  assumes "bound (rsys r') = bound (rsys r)" and "flying_pods (rsys r') \<subseteq># flying_pods (rsys r)"
    and "taken @ ready_pods (queue_of (rsys r')) = ready_pods (queue_of (rsys r)) @ activated"
    and "length taken + of_bool (rpc r' = InNextPod) \<le> (of_bool (rpc r = InNextPod) :: nat)"
  shows "winding_down r r'"
  using assms unfolding winding_down_def by blast

lemma winding_down_refl [simp]: "winding_down r r"
  by (auto simp: winding_down_def intro!: exI [of _ "[]"])

lemma winding_down_trans:
  assumes "winding_down r r'" and "winding_down r' r''"
  shows "winding_down r r''"
proof -
  obtain t a t' a' where
    1: "t @ ready_pods (queue_of (rsys r')) = ready_pods (queue_of (rsys r)) @ a"
       "length t + of_bool (rpc r' = InNextPod) \<le> (of_bool (rpc r = InNextPod) :: nat)" and
    2: "t' @ ready_pods (queue_of (rsys r'')) = ready_pods (queue_of (rsys r')) @ a'"
       "length t' + of_bool (rpc r'' = InNextPod) \<le> (of_bool (rpc r' = InNextPod) :: nat)"
    using assms unfolding winding_down_def by blast
  have "(t @ t') @ ready_pods (queue_of (rsys r'')) = ready_pods (queue_of (rsys r)) @ (a @ a')"
    using 1(1) 2(1) by (metis append.assoc)
  moreover have "length (t @ t') + of_bool (rpc r'' = InNextPod) \<le> (of_bool (rpc r = InNextPod) :: nat)"
    using 1(2) 2(2) by simp
  moreover have "flying_pods (rsys r'') \<subseteq># flying_pods (rsys r)" "bound (rsys r'') = bound (rsys r)"
    using assms by (auto simp: winding_down_def intro: subset_mset.order_trans)
  ultimately show ?thesis by (intro winding_downI)
qed

text \<open>A step that leaves the position in the loop as it is.\<close>

lemma winding_down_quiet:
  assumes "bound (rsys r') = bound (rsys r)" and "flying_pods (rsys r') \<subseteq># flying_pods (rsys r)"
    and "ready_pods (queue_of (rsys r')) = ready_pods (queue_of (rsys r)) @ activated"
    and "rpc r' = InNextPod \<longrightarrow> rpc r = InNextPod"
  shows "winding_down r r'"
  by (rule winding_downI [where taken = "[]"]) (use assms in \<open>simp_all split: if_splits\<close>)

lemma ready_pods_ErrorFunc [simp]:
  "ready_pods (SchedulingQueue (sched (ErrorFunc now pod err st))) = ready_pods (SchedulingQueue (sched st))"
  by (simp add: ErrorFunc_eq ready_pods_def queue_simps)

lemma done_step:
  assumes "run_step fw r r'" and "ctxDone r" and "place_inv (rsys r)"
  shows "ctxDone r' \<and> winding_down r r'"
  using assms(1)
proof cases
  case (parked env s st')
  obtain err where "envNodes env = Inl err"
    using parked(3) assms(2) by (auto simp: env_ok_def)
  with parked(5) obtain pod q st where pod: "NextPod (queue_of s) = Some (pod, q)"
    and st': "st' = ErrorFunc (envNow env) pod (Some err) st" "SchedulingQueue (sched st) = q"
    by (auto simp: scheduleOne_no_nodes split: option.splits)
  have "[pod] @ ready_pods (queue_of (rsys r')) = ready_pods (queue_of (rsys r)) @ []"
    using sq.next_Some [OF pod] by (simp add: parked(1,4) st')
  then show ?thesis
    using assms(2) parked(2)
    by (intro conjI winding_downI [where taken = "[pod]" and activated = "[]"])
      (simp_all add: parked(1,4) flying_pods_def)
next
  case (handed env s b st')
  then show ?thesis
    using assms(2) by (auto simp: env_ok_def scheduleOne_no_nodes split: option.splits)
next
  case (pod_handler s p now sc)
  then show ?thesis
    using assms(2)
    by (auto simp: addPodToSchedulingQueue_def flying_pods_def sq.ready_add intro!: winding_down_quiet)
next
  case (node_handler s order ev clk)
  let ?m = "(clk, order, ev)"
  have "ready_pods (queue_move fw ?m (queue_of s)) = ready_pods (queue_of s) @ queue_moved fw ?m (queue_of s)"
    using assms(3) node_handler by (intro sq.ready_move) (simp_all add: place_inv_def move_order_def)
  then show ?thesis
    using assms(2)
    by (auto simp: node_handler(1,3) move_all_def queue_move_def flying_pods_def intro!: winding_down_quiet)
next
  case (end_wait s g addr M status st')
  have "queue_of s = SchedulingQueue (sched st')"
    using end_wait(4) by (auto simp: wait_on_def split: option.splits)
  with end_wait(3) show ?thesis
    using assms(2)
    by (auto simp: end_wait(1,2) flying_pods_def simp del: wp_step.simps
          intro!: winding_down_quiet [where activated = "[]"])
next
  case (bind s g status M api now request st')
  have "\<forall>q. api q \<noteq> None" using bind(4) assms(2) by (simp add: api_ok_def)
  with bind(5) obtain err where st': "st' = ErrorFunc now (bcPod (gCycle g)) err (sst s)"
    and req: "case request of None \<Rightarrow> True | Some q \<Rightarrow> api q \<noteq> None"
  proof (cases rule: finish_binding_cases)
    case (parked err)
    then show thesis by (intro that)
  next
    case (bound q)
    with \<open>\<forall>q. api q \<noteq> None\<close> show thesis by blast
  qed
  show ?thesis
    using assms(2) bind(3) req
    by (auto simp: bind(1,2) st' flying_pods_def split: option.splits
          intro!: winding_down_quiet [where activated = "[]"])
qed (use assms(2) in \<open>auto simp: flying_pods_def wp_at_def Let_def
      intro!: winding_down_quiet [where activated = "[]"]\<close>)

lemma place_inv_run:
  assumes "status_laws fw" and "SchedulingQueue sc = queue_New evm"
    and "run_reachable fw (run_init sc w) r"
  shows "place_inv (rsys r)"
  using place_inv_reachable [OF assms(1,2)] run_reachable_sys [OF assms(3)] by (simp add: run_init_def)


section \<open>Whether the loop returns\<close>

text \<open>
  With no handler running, a goroutine in \<open>NextPod\<close> on an empty queue stays there: nothing that
  still runs makes a pod active.
\<close>

definition stuck :: "('c, 'x, 's) run_state \<Rightarrow> bool" where
  "stuck r \<longleftrightarrow> rpc r = InNextPod \<and> activeQ (queue_of (rsys r)) = [] \<and> \<not> delivering r"

lemma activeQ_ErrorFunc [simp]:
  "activeQ (SchedulingQueue (sched (ErrorFunc now pod err st))) = activeQ (SchedulingQueue (sched st))"
  by (simp add: ErrorFunc_eq queue_simps)

lemma stuck_step:
  assumes "run_step fw r r'" and "stuck r"
  shows "stuck r'"
  using assms(1)
proof cases
  case (parked env s st')
  then show ?thesis
    using assms(2) by (simp add: stuck_def scheduleOne_def NextPod_def)
next
  case (handed env s b st')
  then show ?thesis
    using assms(2) by (simp add: stuck_def scheduleOne_def NextPod_def)
next
  case (end_wait s g addr M status st')
  then show ?thesis
    using assms(2) by (auto simp: stuck_def wait_on_def simp del: wp_step.simps split: option.splits)
next
  case (bind s g status M api now request st')
  from bind(5) have "activeQ (SchedulingQueue (sched st')) = activeQ (queue_of s)"
    by (cases rule: finish_binding_cases) simp_all
  then show ?thesis using assms(2) by (simp add: bind(1,2) stuck_def)
qed (use assms(2) in \<open>auto simp: stuck_def wp_at_def Let_def\<close>)

lemma stuck_reachable: "run_reachable fw r r' \<Longrightarrow> stuck r \<Longrightarrow> stuck r'"
  by (induction rule: rtranclp_induct) (auto intro: stuck_step)

lemma run_returns:
  assumes "ctxDone r" and "rpc r \<noteq> InNextPod"
  shows "\<exists>r'. run_reachable fw r r' \<and> rpc r' = Returned"
proof (cases "rpc r")
  case AtCheck
  then have "run_step fw r (r\<lparr>rpc := Returned\<rparr>)" using assms(1) by (rule run_step.return)
  then show ?thesis by (intro exI [of _ "r\<lparr>rpc := Returned\<rparr>"]) simp
qed (use assms(2) in auto)

text \<open>
  C6: a cancelled scheduler whose informers have stopped can always return from \<open>Run\<close>, except
  from \<open>NextPod\<close> on an empty queue: there it stays for good, since \<open>NextPod\<close> does not look at
  the context.
\<close>

theorem Run_returns_iff:
  assumes "ctxDone r" and "\<not> delivering r"
  shows "(\<exists>r'. run_reachable fw r r' \<and> rpc r' = Returned) \<longleftrightarrow>
     \<not> (rpc r = InNextPod \<and> activeQ (queue_of (rsys r)) = [])"
proof
  assume "\<exists>r'. run_reachable fw r r' \<and> rpc r' = Returned"
  then obtain r' where "run_reachable fw r r'" and "rpc r' = Returned" by blast
  then show "\<not> (rpc r = InNextPod \<and> activeQ (queue_of (rsys r)) = [])"
    using stuck_reachable assms(2) by (fastforce simp: stuck_def)
next
  assume busy: "\<not> (rpc r = InNextPod \<and> activeQ (queue_of (rsys r)) = [])"
  show "\<exists>r'. run_reachable fw r r' \<and> rpc r' = Returned"
  proof (cases "rpc r = InNextPod")
    case True
    with busy obtain pod q where pod: "NextPod (queue_of (rsys r)) = Some (pod, q)"
      by (cases "activeQ (queue_of (rsys r))") (auto simp: NextPod_def)
    define env where "env = \<lparr>envNodes = Inl (ErrorString ''context canceled''), envOrder = (\<lambda>_. []),
      envRand = (\<lambda>_. 0), envNow = 0\<rparr>"
    have env: "envNodes env = Inl (ErrorString ''context canceled'')" "env_ok (ctxDone r) env"
      by (simp_all add: env_def env_ok_def)
    obtain st' where run: "scheduleOne fw env (sst (rsys r)) = Some (Inr (None, st'))"
      by (simp add: scheduleOne_no_nodes [OF env(1)] pod)
    let ?r = "r\<lparr>rsys := (rsys r)\<lparr>sst := st'\<rparr>, rpc := AtCheck\<rparr>"
    have step: "run_step fw r ?r" by (rule run_step.parked [OF True env(2) refl run])
    obtain r' where "run_reachable fw ?r r'" "rpc r' = Returned"
      using run_returns [of ?r fw] assms(1) by auto
    with step show ?thesis by (meson converse_rtranclp_into_rtranclp)
  next
    case False
    with assms(1) show ?thesis by (rule run_returns)
  qed
qed

section \<open>A concrete run\<close>

text \<open>The scheduler of theory \<open>Sched_System\<close>, cancelled while it waits in \<open>NextPod\<close>.\<close>

definition sample_stopped ::
    "(string \<rightharpoonup> state_data, unit, sample_status) run_state" where
  "sample_stopped = \<lparr>rsys = sample_system, rpc = InNextPod, ctxDone = True, delivering = False\<rparr>"

lemma sample_stopped_reachable:
  "run_reachable sample_framework
     (run_init sample_scheduler \<lparr>cycleState = Map.empty, pluginState = ()\<rparr>) sample_stopped"
proof -
  let ?r0 = "run_init sample_scheduler \<lparr>cycleState = Map.empty, pluginState = ()\<rparr>"
  have "run_step sample_framework ?r0 (?r0\<lparr>rpc := InNextPod\<rparr>)" (is "run_step _ _ ?r1")
    by (rule run_step.enter) (simp_all add: run_init_def)
  moreover have "run_step sample_framework ?r1 (?r1\<lparr>ctxDone := True\<rparr>)" (is "run_step _ _ ?r2")
    by (rule run_step.cancel)
  moreover have "run_step sample_framework ?r2 (?r2\<lparr>delivering := False\<rparr>)" (is "run_step _ _ ?r3")
    by (rule run_step.informers_stop) simp
  moreover have "?r3 = sample_stopped"
    by (simp add: run_init_def sample_stopped_def sample_system_def)
  ultimately show ?thesis by (metis converse_rtranclp_into_rtranclp rtranclp.rtrancl_refl)
qed


theorem Run_returns_iff_witness:
  "\<not> (\<exists>r'. run_reachable sample_framework sample_stopped r' \<and> rpc r' = Returned)"
proof -
  have "ctxDone sample_stopped" "\<not> delivering sample_stopped" "rpc sample_stopped = InNextPod"
      "activeQ (queue_of (rsys sample_stopped)) = []"
    by (simp_all add: sample_stopped_def sample_system_def sys_init_def queue_New_def)
  then show ?thesis using Run_returns_iff [of sample_stopped sample_framework] by simp
qed

end
