(* ===== verification/Service.thy ===== *)
theory Service
  imports Framework
begin

text \<open>
  The service that starts, restarts and shuts down a scheduler, \<open>scheduler/scheduler.go\<close> up to
  \<open>GetSchedulerConfig\<close>.  A context is a number; the state of the process holds which contexts
  are cancelled and what runs under which context.
\<close>

section \<open>State\<close>

text \<open>\<open>None\<close> is a nil function or a nil configuration.  The function is the cancel of a context.\<close>

record 'cfg service =
  shutdownfn :: "nat option"
  currentSchedulerCfg :: "'cfg option"

text \<open>
  \<open>'sched\<close> is a scheduler, \<open>'w\<close> what \<open>minisched.New\<close> changes: the package variables of the
  plugins and the handlers of the informers.
\<close>

record ('sched, 'w) process =
  nextContext :: nat
  cancelled :: "nat set"
  recording :: "nat list"             \<comment> \<open>broadcasters recording until a context is done\<close>
  informersStarted :: "nat list"      \<comment> \<open>informer factories started, and synced\<close>
  schedulers :: "(nat \<times> 'sched) list"  \<comment> \<open>goroutines of \<open>sched.Run(ctx)\<close>\<close>
  world :: 'w

definition WithCancel :: "('sched, 'w) process \<Rightarrow> nat \<times> ('sched, 'w) process" where
  "WithCancel w = (nextContext w, w\<lparr>nextContext := Suc (nextContext w)\<rparr>)"

definition cancel :: "nat \<Rightarrow> ('sched, 'w) process \<Rightarrow> ('sched, 'w) process" where
  "cancel ctx w = w\<lparr>cancelled := insert ctx (cancelled w)\<rparr>"

section \<open>Operations\<close>

definition NewSchedulerService :: "'cfg service" where
  "NewSchedulerService = \<lparr>shutdownfn = None, currentSchedulerCfg = None\<rparr>"

text \<open>
  \<open>new\<close> is \<open>minisched.New\<close> with the client and a new informer factory.  A call returns an
  error or nil, the service and the process.
\<close>

definition StartScheduler ::
    "('w \<Rightarrow> panic + (goerror + 'sched) \<times> 'w) \<Rightarrow> 'cfg option \<Rightarrow> 'cfg service \<Rightarrow> ('sched, 'w) process
       \<Rightarrow> panic + goerror option \<times> 'cfg service \<times> ('sched, 'w) process" where
  "StartScheduler new versionedcfg s w =
     (let (ctx, w) = WithCancel w;
          w = w\<lparr>recording := recording w @ [ctx]\<rparr>;
          s = s\<lparr>currentSchedulerCfg := versionedcfg\<rparr>
      in case new (world w) of
           Inl e \<Rightarrow> Inl e
         | Inr (Inl err, x) \<Rightarrow>
             Inr (Some (Errorf ''create minisched: %w'' [] (Some err)), s, cancel ctx (w\<lparr>world := x\<rparr>))
         | Inr (Inr sched, x) \<Rightarrow>
             let w = w\<lparr>world := x\<rparr>;
                 w = w\<lparr>informersStarted := informersStarted w @ [ctx]\<rparr>;
                 w = w\<lparr>schedulers := schedulers w @ [(ctx, sched)]\<rparr>;
                 s = s\<lparr>shutdownfn := Some ctx\<rparr>
             in Inr (None, s, w))"

definition ShutdownScheduler ::
    "'cfg service \<Rightarrow> ('sched, 'w) process \<Rightarrow> ('sched, 'w) process" where
  "ShutdownScheduler s w = (case shutdownfn s of None \<Rightarrow> w | Some ctx \<Rightarrow> cancel ctx w)"

definition RestartScheduler ::
    "('w \<Rightarrow> panic + (goerror + 'sched) \<times> 'w) \<Rightarrow> 'cfg option \<Rightarrow> 'cfg service \<Rightarrow> ('sched, 'w) process
       \<Rightarrow> panic + goerror option \<times> 'cfg service \<times> ('sched, 'w) process" where
  "RestartScheduler new cfg s w =
     (let w = ShutdownScheduler s w
      in case StartScheduler new cfg s w of
           Inl e \<Rightarrow> Inl e
         | Inr (Some err, s, w) \<Rightarrow> Inr (Some (Errorf ''start scheduler: %w'' [] (Some err)), s, w)
         | Inr (None, s, w) \<Rightarrow> Inr (None, s, w))"

definition GetSchedulerConfig :: "'cfg service \<Rightarrow> 'cfg option" where
  "GetSchedulerConfig s = currentSchedulerCfg s"

section \<open>At most one scheduler\<close>

text \<open>The schedulers whose context is not cancelled.\<close>

definition live :: "('sched, 'w) process \<Rightarrow> (nat \<times> 'sched) list" where
  "live w = filter (\<lambda>(ctx, sched). ctx \<notin> cancelled w) (schedulers w)"

definition live_informers :: "('sched, 'w) process \<Rightarrow> nat list" where
  "live_informers w = filter (\<lambda>ctx. ctx \<notin> cancelled w) (informersStarted w)"

definition live_recorders :: "('sched, 'w) process \<Rightarrow> nat list" where
  "live_recorders w = filter (\<lambda>ctx. ctx \<notin> cancelled w) (recording w)"

definition started :: "('sched, 'w) process \<Rightarrow> nat set" where
  "started w = fst ` set (schedulers w) \<union> set (informersStarted w) \<union> set (recording w)"

definition nothing_live :: "('sched, 'w) process \<Rightarrow> bool" where
  "nothing_live w \<longleftrightarrow> live w = [] \<and> live_informers w = [] \<and> live_recorders w = []"

text \<open>
  Contexts are used once, and what is not cancelled belongs to the context that the service
  can shut down.
\<close>

definition process_ok :: "'cfg service \<Rightarrow> ('sched, 'w) process \<Rightarrow> bool" where
  "process_ok s w \<longleftrightarrow>
     started w \<union> cancelled w \<subseteq> {..<nextContext w} \<and> distinct (map fst (schedulers w)) \<and>
     (\<forall>ctx \<in> started w - cancelled w. shutdownfn s = Some ctx)"

lemma nothing_live_iff: "nothing_live w \<longleftrightarrow> started w \<subseteq> cancelled w"
  by (auto simp: nothing_live_def live_def live_informers_def live_recorders_def started_def
        filter_empty_conv)

lemma process_ok_New: "process_ok s \<lparr>nextContext = n, cancelled = {}, recording = [],
    informersStarted = [], schedulers = [], world = x\<rparr>"
  by (simp add: process_ok_def started_def)

lemma cancel_sel [simp]:
  "started (cancel ctx w) = started w" "schedulers (cancel ctx w) = schedulers w"
  "nextContext (cancel ctx w) = nextContext w" "cancelled (cancel ctx w) = insert ctx (cancelled w)"
  "world (cancel ctx w) = world w" "informersStarted (cancel ctx w) = informersStarted w"
  "recording (cancel ctx w) = recording w"
  by (simp_all add: cancel_def started_def)

lemma ShutdownScheduler_ok:
  assumes "process_ok s w" and "\<forall>ctx. shutdownfn s = Some ctx \<longrightarrow> ctx < nextContext w"
  shows "process_ok s (ShutdownScheduler s w)" and "nothing_live (ShutdownScheduler s w)"
  using assms
  by (auto simp: process_ok_def nothing_live_iff ShutdownScheduler_def split: option.split)

text \<open>What \<open>StartScheduler\<close> does when nothing runs.\<close>

lemma StartScheduler_cases:
  assumes "process_ok s w" and "nothing_live w" and "StartScheduler new cfg s w = Inr (err, s', w')"
  shows "process_ok s' w' \<and> currentSchedulerCfg s' = cfg \<and>
     (\<forall>ctx. shutdownfn s' = Some ctx \<longrightarrow> ctx < nextContext w' \<or> shutdownfn s = Some ctx) \<and>
     nextContext w < nextContext w' \<and>
     (case err of
        Some _ \<Rightarrow> nothing_live w' \<and> shutdownfn s' = shutdownfn s
      | None \<Rightarrow> \<exists>sched. live w' = [(nextContext w, sched)] \<and> live_informers w' = [nextContext w] \<and>
          live_recorders w' = [nextContext w] \<and> shutdownfn s' = Some (nextContext w) \<and>
          new (world w) = Inr (Inr sched, world w'))"
proof -
  let ?c = "nextContext w"
  have sub: "started w \<subseteq> cancelled w" using assms(2) by (simp add: nothing_live_iff)
  have fresh: "?c \<notin> cancelled w" "?c \<notin> started w"
    using assms(1) by (auto simp: process_ok_def)
  have none: "live w = []" "live_informers w = []" "live_recorders w = []"
    using assms(2) by (simp_all add: nothing_live_def)
  from assms(3) obtain r x where new: "new (world w) = Inr (r, x)"
    by (auto simp: StartScheduler_def WithCancel_def Let_def split: sum.splits)
  show ?thesis
  proof (cases r)
    case (Inl e)
    then have s': "s' = s\<lparr>currentSchedulerCfg := cfg\<rparr>" "err \<noteq> None"
      and w': "w' = cancel ?c (w\<lparr>nextContext := Suc ?c, recording := recording w @ [?c], world := x\<rparr>)"
      using assms(3) new by (auto simp: StartScheduler_def WithCancel_def)
    have "started w' = insert ?c (started w)" by (auto simp: w' started_def)
    then have "nothing_live w'" "process_ok s' w'"
      using assms(1) sub by (auto simp: nothing_live_iff process_ok_def w')
    then show ?thesis using s' by (auto simp: w')
  next
    case (Inr sched)
    then have s': "err = None" "s' = \<lparr>shutdownfn = Some ?c, currentSchedulerCfg = cfg\<rparr>"
      and w': "w' = w\<lparr>nextContext := Suc ?c, recording := recording w @ [?c], world := x,
        informersStarted := informersStarted w @ [?c], schedulers := schedulers w @ [(?c, sched)]\<rparr>"
      using assms(3) new by (auto simp: StartScheduler_def WithCancel_def)
    have "started w' = insert ?c (started w)" by (auto simp: w' started_def)
    moreover have "cancelled w' = cancelled w" "nextContext w' = Suc ?c"
      "distinct (map fst (schedulers w'))"
      using assms(1) fresh by (auto simp: w' process_ok_def started_def)
    ultimately have "process_ok s' w'"
      using assms(1) sub by (auto simp: s' process_ok_def)
    moreover have "live w' = [(?c, sched)]" "live_informers w' = [?c]" "live_recorders w' = [?c]"
      using none fresh by (simp_all add: w' live_def live_informers_def live_recorders_def)
    ultimately show ?thesis using new Inr by (simp add: s' w')
  qed
qed

section \<open>Any sequence of restarts and shutdowns\<close>

datatype 'cfg service_op = Restart "'cfg option" | Shutdown

text \<open>
  The service driven by its operations, as by the handlers of a server; the errors that
  restarts return are dropped.
\<close>

fun service_run ::
    "('w \<Rightarrow> panic + (goerror + 'sched) \<times> 'w) \<Rightarrow> 'cfg service_op list \<Rightarrow> 'cfg service
       \<Rightarrow> ('sched, 'w) process \<Rightarrow> panic + 'cfg service \<times> ('sched, 'w) process" where
  "service_run new [] s w = Inr (s, w)"
| "service_run new (Restart cfg # ops) s w =
     (case RestartScheduler new cfg s w of
        Inl e \<Rightarrow> Inl e
      | Inr (err, s, w) \<Rightarrow> service_run new ops s w)"
| "service_run new (Shutdown # ops) s w = service_run new ops s (ShutdownScheduler s w)"

definition service_ok :: "'cfg service \<Rightarrow> ('sched, 'w) process \<Rightarrow> bool" where
  "service_ok s w \<longleftrightarrow> process_ok s w \<and> (\<forall>ctx. shutdownfn s = Some ctx \<longrightarrow> ctx < nextContext w)"

lemma service_ok_Shutdown:
  assumes "service_ok s w"
  shows "service_ok s (ShutdownScheduler s w)" and "nothing_live (ShutdownScheduler s w)"
  using ShutdownScheduler_ok [of s w] assms
  by (auto simp: service_ok_def ShutdownScheduler_def split: option.splits)

lemma RestartScheduler_cases:
  assumes "service_ok s w" and "RestartScheduler new cfg s w = Inr (err, s', w')"
  shows "service_ok s' w' \<and> currentSchedulerCfg s' = cfg \<and>
     (case err of
        Some _ \<Rightarrow> nothing_live w'
      | None \<Rightarrow> \<exists>ctx sched. live w' = [(ctx, sched)] \<and> live_informers w' = [ctx] \<and>
          live_recorders w' = [ctx] \<and> shutdownfn s' = Some ctx)"
proof -
  let ?w = "ShutdownScheduler s w"
  obtain e where start: "StartScheduler new cfg s ?w = Inr (e, s', w')" and e: "e = None \<longleftrightarrow> err = None"
    using assms(2) by (auto simp: RestartScheduler_def Let_def split: sum.splits option.splits)
  have ok: "service_ok s ?w" and nl: "nothing_live ?w"
    using service_ok_Shutdown [OF assms(1)] by simp_all
  from ok have "process_ok s ?w" by (simp add: service_ok_def)
  from StartScheduler_cases [OF this nl start] ok e show ?thesis
    by (auto simp: service_ok_def split: option.splits)
qed

lemma service_run_ok:
  "service_ok s w \<Longrightarrow> service_run new ops s w = Inr (s', w') \<Longrightarrow> service_ok s' w'"
proof (induction ops arbitrary: s w)
  case (Cons op ops)
  show ?case
  proof (cases op)
    case (Restart cfg)
    then show ?thesis
      using Cons by (auto split: sum.splits dest: RestartScheduler_cases)
  next
    case Shutdown
    then show ?thesis using Cons service_ok_Shutdown(1) by auto
  qed
qed simp

lemma live_at_most_one:
  assumes "service_ok s w"
  shows "length (live w) \<le> 1 \<and> (\<forall>(ctx, sched) \<in> set (live w). shutdownfn s = Some ctx)"
proof -
  have dist: "distinct (map fst (live w))"
    using assms by (auto simp: service_ok_def process_ok_def live_def distinct_map_filter)
  have all: "shutdownfn s = Some ctx" if "(ctx, sched) \<in> set (live w)" for ctx sched
  proof -
    have "ctx \<in> started w - cancelled w"
      using that image_eqI [of ctx fst "(ctx, sched)" "set (schedulers w)"]
      by (simp add: live_def started_def)
    then show ?thesis using assms by (simp add: service_ok_def process_ok_def)
  qed
  have "length (live w) \<le> 1"
  proof (cases "live w")
    case (Cons a xs)
    have "xs = []"
    proof (rule ccontr)
      assume "xs \<noteq> []"
      then obtain b where b: "b \<in> set xs" by (cases xs) auto
      have "(fst a, snd a) \<in> set (live w)" "(fst b, snd b) \<in> set (live w)"
        using b Cons by simp_all
      then have "shutdownfn s = Some (fst a)" "shutdownfn s = Some (fst b)"
        by (blast dest: all)+
      then have "fst a \<in> fst ` set xs" using b by (metis imageI option.inject)
      then show False using dist Cons by simp
    qed
    then show ?thesis using Cons by simp
  qed simp
  with all show ?thesis by blast
qed

text \<open>
  C21: however a service is restarted and shut down, and whether the restarts succeed or fail,
  at most one scheduler has a context that is not cancelled, and that context is the one the
  service cancels next; after a shutdown there is none, and no informer and no recorder.
\<close>

theorem service_runs_one_scheduler:
  assumes "service_run new ops NewSchedulerService
      \<lparr>nextContext = 0, cancelled = {}, recording = [], informersStarted = [], schedulers = [], world = x\<rparr>
      = Inr (s, w)"
  shows "length (live w) \<le> 1 \<and> (\<forall>(ctx, sched) \<in> set (live w). shutdownfn s = Some ctx) \<and>
     nothing_live (ShutdownScheduler s w)"
proof -
  have "service_ok NewSchedulerService
      \<lparr>nextContext = 0, cancelled = {}, recording = [], informersStarted = [], schedulers = [], world = x\<rparr>"
    by (simp add: service_ok_def process_ok_New NewSchedulerService_def)
  from service_run_ok [OF this assms] show ?thesis
    using live_at_most_one service_ok_Shutdown(2) by blast
qed

theorem service_runs_one_scheduler_witness:
  "\<exists>s w. service_run (\<lambda>n :: nat. if n = 1 then Inr (Inl (ExtError ''no''), 2) else Inr (Inr (''sched'' :: string), Suc n))
      [Restart (Some ''a''), Restart (Some ''b''), Restart (Some ''c'')] NewSchedulerService
      \<lparr>nextContext = 0, cancelled = {}, recording = [], informersStarted = [], schedulers = [], world = 0\<rparr>
      = Inr (s, w) \<and> live w = [(2, ''sched'')] \<and> nothing_live (ShutdownScheduler s w)"
proof -
  let ?new = "\<lambda>n :: nat. if n = 1 then Inr (Inl (ExtError ''no''), 2) else Inr (Inr (''sched'' :: string), Suc n)"
  obtain s w where run: "service_run ?new [Restart (Some ''a''), Restart (Some ''b''), Restart (Some ''c'')]
      NewSchedulerService
      \<lparr>nextContext = 0, cancelled = {}, recording = [], informersStarted = [], schedulers = [], world = 0\<rparr>
      = Inr (s, w)" and "live w = [(2, ''sched'')]"
    by (simp add: RestartScheduler_def StartScheduler_def ShutdownScheduler_def WithCancel_def
          cancel_def NewSchedulerService_def live_def)
  then show ?thesis using service_runs_one_scheduler [OF run] by blast
qed



end
