(* ===== verification/App_Config.thy ===== *)
theory App_Config
  imports Framework
begin

text \<open>
  The settings of the program, \<open>config/config.go\<close>: read from environment variables.
\<close>

definition ErrEmptyEnv :: goerror where
  "ErrEmptyEnv = ErrorString ''env is needed, but empty''"

record app_config =
  Port :: int
  EtcdURL :: string
  FrontendURL :: string

text \<open>
  \<open>getenv\<close> is \<open>os.Getenv\<close>: the empty string for a variable that is not set.  The error of
  \<open>strconv.Atoi\<close> is an argument.
\<close>

definition getPort :: "(string \<Rightarrow> string) \<Rightarrow> (string \<Rightarrow> goerror) \<Rightarrow> goerror + int" where
  "getPort getenv atoi_err =
     (let p = getenv ''PORT''
      in if p = [] then Inl (Errorf ''get PORT from env: %w'' [] (Some ErrEmptyEnv))
         else case Atoi p of
             None \<Rightarrow> Inl (Errorf ''convert PORT of string to int: %w'' [] (Some (atoi_err p)))
           | Some port \<Rightarrow> Inr port)"

definition getEtcdURL :: "(string \<Rightarrow> string) \<Rightarrow> goerror + string" where
  "getEtcdURL getenv =
     (let e = getenv ''KUBE_SCHEDULER_SIMULATOR_ETCD_URL''
      in if e = []
         then Inl (Errorf ''get KUBE_SCHEDULER_SIMULATOR_ETCD_URL from env: %w'' [] (Some ErrEmptyEnv))
         else Inr e)"

definition getFrontendURL :: "(string \<Rightarrow> string) \<Rightarrow> goerror + string" where
  "getFrontendURL getenv =
     (let e = getenv ''FRONTEND_URL''
      in if e = [] then Inl (Errorf ''get FRONTEND_URL from env: %w'' [] (Some ErrEmptyEnv)) else Inr e)"

definition NewConfig :: "(string \<Rightarrow> string) \<Rightarrow> (string \<Rightarrow> goerror) \<Rightarrow> goerror + app_config" where
  "NewConfig getenv atoi_err =
     (case getPort getenv atoi_err of
        Inl err \<Rightarrow> Inl (Errorf ''get port: %w'' [] (Some err))
      | Inr port \<Rightarrow>
          (case getEtcdURL getenv of
             Inl err \<Rightarrow> Inl (Errorf ''get etcd URL: %w'' [] (Some err))
           | Inr etcdurl \<Rightarrow>
               (case getFrontendURL getenv of
                  Inl err \<Rightarrow> Inl (Errorf ''get frontend URL: %w'' [] (Some err))
                | Inr frontendurl \<Rightarrow>
                    Inr \<lparr>Port = port, EtcdURL = etcdurl, FrontendURL = frontendurl\<rparr>)))"

text \<open>The innermost error that an error wraps, which \<open>errors.Is\<close> finds.\<close>

fun root_error :: "goerror \<Rightarrow> goerror" where
  "root_error (Errorf format vs (Some err)) = root_error err"
| "root_error err = err"

text \<open>The environment of a configuration, which is read back.\<close>

definition environment_of :: "app_config \<Rightarrow> string \<Rightarrow> string" where
  "environment_of c =
     (\<lambda>name. if name = ''PORT'' then FormatInt (Port c)
        else if name = ''KUBE_SCHEDULER_SIMULATOR_ETCD_URL'' then EtcdURL c
        else if name = ''FRONTEND_URL'' then FrontendURL c else [])"

lemma FormatInt_not_Nil: "FormatInt i \<noteq> []"
  by (simp add: FormatInt_def)

text \<open>
  C40: a configuration is read back from the environment that prints it, for every port of 64
  bits (nothing restricts the port to 0..65535) and every non-empty URL.
\<close>

theorem NewConfig_roundtrip:
  assumes "- (2 ^ 63) \<le> Port c" and "Port c < 2 ^ 63" and "EtcdURL c \<noteq> []" and "FrontendURL c \<noteq> []"
  shows "NewConfig (environment_of c) atoi_err = Inr c"
  using assms
  by (simp add: NewConfig_def getPort_def getEtcdURL_def getFrontendURL_def environment_of_def
        FormatInt_not_Nil Atoi_FormatInt)

theorem NewConfig_roundtrip_witness:
  "NewConfig (environment_of \<lparr>Port = 1212, EtcdURL = ''http://etcd:2379'', FrontendURL = ''http://web''\<rparr>)
     (\<lambda>p. ExtError p) =
   Inr \<lparr>Port = 1212, EtcdURL = ''http://etcd:2379'', FrontendURL = ''http://web''\<rparr>"
  by (rule NewConfig_roundtrip) simp_all

text \<open>
  The configuration is read exactly if the three variables are set and the port is a
  number; if one is not set, the error that is returned is, at its root, \<open>ErrEmptyEnv\<close>, unless
  the port is set to something that is not a number.
\<close>

theorem NewConfig_error:
  "((\<exists>c. NewConfig getenv atoi_err = Inr c) \<longleftrightarrow>
     getenv ''PORT'' \<noteq> [] \<and> getenv ''KUBE_SCHEDULER_SIMULATOR_ETCD_URL'' \<noteq> [] \<and>
     getenv ''FRONTEND_URL'' \<noteq> [] \<and> Atoi (getenv ''PORT'') \<noteq> None) \<and>
   (\<forall>err. NewConfig getenv atoi_err = Inl err \<longrightarrow>
     root_error err = ErrEmptyEnv \<or>
     getenv ''PORT'' \<noteq> [] \<and> Atoi (getenv ''PORT'') = None \<and>
       root_error err = root_error (atoi_err (getenv ''PORT'')))"
  by (auto simp: NewConfig_def getPort_def getEtcdURL_def getFrontendURL_def ErrEmptyEnv_def Let_def
        split: if_splits option.splits)

theorem NewConfig_error_witness:
  "\<exists>err. NewConfig (\<lambda>name. []) (\<lambda>p. ExtError p) = Inl err \<and> root_error err = ErrEmptyEnv"
proof -
  have "\<nexists>c. NewConfig (\<lambda>name. []) (\<lambda>p. ExtError p) = Inr c"
    using NewConfig_error [of "\<lambda>name. []" "\<lambda>p. ExtError p"] by simp
  then obtain err where err: "NewConfig (\<lambda>name. []) (\<lambda>p. ExtError p) = Inl err"
    by (cases "NewConfig (\<lambda>name. []) (\<lambda>p. ExtError p)") auto
  with NewConfig_error [of "\<lambda>name. []" "\<lambda>p. ExtError p"] show ?thesis by simp
qed

end
