(* ===== verification/OpenAPI.thy ===== *)
theory OpenAPI
  imports Prelude "HOL-Library.List_Lexorder" "HOL-Library.Char_ord"
begin

text \<open>
  The types of \<open>kube-openapi\<close> and \<open>go-openapi/spec\<close> that the generated file
  \<open>k8sapiserver/openapi/zz_generated.openapi.go\<close> builds its definitions with, and what
  it means that a definition is consistent.  The definitions themselves are in the theories
  \<open>OpenAPI_Meta\<close> to \<open>OpenAPI_Flow\<close>, by the groups of objects they describe, and the table of
  them in \<open>OpenAPI_Definitions\<close>.
\<close>

section \<open>Schemas\<close>

text \<open>
  The values that a default or a vendor extension holds, an \<open>interface{}\<close> in Go.
\<close>

datatype json =
    JString string
  | JNumber int
  | JBool bool
  | JArray "json list"
  | JObject "(string \<times> json) list"

text \<open>
  A \<open>spec.Schema\<close> is written as a composite literal, and modelled as the fields the literal
  sets, of \<open>spec.SchemaProps\<close> and of \<open>spec.VendorExtensible\<close>; a field that is not set
  has the zero value of Go.  \<open>Items\<close> stands for \<open>&spec.SchemaOrArray{Schema: \<dots>}\<close> and
  \<open>AdditionalProperties\<close> for \<open>&spec.SchemaOrBool{Allows: \<dots>, Schema: \<dots>}\<close>.  The type
  variable is the type \<open>spec.Ref\<close>, which the caller's \<open>ref\<close> returns.
\<close>

datatype 'r schema = Schema "'r schema_field list"
and 'r schema_field =
    Description string
  | Type "string list"
  | Format string
  | Default json
  | Ref 'r
  | Properties "(string \<times> 'r schema) list"
  | Required "string list"
  | Items "'r schema"
  | AdditionalProperties bool "'r schema"
  | Extensions "(string \<times> json) list"

text \<open>\<open>common.OpenAPIDefinition\<close>.\<close>

record 'r openapi_definition =
  defSchema :: "'r schema"
  Dependencies :: "string list"

text \<open>
  The methods by which a few types of the API machinery say how they are written, indexed by
  the type's name in the source; they are not part of the program.
\<close>

record openapi_lib =
  OpenAPISchemaType :: "string \<Rightarrow> string list"
  OpenAPISchemaFormat :: "string \<Rightarrow> string"

section \<open>Reading a schema\<close>

text \<open>All the references in a schema, at any depth.\<close>

fun schema_refs :: "'r schema \<Rightarrow> 'r list"
  and field_refs :: "'r schema_field \<Rightarrow> 'r list" where
  "schema_refs (Schema fs) = concat (map field_refs fs)"
| "field_refs (Ref r) = [r]"
| "field_refs (Properties ps) = concat (map (\<lambda>(n, s). schema_refs s) ps)"
| "field_refs (Items s) = schema_refs s"
| "field_refs (AdditionalProperties b s) = schema_refs s"
| "field_refs (Description d) = []"
| "field_refs (Type t) = []"
| "field_refs (Format f) = []"
| "field_refs (Default v) = []"
| "field_refs (Required rs) = []"
| "field_refs (Extensions es) = []"

text \<open>The declared properties of an object, and those that must be present.\<close>

primrec field_properties :: "'r schema_field \<Rightarrow> string list" where
  "field_properties (Properties ps) = map fst ps"
| "field_properties (Description d) = []"
| "field_properties (Type t) = []"
| "field_properties (Format f) = []"
| "field_properties (Default v) = []"
| "field_properties (Ref r) = []"
| "field_properties (Required rs) = []"
| "field_properties (Items s) = []"
| "field_properties (AdditionalProperties b s) = []"
| "field_properties (Extensions es) = []"

primrec field_required :: "'r schema_field \<Rightarrow> string list" where
  "field_required (Required rs) = rs"
| "field_required (Description d) = []"
| "field_required (Type t) = []"
| "field_required (Format f) = []"
| "field_required (Default v) = []"
| "field_required (Ref r) = []"
| "field_required (Properties ps) = []"
| "field_required (Items s) = []"
| "field_required (AdditionalProperties b s) = []"
| "field_required (Extensions es) = []"

primrec schema_properties :: "'r schema \<Rightarrow> string list" where
  "schema_properties (Schema fs) = concat (map field_properties fs)"

primrec schema_required :: "'r schema \<Rightarrow> string list" where
  "schema_required (Schema fs) = concat (map field_required fs)"

section \<open>Consistent definitions\<close>

text \<open>
  The references in the schema are the results of \<open>ref\<close> on the listed dependencies, no more
  and no less, and every required property is declared.
\<close>

definition definition_ok :: "(string \<Rightarrow> 'r) \<Rightarrow> 'r openapi_definition \<Rightarrow> bool" where
  "definition_ok ref d \<longleftrightarrow>
     list_all (\<lambda>r. r \<in> ref ` set (Dependencies d)) (schema_refs (defSchema d)) \<and>
     list_all (\<lambda>n. ref n \<in> set (schema_refs (defSchema d))) (Dependencies d) \<and>
     list_all (\<lambda>n. n \<in> set (schema_properties (defSchema d))) (schema_required (defSchema d))"

lemma definition_ok_refs:
  "definition_ok ref d \<Longrightarrow> set (schema_refs (defSchema d)) = ref ` set (Dependencies d)"
  by (auto simp: definition_ok_def list_all_iff)

lemma definition_ok_required:
  "definition_ok ref d \<Longrightarrow> set (schema_required (defSchema d)) \<subseteq> set (schema_properties (defSchema d))"
  by (auto simp: definition_ok_def list_all_iff)

text \<open>The dependencies of a definition have a rank below a bound.\<close>

definition deps_below :: "(string \<Rightarrow> nat option) \<Rightarrow> nat \<Rightarrow> 'r openapi_definition \<Rightarrow> bool" where
  "deps_below rank k d \<longleftrightarrow>
     list_all (\<lambda>n. case rank n of None \<Rightarrow> False | Some i \<Rightarrow> i < k) (Dependencies d)"

lemma deps_belowD:
  "deps_below rank k d \<Longrightarrow> n \<in> set (Dependencies d) \<Longrightarrow> \<exists>i. rank n = Some i \<and> i < k"
  by (auto simp: deps_below_def list_all_iff split: option.splits)

text \<open>
  The simplifier need not look into the texts of a schema, on which none of these functions
  depends.
\<close>

lemma leaf_congs:
  "Description d = Description d" "Type t = Type t" "Format f = Format f"
  "Default v = Default v" "Extensions es = Extensions es"
  by (rule refl)+

declare leaf_congs [cong]

end
