(* ===== verification/OpenAPI_Meta.thy ===== *)
theory OpenAPI_Meta
  imports OpenAPI
begin

text \<open>
  The definitions of \<open>zz_generated.openapi.go\<close> for the metadata of every object (\<open>meta/v1\<close>), quantities and \<open>IntOrString\<close>.
\<close>

definition schema_apimachinery_pkg_api_resource_Quantity :: "openapi_lib \<Rightarrow> (string \<Rightarrow> 'r) \<Rightarrow> 'r openapi_definition" where
  "schema_apimachinery_pkg_api_resource_Quantity lib ref =
    \<lparr>defSchema = Schema [Description (''Quantity is a fixed-point representation of a number. It provides convenient marshaling/unmarshaling in JSON and YAML, in addition to String() and AsInt64() accessors.'' @ [CHR 0x0A, CHR 0x0A] @ ''The serialization format is:'' @ [CHR 0x0A, CHR 0x0A] @ ''<quantity>        ::= <signedNumber><suffix>'' @ [CHR 0x0A] @ ''  (Note that <suffix> may be empty, from the \"\" case in <decimalSI>.)'' @ [CHR 0x0A] @ ''<digit>           ::= 0 | 1 | ... | 9 <digits>          ::= <digit> | <digit><digits> <number>          ::= <digits> | <digits>.<digits> | <digits>. | .<digits> <sign>            ::= \"+\" | \"-\" <signedNumber>    ::= <number> | <sign><number> <suffix>          ::= <binarySI> | <decimalExponent> | <decimalSI> <binarySI>        ::= Ki | Mi | Gi | Ti | Pi | Ei'' @ [CHR 0x0A] @ ''  (International System of units; See: http://physics.nist.gov/cuu/Units/binary.html)'' @ [CHR 0x0A] @ ''<decimalSI>       ::= m | \"\" | k | M | G | T | P | E'' @ [CHR 0x0A] @ ''  (Note that 1024 = 1Ki but 1000 = 1k; I didn't choose the capitalization.)'' @ [CHR 0x0A] @ ''<decimalExponent> ::= \"e\" <signedNumber> | \"E\" <signedNumber>'' @ [CHR 0x0A, CHR 0x0A] @ ''No matter which of the three exponent forms is used, no quantity may represent a number greater than 2^63-1 in magnitude, nor may it have more than 3 decimal places. Numbers larger or more precise will be capped or rounded up. (E.g.: 0.1m will rounded up to 1m.) This may be extended in the future if we require larger or smaller quantities.'' @ [CHR 0x0A, CHR 0x0A] @ ''When a Quantity is parsed from a string, it will remember the type of suffix it had, and will use the same type again when it is serialized.'' @ [CHR 0x0A, CHR 0x0A] @ ''Before serializing, Quantity will be put in \"canonical form\". This means that Exponent/suffix will be adjusted up or down (with a corresponding increase or decrease in Mantissa) such that:'' @ [CHR 0x0A] @ ''  a. No precision is lost'' @ [CHR 0x0A] @ ''  b. No fractional digits will be emitted'' @ [CHR 0x0A] @ ''  c. The exponent (or suffix) is as large as possible.'' @ [CHR 0x0A] @ ''The sign will be omitted unless the number is negative.'' @ [CHR 0x0A, CHR 0x0A] @ ''Examples:'' @ [CHR 0x0A] @ ''  1.5 will be serialized as \"1500m\"'' @ [CHR 0x0A] @ ''  1.5Gi will be serialized as \"1536Mi\"'' @ [CHR 0x0A, CHR 0x0A] @ ''Note that the quantity will NEVER be internally represented by a floating point number. That is the whole point of this exercise.'' @ [CHR 0x0A, CHR 0x0A] @ ''Non-canonical values will still parse as long as they are well formed, but will be re-emitted in their canonical form. (So always use canonical form, or don't diff.)'' @ [CHR 0x0A, CHR 0x0A] @ ''This format is intended to make it difficult to use these numbers without writing some sort of special handling code in the hopes that that will cause implementors to also use a fixed point implementation.''),
      Type (OpenAPISchemaType lib ''resource.Quantity''),
      Format (OpenAPISchemaFormat lib ''resource.Quantity'')],
     Dependencies = []\<rparr>"

definition schema_pkg_apis_meta_v1_FieldsV1 :: "(string \<Rightarrow> 'r) \<Rightarrow> 'r openapi_definition" where
  "schema_pkg_apis_meta_v1_FieldsV1 ref =
    \<lparr>defSchema = Schema [Description (''FieldsV1 stores a set of fields in a data structure like a Trie, in JSON format.'' @ [CHR 0x0A, CHR 0x0A] @ ''Each key is either a '.' representing the field itself, and will always map to an empty set, or a string representing a sub-field or item. The string will follow one of these four formats: 'f:<name>', where <name> is the name of a field in a struct, or key in a map 'v:<value>', where <value> is the exact json formatted value of a list item 'i:<index>', where <index> is position of a item in a list 'k:<keys>', where <keys> is a map of  a list item's key fields to their unique values If a key maps to an empty Fields value, the field that key represents is part of the set.'' @ [CHR 0x0A, CHR 0x0A] @ ''The exact format is defined in sigs.k8s.io/structured-merge-diff''),
      Type [''object'']],
     Dependencies = []\<rparr>"

definition schema_pkg_apis_meta_v1_LabelSelector :: "(string \<Rightarrow> 'r) \<Rightarrow> 'r openapi_definition" where
  "schema_pkg_apis_meta_v1_LabelSelector ref =
    \<lparr>defSchema = Schema [Description ''A label selector is a label query over a set of resources. The result of matchLabels and matchExpressions are ANDed. An empty label selector matches all objects. A null label selector matches no objects.'',
      Type [''object''],
      Properties [
      (''matchLabels'', Schema [Description ''matchLabels is a map of {key,value} pairs. A single {key,value} in the matchLabels map is equivalent to an element of matchExpressions, whose key field is \"key\", the operator is \"In\", and the values array contains only \"value\". The requirements are ANDed.'',
          Type [''object''],
          AdditionalProperties True (Schema [Default (JString ''''),
            Type [''string''],
            Format ''''])]),
      (''matchExpressions'', Schema [Description ''matchExpressions is a list of label selector requirements. The requirements are ANDed.'',
          Type [''array''],
          Items (Schema [Default (JObject []),
            Ref (ref ''k8s.io/apimachinery/pkg/apis/meta/v1.LabelSelectorRequirement'')])])],
      Extensions [(''x-kubernetes-map-type'', JString ''atomic'')]],
     Dependencies = [''k8s.io/apimachinery/pkg/apis/meta/v1.LabelSelectorRequirement'']\<rparr>"

definition schema_pkg_apis_meta_v1_LabelSelectorRequirement :: "(string \<Rightarrow> 'r) \<Rightarrow> 'r openapi_definition" where
  "schema_pkg_apis_meta_v1_LabelSelectorRequirement ref =
    \<lparr>defSchema = Schema [Description ''A label selector requirement is a selector that contains values, a key, and an operator that relates the key and values.'',
      Type [''object''],
      Properties [
      (''key'', Schema [Extensions [(''x-kubernetes-patch-merge-key'', JString ''key''), (''x-kubernetes-patch-strategy'', JString ''merge'')],
          Description ''key is the label key that the selector applies to.'',
          Default (JString ''''),
          Type [''string''],
          Format '''']),
      (''operator'', Schema [Description ''operator represents a key's relationship to a set of values. Valid operators are In, NotIn, Exists and DoesNotExist.'',
          Default (JString ''''),
          Type [''string''],
          Format '''']),
      (''values'', Schema [Description ''values is an array of string values. If the operator is In or NotIn, the values array must be non-empty. If the operator is Exists or DoesNotExist, the values array must be empty. This array is replaced during a strategic merge patch.'',
          Type [''array''],
          Items (Schema [Default (JString ''''),
            Type [''string''],
            Format ''''])])],
      Required [''key'', ''operator'']],
     Dependencies = []\<rparr>"

definition schema_pkg_apis_meta_v1_ManagedFieldsEntry :: "(string \<Rightarrow> 'r) \<Rightarrow> 'r openapi_definition" where
  "schema_pkg_apis_meta_v1_ManagedFieldsEntry ref =
    \<lparr>defSchema = Schema [Description ''ManagedFieldsEntry is a workflow-id, a FieldSet and the group version of the resource that the fieldset applies to.'',
      Type [''object''],
      Properties [
      (''manager'', Schema [Description ''Manager is an identifier of the workflow managing these fields.'',
          Type [''string''],
          Format '''']),
      (''operation'', Schema [Description ''Operation is the type of operation which lead to this ManagedFieldsEntry being created. The only valid values for this field are 'Apply' and 'Update'.'',
          Type [''string''],
          Format '''']),
      (''apiVersion'', Schema [Description ''APIVersion defines the version of this resource that this field set applies to. The format is \"group/version\" just like the top-level APIVersion field. It is necessary to track the version of a field set because it cannot be automatically converted.'',
          Type [''string''],
          Format '''']),
      (''time'', Schema [Description (''Time is timestamp of when these fields were set. It should always be empty if Operation is 'Apply'' @ [CHR 0x27]),
          Ref (ref ''k8s.io/apimachinery/pkg/apis/meta/v1.Time'')]),
      (''fieldsType'', Schema [Description ''FieldsType is the discriminator for the different fields format and version. There is currently only one possible value: \"FieldsV1\"'',
          Type [''string''],
          Format '''']),
      (''fieldsV1'', Schema [Description ''FieldsV1 holds the first JSON version format as described in the \"FieldsV1\" type.'',
          Ref (ref ''k8s.io/apimachinery/pkg/apis/meta/v1.FieldsV1'')]),
      (''subresource'', Schema [Description ''Subresource is the name of the subresource used to update that object, or empty string if the object was updated through the main resource. The value of this field is used to distinguish between managers, even if they share the same name. For example, a status update will be distinct from a regular update using the same manager name. Note that the APIVersion field is not related to the Subresource field and it always corresponds to the version of the main resource.'',
          Type [''string''],
          Format ''''])]],
     Dependencies = [''k8s.io/apimachinery/pkg/apis/meta/v1.FieldsV1'',
     ''k8s.io/apimachinery/pkg/apis/meta/v1.Time'']\<rparr>"

definition schema_pkg_apis_meta_v1_ObjectMeta :: "(string \<Rightarrow> 'r) \<Rightarrow> 'r openapi_definition" where
  "schema_pkg_apis_meta_v1_ObjectMeta ref =
    \<lparr>defSchema = Schema [Description ''ObjectMeta is metadata that all persisted resources must have, which includes all objects users must create.'',
      Type [''object''],
      Properties [
      (''name'', Schema [Description ''Name must be unique within a namespace. Is required when creating resources, although some resources may allow a client to request the generation of an appropriate name automatically. Name is primarily intended for creation idempotence and configuration definition. Cannot be updated. More info: http://kubernetes.io/docs/user-guide/identifiers#names'',
          Type [''string''],
          Format '''']),
      (''generateName'', Schema [Description (''GenerateName is an optional prefix, used by the server, to generate a unique name ONLY IF the Name field has not been provided. If this field is used, the name returned to the client will be different than the name passed. This value will also be combined with a unique suffix. The provided value has the same validation rules as the Name field, and may be truncated by the length of the suffix required to make the value unique on the server.'' @ [CHR 0x0A, CHR 0x0A] @ ''If this field is specified and the generated name exists, the server will NOT return a 409 - instead, it will either return 201 Created or 500 with Reason ServerTimeout indicating a unique name could not be found in the time allotted, and the client should retry (optionally after the time indicated in the Retry-After header).'' @ [CHR 0x0A, CHR 0x0A] @ ''Applied only if Name is not specified. More info: https://git.k8s.io/community/contributors/devel/sig-architecture/api-conventions.md#idempotency''),
          Type [''string''],
          Format '''']),
      (''namespace'', Schema [Description (''Namespace defines the space within which each name must be unique. An empty namespace is equivalent to the \"default\" namespace, but \"default\" is the canonical representation. Not all objects are required to be scoped to a namespace - the value of this field for those objects will be empty.'' @ [CHR 0x0A, CHR 0x0A] @ ''Must be a DNS_LABEL. Cannot be updated. More info: http://kubernetes.io/docs/user-guide/namespaces''),
          Type [''string''],
          Format '''']),
      (''selfLink'', Schema [Description (''SelfLink is a URL representing this object. Populated by the system. Read-only.'' @ [CHR 0x0A, CHR 0x0A] @ ''DEPRECATED Kubernetes will stop propagating this field in 1.20 release and the field is planned to be removed in 1.21 release.''),
          Type [''string''],
          Format '''']),
      (''uid'', Schema [Description (''UID is the unique in time and space value for this object. It is typically generated by the server on successful creation of a resource and is not allowed to change on PUT operations.'' @ [CHR 0x0A, CHR 0x0A] @ ''Populated by the system. Read-only. More info: http://kubernetes.io/docs/user-guide/identifiers#uids''),
          Type [''string''],
          Format '''']),
      (''resourceVersion'', Schema [Description (''An opaque value that represents the internal version of this object that can be used by clients to determine when objects have changed. May be used for optimistic concurrency, change detection, and the watch operation on a resource or set of resources. Clients must treat these values as opaque and passed unmodified back to the server. They may only be valid for a particular resource or set of resources.'' @ [CHR 0x0A, CHR 0x0A] @ ''Populated by the system. Read-only. Value must be treated as opaque by clients and . More info: https://git.k8s.io/community/contributors/devel/sig-architecture/api-conventions.md#concurrency-control-and-consistency''),
          Type [''string''],
          Format '''']),
      (''generation'', Schema [Description ''A sequence number representing a specific generation of the desired state. Populated by the system. Read-only.'',
          Type [''integer''],
          Format ''int64'']),
      (''creationTimestamp'', Schema [Description (''CreationTimestamp is a timestamp representing the server time when this object was created. It is not guaranteed to be set in happens-before order across separate operations. Clients may not set this value. It is represented in RFC3339 form and is in UTC.'' @ [CHR 0x0A, CHR 0x0A] @ ''Populated by the system. Read-only. Null for lists. More info: https://git.k8s.io/community/contributors/devel/sig-architecture/api-conventions.md#metadata''),
          Default (JObject []),
          Ref (ref ''k8s.io/apimachinery/pkg/apis/meta/v1.Time'')]),
      (''deletionTimestamp'', Schema [Description (''DeletionTimestamp is RFC 3339 date and time at which this resource will be deleted. This field is set by the server when a graceful deletion is requested by the user, and is not directly settable by a client. The resource is expected to be deleted (no longer visible from resource lists, and not reachable by name) after the time in this field, once the finalizers list is empty. As long as the finalizers list contains items, deletion is blocked. Once the deletionTimestamp is set, this value may not be unset or be set further into the future, although it may be shortened or the resource may be deleted prior to this time. For example, a user may request that a pod is deleted in 30 seconds. The Kubelet will react by sending a graceful termination signal to the containers in the pod. After that 30 seconds, the Kubelet will send a hard termination signal (SIGKILL) to the container and after cleanup, remove the pod from the API. In the presence of network partitions, this object may still exist after this timestamp, until an administrator or automated process can determine the resource is fully terminated. If not set, graceful deletion of the object has not been requested.'' @ [CHR 0x0A, CHR 0x0A] @ ''Populated by the system when a graceful deletion is requested. Read-only. More info: https://git.k8s.io/community/contributors/devel/sig-architecture/api-conventions.md#metadata''),
          Ref (ref ''k8s.io/apimachinery/pkg/apis/meta/v1.Time'')]),
      (''deletionGracePeriodSeconds'', Schema [Description ''Number of seconds allowed for this object to gracefully terminate before it will be removed from the system. Only set when deletionTimestamp is also set. May only be shortened. Read-only.'',
          Type [''integer''],
          Format ''int64'']),
      (''labels'', Schema [Description ''Map of string keys and values that can be used to organize and categorize (scope and select) objects. May match selectors of replication controllers and services. More info: http://kubernetes.io/docs/user-guide/labels'',
          Type [''object''],
          AdditionalProperties True (Schema [Default (JString ''''),
            Type [''string''],
            Format ''''])]),
      (''annotations'', Schema [Description ''Annotations is an unstructured key value map stored with a resource that may be set by external tools to store and retrieve arbitrary metadata. They are not queryable and should be preserved when modifying objects. More info: http://kubernetes.io/docs/user-guide/annotations'',
          Type [''object''],
          AdditionalProperties True (Schema [Default (JString ''''),
            Type [''string''],
            Format ''''])]),
      (''ownerReferences'', Schema [Extensions [(''x-kubernetes-patch-merge-key'', JString ''uid''), (''x-kubernetes-patch-strategy'', JString ''merge'')],
          Description ''List of objects depended by this object. If ALL objects in the list have been deleted, this object will be garbage collected. If this object is managed by a controller, then an entry in this list will point to this controller, with the controller field set to true. There cannot be more than one managing controller.'',
          Type [''array''],
          Items (Schema [Default (JObject []),
            Ref (ref ''k8s.io/apimachinery/pkg/apis/meta/v1.OwnerReference'')])]),
      (''finalizers'', Schema [Extensions [(''x-kubernetes-patch-strategy'', JString ''merge'')],
          Description ''Must be empty before the object is deleted from the registry. Each entry is an identifier for the responsible component that will remove the entry from the list. If the deletionTimestamp of the object is non-nil, entries in this list can only be removed. Finalizers may be processed and removed in any order.  Order is NOT enforced because it introduces significant risk of stuck finalizers. finalizers is a shared field, any actor with permission can reorder it. If the finalizer list is processed in order, then this can lead to a situation in which the component responsible for the first finalizer in the list is waiting for a signal (field value, external system, or other) produced by a component responsible for a finalizer later in the list, resulting in a deadlock. Without enforced ordering finalizers are free to order amongst themselves and are not vulnerable to ordering changes in the list.'',
          Type [''array''],
          Items (Schema [Default (JString ''''),
            Type [''string''],
            Format ''''])]),
      (''clusterName'', Schema [Description ''The name of the cluster which the object belongs to. This is used to distinguish resources with same name and namespace in different clusters. This field is not set anywhere right now and apiserver is going to ignore it if set in create or update request.'',
          Type [''string''],
          Format '''']),
      (''managedFields'', Schema [Description ''ManagedFields maps workflow-id and version to the set of fields that are managed by that workflow. This is mostly for internal housekeeping, and users typically shouldn't need to set or understand this field. A workflow can be the user's name, a controller's name, or the name of a specific apply path like \"ci-cd\". The set of fields is always in the version that the workflow used when modifying the object.'',
          Type [''array''],
          Items (Schema [Default (JObject []),
            Ref (ref ''k8s.io/apimachinery/pkg/apis/meta/v1.ManagedFieldsEntry'')])])]],
     Dependencies = [''k8s.io/apimachinery/pkg/apis/meta/v1.ManagedFieldsEntry'',
     ''k8s.io/apimachinery/pkg/apis/meta/v1.OwnerReference'',
     ''k8s.io/apimachinery/pkg/apis/meta/v1.Time'']\<rparr>"

definition schema_pkg_apis_meta_v1_OwnerReference :: "(string \<Rightarrow> 'r) \<Rightarrow> 'r openapi_definition" where
  "schema_pkg_apis_meta_v1_OwnerReference ref =
    \<lparr>defSchema = Schema [Description ''OwnerReference contains enough information to let you identify an owning object. An owning object must be in the same namespace as the dependent, or be cluster-scoped, so there is no namespace field.'',
      Type [''object''],
      Properties [
      (''apiVersion'', Schema [Description ''API version of the referent.'',
          Default (JString ''''),
          Type [''string''],
          Format '''']),
      (''kind'', Schema [Description ''Kind of the referent. More info: https://git.k8s.io/community/contributors/devel/sig-architecture/api-conventions.md#types-kinds'',
          Default (JString ''''),
          Type [''string''],
          Format '''']),
      (''name'', Schema [Description ''Name of the referent. More info: http://kubernetes.io/docs/user-guide/identifiers#names'',
          Default (JString ''''),
          Type [''string''],
          Format '''']),
      (''uid'', Schema [Description ''UID of the referent. More info: http://kubernetes.io/docs/user-guide/identifiers#uids'',
          Default (JString ''''),
          Type [''string''],
          Format '''']),
      (''controller'', Schema [Description ''If true, this reference points to the managing controller.'',
          Type [''boolean''],
          Format '''']),
      (''blockOwnerDeletion'', Schema [Description ''If true, AND if the owner has the \"foregroundDeletion\" finalizer, then the owner cannot be deleted from the key-value store until this reference is removed. Defaults to false. To set this field, a user needs \"delete\" permission of the owner, otherwise 422 (Unprocessable Entity) will be returned.'',
          Type [''boolean''],
          Format ''''])],
      Required [''apiVersion'', ''kind'', ''name'', ''uid''],
      Extensions [(''x-kubernetes-map-type'', JString ''atomic'')]],
     Dependencies = []\<rparr>"

definition schema_pkg_apis_meta_v1_Time :: "openapi_lib \<Rightarrow> (string \<Rightarrow> 'r) \<Rightarrow> 'r openapi_definition" where
  "schema_pkg_apis_meta_v1_Time lib ref =
    \<lparr>defSchema = Schema [Description ''Time is a wrapper around time.Time which supports correct marshaling to YAML and JSON.  Wrappers are provided for many of the factory methods that the time package offers.'',
      Type (OpenAPISchemaType lib ''metav1.Time''),
      Format (OpenAPISchemaFormat lib ''metav1.Time'')],
     Dependencies = []\<rparr>"

definition schema_apimachinery_pkg_util_intstr_IntOrString :: "openapi_lib \<Rightarrow> (string \<Rightarrow> 'r) \<Rightarrow> 'r openapi_definition" where
  "schema_apimachinery_pkg_util_intstr_IntOrString lib ref =
    \<lparr>defSchema = Schema [Description ''IntOrString is a type that can hold an int32 or a string.  When used in JSON or YAML marshalling and unmarshalling, it produces or consumes the inner type.  This allows you to have, for example, a JSON field that can accept a name or number.'',
      Type (OpenAPISchemaType lib ''intstr.IntOrString''),
      Format (OpenAPISchemaFormat lib ''intstr.IntOrString'')],
     Dependencies = []\<rparr>"

text \<open>Every definition here is consistent.\<close>

lemma openapi_meta_ok_1:
  "definition_ok ref (schema_apimachinery_pkg_api_resource_Quantity lib ref)"
  "definition_ok ref (schema_pkg_apis_meta_v1_FieldsV1 ref)"
  "definition_ok ref (schema_pkg_apis_meta_v1_LabelSelector ref)"
  "definition_ok ref (schema_pkg_apis_meta_v1_LabelSelectorRequirement ref)"
  "definition_ok ref (schema_pkg_apis_meta_v1_ManagedFieldsEntry ref)"
  "definition_ok ref (schema_pkg_apis_meta_v1_ObjectMeta ref)"
  "definition_ok ref (schema_pkg_apis_meta_v1_OwnerReference ref)"
  "definition_ok ref (schema_pkg_apis_meta_v1_Time lib ref)"
  unfolding definition_ok_def
  by (simp_all add:
        schema_apimachinery_pkg_api_resource_Quantity_def
        schema_pkg_apis_meta_v1_FieldsV1_def
        schema_pkg_apis_meta_v1_LabelSelector_def
        schema_pkg_apis_meta_v1_LabelSelectorRequirement_def
        schema_pkg_apis_meta_v1_ManagedFieldsEntry_def
        schema_pkg_apis_meta_v1_ObjectMeta_def
        schema_pkg_apis_meta_v1_OwnerReference_def
        schema_pkg_apis_meta_v1_Time_def)

lemma openapi_meta_ok_2:
  "definition_ok ref (schema_apimachinery_pkg_util_intstr_IntOrString lib ref)"
  unfolding definition_ok_def
  by (simp_all add:
        schema_apimachinery_pkg_util_intstr_IntOrString_def)

lemmas openapi_meta_ok =
  openapi_meta_ok_1
  openapi_meta_ok_2

end
