(* ===== verification/OpenAPI_Node.thy ===== *)
theory OpenAPI_Node
  imports OpenAPI
begin

text \<open>
  The definitions of \<open>zz_generated.openapi.go\<close> for nodes and bindings, and what they consist of.
\<close>

definition schema_k8sio_api_core_v1_AttachedVolume :: "(string \<Rightarrow> 'r) \<Rightarrow> 'r openapi_definition" where
  "schema_k8sio_api_core_v1_AttachedVolume ref =
    \<lparr>defSchema = Schema [Description ''AttachedVolume describes a volume attached to a node'',
      Type [''object''],
      Properties [
      (''name'', Schema [Description ''Name of the attached volume'',
          Default (JString ''''),
          Type [''string''],
          Format '''']),
      (''devicePath'', Schema [Description ''DevicePath represents the device path where the volume should be available'',
          Default (JString ''''),
          Type [''string''],
          Format ''''])],
      Required [''name'', ''devicePath'']],
     Dependencies = []\<rparr>"

definition schema_k8sio_api_core_v1_Binding :: "(string \<Rightarrow> 'r) \<Rightarrow> 'r openapi_definition" where
  "schema_k8sio_api_core_v1_Binding ref =
    \<lparr>defSchema = Schema [Description ''Binding ties one object to another; for example, a pod is bound to a node by a scheduler. Deprecated in 1.7, please use the bindings subresource of pods instead.'',
      Type [''object''],
      Properties [
      (''kind'', Schema [Description ''Kind is a string value representing the REST resource this object represents. Servers may infer this from the endpoint the client submits requests to. Cannot be updated. In CamelCase. More info: https://git.k8s.io/community/contributors/devel/sig-architecture/api-conventions.md#types-kinds'',
          Type [''string''],
          Format '''']),
      (''apiVersion'', Schema [Description ''APIVersion defines the versioned schema of this representation of an object. Servers should convert recognized schemas to the latest internal value, and may reject unrecognized values. More info: https://git.k8s.io/community/contributors/devel/sig-architecture/api-conventions.md#resources'',
          Type [''string''],
          Format '''']),
      (''metadata'', Schema [Description ''Standard object's metadata. More info: https://git.k8s.io/community/contributors/devel/sig-architecture/api-conventions.md#metadata'',
          Default (JObject []),
          Ref (ref ''k8s.io/apimachinery/pkg/apis/meta/v1.ObjectMeta'')]),
      (''target'', Schema [Description ''The target object that you want to bind to the standard object.'',
          Default (JObject []),
          Ref (ref ''k8s.io/api/core/v1.ObjectReference'')])],
      Required [''target'']],
     Dependencies = [''k8s.io/api/core/v1.ObjectReference'',
     ''k8s.io/apimachinery/pkg/apis/meta/v1.ObjectMeta'']\<rparr>"

definition schema_k8sio_api_core_v1_ConfigMapNodeConfigSource :: "(string \<Rightarrow> 'r) \<Rightarrow> 'r openapi_definition" where
  "schema_k8sio_api_core_v1_ConfigMapNodeConfigSource ref =
    \<lparr>defSchema = Schema [Description ''ConfigMapNodeConfigSource contains the information to reference a ConfigMap as a config source for the Node. This API is deprecated since 1.22: https://git.k8s.io/enhancements/keps/sig-node/281-dynamic-kubelet-configuration'',
      Type [''object''],
      Properties [
      (''namespace'', Schema [Description ''Namespace is the metadata.namespace of the referenced ConfigMap. This field is required in all cases.'',
          Default (JString ''''),
          Type [''string''],
          Format '''']),
      (''name'', Schema [Description ''Name is the metadata.name of the referenced ConfigMap. This field is required in all cases.'',
          Default (JString ''''),
          Type [''string''],
          Format '''']),
      (''uid'', Schema [Description ''UID is the metadata.UID of the referenced ConfigMap. This field is forbidden in Node.Spec, and required in Node.Status.'',
          Type [''string''],
          Format '''']),
      (''resourceVersion'', Schema [Description ''ResourceVersion is the metadata.ResourceVersion of the referenced ConfigMap. This field is forbidden in Node.Spec, and required in Node.Status.'',
          Type [''string''],
          Format '''']),
      (''kubeletConfigKey'', Schema [Description ''KubeletConfigKey declares which key of the referenced ConfigMap corresponds to the KubeletConfiguration structure This field is required in all cases.'',
          Default (JString ''''),
          Type [''string''],
          Format ''''])],
      Required [''namespace'', ''name'', ''kubeletConfigKey'']],
     Dependencies = []\<rparr>"

definition schema_k8sio_api_core_v1_ContainerImage :: "(string \<Rightarrow> 'r) \<Rightarrow> 'r openapi_definition" where
  "schema_k8sio_api_core_v1_ContainerImage ref =
    \<lparr>defSchema = Schema [Description ''Describe a container image'',
      Type [''object''],
      Properties [
      (''names'', Schema [Description ''Names by which this image is known. e.g. [\"k8s.gcr.io/hyperkube:v1.0.7\", \"dockerhub.io/google_containers/hyperkube:v1.0.7\"]'',
          Type [''array''],
          Items (Schema [Default (JString ''''),
            Type [''string''],
            Format ''''])]),
      (''sizeBytes'', Schema [Description ''The size of the image in bytes.'',
          Type [''integer''],
          Format ''int64''])]],
     Dependencies = []\<rparr>"

definition schema_k8sio_api_core_v1_DaemonEndpoint :: "(string \<Rightarrow> 'r) \<Rightarrow> 'r openapi_definition" where
  "schema_k8sio_api_core_v1_DaemonEndpoint ref =
    \<lparr>defSchema = Schema [Description ''DaemonEndpoint contains information about a single Daemon endpoint.'',
      Type [''object''],
      Properties [
      (''Port'', Schema [Description ''Port number of the given endpoint.'',
          Default (JNumber 0),
          Type [''integer''],
          Format ''int32''])],
      Required [''Port'']],
     Dependencies = []\<rparr>"

definition schema_k8sio_api_core_v1_Node :: "(string \<Rightarrow> 'r) \<Rightarrow> 'r openapi_definition" where
  "schema_k8sio_api_core_v1_Node ref =
    \<lparr>defSchema = Schema [Description ''Node is a worker node in Kubernetes. Each node will have a unique identifier in the cache (i.e. in etcd).'',
      Type [''object''],
      Properties [
      (''kind'', Schema [Description ''Kind is a string value representing the REST resource this object represents. Servers may infer this from the endpoint the client submits requests to. Cannot be updated. In CamelCase. More info: https://git.k8s.io/community/contributors/devel/sig-architecture/api-conventions.md#types-kinds'',
          Type [''string''],
          Format '''']),
      (''apiVersion'', Schema [Description ''APIVersion defines the versioned schema of this representation of an object. Servers should convert recognized schemas to the latest internal value, and may reject unrecognized values. More info: https://git.k8s.io/community/contributors/devel/sig-architecture/api-conventions.md#resources'',
          Type [''string''],
          Format '''']),
      (''metadata'', Schema [Description ''Standard object's metadata. More info: https://git.k8s.io/community/contributors/devel/sig-architecture/api-conventions.md#metadata'',
          Default (JObject []),
          Ref (ref ''k8s.io/apimachinery/pkg/apis/meta/v1.ObjectMeta'')]),
      (''spec'', Schema [Description ''Spec defines the behavior of a node. https://git.k8s.io/community/contributors/devel/sig-architecture/api-conventions.md#spec-and-status'',
          Default (JObject []),
          Ref (ref ''k8s.io/api/core/v1.NodeSpec'')]),
      (''status'', Schema [Description ''Most recently observed status of the node. Populated by the system. Read-only. More info: https://git.k8s.io/community/contributors/devel/sig-architecture/api-conventions.md#spec-and-status'',
          Default (JObject []),
          Ref (ref ''k8s.io/api/core/v1.NodeStatus'')])]],
     Dependencies = [''k8s.io/api/core/v1.NodeSpec'',
     ''k8s.io/api/core/v1.NodeStatus'',
     ''k8s.io/apimachinery/pkg/apis/meta/v1.ObjectMeta'']\<rparr>"

definition schema_k8sio_api_core_v1_NodeAddress :: "(string \<Rightarrow> 'r) \<Rightarrow> 'r openapi_definition" where
  "schema_k8sio_api_core_v1_NodeAddress ref =
    \<lparr>defSchema = Schema [Description ''NodeAddress contains information for the node's address.'',
      Type [''object''],
      Properties [
      (''type'', Schema [Description ''Node address type, one of Hostname, ExternalIP or InternalIP.'',
          Default (JString ''''),
          Type [''string''],
          Format '''']),
      (''address'', Schema [Description ''The node address.'',
          Default (JString ''''),
          Type [''string''],
          Format ''''])],
      Required [''type'', ''address'']],
     Dependencies = []\<rparr>"

definition schema_k8sio_api_core_v1_NodeCondition :: "(string \<Rightarrow> 'r) \<Rightarrow> 'r openapi_definition" where
  "schema_k8sio_api_core_v1_NodeCondition ref =
    \<lparr>defSchema = Schema [Description ''NodeCondition contains condition information for a node.'',
      Type [''object''],
      Properties [
      (''type'', Schema [Description ''Type of node condition.'',
          Default (JString ''''),
          Type [''string''],
          Format '''']),
      (''status'', Schema [Description ''Status of the condition, one of True, False, Unknown.'',
          Default (JString ''''),
          Type [''string''],
          Format '''']),
      (''lastHeartbeatTime'', Schema [Description ''Last time we got an update on a given condition.'',
          Default (JObject []),
          Ref (ref ''k8s.io/apimachinery/pkg/apis/meta/v1.Time'')]),
      (''lastTransitionTime'', Schema [Description ''Last time the condition transit from one status to another.'',
          Default (JObject []),
          Ref (ref ''k8s.io/apimachinery/pkg/apis/meta/v1.Time'')]),
      (''reason'', Schema [Description ''(brief) reason for the condition's last transition.'',
          Type [''string''],
          Format '''']),
      (''message'', Schema [Description ''Human readable message indicating details about last transition.'',
          Type [''string''],
          Format ''''])],
      Required [''type'', ''status'']],
     Dependencies = [''k8s.io/apimachinery/pkg/apis/meta/v1.Time'']\<rparr>"

definition schema_k8sio_api_core_v1_NodeConfigSource :: "(string \<Rightarrow> 'r) \<Rightarrow> 'r openapi_definition" where
  "schema_k8sio_api_core_v1_NodeConfigSource ref =
    \<lparr>defSchema = Schema [Description ''NodeConfigSource specifies a source of node configuration. Exactly one subfield (excluding metadata) must be non-nil. This API is deprecated since 1.22'',
      Type [''object''],
      Properties [
      (''configMap'', Schema [Description ''ConfigMap is a reference to a Node's ConfigMap'',
          Ref (ref ''k8s.io/api/core/v1.ConfigMapNodeConfigSource'')])]],
     Dependencies = [''k8s.io/api/core/v1.ConfigMapNodeConfigSource'']\<rparr>"

definition schema_k8sio_api_core_v1_NodeConfigStatus :: "(string \<Rightarrow> 'r) \<Rightarrow> 'r openapi_definition" where
  "schema_k8sio_api_core_v1_NodeConfigStatus ref =
    \<lparr>defSchema = Schema [Description ''NodeConfigStatus describes the status of the config assigned by Node.Spec.ConfigSource.'',
      Type [''object''],
      Properties [
      (''assigned'', Schema [Description ''Assigned reports the checkpointed config the node will try to use. When Node.Spec.ConfigSource is updated, the node checkpoints the associated config payload to local disk, along with a record indicating intended config. The node refers to this record to choose its config checkpoint, and reports this record in Assigned. Assigned only updates in the status after the record has been checkpointed to disk. When the Kubelet is restarted, it tries to make the Assigned config the Active config by loading and validating the checkpointed payload identified by Assigned.'',
          Ref (ref ''k8s.io/api/core/v1.NodeConfigSource'')]),
      (''active'', Schema [Description ''Active reports the checkpointed config the node is actively using. Active will represent either the current version of the Assigned config, or the current LastKnownGood config, depending on whether attempting to use the Assigned config results in an error.'',
          Ref (ref ''k8s.io/api/core/v1.NodeConfigSource'')]),
      (''lastKnownGood'', Schema [Description ''LastKnownGood reports the checkpointed config the node will fall back to when it encounters an error attempting to use the Assigned config. The Assigned config becomes the LastKnownGood config when the node determines that the Assigned config is stable and correct. This is currently implemented as a 10-minute soak period starting when the local record of Assigned config is updated. If the Assigned config is Active at the end of this period, it becomes the LastKnownGood. Note that if Spec.ConfigSource is reset to nil (use local defaults), the LastKnownGood is also immediately reset to nil, because the local default config is always assumed good. You should not make assumptions about the node's method of determining config stability and correctness, as this may change or become configurable in the future.'',
          Ref (ref ''k8s.io/api/core/v1.NodeConfigSource'')]),
      (''error'', Schema [Description ''Error describes any problems reconciling the Spec.ConfigSource to the Active config. Errors may occur, for example, attempting to checkpoint Spec.ConfigSource to the local Assigned record, attempting to checkpoint the payload associated with Spec.ConfigSource, attempting to load or validate the Assigned config, etc. Errors may occur at different points while syncing config. Earlier errors (e.g. download or checkpointing errors) will not result in a rollback to LastKnownGood, and may resolve across Kubelet retries. Later errors (e.g. loading or validating a checkpointed config) will result in a rollback to LastKnownGood. In the latter case, it is usually possible to resolve the error by fixing the config assigned in Spec.ConfigSource. You can find additional information for debugging by searching the error message in the Kubelet log. Error is a human-readable description of the error state; machines can check whether or not Error is empty, but should not rely on the stability of the Error text across Kubelet versions.'',
          Type [''string''],
          Format ''''])]],
     Dependencies = [''k8s.io/api/core/v1.NodeConfigSource'']\<rparr>"

definition schema_k8sio_api_core_v1_NodeDaemonEndpoints :: "(string \<Rightarrow> 'r) \<Rightarrow> 'r openapi_definition" where
  "schema_k8sio_api_core_v1_NodeDaemonEndpoints ref =
    \<lparr>defSchema = Schema [Description ''NodeDaemonEndpoints lists ports opened by daemons running on the Node.'',
      Type [''object''],
      Properties [
      (''kubeletEndpoint'', Schema [Description ''Endpoint on which Kubelet is listening.'',
          Default (JObject []),
          Ref (ref ''k8s.io/api/core/v1.DaemonEndpoint'')])]],
     Dependencies = [''k8s.io/api/core/v1.DaemonEndpoint'']\<rparr>"

definition schema_k8sio_api_core_v1_NodeSpec :: "(string \<Rightarrow> 'r) \<Rightarrow> 'r openapi_definition" where
  "schema_k8sio_api_core_v1_NodeSpec ref =
    \<lparr>defSchema = Schema [Description ''NodeSpec describes the attributes that a node is created with.'',
      Type [''object''],
      Properties [
      (''podCIDR'', Schema [Description ''PodCIDR represents the pod IP range assigned to the node.'',
          Type [''string''],
          Format '''']),
      (''podCIDRs'', Schema [Extensions [(''x-kubernetes-patch-strategy'', JString ''merge'')],
          Description ''podCIDRs represents the IP ranges assigned to the node for usage by Pods on that node. If this field is specified, the 0th entry must match the podCIDR field. It may contain at most 1 value for each of IPv4 and IPv6.'',
          Type [''array''],
          Items (Schema [Default (JString ''''),
            Type [''string''],
            Format ''''])]),
      (''providerID'', Schema [Description ''ID of the node assigned by the cloud provider in the format: <ProviderName>://<ProviderSpecificNodeID>'',
          Type [''string''],
          Format '''']),
      (''unschedulable'', Schema [Description ''Unschedulable controls node schedulability of new pods. By default, node is schedulable. More info: https://kubernetes.io/docs/concepts/nodes/node/#manual-node-administration'',
          Type [''boolean''],
          Format '''']),
      (''taints'', Schema [Description ''If specified, the node's taints.'',
          Type [''array''],
          Items (Schema [Default (JObject []),
            Ref (ref ''k8s.io/api/core/v1.Taint'')])]),
      (''configSource'', Schema [Description ''Deprecated. If specified, the source of the node's configuration. The DynamicKubeletConfig feature gate must be enabled for the Kubelet to use this field. This field is deprecated as of 1.22: https://git.k8s.io/enhancements/keps/sig-node/281-dynamic-kubelet-configuration'',
          Ref (ref ''k8s.io/api/core/v1.NodeConfigSource'')]),
      (''externalID'', Schema [Description ''Deprecated. Not all kubelets will set this field. Remove field after 1.13. see: https://issues.k8s.io/61966'',
          Type [''string''],
          Format ''''])]],
     Dependencies = [''k8s.io/api/core/v1.NodeConfigSource'',
     ''k8s.io/api/core/v1.Taint'']\<rparr>"

definition schema_k8sio_api_core_v1_NodeStatus :: "(string \<Rightarrow> 'r) \<Rightarrow> 'r openapi_definition" where
  "schema_k8sio_api_core_v1_NodeStatus ref =
    \<lparr>defSchema = Schema [Description ''NodeStatus is information about the current status of a node.'',
      Type [''object''],
      Properties [
      (''capacity'', Schema [Description ''Capacity represents the total resources of a node. More info: https://kubernetes.io/docs/concepts/storage/persistent-volumes#capacity'',
          Type [''object''],
          AdditionalProperties True (Schema [Default (JObject []),
            Ref (ref ''k8s.io/apimachinery/pkg/api/resource.Quantity'')])]),
      (''allocatable'', Schema [Description ''Allocatable represents the resources of a node that are available for scheduling. Defaults to Capacity.'',
          Type [''object''],
          AdditionalProperties True (Schema [Default (JObject []),
            Ref (ref ''k8s.io/apimachinery/pkg/api/resource.Quantity'')])]),
      (''phase'', Schema [Description ''NodePhase is the recently observed lifecycle phase of the node. More info: https://kubernetes.io/docs/concepts/nodes/node/#phase The field is never populated, and now is deprecated.'',
          Type [''string''],
          Format '''']),
      (''conditions'', Schema [Extensions [(''x-kubernetes-patch-merge-key'', JString ''type''), (''x-kubernetes-patch-strategy'', JString ''merge'')],
          Description ''Conditions is an array of current observed node conditions. More info: https://kubernetes.io/docs/concepts/nodes/node/#condition'',
          Type [''array''],
          Items (Schema [Default (JObject []),
            Ref (ref ''k8s.io/api/core/v1.NodeCondition'')])]),
      (''addresses'', Schema [Extensions [(''x-kubernetes-patch-merge-key'', JString ''type''), (''x-kubernetes-patch-strategy'', JString ''merge'')],
          Description ''List of addresses reachable to the node. Queried from cloud provider, if available. More info: https://kubernetes.io/docs/concepts/nodes/node/#addresses Note: This field is declared as mergeable, but the merge key is not sufficiently unique, which can cause data corruption when it is merged. Callers should instead use a full-replacement patch. See http://pr.k8s.io/79391 for an example.'',
          Type [''array''],
          Items (Schema [Default (JObject []),
            Ref (ref ''k8s.io/api/core/v1.NodeAddress'')])]),
      (''daemonEndpoints'', Schema [Description ''Endpoints of daemons running on the Node.'',
          Default (JObject []),
          Ref (ref ''k8s.io/api/core/v1.NodeDaemonEndpoints'')]),
      (''nodeInfo'', Schema [Description ''Set of ids/uuids to uniquely identify the node. More info: https://kubernetes.io/docs/concepts/nodes/node/#info'',
          Default (JObject []),
          Ref (ref ''k8s.io/api/core/v1.NodeSystemInfo'')]),
      (''images'', Schema [Description ''List of container images on this node'',
          Type [''array''],
          Items (Schema [Default (JObject []),
            Ref (ref ''k8s.io/api/core/v1.ContainerImage'')])]),
      (''volumesInUse'', Schema [Description ''List of attachable volumes in use (mounted) by the node.'',
          Type [''array''],
          Items (Schema [Default (JString ''''),
            Type [''string''],
            Format ''''])]),
      (''volumesAttached'', Schema [Description ''List of volumes that are attached to the node.'',
          Type [''array''],
          Items (Schema [Default (JObject []),
            Ref (ref ''k8s.io/api/core/v1.AttachedVolume'')])]),
      (''config'', Schema [Description ''Status of the config assigned to the node via the dynamic Kubelet config feature.'',
          Ref (ref ''k8s.io/api/core/v1.NodeConfigStatus'')])]],
     Dependencies = [''k8s.io/api/core/v1.AttachedVolume'',
     ''k8s.io/api/core/v1.ContainerImage'',
     ''k8s.io/api/core/v1.NodeAddress'',
     ''k8s.io/api/core/v1.NodeCondition'',
     ''k8s.io/api/core/v1.NodeConfigStatus'',
     ''k8s.io/api/core/v1.NodeDaemonEndpoints'',
     ''k8s.io/api/core/v1.NodeSystemInfo'',
     ''k8s.io/apimachinery/pkg/api/resource.Quantity'']\<rparr>"

definition schema_k8sio_api_core_v1_NodeSystemInfo :: "(string \<Rightarrow> 'r) \<Rightarrow> 'r openapi_definition" where
  "schema_k8sio_api_core_v1_NodeSystemInfo ref =
    \<lparr>defSchema = Schema [Description ''NodeSystemInfo is a set of ids/uuids to uniquely identify the node.'',
      Type [''object''],
      Properties [
      (''machineID'', Schema [Description ''MachineID reported by the node. For unique machine identification in the cluster this field is preferred. Learn more from man(5) machine-id: http://man7.org/linux/man-pages/man5/machine-id.5.html'',
          Default (JString ''''),
          Type [''string''],
          Format '''']),
      (''systemUUID'', Schema [Description ''SystemUUID reported by the node. For unique machine identification MachineID is preferred. This field is specific to Red Hat hosts https://access.redhat.com/documentation/en-us/red_hat_subscription_management/1/html/rhsm/uuid'',
          Default (JString ''''),
          Type [''string''],
          Format '''']),
      (''bootID'', Schema [Description ''Boot ID reported by the node.'',
          Default (JString ''''),
          Type [''string''],
          Format '''']),
      (''kernelVersion'', Schema [Description ''Kernel Version reported by the node from 'uname -r' (e.g. 3.16.0-0.bpo.4-amd64).'',
          Default (JString ''''),
          Type [''string''],
          Format '''']),
      (''osImage'', Schema [Description ''OS Image reported by the node from /etc/os-release (e.g. Debian GNU/Linux 7 (wheezy)).'',
          Default (JString ''''),
          Type [''string''],
          Format '''']),
      (''containerRuntimeVersion'', Schema [Description ''ContainerRuntime Version reported by the node through runtime remote API (e.g. docker://1.5.0).'',
          Default (JString ''''),
          Type [''string''],
          Format '''']),
      (''kubeletVersion'', Schema [Description ''Kubelet Version reported by the node.'',
          Default (JString ''''),
          Type [''string''],
          Format '''']),
      (''kubeProxyVersion'', Schema [Description ''KubeProxy Version reported by the node.'',
          Default (JString ''''),
          Type [''string''],
          Format '''']),
      (''operatingSystem'', Schema [Description ''The Operating System reported by the node'',
          Default (JString ''''),
          Type [''string''],
          Format '''']),
      (''architecture'', Schema [Description ''The Architecture reported by the node'',
          Default (JString ''''),
          Type [''string''],
          Format ''''])],
      Required [''machineID'', ''systemUUID'', ''bootID'', ''kernelVersion'', ''osImage'', ''containerRuntimeVersion'', ''kubeletVersion'', ''kubeProxyVersion'', ''operatingSystem'', ''architecture'']],
     Dependencies = []\<rparr>"

definition schema_k8sio_api_core_v1_ObjectReference :: "(string \<Rightarrow> 'r) \<Rightarrow> 'r openapi_definition" where
  "schema_k8sio_api_core_v1_ObjectReference ref =
    \<lparr>defSchema = Schema [Description ''ObjectReference contains enough information to let you inspect or modify the referred object.'',
      Type [''object''],
      Properties [
      (''kind'', Schema [Description ''Kind of the referent. More info: https://git.k8s.io/community/contributors/devel/sig-architecture/api-conventions.md#types-kinds'',
          Type [''string''],
          Format '''']),
      (''namespace'', Schema [Description ''Namespace of the referent. More info: https://kubernetes.io/docs/concepts/overview/working-with-objects/namespaces/'',
          Type [''string''],
          Format '''']),
      (''name'', Schema [Description ''Name of the referent. More info: https://kubernetes.io/docs/concepts/overview/working-with-objects/names/#names'',
          Type [''string''],
          Format '''']),
      (''uid'', Schema [Description ''UID of the referent. More info: https://kubernetes.io/docs/concepts/overview/working-with-objects/names/#uids'',
          Type [''string''],
          Format '''']),
      (''apiVersion'', Schema [Description ''API version of the referent.'',
          Type [''string''],
          Format '''']),
      (''resourceVersion'', Schema [Description ''Specific resourceVersion to which this reference is made, if any. More info: https://git.k8s.io/community/contributors/devel/sig-architecture/api-conventions.md#concurrency-control-and-consistency'',
          Type [''string''],
          Format '''']),
      (''fieldPath'', Schema [Description ''If referring to a piece of an object instead of an entire object, this string should contain a valid JSON/Go field access statement, such as desiredState.manifest.containers[2]. For example, if the object reference is to a container within a pod, this would take on a value like: \"spec.containers{name}\" (where \"name\" refers to the name of the container that triggered the event) or if no container name is specified \"spec.containers[2]\" (container with index 2 in this pod). This syntax is chosen only to have some well-defined way of referencing a part of an object.'',
          Type [''string''],
          Format ''''])],
      Extensions [(''x-kubernetes-map-type'', JString ''atomic'')]],
     Dependencies = []\<rparr>"

definition schema_k8sio_api_core_v1_Taint :: "(string \<Rightarrow> 'r) \<Rightarrow> 'r openapi_definition" where
  "schema_k8sio_api_core_v1_Taint ref =
    \<lparr>defSchema = Schema [Description ''The node this Taint is attached to has the \"effect\" on any pod that does not tolerate the Taint.'',
      Type [''object''],
      Properties [
      (''key'', Schema [Description ''Required. The taint key to be applied to a node.'',
          Default (JString ''''),
          Type [''string''],
          Format '''']),
      (''value'', Schema [Description ''The taint value corresponding to the taint key.'',
          Type [''string''],
          Format '''']),
      (''effect'', Schema [Description ''Required. The effect of the taint on pods that do not tolerate the taint. Valid effects are NoSchedule, PreferNoSchedule and NoExecute.'',
          Default (JString ''''),
          Type [''string''],
          Format '''']),
      (''timeAdded'', Schema [Description ''TimeAdded represents the time at which the taint was added. It is only written for NoExecute taints.'',
          Ref (ref ''k8s.io/apimachinery/pkg/apis/meta/v1.Time'')])],
      Required [''key'', ''effect'']],
     Dependencies = [''k8s.io/apimachinery/pkg/apis/meta/v1.Time'']\<rparr>"

text \<open>Every definition here is consistent.\<close>

lemma openapi_node_ok_1:
  "definition_ok ref (schema_k8sio_api_core_v1_AttachedVolume ref)"
  "definition_ok ref (schema_k8sio_api_core_v1_Binding ref)"
  "definition_ok ref (schema_k8sio_api_core_v1_ConfigMapNodeConfigSource ref)"
  "definition_ok ref (schema_k8sio_api_core_v1_ContainerImage ref)"
  "definition_ok ref (schema_k8sio_api_core_v1_DaemonEndpoint ref)"
  "definition_ok ref (schema_k8sio_api_core_v1_Node ref)"
  "definition_ok ref (schema_k8sio_api_core_v1_NodeAddress ref)"
  "definition_ok ref (schema_k8sio_api_core_v1_NodeCondition ref)"
  unfolding definition_ok_def
  by (simp_all add:
        schema_k8sio_api_core_v1_AttachedVolume_def
        schema_k8sio_api_core_v1_Binding_def
        schema_k8sio_api_core_v1_ConfigMapNodeConfigSource_def
        schema_k8sio_api_core_v1_ContainerImage_def
        schema_k8sio_api_core_v1_DaemonEndpoint_def
        schema_k8sio_api_core_v1_Node_def
        schema_k8sio_api_core_v1_NodeAddress_def
        schema_k8sio_api_core_v1_NodeCondition_def)

lemma openapi_node_ok_2:
  "definition_ok ref (schema_k8sio_api_core_v1_NodeConfigSource ref)"
  "definition_ok ref (schema_k8sio_api_core_v1_NodeConfigStatus ref)"
  "definition_ok ref (schema_k8sio_api_core_v1_NodeDaemonEndpoints ref)"
  "definition_ok ref (schema_k8sio_api_core_v1_NodeSpec ref)"
  "definition_ok ref (schema_k8sio_api_core_v1_NodeStatus ref)"
  "definition_ok ref (schema_k8sio_api_core_v1_NodeSystemInfo ref)"
  "definition_ok ref (schema_k8sio_api_core_v1_ObjectReference ref)"
  "definition_ok ref (schema_k8sio_api_core_v1_Taint ref)"
  unfolding definition_ok_def
  by (simp_all add:
        schema_k8sio_api_core_v1_NodeConfigSource_def
        schema_k8sio_api_core_v1_NodeConfigStatus_def
        schema_k8sio_api_core_v1_NodeDaemonEndpoints_def
        schema_k8sio_api_core_v1_NodeSpec_def
        schema_k8sio_api_core_v1_NodeStatus_def
        schema_k8sio_api_core_v1_NodeSystemInfo_def
        schema_k8sio_api_core_v1_ObjectReference_def
        schema_k8sio_api_core_v1_Taint_def)

lemmas openapi_node_ok =
  openapi_node_ok_1
  openapi_node_ok_2

end
