(* ===== verification/OpenAPI_Volume.thy ===== *)
theory OpenAPI_Volume
  imports OpenAPI
begin

text \<open>
  The definitions of \<open>zz_generated.openapi.go\<close> for the volumes of a pod.
\<close>

definition schema_k8sio_api_core_v1_AWSElasticBlockStoreVolumeSource :: "(string \<Rightarrow> 'r) \<Rightarrow> 'r openapi_definition" where
  "schema_k8sio_api_core_v1_AWSElasticBlockStoreVolumeSource ref =
    \<lparr>defSchema = Schema [Description (''Represents a Persistent Disk resource in AWS.'' @ [CHR 0x0A, CHR 0x0A] @ ''An AWS EBS disk must exist before mounting to a container. The disk must also be in the same AWS zone as the kubelet. An AWS EBS disk can only be mounted as read/write once. AWS EBS volumes support ownership management and SELinux relabeling.''),
      Type [''object''],
      Properties [
      (''volumeID'', Schema [Description ''Unique ID of the persistent disk resource in AWS (Amazon EBS volume). More info: https://kubernetes.io/docs/concepts/storage/volumes#awselasticblockstore'',
          Default (JString ''''),
          Type [''string''],
          Format '''']),
      (''fsType'', Schema [Description ''Filesystem type of the volume that you want to mount. Tip: Ensure that the filesystem type is supported by the host operating system. Examples: \"ext4\", \"xfs\", \"ntfs\". Implicitly inferred to be \"ext4\" if unspecified. More info: https://kubernetes.io/docs/concepts/storage/volumes#awselasticblockstore'',
          Type [''string''],
          Format '''']),
      (''partition'', Schema [Description ''The partition in the volume that you want to mount. If omitted, the default is to mount by volume name. Examples: For volume /dev/sda1, you specify the partition as \"1\". Similarly, the volume partition for /dev/sda is \"0\" (or you can leave the property empty).'',
          Type [''integer''],
          Format ''int32'']),
      (''readOnly'', Schema [Description ''Specify \"true\" to force and set the ReadOnly property in VolumeMounts to \"true\". If omitted, the default is \"false\". More info: https://kubernetes.io/docs/concepts/storage/volumes#awselasticblockstore'',
          Type [''boolean''],
          Format ''''])],
      Required [''volumeID'']],
     Dependencies = []\<rparr>"

definition schema_k8sio_api_core_v1_AzureDiskVolumeSource :: "(string \<Rightarrow> 'r) \<Rightarrow> 'r openapi_definition" where
  "schema_k8sio_api_core_v1_AzureDiskVolumeSource ref =
    \<lparr>defSchema = Schema [Description ''AzureDisk represents an Azure Data Disk mount on the host and bind mount to the pod.'',
      Type [''object''],
      Properties [
      (''diskName'', Schema [Description ''The Name of the data disk in the blob storage'',
          Default (JString ''''),
          Type [''string''],
          Format '''']),
      (''diskURI'', Schema [Description ''The URI the data disk in the blob storage'',
          Default (JString ''''),
          Type [''string''],
          Format '''']),
      (''cachingMode'', Schema [Description ''Host Caching mode: None, Read Only, Read Write.'',
          Type [''string''],
          Format '''']),
      (''fsType'', Schema [Description ''Filesystem type to mount. Must be a filesystem type supported by the host operating system. Ex. \"ext4\", \"xfs\", \"ntfs\". Implicitly inferred to be \"ext4\" if unspecified.'',
          Type [''string''],
          Format '''']),
      (''readOnly'', Schema [Description ''Defaults to false (read/write). ReadOnly here will force the ReadOnly setting in VolumeMounts.'',
          Type [''boolean''],
          Format '''']),
      (''kind'', Schema [Description ''Expected values Shared: multiple blob disks per storage account  Dedicated: single blob disk per storage account  Managed: azure managed data disk (only in managed availability set). defaults to shared'',
          Type [''string''],
          Format ''''])],
      Required [''diskName'', ''diskURI'']],
     Dependencies = []\<rparr>"

definition schema_k8sio_api_core_v1_AzureFileVolumeSource :: "(string \<Rightarrow> 'r) \<Rightarrow> 'r openapi_definition" where
  "schema_k8sio_api_core_v1_AzureFileVolumeSource ref =
    \<lparr>defSchema = Schema [Description ''AzureFile represents an Azure File Service mount on the host and bind mount to the pod.'',
      Type [''object''],
      Properties [
      (''secretName'', Schema [Description ''the name of secret that contains Azure Storage Account Name and Key'',
          Default (JString ''''),
          Type [''string''],
          Format '''']),
      (''shareName'', Schema [Description ''Share Name'',
          Default (JString ''''),
          Type [''string''],
          Format '''']),
      (''readOnly'', Schema [Description ''Defaults to false (read/write). ReadOnly here will force the ReadOnly setting in VolumeMounts.'',
          Type [''boolean''],
          Format ''''])],
      Required [''secretName'', ''shareName'']],
     Dependencies = []\<rparr>"

definition schema_k8sio_api_core_v1_CSIVolumeSource :: "(string \<Rightarrow> 'r) \<Rightarrow> 'r openapi_definition" where
  "schema_k8sio_api_core_v1_CSIVolumeSource ref =
    \<lparr>defSchema = Schema [Description ''Represents a source location of a volume to mount, managed by an external CSI driver'',
      Type [''object''],
      Properties [
      (''driver'', Schema [Description ''Driver is the name of the CSI driver that handles this volume. Consult with your admin for the correct name as registered in the cluster.'',
          Default (JString ''''),
          Type [''string''],
          Format '''']),
      (''readOnly'', Schema [Description ''Specifies a read-only configuration for the volume. Defaults to false (read/write).'',
          Type [''boolean''],
          Format '''']),
      (''fsType'', Schema [Description ''Filesystem type to mount. Ex. \"ext4\", \"xfs\", \"ntfs\". If not provided, the empty value is passed to the associated CSI driver which will determine the default filesystem to apply.'',
          Type [''string''],
          Format '''']),
      (''volumeAttributes'', Schema [Description ''VolumeAttributes stores driver-specific properties that are passed to the CSI driver. Consult your driver's documentation for supported values.'',
          Type [''object''],
          AdditionalProperties True (Schema [Default (JString ''''),
            Type [''string''],
            Format ''''])]),
      (''nodePublishSecretRef'', Schema [Description ''NodePublishSecretRef is a reference to the secret object containing sensitive information to pass to the CSI driver to complete the CSI NodePublishVolume and NodeUnpublishVolume calls. This field is optional, and  may be empty if no secret is required. If the secret object contains more than one secret, all secret references are passed.'',
          Ref (ref ''k8s.io/api/core/v1.LocalObjectReference'')])],
      Required [''driver'']],
     Dependencies = [''k8s.io/api/core/v1.LocalObjectReference'']\<rparr>"

definition schema_k8sio_api_core_v1_CephFSVolumeSource :: "(string \<Rightarrow> 'r) \<Rightarrow> 'r openapi_definition" where
  "schema_k8sio_api_core_v1_CephFSVolumeSource ref =
    \<lparr>defSchema = Schema [Description ''Represents a Ceph Filesystem mount that lasts the lifetime of a pod Cephfs volumes do not support ownership management or SELinux relabeling.'',
      Type [''object''],
      Properties [
      (''monitors'', Schema [Description ''Required: Monitors is a collection of Ceph monitors More info: https://examples.k8s.io/volumes/cephfs/README.md#how-to-use-it'',
          Type [''array''],
          Items (Schema [Default (JString ''''),
            Type [''string''],
            Format ''''])]),
      (''path'', Schema [Description ''Optional: Used as the mounted root, rather than the full Ceph tree, default is /'',
          Type [''string''],
          Format '''']),
      (''user'', Schema [Description ''Optional: User is the rados user name, default is admin More info: https://examples.k8s.io/volumes/cephfs/README.md#how-to-use-it'',
          Type [''string''],
          Format '''']),
      (''secretFile'', Schema [Description ''Optional: SecretFile is the path to key ring for User, default is /etc/ceph/user.secret More info: https://examples.k8s.io/volumes/cephfs/README.md#how-to-use-it'',
          Type [''string''],
          Format '''']),
      (''secretRef'', Schema [Description ''Optional: SecretRef is reference to the authentication secret for User, default is empty. More info: https://examples.k8s.io/volumes/cephfs/README.md#how-to-use-it'',
          Ref (ref ''k8s.io/api/core/v1.LocalObjectReference'')]),
      (''readOnly'', Schema [Description ''Optional: Defaults to false (read/write). ReadOnly here will force the ReadOnly setting in VolumeMounts. More info: https://examples.k8s.io/volumes/cephfs/README.md#how-to-use-it'',
          Type [''boolean''],
          Format ''''])],
      Required [''monitors'']],
     Dependencies = [''k8s.io/api/core/v1.LocalObjectReference'']\<rparr>"

definition schema_k8sio_api_core_v1_CinderVolumeSource :: "(string \<Rightarrow> 'r) \<Rightarrow> 'r openapi_definition" where
  "schema_k8sio_api_core_v1_CinderVolumeSource ref =
    \<lparr>defSchema = Schema [Description ''Represents a cinder volume resource in Openstack. A Cinder volume must exist before mounting to a container. The volume must also be in the same region as the kubelet. Cinder volumes support ownership management and SELinux relabeling.'',
      Type [''object''],
      Properties [
      (''volumeID'', Schema [Description ''volume id used to identify the volume in cinder. More info: https://examples.k8s.io/mysql-cinder-pd/README.md'',
          Default (JString ''''),
          Type [''string''],
          Format '''']),
      (''fsType'', Schema [Description ''Filesystem type to mount. Must be a filesystem type supported by the host operating system. Examples: \"ext4\", \"xfs\", \"ntfs\". Implicitly inferred to be \"ext4\" if unspecified. More info: https://examples.k8s.io/mysql-cinder-pd/README.md'',
          Type [''string''],
          Format '''']),
      (''readOnly'', Schema [Description ''Optional: Defaults to false (read/write). ReadOnly here will force the ReadOnly setting in VolumeMounts. More info: https://examples.k8s.io/mysql-cinder-pd/README.md'',
          Type [''boolean''],
          Format '''']),
      (''secretRef'', Schema [Description ''Optional: points to a secret object containing parameters used to connect to OpenStack.'',
          Ref (ref ''k8s.io/api/core/v1.LocalObjectReference'')])],
      Required [''volumeID'']],
     Dependencies = [''k8s.io/api/core/v1.LocalObjectReference'']\<rparr>"

definition schema_k8sio_api_core_v1_ConfigMapProjection :: "(string \<Rightarrow> 'r) \<Rightarrow> 'r openapi_definition" where
  "schema_k8sio_api_core_v1_ConfigMapProjection ref =
    \<lparr>defSchema = Schema [Description (''Adapts a ConfigMap into a projected volume.'' @ [CHR 0x0A, CHR 0x0A] @ ''The contents of the target ConfigMap's Data field will be presented in a projected volume as files using the keys in the Data field as the file names, unless the items element is populated with specific mappings of keys to paths. Note that this is identical to a configmap volume source without the default mode.''),
      Type [''object''],
      Properties [
      (''name'', Schema [Description ''Name of the referent. More info: https://kubernetes.io/docs/concepts/overview/working-with-objects/names/#names'',
          Type [''string''],
          Format '''']),
      (''items'', Schema [Description ''If unspecified, each key-value pair in the Data field of the referenced ConfigMap will be projected into the volume as a file whose name is the key and content is the value. If specified, the listed keys will be projected into the specified paths, and unlisted keys will not be present. If a key is specified which is not present in the ConfigMap, the volume setup will error unless it is marked optional. Paths must be relative and may not contain the '..' path or start with '..'.'',
          Type [''array''],
          Items (Schema [Default (JObject []),
            Ref (ref ''k8s.io/api/core/v1.KeyToPath'')])]),
      (''optional'', Schema [Description ''Specify whether the ConfigMap or its keys must be defined'',
          Type [''boolean''],
          Format ''''])]],
     Dependencies = [''k8s.io/api/core/v1.KeyToPath'']\<rparr>"

definition schema_k8sio_api_core_v1_ConfigMapVolumeSource :: "(string \<Rightarrow> 'r) \<Rightarrow> 'r openapi_definition" where
  "schema_k8sio_api_core_v1_ConfigMapVolumeSource ref =
    \<lparr>defSchema = Schema [Description (''Adapts a ConfigMap into a volume.'' @ [CHR 0x0A, CHR 0x0A] @ ''The contents of the target ConfigMap's Data field will be presented in a volume as files using the keys in the Data field as the file names, unless the items element is populated with specific mappings of keys to paths. ConfigMap volumes support ownership management and SELinux relabeling.''),
      Type [''object''],
      Properties [
      (''name'', Schema [Description ''Name of the referent. More info: https://kubernetes.io/docs/concepts/overview/working-with-objects/names/#names'',
          Type [''string''],
          Format '''']),
      (''items'', Schema [Description ''If unspecified, each key-value pair in the Data field of the referenced ConfigMap will be projected into the volume as a file whose name is the key and content is the value. If specified, the listed keys will be projected into the specified paths, and unlisted keys will not be present. If a key is specified which is not present in the ConfigMap, the volume setup will error unless it is marked optional. Paths must be relative and may not contain the '..' path or start with '..'.'',
          Type [''array''],
          Items (Schema [Default (JObject []),
            Ref (ref ''k8s.io/api/core/v1.KeyToPath'')])]),
      (''defaultMode'', Schema [Description ''Optional: mode bits used to set permissions on created files by default. Must be an octal value between 0000 and 0777 or a decimal value between 0 and 511. YAML accepts both octal and decimal values, JSON requires decimal values for mode bits. Defaults to 0644. Directories within the path are not affected by this setting. This might be in conflict with other options that affect the file mode, like fsGroup, and the result can be other mode bits set.'',
          Type [''integer''],
          Format ''int32'']),
      (''optional'', Schema [Description ''Specify whether the ConfigMap or its keys must be defined'',
          Type [''boolean''],
          Format ''''])]],
     Dependencies = [''k8s.io/api/core/v1.KeyToPath'']\<rparr>"

definition schema_k8sio_api_core_v1_DownwardAPIProjection :: "(string \<Rightarrow> 'r) \<Rightarrow> 'r openapi_definition" where
  "schema_k8sio_api_core_v1_DownwardAPIProjection ref =
    \<lparr>defSchema = Schema [Description ''Represents downward API info for projecting into a projected volume. Note that this is identical to a downwardAPI volume source without the default mode.'',
      Type [''object''],
      Properties [
      (''items'', Schema [Description ''Items is a list of DownwardAPIVolume file'',
          Type [''array''],
          Items (Schema [Default (JObject []),
            Ref (ref ''k8s.io/api/core/v1.DownwardAPIVolumeFile'')])])]],
     Dependencies = [''k8s.io/api/core/v1.DownwardAPIVolumeFile'']\<rparr>"

definition schema_k8sio_api_core_v1_DownwardAPIVolumeFile :: "(string \<Rightarrow> 'r) \<Rightarrow> 'r openapi_definition" where
  "schema_k8sio_api_core_v1_DownwardAPIVolumeFile ref =
    \<lparr>defSchema = Schema [Description ''DownwardAPIVolumeFile represents information to create the file containing the pod field'',
      Type [''object''],
      Properties [
      (''path'', Schema [Description (''Required: Path is  the relative path name of the file to be created. Must not be absolute or contain the '..' path. Must be utf-8 encoded. The first item of the relative path must not start with '..'' @ [CHR 0x27]),
          Default (JString ''''),
          Type [''string''],
          Format '''']),
      (''fieldRef'', Schema [Description ''Required: Selects a field of the pod: only annotations, labels, name and namespace are supported.'',
          Ref (ref ''k8s.io/api/core/v1.ObjectFieldSelector'')]),
      (''resourceFieldRef'', Schema [Description ''Selects a resource of the container: only resources limits and requests (limits.cpu, limits.memory, requests.cpu and requests.memory) are currently supported.'',
          Ref (ref ''k8s.io/api/core/v1.ResourceFieldSelector'')]),
      (''mode'', Schema [Description ''Optional: mode bits used to set permissions on this file, must be an octal value between 0000 and 0777 or a decimal value between 0 and 511. YAML accepts both octal and decimal values, JSON requires decimal values for mode bits. If not specified, the volume defaultMode will be used. This might be in conflict with other options that affect the file mode, like fsGroup, and the result can be other mode bits set.'',
          Type [''integer''],
          Format ''int32''])],
      Required [''path'']],
     Dependencies = [''k8s.io/api/core/v1.ObjectFieldSelector'',
     ''k8s.io/api/core/v1.ResourceFieldSelector'']\<rparr>"

definition schema_k8sio_api_core_v1_DownwardAPIVolumeSource :: "(string \<Rightarrow> 'r) \<Rightarrow> 'r openapi_definition" where
  "schema_k8sio_api_core_v1_DownwardAPIVolumeSource ref =
    \<lparr>defSchema = Schema [Description ''DownwardAPIVolumeSource represents a volume containing downward API info. Downward API volumes support ownership management and SELinux relabeling.'',
      Type [''object''],
      Properties [
      (''items'', Schema [Description ''Items is a list of downward API volume file'',
          Type [''array''],
          Items (Schema [Default (JObject []),
            Ref (ref ''k8s.io/api/core/v1.DownwardAPIVolumeFile'')])]),
      (''defaultMode'', Schema [Description ''Optional: mode bits to use on created files by default. Must be a Optional: mode bits used to set permissions on created files by default. Must be an octal value between 0000 and 0777 or a decimal value between 0 and 511. YAML accepts both octal and decimal values, JSON requires decimal values for mode bits. Defaults to 0644. Directories within the path are not affected by this setting. This might be in conflict with other options that affect the file mode, like fsGroup, and the result can be other mode bits set.'',
          Type [''integer''],
          Format ''int32''])]],
     Dependencies = [''k8s.io/api/core/v1.DownwardAPIVolumeFile'']\<rparr>"

definition schema_k8sio_api_core_v1_EmptyDirVolumeSource :: "(string \<Rightarrow> 'r) \<Rightarrow> 'r openapi_definition" where
  "schema_k8sio_api_core_v1_EmptyDirVolumeSource ref =
    \<lparr>defSchema = Schema [Description ''Represents an empty directory for a pod. Empty directory volumes support ownership management and SELinux relabeling.'',
      Type [''object''],
      Properties [
      (''medium'', Schema [Description ''What type of storage medium should back this directory. The default is \"\" which means to use the node's default medium. Must be an empty string (default) or Memory. More info: https://kubernetes.io/docs/concepts/storage/volumes#emptydir'',
          Type [''string''],
          Format '''']),
      (''sizeLimit'', Schema [Description ''Total amount of local storage required for this EmptyDir volume. The size limit is also applicable for memory medium. The maximum usage on memory medium EmptyDir would be the minimum value between the SizeLimit specified here and the sum of memory limits of all containers in a pod. The default is nil which means that the limit is undefined. More info: http://kubernetes.io/docs/user-guide/volumes#emptydir'',
          Ref (ref ''k8s.io/apimachinery/pkg/api/resource.Quantity'')])]],
     Dependencies = [''k8s.io/apimachinery/pkg/api/resource.Quantity'']\<rparr>"

definition schema_k8sio_api_core_v1_EphemeralVolumeSource :: "(string \<Rightarrow> 'r) \<Rightarrow> 'r openapi_definition" where
  "schema_k8sio_api_core_v1_EphemeralVolumeSource ref =
    \<lparr>defSchema = Schema [Description ''Represents an ephemeral volume that is handled by a normal storage driver.'',
      Type [''object''],
      Properties [
      (''volumeClaimTemplate'', Schema [Description (''Will be used to create a stand-alone PVC to provision the volume. The pod in which this EphemeralVolumeSource is embedded will be the owner of the PVC, i.e. the PVC will be deleted together with the pod.  The name of the PVC will be `<pod name>-<volume name>` where `<volume name>` is the name from the `PodSpec.Volumes` array entry. Pod validation will reject the pod if the concatenated name is not valid for a PVC (for example, too long).'' @ [CHR 0x0A, CHR 0x0A] @ ''An existing PVC with that name that is not owned by the pod will *not* be used for the pod to avoid using an unrelated volume by mistake. Starting the pod is then blocked until the unrelated PVC is removed. If such a pre-created PVC is meant to be used by the pod, the PVC has to updated with an owner reference to the pod once the pod exists. Normally this should not be necessary, but it may be useful when manually reconstructing a broken cluster.'' @ [CHR 0x0A, CHR 0x0A] @ ''This field is read-only and no changes will be made by Kubernetes to the PVC after it has been created.'' @ [CHR 0x0A, CHR 0x0A] @ ''Required, must not be nil.''),
          Ref (ref ''k8s.io/api/core/v1.PersistentVolumeClaimTemplate'')])]],
     Dependencies = [''k8s.io/api/core/v1.PersistentVolumeClaimTemplate'']\<rparr>"

definition schema_k8sio_api_core_v1_FCVolumeSource :: "(string \<Rightarrow> 'r) \<Rightarrow> 'r openapi_definition" where
  "schema_k8sio_api_core_v1_FCVolumeSource ref =
    \<lparr>defSchema = Schema [Description ''Represents a Fibre Channel volume. Fibre Channel volumes can only be mounted as read/write once. Fibre Channel volumes support ownership management and SELinux relabeling.'',
      Type [''object''],
      Properties [
      (''targetWWNs'', Schema [Description ''Optional: FC target worldwide names (WWNs)'',
          Type [''array''],
          Items (Schema [Default (JString ''''),
            Type [''string''],
            Format ''''])]),
      (''lun'', Schema [Description ''Optional: FC target lun number'',
          Type [''integer''],
          Format ''int32'']),
      (''fsType'', Schema [Description ''Filesystem type to mount. Must be a filesystem type supported by the host operating system. Ex. \"ext4\", \"xfs\", \"ntfs\". Implicitly inferred to be \"ext4\" if unspecified.'',
          Type [''string''],
          Format '''']),
      (''readOnly'', Schema [Description ''Optional: Defaults to false (read/write). ReadOnly here will force the ReadOnly setting in VolumeMounts.'',
          Type [''boolean''],
          Format '''']),
      (''wwids'', Schema [Description ''Optional: FC volume world wide identifiers (wwids) Either wwids or combination of targetWWNs and lun must be set, but not both simultaneously.'',
          Type [''array''],
          Items (Schema [Default (JString ''''),
            Type [''string''],
            Format ''''])])]],
     Dependencies = []\<rparr>"

definition schema_k8sio_api_core_v1_FlexVolumeSource :: "(string \<Rightarrow> 'r) \<Rightarrow> 'r openapi_definition" where
  "schema_k8sio_api_core_v1_FlexVolumeSource ref =
    \<lparr>defSchema = Schema [Description ''FlexVolume represents a generic volume resource that is provisioned/attached using an exec based plugin.'',
      Type [''object''],
      Properties [
      (''driver'', Schema [Description ''Driver is the name of the driver to use for this volume.'',
          Default (JString ''''),
          Type [''string''],
          Format '''']),
      (''fsType'', Schema [Description ''Filesystem type to mount. Must be a filesystem type supported by the host operating system. Ex. \"ext4\", \"xfs\", \"ntfs\". The default filesystem depends on FlexVolume script.'',
          Type [''string''],
          Format '''']),
      (''secretRef'', Schema [Description ''Optional: SecretRef is reference to the secret object containing sensitive information to pass to the plugin scripts. This may be empty if no secret object is specified. If the secret object contains more than one secret, all secrets are passed to the plugin scripts.'',
          Ref (ref ''k8s.io/api/core/v1.LocalObjectReference'')]),
      (''readOnly'', Schema [Description ''Optional: Defaults to false (read/write). ReadOnly here will force the ReadOnly setting in VolumeMounts.'',
          Type [''boolean''],
          Format '''']),
      (''options'', Schema [Description ''Optional: Extra command options if any.'',
          Type [''object''],
          AdditionalProperties True (Schema [Default (JString ''''),
            Type [''string''],
            Format ''''])])],
      Required [''driver'']],
     Dependencies = [''k8s.io/api/core/v1.LocalObjectReference'']\<rparr>"

definition schema_k8sio_api_core_v1_FlockerVolumeSource :: "(string \<Rightarrow> 'r) \<Rightarrow> 'r openapi_definition" where
  "schema_k8sio_api_core_v1_FlockerVolumeSource ref =
    \<lparr>defSchema = Schema [Description ''Represents a Flocker volume mounted by the Flocker agent. One and only one of datasetName and datasetUUID should be set. Flocker volumes do not support ownership management or SELinux relabeling.'',
      Type [''object''],
      Properties [
      (''datasetName'', Schema [Description ''Name of the dataset stored as metadata -> name on the dataset for Flocker should be considered as deprecated'',
          Type [''string''],
          Format '''']),
      (''datasetUUID'', Schema [Description ''UUID of the dataset. This is unique identifier of a Flocker dataset'',
          Type [''string''],
          Format ''''])]],
     Dependencies = []\<rparr>"

definition schema_k8sio_api_core_v1_GCEPersistentDiskVolumeSource :: "(string \<Rightarrow> 'r) \<Rightarrow> 'r openapi_definition" where
  "schema_k8sio_api_core_v1_GCEPersistentDiskVolumeSource ref =
    \<lparr>defSchema = Schema [Description (''Represents a Persistent Disk resource in Google Compute Engine.'' @ [CHR 0x0A, CHR 0x0A] @ ''A GCE PD must exist before mounting to a container. The disk must also be in the same GCE project and zone as the kubelet. A GCE PD can only be mounted as read/write once or read-only many times. GCE PDs support ownership management and SELinux relabeling.''),
      Type [''object''],
      Properties [
      (''pdName'', Schema [Description ''Unique name of the PD resource in GCE. Used to identify the disk in GCE. More info: https://kubernetes.io/docs/concepts/storage/volumes#gcepersistentdisk'',
          Default (JString ''''),
          Type [''string''],
          Format '''']),
      (''fsType'', Schema [Description ''Filesystem type of the volume that you want to mount. Tip: Ensure that the filesystem type is supported by the host operating system. Examples: \"ext4\", \"xfs\", \"ntfs\". Implicitly inferred to be \"ext4\" if unspecified. More info: https://kubernetes.io/docs/concepts/storage/volumes#gcepersistentdisk'',
          Type [''string''],
          Format '''']),
      (''partition'', Schema [Description ''The partition in the volume that you want to mount. If omitted, the default is to mount by volume name. Examples: For volume /dev/sda1, you specify the partition as \"1\". Similarly, the volume partition for /dev/sda is \"0\" (or you can leave the property empty). More info: https://kubernetes.io/docs/concepts/storage/volumes#gcepersistentdisk'',
          Type [''integer''],
          Format ''int32'']),
      (''readOnly'', Schema [Description ''ReadOnly here will force the ReadOnly setting in VolumeMounts. Defaults to false. More info: https://kubernetes.io/docs/concepts/storage/volumes#gcepersistentdisk'',
          Type [''boolean''],
          Format ''''])],
      Required [''pdName'']],
     Dependencies = []\<rparr>"

definition schema_k8sio_api_core_v1_GitRepoVolumeSource :: "(string \<Rightarrow> 'r) \<Rightarrow> 'r openapi_definition" where
  "schema_k8sio_api_core_v1_GitRepoVolumeSource ref =
    \<lparr>defSchema = Schema [Description (''Represents a volume that is populated with the contents of a git repository. Git repo volumes do not support ownership management. Git repo volumes support SELinux relabeling.'' @ [CHR 0x0A, CHR 0x0A] @ ''DEPRECATED: GitRepo is deprecated. To provision a container with a git repo, mount an EmptyDir into an InitContainer that clones the repo using git, then mount the EmptyDir into the Pod's container.''),
      Type [''object''],
      Properties [
      (''repository'', Schema [Description ''Repository URL'',
          Default (JString ''''),
          Type [''string''],
          Format '''']),
      (''revision'', Schema [Description ''Commit hash for the specified revision.'',
          Type [''string''],
          Format '''']),
      (''directory'', Schema [Description ''Target directory name. Must not contain or start with '..'.  If '.' is supplied, the volume directory will be the git repository.  Otherwise, if specified, the volume will contain the git repository in the subdirectory with the given name.'',
          Type [''string''],
          Format ''''])],
      Required [''repository'']],
     Dependencies = []\<rparr>"

definition schema_k8sio_api_core_v1_GlusterfsVolumeSource :: "(string \<Rightarrow> 'r) \<Rightarrow> 'r openapi_definition" where
  "schema_k8sio_api_core_v1_GlusterfsVolumeSource ref =
    \<lparr>defSchema = Schema [Description ''Represents a Glusterfs mount that lasts the lifetime of a pod. Glusterfs volumes do not support ownership management or SELinux relabeling.'',
      Type [''object''],
      Properties [
      (''endpoints'', Schema [Description ''EndpointsName is the endpoint name that details Glusterfs topology. More info: https://examples.k8s.io/volumes/glusterfs/README.md#create-a-pod'',
          Default (JString ''''),
          Type [''string''],
          Format '''']),
      (''path'', Schema [Description ''Path is the Glusterfs volume path. More info: https://examples.k8s.io/volumes/glusterfs/README.md#create-a-pod'',
          Default (JString ''''),
          Type [''string''],
          Format '''']),
      (''readOnly'', Schema [Description ''ReadOnly here will force the Glusterfs volume to be mounted with read-only permissions. Defaults to false. More info: https://examples.k8s.io/volumes/glusterfs/README.md#create-a-pod'',
          Type [''boolean''],
          Format ''''])],
      Required [''endpoints'', ''path'']],
     Dependencies = []\<rparr>"

definition schema_k8sio_api_core_v1_HostPathVolumeSource :: "(string \<Rightarrow> 'r) \<Rightarrow> 'r openapi_definition" where
  "schema_k8sio_api_core_v1_HostPathVolumeSource ref =
    \<lparr>defSchema = Schema [Description ''Represents a host path mapped into a pod. Host path volumes do not support ownership management or SELinux relabeling.'',
      Type [''object''],
      Properties [
      (''path'', Schema [Description ''Path of the directory on the host. If the path is a symlink, it will follow the link to the real path. More info: https://kubernetes.io/docs/concepts/storage/volumes#hostpath'',
          Default (JString ''''),
          Type [''string''],
          Format '''']),
      (''type'', Schema [Description ''Type for HostPath Volume Defaults to \"\" More info: https://kubernetes.io/docs/concepts/storage/volumes#hostpath'',
          Type [''string''],
          Format ''''])],
      Required [''path'']],
     Dependencies = []\<rparr>"

definition schema_k8sio_api_core_v1_ISCSIVolumeSource :: "(string \<Rightarrow> 'r) \<Rightarrow> 'r openapi_definition" where
  "schema_k8sio_api_core_v1_ISCSIVolumeSource ref =
    \<lparr>defSchema = Schema [Description ''Represents an ISCSI disk. ISCSI volumes can only be mounted as read/write once. ISCSI volumes support ownership management and SELinux relabeling.'',
      Type [''object''],
      Properties [
      (''targetPortal'', Schema [Description ''iSCSI Target Portal. The Portal is either an IP or ip_addr:port if the port is other than default (typically TCP ports 860 and 3260).'',
          Default (JString ''''),
          Type [''string''],
          Format '''']),
      (''iqn'', Schema [Description ''Target iSCSI Qualified Name.'',
          Default (JString ''''),
          Type [''string''],
          Format '''']),
      (''lun'', Schema [Description ''iSCSI Target Lun number.'',
          Default (JNumber 0),
          Type [''integer''],
          Format ''int32'']),
      (''iscsiInterface'', Schema [Description ''iSCSI Interface Name that uses an iSCSI transport. Defaults to 'default' (tcp).'',
          Type [''string''],
          Format '''']),
      (''fsType'', Schema [Description ''Filesystem type of the volume that you want to mount. Tip: Ensure that the filesystem type is supported by the host operating system. Examples: \"ext4\", \"xfs\", \"ntfs\". Implicitly inferred to be \"ext4\" if unspecified. More info: https://kubernetes.io/docs/concepts/storage/volumes#iscsi'',
          Type [''string''],
          Format '''']),
      (''readOnly'', Schema [Description ''ReadOnly here will force the ReadOnly setting in VolumeMounts. Defaults to false.'',
          Type [''boolean''],
          Format '''']),
      (''portals'', Schema [Description ''iSCSI Target Portal List. The portal is either an IP or ip_addr:port if the port is other than default (typically TCP ports 860 and 3260).'',
          Type [''array''],
          Items (Schema [Default (JString ''''),
            Type [''string''],
            Format ''''])]),
      (''chapAuthDiscovery'', Schema [Description ''whether support iSCSI Discovery CHAP authentication'',
          Type [''boolean''],
          Format '''']),
      (''chapAuthSession'', Schema [Description ''whether support iSCSI Session CHAP authentication'',
          Type [''boolean''],
          Format '''']),
      (''secretRef'', Schema [Description ''CHAP Secret for iSCSI target and initiator authentication'',
          Ref (ref ''k8s.io/api/core/v1.LocalObjectReference'')]),
      (''initiatorName'', Schema [Description ''Custom iSCSI Initiator Name. If initiatorName is specified with iscsiInterface simultaneously, new iSCSI interface <target portal>:<volume name> will be created for the connection.'',
          Type [''string''],
          Format ''''])],
      Required [''targetPortal'', ''iqn'', ''lun'']],
     Dependencies = [''k8s.io/api/core/v1.LocalObjectReference'']\<rparr>"

definition schema_k8sio_api_core_v1_KeyToPath :: "(string \<Rightarrow> 'r) \<Rightarrow> 'r openapi_definition" where
  "schema_k8sio_api_core_v1_KeyToPath ref =
    \<lparr>defSchema = Schema [Description ''Maps a string key to a path within a volume.'',
      Type [''object''],
      Properties [
      (''key'', Schema [Description ''The key to project.'',
          Default (JString ''''),
          Type [''string''],
          Format '''']),
      (''path'', Schema [Description ''The relative path of the file to map the key to. May not be an absolute path. May not contain the path element '..'. May not start with the string '..'.'',
          Default (JString ''''),
          Type [''string''],
          Format '''']),
      (''mode'', Schema [Description ''Optional: mode bits used to set permissions on this file. Must be an octal value between 0000 and 0777 or a decimal value between 0 and 511. YAML accepts both octal and decimal values, JSON requires decimal values for mode bits. If not specified, the volume defaultMode will be used. This might be in conflict with other options that affect the file mode, like fsGroup, and the result can be other mode bits set.'',
          Type [''integer''],
          Format ''int32''])],
      Required [''key'', ''path'']],
     Dependencies = []\<rparr>"

definition schema_k8sio_api_core_v1_NFSVolumeSource :: "(string \<Rightarrow> 'r) \<Rightarrow> 'r openapi_definition" where
  "schema_k8sio_api_core_v1_NFSVolumeSource ref =
    \<lparr>defSchema = Schema [Description ''Represents an NFS mount that lasts the lifetime of a pod. NFS volumes do not support ownership management or SELinux relabeling.'',
      Type [''object''],
      Properties [
      (''server'', Schema [Description ''Server is the hostname or IP address of the NFS server. More info: https://kubernetes.io/docs/concepts/storage/volumes#nfs'',
          Default (JString ''''),
          Type [''string''],
          Format '''']),
      (''path'', Schema [Description ''Path that is exported by the NFS server. More info: https://kubernetes.io/docs/concepts/storage/volumes#nfs'',
          Default (JString ''''),
          Type [''string''],
          Format '''']),
      (''readOnly'', Schema [Description ''ReadOnly here will force the NFS export to be mounted with read-only permissions. Defaults to false. More info: https://kubernetes.io/docs/concepts/storage/volumes#nfs'',
          Type [''boolean''],
          Format ''''])],
      Required [''server'', ''path'']],
     Dependencies = []\<rparr>"

definition schema_k8sio_api_core_v1_PersistentVolumeClaimSpec :: "(string \<Rightarrow> 'r) \<Rightarrow> 'r openapi_definition" where
  "schema_k8sio_api_core_v1_PersistentVolumeClaimSpec ref =
    \<lparr>defSchema = Schema [Description ''PersistentVolumeClaimSpec describes the common attributes of storage devices and allows a Source for provider-specific attributes'',
      Type [''object''],
      Properties [
      (''accessModes'', Schema [Description ''AccessModes contains the desired access modes the volume should have. More info: https://kubernetes.io/docs/concepts/storage/persistent-volumes#access-modes-1'',
          Type [''array''],
          Items (Schema [Default (JString ''''),
            Type [''string''],
            Format ''''])]),
      (''selector'', Schema [Description ''A label query over volumes to consider for binding.'',
          Ref (ref ''k8s.io/apimachinery/pkg/apis/meta/v1.LabelSelector'')]),
      (''resources'', Schema [Description ''Resources represents the minimum resources the volume should have. More info: https://kubernetes.io/docs/concepts/storage/persistent-volumes#resources'',
          Default (JObject []),
          Ref (ref ''k8s.io/api/core/v1.ResourceRequirements'')]),
      (''volumeName'', Schema [Description ''VolumeName is the binding reference to the PersistentVolume backing this claim.'',
          Type [''string''],
          Format '''']),
      (''storageClassName'', Schema [Description ''Name of the StorageClass required by the claim. More info: https://kubernetes.io/docs/concepts/storage/persistent-volumes#class-1'',
          Type [''string''],
          Format '''']),
      (''volumeMode'', Schema [Description ''volumeMode defines what type of volume is required by the claim. Value of Filesystem is implied when not included in claim spec.'',
          Type [''string''],
          Format '''']),
      (''dataSource'', Schema [Description ''This field can be used to specify either: * An existing VolumeSnapshot object (snapshot.storage.k8s.io/VolumeSnapshot) * An existing PVC (PersistentVolumeClaim) If the provisioner or an external controller can support the specified data source, it will create a new volume based on the contents of the specified data source. If the AnyVolumeDataSource feature gate is enabled, this field will always have the same contents as the DataSourceRef field.'',
          Ref (ref ''k8s.io/api/core/v1.TypedLocalObjectReference'')]),
      (''dataSourceRef'', Schema [Description (''Specifies the object from which to populate the volume with data, if a non-empty volume is desired. This may be any local object from a non-empty API group (non core object) or a PersistentVolumeClaim object. When this field is specified, volume binding will only succeed if the type of the specified object matches some installed volume populator or dynamic provisioner. This field will replace the functionality of the DataSource field and as such if both fields are non-empty, they must have the same value. For backwards compatibility, both fields (DataSource and DataSourceRef) will be set to the same value automatically if one of them is empty and the other is non-empty. There are two important differences between DataSource and DataSourceRef: * While DataSource only allows two specific types of objects, DataSourceRef'' @ [CHR 0x0A] @ ''  allows any non-core object, as well as PersistentVolumeClaim objects.'' @ [CHR 0x0A] @ ''* While DataSource ignores disallowed values (dropping them), DataSourceRef'' @ [CHR 0x0A] @ ''  preserves all values, and generates an error if a disallowed value is'' @ [CHR 0x0A] @ ''  specified.'' @ [CHR 0x0A] @ ''(Alpha) Using this field requires the AnyVolumeDataSource feature gate to be enabled.''),
          Ref (ref ''k8s.io/api/core/v1.TypedLocalObjectReference'')])]],
     Dependencies = [''k8s.io/api/core/v1.ResourceRequirements'',
     ''k8s.io/api/core/v1.TypedLocalObjectReference'',
     ''k8s.io/apimachinery/pkg/apis/meta/v1.LabelSelector'']\<rparr>"

definition schema_k8sio_api_core_v1_PersistentVolumeClaimTemplate :: "(string \<Rightarrow> 'r) \<Rightarrow> 'r openapi_definition" where
  "schema_k8sio_api_core_v1_PersistentVolumeClaimTemplate ref =
    \<lparr>defSchema = Schema [Description ''PersistentVolumeClaimTemplate is used to produce PersistentVolumeClaim objects as part of an EphemeralVolumeSource.'',
      Type [''object''],
      Properties [
      (''metadata'', Schema [Description ''May contain labels and annotations that will be copied into the PVC when creating it. No other fields are allowed and will be rejected during validation.'',
          Default (JObject []),
          Ref (ref ''k8s.io/apimachinery/pkg/apis/meta/v1.ObjectMeta'')]),
      (''spec'', Schema [Description ''The specification for the PersistentVolumeClaim. The entire content is copied unchanged into the PVC that gets created from this template. The same fields as in a PersistentVolumeClaim are also valid here.'',
          Default (JObject []),
          Ref (ref ''k8s.io/api/core/v1.PersistentVolumeClaimSpec'')])],
      Required [''spec'']],
     Dependencies = [''k8s.io/api/core/v1.PersistentVolumeClaimSpec'',
     ''k8s.io/apimachinery/pkg/apis/meta/v1.ObjectMeta'']\<rparr>"

definition schema_k8sio_api_core_v1_PersistentVolumeClaimVolumeSource :: "(string \<Rightarrow> 'r) \<Rightarrow> 'r openapi_definition" where
  "schema_k8sio_api_core_v1_PersistentVolumeClaimVolumeSource ref =
    \<lparr>defSchema = Schema [Description ''PersistentVolumeClaimVolumeSource references the user's PVC in the same namespace. This volume finds the bound PV and mounts that volume for the pod. A PersistentVolumeClaimVolumeSource is, essentially, a wrapper around another type of volume that is owned by someone else (the system).'',
      Type [''object''],
      Properties [
      (''claimName'', Schema [Description ''ClaimName is the name of a PersistentVolumeClaim in the same namespace as the pod using this volume. More info: https://kubernetes.io/docs/concepts/storage/persistent-volumes#persistentvolumeclaims'',
          Default (JString ''''),
          Type [''string''],
          Format '''']),
      (''readOnly'', Schema [Description ''Will force the ReadOnly setting in VolumeMounts. Default false.'',
          Type [''boolean''],
          Format ''''])],
      Required [''claimName'']],
     Dependencies = []\<rparr>"

definition schema_k8sio_api_core_v1_PhotonPersistentDiskVolumeSource :: "(string \<Rightarrow> 'r) \<Rightarrow> 'r openapi_definition" where
  "schema_k8sio_api_core_v1_PhotonPersistentDiskVolumeSource ref =
    \<lparr>defSchema = Schema [Description ''Represents a Photon Controller persistent disk resource.'',
      Type [''object''],
      Properties [
      (''pdID'', Schema [Description ''ID that identifies Photon Controller persistent disk'',
          Default (JString ''''),
          Type [''string''],
          Format '''']),
      (''fsType'', Schema [Description ''Filesystem type to mount. Must be a filesystem type supported by the host operating system. Ex. \"ext4\", \"xfs\", \"ntfs\". Implicitly inferred to be \"ext4\" if unspecified.'',
          Type [''string''],
          Format ''''])],
      Required [''pdID'']],
     Dependencies = []\<rparr>"

definition schema_k8sio_api_core_v1_PortworxVolumeSource :: "(string \<Rightarrow> 'r) \<Rightarrow> 'r openapi_definition" where
  "schema_k8sio_api_core_v1_PortworxVolumeSource ref =
    \<lparr>defSchema = Schema [Description ''PortworxVolumeSource represents a Portworx volume resource.'',
      Type [''object''],
      Properties [
      (''volumeID'', Schema [Description ''VolumeID uniquely identifies a Portworx volume'',
          Default (JString ''''),
          Type [''string''],
          Format '''']),
      (''fsType'', Schema [Description ''FSType represents the filesystem type to mount Must be a filesystem type supported by the host operating system. Ex. \"ext4\", \"xfs\". Implicitly inferred to be \"ext4\" if unspecified.'',
          Type [''string''],
          Format '''']),
      (''readOnly'', Schema [Description ''Defaults to false (read/write). ReadOnly here will force the ReadOnly setting in VolumeMounts.'',
          Type [''boolean''],
          Format ''''])],
      Required [''volumeID'']],
     Dependencies = []\<rparr>"

definition schema_k8sio_api_core_v1_ProjectedVolumeSource :: "(string \<Rightarrow> 'r) \<Rightarrow> 'r openapi_definition" where
  "schema_k8sio_api_core_v1_ProjectedVolumeSource ref =
    \<lparr>defSchema = Schema [Description ''Represents a projected volume source'',
      Type [''object''],
      Properties [
      (''sources'', Schema [Description ''list of volume projections'',
          Type [''array''],
          Items (Schema [Default (JObject []),
            Ref (ref ''k8s.io/api/core/v1.VolumeProjection'')])]),
      (''defaultMode'', Schema [Description ''Mode bits used to set permissions on created files by default. Must be an octal value between 0000 and 0777 or a decimal value between 0 and 511. YAML accepts both octal and decimal values, JSON requires decimal values for mode bits. Directories within the path are not affected by this setting. This might be in conflict with other options that affect the file mode, like fsGroup, and the result can be other mode bits set.'',
          Type [''integer''],
          Format ''int32''])]],
     Dependencies = [''k8s.io/api/core/v1.VolumeProjection'']\<rparr>"

definition schema_k8sio_api_core_v1_QuobyteVolumeSource :: "(string \<Rightarrow> 'r) \<Rightarrow> 'r openapi_definition" where
  "schema_k8sio_api_core_v1_QuobyteVolumeSource ref =
    \<lparr>defSchema = Schema [Description ''Represents a Quobyte mount that lasts the lifetime of a pod. Quobyte volumes do not support ownership management or SELinux relabeling.'',
      Type [''object''],
      Properties [
      (''registry'', Schema [Description ''Registry represents a single or multiple Quobyte Registry services specified as a string as host:port pair (multiple entries are separated with commas) which acts as the central registry for volumes'',
          Default (JString ''''),
          Type [''string''],
          Format '''']),
      (''volume'', Schema [Description ''Volume is a string that references an already created Quobyte volume by name.'',
          Default (JString ''''),
          Type [''string''],
          Format '''']),
      (''readOnly'', Schema [Description ''ReadOnly here will force the Quobyte volume to be mounted with read-only permissions. Defaults to false.'',
          Type [''boolean''],
          Format '''']),
      (''user'', Schema [Description ''User to map volume access to Defaults to serivceaccount user'',
          Type [''string''],
          Format '''']),
      (''group'', Schema [Description ''Group to map volume access to Default is no group'',
          Type [''string''],
          Format '''']),
      (''tenant'', Schema [Description ''Tenant owning the given Quobyte volume in the Backend Used with dynamically provisioned Quobyte volumes, value is set by the plugin'',
          Type [''string''],
          Format ''''])],
      Required [''registry'', ''volume'']],
     Dependencies = []\<rparr>"

definition schema_k8sio_api_core_v1_RBDVolumeSource :: "(string \<Rightarrow> 'r) \<Rightarrow> 'r openapi_definition" where
  "schema_k8sio_api_core_v1_RBDVolumeSource ref =
    \<lparr>defSchema = Schema [Description ''Represents a Rados Block Device mount that lasts the lifetime of a pod. RBD volumes support ownership management and SELinux relabeling.'',
      Type [''object''],
      Properties [
      (''monitors'', Schema [Description ''A collection of Ceph monitors. More info: https://examples.k8s.io/volumes/rbd/README.md#how-to-use-it'',
          Type [''array''],
          Items (Schema [Default (JString ''''),
            Type [''string''],
            Format ''''])]),
      (''image'', Schema [Description ''The rados image name. More info: https://examples.k8s.io/volumes/rbd/README.md#how-to-use-it'',
          Default (JString ''''),
          Type [''string''],
          Format '''']),
      (''fsType'', Schema [Description ''Filesystem type of the volume that you want to mount. Tip: Ensure that the filesystem type is supported by the host operating system. Examples: \"ext4\", \"xfs\", \"ntfs\". Implicitly inferred to be \"ext4\" if unspecified. More info: https://kubernetes.io/docs/concepts/storage/volumes#rbd'',
          Type [''string''],
          Format '''']),
      (''pool'', Schema [Description ''The rados pool name. Default is rbd. More info: https://examples.k8s.io/volumes/rbd/README.md#how-to-use-it'',
          Type [''string''],
          Format '''']),
      (''user'', Schema [Description ''The rados user name. Default is admin. More info: https://examples.k8s.io/volumes/rbd/README.md#how-to-use-it'',
          Type [''string''],
          Format '''']),
      (''keyring'', Schema [Description ''Keyring is the path to key ring for RBDUser. Default is /etc/ceph/keyring. More info: https://examples.k8s.io/volumes/rbd/README.md#how-to-use-it'',
          Type [''string''],
          Format '''']),
      (''secretRef'', Schema [Description ''SecretRef is name of the authentication secret for RBDUser. If provided overrides keyring. Default is nil. More info: https://examples.k8s.io/volumes/rbd/README.md#how-to-use-it'',
          Ref (ref ''k8s.io/api/core/v1.LocalObjectReference'')]),
      (''readOnly'', Schema [Description ''ReadOnly here will force the ReadOnly setting in VolumeMounts. Defaults to false. More info: https://examples.k8s.io/volumes/rbd/README.md#how-to-use-it'',
          Type [''boolean''],
          Format ''''])],
      Required [''monitors'', ''image'']],
     Dependencies = [''k8s.io/api/core/v1.LocalObjectReference'']\<rparr>"

definition schema_k8sio_api_core_v1_ScaleIOVolumeSource :: "(string \<Rightarrow> 'r) \<Rightarrow> 'r openapi_definition" where
  "schema_k8sio_api_core_v1_ScaleIOVolumeSource ref =
    \<lparr>defSchema = Schema [Description ''ScaleIOVolumeSource represents a persistent ScaleIO volume'',
      Type [''object''],
      Properties [
      (''gateway'', Schema [Description ''The host address of the ScaleIO API Gateway.'',
          Default (JString ''''),
          Type [''string''],
          Format '''']),
      (''system'', Schema [Description ''The name of the storage system as configured in ScaleIO.'',
          Default (JString ''''),
          Type [''string''],
          Format '''']),
      (''secretRef'', Schema [Description ''SecretRef references to the secret for ScaleIO user and other sensitive information. If this is not provided, Login operation will fail.'',
          Ref (ref ''k8s.io/api/core/v1.LocalObjectReference'')]),
      (''sslEnabled'', Schema [Description ''Flag to enable/disable SSL communication with Gateway, default false'',
          Type [''boolean''],
          Format '''']),
      (''protectionDomain'', Schema [Description ''The name of the ScaleIO Protection Domain for the configured storage.'',
          Type [''string''],
          Format '''']),
      (''storagePool'', Schema [Description ''The ScaleIO Storage Pool associated with the protection domain.'',
          Type [''string''],
          Format '''']),
      (''storageMode'', Schema [Description ''Indicates whether the storage for a volume should be ThickProvisioned or ThinProvisioned. Default is ThinProvisioned.'',
          Type [''string''],
          Format '''']),
      (''volumeName'', Schema [Description ''The name of a volume already created in the ScaleIO system that is associated with this volume source.'',
          Type [''string''],
          Format '''']),
      (''fsType'', Schema [Description ''Filesystem type to mount. Must be a filesystem type supported by the host operating system. Ex. \"ext4\", \"xfs\", \"ntfs\". Default is \"xfs\".'',
          Type [''string''],
          Format '''']),
      (''readOnly'', Schema [Description ''Defaults to false (read/write). ReadOnly here will force the ReadOnly setting in VolumeMounts.'',
          Type [''boolean''],
          Format ''''])],
      Required [''gateway'', ''system'', ''secretRef'']],
     Dependencies = [''k8s.io/api/core/v1.LocalObjectReference'']\<rparr>"

definition schema_k8sio_api_core_v1_SecretProjection :: "(string \<Rightarrow> 'r) \<Rightarrow> 'r openapi_definition" where
  "schema_k8sio_api_core_v1_SecretProjection ref =
    \<lparr>defSchema = Schema [Description (''Adapts a secret into a projected volume.'' @ [CHR 0x0A, CHR 0x0A] @ ''The contents of the target Secret's Data field will be presented in a projected volume as files using the keys in the Data field as the file names. Note that this is identical to a secret volume source without the default mode.''),
      Type [''object''],
      Properties [
      (''name'', Schema [Description ''Name of the referent. More info: https://kubernetes.io/docs/concepts/overview/working-with-objects/names/#names'',
          Type [''string''],
          Format '''']),
      (''items'', Schema [Description ''If unspecified, each key-value pair in the Data field of the referenced Secret will be projected into the volume as a file whose name is the key and content is the value. If specified, the listed keys will be projected into the specified paths, and unlisted keys will not be present. If a key is specified which is not present in the Secret, the volume setup will error unless it is marked optional. Paths must be relative and may not contain the '..' path or start with '..'.'',
          Type [''array''],
          Items (Schema [Default (JObject []),
            Ref (ref ''k8s.io/api/core/v1.KeyToPath'')])]),
      (''optional'', Schema [Description ''Specify whether the Secret or its key must be defined'',
          Type [''boolean''],
          Format ''''])]],
     Dependencies = [''k8s.io/api/core/v1.KeyToPath'']\<rparr>"

definition schema_k8sio_api_core_v1_SecretVolumeSource :: "(string \<Rightarrow> 'r) \<Rightarrow> 'r openapi_definition" where
  "schema_k8sio_api_core_v1_SecretVolumeSource ref =
    \<lparr>defSchema = Schema [Description (''Adapts a Secret into a volume.'' @ [CHR 0x0A, CHR 0x0A] @ ''The contents of the target Secret's Data field will be presented in a volume as files using the keys in the Data field as the file names. Secret volumes support ownership management and SELinux relabeling.''),
      Type [''object''],
      Properties [
      (''secretName'', Schema [Description ''Name of the secret in the pod's namespace to use. More info: https://kubernetes.io/docs/concepts/storage/volumes#secret'',
          Type [''string''],
          Format '''']),
      (''items'', Schema [Description ''If unspecified, each key-value pair in the Data field of the referenced Secret will be projected into the volume as a file whose name is the key and content is the value. If specified, the listed keys will be projected into the specified paths, and unlisted keys will not be present. If a key is specified which is not present in the Secret, the volume setup will error unless it is marked optional. Paths must be relative and may not contain the '..' path or start with '..'.'',
          Type [''array''],
          Items (Schema [Default (JObject []),
            Ref (ref ''k8s.io/api/core/v1.KeyToPath'')])]),
      (''defaultMode'', Schema [Description ''Optional: mode bits used to set permissions on created files by default. Must be an octal value between 0000 and 0777 or a decimal value between 0 and 511. YAML accepts both octal and decimal values, JSON requires decimal values for mode bits. Defaults to 0644. Directories within the path are not affected by this setting. This might be in conflict with other options that affect the file mode, like fsGroup, and the result can be other mode bits set.'',
          Type [''integer''],
          Format ''int32'']),
      (''optional'', Schema [Description ''Specify whether the Secret or its keys must be defined'',
          Type [''boolean''],
          Format ''''])]],
     Dependencies = [''k8s.io/api/core/v1.KeyToPath'']\<rparr>"

definition schema_k8sio_api_core_v1_ServiceAccountTokenProjection :: "(string \<Rightarrow> 'r) \<Rightarrow> 'r openapi_definition" where
  "schema_k8sio_api_core_v1_ServiceAccountTokenProjection ref =
    \<lparr>defSchema = Schema [Description ''ServiceAccountTokenProjection represents a projected service account token volume. This projection can be used to insert a service account token into the pods runtime filesystem for use against APIs (Kubernetes API Server or otherwise).'',
      Type [''object''],
      Properties [
      (''audience'', Schema [Description ''Audience is the intended audience of the token. A recipient of a token must identify itself with an identifier specified in the audience of the token, and otherwise should reject the token. The audience defaults to the identifier of the apiserver.'',
          Type [''string''],
          Format '''']),
      (''expirationSeconds'', Schema [Description ''ExpirationSeconds is the requested duration of validity of the service account token. As the token approaches expiration, the kubelet volume plugin will proactively rotate the service account token. The kubelet will start trying to rotate the token if the token is older than 80 percent of its time to live or if the token is older than 24 hours.Defaults to 1 hour and must be at least 10 minutes.'',
          Type [''integer''],
          Format ''int64'']),
      (''path'', Schema [Description ''Path is the path relative to the mount point of the file to project the token into.'',
          Default (JString ''''),
          Type [''string''],
          Format ''''])],
      Required [''path'']],
     Dependencies = []\<rparr>"

definition schema_k8sio_api_core_v1_StorageOSVolumeSource :: "(string \<Rightarrow> 'r) \<Rightarrow> 'r openapi_definition" where
  "schema_k8sio_api_core_v1_StorageOSVolumeSource ref =
    \<lparr>defSchema = Schema [Description ''Represents a StorageOS persistent volume resource.'',
      Type [''object''],
      Properties [
      (''volumeName'', Schema [Description ''VolumeName is the human-readable name of the StorageOS volume.  Volume names are only unique within a namespace.'',
          Type [''string''],
          Format '''']),
      (''volumeNamespace'', Schema [Description ''VolumeNamespace specifies the scope of the volume within StorageOS.  If no namespace is specified then the Pod's namespace will be used.  This allows the Kubernetes name scoping to be mirrored within StorageOS for tighter integration. Set VolumeName to any name to override the default behaviour. Set to \"default\" if you are not using namespaces within StorageOS. Namespaces that do not pre-exist within StorageOS will be created.'',
          Type [''string''],
          Format '''']),
      (''fsType'', Schema [Description ''Filesystem type to mount. Must be a filesystem type supported by the host operating system. Ex. \"ext4\", \"xfs\", \"ntfs\". Implicitly inferred to be \"ext4\" if unspecified.'',
          Type [''string''],
          Format '''']),
      (''readOnly'', Schema [Description ''Defaults to false (read/write). ReadOnly here will force the ReadOnly setting in VolumeMounts.'',
          Type [''boolean''],
          Format '''']),
      (''secretRef'', Schema [Description ''SecretRef specifies the secret to use for obtaining the StorageOS API credentials.  If not specified, default values will be attempted.'',
          Ref (ref ''k8s.io/api/core/v1.LocalObjectReference'')])]],
     Dependencies = [''k8s.io/api/core/v1.LocalObjectReference'']\<rparr>"

definition schema_k8sio_api_core_v1_Volume :: "(string \<Rightarrow> 'r) \<Rightarrow> 'r openapi_definition" where
  "schema_k8sio_api_core_v1_Volume ref =
    \<lparr>defSchema = Schema [Description ''Volume represents a named volume in a pod that may be accessed by any container in the pod.'',
      Type [''object''],
      Properties [
      (''name'', Schema [Description ''Volume's name. Must be a DNS_LABEL and unique within the pod. More info: https://kubernetes.io/docs/concepts/overview/working-with-objects/names/#names'',
          Default (JString ''''),
          Type [''string''],
          Format '''']),
      (''hostPath'', Schema [Description ''HostPath represents a pre-existing file or directory on the host machine that is directly exposed to the container. This is generally used for system agents or other privileged things that are allowed to see the host machine. Most containers will NOT need this. More info: https://kubernetes.io/docs/concepts/storage/volumes#hostpath'',
          Ref (ref ''k8s.io/api/core/v1.HostPathVolumeSource'')]),
      (''emptyDir'', Schema [Description ''EmptyDir represents a temporary directory that shares a pod's lifetime. More info: https://kubernetes.io/docs/concepts/storage/volumes#emptydir'',
          Ref (ref ''k8s.io/api/core/v1.EmptyDirVolumeSource'')]),
      (''gcePersistentDisk'', Schema [Description ''GCEPersistentDisk represents a GCE Disk resource that is attached to a kubelet's host machine and then exposed to the pod. More info: https://kubernetes.io/docs/concepts/storage/volumes#gcepersistentdisk'',
          Ref (ref ''k8s.io/api/core/v1.GCEPersistentDiskVolumeSource'')]),
      (''awsElasticBlockStore'', Schema [Description ''AWSElasticBlockStore represents an AWS Disk resource that is attached to a kubelet's host machine and then exposed to the pod. More info: https://kubernetes.io/docs/concepts/storage/volumes#awselasticblockstore'',
          Ref (ref ''k8s.io/api/core/v1.AWSElasticBlockStoreVolumeSource'')]),
      (''gitRepo'', Schema [Description ''GitRepo represents a git repository at a particular revision. DEPRECATED: GitRepo is deprecated. To provision a container with a git repo, mount an EmptyDir into an InitContainer that clones the repo using git, then mount the EmptyDir into the Pod's container.'',
          Ref (ref ''k8s.io/api/core/v1.GitRepoVolumeSource'')]),
      (''secret'', Schema [Description ''Secret represents a secret that should populate this volume. More info: https://kubernetes.io/docs/concepts/storage/volumes#secret'',
          Ref (ref ''k8s.io/api/core/v1.SecretVolumeSource'')]),
      (''nfs'', Schema [Description ''NFS represents an NFS mount on the host that shares a pod's lifetime More info: https://kubernetes.io/docs/concepts/storage/volumes#nfs'',
          Ref (ref ''k8s.io/api/core/v1.NFSVolumeSource'')]),
      (''iscsi'', Schema [Description ''ISCSI represents an ISCSI Disk resource that is attached to a kubelet's host machine and then exposed to the pod. More info: https://examples.k8s.io/volumes/iscsi/README.md'',
          Ref (ref ''k8s.io/api/core/v1.ISCSIVolumeSource'')]),
      (''glusterfs'', Schema [Description ''Glusterfs represents a Glusterfs mount on the host that shares a pod's lifetime. More info: https://examples.k8s.io/volumes/glusterfs/README.md'',
          Ref (ref ''k8s.io/api/core/v1.GlusterfsVolumeSource'')]),
      (''persistentVolumeClaim'', Schema [Description ''PersistentVolumeClaimVolumeSource represents a reference to a PersistentVolumeClaim in the same namespace. More info: https://kubernetes.io/docs/concepts/storage/persistent-volumes#persistentvolumeclaims'',
          Ref (ref ''k8s.io/api/core/v1.PersistentVolumeClaimVolumeSource'')]),
      (''rbd'', Schema [Description ''RBD represents a Rados Block Device mount on the host that shares a pod's lifetime. More info: https://examples.k8s.io/volumes/rbd/README.md'',
          Ref (ref ''k8s.io/api/core/v1.RBDVolumeSource'')]),
      (''flexVolume'', Schema [Description ''FlexVolume represents a generic volume resource that is provisioned/attached using an exec based plugin.'',
          Ref (ref ''k8s.io/api/core/v1.FlexVolumeSource'')]),
      (''cinder'', Schema [Description ''Cinder represents a cinder volume attached and mounted on kubelets host machine. More info: https://examples.k8s.io/mysql-cinder-pd/README.md'',
          Ref (ref ''k8s.io/api/core/v1.CinderVolumeSource'')]),
      (''cephfs'', Schema [Description ''CephFS represents a Ceph FS mount on the host that shares a pod's lifetime'',
          Ref (ref ''k8s.io/api/core/v1.CephFSVolumeSource'')]),
      (''flocker'', Schema [Description ''Flocker represents a Flocker volume attached to a kubelet's host machine. This depends on the Flocker control service being running'',
          Ref (ref ''k8s.io/api/core/v1.FlockerVolumeSource'')]),
      (''downwardAPI'', Schema [Description ''DownwardAPI represents downward API about the pod that should populate this volume'',
          Ref (ref ''k8s.io/api/core/v1.DownwardAPIVolumeSource'')]),
      (''fc'', Schema [Description ''FC represents a Fibre Channel resource that is attached to a kubelet's host machine and then exposed to the pod.'',
          Ref (ref ''k8s.io/api/core/v1.FCVolumeSource'')]),
      (''azureFile'', Schema [Description ''AzureFile represents an Azure File Service mount on the host and bind mount to the pod.'',
          Ref (ref ''k8s.io/api/core/v1.AzureFileVolumeSource'')]),
      (''configMap'', Schema [Description ''ConfigMap represents a configMap that should populate this volume'',
          Ref (ref ''k8s.io/api/core/v1.ConfigMapVolumeSource'')]),
      (''vsphereVolume'', Schema [Description ''VsphereVolume represents a vSphere volume attached and mounted on kubelets host machine'',
          Ref (ref ''k8s.io/api/core/v1.VsphereVirtualDiskVolumeSource'')]),
      (''quobyte'', Schema [Description ''Quobyte represents a Quobyte mount on the host that shares a pod's lifetime'',
          Ref (ref ''k8s.io/api/core/v1.QuobyteVolumeSource'')]),
      (''azureDisk'', Schema [Description ''AzureDisk represents an Azure Data Disk mount on the host and bind mount to the pod.'',
          Ref (ref ''k8s.io/api/core/v1.AzureDiskVolumeSource'')]),
      (''photonPersistentDisk'', Schema [Description ''PhotonPersistentDisk represents a PhotonController persistent disk attached and mounted on kubelets host machine'',
          Ref (ref ''k8s.io/api/core/v1.PhotonPersistentDiskVolumeSource'')]),
      (''projected'', Schema [Description ''Items for all in one resources secrets, configmaps, and downward API'',
          Ref (ref ''k8s.io/api/core/v1.ProjectedVolumeSource'')]),
      (''portworxVolume'', Schema [Description ''PortworxVolume represents a portworx volume attached and mounted on kubelets host machine'',
          Ref (ref ''k8s.io/api/core/v1.PortworxVolumeSource'')]),
      (''scaleIO'', Schema [Description ''ScaleIO represents a ScaleIO persistent volume attached and mounted on Kubernetes nodes.'',
          Ref (ref ''k8s.io/api/core/v1.ScaleIOVolumeSource'')]),
      (''storageos'', Schema [Description ''StorageOS represents a StorageOS volume attached and mounted on Kubernetes nodes.'',
          Ref (ref ''k8s.io/api/core/v1.StorageOSVolumeSource'')]),
      (''csi'', Schema [Description ''CSI (Container Storage Interface) represents ephemeral storage that is handled by certain external CSI drivers (Beta feature).'',
          Ref (ref ''k8s.io/api/core/v1.CSIVolumeSource'')]),
      (''ephemeral'', Schema [Description (''Ephemeral represents a volume that is handled by a cluster storage driver. The volume's lifecycle is tied to the pod that defines it - it will be created before the pod starts, and deleted when the pod is removed.'' @ [CHR 0x0A, CHR 0x0A] @ ''Use this if: a) the volume is only needed while the pod runs, b) features of normal volumes like restoring from snapshot or capacity'' @ [CHR 0x0A] @ ''   tracking are needed,'' @ [CHR 0x0A] @ ''c) the storage driver is specified through a storage class, and d) the storage driver supports dynamic volume provisioning through'' @ [CHR 0x0A] @ ''   a PersistentVolumeClaim (see EphemeralVolumeSource for more'' @ [CHR 0x0A] @ ''   information on the connection between this volume type'' @ [CHR 0x0A] @ ''   and PersistentVolumeClaim).'' @ [CHR 0x0A, CHR 0x0A] @ ''Use PersistentVolumeClaim or one of the vendor-specific APIs for volumes that persist for longer than the lifecycle of an individual pod.'' @ [CHR 0x0A, CHR 0x0A] @ ''Use CSI for light-weight local ephemeral volumes if the CSI driver is meant to be used that way - see the documentation of the driver for more information.'' @ [CHR 0x0A, CHR 0x0A] @ ''A pod can use both types of ephemeral volumes and persistent volumes at the same time.'' @ [CHR 0x0A, CHR 0x0A] @ ''This is a beta feature and only available when the GenericEphemeralVolume feature gate is enabled.''),
          Ref (ref ''k8s.io/api/core/v1.EphemeralVolumeSource'')])],
      Required [''name'']],
     Dependencies = [''k8s.io/api/core/v1.AWSElasticBlockStoreVolumeSource'',
     ''k8s.io/api/core/v1.AzureDiskVolumeSource'',
     ''k8s.io/api/core/v1.AzureFileVolumeSource'',
     ''k8s.io/api/core/v1.CSIVolumeSource'',
     ''k8s.io/api/core/v1.CephFSVolumeSource'',
     ''k8s.io/api/core/v1.CinderVolumeSource'',
     ''k8s.io/api/core/v1.ConfigMapVolumeSource'',
     ''k8s.io/api/core/v1.DownwardAPIVolumeSource'',
     ''k8s.io/api/core/v1.EmptyDirVolumeSource'',
     ''k8s.io/api/core/v1.EphemeralVolumeSource'',
     ''k8s.io/api/core/v1.FCVolumeSource'',
     ''k8s.io/api/core/v1.FlexVolumeSource'',
     ''k8s.io/api/core/v1.FlockerVolumeSource'',
     ''k8s.io/api/core/v1.GCEPersistentDiskVolumeSource'',
     ''k8s.io/api/core/v1.GitRepoVolumeSource'',
     ''k8s.io/api/core/v1.GlusterfsVolumeSource'',
     ''k8s.io/api/core/v1.HostPathVolumeSource'',
     ''k8s.io/api/core/v1.ISCSIVolumeSource'',
     ''k8s.io/api/core/v1.NFSVolumeSource'',
     ''k8s.io/api/core/v1.PersistentVolumeClaimVolumeSource'',
     ''k8s.io/api/core/v1.PhotonPersistentDiskVolumeSource'',
     ''k8s.io/api/core/v1.PortworxVolumeSource'',
     ''k8s.io/api/core/v1.ProjectedVolumeSource'',
     ''k8s.io/api/core/v1.QuobyteVolumeSource'',
     ''k8s.io/api/core/v1.RBDVolumeSource'',
     ''k8s.io/api/core/v1.ScaleIOVolumeSource'',
     ''k8s.io/api/core/v1.SecretVolumeSource'',
     ''k8s.io/api/core/v1.StorageOSVolumeSource'',
     ''k8s.io/api/core/v1.VsphereVirtualDiskVolumeSource'']\<rparr>"

definition schema_k8sio_api_core_v1_VolumeDevice :: "(string \<Rightarrow> 'r) \<Rightarrow> 'r openapi_definition" where
  "schema_k8sio_api_core_v1_VolumeDevice ref =
    \<lparr>defSchema = Schema [Description ''volumeDevice describes a mapping of a raw block device within a container.'',
      Type [''object''],
      Properties [
      (''name'', Schema [Description ''name must match the name of a persistentVolumeClaim in the pod'',
          Default (JString ''''),
          Type [''string''],
          Format '''']),
      (''devicePath'', Schema [Description ''devicePath is the path inside of the container that the device will be mapped to.'',
          Default (JString ''''),
          Type [''string''],
          Format ''''])],
      Required [''name'', ''devicePath'']],
     Dependencies = []\<rparr>"

definition schema_k8sio_api_core_v1_VolumeMount :: "(string \<Rightarrow> 'r) \<Rightarrow> 'r openapi_definition" where
  "schema_k8sio_api_core_v1_VolumeMount ref =
    \<lparr>defSchema = Schema [Description ''VolumeMount describes a mounting of a Volume within a container.'',
      Type [''object''],
      Properties [
      (''name'', Schema [Description ''This must match the Name of a Volume.'',
          Default (JString ''''),
          Type [''string''],
          Format '''']),
      (''readOnly'', Schema [Description ''Mounted read-only if true, read-write otherwise (false or unspecified). Defaults to false.'',
          Type [''boolean''],
          Format '''']),
      (''mountPath'', Schema [Description ''Path within the container at which the volume should be mounted.  Must not contain ':'.'',
          Default (JString ''''),
          Type [''string''],
          Format '''']),
      (''subPath'', Schema [Description ''Path within the volume from which the container's volume should be mounted. Defaults to \"\" (volume's root).'',
          Type [''string''],
          Format '''']),
      (''mountPropagation'', Schema [Description ''mountPropagation determines how mounts are propagated from the host to container and the other way around. When not set, MountPropagationNone is used. This field is beta in 1.10.'',
          Type [''string''],
          Format '''']),
      (''subPathExpr'', Schema [Description ''Expanded path within the volume from which the container's volume should be mounted. Behaves similarly to SubPath but environment variable references $(VAR_NAME) are expanded using the container's environment. Defaults to \"\" (volume's root). SubPathExpr and SubPath are mutually exclusive.'',
          Type [''string''],
          Format ''''])],
      Required [''name'', ''mountPath'']],
     Dependencies = []\<rparr>"

definition schema_k8sio_api_core_v1_VolumeProjection :: "(string \<Rightarrow> 'r) \<Rightarrow> 'r openapi_definition" where
  "schema_k8sio_api_core_v1_VolumeProjection ref =
    \<lparr>defSchema = Schema [Description ''Projection that may be projected along with other supported volume types'',
      Type [''object''],
      Properties [
      (''secret'', Schema [Description ''information about the secret data to project'',
          Ref (ref ''k8s.io/api/core/v1.SecretProjection'')]),
      (''downwardAPI'', Schema [Description ''information about the downwardAPI data to project'',
          Ref (ref ''k8s.io/api/core/v1.DownwardAPIProjection'')]),
      (''configMap'', Schema [Description ''information about the configMap data to project'',
          Ref (ref ''k8s.io/api/core/v1.ConfigMapProjection'')]),
      (''serviceAccountToken'', Schema [Description ''information about the serviceAccountToken data to project'',
          Ref (ref ''k8s.io/api/core/v1.ServiceAccountTokenProjection'')])]],
     Dependencies = [''k8s.io/api/core/v1.ConfigMapProjection'',
     ''k8s.io/api/core/v1.DownwardAPIProjection'',
     ''k8s.io/api/core/v1.SecretProjection'',
     ''k8s.io/api/core/v1.ServiceAccountTokenProjection'']\<rparr>"

definition schema_k8sio_api_core_v1_VsphereVirtualDiskVolumeSource :: "(string \<Rightarrow> 'r) \<Rightarrow> 'r openapi_definition" where
  "schema_k8sio_api_core_v1_VsphereVirtualDiskVolumeSource ref =
    \<lparr>defSchema = Schema [Description ''Represents a vSphere volume resource.'',
      Type [''object''],
      Properties [
      (''volumePath'', Schema [Description ''Path that identifies vSphere volume vmdk'',
          Default (JString ''''),
          Type [''string''],
          Format '''']),
      (''fsType'', Schema [Description ''Filesystem type to mount. Must be a filesystem type supported by the host operating system. Ex. \"ext4\", \"xfs\", \"ntfs\". Implicitly inferred to be \"ext4\" if unspecified.'',
          Type [''string''],
          Format '''']),
      (''storagePolicyName'', Schema [Description ''Storage Policy Based Management (SPBM) profile name.'',
          Type [''string''],
          Format '''']),
      (''storagePolicyID'', Schema [Description ''Storage Policy Based Management (SPBM) profile ID associated with the StoragePolicyName.'',
          Type [''string''],
          Format ''''])],
      Required [''volumePath'']],
     Dependencies = []\<rparr>"

text \<open>Every definition here is consistent.\<close>

lemma openapi_volume_ok_1:
  "definition_ok ref (schema_k8sio_api_core_v1_AWSElasticBlockStoreVolumeSource ref)"
  "definition_ok ref (schema_k8sio_api_core_v1_AzureDiskVolumeSource ref)"
  "definition_ok ref (schema_k8sio_api_core_v1_AzureFileVolumeSource ref)"
  "definition_ok ref (schema_k8sio_api_core_v1_CSIVolumeSource ref)"
  "definition_ok ref (schema_k8sio_api_core_v1_CephFSVolumeSource ref)"
  "definition_ok ref (schema_k8sio_api_core_v1_CinderVolumeSource ref)"
  "definition_ok ref (schema_k8sio_api_core_v1_ConfigMapProjection ref)"
  "definition_ok ref (schema_k8sio_api_core_v1_ConfigMapVolumeSource ref)"
  unfolding definition_ok_def
  by (simp_all add:
        schema_k8sio_api_core_v1_AWSElasticBlockStoreVolumeSource_def
        schema_k8sio_api_core_v1_AzureDiskVolumeSource_def
        schema_k8sio_api_core_v1_AzureFileVolumeSource_def
        schema_k8sio_api_core_v1_CSIVolumeSource_def
        schema_k8sio_api_core_v1_CephFSVolumeSource_def
        schema_k8sio_api_core_v1_CinderVolumeSource_def
        schema_k8sio_api_core_v1_ConfigMapProjection_def
        schema_k8sio_api_core_v1_ConfigMapVolumeSource_def)

lemma openapi_volume_ok_2:
  "definition_ok ref (schema_k8sio_api_core_v1_DownwardAPIProjection ref)"
  "definition_ok ref (schema_k8sio_api_core_v1_DownwardAPIVolumeFile ref)"
  "definition_ok ref (schema_k8sio_api_core_v1_DownwardAPIVolumeSource ref)"
  "definition_ok ref (schema_k8sio_api_core_v1_EmptyDirVolumeSource ref)"
  "definition_ok ref (schema_k8sio_api_core_v1_EphemeralVolumeSource ref)"
  "definition_ok ref (schema_k8sio_api_core_v1_FCVolumeSource ref)"
  "definition_ok ref (schema_k8sio_api_core_v1_FlexVolumeSource ref)"
  "definition_ok ref (schema_k8sio_api_core_v1_FlockerVolumeSource ref)"
  unfolding definition_ok_def
  by (simp_all add:
        schema_k8sio_api_core_v1_DownwardAPIProjection_def
        schema_k8sio_api_core_v1_DownwardAPIVolumeFile_def
        schema_k8sio_api_core_v1_DownwardAPIVolumeSource_def
        schema_k8sio_api_core_v1_EmptyDirVolumeSource_def
        schema_k8sio_api_core_v1_EphemeralVolumeSource_def
        schema_k8sio_api_core_v1_FCVolumeSource_def
        schema_k8sio_api_core_v1_FlexVolumeSource_def
        schema_k8sio_api_core_v1_FlockerVolumeSource_def)

lemma openapi_volume_ok_3:
  "definition_ok ref (schema_k8sio_api_core_v1_GCEPersistentDiskVolumeSource ref)"
  "definition_ok ref (schema_k8sio_api_core_v1_GitRepoVolumeSource ref)"
  "definition_ok ref (schema_k8sio_api_core_v1_GlusterfsVolumeSource ref)"
  "definition_ok ref (schema_k8sio_api_core_v1_HostPathVolumeSource ref)"
  "definition_ok ref (schema_k8sio_api_core_v1_ISCSIVolumeSource ref)"
  "definition_ok ref (schema_k8sio_api_core_v1_KeyToPath ref)"
  "definition_ok ref (schema_k8sio_api_core_v1_NFSVolumeSource ref)"
  "definition_ok ref (schema_k8sio_api_core_v1_PersistentVolumeClaimSpec ref)"
  unfolding definition_ok_def
  by (simp_all add:
        schema_k8sio_api_core_v1_GCEPersistentDiskVolumeSource_def
        schema_k8sio_api_core_v1_GitRepoVolumeSource_def
        schema_k8sio_api_core_v1_GlusterfsVolumeSource_def
        schema_k8sio_api_core_v1_HostPathVolumeSource_def
        schema_k8sio_api_core_v1_ISCSIVolumeSource_def
        schema_k8sio_api_core_v1_KeyToPath_def
        schema_k8sio_api_core_v1_NFSVolumeSource_def
        schema_k8sio_api_core_v1_PersistentVolumeClaimSpec_def)

lemma openapi_volume_ok_4:
  "definition_ok ref (schema_k8sio_api_core_v1_PersistentVolumeClaimTemplate ref)"
  "definition_ok ref (schema_k8sio_api_core_v1_PersistentVolumeClaimVolumeSource ref)"
  "definition_ok ref (schema_k8sio_api_core_v1_PhotonPersistentDiskVolumeSource ref)"
  "definition_ok ref (schema_k8sio_api_core_v1_PortworxVolumeSource ref)"
  "definition_ok ref (schema_k8sio_api_core_v1_ProjectedVolumeSource ref)"
  "definition_ok ref (schema_k8sio_api_core_v1_QuobyteVolumeSource ref)"
  "definition_ok ref (schema_k8sio_api_core_v1_RBDVolumeSource ref)"
  "definition_ok ref (schema_k8sio_api_core_v1_ScaleIOVolumeSource ref)"
  unfolding definition_ok_def
  by (simp_all add:
        schema_k8sio_api_core_v1_PersistentVolumeClaimTemplate_def
        schema_k8sio_api_core_v1_PersistentVolumeClaimVolumeSource_def
        schema_k8sio_api_core_v1_PhotonPersistentDiskVolumeSource_def
        schema_k8sio_api_core_v1_PortworxVolumeSource_def
        schema_k8sio_api_core_v1_ProjectedVolumeSource_def
        schema_k8sio_api_core_v1_QuobyteVolumeSource_def
        schema_k8sio_api_core_v1_RBDVolumeSource_def
        schema_k8sio_api_core_v1_ScaleIOVolumeSource_def)

lemma openapi_volume_ok_5:
  "definition_ok ref (schema_k8sio_api_core_v1_SecretProjection ref)"
  "definition_ok ref (schema_k8sio_api_core_v1_SecretVolumeSource ref)"
  "definition_ok ref (schema_k8sio_api_core_v1_ServiceAccountTokenProjection ref)"
  "definition_ok ref (schema_k8sio_api_core_v1_StorageOSVolumeSource ref)"
  "definition_ok ref (schema_k8sio_api_core_v1_Volume ref)"
  "definition_ok ref (schema_k8sio_api_core_v1_VolumeDevice ref)"
  "definition_ok ref (schema_k8sio_api_core_v1_VolumeMount ref)"
  "definition_ok ref (schema_k8sio_api_core_v1_VolumeProjection ref)"
  unfolding definition_ok_def
  by (simp_all add:
        schema_k8sio_api_core_v1_SecretProjection_def
        schema_k8sio_api_core_v1_SecretVolumeSource_def
        schema_k8sio_api_core_v1_ServiceAccountTokenProjection_def
        schema_k8sio_api_core_v1_StorageOSVolumeSource_def
        schema_k8sio_api_core_v1_Volume_def
        schema_k8sio_api_core_v1_VolumeDevice_def
        schema_k8sio_api_core_v1_VolumeMount_def
        schema_k8sio_api_core_v1_VolumeProjection_def)

lemma openapi_volume_ok_6:
  "definition_ok ref (schema_k8sio_api_core_v1_VsphereVirtualDiskVolumeSource ref)"
  unfolding definition_ok_def
  by (simp_all add:
        schema_k8sio_api_core_v1_VsphereVirtualDiskVolumeSource_def)

lemmas openapi_volume_ok =
  openapi_volume_ok_1
  openapi_volume_ok_2
  openapi_volume_ok_3
  openapi_volume_ok_4
  openapi_volume_ok_5
  openapi_volume_ok_6

end
