(* ===== verification/OpenAPI_Container.thy ===== *)
theory OpenAPI_Container
  imports OpenAPI
begin

text \<open>
  The definitions of \<open>zz_generated.openapi.go\<close> for the containers of a pod, their environment, probes and security settings.
\<close>

definition schema_k8sio_api_core_v1_Capabilities :: "(string \<Rightarrow> 'r) \<Rightarrow> 'r openapi_definition" where
  "schema_k8sio_api_core_v1_Capabilities ref =
    \<lparr>defSchema = Schema [Description ''Adds and removes POSIX capabilities from running containers.'',
      Type [''object''],
      Properties [
      (''add'', Schema [Description ''Added capabilities'',
          Type [''array''],
          Items (Schema [Default (JString ''''),
            Type [''string''],
            Format ''''])]),
      (''drop'', Schema [Description ''Removed capabilities'',
          Type [''array''],
          Items (Schema [Default (JString ''''),
            Type [''string''],
            Format ''''])])]],
     Dependencies = []\<rparr>"

definition schema_k8sio_api_core_v1_ConfigMapEnvSource :: "(string \<Rightarrow> 'r) \<Rightarrow> 'r openapi_definition" where
  "schema_k8sio_api_core_v1_ConfigMapEnvSource ref =
    \<lparr>defSchema = Schema [Description (''ConfigMapEnvSource selects a ConfigMap to populate the environment variables with.'' @ [CHR 0x0A, CHR 0x0A] @ ''The contents of the target ConfigMap's Data field will represent the key-value pairs as environment variables.''),
      Type [''object''],
      Properties [
      (''name'', Schema [Description ''Name of the referent. More info: https://kubernetes.io/docs/concepts/overview/working-with-objects/names/#names'',
          Type [''string''],
          Format '''']),
      (''optional'', Schema [Description ''Specify whether the ConfigMap must be defined'',
          Type [''boolean''],
          Format ''''])]],
     Dependencies = []\<rparr>"

definition schema_k8sio_api_core_v1_ConfigMapKeySelector :: "(string \<Rightarrow> 'r) \<Rightarrow> 'r openapi_definition" where
  "schema_k8sio_api_core_v1_ConfigMapKeySelector ref =
    \<lparr>defSchema = Schema [Description ''Selects a key from a ConfigMap.'',
      Type [''object''],
      Properties [
      (''name'', Schema [Description ''Name of the referent. More info: https://kubernetes.io/docs/concepts/overview/working-with-objects/names/#names'',
          Type [''string''],
          Format '''']),
      (''key'', Schema [Description ''The key to select.'',
          Default (JString ''''),
          Type [''string''],
          Format '''']),
      (''optional'', Schema [Description ''Specify whether the ConfigMap or its key must be defined'',
          Type [''boolean''],
          Format ''''])],
      Required [''key''],
      Extensions [(''x-kubernetes-map-type'', JString ''atomic'')]],
     Dependencies = []\<rparr>"

definition schema_k8sio_api_core_v1_Container :: "(string \<Rightarrow> 'r) \<Rightarrow> 'r openapi_definition" where
  "schema_k8sio_api_core_v1_Container ref =
    \<lparr>defSchema = Schema [Description ''A single application container that you want to run within a pod.'',
      Type [''object''],
      Properties [
      (''name'', Schema [Description ''Name of the container specified as a DNS_LABEL. Each container in a pod must have a unique name (DNS_LABEL). Cannot be updated.'',
          Default (JString ''''),
          Type [''string''],
          Format '''']),
      (''image'', Schema [Description ''Docker image name. More info: https://kubernetes.io/docs/concepts/containers/images This field is optional to allow higher level config management to default or override container images in workload controllers like Deployments and StatefulSets.'',
          Type [''string''],
          Format '''']),
      (''command'', Schema [Description ''Entrypoint array. Not executed within a shell. The docker image's ENTRYPOINT is used if this is not provided. Variable references $(VAR_NAME) are expanded using the container's environment. If a variable cannot be resolved, the reference in the input string will be unchanged. Double $$ are reduced to a single $, which allows for escaping the $(VAR_NAME) syntax: i.e. \"$$(VAR_NAME)\" will produce the string literal \"$(VAR_NAME)\". Escaped references will never be expanded, regardless of whether the variable exists or not. Cannot be updated. More info: https://kubernetes.io/docs/tasks/inject-data-application/define-command-argument-container/#running-a-command-in-a-shell'',
          Type [''array''],
          Items (Schema [Default (JString ''''),
            Type [''string''],
            Format ''''])]),
      (''args'', Schema [Description ''Arguments to the entrypoint. The docker image's CMD is used if this is not provided. Variable references $(VAR_NAME) are expanded using the container's environment. If a variable cannot be resolved, the reference in the input string will be unchanged. Double $$ are reduced to a single $, which allows for escaping the $(VAR_NAME) syntax: i.e. \"$$(VAR_NAME)\" will produce the string literal \"$(VAR_NAME)\". Escaped references will never be expanded, regardless of whether the variable exists or not. Cannot be updated. More info: https://kubernetes.io/docs/tasks/inject-data-application/define-command-argument-container/#running-a-command-in-a-shell'',
          Type [''array''],
          Items (Schema [Default (JString ''''),
            Type [''string''],
            Format ''''])]),
      (''workingDir'', Schema [Description ''Container's working directory. If not specified, the container runtime's default will be used, which might be configured in the container image. Cannot be updated.'',
          Type [''string''],
          Format '''']),
      (''ports'', Schema [Extensions [(''x-kubernetes-list-map-keys'', JArray [JString ''containerPort'', JString ''protocol'']), (''x-kubernetes-list-type'', JString ''map''), (''x-kubernetes-patch-merge-key'', JString ''containerPort''), (''x-kubernetes-patch-strategy'', JString ''merge'')],
          Description ''List of ports to expose from the container. Exposing a port here gives the system additional information about the network connections a container uses, but is primarily informational. Not specifying a port here DOES NOT prevent that port from being exposed. Any port which is listening on the default \"0.0.0.0\" address inside a container will be accessible from the network. Cannot be updated.'',
          Type [''array''],
          Items (Schema [Default (JObject []),
            Ref (ref ''k8s.io/api/core/v1.ContainerPort'')])]),
      (''envFrom'', Schema [Description ''List of sources to populate environment variables in the container. The keys defined within a source must be a C_IDENTIFIER. All invalid keys will be reported as an event when the container is starting. When a key exists in multiple sources, the value associated with the last source will take precedence. Values defined by an Env with a duplicate key will take precedence. Cannot be updated.'',
          Type [''array''],
          Items (Schema [Default (JObject []),
            Ref (ref ''k8s.io/api/core/v1.EnvFromSource'')])]),
      (''env'', Schema [Extensions [(''x-kubernetes-patch-merge-key'', JString ''name''), (''x-kubernetes-patch-strategy'', JString ''merge'')],
          Description ''List of environment variables to set in the container. Cannot be updated.'',
          Type [''array''],
          Items (Schema [Default (JObject []),
            Ref (ref ''k8s.io/api/core/v1.EnvVar'')])]),
      (''resources'', Schema [Description ''Compute Resources required by this container. Cannot be updated. More info: https://kubernetes.io/docs/concepts/configuration/manage-resources-containers/'',
          Default (JObject []),
          Ref (ref ''k8s.io/api/core/v1.ResourceRequirements'')]),
      (''volumeMounts'', Schema [Extensions [(''x-kubernetes-patch-merge-key'', JString ''mountPath''), (''x-kubernetes-patch-strategy'', JString ''merge'')],
          Description ''Pod volumes to mount into the container's filesystem. Cannot be updated.'',
          Type [''array''],
          Items (Schema [Default (JObject []),
            Ref (ref ''k8s.io/api/core/v1.VolumeMount'')])]),
      (''volumeDevices'', Schema [Extensions [(''x-kubernetes-patch-merge-key'', JString ''devicePath''), (''x-kubernetes-patch-strategy'', JString ''merge'')],
          Description ''volumeDevices is the list of block devices to be used by the container.'',
          Type [''array''],
          Items (Schema [Default (JObject []),
            Ref (ref ''k8s.io/api/core/v1.VolumeDevice'')])]),
      (''livenessProbe'', Schema [Description ''Periodic probe of container liveness. Container will be restarted if the probe fails. Cannot be updated. More info: https://kubernetes.io/docs/concepts/workloads/pods/pod-lifecycle#container-probes'',
          Ref (ref ''k8s.io/api/core/v1.Probe'')]),
      (''readinessProbe'', Schema [Description ''Periodic probe of container service readiness. Container will be removed from service endpoints if the probe fails. Cannot be updated. More info: https://kubernetes.io/docs/concepts/workloads/pods/pod-lifecycle#container-probes'',
          Ref (ref ''k8s.io/api/core/v1.Probe'')]),
      (''startupProbe'', Schema [Description ''StartupProbe indicates that the Pod has successfully initialized. If specified, no other probes are executed until this completes successfully. If this probe fails, the Pod will be restarted, just as if the livenessProbe failed. This can be used to provide different probe parameters at the beginning of a Pod's lifecycle, when it might take a long time to load data or warm a cache, than during steady-state operation. This cannot be updated. More info: https://kubernetes.io/docs/concepts/workloads/pods/pod-lifecycle#container-probes'',
          Ref (ref ''k8s.io/api/core/v1.Probe'')]),
      (''lifecycle'', Schema [Description ''Actions that the management system should take in response to container lifecycle events. Cannot be updated.'',
          Ref (ref ''k8s.io/api/core/v1.Lifecycle'')]),
      (''terminationMessagePath'', Schema [Description ''Optional: Path at which the file to which the container's termination message will be written is mounted into the container's filesystem. Message written is intended to be brief final status, such as an assertion failure message. Will be truncated by the node if greater than 4096 bytes. The total message length across all containers will be limited to 12kb. Defaults to /dev/termination-log. Cannot be updated.'',
          Type [''string''],
          Format '''']),
      (''terminationMessagePolicy'', Schema [Description ''Indicate how the termination message should be populated. File will use the contents of terminationMessagePath to populate the container status message on both success and failure. FallbackToLogsOnError will use the last chunk of container log output if the termination message file is empty and the container exited with an error. The log output is limited to 2048 bytes or 80 lines, whichever is smaller. Defaults to File. Cannot be updated.'',
          Type [''string''],
          Format '''']),
      (''imagePullPolicy'', Schema [Description ''Image pull policy. One of Always, Never, IfNotPresent. Defaults to Always if :latest tag is specified, or IfNotPresent otherwise. Cannot be updated. More info: https://kubernetes.io/docs/concepts/containers/images#updating-images'',
          Type [''string''],
          Format '''']),
      (''securityContext'', Schema [Description ''SecurityContext defines the security options the container should be run with. If set, the fields of SecurityContext override the equivalent fields of PodSecurityContext. More info: https://kubernetes.io/docs/tasks/configure-pod-container/security-context/'',
          Ref (ref ''k8s.io/api/core/v1.SecurityContext'')]),
      (''stdin'', Schema [Description ''Whether this container should allocate a buffer for stdin in the container runtime. If this is not set, reads from stdin in the container will always result in EOF. Default is false.'',
          Type [''boolean''],
          Format '''']),
      (''stdinOnce'', Schema [Description ''Whether the container runtime should close the stdin channel after it has been opened by a single attach. When stdin is true the stdin stream will remain open across multiple attach sessions. If stdinOnce is set to true, stdin is opened on container start, is empty until the first client attaches to stdin, and then remains open and accepts data until the client disconnects, at which time stdin is closed and remains closed until the container is restarted. If this flag is false, a container processes that reads from stdin will never receive an EOF. Default is false'',
          Type [''boolean''],
          Format '''']),
      (''tty'', Schema [Description ''Whether this container should allocate a TTY for itself, also requires 'stdin' to be true. Default is false.'',
          Type [''boolean''],
          Format ''''])],
      Required [''name'']],
     Dependencies = [''k8s.io/api/core/v1.ContainerPort'',
     ''k8s.io/api/core/v1.EnvFromSource'',
     ''k8s.io/api/core/v1.EnvVar'',
     ''k8s.io/api/core/v1.Lifecycle'',
     ''k8s.io/api/core/v1.Probe'',
     ''k8s.io/api/core/v1.ResourceRequirements'',
     ''k8s.io/api/core/v1.SecurityContext'',
     ''k8s.io/api/core/v1.VolumeDevice'',
     ''k8s.io/api/core/v1.VolumeMount'']\<rparr>"

definition schema_k8sio_api_core_v1_ContainerPort :: "(string \<Rightarrow> 'r) \<Rightarrow> 'r openapi_definition" where
  "schema_k8sio_api_core_v1_ContainerPort ref =
    \<lparr>defSchema = Schema [Description ''ContainerPort represents a network port in a single container.'',
      Type [''object''],
      Properties [
      (''name'', Schema [Description ''If specified, this must be an IANA_SVC_NAME and unique within the pod. Each named port in a pod must have a unique name. Name for the port that can be referred to by services.'',
          Type [''string''],
          Format '''']),
      (''hostPort'', Schema [Description ''Number of port to expose on the host. If specified, this must be a valid port number, 0 < x < 65536. If HostNetwork is specified, this must match ContainerPort. Most containers do not need this.'',
          Type [''integer''],
          Format ''int32'']),
      (''containerPort'', Schema [Description ''Number of port to expose on the pod's IP address. This must be a valid port number, 0 < x < 65536.'',
          Default (JNumber 0),
          Type [''integer''],
          Format ''int32'']),
      (''protocol'', Schema [Description ''Protocol for port. Must be UDP, TCP, or SCTP. Defaults to \"TCP\".'',
          Default (JString ''TCP''),
          Type [''string''],
          Format '''']),
      (''hostIP'', Schema [Description ''What host IP to bind the external port to.'',
          Type [''string''],
          Format ''''])],
      Required [''containerPort'']],
     Dependencies = []\<rparr>"

definition schema_k8sio_api_core_v1_ContainerState :: "(string \<Rightarrow> 'r) \<Rightarrow> 'r openapi_definition" where
  "schema_k8sio_api_core_v1_ContainerState ref =
    \<lparr>defSchema = Schema [Description ''ContainerState holds a possible state of container. Only one of its members may be specified. If none of them is specified, the default one is ContainerStateWaiting.'',
      Type [''object''],
      Properties [
      (''waiting'', Schema [Description ''Details about a waiting container'',
          Ref (ref ''k8s.io/api/core/v1.ContainerStateWaiting'')]),
      (''running'', Schema [Description ''Details about a running container'',
          Ref (ref ''k8s.io/api/core/v1.ContainerStateRunning'')]),
      (''terminated'', Schema [Description ''Details about a terminated container'',
          Ref (ref ''k8s.io/api/core/v1.ContainerStateTerminated'')])]],
     Dependencies = [''k8s.io/api/core/v1.ContainerStateRunning'',
     ''k8s.io/api/core/v1.ContainerStateTerminated'',
     ''k8s.io/api/core/v1.ContainerStateWaiting'']\<rparr>"

definition schema_k8sio_api_core_v1_ContainerStateRunning :: "(string \<Rightarrow> 'r) \<Rightarrow> 'r openapi_definition" where
  "schema_k8sio_api_core_v1_ContainerStateRunning ref =
    \<lparr>defSchema = Schema [Description ''ContainerStateRunning is a running state of a container.'',
      Type [''object''],
      Properties [
      (''startedAt'', Schema [Description ''Time at which the container was last (re-)started'',
          Default (JObject []),
          Ref (ref ''k8s.io/apimachinery/pkg/apis/meta/v1.Time'')])]],
     Dependencies = [''k8s.io/apimachinery/pkg/apis/meta/v1.Time'']\<rparr>"

definition schema_k8sio_api_core_v1_ContainerStateTerminated :: "(string \<Rightarrow> 'r) \<Rightarrow> 'r openapi_definition" where
  "schema_k8sio_api_core_v1_ContainerStateTerminated ref =
    \<lparr>defSchema = Schema [Description ''ContainerStateTerminated is a terminated state of a container.'',
      Type [''object''],
      Properties [
      (''exitCode'', Schema [Description ''Exit status from the last termination of the container'',
          Default (JNumber 0),
          Type [''integer''],
          Format ''int32'']),
      (''signal'', Schema [Description ''Signal from the last termination of the container'',
          Type [''integer''],
          Format ''int32'']),
      (''reason'', Schema [Description ''(brief) reason from the last termination of the container'',
          Type [''string''],
          Format '''']),
      (''message'', Schema [Description ''Message regarding the last termination of the container'',
          Type [''string''],
          Format '''']),
      (''startedAt'', Schema [Description ''Time at which previous execution of the container started'',
          Default (JObject []),
          Ref (ref ''k8s.io/apimachinery/pkg/apis/meta/v1.Time'')]),
      (''finishedAt'', Schema [Description ''Time at which the container last terminated'',
          Default (JObject []),
          Ref (ref ''k8s.io/apimachinery/pkg/apis/meta/v1.Time'')]),
      (''containerID'', Schema [Description (''Container's ID in the format 'docker://<container_id>'' @ [CHR 0x27]),
          Type [''string''],
          Format ''''])],
      Required [''exitCode'']],
     Dependencies = [''k8s.io/apimachinery/pkg/apis/meta/v1.Time'']\<rparr>"

definition schema_k8sio_api_core_v1_ContainerStateWaiting :: "(string \<Rightarrow> 'r) \<Rightarrow> 'r openapi_definition" where
  "schema_k8sio_api_core_v1_ContainerStateWaiting ref =
    \<lparr>defSchema = Schema [Description ''ContainerStateWaiting is a waiting state of a container.'',
      Type [''object''],
      Properties [
      (''reason'', Schema [Description ''(brief) reason the container is not yet running.'',
          Type [''string''],
          Format '''']),
      (''message'', Schema [Description ''Message regarding why the container is not yet running.'',
          Type [''string''],
          Format ''''])]],
     Dependencies = []\<rparr>"

definition schema_k8sio_api_core_v1_ContainerStatus :: "(string \<Rightarrow> 'r) \<Rightarrow> 'r openapi_definition" where
  "schema_k8sio_api_core_v1_ContainerStatus ref =
    \<lparr>defSchema = Schema [Description ''ContainerStatus contains details for the current status of this container.'',
      Type [''object''],
      Properties [
      (''name'', Schema [Description ''This must be a DNS_LABEL. Each container in a pod must have a unique name. Cannot be updated.'',
          Default (JString ''''),
          Type [''string''],
          Format '''']),
      (''state'', Schema [Description ''Details about the container's current condition.'',
          Default (JObject []),
          Ref (ref ''k8s.io/api/core/v1.ContainerState'')]),
      (''lastState'', Schema [Description ''Details about the container's last termination condition.'',
          Default (JObject []),
          Ref (ref ''k8s.io/api/core/v1.ContainerState'')]),
      (''ready'', Schema [Description ''Specifies whether the container has passed its readiness probe.'',
          Default (JBool False),
          Type [''boolean''],
          Format '''']),
      (''restartCount'', Schema [Description ''The number of times the container has been restarted.'',
          Default (JNumber 0),
          Type [''integer''],
          Format ''int32'']),
      (''image'', Schema [Description ''The image the container is running. More info: https://kubernetes.io/docs/concepts/containers/images.'',
          Default (JString ''''),
          Type [''string''],
          Format '''']),
      (''imageID'', Schema [Description ''ImageID of the container's image.'',
          Default (JString ''''),
          Type [''string''],
          Format '''']),
      (''containerID'', Schema [Description ''Container's ID in the format 'docker://<container_id>'.'',
          Type [''string''],
          Format '''']),
      (''started'', Schema [Description ''Specifies whether the container has passed its startup probe. Initialized as false, becomes true after startupProbe is considered successful. Resets to false when the container is restarted, or if kubelet loses state temporarily. Is always true when no startupProbe is defined.'',
          Type [''boolean''],
          Format ''''])],
      Required [''name'', ''ready'', ''restartCount'', ''image'', ''imageID'']],
     Dependencies = [''k8s.io/api/core/v1.ContainerState'']\<rparr>"

definition schema_k8sio_api_core_v1_EnvFromSource :: "(string \<Rightarrow> 'r) \<Rightarrow> 'r openapi_definition" where
  "schema_k8sio_api_core_v1_EnvFromSource ref =
    \<lparr>defSchema = Schema [Description ''EnvFromSource represents the source of a set of ConfigMaps'',
      Type [''object''],
      Properties [
      (''prefix'', Schema [Description ''An optional identifier to prepend to each key in the ConfigMap. Must be a C_IDENTIFIER.'',
          Type [''string''],
          Format '''']),
      (''configMapRef'', Schema [Description ''The ConfigMap to select from'',
          Ref (ref ''k8s.io/api/core/v1.ConfigMapEnvSource'')]),
      (''secretRef'', Schema [Description ''The Secret to select from'',
          Ref (ref ''k8s.io/api/core/v1.SecretEnvSource'')])]],
     Dependencies = [''k8s.io/api/core/v1.ConfigMapEnvSource'',
     ''k8s.io/api/core/v1.SecretEnvSource'']\<rparr>"

definition schema_k8sio_api_core_v1_EnvVar :: "(string \<Rightarrow> 'r) \<Rightarrow> 'r openapi_definition" where
  "schema_k8sio_api_core_v1_EnvVar ref =
    \<lparr>defSchema = Schema [Description ''EnvVar represents an environment variable present in a Container.'',
      Type [''object''],
      Properties [
      (''name'', Schema [Description ''Name of the environment variable. Must be a C_IDENTIFIER.'',
          Default (JString ''''),
          Type [''string''],
          Format '''']),
      (''value'', Schema [Description ''Variable references $(VAR_NAME) are expanded using the previously defined environment variables in the container and any service environment variables. If a variable cannot be resolved, the reference in the input string will be unchanged. Double $$ are reduced to a single $, which allows for escaping the $(VAR_NAME) syntax: i.e. \"$$(VAR_NAME)\" will produce the string literal \"$(VAR_NAME)\". Escaped references will never be expanded, regardless of whether the variable exists or not. Defaults to \"\".'',
          Type [''string''],
          Format '''']),
      (''valueFrom'', Schema [Description ''Source for the environment variable's value. Cannot be used if value is not empty.'',
          Ref (ref ''k8s.io/api/core/v1.EnvVarSource'')])],
      Required [''name'']],
     Dependencies = [''k8s.io/api/core/v1.EnvVarSource'']\<rparr>"

definition schema_k8sio_api_core_v1_EnvVarSource :: "(string \<Rightarrow> 'r) \<Rightarrow> 'r openapi_definition" where
  "schema_k8sio_api_core_v1_EnvVarSource ref =
    \<lparr>defSchema = Schema [Description ''EnvVarSource represents a source for the value of an EnvVar.'',
      Type [''object''],
      Properties [
      (''fieldRef'', Schema [Description ''Selects a field of the pod: supports metadata.name, metadata.namespace, `metadata.labels['<KEY>']`, `metadata.annotations['<KEY>']`, spec.nodeName, spec.serviceAccountName, status.hostIP, status.podIP, status.podIPs.'',
          Ref (ref ''k8s.io/api/core/v1.ObjectFieldSelector'')]),
      (''resourceFieldRef'', Schema [Description ''Selects a resource of the container: only resources limits and requests (limits.cpu, limits.memory, limits.ephemeral-storage, requests.cpu, requests.memory and requests.ephemeral-storage) are currently supported.'',
          Ref (ref ''k8s.io/api/core/v1.ResourceFieldSelector'')]),
      (''configMapKeyRef'', Schema [Description ''Selects a key of a ConfigMap.'',
          Ref (ref ''k8s.io/api/core/v1.ConfigMapKeySelector'')]),
      (''secretKeyRef'', Schema [Description ''Selects a key of a secret in the pod's namespace'',
          Ref (ref ''k8s.io/api/core/v1.SecretKeySelector'')])]],
     Dependencies = [''k8s.io/api/core/v1.ConfigMapKeySelector'',
     ''k8s.io/api/core/v1.ObjectFieldSelector'',
     ''k8s.io/api/core/v1.ResourceFieldSelector'',
     ''k8s.io/api/core/v1.SecretKeySelector'']\<rparr>"

definition schema_k8sio_api_core_v1_EphemeralContainer :: "(string \<Rightarrow> 'r) \<Rightarrow> 'r openapi_definition" where
  "schema_k8sio_api_core_v1_EphemeralContainer ref =
    \<lparr>defSchema = Schema [Description ''An EphemeralContainer is a container that may be added temporarily to an existing pod for user-initiated activities such as debugging. Ephemeral containers have no resource or scheduling guarantees, and they will not be restarted when they exit or when a pod is removed or restarted. If an ephemeral container causes a pod to exceed its resource allocation, the pod may be evicted. Ephemeral containers may not be added by directly updating the pod spec. They must be added via the pod's ephemeralcontainers subresource, and they will appear in the pod spec once added. This is an alpha feature enabled by the EphemeralContainers feature flag.'',
      Type [''object''],
      Properties [
      (''name'', Schema [Description ''Name of the ephemeral container specified as a DNS_LABEL. This name must be unique among all containers, init containers and ephemeral containers.'',
          Default (JString ''''),
          Type [''string''],
          Format '''']),
      (''image'', Schema [Description ''Docker image name. More info: https://kubernetes.io/docs/concepts/containers/images'',
          Type [''string''],
          Format '''']),
      (''command'', Schema [Description ''Entrypoint array. Not executed within a shell. The docker image's ENTRYPOINT is used if this is not provided. Variable references $(VAR_NAME) are expanded using the container's environment. If a variable cannot be resolved, the reference in the input string will be unchanged. Double $$ are reduced to a single $, which allows for escaping the $(VAR_NAME) syntax: i.e. \"$$(VAR_NAME)\" will produce the string literal \"$(VAR_NAME)\". Escaped references will never be expanded, regardless of whether the variable exists or not. Cannot be updated. More info: https://kubernetes.io/docs/tasks/inject-data-application/define-command-argument-container/#running-a-command-in-a-shell'',
          Type [''array''],
          Items (Schema [Default (JString ''''),
            Type [''string''],
            Format ''''])]),
      (''args'', Schema [Description ''Arguments to the entrypoint. The docker image's CMD is used if this is not provided. Variable references $(VAR_NAME) are expanded using the container's environment. If a variable cannot be resolved, the reference in the input string will be unchanged. Double $$ are reduced to a single $, which allows for escaping the $(VAR_NAME) syntax: i.e. \"$$(VAR_NAME)\" will produce the string literal \"$(VAR_NAME)\". Escaped references will never be expanded, regardless of whether the variable exists or not. Cannot be updated. More info: https://kubernetes.io/docs/tasks/inject-data-application/define-command-argument-container/#running-a-command-in-a-shell'',
          Type [''array''],
          Items (Schema [Default (JString ''''),
            Type [''string''],
            Format ''''])]),
      (''workingDir'', Schema [Description ''Container's working directory. If not specified, the container runtime's default will be used, which might be configured in the container image. Cannot be updated.'',
          Type [''string''],
          Format '''']),
      (''ports'', Schema [Description ''Ports are not allowed for ephemeral containers.'',
          Type [''array''],
          Items (Schema [Default (JObject []),
            Ref (ref ''k8s.io/api/core/v1.ContainerPort'')])]),
      (''envFrom'', Schema [Description ''List of sources to populate environment variables in the container. The keys defined within a source must be a C_IDENTIFIER. All invalid keys will be reported as an event when the container is starting. When a key exists in multiple sources, the value associated with the last source will take precedence. Values defined by an Env with a duplicate key will take precedence. Cannot be updated.'',
          Type [''array''],
          Items (Schema [Default (JObject []),
            Ref (ref ''k8s.io/api/core/v1.EnvFromSource'')])]),
      (''env'', Schema [Extensions [(''x-kubernetes-patch-merge-key'', JString ''name''), (''x-kubernetes-patch-strategy'', JString ''merge'')],
          Description ''List of environment variables to set in the container. Cannot be updated.'',
          Type [''array''],
          Items (Schema [Default (JObject []),
            Ref (ref ''k8s.io/api/core/v1.EnvVar'')])]),
      (''resources'', Schema [Description ''Resources are not allowed for ephemeral containers. Ephemeral containers use spare resources already allocated to the pod.'',
          Default (JObject []),
          Ref (ref ''k8s.io/api/core/v1.ResourceRequirements'')]),
      (''volumeMounts'', Schema [Extensions [(''x-kubernetes-patch-merge-key'', JString ''mountPath''), (''x-kubernetes-patch-strategy'', JString ''merge'')],
          Description ''Pod volumes to mount into the container's filesystem. Cannot be updated.'',
          Type [''array''],
          Items (Schema [Default (JObject []),
            Ref (ref ''k8s.io/api/core/v1.VolumeMount'')])]),
      (''volumeDevices'', Schema [Extensions [(''x-kubernetes-patch-merge-key'', JString ''devicePath''), (''x-kubernetes-patch-strategy'', JString ''merge'')],
          Description ''volumeDevices is the list of block devices to be used by the container.'',
          Type [''array''],
          Items (Schema [Default (JObject []),
            Ref (ref ''k8s.io/api/core/v1.VolumeDevice'')])]),
      (''livenessProbe'', Schema [Description ''Probes are not allowed for ephemeral containers.'',
          Ref (ref ''k8s.io/api/core/v1.Probe'')]),
      (''readinessProbe'', Schema [Description ''Probes are not allowed for ephemeral containers.'',
          Ref (ref ''k8s.io/api/core/v1.Probe'')]),
      (''startupProbe'', Schema [Description ''Probes are not allowed for ephemeral containers.'',
          Ref (ref ''k8s.io/api/core/v1.Probe'')]),
      (''lifecycle'', Schema [Description ''Lifecycle is not allowed for ephemeral containers.'',
          Ref (ref ''k8s.io/api/core/v1.Lifecycle'')]),
      (''terminationMessagePath'', Schema [Description ''Optional: Path at which the file to which the container's termination message will be written is mounted into the container's filesystem. Message written is intended to be brief final status, such as an assertion failure message. Will be truncated by the node if greater than 4096 bytes. The total message length across all containers will be limited to 12kb. Defaults to /dev/termination-log. Cannot be updated.'',
          Type [''string''],
          Format '''']),
      (''terminationMessagePolicy'', Schema [Description ''Indicate how the termination message should be populated. File will use the contents of terminationMessagePath to populate the container status message on both success and failure. FallbackToLogsOnError will use the last chunk of container log output if the termination message file is empty and the container exited with an error. The log output is limited to 2048 bytes or 80 lines, whichever is smaller. Defaults to File. Cannot be updated.'',
          Type [''string''],
          Format '''']),
      (''imagePullPolicy'', Schema [Description ''Image pull policy. One of Always, Never, IfNotPresent. Defaults to Always if :latest tag is specified, or IfNotPresent otherwise. Cannot be updated. More info: https://kubernetes.io/docs/concepts/containers/images#updating-images'',
          Type [''string''],
          Format '''']),
      (''securityContext'', Schema [Description ''Optional: SecurityContext defines the security options the ephemeral container should be run with. If set, the fields of SecurityContext override the equivalent fields of PodSecurityContext.'',
          Ref (ref ''k8s.io/api/core/v1.SecurityContext'')]),
      (''stdin'', Schema [Description ''Whether this container should allocate a buffer for stdin in the container runtime. If this is not set, reads from stdin in the container will always result in EOF. Default is false.'',
          Type [''boolean''],
          Format '''']),
      (''stdinOnce'', Schema [Description ''Whether the container runtime should close the stdin channel after it has been opened by a single attach. When stdin is true the stdin stream will remain open across multiple attach sessions. If stdinOnce is set to true, stdin is opened on container start, is empty until the first client attaches to stdin, and then remains open and accepts data until the client disconnects, at which time stdin is closed and remains closed until the container is restarted. If this flag is false, a container processes that reads from stdin will never receive an EOF. Default is false'',
          Type [''boolean''],
          Format '''']),
      (''tty'', Schema [Description ''Whether this container should allocate a TTY for itself, also requires 'stdin' to be true. Default is false.'',
          Type [''boolean''],
          Format '''']),
      (''targetContainerName'', Schema [Description ''If set, the name of the container from PodSpec that this ephemeral container targets. The ephemeral container will be run in the namespaces (IPC, PID, etc) of this container. If not set then the ephemeral container is run in whatever namespaces are shared for the pod. Note that the container runtime must support this feature.'',
          Type [''string''],
          Format ''''])],
      Required [''name'']],
     Dependencies = [''k8s.io/api/core/v1.ContainerPort'',
     ''k8s.io/api/core/v1.EnvFromSource'',
     ''k8s.io/api/core/v1.EnvVar'',
     ''k8s.io/api/core/v1.Lifecycle'',
     ''k8s.io/api/core/v1.Probe'',
     ''k8s.io/api/core/v1.ResourceRequirements'',
     ''k8s.io/api/core/v1.SecurityContext'',
     ''k8s.io/api/core/v1.VolumeDevice'',
     ''k8s.io/api/core/v1.VolumeMount'']\<rparr>"

definition schema_k8sio_api_core_v1_ExecAction :: "(string \<Rightarrow> 'r) \<Rightarrow> 'r openapi_definition" where
  "schema_k8sio_api_core_v1_ExecAction ref =
    \<lparr>defSchema = Schema [Description ''ExecAction describes a \"run in container\" action.'',
      Type [''object''],
      Properties [
      (''command'', Schema [Description ''Command is the command line to execute inside the container, the working directory for the command  is root ('/') in the container's filesystem. The command is simply exec'd, it is not run inside a shell, so traditional shell instructions ('|', etc) won't work. To use a shell, you need to explicitly call out to that shell. Exit status of 0 is treated as live/healthy and non-zero is unhealthy.'',
          Type [''array''],
          Items (Schema [Default (JString ''''),
            Type [''string''],
            Format ''''])])]],
     Dependencies = []\<rparr>"

definition schema_k8sio_api_core_v1_HTTPGetAction :: "(string \<Rightarrow> 'r) \<Rightarrow> 'r openapi_definition" where
  "schema_k8sio_api_core_v1_HTTPGetAction ref =
    \<lparr>defSchema = Schema [Description ''HTTPGetAction describes an action based on HTTP Get requests.'',
      Type [''object''],
      Properties [
      (''path'', Schema [Description ''Path to access on the HTTP server.'',
          Type [''string''],
          Format '''']),
      (''port'', Schema [Description ''Name or number of the port to access on the container. Number must be in the range 1 to 65535. Name must be an IANA_SVC_NAME.'',
          Default (JObject []),
          Ref (ref ''k8s.io/apimachinery/pkg/util/intstr.IntOrString'')]),
      (''host'', Schema [Description ''Host name to connect to, defaults to the pod IP. You probably want to set \"Host\" in httpHeaders instead.'',
          Type [''string''],
          Format '''']),
      (''scheme'', Schema [Description ''Scheme to use for connecting to the host. Defaults to HTTP.'',
          Type [''string''],
          Format '''']),
      (''httpHeaders'', Schema [Description ''Custom headers to set in the request. HTTP allows repeated headers.'',
          Type [''array''],
          Items (Schema [Default (JObject []),
            Ref (ref ''k8s.io/api/core/v1.HTTPHeader'')])])],
      Required [''port'']],
     Dependencies = [''k8s.io/api/core/v1.HTTPHeader'',
     ''k8s.io/apimachinery/pkg/util/intstr.IntOrString'']\<rparr>"

definition schema_k8sio_api_core_v1_HTTPHeader :: "(string \<Rightarrow> 'r) \<Rightarrow> 'r openapi_definition" where
  "schema_k8sio_api_core_v1_HTTPHeader ref =
    \<lparr>defSchema = Schema [Description ''HTTPHeader describes a custom header to be used in HTTP probes'',
      Type [''object''],
      Properties [
      (''name'', Schema [Description ''The header field name'',
          Default (JString ''''),
          Type [''string''],
          Format '''']),
      (''value'', Schema [Description ''The header field value'',
          Default (JString ''''),
          Type [''string''],
          Format ''''])],
      Required [''name'', ''value'']],
     Dependencies = []\<rparr>"

definition schema_k8sio_api_core_v1_Handler :: "(string \<Rightarrow> 'r) \<Rightarrow> 'r openapi_definition" where
  "schema_k8sio_api_core_v1_Handler ref =
    \<lparr>defSchema = Schema [Description ''Handler defines a specific action that should be taken'',
      Type [''object''],
      Properties [
      (''exec'', Schema [Description ''One and only one of the following should be specified. Exec specifies the action to take.'',
          Ref (ref ''k8s.io/api/core/v1.ExecAction'')]),
      (''httpGet'', Schema [Description ''HTTPGet specifies the http request to perform.'',
          Ref (ref ''k8s.io/api/core/v1.HTTPGetAction'')]),
      (''tcpSocket'', Schema [Description ''TCPSocket specifies an action involving a TCP port. TCP hooks not yet supported'',
          Ref (ref ''k8s.io/api/core/v1.TCPSocketAction'')])]],
     Dependencies = [''k8s.io/api/core/v1.ExecAction'',
     ''k8s.io/api/core/v1.HTTPGetAction'',
     ''k8s.io/api/core/v1.TCPSocketAction'']\<rparr>"

definition schema_k8sio_api_core_v1_Lifecycle :: "(string \<Rightarrow> 'r) \<Rightarrow> 'r openapi_definition" where
  "schema_k8sio_api_core_v1_Lifecycle ref =
    \<lparr>defSchema = Schema [Description ''Lifecycle describes actions that the management system should take in response to container lifecycle events. For the PostStart and PreStop lifecycle handlers, management of the container blocks until the action is complete, unless the container process fails, in which case the handler is aborted.'',
      Type [''object''],
      Properties [
      (''postStart'', Schema [Description ''PostStart is called immediately after a container is created. If the handler fails, the container is terminated and restarted according to its restart policy. Other management of the container blocks until the hook completes. More info: https://kubernetes.io/docs/concepts/containers/container-lifecycle-hooks/#container-hooks'',
          Ref (ref ''k8s.io/api/core/v1.Handler'')]),
      (''preStop'', Schema [Description ''PreStop is called immediately before a container is terminated due to an API request or management event such as liveness/startup probe failure, preemption, resource contention, etc. The handler is not called if the container crashes or exits. The reason for termination is passed to the handler. The Pod's termination grace period countdown begins before the PreStop hooked is executed. Regardless of the outcome of the handler, the container will eventually terminate within the Pod's termination grace period. Other management of the container blocks until the hook completes or until the termination grace period is reached. More info: https://kubernetes.io/docs/concepts/containers/container-lifecycle-hooks/#container-hooks'',
          Ref (ref ''k8s.io/api/core/v1.Handler'')])]],
     Dependencies = [''k8s.io/api/core/v1.Handler'']\<rparr>"

definition schema_k8sio_api_core_v1_ObjectFieldSelector :: "(string \<Rightarrow> 'r) \<Rightarrow> 'r openapi_definition" where
  "schema_k8sio_api_core_v1_ObjectFieldSelector ref =
    \<lparr>defSchema = Schema [Description ''ObjectFieldSelector selects an APIVersioned field of an object.'',
      Type [''object''],
      Properties [
      (''apiVersion'', Schema [Description ''Version of the schema the FieldPath is written in terms of, defaults to \"v1\".'',
          Type [''string''],
          Format '''']),
      (''fieldPath'', Schema [Description ''Path of the field to select in the specified API version.'',
          Default (JString ''''),
          Type [''string''],
          Format ''''])],
      Required [''fieldPath''],
      Extensions [(''x-kubernetes-map-type'', JString ''atomic'')]],
     Dependencies = []\<rparr>"

definition schema_k8sio_api_core_v1_Probe :: "(string \<Rightarrow> 'r) \<Rightarrow> 'r openapi_definition" where
  "schema_k8sio_api_core_v1_Probe ref =
    \<lparr>defSchema = Schema [Description ''Probe describes a health check to be performed against a container to determine whether it is alive or ready to receive traffic.'',
      Type [''object''],
      Properties [
      (''exec'', Schema [Description ''One and only one of the following should be specified. Exec specifies the action to take.'',
          Ref (ref ''k8s.io/api/core/v1.ExecAction'')]),
      (''httpGet'', Schema [Description ''HTTPGet specifies the http request to perform.'',
          Ref (ref ''k8s.io/api/core/v1.HTTPGetAction'')]),
      (''tcpSocket'', Schema [Description ''TCPSocket specifies an action involving a TCP port. TCP hooks not yet supported'',
          Ref (ref ''k8s.io/api/core/v1.TCPSocketAction'')]),
      (''initialDelaySeconds'', Schema [Description ''Number of seconds after the container has started before liveness probes are initiated. More info: https://kubernetes.io/docs/concepts/workloads/pods/pod-lifecycle#container-probes'',
          Type [''integer''],
          Format ''int32'']),
      (''timeoutSeconds'', Schema [Description ''Number of seconds after which the probe times out. Defaults to 1 second. Minimum value is 1. More info: https://kubernetes.io/docs/concepts/workloads/pods/pod-lifecycle#container-probes'',
          Type [''integer''],
          Format ''int32'']),
      (''periodSeconds'', Schema [Description ''How often (in seconds) to perform the probe. Default to 10 seconds. Minimum value is 1.'',
          Type [''integer''],
          Format ''int32'']),
      (''successThreshold'', Schema [Description ''Minimum consecutive successes for the probe to be considered successful after having failed. Defaults to 1. Must be 1 for liveness and startup. Minimum value is 1.'',
          Type [''integer''],
          Format ''int32'']),
      (''failureThreshold'', Schema [Description ''Minimum consecutive failures for the probe to be considered failed after having succeeded. Defaults to 3. Minimum value is 1.'',
          Type [''integer''],
          Format ''int32'']),
      (''terminationGracePeriodSeconds'', Schema [Description ''Optional duration in seconds the pod needs to terminate gracefully upon probe failure. The grace period is the duration in seconds after the processes running in the pod are sent a termination signal and the time when the processes are forcibly halted with a kill signal. Set this value longer than the expected cleanup time for your process. If this value is nil, the pod's terminationGracePeriodSeconds will be used. Otherwise, this value overrides the value provided by the pod spec. Value must be non-negative integer. The value zero indicates stop immediately via the kill signal (no opportunity to shut down). This is a beta field and requires enabling ProbeTerminationGracePeriod feature gate. Minimum value is 1. spec.terminationGracePeriodSeconds is used if unset.'',
          Type [''integer''],
          Format ''int64''])]],
     Dependencies = [''k8s.io/api/core/v1.ExecAction'',
     ''k8s.io/api/core/v1.HTTPGetAction'',
     ''k8s.io/api/core/v1.TCPSocketAction'']\<rparr>"

definition schema_k8sio_api_core_v1_ResourceFieldSelector :: "(string \<Rightarrow> 'r) \<Rightarrow> 'r openapi_definition" where
  "schema_k8sio_api_core_v1_ResourceFieldSelector ref =
    \<lparr>defSchema = Schema [Description ''ResourceFieldSelector represents container resources (cpu, memory) and their output format'',
      Type [''object''],
      Properties [
      (''containerName'', Schema [Description ''Container name: required for volumes, optional for env vars'',
          Type [''string''],
          Format '''']),
      (''resource'', Schema [Description ''Required: resource to select'',
          Default (JString ''''),
          Type [''string''],
          Format '''']),
      (''divisor'', Schema [Description ''Specifies the output format of the exposed resources, defaults to \"1\"'',
          Default (JObject []),
          Ref (ref ''k8s.io/apimachinery/pkg/api/resource.Quantity'')])],
      Required [''resource''],
      Extensions [(''x-kubernetes-map-type'', JString ''atomic'')]],
     Dependencies = [''k8s.io/apimachinery/pkg/api/resource.Quantity'']\<rparr>"

definition schema_k8sio_api_core_v1_ResourceRequirements :: "(string \<Rightarrow> 'r) \<Rightarrow> 'r openapi_definition" where
  "schema_k8sio_api_core_v1_ResourceRequirements ref =
    \<lparr>defSchema = Schema [Description ''ResourceRequirements describes the compute resource requirements.'',
      Type [''object''],
      Properties [
      (''limits'', Schema [Description ''Limits describes the maximum amount of compute resources allowed. More info: https://kubernetes.io/docs/concepts/configuration/manage-resources-containers/'',
          Type [''object''],
          AdditionalProperties True (Schema [Default (JObject []),
            Ref (ref ''k8s.io/apimachinery/pkg/api/resource.Quantity'')])]),
      (''requests'', Schema [Description ''Requests describes the minimum amount of compute resources required. If Requests is omitted for a container, it defaults to Limits if that is explicitly specified, otherwise to an implementation-defined value. More info: https://kubernetes.io/docs/concepts/configuration/manage-resources-containers/'',
          Type [''object''],
          AdditionalProperties True (Schema [Default (JObject []),
            Ref (ref ''k8s.io/apimachinery/pkg/api/resource.Quantity'')])])]],
     Dependencies = [''k8s.io/apimachinery/pkg/api/resource.Quantity'']\<rparr>"

definition schema_k8sio_api_core_v1_SELinuxOptions :: "(string \<Rightarrow> 'r) \<Rightarrow> 'r openapi_definition" where
  "schema_k8sio_api_core_v1_SELinuxOptions ref =
    \<lparr>defSchema = Schema [Description ''SELinuxOptions are the labels to be applied to the container'',
      Type [''object''],
      Properties [
      (''user'', Schema [Description ''User is a SELinux user label that applies to the container.'',
          Type [''string''],
          Format '''']),
      (''role'', Schema [Description ''Role is a SELinux role label that applies to the container.'',
          Type [''string''],
          Format '''']),
      (''type'', Schema [Description ''Type is a SELinux type label that applies to the container.'',
          Type [''string''],
          Format '''']),
      (''level'', Schema [Description ''Level is SELinux level label that applies to the container.'',
          Type [''string''],
          Format ''''])]],
     Dependencies = []\<rparr>"

definition schema_k8sio_api_core_v1_SeccompProfile :: "(string \<Rightarrow> 'r) \<Rightarrow> 'r openapi_definition" where
  "schema_k8sio_api_core_v1_SeccompProfile ref =
    \<lparr>defSchema = Schema [Description ''SeccompProfile defines a pod/container's seccomp profile settings. Only one profile source may be set.'',
      Type [''object''],
      Properties [
      (''type'', Schema [Description (''type indicates which kind of seccomp profile will be applied. Valid options are:'' @ [CHR 0x0A, CHR 0x0A] @ ''Localhost - a profile defined in a file on the node should be used. RuntimeDefault - the container runtime default profile should be used. Unconfined - no profile should be applied.''),
          Default (JString ''''),
          Type [''string''],
          Format '''']),
      (''localhostProfile'', Schema [Description ''localhostProfile indicates a profile defined in a file on the node should be used. The profile must be preconfigured on the node to work. Must be a descending path, relative to the kubelet's configured seccomp profile location. Must only be set if type is \"Localhost\".'',
          Type [''string''],
          Format ''''])],
      Required [''type''],
      Extensions [(''x-kubernetes-unions'', JArray [JObject [(''discriminator'', JString ''type''), (''fields-to-discriminateBy'', JObject [(''localhostProfile'', JString ''LocalhostProfile'')])]])]],
     Dependencies = []\<rparr>"

definition schema_k8sio_api_core_v1_SecretEnvSource :: "(string \<Rightarrow> 'r) \<Rightarrow> 'r openapi_definition" where
  "schema_k8sio_api_core_v1_SecretEnvSource ref =
    \<lparr>defSchema = Schema [Description (''SecretEnvSource selects a Secret to populate the environment variables with.'' @ [CHR 0x0A, CHR 0x0A] @ ''The contents of the target Secret's Data field will represent the key-value pairs as environment variables.''),
      Type [''object''],
      Properties [
      (''name'', Schema [Description ''Name of the referent. More info: https://kubernetes.io/docs/concepts/overview/working-with-objects/names/#names'',
          Type [''string''],
          Format '''']),
      (''optional'', Schema [Description ''Specify whether the Secret must be defined'',
          Type [''boolean''],
          Format ''''])]],
     Dependencies = []\<rparr>"

definition schema_k8sio_api_core_v1_SecretKeySelector :: "(string \<Rightarrow> 'r) \<Rightarrow> 'r openapi_definition" where
  "schema_k8sio_api_core_v1_SecretKeySelector ref =
    \<lparr>defSchema = Schema [Description ''SecretKeySelector selects a key of a Secret.'',
      Type [''object''],
      Properties [
      (''name'', Schema [Description ''Name of the referent. More info: https://kubernetes.io/docs/concepts/overview/working-with-objects/names/#names'',
          Type [''string''],
          Format '''']),
      (''key'', Schema [Description ''The key of the secret to select from.  Must be a valid secret key.'',
          Default (JString ''''),
          Type [''string''],
          Format '''']),
      (''optional'', Schema [Description ''Specify whether the Secret or its key must be defined'',
          Type [''boolean''],
          Format ''''])],
      Required [''key''],
      Extensions [(''x-kubernetes-map-type'', JString ''atomic'')]],
     Dependencies = []\<rparr>"

definition schema_k8sio_api_core_v1_SecurityContext :: "(string \<Rightarrow> 'r) \<Rightarrow> 'r openapi_definition" where
  "schema_k8sio_api_core_v1_SecurityContext ref =
    \<lparr>defSchema = Schema [Description ''SecurityContext holds security configuration that will be applied to a container. Some fields are present in both SecurityContext and PodSecurityContext.  When both are set, the values in SecurityContext take precedence.'',
      Type [''object''],
      Properties [
      (''capabilities'', Schema [Description ''The capabilities to add/drop when running containers. Defaults to the default set of capabilities granted by the container runtime.'',
          Ref (ref ''k8s.io/api/core/v1.Capabilities'')]),
      (''privileged'', Schema [Description ''Run container in privileged mode. Processes in privileged containers are essentially equivalent to root on the host. Defaults to false.'',
          Type [''boolean''],
          Format '''']),
      (''seLinuxOptions'', Schema [Description ''The SELinux context to be applied to the container. If unspecified, the container runtime will allocate a random SELinux context for each container.  May also be set in PodSecurityContext.  If set in both SecurityContext and PodSecurityContext, the value specified in SecurityContext takes precedence.'',
          Ref (ref ''k8s.io/api/core/v1.SELinuxOptions'')]),
      (''windowsOptions'', Schema [Description ''The Windows specific settings applied to all containers. If unspecified, the options from the PodSecurityContext will be used. If set in both SecurityContext and PodSecurityContext, the value specified in SecurityContext takes precedence.'',
          Ref (ref ''k8s.io/api/core/v1.WindowsSecurityContextOptions'')]),
      (''runAsUser'', Schema [Description ''The UID to run the entrypoint of the container process. Defaults to user specified in image metadata if unspecified. May also be set in PodSecurityContext.  If set in both SecurityContext and PodSecurityContext, the value specified in SecurityContext takes precedence.'',
          Type [''integer''],
          Format ''int64'']),
      (''runAsGroup'', Schema [Description ''The GID to run the entrypoint of the container process. Uses runtime default if unset. May also be set in PodSecurityContext.  If set in both SecurityContext and PodSecurityContext, the value specified in SecurityContext takes precedence.'',
          Type [''integer''],
          Format ''int64'']),
      (''runAsNonRoot'', Schema [Description ''Indicates that the container must run as a non-root user. If true, the Kubelet will validate the image at runtime to ensure that it does not run as UID 0 (root) and fail to start the container if it does. If unset or false, no such validation will be performed. May also be set in PodSecurityContext.  If set in both SecurityContext and PodSecurityContext, the value specified in SecurityContext takes precedence.'',
          Type [''boolean''],
          Format '''']),
      (''readOnlyRootFilesystem'', Schema [Description ''Whether this container has a read-only root filesystem. Default is false.'',
          Type [''boolean''],
          Format '''']),
      (''allowPrivilegeEscalation'', Schema [Description ''AllowPrivilegeEscalation controls whether a process can gain more privileges than its parent process. This bool directly controls if the no_new_privs flag will be set on the container process. AllowPrivilegeEscalation is true always when the container is: 1) run as Privileged 2) has CAP_SYS_ADMIN'',
          Type [''boolean''],
          Format '''']),
      (''procMount'', Schema [Description ''procMount denotes the type of proc mount to use for the containers. The default is DefaultProcMount which uses the container runtime defaults for readonly paths and masked paths. This requires the ProcMountType feature flag to be enabled.'',
          Type [''string''],
          Format '''']),
      (''seccompProfile'', Schema [Description ''The seccomp options to use by this container. If seccomp options are provided at both the pod & container level, the container options override the pod options.'',
          Ref (ref ''k8s.io/api/core/v1.SeccompProfile'')])]],
     Dependencies = [''k8s.io/api/core/v1.Capabilities'',
     ''k8s.io/api/core/v1.SELinuxOptions'',
     ''k8s.io/api/core/v1.SeccompProfile'',
     ''k8s.io/api/core/v1.WindowsSecurityContextOptions'']\<rparr>"

definition schema_k8sio_api_core_v1_TCPSocketAction :: "(string \<Rightarrow> 'r) \<Rightarrow> 'r openapi_definition" where
  "schema_k8sio_api_core_v1_TCPSocketAction ref =
    \<lparr>defSchema = Schema [Description ''TCPSocketAction describes an action based on opening a socket'',
      Type [''object''],
      Properties [
      (''port'', Schema [Description ''Number or name of the port to access on the container. Number must be in the range 1 to 65535. Name must be an IANA_SVC_NAME.'',
          Default (JObject []),
          Ref (ref ''k8s.io/apimachinery/pkg/util/intstr.IntOrString'')]),
      (''host'', Schema [Description ''Optional: Host name to connect to, defaults to the pod IP.'',
          Type [''string''],
          Format ''''])],
      Required [''port'']],
     Dependencies = [''k8s.io/apimachinery/pkg/util/intstr.IntOrString'']\<rparr>"

definition schema_k8sio_api_core_v1_WindowsSecurityContextOptions :: "(string \<Rightarrow> 'r) \<Rightarrow> 'r openapi_definition" where
  "schema_k8sio_api_core_v1_WindowsSecurityContextOptions ref =
    \<lparr>defSchema = Schema [Description ''WindowsSecurityContextOptions contain Windows-specific options and credentials.'',
      Type [''object''],
      Properties [
      (''gmsaCredentialSpecName'', Schema [Description ''GMSACredentialSpecName is the name of the GMSA credential spec to use.'',
          Type [''string''],
          Format '''']),
      (''gmsaCredentialSpec'', Schema [Description ''GMSACredentialSpec is where the GMSA admission webhook (https://github.com/kubernetes-sigs/windows-gmsa) inlines the contents of the GMSA credential spec named by the GMSACredentialSpecName field.'',
          Type [''string''],
          Format '''']),
      (''runAsUserName'', Schema [Description ''The UserName in Windows to run the entrypoint of the container process. Defaults to the user specified in image metadata if unspecified. May also be set in PodSecurityContext. If set in both SecurityContext and PodSecurityContext, the value specified in SecurityContext takes precedence.'',
          Type [''string''],
          Format '''']),
      (''hostProcess'', Schema [Description ''HostProcess determines if a container should be run as a 'Host Process' container. This field is alpha-level and will only be honored by components that enable the WindowsHostProcessContainers feature flag. Setting this field without the feature flag will result in errors when validating the Pod. All of a Pod's containers must have the same effective HostProcess value (it is not allowed to have a mix of HostProcess containers and non-HostProcess containers).  In addition, if HostProcess is true then HostNetwork must also be set to true.'',
          Type [''boolean''],
          Format ''''])]],
     Dependencies = []\<rparr>"

text \<open>Every definition here is consistent.\<close>

lemma openapi_container_ok_1:
  "definition_ok ref (schema_k8sio_api_core_v1_Capabilities ref)"
  "definition_ok ref (schema_k8sio_api_core_v1_ConfigMapEnvSource ref)"
  "definition_ok ref (schema_k8sio_api_core_v1_ConfigMapKeySelector ref)"
  "definition_ok ref (schema_k8sio_api_core_v1_Container ref)"
  "definition_ok ref (schema_k8sio_api_core_v1_ContainerPort ref)"
  "definition_ok ref (schema_k8sio_api_core_v1_ContainerState ref)"
  "definition_ok ref (schema_k8sio_api_core_v1_ContainerStateRunning ref)"
  "definition_ok ref (schema_k8sio_api_core_v1_ContainerStateTerminated ref)"
  unfolding definition_ok_def
  by (simp_all add:
        schema_k8sio_api_core_v1_Capabilities_def
        schema_k8sio_api_core_v1_ConfigMapEnvSource_def
        schema_k8sio_api_core_v1_ConfigMapKeySelector_def
        schema_k8sio_api_core_v1_Container_def
        schema_k8sio_api_core_v1_ContainerPort_def
        schema_k8sio_api_core_v1_ContainerState_def
        schema_k8sio_api_core_v1_ContainerStateRunning_def
        schema_k8sio_api_core_v1_ContainerStateTerminated_def)

lemma openapi_container_ok_2:
  "definition_ok ref (schema_k8sio_api_core_v1_ContainerStateWaiting ref)"
  "definition_ok ref (schema_k8sio_api_core_v1_ContainerStatus ref)"
  "definition_ok ref (schema_k8sio_api_core_v1_EnvFromSource ref)"
  "definition_ok ref (schema_k8sio_api_core_v1_EnvVar ref)"
  "definition_ok ref (schema_k8sio_api_core_v1_EnvVarSource ref)"
  "definition_ok ref (schema_k8sio_api_core_v1_EphemeralContainer ref)"
  "definition_ok ref (schema_k8sio_api_core_v1_ExecAction ref)"
  "definition_ok ref (schema_k8sio_api_core_v1_HTTPGetAction ref)"
  unfolding definition_ok_def
  by (simp_all add:
        schema_k8sio_api_core_v1_ContainerStateWaiting_def
        schema_k8sio_api_core_v1_ContainerStatus_def
        schema_k8sio_api_core_v1_EnvFromSource_def
        schema_k8sio_api_core_v1_EnvVar_def
        schema_k8sio_api_core_v1_EnvVarSource_def
        schema_k8sio_api_core_v1_EphemeralContainer_def
        schema_k8sio_api_core_v1_ExecAction_def
        schema_k8sio_api_core_v1_HTTPGetAction_def)

lemma openapi_container_ok_3:
  "definition_ok ref (schema_k8sio_api_core_v1_HTTPHeader ref)"
  "definition_ok ref (schema_k8sio_api_core_v1_Handler ref)"
  "definition_ok ref (schema_k8sio_api_core_v1_Lifecycle ref)"
  "definition_ok ref (schema_k8sio_api_core_v1_ObjectFieldSelector ref)"
  "definition_ok ref (schema_k8sio_api_core_v1_Probe ref)"
  "definition_ok ref (schema_k8sio_api_core_v1_ResourceFieldSelector ref)"
  "definition_ok ref (schema_k8sio_api_core_v1_ResourceRequirements ref)"
  "definition_ok ref (schema_k8sio_api_core_v1_SELinuxOptions ref)"
  unfolding definition_ok_def
  by (simp_all add:
        schema_k8sio_api_core_v1_HTTPHeader_def
        schema_k8sio_api_core_v1_Handler_def
        schema_k8sio_api_core_v1_Lifecycle_def
        schema_k8sio_api_core_v1_ObjectFieldSelector_def
        schema_k8sio_api_core_v1_Probe_def
        schema_k8sio_api_core_v1_ResourceFieldSelector_def
        schema_k8sio_api_core_v1_ResourceRequirements_def
        schema_k8sio_api_core_v1_SELinuxOptions_def)

lemma openapi_container_ok_4:
  "definition_ok ref (schema_k8sio_api_core_v1_SeccompProfile ref)"
  "definition_ok ref (schema_k8sio_api_core_v1_SecretEnvSource ref)"
  "definition_ok ref (schema_k8sio_api_core_v1_SecretKeySelector ref)"
  "definition_ok ref (schema_k8sio_api_core_v1_SecurityContext ref)"
  "definition_ok ref (schema_k8sio_api_core_v1_TCPSocketAction ref)"
  "definition_ok ref (schema_k8sio_api_core_v1_WindowsSecurityContextOptions ref)"
  unfolding definition_ok_def
  by (simp_all add:
        schema_k8sio_api_core_v1_SeccompProfile_def
        schema_k8sio_api_core_v1_SecretEnvSource_def
        schema_k8sio_api_core_v1_SecretKeySelector_def
        schema_k8sio_api_core_v1_SecurityContext_def
        schema_k8sio_api_core_v1_TCPSocketAction_def
        schema_k8sio_api_core_v1_WindowsSecurityContextOptions_def)

lemmas openapi_container_ok =
  openapi_container_ok_1
  openapi_container_ok_2
  openapi_container_ok_3
  openapi_container_ok_4

end
