(* ===== verification/OpenAPI_Pod.thy ===== *)
theory OpenAPI_Pod
  imports OpenAPI
begin

text \<open>
  The definitions of \<open>zz_generated.openapi.go\<close> for pods, their affinity, tolerations and status.
\<close>

definition schema_k8sio_api_core_v1_Affinity :: "(string \<Rightarrow> 'r) \<Rightarrow> 'r openapi_definition" where
  "schema_k8sio_api_core_v1_Affinity ref =
    \<lparr>defSchema = Schema [Description ''Affinity is a group of affinity scheduling rules.'',
      Type [''object''],
      Properties [
      (''nodeAffinity'', Schema [Description ''Describes node affinity scheduling rules for the pod.'',
          Ref (ref ''k8s.io/api/core/v1.NodeAffinity'')]),
      (''podAffinity'', Schema [Description ''Describes pod affinity scheduling rules (e.g. co-locate this pod in the same node, zone, etc. as some other pod(s)).'',
          Ref (ref ''k8s.io/api/core/v1.PodAffinity'')]),
      (''podAntiAffinity'', Schema [Description ''Describes pod anti-affinity scheduling rules (e.g. avoid putting this pod in the same node, zone, etc. as some other pod(s)).'',
          Ref (ref ''k8s.io/api/core/v1.PodAntiAffinity'')])]],
     Dependencies = [''k8s.io/api/core/v1.NodeAffinity'',
     ''k8s.io/api/core/v1.PodAffinity'',
     ''k8s.io/api/core/v1.PodAntiAffinity'']\<rparr>"

definition schema_k8sio_api_core_v1_HostAlias :: "(string \<Rightarrow> 'r) \<Rightarrow> 'r openapi_definition" where
  "schema_k8sio_api_core_v1_HostAlias ref =
    \<lparr>defSchema = Schema [Description ''HostAlias holds the mapping between IP and hostnames that will be injected as an entry in the pod's hosts file.'',
      Type [''object''],
      Properties [
      (''ip'', Schema [Description ''IP address of the host file entry.'',
          Type [''string''],
          Format '''']),
      (''hostnames'', Schema [Description ''Hostnames for the above IP address.'',
          Type [''array''],
          Items (Schema [Default (JString ''''),
            Type [''string''],
            Format ''''])])]],
     Dependencies = []\<rparr>"

definition schema_k8sio_api_core_v1_LocalObjectReference :: "(string \<Rightarrow> 'r) \<Rightarrow> 'r openapi_definition" where
  "schema_k8sio_api_core_v1_LocalObjectReference ref =
    \<lparr>defSchema = Schema [Description ''LocalObjectReference contains enough information to let you locate the referenced object inside the same namespace.'',
      Type [''object''],
      Properties [
      (''name'', Schema [Description ''Name of the referent. More info: https://kubernetes.io/docs/concepts/overview/working-with-objects/names/#names'',
          Type [''string''],
          Format ''''])],
      Extensions [(''x-kubernetes-map-type'', JString ''atomic'')]],
     Dependencies = []\<rparr>"

definition schema_k8sio_api_core_v1_NodeAffinity :: "(string \<Rightarrow> 'r) \<Rightarrow> 'r openapi_definition" where
  "schema_k8sio_api_core_v1_NodeAffinity ref =
    \<lparr>defSchema = Schema [Description ''Node affinity is a group of node affinity scheduling rules.'',
      Type [''object''],
      Properties [
      (''requiredDuringSchedulingIgnoredDuringExecution'', Schema [Description ''If the affinity requirements specified by this field are not met at scheduling time, the pod will not be scheduled onto the node. If the affinity requirements specified by this field cease to be met at some point during pod execution (e.g. due to an update), the system may or may not try to eventually evict the pod from its node.'',
          Ref (ref ''k8s.io/api/core/v1.NodeSelector'')]),
      (''preferredDuringSchedulingIgnoredDuringExecution'', Schema [Description ''The scheduler will prefer to schedule pods to nodes that satisfy the affinity expressions specified by this field, but it may choose a node that violates one or more of the expressions. The node that is most preferred is the one with the greatest sum of weights, i.e. for each node that meets all of the scheduling requirements (resource request, requiredDuringScheduling affinity expressions, etc.), compute a sum by iterating through the elements of this field and adding \"weight\" to the sum if the node matches the corresponding matchExpressions; the node(s) with the highest sum are the most preferred.'',
          Type [''array''],
          Items (Schema [Default (JObject []),
            Ref (ref ''k8s.io/api/core/v1.PreferredSchedulingTerm'')])])]],
     Dependencies = [''k8s.io/api/core/v1.NodeSelector'',
     ''k8s.io/api/core/v1.PreferredSchedulingTerm'']\<rparr>"

definition schema_k8sio_api_core_v1_NodeSelector :: "(string \<Rightarrow> 'r) \<Rightarrow> 'r openapi_definition" where
  "schema_k8sio_api_core_v1_NodeSelector ref =
    \<lparr>defSchema = Schema [Description ''A node selector represents the union of the results of one or more label queries over a set of nodes; that is, it represents the OR of the selectors represented by the node selector terms.'',
      Type [''object''],
      Properties [
      (''nodeSelectorTerms'', Schema [Description ''Required. A list of node selector terms. The terms are ORed.'',
          Type [''array''],
          Items (Schema [Default (JObject []),
            Ref (ref ''k8s.io/api/core/v1.NodeSelectorTerm'')])])],
      Required [''nodeSelectorTerms''],
      Extensions [(''x-kubernetes-map-type'', JString ''atomic'')]],
     Dependencies = [''k8s.io/api/core/v1.NodeSelectorTerm'']\<rparr>"

definition schema_k8sio_api_core_v1_NodeSelectorRequirement :: "(string \<Rightarrow> 'r) \<Rightarrow> 'r openapi_definition" where
  "schema_k8sio_api_core_v1_NodeSelectorRequirement ref =
    \<lparr>defSchema = Schema [Description ''A node selector requirement is a selector that contains values, a key, and an operator that relates the key and values.'',
      Type [''object''],
      Properties [
      (''key'', Schema [Description ''The label key that the selector applies to.'',
          Default (JString ''''),
          Type [''string''],
          Format '''']),
      (''operator'', Schema [Description ''Represents a key's relationship to a set of values. Valid operators are In, NotIn, Exists, DoesNotExist. Gt, and Lt.'',
          Default (JString ''''),
          Type [''string''],
          Format '''']),
      (''values'', Schema [Description ''An array of string values. If the operator is In or NotIn, the values array must be non-empty. If the operator is Exists or DoesNotExist, the values array must be empty. If the operator is Gt or Lt, the values array must have a single element, which will be interpreted as an integer. This array is replaced during a strategic merge patch.'',
          Type [''array''],
          Items (Schema [Default (JString ''''),
            Type [''string''],
            Format ''''])])],
      Required [''key'', ''operator'']],
     Dependencies = []\<rparr>"

definition schema_k8sio_api_core_v1_NodeSelectorTerm :: "(string \<Rightarrow> 'r) \<Rightarrow> 'r openapi_definition" where
  "schema_k8sio_api_core_v1_NodeSelectorTerm ref =
    \<lparr>defSchema = Schema [Description ''A null or empty node selector term matches no objects. The requirements of them are ANDed. The TopologySelectorTerm type implements a subset of the NodeSelectorTerm.'',
      Type [''object''],
      Properties [
      (''matchExpressions'', Schema [Description ''A list of node selector requirements by node's labels.'',
          Type [''array''],
          Items (Schema [Default (JObject []),
            Ref (ref ''k8s.io/api/core/v1.NodeSelectorRequirement'')])]),
      (''matchFields'', Schema [Description ''A list of node selector requirements by node's fields.'',
          Type [''array''],
          Items (Schema [Default (JObject []),
            Ref (ref ''k8s.io/api/core/v1.NodeSelectorRequirement'')])])],
      Extensions [(''x-kubernetes-map-type'', JString ''atomic'')]],
     Dependencies = [''k8s.io/api/core/v1.NodeSelectorRequirement'']\<rparr>"

definition schema_k8sio_api_core_v1_Pod :: "(string \<Rightarrow> 'r) \<Rightarrow> 'r openapi_definition" where
  "schema_k8sio_api_core_v1_Pod ref =
    \<lparr>defSchema = Schema [Description ''Pod is a collection of containers that can run on a host. This resource is created by clients and scheduled onto hosts.'',
      Type [''object''],
      Properties [
      (''kind'', Schema [Description ''Kind is a string value representing the REST resource this object represents. Servers may infer this from the endpoint the client submits requests to. Cannot be updated. In CamelCase. More info: https://git.k8s.io/community/contributors/devel/sig-architecture/api-conventions.md#types-kinds'',
          Type [''string''],
          Format '''']),
      (''apiVersion'', Schema [Description ''APIVersion defines the versioned schema of this representation of an object. Servers should convert recognized schemas to the latest internal value, and may reject unrecognized values. More info: https://git.k8s.io/community/contributors/devel/sig-architecture/api-conventions.md#resources'',
          Type [''string''],
          Format '''']),
      (''metadata'', Schema [Description ''Standard object's metadata. More info: https://git.k8s.io/community/contributors/devel/sig-architecture/api-conventions.md#metadata'',
          Default (JObject []),
          Ref (ref ''k8s.io/apimachinery/pkg/apis/meta/v1.ObjectMeta'')]),
      (''spec'', Schema [Description ''Specification of the desired behavior of the pod. More info: https://git.k8s.io/community/contributors/devel/sig-architecture/api-conventions.md#spec-and-status'',
          Default (JObject []),
          Ref (ref ''k8s.io/api/core/v1.PodSpec'')]),
      (''status'', Schema [Description ''Most recently observed status of the pod. This data may not be up to date. Populated by the system. Read-only. More info: https://git.k8s.io/community/contributors/devel/sig-architecture/api-conventions.md#spec-and-status'',
          Default (JObject []),
          Ref (ref ''k8s.io/api/core/v1.PodStatus'')])]],
     Dependencies = [''k8s.io/api/core/v1.PodSpec'',
     ''k8s.io/api/core/v1.PodStatus'',
     ''k8s.io/apimachinery/pkg/apis/meta/v1.ObjectMeta'']\<rparr>"

definition schema_k8sio_api_core_v1_PodAffinity :: "(string \<Rightarrow> 'r) \<Rightarrow> 'r openapi_definition" where
  "schema_k8sio_api_core_v1_PodAffinity ref =
    \<lparr>defSchema = Schema [Description ''Pod affinity is a group of inter pod affinity scheduling rules.'',
      Type [''object''],
      Properties [
      (''requiredDuringSchedulingIgnoredDuringExecution'', Schema [Description ''If the affinity requirements specified by this field are not met at scheduling time, the pod will not be scheduled onto the node. If the affinity requirements specified by this field cease to be met at some point during pod execution (e.g. due to a pod label update), the system may or may not try to eventually evict the pod from its node. When there are multiple elements, the lists of nodes corresponding to each podAffinityTerm are intersected, i.e. all terms must be satisfied.'',
          Type [''array''],
          Items (Schema [Default (JObject []),
            Ref (ref ''k8s.io/api/core/v1.PodAffinityTerm'')])]),
      (''preferredDuringSchedulingIgnoredDuringExecution'', Schema [Description ''The scheduler will prefer to schedule pods to nodes that satisfy the affinity expressions specified by this field, but it may choose a node that violates one or more of the expressions. The node that is most preferred is the one with the greatest sum of weights, i.e. for each node that meets all of the scheduling requirements (resource request, requiredDuringScheduling affinity expressions, etc.), compute a sum by iterating through the elements of this field and adding \"weight\" to the sum if the node has pods which matches the corresponding podAffinityTerm; the node(s) with the highest sum are the most preferred.'',
          Type [''array''],
          Items (Schema [Default (JObject []),
            Ref (ref ''k8s.io/api/core/v1.WeightedPodAffinityTerm'')])])]],
     Dependencies = [''k8s.io/api/core/v1.PodAffinityTerm'',
     ''k8s.io/api/core/v1.WeightedPodAffinityTerm'']\<rparr>"

definition schema_k8sio_api_core_v1_PodAffinityTerm :: "(string \<Rightarrow> 'r) \<Rightarrow> 'r openapi_definition" where
  "schema_k8sio_api_core_v1_PodAffinityTerm ref =
    \<lparr>defSchema = Schema [Description ''Defines a set of pods (namely those matching the labelSelector relative to the given namespace(s)) that this pod should be co-located (affinity) or not co-located (anti-affinity) with, where co-located is defined as running on a node whose value of the label with key <topologyKey> matches that of any node on which a pod of the set of pods is running'',
      Type [''object''],
      Properties [
      (''labelSelector'', Schema [Description ''A label query over a set of resources, in this case pods.'',
          Ref (ref ''k8s.io/apimachinery/pkg/apis/meta/v1.LabelSelector'')]),
      (''namespaces'', Schema [Description ''namespaces specifies a static list of namespace names that the term applies to. The term is applied to the union of the namespaces listed in this field and the ones selected by namespaceSelector. null or empty namespaces list and null namespaceSelector means \"this pod's namespace\"'',
          Type [''array''],
          Items (Schema [Default (JString ''''),
            Type [''string''],
            Format ''''])]),
      (''topologyKey'', Schema [Description ''This pod should be co-located (affinity) or not co-located (anti-affinity) with the pods matching the labelSelector in the specified namespaces, where co-located is defined as running on a node whose value of the label with key topologyKey matches that of any node on which any of the selected pods is running. Empty topologyKey is not allowed.'',
          Default (JString ''''),
          Type [''string''],
          Format '''']),
      (''namespaceSelector'', Schema [Description ''A label query over the set of namespaces that the term applies to. The term is applied to the union of the namespaces selected by this field and the ones listed in the namespaces field. null selector and null or empty namespaces list means \"this pod's namespace\". An empty selector ({}) matches all namespaces. This field is beta-level and is only honored when PodAffinityNamespaceSelector feature is enabled.'',
          Ref (ref ''k8s.io/apimachinery/pkg/apis/meta/v1.LabelSelector'')])],
      Required [''topologyKey'']],
     Dependencies = [''k8s.io/apimachinery/pkg/apis/meta/v1.LabelSelector'']\<rparr>"

definition schema_k8sio_api_core_v1_PodAntiAffinity :: "(string \<Rightarrow> 'r) \<Rightarrow> 'r openapi_definition" where
  "schema_k8sio_api_core_v1_PodAntiAffinity ref =
    \<lparr>defSchema = Schema [Description ''Pod anti affinity is a group of inter pod anti affinity scheduling rules.'',
      Type [''object''],
      Properties [
      (''requiredDuringSchedulingIgnoredDuringExecution'', Schema [Description ''If the anti-affinity requirements specified by this field are not met at scheduling time, the pod will not be scheduled onto the node. If the anti-affinity requirements specified by this field cease to be met at some point during pod execution (e.g. due to a pod label update), the system may or may not try to eventually evict the pod from its node. When there are multiple elements, the lists of nodes corresponding to each podAffinityTerm are intersected, i.e. all terms must be satisfied.'',
          Type [''array''],
          Items (Schema [Default (JObject []),
            Ref (ref ''k8s.io/api/core/v1.PodAffinityTerm'')])]),
      (''preferredDuringSchedulingIgnoredDuringExecution'', Schema [Description ''The scheduler will prefer to schedule pods to nodes that satisfy the anti-affinity expressions specified by this field, but it may choose a node that violates one or more of the expressions. The node that is most preferred is the one with the greatest sum of weights, i.e. for each node that meets all of the scheduling requirements (resource request, requiredDuringScheduling anti-affinity expressions, etc.), compute a sum by iterating through the elements of this field and adding \"weight\" to the sum if the node has pods which matches the corresponding podAffinityTerm; the node(s) with the highest sum are the most preferred.'',
          Type [''array''],
          Items (Schema [Default (JObject []),
            Ref (ref ''k8s.io/api/core/v1.WeightedPodAffinityTerm'')])])]],
     Dependencies = [''k8s.io/api/core/v1.PodAffinityTerm'',
     ''k8s.io/api/core/v1.WeightedPodAffinityTerm'']\<rparr>"

definition schema_k8sio_api_core_v1_PodCondition :: "(string \<Rightarrow> 'r) \<Rightarrow> 'r openapi_definition" where
  "schema_k8sio_api_core_v1_PodCondition ref =
    \<lparr>defSchema = Schema [Description ''PodCondition contains details for the current condition of this pod.'',
      Type [''object''],
      Properties [
      (''type'', Schema [Description ''Type is the type of the condition. More info: https://kubernetes.io/docs/concepts/workloads/pods/pod-lifecycle#pod-conditions'',
          Default (JString ''''),
          Type [''string''],
          Format '''']),
      (''status'', Schema [Description ''Status is the status of the condition. Can be True, False, Unknown. More info: https://kubernetes.io/docs/concepts/workloads/pods/pod-lifecycle#pod-conditions'',
          Default (JString ''''),
          Type [''string''],
          Format '''']),
      (''lastProbeTime'', Schema [Description ''Last time we probed the condition.'',
          Default (JObject []),
          Ref (ref ''k8s.io/apimachinery/pkg/apis/meta/v1.Time'')]),
      (''lastTransitionTime'', Schema [Description ''Last time the condition transitioned from one status to another.'',
          Default (JObject []),
          Ref (ref ''k8s.io/apimachinery/pkg/apis/meta/v1.Time'')]),
      (''reason'', Schema [Description ''Unique, one-word, CamelCase reason for the condition's last transition.'',
          Type [''string''],
          Format '''']),
      (''message'', Schema [Description ''Human-readable message indicating details about last transition.'',
          Type [''string''],
          Format ''''])],
      Required [''type'', ''status'']],
     Dependencies = [''k8s.io/apimachinery/pkg/apis/meta/v1.Time'']\<rparr>"

definition schema_k8sio_api_core_v1_PodDNSConfig :: "(string \<Rightarrow> 'r) \<Rightarrow> 'r openapi_definition" where
  "schema_k8sio_api_core_v1_PodDNSConfig ref =
    \<lparr>defSchema = Schema [Description ''PodDNSConfig defines the DNS parameters of a pod in addition to those generated from DNSPolicy.'',
      Type [''object''],
      Properties [
      (''nameservers'', Schema [Description ''A list of DNS name server IP addresses. This will be appended to the base nameservers generated from DNSPolicy. Duplicated nameservers will be removed.'',
          Type [''array''],
          Items (Schema [Default (JString ''''),
            Type [''string''],
            Format ''''])]),
      (''searches'', Schema [Description ''A list of DNS search domains for host-name lookup. This will be appended to the base search paths generated from DNSPolicy. Duplicated search paths will be removed.'',
          Type [''array''],
          Items (Schema [Default (JString ''''),
            Type [''string''],
            Format ''''])]),
      (''options'', Schema [Description ''A list of DNS resolver options. This will be merged with the base options generated from DNSPolicy. Duplicated entries will be removed. Resolution options given in Options will override those that appear in the base DNSPolicy.'',
          Type [''array''],
          Items (Schema [Default (JObject []),
            Ref (ref ''k8s.io/api/core/v1.PodDNSConfigOption'')])])]],
     Dependencies = [''k8s.io/api/core/v1.PodDNSConfigOption'']\<rparr>"

definition schema_k8sio_api_core_v1_PodDNSConfigOption :: "(string \<Rightarrow> 'r) \<Rightarrow> 'r openapi_definition" where
  "schema_k8sio_api_core_v1_PodDNSConfigOption ref =
    \<lparr>defSchema = Schema [Description ''PodDNSConfigOption defines DNS resolver options of a pod.'',
      Type [''object''],
      Properties [
      (''name'', Schema [Description ''Required.'',
          Type [''string''],
          Format '''']),
      (''value'', Schema [Type [''string''],
          Format ''''])]],
     Dependencies = []\<rparr>"

definition schema_k8sio_api_core_v1_PodIP :: "(string \<Rightarrow> 'r) \<Rightarrow> 'r openapi_definition" where
  "schema_k8sio_api_core_v1_PodIP ref =
    \<lparr>defSchema = Schema [Description (''IP address information for entries in the (plural) PodIPs field. Each entry includes:'' @ [CHR 0x0A] @ ''   IP: An IP address allocated to the pod. Routable at least within the cluster.''),
      Type [''object''],
      Properties [
      (''ip'', Schema [Description ''ip is an IP address (IPv4 or IPv6) assigned to the pod'',
          Type [''string''],
          Format ''''])]],
     Dependencies = []\<rparr>"

definition schema_k8sio_api_core_v1_PodReadinessGate :: "(string \<Rightarrow> 'r) \<Rightarrow> 'r openapi_definition" where
  "schema_k8sio_api_core_v1_PodReadinessGate ref =
    \<lparr>defSchema = Schema [Description ''PodReadinessGate contains the reference to a pod condition'',
      Type [''object''],
      Properties [
      (''conditionType'', Schema [Description ''ConditionType refers to a condition in the pod's condition list with matching type.'',
          Default (JString ''''),
          Type [''string''],
          Format ''''])],
      Required [''conditionType'']],
     Dependencies = []\<rparr>"

definition schema_k8sio_api_core_v1_PodSecurityContext :: "(string \<Rightarrow> 'r) \<Rightarrow> 'r openapi_definition" where
  "schema_k8sio_api_core_v1_PodSecurityContext ref =
    \<lparr>defSchema = Schema [Description ''PodSecurityContext holds pod-level security attributes and common container settings. Some fields are also present in container.securityContext.  Field values of container.securityContext take precedence over field values of PodSecurityContext.'',
      Type [''object''],
      Properties [
      (''seLinuxOptions'', Schema [Description ''The SELinux context to be applied to all containers. If unspecified, the container runtime will allocate a random SELinux context for each container.  May also be set in SecurityContext.  If set in both SecurityContext and PodSecurityContext, the value specified in SecurityContext takes precedence for that container.'',
          Ref (ref ''k8s.io/api/core/v1.SELinuxOptions'')]),
      (''windowsOptions'', Schema [Description ''The Windows specific settings applied to all containers. If unspecified, the options within a container's SecurityContext will be used. If set in both SecurityContext and PodSecurityContext, the value specified in SecurityContext takes precedence.'',
          Ref (ref ''k8s.io/api/core/v1.WindowsSecurityContextOptions'')]),
      (''runAsUser'', Schema [Description ''The UID to run the entrypoint of the container process. Defaults to user specified in image metadata if unspecified. May also be set in SecurityContext.  If set in both SecurityContext and PodSecurityContext, the value specified in SecurityContext takes precedence for that container.'',
          Type [''integer''],
          Format ''int64'']),
      (''runAsGroup'', Schema [Description ''The GID to run the entrypoint of the container process. Uses runtime default if unset. May also be set in SecurityContext.  If set in both SecurityContext and PodSecurityContext, the value specified in SecurityContext takes precedence for that container.'',
          Type [''integer''],
          Format ''int64'']),
      (''runAsNonRoot'', Schema [Description ''Indicates that the container must run as a non-root user. If true, the Kubelet will validate the image at runtime to ensure that it does not run as UID 0 (root) and fail to start the container if it does. If unset or false, no such validation will be performed. May also be set in SecurityContext.  If set in both SecurityContext and PodSecurityContext, the value specified in SecurityContext takes precedence.'',
          Type [''boolean''],
          Format '''']),
      (''supplementalGroups'', Schema [Description ''A list of groups applied to the first process run in each container, in addition to the container's primary GID.  If unspecified, no groups will be added to any container.'',
          Type [''array''],
          Items (Schema [Default (JNumber 0),
            Type [''integer''],
            Format ''int64''])]),
      (''fsGroup'', Schema [Description (''A special supplemental group that applies to all containers in a pod. Some volume types allow the Kubelet to change the ownership of that volume to be owned by the pod:'' @ [CHR 0x0A, CHR 0x0A] @ ''1. The owning GID will be the FSGroup 2. The setgid bit is set (new files created in the volume will be owned by FSGroup) 3. The permission bits are OR'd with rw-rw----'' @ [CHR 0x0A, CHR 0x0A] @ ''If unset, the Kubelet will not modify the ownership and permissions of any volume.''),
          Type [''integer''],
          Format ''int64'']),
      (''sysctls'', Schema [Description ''Sysctls hold a list of namespaced sysctls used for the pod. Pods with unsupported sysctls (by the container runtime) might fail to launch.'',
          Type [''array''],
          Items (Schema [Default (JObject []),
            Ref (ref ''k8s.io/api/core/v1.Sysctl'')])]),
      (''fsGroupChangePolicy'', Schema [Description ''fsGroupChangePolicy defines behavior of changing ownership and permission of the volume before being exposed inside Pod. This field will only apply to volume types which support fsGroup based ownership(and permissions). It will have no effect on ephemeral volume types such as: secret, configmaps and emptydir. Valid values are \"OnRootMismatch\" and \"Always\". If not specified, \"Always\" is used.'',
          Type [''string''],
          Format '''']),
      (''seccompProfile'', Schema [Description ''The seccomp options to use by the containers in this pod.'',
          Ref (ref ''k8s.io/api/core/v1.SeccompProfile'')])]],
     Dependencies = [''k8s.io/api/core/v1.SELinuxOptions'',
     ''k8s.io/api/core/v1.SeccompProfile'',
     ''k8s.io/api/core/v1.Sysctl'',
     ''k8s.io/api/core/v1.WindowsSecurityContextOptions'']\<rparr>"

definition schema_k8sio_api_core_v1_PodSpec :: "(string \<Rightarrow> 'r) \<Rightarrow> 'r openapi_definition" where
  "schema_k8sio_api_core_v1_PodSpec ref =
    \<lparr>defSchema = Schema [Description ''PodSpec is a description of a pod.'',
      Type [''object''],
      Properties [
      (''volumes'', Schema [Extensions [(''x-kubernetes-patch-merge-key'', JString ''name''), (''x-kubernetes-patch-strategy'', JString ''merge,retainKeys'')],
          Description ''List of volumes that can be mounted by containers belonging to the pod. More info: https://kubernetes.io/docs/concepts/storage/volumes'',
          Type [''array''],
          Items (Schema [Default (JObject []),
            Ref (ref ''k8s.io/api/core/v1.Volume'')])]),
      (''initContainers'', Schema [Extensions [(''x-kubernetes-patch-merge-key'', JString ''name''), (''x-kubernetes-patch-strategy'', JString ''merge'')],
          Description ''List of initialization containers belonging to the pod. Init containers are executed in order prior to containers being started. If any init container fails, the pod is considered to have failed and is handled according to its restartPolicy. The name for an init container or normal container must be unique among all containers. Init containers may not have Lifecycle actions, Readiness probes, Liveness probes, or Startup probes. The resourceRequirements of an init container are taken into account during scheduling by finding the highest request/limit for each resource type, and then using the max of of that value or the sum of the normal containers. Limits are applied to init containers in a similar fashion. Init containers cannot currently be added or removed. Cannot be updated. More info: https://kubernetes.io/docs/concepts/workloads/pods/init-containers/'',
          Type [''array''],
          Items (Schema [Default (JObject []),
            Ref (ref ''k8s.io/api/core/v1.Container'')])]),
      (''containers'', Schema [Extensions [(''x-kubernetes-patch-merge-key'', JString ''name''), (''x-kubernetes-patch-strategy'', JString ''merge'')],
          Description ''List of containers belonging to the pod. Containers cannot currently be added or removed. There must be at least one container in a Pod. Cannot be updated.'',
          Type [''array''],
          Items (Schema [Default (JObject []),
            Ref (ref ''k8s.io/api/core/v1.Container'')])]),
      (''ephemeralContainers'', Schema [Extensions [(''x-kubernetes-patch-merge-key'', JString ''name''), (''x-kubernetes-patch-strategy'', JString ''merge'')],
          Description ''List of ephemeral containers run in this pod. Ephemeral containers may be run in an existing pod to perform user-initiated actions such as debugging. This list cannot be specified when creating a pod, and it cannot be modified by updating the pod spec. In order to add an ephemeral container to an existing pod, use the pod's ephemeralcontainers subresource. This field is alpha-level and is only honored by servers that enable the EphemeralContainers feature.'',
          Type [''array''],
          Items (Schema [Default (JObject []),
            Ref (ref ''k8s.io/api/core/v1.EphemeralContainer'')])]),
      (''restartPolicy'', Schema [Description ''Restart policy for all containers within the pod. One of Always, OnFailure, Never. Default to Always. More info: https://kubernetes.io/docs/concepts/workloads/pods/pod-lifecycle/#restart-policy'',
          Type [''string''],
          Format '''']),
      (''terminationGracePeriodSeconds'', Schema [Description ''Optional duration in seconds the pod needs to terminate gracefully. May be decreased in delete request. Value must be non-negative integer. The value zero indicates stop immediately via the kill signal (no opportunity to shut down). If this value is nil, the default grace period will be used instead. The grace period is the duration in seconds after the processes running in the pod are sent a termination signal and the time when the processes are forcibly halted with a kill signal. Set this value longer than the expected cleanup time for your process. Defaults to 30 seconds.'',
          Type [''integer''],
          Format ''int64'']),
      (''activeDeadlineSeconds'', Schema [Description ''Optional duration in seconds the pod may be active on the node relative to StartTime before the system will actively try to mark it failed and kill associated containers. Value must be a positive integer.'',
          Type [''integer''],
          Format ''int64'']),
      (''dnsPolicy'', Schema [Description ''Set DNS policy for the pod. Defaults to \"ClusterFirst\". Valid values are 'ClusterFirstWithHostNet', 'ClusterFirst', 'Default' or 'None'. DNS parameters given in DNSConfig will be merged with the policy selected with DNSPolicy. To have DNS options set along with hostNetwork, you have to specify DNS policy explicitly to 'ClusterFirstWithHostNet'.'',
          Type [''string''],
          Format '''']),
      (''nodeSelector'', Schema [Extensions [(''x-kubernetes-map-type'', JString ''atomic'')],
          Description ''NodeSelector is a selector which must be true for the pod to fit on a node. Selector which must match a node's labels for the pod to be scheduled on that node. More info: https://kubernetes.io/docs/concepts/configuration/assign-pod-node/'',
          Type [''object''],
          AdditionalProperties True (Schema [Default (JString ''''),
            Type [''string''],
            Format ''''])]),
      (''serviceAccountName'', Schema [Description ''ServiceAccountName is the name of the ServiceAccount to use to run this pod. More info: https://kubernetes.io/docs/tasks/configure-pod-container/configure-service-account/'',
          Type [''string''],
          Format '''']),
      (''serviceAccount'', Schema [Description ''DeprecatedServiceAccount is a depreciated alias for ServiceAccountName. Deprecated: Use serviceAccountName instead.'',
          Type [''string''],
          Format '''']),
      (''automountServiceAccountToken'', Schema [Description ''AutomountServiceAccountToken indicates whether a service account token should be automatically mounted.'',
          Type [''boolean''],
          Format '''']),
      (''nodeName'', Schema [Description ''NodeName is a request to schedule this pod onto a specific node. If it is non-empty, the scheduler simply schedules this pod onto that node, assuming that it fits resource requirements.'',
          Type [''string''],
          Format '''']),
      (''hostNetwork'', Schema [Description ''Host networking requested for this pod. Use the host's network namespace. If this option is set, the ports that will be used must be specified. Default to false.'',
          Type [''boolean''],
          Format '''']),
      (''hostPID'', Schema [Description ''Use the host's pid namespace. Optional: Default to false.'',
          Type [''boolean''],
          Format '''']),
      (''hostIPC'', Schema [Description ''Use the host's ipc namespace. Optional: Default to false.'',
          Type [''boolean''],
          Format '''']),
      (''shareProcessNamespace'', Schema [Description ''Share a single process namespace between all of the containers in a pod. When this is set containers will be able to view and signal processes from other containers in the same pod, and the first process in each container will not be assigned PID 1. HostPID and ShareProcessNamespace cannot both be set. Optional: Default to false.'',
          Type [''boolean''],
          Format '''']),
      (''securityContext'', Schema [Description ''SecurityContext holds pod-level security attributes and common container settings. Optional: Defaults to empty.  See type description for default values of each field.'',
          Ref (ref ''k8s.io/api/core/v1.PodSecurityContext'')]),
      (''imagePullSecrets'', Schema [Extensions [(''x-kubernetes-patch-merge-key'', JString ''name''), (''x-kubernetes-patch-strategy'', JString ''merge'')],
          Description ''ImagePullSecrets is an optional list of references to secrets in the same namespace to use for pulling any of the images used by this PodSpec. If specified, these secrets will be passed to individual puller implementations for them to use. For example, in the case of docker, only DockerConfig type secrets are honored. More info: https://kubernetes.io/docs/concepts/containers/images#specifying-imagepullsecrets-on-a-pod'',
          Type [''array''],
          Items (Schema [Default (JObject []),
            Ref (ref ''k8s.io/api/core/v1.LocalObjectReference'')])]),
      (''hostname'', Schema [Description ''Specifies the hostname of the Pod If not specified, the pod's hostname will be set to a system-defined value.'',
          Type [''string''],
          Format '''']),
      (''subdomain'', Schema [Description ''If specified, the fully qualified Pod hostname will be \"<hostname>.<subdomain>.<pod namespace>.svc.<cluster domain>\". If not specified, the pod will not have a domainname at all.'',
          Type [''string''],
          Format '''']),
      (''affinity'', Schema [Description ''If specified, the pod's scheduling constraints'',
          Ref (ref ''k8s.io/api/core/v1.Affinity'')]),
      (''schedulerName'', Schema [Description ''If specified, the pod will be dispatched by specified scheduler. If not specified, the pod will be dispatched by default scheduler.'',
          Type [''string''],
          Format '''']),
      (''tolerations'', Schema [Description ''If specified, the pod's tolerations.'',
          Type [''array''],
          Items (Schema [Default (JObject []),
            Ref (ref ''k8s.io/api/core/v1.Toleration'')])]),
      (''hostAliases'', Schema [Extensions [(''x-kubernetes-patch-merge-key'', JString ''ip''), (''x-kubernetes-patch-strategy'', JString ''merge'')],
          Description ''HostAliases is an optional list of hosts and IPs that will be injected into the pod's hosts file if specified. This is only valid for non-hostNetwork pods.'',
          Type [''array''],
          Items (Schema [Default (JObject []),
            Ref (ref ''k8s.io/api/core/v1.HostAlias'')])]),
      (''priorityClassName'', Schema [Description ''If specified, indicates the pod's priority. \"system-node-critical\" and \"system-cluster-critical\" are two special keywords which indicate the highest priorities with the former being the highest priority. Any other name must be defined by creating a PriorityClass object with that name. If not specified, the pod priority will be default or zero if there is no default.'',
          Type [''string''],
          Format '''']),
      (''priority'', Schema [Description ''The priority value. Various system components use this field to find the priority of the pod. When Priority Admission Controller is enabled, it prevents users from setting this field. The admission controller populates this field from PriorityClassName. The higher the value, the higher the priority.'',
          Type [''integer''],
          Format ''int32'']),
      (''dnsConfig'', Schema [Description ''Specifies the DNS parameters of a pod. Parameters specified here will be merged to the generated DNS configuration based on DNSPolicy.'',
          Ref (ref ''k8s.io/api/core/v1.PodDNSConfig'')]),
      (''readinessGates'', Schema [Description ''If specified, all readiness gates will be evaluated for pod readiness. A pod is ready when all its containers are ready AND all conditions specified in the readiness gates have status equal to \"True\" More info: https://git.k8s.io/enhancements/keps/sig-network/580-pod-readiness-gates'',
          Type [''array''],
          Items (Schema [Default (JObject []),
            Ref (ref ''k8s.io/api/core/v1.PodReadinessGate'')])]),
      (''runtimeClassName'', Schema [Description ''RuntimeClassName refers to a RuntimeClass object in the node.k8s.io group, which should be used to run this pod.  If no RuntimeClass resource matches the named class, the pod will not be run. If unset or empty, the \"legacy\" RuntimeClass will be used, which is an implicit class with an empty definition that uses the default runtime handler. More info: https://git.k8s.io/enhancements/keps/sig-node/585-runtime-class This is a beta feature as of Kubernetes v1.14.'',
          Type [''string''],
          Format '''']),
      (''enableServiceLinks'', Schema [Description ''EnableServiceLinks indicates whether information about services should be injected into pod's environment variables, matching the syntax of Docker links. Optional: Defaults to true.'',
          Type [''boolean''],
          Format '''']),
      (''preemptionPolicy'', Schema [Description ''PreemptionPolicy is the Policy for preempting pods with lower priority. One of Never, PreemptLowerPriority. Defaults to PreemptLowerPriority if unset. This field is beta-level, gated by the NonPreemptingPriority feature-gate.'',
          Type [''string''],
          Format '''']),
      (''overhead'', Schema [Description ''Overhead represents the resource overhead associated with running a pod for a given RuntimeClass. This field will be autopopulated at admission time by the RuntimeClass admission controller. If the RuntimeClass admission controller is enabled, overhead must not be set in Pod create requests. The RuntimeClass admission controller will reject Pod create requests which have the overhead already set. If RuntimeClass is configured and selected in the PodSpec, Overhead will be set to the value defined in the corresponding RuntimeClass, otherwise it will remain unset and treated as zero. More info: https://git.k8s.io/enhancements/keps/sig-node/688-pod-overhead/README.md This field is beta-level as of Kubernetes v1.18, and is only honored by servers that enable the PodOverhead feature.'',
          Type [''object''],
          AdditionalProperties True (Schema [Default (JObject []),
            Ref (ref ''k8s.io/apimachinery/pkg/api/resource.Quantity'')])]),
      (''topologySpreadConstraints'', Schema [Extensions [(''x-kubernetes-list-map-keys'', JArray [JString ''topologyKey'', JString ''whenUnsatisfiable'']), (''x-kubernetes-list-type'', JString ''map''), (''x-kubernetes-patch-merge-key'', JString ''topologyKey''), (''x-kubernetes-patch-strategy'', JString ''merge'')],
          Description ''TopologySpreadConstraints describes how a group of pods ought to spread across topology domains. Scheduler will schedule pods in a way which abides by the constraints. All topologySpreadConstraints are ANDed.'',
          Type [''array''],
          Items (Schema [Default (JObject []),
            Ref (ref ''k8s.io/api/core/v1.TopologySpreadConstraint'')])]),
      (''setHostnameAsFQDN'', Schema [Description (''If true the pod's hostname will be configured as the pod's FQDN, rather than the leaf name (the default). In Linux containers, this means setting the FQDN in the hostname field of the kernel (the nodename field of struct utsname). In Windows containers, this means setting the registry value of hostname for the registry key HKEY_LOCAL_MACHINE'' @ [CHR 0x5C] @ ''SYSTEM'' @ [CHR 0x5C] @ ''CurrentControlSet'' @ [CHR 0x5C] @ ''Services'' @ [CHR 0x5C] @ ''Tcpip'' @ [CHR 0x5C] @ ''Parameters to FQDN. If a pod does not have FQDN, this has no effect. Default to false.''),
          Type [''boolean''],
          Format ''''])],
      Required [''containers'']],
     Dependencies = [''k8s.io/api/core/v1.Affinity'',
     ''k8s.io/api/core/v1.Container'',
     ''k8s.io/api/core/v1.EphemeralContainer'',
     ''k8s.io/api/core/v1.HostAlias'',
     ''k8s.io/api/core/v1.LocalObjectReference'',
     ''k8s.io/api/core/v1.PodDNSConfig'',
     ''k8s.io/api/core/v1.PodReadinessGate'',
     ''k8s.io/api/core/v1.PodSecurityContext'',
     ''k8s.io/api/core/v1.Toleration'',
     ''k8s.io/api/core/v1.TopologySpreadConstraint'',
     ''k8s.io/api/core/v1.Volume'',
     ''k8s.io/apimachinery/pkg/api/resource.Quantity'']\<rparr>"

definition schema_k8sio_api_core_v1_PodStatus :: "(string \<Rightarrow> 'r) \<Rightarrow> 'r openapi_definition" where
  "schema_k8sio_api_core_v1_PodStatus ref =
    \<lparr>defSchema = Schema [Description ''PodStatus represents information about the status of a pod. Status may trail the actual state of a system, especially if the node that hosts the pod cannot contact the control plane.'',
      Type [''object''],
      Properties [
      (''phase'', Schema [Description (''The phase of a Pod is a simple, high-level summary of where the Pod is in its lifecycle. The conditions array, the reason and message fields, and the individual container status arrays contain more detail about the pod's status. There are five possible phase values:'' @ [CHR 0x0A, CHR 0x0A] @ ''Pending: The pod has been accepted by the Kubernetes system, but one or more of the container images has not been created. This includes time before being scheduled as well as time spent downloading images over the network, which could take a while. Running: The pod has been bound to a node, and all of the containers have been created. At least one container is still running, or is in the process of starting or restarting. Succeeded: All containers in the pod have terminated in success, and will not be restarted. Failed: All containers in the pod have terminated, and at least one container has terminated in failure. The container either exited with non-zero status or was terminated by the system. Unknown: For some reason the state of the pod could not be obtained, typically due to an error in communicating with the host of the pod.'' @ [CHR 0x0A, CHR 0x0A] @ ''More info: https://kubernetes.io/docs/concepts/workloads/pods/pod-lifecycle#pod-phase''),
          Type [''string''],
          Format '''']),
      (''conditions'', Schema [Extensions [(''x-kubernetes-patch-merge-key'', JString ''type''), (''x-kubernetes-patch-strategy'', JString ''merge'')],
          Description ''Current service state of pod. More info: https://kubernetes.io/docs/concepts/workloads/pods/pod-lifecycle#pod-conditions'',
          Type [''array''],
          Items (Schema [Default (JObject []),
            Ref (ref ''k8s.io/api/core/v1.PodCondition'')])]),
      (''message'', Schema [Description ''A human readable message indicating details about why the pod is in this condition.'',
          Type [''string''],
          Format '''']),
      (''reason'', Schema [Description (''A brief CamelCase message indicating details about why the pod is in this state. e.g. 'Evicted'' @ [CHR 0x27]),
          Type [''string''],
          Format '''']),
      (''nominatedNodeName'', Schema [Description ''nominatedNodeName is set only when this pod preempts other pods on the node, but it cannot be scheduled right away as preemption victims receive their graceful termination periods. This field does not guarantee that the pod will be scheduled on this node. Scheduler may decide to place the pod elsewhere if other nodes become available sooner. Scheduler may also decide to give the resources on this node to a higher priority pod that is created after preemption. As a result, this field may be different than PodSpec.nodeName when the pod is scheduled.'',
          Type [''string''],
          Format '''']),
      (''hostIP'', Schema [Description ''IP address of the host to which the pod is assigned. Empty if not yet scheduled.'',
          Type [''string''],
          Format '''']),
      (''podIP'', Schema [Description ''IP address allocated to the pod. Routable at least within the cluster. Empty if not yet allocated.'',
          Type [''string''],
          Format '''']),
      (''podIPs'', Schema [Extensions [(''x-kubernetes-patch-merge-key'', JString ''ip''), (''x-kubernetes-patch-strategy'', JString ''merge'')],
          Description ''podIPs holds the IP addresses allocated to the pod. If this field is specified, the 0th entry must match the podIP field. Pods may be allocated at most 1 value for each of IPv4 and IPv6. This list is empty if no IPs have been allocated yet.'',
          Type [''array''],
          Items (Schema [Default (JObject []),
            Ref (ref ''k8s.io/api/core/v1.PodIP'')])]),
      (''startTime'', Schema [Description ''RFC 3339 date and time at which the object was acknowledged by the Kubelet. This is before the Kubelet pulled the container image(s) for the pod.'',
          Ref (ref ''k8s.io/apimachinery/pkg/apis/meta/v1.Time'')]),
      (''initContainerStatuses'', Schema [Description ''The list has one entry per init container in the manifest. The most recent successful init container will have ready = true, the most recently started container will have startTime set. More info: https://kubernetes.io/docs/concepts/workloads/pods/pod-lifecycle#pod-and-container-status'',
          Type [''array''],
          Items (Schema [Default (JObject []),
            Ref (ref ''k8s.io/api/core/v1.ContainerStatus'')])]),
      (''containerStatuses'', Schema [Description ''The list has one entry per container in the manifest. Each entry is currently the output of `docker inspect`. More info: https://kubernetes.io/docs/concepts/workloads/pods/pod-lifecycle#pod-and-container-status'',
          Type [''array''],
          Items (Schema [Default (JObject []),
            Ref (ref ''k8s.io/api/core/v1.ContainerStatus'')])]),
      (''qosClass'', Schema [Description ''The Quality of Service (QOS) classification assigned to the pod based on resource requirements See PodQOSClass type for available QOS classes More info: https://git.k8s.io/community/contributors/design-proposals/node/resource-qos.md'',
          Type [''string''],
          Format '''']),
      (''ephemeralContainerStatuses'', Schema [Description ''Status for any ephemeral containers that have run in this pod. This field is alpha-level and is only populated by servers that enable the EphemeralContainers feature.'',
          Type [''array''],
          Items (Schema [Default (JObject []),
            Ref (ref ''k8s.io/api/core/v1.ContainerStatus'')])])]],
     Dependencies = [''k8s.io/api/core/v1.ContainerStatus'',
     ''k8s.io/api/core/v1.PodCondition'',
     ''k8s.io/api/core/v1.PodIP'',
     ''k8s.io/apimachinery/pkg/apis/meta/v1.Time'']\<rparr>"

definition schema_k8sio_api_core_v1_PreferredSchedulingTerm :: "(string \<Rightarrow> 'r) \<Rightarrow> 'r openapi_definition" where
  "schema_k8sio_api_core_v1_PreferredSchedulingTerm ref =
    \<lparr>defSchema = Schema [Description ''An empty preferred scheduling term matches all objects with implicit weight 0 (i.e. it's a no-op). A null preferred scheduling term matches no objects (i.e. is also a no-op).'',
      Type [''object''],
      Properties [
      (''weight'', Schema [Description ''Weight associated with matching the corresponding nodeSelectorTerm, in the range 1-100.'',
          Default (JNumber 0),
          Type [''integer''],
          Format ''int32'']),
      (''preference'', Schema [Description ''A node selector term, associated with the corresponding weight.'',
          Default (JObject []),
          Ref (ref ''k8s.io/api/core/v1.NodeSelectorTerm'')])],
      Required [''weight'', ''preference'']],
     Dependencies = [''k8s.io/api/core/v1.NodeSelectorTerm'']\<rparr>"

definition schema_k8sio_api_core_v1_Sysctl :: "(string \<Rightarrow> 'r) \<Rightarrow> 'r openapi_definition" where
  "schema_k8sio_api_core_v1_Sysctl ref =
    \<lparr>defSchema = Schema [Description ''Sysctl defines a kernel parameter to be set'',
      Type [''object''],
      Properties [
      (''name'', Schema [Description ''Name of a property to set'',
          Default (JString ''''),
          Type [''string''],
          Format '''']),
      (''value'', Schema [Description ''Value of a property to set'',
          Default (JString ''''),
          Type [''string''],
          Format ''''])],
      Required [''name'', ''value'']],
     Dependencies = []\<rparr>"

definition schema_k8sio_api_core_v1_Toleration :: "(string \<Rightarrow> 'r) \<Rightarrow> 'r openapi_definition" where
  "schema_k8sio_api_core_v1_Toleration ref =
    \<lparr>defSchema = Schema [Description ''The pod this Toleration is attached to tolerates any taint that matches the triple <key,value,effect> using the matching operator <operator>.'',
      Type [''object''],
      Properties [
      (''key'', Schema [Description ''Key is the taint key that the toleration applies to. Empty means match all taint keys. If the key is empty, operator must be Exists; this combination means to match all values and all keys.'',
          Type [''string''],
          Format '''']),
      (''operator'', Schema [Description ''Operator represents a key's relationship to the value. Valid operators are Exists and Equal. Defaults to Equal. Exists is equivalent to wildcard for value, so that a pod can tolerate all taints of a particular category.'',
          Type [''string''],
          Format '''']),
      (''value'', Schema [Description ''Value is the taint value the toleration matches to. If the operator is Exists, the value should be empty, otherwise just a regular string.'',
          Type [''string''],
          Format '''']),
      (''effect'', Schema [Description ''Effect indicates the taint effect to match. Empty means match all taint effects. When specified, allowed values are NoSchedule, PreferNoSchedule and NoExecute.'',
          Type [''string''],
          Format '''']),
      (''tolerationSeconds'', Schema [Description ''TolerationSeconds represents the period of time the toleration (which must be of effect NoExecute, otherwise this field is ignored) tolerates the taint. By default, it is not set, which means tolerate the taint forever (do not evict). Zero and negative values will be treated as 0 (evict immediately) by the system.'',
          Type [''integer''],
          Format ''int64''])]],
     Dependencies = []\<rparr>"

definition schema_k8sio_api_core_v1_TopologySpreadConstraint :: "(string \<Rightarrow> 'r) \<Rightarrow> 'r openapi_definition" where
  "schema_k8sio_api_core_v1_TopologySpreadConstraint ref =
    \<lparr>defSchema = Schema [Description ''TopologySpreadConstraint specifies how to spread matching pods among the given topology.'',
      Type [''object''],
      Properties [
      (''maxSkew'', Schema [Description ''MaxSkew describes the degree to which pods may be unevenly distributed. When `whenUnsatisfiable=DoNotSchedule`, it is the maximum permitted difference between the number of matching pods in the target topology and the global minimum. For example, in a 3-zone cluster, MaxSkew is set to 1, and pods with the same labelSelector spread as 1/1/0: | zone1 | zone2 | zone3 | |   P   |   P   |       | - if MaxSkew is 1, incoming pod can only be scheduled to zone3 to become 1/1/1; scheduling it onto zone1(zone2) would make the ActualSkew(2-0) on zone1(zone2) violate MaxSkew(1). - if MaxSkew is 2, incoming pod can be scheduled onto any zone. When `whenUnsatisfiable=ScheduleAnyway`, it is used to give higher precedence to topologies that satisfy it. It's a required field. Default value is 1 and 0 is not allowed.'',
          Default (JNumber 0),
          Type [''integer''],
          Format ''int32'']),
      (''topologyKey'', Schema [Description ''TopologyKey is the key of node labels. Nodes that have a label with this key and identical values are considered to be in the same topology. We consider each <key, value> as a \"bucket\", and try to put balanced number of pods into each bucket. It's a required field.'',
          Default (JString ''''),
          Type [''string''],
          Format '''']),
      (''whenUnsatisfiable'', Schema [Description (''WhenUnsatisfiable indicates how to deal with a pod if it doesn't satisfy the spread constraint. - DoNotSchedule (default) tells the scheduler not to schedule it. - ScheduleAnyway tells the scheduler to schedule the pod in any location,'' @ [CHR 0x0A] @ ''  but giving higher precedence to topologies that would help reduce the'' @ [CHR 0x0A] @ ''  skew.'' @ [CHR 0x0A] @ ''A constraint is considered \"Unsatisfiable\" for an incoming pod if and only if every possible node assigment for that pod would violate \"MaxSkew\" on some topology. For example, in a 3-zone cluster, MaxSkew is set to 1, and pods with the same labelSelector spread as 3/1/1: | zone1 | zone2 | zone3 | | P P P |   P   |   P   | If WhenUnsatisfiable is set to DoNotSchedule, incoming pod can only be scheduled to zone2(zone3) to become 3/2/1(3/1/2) as ActualSkew(2-1) on zone2(zone3) satisfies MaxSkew(1). In other words, the cluster can still be imbalanced, but scheduler won't make it *more* imbalanced. It's a required field.''),
          Default (JString ''''),
          Type [''string''],
          Format '''']),
      (''labelSelector'', Schema [Description ''LabelSelector is used to find matching pods. Pods that match this label selector are counted to determine the number of pods in their corresponding topology domain.'',
          Ref (ref ''k8s.io/apimachinery/pkg/apis/meta/v1.LabelSelector'')])],
      Required [''maxSkew'', ''topologyKey'', ''whenUnsatisfiable'']],
     Dependencies = [''k8s.io/apimachinery/pkg/apis/meta/v1.LabelSelector'']\<rparr>"

definition schema_k8sio_api_core_v1_TypedLocalObjectReference :: "(string \<Rightarrow> 'r) \<Rightarrow> 'r openapi_definition" where
  "schema_k8sio_api_core_v1_TypedLocalObjectReference ref =
    \<lparr>defSchema = Schema [Description ''TypedLocalObjectReference contains enough information to let you locate the typed referenced object inside the same namespace.'',
      Type [''object''],
      Properties [
      (''apiGroup'', Schema [Description ''APIGroup is the group for the resource being referenced. If APIGroup is not specified, the specified Kind must be in the core API group. For any other third-party types, APIGroup is required.'',
          Type [''string''],
          Format '''']),
      (''kind'', Schema [Description ''Kind is the type of resource being referenced'',
          Default (JString ''''),
          Type [''string''],
          Format '''']),
      (''name'', Schema [Description ''Name is the name of resource being referenced'',
          Default (JString ''''),
          Type [''string''],
          Format ''''])],
      Required [''kind'', ''name''],
      Extensions [(''x-kubernetes-map-type'', JString ''atomic'')]],
     Dependencies = []\<rparr>"

definition schema_k8sio_api_core_v1_WeightedPodAffinityTerm :: "(string \<Rightarrow> 'r) \<Rightarrow> 'r openapi_definition" where
  "schema_k8sio_api_core_v1_WeightedPodAffinityTerm ref =
    \<lparr>defSchema = Schema [Description ''The weights of all of the matched WeightedPodAffinityTerm fields are added per-node to find the most preferred node(s)'',
      Type [''object''],
      Properties [
      (''weight'', Schema [Description ''weight associated with matching the corresponding podAffinityTerm, in the range 1-100.'',
          Default (JNumber 0),
          Type [''integer''],
          Format ''int32'']),
      (''podAffinityTerm'', Schema [Description ''Required. A pod affinity term, associated with the corresponding weight.'',
          Default (JObject []),
          Ref (ref ''k8s.io/api/core/v1.PodAffinityTerm'')])],
      Required [''weight'', ''podAffinityTerm'']],
     Dependencies = [''k8s.io/api/core/v1.PodAffinityTerm'']\<rparr>"

text \<open>Every definition here is consistent.\<close>

lemma openapi_pod_ok_1:
  "definition_ok ref (schema_k8sio_api_core_v1_Affinity ref)"
  "definition_ok ref (schema_k8sio_api_core_v1_HostAlias ref)"
  "definition_ok ref (schema_k8sio_api_core_v1_LocalObjectReference ref)"
  "definition_ok ref (schema_k8sio_api_core_v1_NodeAffinity ref)"
  "definition_ok ref (schema_k8sio_api_core_v1_NodeSelector ref)"
  "definition_ok ref (schema_k8sio_api_core_v1_NodeSelectorRequirement ref)"
  "definition_ok ref (schema_k8sio_api_core_v1_NodeSelectorTerm ref)"
  "definition_ok ref (schema_k8sio_api_core_v1_Pod ref)"
  unfolding definition_ok_def
  by (simp_all add:
        schema_k8sio_api_core_v1_Affinity_def
        schema_k8sio_api_core_v1_HostAlias_def
        schema_k8sio_api_core_v1_LocalObjectReference_def
        schema_k8sio_api_core_v1_NodeAffinity_def
        schema_k8sio_api_core_v1_NodeSelector_def
        schema_k8sio_api_core_v1_NodeSelectorRequirement_def
        schema_k8sio_api_core_v1_NodeSelectorTerm_def
        schema_k8sio_api_core_v1_Pod_def)

lemma openapi_pod_ok_2:
  "definition_ok ref (schema_k8sio_api_core_v1_PodAffinity ref)"
  "definition_ok ref (schema_k8sio_api_core_v1_PodAffinityTerm ref)"
  "definition_ok ref (schema_k8sio_api_core_v1_PodAntiAffinity ref)"
  "definition_ok ref (schema_k8sio_api_core_v1_PodCondition ref)"
  "definition_ok ref (schema_k8sio_api_core_v1_PodDNSConfig ref)"
  "definition_ok ref (schema_k8sio_api_core_v1_PodDNSConfigOption ref)"
  "definition_ok ref (schema_k8sio_api_core_v1_PodIP ref)"
  "definition_ok ref (schema_k8sio_api_core_v1_PodReadinessGate ref)"
  unfolding definition_ok_def
  by (simp_all add:
        schema_k8sio_api_core_v1_PodAffinity_def
        schema_k8sio_api_core_v1_PodAffinityTerm_def
        schema_k8sio_api_core_v1_PodAntiAffinity_def
        schema_k8sio_api_core_v1_PodCondition_def
        schema_k8sio_api_core_v1_PodDNSConfig_def
        schema_k8sio_api_core_v1_PodDNSConfigOption_def
        schema_k8sio_api_core_v1_PodIP_def
        schema_k8sio_api_core_v1_PodReadinessGate_def)

lemma openapi_pod_ok_3:
  "definition_ok ref (schema_k8sio_api_core_v1_PodSecurityContext ref)"
  "definition_ok ref (schema_k8sio_api_core_v1_PodSpec ref)"
  "definition_ok ref (schema_k8sio_api_core_v1_PodStatus ref)"
  "definition_ok ref (schema_k8sio_api_core_v1_PreferredSchedulingTerm ref)"
  "definition_ok ref (schema_k8sio_api_core_v1_Sysctl ref)"
  "definition_ok ref (schema_k8sio_api_core_v1_Toleration ref)"
  "definition_ok ref (schema_k8sio_api_core_v1_TopologySpreadConstraint ref)"
  "definition_ok ref (schema_k8sio_api_core_v1_TypedLocalObjectReference ref)"
  unfolding definition_ok_def
  by (simp_all add:
        schema_k8sio_api_core_v1_PodSecurityContext_def
        schema_k8sio_api_core_v1_PodSpec_def
        schema_k8sio_api_core_v1_PodStatus_def
        schema_k8sio_api_core_v1_PreferredSchedulingTerm_def
        schema_k8sio_api_core_v1_Sysctl_def
        schema_k8sio_api_core_v1_Toleration_def
        schema_k8sio_api_core_v1_TopologySpreadConstraint_def
        schema_k8sio_api_core_v1_TypedLocalObjectReference_def)

lemma openapi_pod_ok_4:
  "definition_ok ref (schema_k8sio_api_core_v1_WeightedPodAffinityTerm ref)"
  unfolding definition_ok_def
  by (simp_all add:
        schema_k8sio_api_core_v1_WeightedPodAffinityTerm_def)

lemmas openapi_pod_ok =
  openapi_pod_ok_1
  openapi_pod_ok_2
  openapi_pod_ok_3
  openapi_pod_ok_4

end
