(* ===== verification/OpenAPI_Requests.thy ===== *)
theory OpenAPI_Requests
  imports OpenAPI
begin

text \<open>
  The definitions of \<open>zz_generated.openapi.go\<close> for the options of requests, their answers and the watch events (the rest of \<open>meta/v1\<close>).
\<close>

definition schema_pkg_apis_meta_v1_APIGroup :: "(string \<Rightarrow> 'r) \<Rightarrow> 'r openapi_definition" where
  "schema_pkg_apis_meta_v1_APIGroup ref =
    \<lparr>defSchema = Schema [Description ''APIGroup contains the name, the supported versions, and the preferred version of a group.'',
      Type [''object''],
      Properties [
      (''kind'', Schema [Description ''Kind is a string value representing the REST resource this object represents. Servers may infer this from the endpoint the client submits requests to. Cannot be updated. In CamelCase. More info: https://git.k8s.io/community/contributors/devel/sig-architecture/api-conventions.md#types-kinds'',
          Type [''string''],
          Format '''']),
      (''apiVersion'', Schema [Description ''APIVersion defines the versioned schema of this representation of an object. Servers should convert recognized schemas to the latest internal value, and may reject unrecognized values. More info: https://git.k8s.io/community/contributors/devel/sig-architecture/api-conventions.md#resources'',
          Type [''string''],
          Format '''']),
      (''name'', Schema [Description ''name is the name of the group.'',
          Default (JString ''''),
          Type [''string''],
          Format '''']),
      (''versions'', Schema [Description ''versions are the versions supported in this group.'',
          Type [''array''],
          Items (Schema [Default (JObject []),
            Ref (ref ''k8s.io/apimachinery/pkg/apis/meta/v1.GroupVersionForDiscovery'')])]),
      (''preferredVersion'', Schema [Description ''preferredVersion is the version preferred by the API server, which probably is the storage version.'',
          Default (JObject []),
          Ref (ref ''k8s.io/apimachinery/pkg/apis/meta/v1.GroupVersionForDiscovery'')]),
      (''serverAddressByClientCIDRs'', Schema [Description ''a map of client CIDR to server address that is serving this group. This is to help clients reach servers in the most network-efficient way possible. Clients can use the appropriate server address as per the CIDR that they match. In case of multiple matches, clients should use the longest matching CIDR. The server returns only those CIDRs that it thinks that the client can match. For example: the master will return an internal IP CIDR only, if the client reaches the server using an internal IP. Server looks at X-Forwarded-For header or X-Real-Ip header or request.RemoteAddr (in that order) to get the client IP.'',
          Type [''array''],
          Items (Schema [Default (JObject []),
            Ref (ref ''k8s.io/apimachinery/pkg/apis/meta/v1.ServerAddressByClientCIDR'')])])],
      Required [''name'', ''versions'']],
     Dependencies = [''k8s.io/apimachinery/pkg/apis/meta/v1.GroupVersionForDiscovery'',
     ''k8s.io/apimachinery/pkg/apis/meta/v1.ServerAddressByClientCIDR'']\<rparr>"

definition schema_pkg_apis_meta_v1_APIGroupList :: "(string \<Rightarrow> 'r) \<Rightarrow> 'r openapi_definition" where
  "schema_pkg_apis_meta_v1_APIGroupList ref =
    \<lparr>defSchema = Schema [Description ''APIGroupList is a list of APIGroup, to allow clients to discover the API at /apis.'',
      Type [''object''],
      Properties [
      (''kind'', Schema [Description ''Kind is a string value representing the REST resource this object represents. Servers may infer this from the endpoint the client submits requests to. Cannot be updated. In CamelCase. More info: https://git.k8s.io/community/contributors/devel/sig-architecture/api-conventions.md#types-kinds'',
          Type [''string''],
          Format '''']),
      (''apiVersion'', Schema [Description ''APIVersion defines the versioned schema of this representation of an object. Servers should convert recognized schemas to the latest internal value, and may reject unrecognized values. More info: https://git.k8s.io/community/contributors/devel/sig-architecture/api-conventions.md#resources'',
          Type [''string''],
          Format '''']),
      (''groups'', Schema [Description ''groups is a list of APIGroup.'',
          Type [''array''],
          Items (Schema [Default (JObject []),
            Ref (ref ''k8s.io/apimachinery/pkg/apis/meta/v1.APIGroup'')])])],
      Required [''groups'']],
     Dependencies = [''k8s.io/apimachinery/pkg/apis/meta/v1.APIGroup'']\<rparr>"

definition schema_pkg_apis_meta_v1_APIResource :: "(string \<Rightarrow> 'r) \<Rightarrow> 'r openapi_definition" where
  "schema_pkg_apis_meta_v1_APIResource ref =
    \<lparr>defSchema = Schema [Description ''APIResource specifies the name of a resource and whether it is namespaced.'',
      Type [''object''],
      Properties [
      (''name'', Schema [Description ''name is the plural name of the resource.'',
          Default (JString ''''),
          Type [''string''],
          Format '''']),
      (''singularName'', Schema [Description ''singularName is the singular name of the resource.  This allows clients to handle plural and singular opaquely. The singularName is more correct for reporting status on a single item and both singular and plural are allowed from the kubectl CLI interface.'',
          Default (JString ''''),
          Type [''string''],
          Format '''']),
      (''namespaced'', Schema [Description ''namespaced indicates if a resource is namespaced or not.'',
          Default (JBool False),
          Type [''boolean''],
          Format '''']),
      (''group'', Schema [Description ''group is the preferred group of the resource.  Empty implies the group of the containing resource list. For subresources, this may have a different value, for example: Scale\".'',
          Type [''string''],
          Format '''']),
      (''version'', Schema [Description ''version is the preferred version of the resource.  Empty implies the version of the containing resource list For subresources, this may have a different value, for example: v1 (while inside a v1beta1 version of the core resource's group)\".'',
          Type [''string''],
          Format '''']),
      (''kind'', Schema [Description ''kind is the kind for the resource (e.g. 'Foo' is the kind for a resource 'foo')'',
          Default (JString ''''),
          Type [''string''],
          Format '''']),
      (''verbs'', Schema [Description ''verbs is a list of supported kube verbs (this includes get, list, watch, create, update, patch, delete, deletecollection, and proxy)'',
          Type [''array''],
          Items (Schema [Default (JString ''''),
            Type [''string''],
            Format ''''])]),
      (''shortNames'', Schema [Description ''shortNames is a list of suggested short names of the resource.'',
          Type [''array''],
          Items (Schema [Default (JString ''''),
            Type [''string''],
            Format ''''])]),
      (''categories'', Schema [Description ''categories is a list of the grouped resources this resource belongs to (e.g. 'all')'',
          Type [''array''],
          Items (Schema [Default (JString ''''),
            Type [''string''],
            Format ''''])]),
      (''storageVersionHash'', Schema [Description ''The hash value of the storage version, the version this resource is converted to when written to the data store. Value must be treated as opaque by clients. Only equality comparison on the value is valid. This is an alpha feature and may change or be removed in the future. The field is populated by the apiserver only if the StorageVersionHash feature gate is enabled. This field will remain optional even if it graduates.'',
          Type [''string''],
          Format ''''])],
      Required [''name'', ''singularName'', ''namespaced'', ''kind'', ''verbs'']],
     Dependencies = []\<rparr>"

definition schema_pkg_apis_meta_v1_APIResourceList :: "(string \<Rightarrow> 'r) \<Rightarrow> 'r openapi_definition" where
  "schema_pkg_apis_meta_v1_APIResourceList ref =
    \<lparr>defSchema = Schema [Description ''APIResourceList is a list of APIResource, it is used to expose the name of the resources supported in a specific group and version, and if the resource is namespaced.'',
      Type [''object''],
      Properties [
      (''kind'', Schema [Description ''Kind is a string value representing the REST resource this object represents. Servers may infer this from the endpoint the client submits requests to. Cannot be updated. In CamelCase. More info: https://git.k8s.io/community/contributors/devel/sig-architecture/api-conventions.md#types-kinds'',
          Type [''string''],
          Format '''']),
      (''apiVersion'', Schema [Description ''APIVersion defines the versioned schema of this representation of an object. Servers should convert recognized schemas to the latest internal value, and may reject unrecognized values. More info: https://git.k8s.io/community/contributors/devel/sig-architecture/api-conventions.md#resources'',
          Type [''string''],
          Format '''']),
      (''groupVersion'', Schema [Description ''groupVersion is the group and version this APIResourceList is for.'',
          Default (JString ''''),
          Type [''string''],
          Format '''']),
      (''resources'', Schema [Description ''resources contains the name of the resources and if they are namespaced.'',
          Type [''array''],
          Items (Schema [Default (JObject []),
            Ref (ref ''k8s.io/apimachinery/pkg/apis/meta/v1.APIResource'')])])],
      Required [''groupVersion'', ''resources'']],
     Dependencies = [''k8s.io/apimachinery/pkg/apis/meta/v1.APIResource'']\<rparr>"

definition schema_pkg_apis_meta_v1_APIVersions :: "(string \<Rightarrow> 'r) \<Rightarrow> 'r openapi_definition" where
  "schema_pkg_apis_meta_v1_APIVersions ref =
    \<lparr>defSchema = Schema [Description ''APIVersions lists the versions that are available, to allow clients to discover the API at /api, which is the root path of the legacy v1 API.'',
      Type [''object''],
      Properties [
      (''kind'', Schema [Description ''Kind is a string value representing the REST resource this object represents. Servers may infer this from the endpoint the client submits requests to. Cannot be updated. In CamelCase. More info: https://git.k8s.io/community/contributors/devel/sig-architecture/api-conventions.md#types-kinds'',
          Type [''string''],
          Format '''']),
      (''apiVersion'', Schema [Description ''APIVersion defines the versioned schema of this representation of an object. Servers should convert recognized schemas to the latest internal value, and may reject unrecognized values. More info: https://git.k8s.io/community/contributors/devel/sig-architecture/api-conventions.md#resources'',
          Type [''string''],
          Format '''']),
      (''versions'', Schema [Description ''versions are the api versions that are available.'',
          Type [''array''],
          Items (Schema [Default (JString ''''),
            Type [''string''],
            Format ''''])]),
      (''serverAddressByClientCIDRs'', Schema [Description ''a map of client CIDR to server address that is serving this group. This is to help clients reach servers in the most network-efficient way possible. Clients can use the appropriate server address as per the CIDR that they match. In case of multiple matches, clients should use the longest matching CIDR. The server returns only those CIDRs that it thinks that the client can match. For example: the master will return an internal IP CIDR only, if the client reaches the server using an internal IP. Server looks at X-Forwarded-For header or X-Real-Ip header or request.RemoteAddr (in that order) to get the client IP.'',
          Type [''array''],
          Items (Schema [Default (JObject []),
            Ref (ref ''k8s.io/apimachinery/pkg/apis/meta/v1.ServerAddressByClientCIDR'')])])],
      Required [''versions'', ''serverAddressByClientCIDRs'']],
     Dependencies = [''k8s.io/apimachinery/pkg/apis/meta/v1.ServerAddressByClientCIDR'']\<rparr>"

definition schema_pkg_apis_meta_v1_ApplyOptions :: "(string \<Rightarrow> 'r) \<Rightarrow> 'r openapi_definition" where
  "schema_pkg_apis_meta_v1_ApplyOptions ref =
    \<lparr>defSchema = Schema [Description ''ApplyOptions may be provided when applying an API object. FieldManager is required for apply requests. ApplyOptions is equivalent to PatchOptions. It is provided as a convenience with documentation that speaks specifically to how the options fields relate to apply.'',
      Type [''object''],
      Properties [
      (''kind'', Schema [Description ''Kind is a string value representing the REST resource this object represents. Servers may infer this from the endpoint the client submits requests to. Cannot be updated. In CamelCase. More info: https://git.k8s.io/community/contributors/devel/sig-architecture/api-conventions.md#types-kinds'',
          Type [''string''],
          Format '''']),
      (''apiVersion'', Schema [Description ''APIVersion defines the versioned schema of this representation of an object. Servers should convert recognized schemas to the latest internal value, and may reject unrecognized values. More info: https://git.k8s.io/community/contributors/devel/sig-architecture/api-conventions.md#resources'',
          Type [''string''],
          Format '''']),
      (''dryRun'', Schema [Description ''When present, indicates that modifications should not be persisted. An invalid or unrecognized dryRun directive will result in an error response and no further processing of the request. Valid values are: - All: all dry run stages will be processed'',
          Type [''array''],
          Items (Schema [Default (JString ''''),
            Type [''string''],
            Format ''''])]),
      (''force'', Schema [Description ''Force is going to \"force\" Apply requests. It means user will re-acquire conflicting fields owned by other people.'',
          Default (JBool False),
          Type [''boolean''],
          Format '''']),
      (''fieldManager'', Schema [Description ''fieldManager is a name associated with the actor or entity that is making these changes. The value must be less than or 128 characters long, and only contain printable characters, as defined by https://golang.org/pkg/unicode/#IsPrint. This field is required.'',
          Default (JString ''''),
          Type [''string''],
          Format ''''])],
      Required [''force'', ''fieldManager'']],
     Dependencies = []\<rparr>"

definition schema_pkg_apis_meta_v1_Condition :: "(string \<Rightarrow> 'r) \<Rightarrow> 'r openapi_definition" where
  "schema_pkg_apis_meta_v1_Condition ref =
    \<lparr>defSchema = Schema [Description ''Condition contains details for one aspect of the current state of this API Resource.'',
      Type [''object''],
      Properties [
      (''type'', Schema [Description ''type of condition in CamelCase or in foo.example.com/CamelCase.'',
          Default (JString ''''),
          Type [''string''],
          Format '''']),
      (''status'', Schema [Description ''status of the condition, one of True, False, Unknown.'',
          Default (JString ''''),
          Type [''string''],
          Format '''']),
      (''observedGeneration'', Schema [Description ''observedGeneration represents the .metadata.generation that the condition was set based upon. For instance, if .metadata.generation is currently 12, but the .status.conditions[x].observedGeneration is 9, the condition is out of date with respect to the current state of the instance.'',
          Type [''integer''],
          Format ''int64'']),
      (''lastTransitionTime'', Schema [Description ''lastTransitionTime is the last time the condition transitioned from one status to another. This should be when the underlying condition changed.  If that is not known, then using the time when the API field changed is acceptable.'',
          Default (JObject []),
          Ref (ref ''k8s.io/apimachinery/pkg/apis/meta/v1.Time'')]),
      (''reason'', Schema [Description ''reason contains a programmatic identifier indicating the reason for the condition's last transition. Producers of specific condition types may define expected values and meanings for this field, and whether the values are considered a guaranteed API. The value should be a CamelCase string. This field may not be empty.'',
          Default (JString ''''),
          Type [''string''],
          Format '''']),
      (''message'', Schema [Description ''message is a human readable message indicating details about the transition. This may be an empty string.'',
          Default (JString ''''),
          Type [''string''],
          Format ''''])],
      Required [''type'', ''status'', ''lastTransitionTime'', ''reason'', ''message'']],
     Dependencies = [''k8s.io/apimachinery/pkg/apis/meta/v1.Time'']\<rparr>"

definition schema_pkg_apis_meta_v1_CreateOptions :: "(string \<Rightarrow> 'r) \<Rightarrow> 'r openapi_definition" where
  "schema_pkg_apis_meta_v1_CreateOptions ref =
    \<lparr>defSchema = Schema [Description ''CreateOptions may be provided when creating an API object.'',
      Type [''object''],
      Properties [
      (''kind'', Schema [Description ''Kind is a string value representing the REST resource this object represents. Servers may infer this from the endpoint the client submits requests to. Cannot be updated. In CamelCase. More info: https://git.k8s.io/community/contributors/devel/sig-architecture/api-conventions.md#types-kinds'',
          Type [''string''],
          Format '''']),
      (''apiVersion'', Schema [Description ''APIVersion defines the versioned schema of this representation of an object. Servers should convert recognized schemas to the latest internal value, and may reject unrecognized values. More info: https://git.k8s.io/community/contributors/devel/sig-architecture/api-conventions.md#resources'',
          Type [''string''],
          Format '''']),
      (''dryRun'', Schema [Description ''When present, indicates that modifications should not be persisted. An invalid or unrecognized dryRun directive will result in an error response and no further processing of the request. Valid values are: - All: all dry run stages will be processed'',
          Type [''array''],
          Items (Schema [Default (JString ''''),
            Type [''string''],
            Format ''''])]),
      (''fieldManager'', Schema [Description ''fieldManager is a name associated with the actor or entity that is making these changes. The value must be less than or 128 characters long, and only contain printable characters, as defined by https://golang.org/pkg/unicode/#IsPrint.'',
          Type [''string''],
          Format ''''])]],
     Dependencies = []\<rparr>"

definition schema_pkg_apis_meta_v1_DeleteOptions :: "(string \<Rightarrow> 'r) \<Rightarrow> 'r openapi_definition" where
  "schema_pkg_apis_meta_v1_DeleteOptions ref =
    \<lparr>defSchema = Schema [Description ''DeleteOptions may be provided when deleting an API object.'',
      Type [''object''],
      Properties [
      (''kind'', Schema [Description ''Kind is a string value representing the REST resource this object represents. Servers may infer this from the endpoint the client submits requests to. Cannot be updated. In CamelCase. More info: https://git.k8s.io/community/contributors/devel/sig-architecture/api-conventions.md#types-kinds'',
          Type [''string''],
          Format '''']),
      (''apiVersion'', Schema [Description ''APIVersion defines the versioned schema of this representation of an object. Servers should convert recognized schemas to the latest internal value, and may reject unrecognized values. More info: https://git.k8s.io/community/contributors/devel/sig-architecture/api-conventions.md#resources'',
          Type [''string''],
          Format '''']),
      (''gracePeriodSeconds'', Schema [Description ''The duration in seconds before the object should be deleted. Value must be non-negative integer. The value zero indicates delete immediately. If this value is nil, the default grace period for the specified type will be used. Defaults to a per object value if not specified. zero means delete immediately.'',
          Type [''integer''],
          Format ''int64'']),
      (''preconditions'', Schema [Description ''Must be fulfilled before a deletion is carried out. If not possible, a 409 Conflict status will be returned.'',
          Ref (ref ''k8s.io/apimachinery/pkg/apis/meta/v1.Preconditions'')]),
      (''orphanDependents'', Schema [Description ''Deprecated: please use the PropagationPolicy, this field will be deprecated in 1.7. Should the dependent objects be orphaned. If true/false, the \"orphan\" finalizer will be added to/removed from the object's finalizers list. Either this field or PropagationPolicy may be set, but not both.'',
          Type [''boolean''],
          Format '''']),
      (''propagationPolicy'', Schema [Description ''Whether and how garbage collection will be performed. Either this field or OrphanDependents may be set, but not both. The default policy is decided by the existing finalizer set in the metadata.finalizers and the resource-specific default policy. Acceptable values are: 'Orphan' - orphan the dependents; 'Background' - allow the garbage collector to delete the dependents in the background; 'Foreground' - a cascading policy that deletes all dependents in the foreground.'',
          Type [''string''],
          Format '''']),
      (''dryRun'', Schema [Description ''When present, indicates that modifications should not be persisted. An invalid or unrecognized dryRun directive will result in an error response and no further processing of the request. Valid values are: - All: all dry run stages will be processed'',
          Type [''array''],
          Items (Schema [Default (JString ''''),
            Type [''string''],
            Format ''''])])]],
     Dependencies = [''k8s.io/apimachinery/pkg/apis/meta/v1.Preconditions'']\<rparr>"

definition schema_pkg_apis_meta_v1_Duration :: "openapi_lib \<Rightarrow> (string \<Rightarrow> 'r) \<Rightarrow> 'r openapi_definition" where
  "schema_pkg_apis_meta_v1_Duration lib ref =
    \<lparr>defSchema = Schema [Description ''Duration is a wrapper around time.Duration which supports correct marshaling to YAML and JSON. In particular, it marshals into strings, which can be used as map keys in json.'',
      Type (OpenAPISchemaType lib ''metav1.Duration''),
      Format (OpenAPISchemaFormat lib ''metav1.Duration'')],
     Dependencies = []\<rparr>"

definition schema_pkg_apis_meta_v1_GetOptions :: "(string \<Rightarrow> 'r) \<Rightarrow> 'r openapi_definition" where
  "schema_pkg_apis_meta_v1_GetOptions ref =
    \<lparr>defSchema = Schema [Description ''GetOptions is the standard query options to the standard REST get call.'',
      Type [''object''],
      Properties [
      (''kind'', Schema [Description ''Kind is a string value representing the REST resource this object represents. Servers may infer this from the endpoint the client submits requests to. Cannot be updated. In CamelCase. More info: https://git.k8s.io/community/contributors/devel/sig-architecture/api-conventions.md#types-kinds'',
          Type [''string''],
          Format '''']),
      (''apiVersion'', Schema [Description ''APIVersion defines the versioned schema of this representation of an object. Servers should convert recognized schemas to the latest internal value, and may reject unrecognized values. More info: https://git.k8s.io/community/contributors/devel/sig-architecture/api-conventions.md#resources'',
          Type [''string''],
          Format '''']),
      (''resourceVersion'', Schema [Description (''resourceVersion sets a constraint on what resource versions a request may be served from. See https://kubernetes.io/docs/reference/using-api/api-concepts/#resource-versions for details.'' @ [CHR 0x0A, CHR 0x0A] @ ''Defaults to unset''),
          Type [''string''],
          Format ''''])]],
     Dependencies = []\<rparr>"

definition schema_pkg_apis_meta_v1_GroupKind :: "(string \<Rightarrow> 'r) \<Rightarrow> 'r openapi_definition" where
  "schema_pkg_apis_meta_v1_GroupKind ref =
    \<lparr>defSchema = Schema [Description ''GroupKind specifies a Group and a Kind, but does not force a version.  This is useful for identifying concepts during lookup stages without having partially valid types'',
      Type [''object''],
      Properties [
      (''group'', Schema [Default (JString ''''),
          Type [''string''],
          Format '''']),
      (''kind'', Schema [Default (JString ''''),
          Type [''string''],
          Format ''''])],
      Required [''group'', ''kind'']],
     Dependencies = []\<rparr>"

definition schema_pkg_apis_meta_v1_GroupResource :: "(string \<Rightarrow> 'r) \<Rightarrow> 'r openapi_definition" where
  "schema_pkg_apis_meta_v1_GroupResource ref =
    \<lparr>defSchema = Schema [Description ''GroupResource specifies a Group and a Resource, but does not force a version.  This is useful for identifying concepts during lookup stages without having partially valid types'',
      Type [''object''],
      Properties [
      (''group'', Schema [Default (JString ''''),
          Type [''string''],
          Format '''']),
      (''resource'', Schema [Default (JString ''''),
          Type [''string''],
          Format ''''])],
      Required [''group'', ''resource'']],
     Dependencies = []\<rparr>"

definition schema_pkg_apis_meta_v1_GroupVersion :: "(string \<Rightarrow> 'r) \<Rightarrow> 'r openapi_definition" where
  "schema_pkg_apis_meta_v1_GroupVersion ref =
    \<lparr>defSchema = Schema [Description ''GroupVersion contains the \"group\" and the \"version\", which uniquely identifies the API.'',
      Type [''object''],
      Properties [
      (''group'', Schema [Default (JString ''''),
          Type [''string''],
          Format '''']),
      (''version'', Schema [Default (JString ''''),
          Type [''string''],
          Format ''''])],
      Required [''group'', ''version'']],
     Dependencies = []\<rparr>"

definition schema_pkg_apis_meta_v1_GroupVersionForDiscovery :: "(string \<Rightarrow> 'r) \<Rightarrow> 'r openapi_definition" where
  "schema_pkg_apis_meta_v1_GroupVersionForDiscovery ref =
    \<lparr>defSchema = Schema [Description ''GroupVersion contains the \"group/version\" and \"version\" string of a version. It is made a struct to keep extensibility.'',
      Type [''object''],
      Properties [
      (''groupVersion'', Schema [Description ''groupVersion specifies the API group and version in the form \"group/version\"'',
          Default (JString ''''),
          Type [''string''],
          Format '''']),
      (''version'', Schema [Description ''version specifies the version in the form of \"version\". This is to save the clients the trouble of splitting the GroupVersion.'',
          Default (JString ''''),
          Type [''string''],
          Format ''''])],
      Required [''groupVersion'', ''version'']],
     Dependencies = []\<rparr>"

definition schema_pkg_apis_meta_v1_GroupVersionKind :: "(string \<Rightarrow> 'r) \<Rightarrow> 'r openapi_definition" where
  "schema_pkg_apis_meta_v1_GroupVersionKind ref =
    \<lparr>defSchema = Schema [Description ''GroupVersionKind unambiguously identifies a kind.  It doesn't anonymously include GroupVersion to avoid automatic coersion.  It doesn't use a GroupVersion to avoid custom marshalling'',
      Type [''object''],
      Properties [
      (''group'', Schema [Default (JString ''''),
          Type [''string''],
          Format '''']),
      (''version'', Schema [Default (JString ''''),
          Type [''string''],
          Format '''']),
      (''kind'', Schema [Default (JString ''''),
          Type [''string''],
          Format ''''])],
      Required [''group'', ''version'', ''kind'']],
     Dependencies = []\<rparr>"

definition schema_pkg_apis_meta_v1_GroupVersionResource :: "(string \<Rightarrow> 'r) \<Rightarrow> 'r openapi_definition" where
  "schema_pkg_apis_meta_v1_GroupVersionResource ref =
    \<lparr>defSchema = Schema [Description ''GroupVersionResource unambiguously identifies a resource.  It doesn't anonymously include GroupVersion to avoid automatic coersion.  It doesn't use a GroupVersion to avoid custom marshalling'',
      Type [''object''],
      Properties [
      (''group'', Schema [Default (JString ''''),
          Type [''string''],
          Format '''']),
      (''version'', Schema [Default (JString ''''),
          Type [''string''],
          Format '''']),
      (''resource'', Schema [Default (JString ''''),
          Type [''string''],
          Format ''''])],
      Required [''group'', ''version'', ''resource'']],
     Dependencies = []\<rparr>"

definition schema_pkg_apis_meta_v1_List :: "(string \<Rightarrow> 'r) \<Rightarrow> 'r openapi_definition" where
  "schema_pkg_apis_meta_v1_List ref =
    \<lparr>defSchema = Schema [Description ''List holds a list of objects, which may not be known by the server.'',
      Type [''object''],
      Properties [
      (''kind'', Schema [Description ''Kind is a string value representing the REST resource this object represents. Servers may infer this from the endpoint the client submits requests to. Cannot be updated. In CamelCase. More info: https://git.k8s.io/community/contributors/devel/sig-architecture/api-conventions.md#types-kinds'',
          Type [''string''],
          Format '''']),
      (''apiVersion'', Schema [Description ''APIVersion defines the versioned schema of this representation of an object. Servers should convert recognized schemas to the latest internal value, and may reject unrecognized values. More info: https://git.k8s.io/community/contributors/devel/sig-architecture/api-conventions.md#resources'',
          Type [''string''],
          Format '''']),
      (''metadata'', Schema [Description ''Standard list metadata. More info: https://git.k8s.io/community/contributors/devel/sig-architecture/api-conventions.md#types-kinds'',
          Default (JObject []),
          Ref (ref ''k8s.io/apimachinery/pkg/apis/meta/v1.ListMeta'')]),
      (''items'', Schema [Description ''List of objects'',
          Type [''array''],
          Items (Schema [Default (JObject []),
            Ref (ref ''k8s.io/apimachinery/pkg/runtime.RawExtension'')])])],
      Required [''items'']],
     Dependencies = [''k8s.io/apimachinery/pkg/apis/meta/v1.ListMeta'',
     ''k8s.io/apimachinery/pkg/runtime.RawExtension'']\<rparr>"

definition schema_pkg_apis_meta_v1_ListMeta :: "(string \<Rightarrow> 'r) \<Rightarrow> 'r openapi_definition" where
  "schema_pkg_apis_meta_v1_ListMeta ref =
    \<lparr>defSchema = Schema [Description ''ListMeta describes metadata that synthetic resources must have, including lists and various status objects. A resource may have only one of {ObjectMeta, ListMeta}.'',
      Type [''object''],
      Properties [
      (''selfLink'', Schema [Description (''selfLink is a URL representing this object. Populated by the system. Read-only.'' @ [CHR 0x0A, CHR 0x0A] @ ''DEPRECATED Kubernetes will stop propagating this field in 1.20 release and the field is planned to be removed in 1.21 release.''),
          Type [''string''],
          Format '''']),
      (''resourceVersion'', Schema [Description ''String that identifies the server's internal version of this object that can be used by clients to determine when objects have changed. Value must be treated as opaque by clients and passed unmodified back to the server. Populated by the system. Read-only. More info: https://git.k8s.io/community/contributors/devel/sig-architecture/api-conventions.md#concurrency-control-and-consistency'',
          Type [''string''],
          Format '''']),
      (''continue'', Schema [Description ''continue may be set if the user set a limit on the number of items returned, and indicates that the server has more data available. The value is opaque and may be used to issue another request to the endpoint that served this list to retrieve the next set of available objects. Continuing a consistent list may not be possible if the server configuration has changed or more than a few minutes have passed. The resourceVersion field returned when using this continue value will be identical to the value in the first response, unless you have received this token from an error message.'',
          Type [''string''],
          Format '''']),
      (''remainingItemCount'', Schema [Description ''remainingItemCount is the number of subsequent items in the list which are not included in this list response. If the list request contained label or field selectors, then the number of remaining items is unknown and the field will be left unset and omitted during serialization. If the list is complete (either because it is not chunking or because this is the last chunk), then there are no more remaining items and this field will be left unset and omitted during serialization. Servers older than v1.15 do not set this field. The intended use of the remainingItemCount is *estimating* the size of a collection. Clients should not rely on the remainingItemCount to be set or to be exact.'',
          Type [''integer''],
          Format ''int64''])]],
     Dependencies = []\<rparr>"

definition schema_pkg_apis_meta_v1_ListOptions :: "(string \<Rightarrow> 'r) \<Rightarrow> 'r openapi_definition" where
  "schema_pkg_apis_meta_v1_ListOptions ref =
    \<lparr>defSchema = Schema [Description ''ListOptions is the query options to a standard REST list call.'',
      Type [''object''],
      Properties [
      (''kind'', Schema [Description ''Kind is a string value representing the REST resource this object represents. Servers may infer this from the endpoint the client submits requests to. Cannot be updated. In CamelCase. More info: https://git.k8s.io/community/contributors/devel/sig-architecture/api-conventions.md#types-kinds'',
          Type [''string''],
          Format '''']),
      (''apiVersion'', Schema [Description ''APIVersion defines the versioned schema of this representation of an object. Servers should convert recognized schemas to the latest internal value, and may reject unrecognized values. More info: https://git.k8s.io/community/contributors/devel/sig-architecture/api-conventions.md#resources'',
          Type [''string''],
          Format '''']),
      (''labelSelector'', Schema [Description ''A selector to restrict the list of returned objects by their labels. Defaults to everything.'',
          Type [''string''],
          Format '''']),
      (''fieldSelector'', Schema [Description ''A selector to restrict the list of returned objects by their fields. Defaults to everything.'',
          Type [''string''],
          Format '''']),
      (''watch'', Schema [Description ''Watch for changes to the described resources and return them as a stream of add, update, and remove notifications. Specify resourceVersion.'',
          Type [''boolean''],
          Format '''']),
      (''allowWatchBookmarks'', Schema [Description ''allowWatchBookmarks requests watch events with type \"BOOKMARK\". Servers that do not implement bookmarks may ignore this flag and bookmarks are sent at the server's discretion. Clients should not assume bookmarks are returned at any specific interval, nor may they assume the server will send any BOOKMARK event during a session. If this is not a watch, this field is ignored.'',
          Type [''boolean''],
          Format '''']),
      (''resourceVersion'', Schema [Description (''resourceVersion sets a constraint on what resource versions a request may be served from. See https://kubernetes.io/docs/reference/using-api/api-concepts/#resource-versions for details.'' @ [CHR 0x0A, CHR 0x0A] @ ''Defaults to unset''),
          Type [''string''],
          Format '''']),
      (''resourceVersionMatch'', Schema [Description (''resourceVersionMatch determines how resourceVersion is applied to list calls. It is highly recommended that resourceVersionMatch be set for list calls where resourceVersion is set See https://kubernetes.io/docs/reference/using-api/api-concepts/#resource-versions for details.'' @ [CHR 0x0A, CHR 0x0A] @ ''Defaults to unset''),
          Type [''string''],
          Format '''']),
      (''timeoutSeconds'', Schema [Description ''Timeout for the list/watch call. This limits the duration of the call, regardless of any activity or inactivity.'',
          Type [''integer''],
          Format ''int64'']),
      (''limit'', Schema [Description (''limit is a maximum number of responses to return for a list call. If more items exist, the server will set the `continue` field on the list metadata to a value that can be used with the same initial query to retrieve the next set of results. Setting a limit may return fewer than the requested amount of items (up to zero items) in the event all requested objects are filtered out and clients should only use the presence of the continue field to determine whether more results are available. Servers may choose not to support the limit argument and will return all of the available results. If limit is specified and the continue field is empty, clients may assume that no more results are available. This field is not supported if watch is true.'' @ [CHR 0x0A, CHR 0x0A] @ ''The server guarantees that the objects returned when using continue will be identical to issuing a single list call without a limit - that is, no objects created, modified, or deleted after the first request is issued will be included in any subsequent continued requests. This is sometimes referred to as a consistent snapshot, and ensures that a client that is using limit to receive smaller chunks of a very large result can ensure they see all possible objects. If objects are updated during a chunked list the version of the object that was present at the time the first list result was calculated is returned.''),
          Type [''integer''],
          Format ''int64'']),
      (''continue'', Schema [Description (''The continue option should be set when retrieving more results from the server. Since this value is server defined, clients may only use the continue value from a previous query result with identical query parameters (except for the value of continue) and the server may reject a continue value it does not recognize. If the specified continue value is no longer valid whether due to expiration (generally five to fifteen minutes) or a configuration change on the server, the server will respond with a 410 ResourceExpired error together with a continue token. If the client needs a consistent list, it must restart their list without the continue field. Otherwise, the client may send another list request with the token received with the 410 error, the server will respond with a list starting from the next key, but from the latest snapshot, which is inconsistent from the previous list results - objects that are created, modified, or deleted after the first list request will be included in the response, as long as their keys are after the \"next key\".'' @ [CHR 0x0A, CHR 0x0A] @ ''This field is not supported when watch is true. Clients may start a watch from the last resourceVersion value returned by the server and not miss any modifications.''),
          Type [''string''],
          Format ''''])]],
     Dependencies = []\<rparr>"

definition schema_pkg_apis_meta_v1_MicroTime :: "openapi_lib \<Rightarrow> (string \<Rightarrow> 'r) \<Rightarrow> 'r openapi_definition" where
  "schema_pkg_apis_meta_v1_MicroTime lib ref =
    \<lparr>defSchema = Schema [Description ''MicroTime is version of Time with microsecond level precision.'',
      Type (OpenAPISchemaType lib ''metav1.MicroTime''),
      Format (OpenAPISchemaFormat lib ''metav1.MicroTime'')],
     Dependencies = []\<rparr>"

definition schema_pkg_apis_meta_v1_PartialObjectMetadata :: "(string \<Rightarrow> 'r) \<Rightarrow> 'r openapi_definition" where
  "schema_pkg_apis_meta_v1_PartialObjectMetadata ref =
    \<lparr>defSchema = Schema [Description ''PartialObjectMetadata is a generic representation of any object with ObjectMeta. It allows clients to get access to a particular ObjectMeta schema without knowing the details of the version.'',
      Type [''object''],
      Properties [
      (''kind'', Schema [Description ''Kind is a string value representing the REST resource this object represents. Servers may infer this from the endpoint the client submits requests to. Cannot be updated. In CamelCase. More info: https://git.k8s.io/community/contributors/devel/sig-architecture/api-conventions.md#types-kinds'',
          Type [''string''],
          Format '''']),
      (''apiVersion'', Schema [Description ''APIVersion defines the versioned schema of this representation of an object. Servers should convert recognized schemas to the latest internal value, and may reject unrecognized values. More info: https://git.k8s.io/community/contributors/devel/sig-architecture/api-conventions.md#resources'',
          Type [''string''],
          Format '''']),
      (''metadata'', Schema [Description ''Standard object's metadata. More info: https://git.k8s.io/community/contributors/devel/sig-architecture/api-conventions.md#metadata'',
          Default (JObject []),
          Ref (ref ''k8s.io/apimachinery/pkg/apis/meta/v1.ObjectMeta'')])]],
     Dependencies = [''k8s.io/apimachinery/pkg/apis/meta/v1.ObjectMeta'']\<rparr>"

definition schema_pkg_apis_meta_v1_PartialObjectMetadataList :: "(string \<Rightarrow> 'r) \<Rightarrow> 'r openapi_definition" where
  "schema_pkg_apis_meta_v1_PartialObjectMetadataList ref =
    \<lparr>defSchema = Schema [Description ''PartialObjectMetadataList contains a list of objects containing only their metadata'',
      Type [''object''],
      Properties [
      (''kind'', Schema [Description ''Kind is a string value representing the REST resource this object represents. Servers may infer this from the endpoint the client submits requests to. Cannot be updated. In CamelCase. More info: https://git.k8s.io/community/contributors/devel/sig-architecture/api-conventions.md#types-kinds'',
          Type [''string''],
          Format '''']),
      (''apiVersion'', Schema [Description ''APIVersion defines the versioned schema of this representation of an object. Servers should convert recognized schemas to the latest internal value, and may reject unrecognized values. More info: https://git.k8s.io/community/contributors/devel/sig-architecture/api-conventions.md#resources'',
          Type [''string''],
          Format '''']),
      (''metadata'', Schema [Description ''Standard list metadata. More info: https://git.k8s.io/community/contributors/devel/sig-architecture/api-conventions.md#types-kinds'',
          Default (JObject []),
          Ref (ref ''k8s.io/apimachinery/pkg/apis/meta/v1.ListMeta'')]),
      (''items'', Schema [Description ''items contains each of the included items.'',
          Type [''array''],
          Items (Schema [Default (JObject []),
            Ref (ref ''k8s.io/apimachinery/pkg/apis/meta/v1.PartialObjectMetadata'')])])],
      Required [''items'']],
     Dependencies = [''k8s.io/apimachinery/pkg/apis/meta/v1.ListMeta'',
     ''k8s.io/apimachinery/pkg/apis/meta/v1.PartialObjectMetadata'']\<rparr>"

definition schema_pkg_apis_meta_v1_Patch :: "(string \<Rightarrow> 'r) \<Rightarrow> 'r openapi_definition" where
  "schema_pkg_apis_meta_v1_Patch ref =
    \<lparr>defSchema = Schema [Description ''Patch is provided to give a concrete name and type to the Kubernetes PATCH request body.'',
      Type [''object'']],
     Dependencies = []\<rparr>"

definition schema_pkg_apis_meta_v1_PatchOptions :: "(string \<Rightarrow> 'r) \<Rightarrow> 'r openapi_definition" where
  "schema_pkg_apis_meta_v1_PatchOptions ref =
    \<lparr>defSchema = Schema [Description ''PatchOptions may be provided when patching an API object. PatchOptions is meant to be a superset of UpdateOptions.'',
      Type [''object''],
      Properties [
      (''kind'', Schema [Description ''Kind is a string value representing the REST resource this object represents. Servers may infer this from the endpoint the client submits requests to. Cannot be updated. In CamelCase. More info: https://git.k8s.io/community/contributors/devel/sig-architecture/api-conventions.md#types-kinds'',
          Type [''string''],
          Format '''']),
      (''apiVersion'', Schema [Description ''APIVersion defines the versioned schema of this representation of an object. Servers should convert recognized schemas to the latest internal value, and may reject unrecognized values. More info: https://git.k8s.io/community/contributors/devel/sig-architecture/api-conventions.md#resources'',
          Type [''string''],
          Format '''']),
      (''dryRun'', Schema [Description ''When present, indicates that modifications should not be persisted. An invalid or unrecognized dryRun directive will result in an error response and no further processing of the request. Valid values are: - All: all dry run stages will be processed'',
          Type [''array''],
          Items (Schema [Default (JString ''''),
            Type [''string''],
            Format ''''])]),
      (''force'', Schema [Description ''Force is going to \"force\" Apply requests. It means user will re-acquire conflicting fields owned by other people. Force flag must be unset for non-apply patch requests.'',
          Type [''boolean''],
          Format '''']),
      (''fieldManager'', Schema [Description ''fieldManager is a name associated with the actor or entity that is making these changes. The value must be less than or 128 characters long, and only contain printable characters, as defined by https://golang.org/pkg/unicode/#IsPrint. This field is required for apply requests (application/apply-patch) but optional for non-apply patch types (JsonPatch, MergePatch, StrategicMergePatch).'',
          Type [''string''],
          Format ''''])]],
     Dependencies = []\<rparr>"

definition schema_pkg_apis_meta_v1_Preconditions :: "(string \<Rightarrow> 'r) \<Rightarrow> 'r openapi_definition" where
  "schema_pkg_apis_meta_v1_Preconditions ref =
    \<lparr>defSchema = Schema [Description ''Preconditions must be fulfilled before an operation (update, delete, etc.) is carried out.'',
      Type [''object''],
      Properties [
      (''uid'', Schema [Description ''Specifies the target UID.'',
          Type [''string''],
          Format '''']),
      (''resourceVersion'', Schema [Description ''Specifies the target ResourceVersion'',
          Type [''string''],
          Format ''''])]],
     Dependencies = []\<rparr>"

definition schema_pkg_apis_meta_v1_RootPaths :: "(string \<Rightarrow> 'r) \<Rightarrow> 'r openapi_definition" where
  "schema_pkg_apis_meta_v1_RootPaths ref =
    \<lparr>defSchema = Schema [Description ''RootPaths lists the paths available at root. For example: \"/healthz\", \"/apis\".'',
      Type [''object''],
      Properties [
      (''paths'', Schema [Description ''paths are the paths available at root.'',
          Type [''array''],
          Items (Schema [Default (JString ''''),
            Type [''string''],
            Format ''''])])],
      Required [''paths'']],
     Dependencies = []\<rparr>"

definition schema_pkg_apis_meta_v1_ServerAddressByClientCIDR :: "(string \<Rightarrow> 'r) \<Rightarrow> 'r openapi_definition" where
  "schema_pkg_apis_meta_v1_ServerAddressByClientCIDR ref =
    \<lparr>defSchema = Schema [Description ''ServerAddressByClientCIDR helps the client to determine the server address that they should use, depending on the clientCIDR that they match.'',
      Type [''object''],
      Properties [
      (''clientCIDR'', Schema [Description ''The CIDR with which clients can match their IP to figure out the server address that they should use.'',
          Default (JString ''''),
          Type [''string''],
          Format '''']),
      (''serverAddress'', Schema [Description ''Address of this server, suitable for a client that matches the above CIDR. This can be a hostname, hostname:port, IP or IP:port.'',
          Default (JString ''''),
          Type [''string''],
          Format ''''])],
      Required [''clientCIDR'', ''serverAddress'']],
     Dependencies = []\<rparr>"

definition schema_pkg_apis_meta_v1_Status :: "(string \<Rightarrow> 'r) \<Rightarrow> 'r openapi_definition" where
  "schema_pkg_apis_meta_v1_Status ref =
    \<lparr>defSchema = Schema [Description ''Status is a return value for calls that don't return other objects.'',
      Type [''object''],
      Properties [
      (''kind'', Schema [Description ''Kind is a string value representing the REST resource this object represents. Servers may infer this from the endpoint the client submits requests to. Cannot be updated. In CamelCase. More info: https://git.k8s.io/community/contributors/devel/sig-architecture/api-conventions.md#types-kinds'',
          Type [''string''],
          Format '''']),
      (''apiVersion'', Schema [Description ''APIVersion defines the versioned schema of this representation of an object. Servers should convert recognized schemas to the latest internal value, and may reject unrecognized values. More info: https://git.k8s.io/community/contributors/devel/sig-architecture/api-conventions.md#resources'',
          Type [''string''],
          Format '''']),
      (''metadata'', Schema [Description ''Standard list metadata. More info: https://git.k8s.io/community/contributors/devel/sig-architecture/api-conventions.md#types-kinds'',
          Default (JObject []),
          Ref (ref ''k8s.io/apimachinery/pkg/apis/meta/v1.ListMeta'')]),
      (''status'', Schema [Description ''Status of the operation. One of: \"Success\" or \"Failure\". More info: https://git.k8s.io/community/contributors/devel/sig-architecture/api-conventions.md#spec-and-status'',
          Type [''string''],
          Format '''']),
      (''message'', Schema [Description ''A human-readable description of the status of this operation.'',
          Type [''string''],
          Format '''']),
      (''reason'', Schema [Description ''A machine-readable description of why this operation is in the \"Failure\" status. If this value is empty there is no information available. A Reason clarifies an HTTP status code but does not override it.'',
          Type [''string''],
          Format '''']),
      (''details'', Schema [Description ''Extended data associated with the reason.  Each reason may define its own extended details. This field is optional and the data returned is not guaranteed to conform to any schema except that defined by the reason type.'',
          Ref (ref ''k8s.io/apimachinery/pkg/apis/meta/v1.StatusDetails'')]),
      (''code'', Schema [Description ''Suggested HTTP return code for this status, 0 if not set.'',
          Type [''integer''],
          Format ''int32''])]],
     Dependencies = [''k8s.io/apimachinery/pkg/apis/meta/v1.ListMeta'',
     ''k8s.io/apimachinery/pkg/apis/meta/v1.StatusDetails'']\<rparr>"

definition schema_pkg_apis_meta_v1_StatusCause :: "(string \<Rightarrow> 'r) \<Rightarrow> 'r openapi_definition" where
  "schema_pkg_apis_meta_v1_StatusCause ref =
    \<lparr>defSchema = Schema [Description ''StatusCause provides more information about an api.Status failure, including cases when multiple errors are encountered.'',
      Type [''object''],
      Properties [
      (''reason'', Schema [Description ''A machine-readable description of the cause of the error. If this value is empty there is no information available.'',
          Type [''string''],
          Format '''']),
      (''message'', Schema [Description ''A human-readable description of the cause of the error.  This field may be presented as-is to a reader.'',
          Type [''string''],
          Format '''']),
      (''field'', Schema [Description (''The field of the resource that has caused this error, as named by its JSON serialization. May include dot and postfix notation for nested attributes. Arrays are zero-indexed.  Fields may appear more than once in an array of causes due to fields having multiple errors. Optional.'' @ [CHR 0x0A, CHR 0x0A] @ ''Examples:'' @ [CHR 0x0A] @ ''  \"name\" - the field \"name\" on the current resource'' @ [CHR 0x0A] @ ''  \"items[0].name\" - the field \"name\" on the first array entry in \"items\"''),
          Type [''string''],
          Format ''''])]],
     Dependencies = []\<rparr>"

definition schema_pkg_apis_meta_v1_StatusDetails :: "(string \<Rightarrow> 'r) \<Rightarrow> 'r openapi_definition" where
  "schema_pkg_apis_meta_v1_StatusDetails ref =
    \<lparr>defSchema = Schema [Description ''StatusDetails is a set of additional properties that MAY be set by the server to provide additional information about a response. The Reason field of a Status object defines what attributes will be set. Clients must ignore fields that do not match the defined type of each attribute, and should assume that any attribute may be empty, invalid, or under defined.'',
      Type [''object''],
      Properties [
      (''name'', Schema [Description ''The name attribute of the resource associated with the status StatusReason (when there is a single name which can be described).'',
          Type [''string''],
          Format '''']),
      (''group'', Schema [Description ''The group attribute of the resource associated with the status StatusReason.'',
          Type [''string''],
          Format '''']),
      (''kind'', Schema [Description ''The kind attribute of the resource associated with the status StatusReason. On some operations may differ from the requested resource Kind. More info: https://git.k8s.io/community/contributors/devel/sig-architecture/api-conventions.md#types-kinds'',
          Type [''string''],
          Format '''']),
      (''uid'', Schema [Description ''UID of the resource. (when there is a single resource which can be described). More info: http://kubernetes.io/docs/user-guide/identifiers#uids'',
          Type [''string''],
          Format '''']),
      (''causes'', Schema [Description ''The Causes array includes more details associated with the StatusReason failure. Not all StatusReasons may provide detailed causes.'',
          Type [''array''],
          Items (Schema [Default (JObject []),
            Ref (ref ''k8s.io/apimachinery/pkg/apis/meta/v1.StatusCause'')])]),
      (''retryAfterSeconds'', Schema [Description ''If specified, the time in seconds before the operation should be retried. Some errors may indicate the client must take an alternate action - for those errors this field may indicate how long to wait before taking the alternate action.'',
          Type [''integer''],
          Format ''int32''])]],
     Dependencies = [''k8s.io/apimachinery/pkg/apis/meta/v1.StatusCause'']\<rparr>"

definition schema_pkg_apis_meta_v1_Table :: "(string \<Rightarrow> 'r) \<Rightarrow> 'r openapi_definition" where
  "schema_pkg_apis_meta_v1_Table ref =
    \<lparr>defSchema = Schema [Description ''Table is a tabular representation of a set of API resources. The server transforms the object into a set of preferred columns for quickly reviewing the objects.'',
      Type [''object''],
      Properties [
      (''kind'', Schema [Description ''Kind is a string value representing the REST resource this object represents. Servers may infer this from the endpoint the client submits requests to. Cannot be updated. In CamelCase. More info: https://git.k8s.io/community/contributors/devel/sig-architecture/api-conventions.md#types-kinds'',
          Type [''string''],
          Format '''']),
      (''apiVersion'', Schema [Description ''APIVersion defines the versioned schema of this representation of an object. Servers should convert recognized schemas to the latest internal value, and may reject unrecognized values. More info: https://git.k8s.io/community/contributors/devel/sig-architecture/api-conventions.md#resources'',
          Type [''string''],
          Format '''']),
      (''metadata'', Schema [Description ''Standard list metadata. More info: https://git.k8s.io/community/contributors/devel/sig-architecture/api-conventions.md#types-kinds'',
          Default (JObject []),
          Ref (ref ''k8s.io/apimachinery/pkg/apis/meta/v1.ListMeta'')]),
      (''columnDefinitions'', Schema [Description ''columnDefinitions describes each column in the returned items array. The number of cells per row will always match the number of column definitions.'',
          Type [''array''],
          Items (Schema [Default (JObject []),
            Ref (ref ''k8s.io/apimachinery/pkg/apis/meta/v1.TableColumnDefinition'')])]),
      (''rows'', Schema [Description ''rows is the list of items in the table.'',
          Type [''array''],
          Items (Schema [Default (JObject []),
            Ref (ref ''k8s.io/apimachinery/pkg/apis/meta/v1.TableRow'')])])],
      Required [''columnDefinitions'', ''rows'']],
     Dependencies = [''k8s.io/apimachinery/pkg/apis/meta/v1.ListMeta'',
     ''k8s.io/apimachinery/pkg/apis/meta/v1.TableColumnDefinition'',
     ''k8s.io/apimachinery/pkg/apis/meta/v1.TableRow'']\<rparr>"

definition schema_pkg_apis_meta_v1_TableColumnDefinition :: "(string \<Rightarrow> 'r) \<Rightarrow> 'r openapi_definition" where
  "schema_pkg_apis_meta_v1_TableColumnDefinition ref =
    \<lparr>defSchema = Schema [Description ''TableColumnDefinition contains information about a column returned in the Table.'',
      Type [''object''],
      Properties [
      (''name'', Schema [Description ''name is a human readable name for the column.'',
          Default (JString ''''),
          Type [''string''],
          Format '''']),
      (''type'', Schema [Description ''type is an OpenAPI type definition for this column, such as number, integer, string, or array. See https://github.com/OAI/OpenAPI-Specification/blob/master/versions/2.0.md#data-types for more.'',
          Default (JString ''''),
          Type [''string''],
          Format '''']),
      (''format'', Schema [Description ''format is an optional OpenAPI type modifier for this column. A format modifies the type and imposes additional rules, like date or time formatting for a string. The 'name' format is applied to the primary identifier column which has type 'string' to assist in clients identifying column is the resource name. See https://github.com/OAI/OpenAPI-Specification/blob/master/versions/2.0.md#data-types for more.'',
          Default (JString ''''),
          Type [''string''],
          Format '''']),
      (''description'', Schema [Description ''description is a human readable description of this column.'',
          Default (JString ''''),
          Type [''string''],
          Format '''']),
      (''priority'', Schema [Description ''priority is an integer defining the relative importance of this column compared to others. Lower numbers are considered higher priority. Columns that may be omitted in limited space scenarios should be given a higher priority.'',
          Default (JNumber 0),
          Type [''integer''],
          Format ''int32''])],
      Required [''name'', ''type'', ''format'', ''description'', ''priority'']],
     Dependencies = []\<rparr>"

definition schema_pkg_apis_meta_v1_TableOptions :: "(string \<Rightarrow> 'r) \<Rightarrow> 'r openapi_definition" where
  "schema_pkg_apis_meta_v1_TableOptions ref =
    \<lparr>defSchema = Schema [Description ''TableOptions are used when a Table is requested by the caller.'',
      Type [''object''],
      Properties [
      (''kind'', Schema [Description ''Kind is a string value representing the REST resource this object represents. Servers may infer this from the endpoint the client submits requests to. Cannot be updated. In CamelCase. More info: https://git.k8s.io/community/contributors/devel/sig-architecture/api-conventions.md#types-kinds'',
          Type [''string''],
          Format '''']),
      (''apiVersion'', Schema [Description ''APIVersion defines the versioned schema of this representation of an object. Servers should convert recognized schemas to the latest internal value, and may reject unrecognized values. More info: https://git.k8s.io/community/contributors/devel/sig-architecture/api-conventions.md#resources'',
          Type [''string''],
          Format '''']),
      (''includeObject'', Schema [Description ''includeObject decides whether to include each object along with its columnar information. Specifying \"None\" will return no object, specifying \"Object\" will return the full object contents, and specifying \"Metadata\" (the default) will return the object's metadata in the PartialObjectMetadata kind in version v1beta1 of the meta.k8s.io API group.'',
          Type [''string''],
          Format ''''])]],
     Dependencies = []\<rparr>"

definition schema_pkg_apis_meta_v1_TableRow :: "(string \<Rightarrow> 'r) \<Rightarrow> 'r openapi_definition" where
  "schema_pkg_apis_meta_v1_TableRow ref =
    \<lparr>defSchema = Schema [Description ''TableRow is an individual row in a table.'',
      Type [''object''],
      Properties [
      (''cells'', Schema [Description ''cells will be as wide as the column definitions array and may contain strings, numbers (float64 or int64), booleans, simple maps, lists, or null. See the type field of the column definition for a more detailed description.'',
          Type [''array''],
          Items (Schema [Type [''object''],
            Format ''''])]),
      (''conditions'', Schema [Description ''conditions describe additional status of a row that are relevant for a human user. These conditions apply to the row, not to the object, and will be specific to table output. The only defined condition type is 'Completed', for a row that indicates a resource that has run to completion and can be given less visual priority.'',
          Type [''array''],
          Items (Schema [Default (JObject []),
            Ref (ref ''k8s.io/apimachinery/pkg/apis/meta/v1.TableRowCondition'')])]),
      (''object'', Schema [Description ''This field contains the requested additional information about each object based on the includeObject policy when requesting the Table. If \"None\", this field is empty, if \"Object\" this will be the default serialization of the object for the current API version, and if \"Metadata\" (the default) will contain the object metadata. Check the returned kind and apiVersion of the object before parsing. The media type of the object will always match the enclosing list - if this as a JSON table, these will be JSON encoded objects.'',
          Default (JObject []),
          Ref (ref ''k8s.io/apimachinery/pkg/runtime.RawExtension'')])],
      Required [''cells'']],
     Dependencies = [''k8s.io/apimachinery/pkg/apis/meta/v1.TableRowCondition'',
     ''k8s.io/apimachinery/pkg/runtime.RawExtension'']\<rparr>"

definition schema_pkg_apis_meta_v1_TableRowCondition :: "(string \<Rightarrow> 'r) \<Rightarrow> 'r openapi_definition" where
  "schema_pkg_apis_meta_v1_TableRowCondition ref =
    \<lparr>defSchema = Schema [Description ''TableRowCondition allows a row to be marked with additional information.'',
      Type [''object''],
      Properties [
      (''type'', Schema [Description ''Type of row condition. The only defined value is 'Completed' indicating that the object this row represents has reached a completed state and may be given less visual priority than other rows. Clients are not required to honor any conditions but should be consistent where possible about handling the conditions.'',
          Default (JString ''''),
          Type [''string''],
          Format '''']),
      (''status'', Schema [Description ''Status of the condition, one of True, False, Unknown.'',
          Default (JString ''''),
          Type [''string''],
          Format '''']),
      (''reason'', Schema [Description ''(brief) machine readable reason for the condition's last transition.'',
          Type [''string''],
          Format '''']),
      (''message'', Schema [Description ''Human readable message indicating details about last transition.'',
          Type [''string''],
          Format ''''])],
      Required [''type'', ''status'']],
     Dependencies = []\<rparr>"

definition schema_pkg_apis_meta_v1_Timestamp :: "(string \<Rightarrow> 'r) \<Rightarrow> 'r openapi_definition" where
  "schema_pkg_apis_meta_v1_Timestamp ref =
    \<lparr>defSchema = Schema [Description ''Timestamp is a struct that is equivalent to Time, but intended for protobuf marshalling/unmarshalling. It is generated into a serialization that matches Time. Do not use in Go structs.'',
      Type [''object''],
      Properties [
      (''seconds'', Schema [Description ''Represents seconds of UTC time since Unix epoch 1970-01-01T00:00:00Z. Must be from 0001-01-01T00:00:00Z to 9999-12-31T23:59:59Z inclusive.'',
          Default (JNumber 0),
          Type [''integer''],
          Format ''int64'']),
      (''nanos'', Schema [Description ''Non-negative fractions of a second at nanosecond resolution. Negative second values with fractions must still have non-negative nanos values that count forward in time. Must be from 0 to 999,999,999 inclusive. This field may be limited in precision depending on context.'',
          Default (JNumber 0),
          Type [''integer''],
          Format ''int32''])],
      Required [''seconds'', ''nanos'']],
     Dependencies = []\<rparr>"

definition schema_pkg_apis_meta_v1_TypeMeta :: "(string \<Rightarrow> 'r) \<Rightarrow> 'r openapi_definition" where
  "schema_pkg_apis_meta_v1_TypeMeta ref =
    \<lparr>defSchema = Schema [Description ''TypeMeta describes an individual object in an API response or request with strings representing the type of the object and its API schema version. Structures that are versioned or persisted should inline TypeMeta.'',
      Type [''object''],
      Properties [
      (''kind'', Schema [Description ''Kind is a string value representing the REST resource this object represents. Servers may infer this from the endpoint the client submits requests to. Cannot be updated. In CamelCase. More info: https://git.k8s.io/community/contributors/devel/sig-architecture/api-conventions.md#types-kinds'',
          Type [''string''],
          Format '''']),
      (''apiVersion'', Schema [Description ''APIVersion defines the versioned schema of this representation of an object. Servers should convert recognized schemas to the latest internal value, and may reject unrecognized values. More info: https://git.k8s.io/community/contributors/devel/sig-architecture/api-conventions.md#resources'',
          Type [''string''],
          Format ''''])]],
     Dependencies = []\<rparr>"

definition schema_pkg_apis_meta_v1_UpdateOptions :: "(string \<Rightarrow> 'r) \<Rightarrow> 'r openapi_definition" where
  "schema_pkg_apis_meta_v1_UpdateOptions ref =
    \<lparr>defSchema = Schema [Description ''UpdateOptions may be provided when updating an API object. All fields in UpdateOptions should also be present in PatchOptions.'',
      Type [''object''],
      Properties [
      (''kind'', Schema [Description ''Kind is a string value representing the REST resource this object represents. Servers may infer this from the endpoint the client submits requests to. Cannot be updated. In CamelCase. More info: https://git.k8s.io/community/contributors/devel/sig-architecture/api-conventions.md#types-kinds'',
          Type [''string''],
          Format '''']),
      (''apiVersion'', Schema [Description ''APIVersion defines the versioned schema of this representation of an object. Servers should convert recognized schemas to the latest internal value, and may reject unrecognized values. More info: https://git.k8s.io/community/contributors/devel/sig-architecture/api-conventions.md#resources'',
          Type [''string''],
          Format '''']),
      (''dryRun'', Schema [Description ''When present, indicates that modifications should not be persisted. An invalid or unrecognized dryRun directive will result in an error response and no further processing of the request. Valid values are: - All: all dry run stages will be processed'',
          Type [''array''],
          Items (Schema [Default (JString ''''),
            Type [''string''],
            Format ''''])]),
      (''fieldManager'', Schema [Description ''fieldManager is a name associated with the actor or entity that is making these changes. The value must be less than or 128 characters long, and only contain printable characters, as defined by https://golang.org/pkg/unicode/#IsPrint.'',
          Type [''string''],
          Format ''''])]],
     Dependencies = []\<rparr>"

definition schema_pkg_apis_meta_v1_WatchEvent :: "(string \<Rightarrow> 'r) \<Rightarrow> 'r openapi_definition" where
  "schema_pkg_apis_meta_v1_WatchEvent ref =
    \<lparr>defSchema = Schema [Description ''Event represents a single event to a watched resource.'',
      Type [''object''],
      Properties [
      (''type'', Schema [Default (JString ''''),
          Type [''string''],
          Format '''']),
      (''object'', Schema [Description (''Object is:'' @ [CHR 0x0A] @ '' * If Type is Added or Modified: the new state of the object.'' @ [CHR 0x0A] @ '' * If Type is Deleted: the state of the object immediately before deletion.'' @ [CHR 0x0A] @ '' * If Type is Error: *Status is recommended; other types may make sense'' @ [CHR 0x0A] @ ''   depending on context.''),
          Default (JObject []),
          Ref (ref ''k8s.io/apimachinery/pkg/runtime.RawExtension'')])],
      Required [''type'', ''object'']],
     Dependencies = [''k8s.io/apimachinery/pkg/runtime.RawExtension'']\<rparr>"

definition schema_k8sio_apimachinery_pkg_runtime_RawExtension :: "(string \<Rightarrow> 'r) \<Rightarrow> 'r openapi_definition" where
  "schema_k8sio_apimachinery_pkg_runtime_RawExtension ref =
    \<lparr>defSchema = Schema [Description (''RawExtension is used to hold extensions in external versions.'' @ [CHR 0x0A, CHR 0x0A] @ ''To use this, make a field which has RawExtension as its type in your external, versioned struct, and Object in your internal struct. You also need to register your various plugin types.'' @ [CHR 0x0A, CHR 0x0A] @ ''// Internal package: type MyAPIObject struct {'' @ [CHR 0x0A, CHR 0x09] @ ''runtime.TypeMeta `json:\",inline\"`'' @ [CHR 0x0A, CHR 0x09] @ ''MyPlugin runtime.Object `json:\"myPlugin\"`'' @ [CHR 0x0A] @ ''} type PluginA struct {'' @ [CHR 0x0A, CHR 0x09] @ ''AOption string `json:\"aOption\"`'' @ [CHR 0x0A] @ ''}'' @ [CHR 0x0A, CHR 0x0A] @ ''// External package: type MyAPIObject struct {'' @ [CHR 0x0A, CHR 0x09] @ ''runtime.TypeMeta `json:\",inline\"`'' @ [CHR 0x0A, CHR 0x09] @ ''MyPlugin runtime.RawExtension `json:\"myPlugin\"`'' @ [CHR 0x0A] @ ''} type PluginA struct {'' @ [CHR 0x0A, CHR 0x09] @ ''AOption string `json:\"aOption\"`'' @ [CHR 0x0A] @ ''}'' @ [CHR 0x0A, CHR 0x0A] @ ''// On the wire, the JSON will look something like this: {'' @ [CHR 0x0A, CHR 0x09] @ ''\"kind\":\"MyAPIObject\",'' @ [CHR 0x0A, CHR 0x09] @ ''\"apiVersion\":\"v1\",'' @ [CHR 0x0A, CHR 0x09] @ ''\"myPlugin\": {'' @ [CHR 0x0A, CHR 0x09, CHR 0x09] @ ''\"kind\":\"PluginA\",'' @ [CHR 0x0A, CHR 0x09, CHR 0x09] @ ''\"aOption\":\"foo\",'' @ [CHR 0x0A, CHR 0x09] @ ''},'' @ [CHR 0x0A] @ ''}'' @ [CHR 0x0A, CHR 0x0A] @ ''So what happens? Decode first uses json or yaml to unmarshal the serialized data into your external MyAPIObject. That causes the raw JSON to be stored, but not unpacked. The next step is to copy (using pkg/conversion) into the internal struct. The runtime package's DefaultScheme has conversion functions installed which will unpack the JSON stored in RawExtension, turning it into the correct object type, and storing it in the Object. (TODO: In the case where the object is of an unknown type, a runtime.Unknown object will be created and stored.)''),
      Type [''object'']],
     Dependencies = []\<rparr>"

text \<open>Every definition here is consistent.\<close>

lemma openapi_requests_ok_1:
  "definition_ok ref (schema_pkg_apis_meta_v1_APIGroup ref)"
  "definition_ok ref (schema_pkg_apis_meta_v1_APIGroupList ref)"
  "definition_ok ref (schema_pkg_apis_meta_v1_APIResource ref)"
  "definition_ok ref (schema_pkg_apis_meta_v1_APIResourceList ref)"
  "definition_ok ref (schema_pkg_apis_meta_v1_APIVersions ref)"
  "definition_ok ref (schema_pkg_apis_meta_v1_ApplyOptions ref)"
  "definition_ok ref (schema_pkg_apis_meta_v1_Condition ref)"
  "definition_ok ref (schema_pkg_apis_meta_v1_CreateOptions ref)"
  unfolding definition_ok_def
  by (simp_all add:
        schema_pkg_apis_meta_v1_APIGroup_def
        schema_pkg_apis_meta_v1_APIGroupList_def
        schema_pkg_apis_meta_v1_APIResource_def
        schema_pkg_apis_meta_v1_APIResourceList_def
        schema_pkg_apis_meta_v1_APIVersions_def
        schema_pkg_apis_meta_v1_ApplyOptions_def
        schema_pkg_apis_meta_v1_Condition_def
        schema_pkg_apis_meta_v1_CreateOptions_def)

lemma openapi_requests_ok_2:
  "definition_ok ref (schema_pkg_apis_meta_v1_DeleteOptions ref)"
  "definition_ok ref (schema_pkg_apis_meta_v1_Duration lib ref)"
  "definition_ok ref (schema_pkg_apis_meta_v1_GetOptions ref)"
  "definition_ok ref (schema_pkg_apis_meta_v1_GroupKind ref)"
  "definition_ok ref (schema_pkg_apis_meta_v1_GroupResource ref)"
  "definition_ok ref (schema_pkg_apis_meta_v1_GroupVersion ref)"
  "definition_ok ref (schema_pkg_apis_meta_v1_GroupVersionForDiscovery ref)"
  "definition_ok ref (schema_pkg_apis_meta_v1_GroupVersionKind ref)"
  unfolding definition_ok_def
  by (simp_all add:
        schema_pkg_apis_meta_v1_DeleteOptions_def
        schema_pkg_apis_meta_v1_Duration_def
        schema_pkg_apis_meta_v1_GetOptions_def
        schema_pkg_apis_meta_v1_GroupKind_def
        schema_pkg_apis_meta_v1_GroupResource_def
        schema_pkg_apis_meta_v1_GroupVersion_def
        schema_pkg_apis_meta_v1_GroupVersionForDiscovery_def
        schema_pkg_apis_meta_v1_GroupVersionKind_def)

lemma openapi_requests_ok_3:
  "definition_ok ref (schema_pkg_apis_meta_v1_GroupVersionResource ref)"
  "definition_ok ref (schema_pkg_apis_meta_v1_List ref)"
  "definition_ok ref (schema_pkg_apis_meta_v1_ListMeta ref)"
  "definition_ok ref (schema_pkg_apis_meta_v1_ListOptions ref)"
  "definition_ok ref (schema_pkg_apis_meta_v1_MicroTime lib ref)"
  "definition_ok ref (schema_pkg_apis_meta_v1_PartialObjectMetadata ref)"
  "definition_ok ref (schema_pkg_apis_meta_v1_PartialObjectMetadataList ref)"
  "definition_ok ref (schema_pkg_apis_meta_v1_Patch ref)"
  unfolding definition_ok_def
  by (simp_all add:
        schema_pkg_apis_meta_v1_GroupVersionResource_def
        schema_pkg_apis_meta_v1_List_def
        schema_pkg_apis_meta_v1_ListMeta_def
        schema_pkg_apis_meta_v1_ListOptions_def
        schema_pkg_apis_meta_v1_MicroTime_def
        schema_pkg_apis_meta_v1_PartialObjectMetadata_def
        schema_pkg_apis_meta_v1_PartialObjectMetadataList_def
        schema_pkg_apis_meta_v1_Patch_def)

lemma openapi_requests_ok_4:
  "definition_ok ref (schema_pkg_apis_meta_v1_PatchOptions ref)"
  "definition_ok ref (schema_pkg_apis_meta_v1_Preconditions ref)"
  "definition_ok ref (schema_pkg_apis_meta_v1_RootPaths ref)"
  "definition_ok ref (schema_pkg_apis_meta_v1_ServerAddressByClientCIDR ref)"
  "definition_ok ref (schema_pkg_apis_meta_v1_Status ref)"
  "definition_ok ref (schema_pkg_apis_meta_v1_StatusCause ref)"
  "definition_ok ref (schema_pkg_apis_meta_v1_StatusDetails ref)"
  "definition_ok ref (schema_pkg_apis_meta_v1_Table ref)"
  unfolding definition_ok_def
  by (simp_all add:
        schema_pkg_apis_meta_v1_PatchOptions_def
        schema_pkg_apis_meta_v1_Preconditions_def
        schema_pkg_apis_meta_v1_RootPaths_def
        schema_pkg_apis_meta_v1_ServerAddressByClientCIDR_def
        schema_pkg_apis_meta_v1_Status_def
        schema_pkg_apis_meta_v1_StatusCause_def
        schema_pkg_apis_meta_v1_StatusDetails_def
        schema_pkg_apis_meta_v1_Table_def)

lemma openapi_requests_ok_5:
  "definition_ok ref (schema_pkg_apis_meta_v1_TableColumnDefinition ref)"
  "definition_ok ref (schema_pkg_apis_meta_v1_TableOptions ref)"
  "definition_ok ref (schema_pkg_apis_meta_v1_TableRow ref)"
  "definition_ok ref (schema_pkg_apis_meta_v1_TableRowCondition ref)"
  "definition_ok ref (schema_pkg_apis_meta_v1_Timestamp ref)"
  "definition_ok ref (schema_pkg_apis_meta_v1_TypeMeta ref)"
  "definition_ok ref (schema_pkg_apis_meta_v1_UpdateOptions ref)"
  "definition_ok ref (schema_pkg_apis_meta_v1_WatchEvent ref)"
  unfolding definition_ok_def
  by (simp_all add:
        schema_pkg_apis_meta_v1_TableColumnDefinition_def
        schema_pkg_apis_meta_v1_TableOptions_def
        schema_pkg_apis_meta_v1_TableRow_def
        schema_pkg_apis_meta_v1_TableRowCondition_def
        schema_pkg_apis_meta_v1_Timestamp_def
        schema_pkg_apis_meta_v1_TypeMeta_def
        schema_pkg_apis_meta_v1_UpdateOptions_def
        schema_pkg_apis_meta_v1_WatchEvent_def)

lemma openapi_requests_ok_6:
  "definition_ok ref (schema_k8sio_apimachinery_pkg_runtime_RawExtension ref)"
  unfolding definition_ok_def
  by (simp_all add:
        schema_k8sio_apimachinery_pkg_runtime_RawExtension_def)

lemmas openapi_requests_ok =
  openapi_requests_ok_1
  openapi_requests_ok_2
  openapi_requests_ok_3
  openapi_requests_ok_4
  openapi_requests_ok_5
  openapi_requests_ok_6

end
