(* ===== verification/OpenAPI_Core.thy ===== *)
theory OpenAPI_Core
  imports OpenAPI
begin

text \<open>
  The definitions of \<open>zz_generated.openapi.go\<close> for the other objects of \<open>core/v1\<close>: services, events, namespaces, quotas and the lists.
\<close>

definition schema_k8sio_api_core_v1_AvoidPods :: "(string \<Rightarrow> 'r) \<Rightarrow> 'r openapi_definition" where
  "schema_k8sio_api_core_v1_AvoidPods ref =
    \<lparr>defSchema = Schema [Description ''AvoidPods describes pods that should avoid this node. This is the value for a Node annotation with key scheduler.alpha.kubernetes.io/preferAvoidPods and will eventually become a field of NodeStatus.'',
      Type [''object''],
      Properties [
      (''preferAvoidPods'', Schema [Description ''Bounded-sized list of signatures of pods that should avoid this node, sorted in timestamp order from oldest to newest. Size of the slice is unspecified.'',
          Type [''array''],
          Items (Schema [Default (JObject []),
            Ref (ref ''k8s.io/api/core/v1.PreferAvoidPodsEntry'')])])]],
     Dependencies = [''k8s.io/api/core/v1.PreferAvoidPodsEntry'']\<rparr>"

definition schema_k8sio_api_core_v1_ClientIPConfig :: "(string \<Rightarrow> 'r) \<Rightarrow> 'r openapi_definition" where
  "schema_k8sio_api_core_v1_ClientIPConfig ref =
    \<lparr>defSchema = Schema [Description ''ClientIPConfig represents the configurations of Client IP based session affinity.'',
      Type [''object''],
      Properties [
      (''timeoutSeconds'', Schema [Description ''timeoutSeconds specifies the seconds of ClientIP type session sticky time. The value must be >0 && <=86400(for 1 day) if ServiceAffinity == \"ClientIP\". Default value is 10800(for 3 hours).'',
          Type [''integer''],
          Format ''int32''])]],
     Dependencies = []\<rparr>"

definition schema_k8sio_api_core_v1_ComponentCondition :: "(string \<Rightarrow> 'r) \<Rightarrow> 'r openapi_definition" where
  "schema_k8sio_api_core_v1_ComponentCondition ref =
    \<lparr>defSchema = Schema [Description ''Information about the condition of a component.'',
      Type [''object''],
      Properties [
      (''type'', Schema [Description ''Type of condition for a component. Valid value: \"Healthy\"'',
          Default (JString ''''),
          Type [''string''],
          Format '''']),
      (''status'', Schema [Description ''Status of the condition for a component. Valid values for \"Healthy\": \"True\", \"False\", or \"Unknown\".'',
          Default (JString ''''),
          Type [''string''],
          Format '''']),
      (''message'', Schema [Description ''Message about the condition for a component. For example, information about a health check.'',
          Type [''string''],
          Format '''']),
      (''error'', Schema [Description ''Condition error code for a component. For example, a health check error code.'',
          Type [''string''],
          Format ''''])],
      Required [''type'', ''status'']],
     Dependencies = []\<rparr>"

definition schema_k8sio_api_core_v1_ComponentStatus :: "(string \<Rightarrow> 'r) \<Rightarrow> 'r openapi_definition" where
  "schema_k8sio_api_core_v1_ComponentStatus ref =
    \<lparr>defSchema = Schema [Description ''ComponentStatus (and ComponentStatusList) holds the cluster validation info. Deprecated: This API is deprecated in v1.19+'',
      Type [''object''],
      Properties [
      (''kind'', Schema [Description ''Kind is a string value representing the REST resource this object represents. Servers may infer this from the endpoint the client submits requests to. Cannot be updated. In CamelCase. More info: https://git.k8s.io/community/contributors/devel/sig-architecture/api-conventions.md#types-kinds'',
          Type [''string''],
          Format '''']),
      (''apiVersion'', Schema [Description ''APIVersion defines the versioned schema of this representation of an object. Servers should convert recognized schemas to the latest internal value, and may reject unrecognized values. More info: https://git.k8s.io/community/contributors/devel/sig-architecture/api-conventions.md#resources'',
          Type [''string''],
          Format '''']),
      (''metadata'', Schema [Description ''Standard object's metadata. More info: https://git.k8s.io/community/contributors/devel/sig-architecture/api-conventions.md#metadata'',
          Default (JObject []),
          Ref (ref ''k8s.io/apimachinery/pkg/apis/meta/v1.ObjectMeta'')]),
      (''conditions'', Schema [Extensions [(''x-kubernetes-patch-merge-key'', JString ''type''), (''x-kubernetes-patch-strategy'', JString ''merge'')],
          Description ''List of component conditions observed'',
          Type [''array''],
          Items (Schema [Default (JObject []),
            Ref (ref ''k8s.io/api/core/v1.ComponentCondition'')])])]],
     Dependencies = [''k8s.io/api/core/v1.ComponentCondition'',
     ''k8s.io/apimachinery/pkg/apis/meta/v1.ObjectMeta'']\<rparr>"

definition schema_k8sio_api_core_v1_ComponentStatusList :: "(string \<Rightarrow> 'r) \<Rightarrow> 'r openapi_definition" where
  "schema_k8sio_api_core_v1_ComponentStatusList ref =
    \<lparr>defSchema = Schema [Description ''Status of all the conditions for the component as a list of ComponentStatus objects. Deprecated: This API is deprecated in v1.19+'',
      Type [''object''],
      Properties [
      (''kind'', Schema [Description ''Kind is a string value representing the REST resource this object represents. Servers may infer this from the endpoint the client submits requests to. Cannot be updated. In CamelCase. More info: https://git.k8s.io/community/contributors/devel/sig-architecture/api-conventions.md#types-kinds'',
          Type [''string''],
          Format '''']),
      (''apiVersion'', Schema [Description ''APIVersion defines the versioned schema of this representation of an object. Servers should convert recognized schemas to the latest internal value, and may reject unrecognized values. More info: https://git.k8s.io/community/contributors/devel/sig-architecture/api-conventions.md#resources'',
          Type [''string''],
          Format '''']),
      (''metadata'', Schema [Description ''Standard list metadata. More info: https://git.k8s.io/community/contributors/devel/sig-architecture/api-conventions.md#types-kinds'',
          Default (JObject []),
          Ref (ref ''k8s.io/apimachinery/pkg/apis/meta/v1.ListMeta'')]),
      (''items'', Schema [Description ''List of ComponentStatus objects.'',
          Type [''array''],
          Items (Schema [Default (JObject []),
            Ref (ref ''k8s.io/api/core/v1.ComponentStatus'')])])],
      Required [''items'']],
     Dependencies = [''k8s.io/api/core/v1.ComponentStatus'',
     ''k8s.io/apimachinery/pkg/apis/meta/v1.ListMeta'']\<rparr>"

definition schema_k8sio_api_core_v1_ConfigMap :: "(string \<Rightarrow> 'r) \<Rightarrow> 'r openapi_definition" where
  "schema_k8sio_api_core_v1_ConfigMap ref =
    \<lparr>defSchema = Schema [Description ''ConfigMap holds configuration data for pods to consume.'',
      Type [''object''],
      Properties [
      (''kind'', Schema [Description ''Kind is a string value representing the REST resource this object represents. Servers may infer this from the endpoint the client submits requests to. Cannot be updated. In CamelCase. More info: https://git.k8s.io/community/contributors/devel/sig-architecture/api-conventions.md#types-kinds'',
          Type [''string''],
          Format '''']),
      (''apiVersion'', Schema [Description ''APIVersion defines the versioned schema of this representation of an object. Servers should convert recognized schemas to the latest internal value, and may reject unrecognized values. More info: https://git.k8s.io/community/contributors/devel/sig-architecture/api-conventions.md#resources'',
          Type [''string''],
          Format '''']),
      (''metadata'', Schema [Description ''Standard object's metadata. More info: https://git.k8s.io/community/contributors/devel/sig-architecture/api-conventions.md#metadata'',
          Default (JObject []),
          Ref (ref ''k8s.io/apimachinery/pkg/apis/meta/v1.ObjectMeta'')]),
      (''immutable'', Schema [Description ''Immutable, if set to true, ensures that data stored in the ConfigMap cannot be updated (only object metadata can be modified). If not set to true, the field can be modified at any time. Defaulted to nil.'',
          Type [''boolean''],
          Format '''']),
      (''data'', Schema [Description ''Data contains the configuration data. Each key must consist of alphanumeric characters, '-', '_' or '.'. Values with non-UTF-8 byte sequences must use the BinaryData field. The keys stored in Data must not overlap with the keys in the BinaryData field, this is enforced during validation process.'',
          Type [''object''],
          AdditionalProperties True (Schema [Default (JString ''''),
            Type [''string''],
            Format ''''])]),
      (''binaryData'', Schema [Description ''BinaryData contains the binary data. Each key must consist of alphanumeric characters, '-', '_' or '.'. BinaryData can contain byte sequences that are not in the UTF-8 range. The keys stored in BinaryData must not overlap with the ones in the Data field, this is enforced during validation process. Using this field will require 1.10+ apiserver and kubelet.'',
          Type [''object''],
          AdditionalProperties True (Schema [Type [''string''],
            Format ''byte''])])]],
     Dependencies = [''k8s.io/apimachinery/pkg/apis/meta/v1.ObjectMeta'']\<rparr>"

definition schema_k8sio_api_core_v1_ConfigMapList :: "(string \<Rightarrow> 'r) \<Rightarrow> 'r openapi_definition" where
  "schema_k8sio_api_core_v1_ConfigMapList ref =
    \<lparr>defSchema = Schema [Description ''ConfigMapList is a resource containing a list of ConfigMap objects.'',
      Type [''object''],
      Properties [
      (''kind'', Schema [Description ''Kind is a string value representing the REST resource this object represents. Servers may infer this from the endpoint the client submits requests to. Cannot be updated. In CamelCase. More info: https://git.k8s.io/community/contributors/devel/sig-architecture/api-conventions.md#types-kinds'',
          Type [''string''],
          Format '''']),
      (''apiVersion'', Schema [Description ''APIVersion defines the versioned schema of this representation of an object. Servers should convert recognized schemas to the latest internal value, and may reject unrecognized values. More info: https://git.k8s.io/community/contributors/devel/sig-architecture/api-conventions.md#resources'',
          Type [''string''],
          Format '''']),
      (''metadata'', Schema [Description ''More info: https://git.k8s.io/community/contributors/devel/sig-architecture/api-conventions.md#metadata'',
          Default (JObject []),
          Ref (ref ''k8s.io/apimachinery/pkg/apis/meta/v1.ListMeta'')]),
      (''items'', Schema [Description ''Items is the list of ConfigMaps.'',
          Type [''array''],
          Items (Schema [Default (JObject []),
            Ref (ref ''k8s.io/api/core/v1.ConfigMap'')])])],
      Required [''items'']],
     Dependencies = [''k8s.io/api/core/v1.ConfigMap'',
     ''k8s.io/apimachinery/pkg/apis/meta/v1.ListMeta'']\<rparr>"

definition schema_k8sio_api_core_v1_EndpointAddress :: "(string \<Rightarrow> 'r) \<Rightarrow> 'r openapi_definition" where
  "schema_k8sio_api_core_v1_EndpointAddress ref =
    \<lparr>defSchema = Schema [Description ''EndpointAddress is a tuple that describes single IP address.'',
      Type [''object''],
      Properties [
      (''ip'', Schema [Description ''The IP of this endpoint. May not be loopback (127.0.0.0/8), link-local (169.254.0.0/16), or link-local multicast ((224.0.0.0/24). IPv6 is also accepted but not fully supported on all platforms. Also, certain kubernetes components, like kube-proxy, are not IPv6 ready.'',
          Default (JString ''''),
          Type [''string''],
          Format '''']),
      (''hostname'', Schema [Description ''The Hostname of this endpoint'',
          Type [''string''],
          Format '''']),
      (''nodeName'', Schema [Description ''Optional: Node hosting this endpoint. This can be used to determine endpoints local to a node.'',
          Type [''string''],
          Format '''']),
      (''targetRef'', Schema [Description ''Reference to object providing the endpoint.'',
          Ref (ref ''k8s.io/api/core/v1.ObjectReference'')])],
      Required [''ip''],
      Extensions [(''x-kubernetes-map-type'', JString ''atomic'')]],
     Dependencies = [''k8s.io/api/core/v1.ObjectReference'']\<rparr>"

definition schema_k8sio_api_core_v1_EndpointPort :: "(string \<Rightarrow> 'r) \<Rightarrow> 'r openapi_definition" where
  "schema_k8sio_api_core_v1_EndpointPort ref =
    \<lparr>defSchema = Schema [Description ''EndpointPort is a tuple that describes a single port.'',
      Type [''object''],
      Properties [
      (''name'', Schema [Description ''The name of this port.  This must match the 'name' field in the corresponding ServicePort. Must be a DNS_LABEL. Optional only if one port is defined.'',
          Type [''string''],
          Format '''']),
      (''port'', Schema [Description ''The port number of the endpoint.'',
          Default (JNumber 0),
          Type [''integer''],
          Format ''int32'']),
      (''protocol'', Schema [Description ''The IP protocol for this port. Must be UDP, TCP, or SCTP. Default is TCP.'',
          Type [''string''],
          Format '''']),
      (''appProtocol'', Schema [Description ''The application protocol for this port. This field follows standard Kubernetes label syntax. Un-prefixed names are reserved for IANA standard service names (as per RFC-6335 and http://www.iana.org/assignments/service-names). Non-standard protocols should use prefixed names such as mycompany.com/my-custom-protocol.'',
          Type [''string''],
          Format ''''])],
      Required [''port''],
      Extensions [(''x-kubernetes-map-type'', JString ''atomic'')]],
     Dependencies = []\<rparr>"

definition schema_k8sio_api_core_v1_EndpointSubset :: "(string \<Rightarrow> 'r) \<Rightarrow> 'r openapi_definition" where
  "schema_k8sio_api_core_v1_EndpointSubset ref =
    \<lparr>defSchema = Schema [Description (''EndpointSubset is a group of addresses with a common set of ports. The expanded set of endpoints is the Cartesian product of Addresses x Ports. For example, given:'' @ [CHR 0x0A] @ ''  {'' @ [CHR 0x0A] @ ''    Addresses: [{\"ip\": \"10.10.1.1\"}, {\"ip\": \"10.10.2.2\"}],'' @ [CHR 0x0A] @ ''    Ports:     [{\"name\": \"a\", \"port\": 8675}, {\"name\": \"b\", \"port\": 309}]'' @ [CHR 0x0A] @ ''  }'' @ [CHR 0x0A] @ ''The resulting set of endpoints can be viewed as:'' @ [CHR 0x0A] @ ''    a: [ 10.10.1.1:8675, 10.10.2.2:8675 ],'' @ [CHR 0x0A] @ ''    b: [ 10.10.1.1:309, 10.10.2.2:309 ]''),
      Type [''object''],
      Properties [
      (''addresses'', Schema [Description ''IP addresses which offer the related ports that are marked as ready. These endpoints should be considered safe for load balancers and clients to utilize.'',
          Type [''array''],
          Items (Schema [Default (JObject []),
            Ref (ref ''k8s.io/api/core/v1.EndpointAddress'')])]),
      (''notReadyAddresses'', Schema [Description ''IP addresses which offer the related ports but are not currently marked as ready because they have not yet finished starting, have recently failed a readiness check, or have recently failed a liveness check.'',
          Type [''array''],
          Items (Schema [Default (JObject []),
            Ref (ref ''k8s.io/api/core/v1.EndpointAddress'')])]),
      (''ports'', Schema [Description ''Port numbers available on the related IP addresses.'',
          Type [''array''],
          Items (Schema [Default (JObject []),
            Ref (ref ''k8s.io/api/core/v1.EndpointPort'')])])]],
     Dependencies = [''k8s.io/api/core/v1.EndpointAddress'',
     ''k8s.io/api/core/v1.EndpointPort'']\<rparr>"

definition schema_k8sio_api_core_v1_Endpoints :: "(string \<Rightarrow> 'r) \<Rightarrow> 'r openapi_definition" where
  "schema_k8sio_api_core_v1_Endpoints ref =
    \<lparr>defSchema = Schema [Description (''Endpoints is a collection of endpoints that implement the actual service. Example:'' @ [CHR 0x0A] @ ''  Name: \"mysvc\",'' @ [CHR 0x0A] @ ''  Subsets: ['' @ [CHR 0x0A] @ ''    {'' @ [CHR 0x0A] @ ''      Addresses: [{\"ip\": \"10.10.1.1\"}, {\"ip\": \"10.10.2.2\"}],'' @ [CHR 0x0A] @ ''      Ports: [{\"name\": \"a\", \"port\": 8675}, {\"name\": \"b\", \"port\": 309}]'' @ [CHR 0x0A] @ ''    },'' @ [CHR 0x0A] @ ''    {'' @ [CHR 0x0A] @ ''      Addresses: [{\"ip\": \"10.10.3.3\"}],'' @ [CHR 0x0A] @ ''      Ports: [{\"name\": \"a\", \"port\": 93}, {\"name\": \"b\", \"port\": 76}]'' @ [CHR 0x0A] @ ''    },'' @ [CHR 0x0A] @ '' ]''),
      Type [''object''],
      Properties [
      (''kind'', Schema [Description ''Kind is a string value representing the REST resource this object represents. Servers may infer this from the endpoint the client submits requests to. Cannot be updated. In CamelCase. More info: https://git.k8s.io/community/contributors/devel/sig-architecture/api-conventions.md#types-kinds'',
          Type [''string''],
          Format '''']),
      (''apiVersion'', Schema [Description ''APIVersion defines the versioned schema of this representation of an object. Servers should convert recognized schemas to the latest internal value, and may reject unrecognized values. More info: https://git.k8s.io/community/contributors/devel/sig-architecture/api-conventions.md#resources'',
          Type [''string''],
          Format '''']),
      (''metadata'', Schema [Description ''Standard object's metadata. More info: https://git.k8s.io/community/contributors/devel/sig-architecture/api-conventions.md#metadata'',
          Default (JObject []),
          Ref (ref ''k8s.io/apimachinery/pkg/apis/meta/v1.ObjectMeta'')]),
      (''subsets'', Schema [Description ''The set of all endpoints is the union of all subsets. Addresses are placed into subsets according to the IPs they share. A single address with multiple ports, some of which are ready and some of which are not (because they come from different containers) will result in the address being displayed in different subsets for the different ports. No address will appear in both Addresses and NotReadyAddresses in the same subset. Sets of addresses and ports that comprise a service.'',
          Type [''array''],
          Items (Schema [Default (JObject []),
            Ref (ref ''k8s.io/api/core/v1.EndpointSubset'')])])]],
     Dependencies = [''k8s.io/api/core/v1.EndpointSubset'',
     ''k8s.io/apimachinery/pkg/apis/meta/v1.ObjectMeta'']\<rparr>"

definition schema_k8sio_api_core_v1_EndpointsList :: "(string \<Rightarrow> 'r) \<Rightarrow> 'r openapi_definition" where
  "schema_k8sio_api_core_v1_EndpointsList ref =
    \<lparr>defSchema = Schema [Description ''EndpointsList is a list of endpoints.'',
      Type [''object''],
      Properties [
      (''kind'', Schema [Description ''Kind is a string value representing the REST resource this object represents. Servers may infer this from the endpoint the client submits requests to. Cannot be updated. In CamelCase. More info: https://git.k8s.io/community/contributors/devel/sig-architecture/api-conventions.md#types-kinds'',
          Type [''string''],
          Format '''']),
      (''apiVersion'', Schema [Description ''APIVersion defines the versioned schema of this representation of an object. Servers should convert recognized schemas to the latest internal value, and may reject unrecognized values. More info: https://git.k8s.io/community/contributors/devel/sig-architecture/api-conventions.md#resources'',
          Type [''string''],
          Format '''']),
      (''metadata'', Schema [Description ''Standard list metadata. More info: https://git.k8s.io/community/contributors/devel/sig-architecture/api-conventions.md#types-kinds'',
          Default (JObject []),
          Ref (ref ''k8s.io/apimachinery/pkg/apis/meta/v1.ListMeta'')]),
      (''items'', Schema [Description ''List of endpoints.'',
          Type [''array''],
          Items (Schema [Default (JObject []),
            Ref (ref ''k8s.io/api/core/v1.Endpoints'')])])],
      Required [''items'']],
     Dependencies = [''k8s.io/api/core/v1.Endpoints'',
     ''k8s.io/apimachinery/pkg/apis/meta/v1.ListMeta'']\<rparr>"

definition schema_k8sio_api_core_v1_EphemeralContainerCommon :: "(string \<Rightarrow> 'r) \<Rightarrow> 'r openapi_definition" where
  "schema_k8sio_api_core_v1_EphemeralContainerCommon ref =
    \<lparr>defSchema = Schema [Description ''EphemeralContainerCommon is a copy of all fields in Container to be inlined in EphemeralContainer. This separate type allows easy conversion from EphemeralContainer to Container and allows separate documentation for the fields of EphemeralContainer. When a new field is added to Container it must be added here as well.'',
      Type [''object''],
      Properties [
      (''name'', Schema [Description ''Name of the ephemeral container specified as a DNS_LABEL. This name must be unique among all containers, init containers and ephemeral containers.'',
          Default (JString ''''),
          Type [''string''],
          Format '''']),
      (''image'', Schema [Description ''Docker image name. More info: https://kubernetes.io/docs/concepts/containers/images'',
          Type [''string''],
          Format '''']),
      (''command'', Schema [Description ''Entrypoint array. Not executed within a shell. The docker image's ENTRYPOINT is used if this is not provided. Variable references $(VAR_NAME) are expanded using the container's environment. If a variable cannot be resolved, the reference in the input string will be unchanged. Double $$ are reduced to a single $, which allows for escaping the $(VAR_NAME) syntax: i.e. \"$$(VAR_NAME)\" will produce the string literal \"$(VAR_NAME)\". Escaped references will never be expanded, regardless of whether the variable exists or not. Cannot be updated. More info: https://kubernetes.io/docs/tasks/inject-data-application/define-command-argument-container/#running-a-command-in-a-shell'',
          Type [''array''],
          Items (Schema [Default (JString ''''),
            Type [''string''],
            Format ''''])]),
      (''args'', Schema [Description ''Arguments to the entrypoint. The docker image's CMD is used if this is not provided. Variable references $(VAR_NAME) are expanded using the container's environment. If a variable cannot be resolved, the reference in the input string will be unchanged. Double $$ are reduced to a single $, which allows for escaping the $(VAR_NAME) syntax: i.e. \"$$(VAR_NAME)\" will produce the string literal \"$(VAR_NAME)\". Escaped references will never be expanded, regardless of whether the variable exists or not. Cannot be updated. More info: https://kubernetes.io/docs/tasks/inject-data-application/define-command-argument-container/#running-a-command-in-a-shell'',
          Type [''array''],
          Items (Schema [Default (JString ''''),
            Type [''string''],
            Format ''''])]),
      (''workingDir'', Schema [Description ''Container's working directory. If not specified, the container runtime's default will be used, which might be configured in the container image. Cannot be updated.'',
          Type [''string''],
          Format '''']),
      (''ports'', Schema [Description ''Ports are not allowed for ephemeral containers.'',
          Type [''array''],
          Items (Schema [Default (JObject []),
            Ref (ref ''k8s.io/api/core/v1.ContainerPort'')])]),
      (''envFrom'', Schema [Description ''List of sources to populate environment variables in the container. The keys defined within a source must be a C_IDENTIFIER. All invalid keys will be reported as an event when the container is starting. When a key exists in multiple sources, the value associated with the last source will take precedence. Values defined by an Env with a duplicate key will take precedence. Cannot be updated.'',
          Type [''array''],
          Items (Schema [Default (JObject []),
            Ref (ref ''k8s.io/api/core/v1.EnvFromSource'')])]),
      (''env'', Schema [Extensions [(''x-kubernetes-patch-merge-key'', JString ''name''), (''x-kubernetes-patch-strategy'', JString ''merge'')],
          Description ''List of environment variables to set in the container. Cannot be updated.'',
          Type [''array''],
          Items (Schema [Default (JObject []),
            Ref (ref ''k8s.io/api/core/v1.EnvVar'')])]),
      (''resources'', Schema [Description ''Resources are not allowed for ephemeral containers. Ephemeral containers use spare resources already allocated to the pod.'',
          Default (JObject []),
          Ref (ref ''k8s.io/api/core/v1.ResourceRequirements'')]),
      (''volumeMounts'', Schema [Extensions [(''x-kubernetes-patch-merge-key'', JString ''mountPath''), (''x-kubernetes-patch-strategy'', JString ''merge'')],
          Description ''Pod volumes to mount into the container's filesystem. Cannot be updated.'',
          Type [''array''],
          Items (Schema [Default (JObject []),
            Ref (ref ''k8s.io/api/core/v1.VolumeMount'')])]),
      (''volumeDevices'', Schema [Extensions [(''x-kubernetes-patch-merge-key'', JString ''devicePath''), (''x-kubernetes-patch-strategy'', JString ''merge'')],
          Description ''volumeDevices is the list of block devices to be used by the container.'',
          Type [''array''],
          Items (Schema [Default (JObject []),
            Ref (ref ''k8s.io/api/core/v1.VolumeDevice'')])]),
      (''livenessProbe'', Schema [Description ''Probes are not allowed for ephemeral containers.'',
          Ref (ref ''k8s.io/api/core/v1.Probe'')]),
      (''readinessProbe'', Schema [Description ''Probes are not allowed for ephemeral containers.'',
          Ref (ref ''k8s.io/api/core/v1.Probe'')]),
      (''startupProbe'', Schema [Description ''Probes are not allowed for ephemeral containers.'',
          Ref (ref ''k8s.io/api/core/v1.Probe'')]),
      (''lifecycle'', Schema [Description ''Lifecycle is not allowed for ephemeral containers.'',
          Ref (ref ''k8s.io/api/core/v1.Lifecycle'')]),
      (''terminationMessagePath'', Schema [Description ''Optional: Path at which the file to which the container's termination message will be written is mounted into the container's filesystem. Message written is intended to be brief final status, such as an assertion failure message. Will be truncated by the node if greater than 4096 bytes. The total message length across all containers will be limited to 12kb. Defaults to /dev/termination-log. Cannot be updated.'',
          Type [''string''],
          Format '''']),
      (''terminationMessagePolicy'', Schema [Description ''Indicate how the termination message should be populated. File will use the contents of terminationMessagePath to populate the container status message on both success and failure. FallbackToLogsOnError will use the last chunk of container log output if the termination message file is empty and the container exited with an error. The log output is limited to 2048 bytes or 80 lines, whichever is smaller. Defaults to File. Cannot be updated.'',
          Type [''string''],
          Format '''']),
      (''imagePullPolicy'', Schema [Description ''Image pull policy. One of Always, Never, IfNotPresent. Defaults to Always if :latest tag is specified, or IfNotPresent otherwise. Cannot be updated. More info: https://kubernetes.io/docs/concepts/containers/images#updating-images'',
          Type [''string''],
          Format '''']),
      (''securityContext'', Schema [Description ''Optional: SecurityContext defines the security options the ephemeral container should be run with. If set, the fields of SecurityContext override the equivalent fields of PodSecurityContext.'',
          Ref (ref ''k8s.io/api/core/v1.SecurityContext'')]),
      (''stdin'', Schema [Description ''Whether this container should allocate a buffer for stdin in the container runtime. If this is not set, reads from stdin in the container will always result in EOF. Default is false.'',
          Type [''boolean''],
          Format '''']),
      (''stdinOnce'', Schema [Description ''Whether the container runtime should close the stdin channel after it has been opened by a single attach. When stdin is true the stdin stream will remain open across multiple attach sessions. If stdinOnce is set to true, stdin is opened on container start, is empty until the first client attaches to stdin, and then remains open and accepts data until the client disconnects, at which time stdin is closed and remains closed until the container is restarted. If this flag is false, a container processes that reads from stdin will never receive an EOF. Default is false'',
          Type [''boolean''],
          Format '''']),
      (''tty'', Schema [Description ''Whether this container should allocate a TTY for itself, also requires 'stdin' to be true. Default is false.'',
          Type [''boolean''],
          Format ''''])],
      Required [''name'']],
     Dependencies = [''k8s.io/api/core/v1.ContainerPort'',
     ''k8s.io/api/core/v1.EnvFromSource'',
     ''k8s.io/api/core/v1.EnvVar'',
     ''k8s.io/api/core/v1.Lifecycle'',
     ''k8s.io/api/core/v1.Probe'',
     ''k8s.io/api/core/v1.ResourceRequirements'',
     ''k8s.io/api/core/v1.SecurityContext'',
     ''k8s.io/api/core/v1.VolumeDevice'',
     ''k8s.io/api/core/v1.VolumeMount'']\<rparr>"

definition schema_k8sio_api_core_v1_Event :: "(string \<Rightarrow> 'r) \<Rightarrow> 'r openapi_definition" where
  "schema_k8sio_api_core_v1_Event ref =
    \<lparr>defSchema = Schema [Description ''Event is a report of an event somewhere in the cluster.  Events have a limited retention time and triggers and messages may evolve with time.  Event consumers should not rely on the timing of an event with a given Reason reflecting a consistent underlying trigger, or the continued existence of events with that Reason.  Events should be treated as informative, best-effort, supplemental data.'',
      Type [''object''],
      Properties [
      (''kind'', Schema [Description ''Kind is a string value representing the REST resource this object represents. Servers may infer this from the endpoint the client submits requests to. Cannot be updated. In CamelCase. More info: https://git.k8s.io/community/contributors/devel/sig-architecture/api-conventions.md#types-kinds'',
          Type [''string''],
          Format '''']),
      (''apiVersion'', Schema [Description ''APIVersion defines the versioned schema of this representation of an object. Servers should convert recognized schemas to the latest internal value, and may reject unrecognized values. More info: https://git.k8s.io/community/contributors/devel/sig-architecture/api-conventions.md#resources'',
          Type [''string''],
          Format '''']),
      (''metadata'', Schema [Description ''Standard object's metadata. More info: https://git.k8s.io/community/contributors/devel/sig-architecture/api-conventions.md#metadata'',
          Default (JObject []),
          Ref (ref ''k8s.io/apimachinery/pkg/apis/meta/v1.ObjectMeta'')]),
      (''involvedObject'', Schema [Description ''The object that this event is about.'',
          Default (JObject []),
          Ref (ref ''k8s.io/api/core/v1.ObjectReference'')]),
      (''reason'', Schema [Description ''This should be a short, machine understandable string that gives the reason for the transition into the object's current status.'',
          Type [''string''],
          Format '''']),
      (''message'', Schema [Description ''A human-readable description of the status of this operation.'',
          Type [''string''],
          Format '''']),
      (''source'', Schema [Description ''The component reporting this event. Should be a short machine understandable string.'',
          Default (JObject []),
          Ref (ref ''k8s.io/api/core/v1.EventSource'')]),
      (''firstTimestamp'', Schema [Description ''The time at which the event was first recorded. (Time of server receipt is in TypeMeta.)'',
          Default (JObject []),
          Ref (ref ''k8s.io/apimachinery/pkg/apis/meta/v1.Time'')]),
      (''lastTimestamp'', Schema [Description ''The time at which the most recent occurrence of this event was recorded.'',
          Default (JObject []),
          Ref (ref ''k8s.io/apimachinery/pkg/apis/meta/v1.Time'')]),
      (''count'', Schema [Description ''The number of times this event has occurred.'',
          Type [''integer''],
          Format ''int32'']),
      (''type'', Schema [Description ''Type of this event (Normal, Warning), new types could be added in the future'',
          Type [''string''],
          Format '''']),
      (''eventTime'', Schema [Description ''Time when this Event was first observed.'',
          Default (JObject []),
          Ref (ref ''k8s.io/apimachinery/pkg/apis/meta/v1.MicroTime'')]),
      (''series'', Schema [Description ''Data about the Event series this event represents or nil if it's a singleton Event.'',
          Ref (ref ''k8s.io/api/core/v1.EventSeries'')]),
      (''action'', Schema [Description ''What action was taken/failed regarding to the Regarding object.'',
          Type [''string''],
          Format '''']),
      (''related'', Schema [Description ''Optional secondary object for more complex actions.'',
          Ref (ref ''k8s.io/api/core/v1.ObjectReference'')]),
      (''reportingComponent'', Schema [Description ''Name of the controller that emitted this Event, e.g. `kubernetes.io/kubelet`.'',
          Default (JString ''''),
          Type [''string''],
          Format '''']),
      (''reportingInstance'', Schema [Description ''ID of the controller instance, e.g. `kubelet-xyzf`.'',
          Default (JString ''''),
          Type [''string''],
          Format ''''])],
      Required [''metadata'', ''involvedObject'']],
     Dependencies = [''k8s.io/api/core/v1.EventSeries'',
     ''k8s.io/api/core/v1.EventSource'',
     ''k8s.io/api/core/v1.ObjectReference'',
     ''k8s.io/apimachinery/pkg/apis/meta/v1.MicroTime'',
     ''k8s.io/apimachinery/pkg/apis/meta/v1.ObjectMeta'',
     ''k8s.io/apimachinery/pkg/apis/meta/v1.Time'']\<rparr>"

definition schema_k8sio_api_core_v1_EventList :: "(string \<Rightarrow> 'r) \<Rightarrow> 'r openapi_definition" where
  "schema_k8sio_api_core_v1_EventList ref =
    \<lparr>defSchema = Schema [Description ''EventList is a list of events.'',
      Type [''object''],
      Properties [
      (''kind'', Schema [Description ''Kind is a string value representing the REST resource this object represents. Servers may infer this from the endpoint the client submits requests to. Cannot be updated. In CamelCase. More info: https://git.k8s.io/community/contributors/devel/sig-architecture/api-conventions.md#types-kinds'',
          Type [''string''],
          Format '''']),
      (''apiVersion'', Schema [Description ''APIVersion defines the versioned schema of this representation of an object. Servers should convert recognized schemas to the latest internal value, and may reject unrecognized values. More info: https://git.k8s.io/community/contributors/devel/sig-architecture/api-conventions.md#resources'',
          Type [''string''],
          Format '''']),
      (''metadata'', Schema [Description ''Standard list metadata. More info: https://git.k8s.io/community/contributors/devel/sig-architecture/api-conventions.md#types-kinds'',
          Default (JObject []),
          Ref (ref ''k8s.io/apimachinery/pkg/apis/meta/v1.ListMeta'')]),
      (''items'', Schema [Description ''List of events'',
          Type [''array''],
          Items (Schema [Default (JObject []),
            Ref (ref ''k8s.io/api/core/v1.Event'')])])],
      Required [''items'']],
     Dependencies = [''k8s.io/api/core/v1.Event'',
     ''k8s.io/apimachinery/pkg/apis/meta/v1.ListMeta'']\<rparr>"

definition schema_k8sio_api_core_v1_EventSeries :: "(string \<Rightarrow> 'r) \<Rightarrow> 'r openapi_definition" where
  "schema_k8sio_api_core_v1_EventSeries ref =
    \<lparr>defSchema = Schema [Description ''EventSeries contain information on series of events, i.e. thing that was/is happening continuously for some time.'',
      Type [''object''],
      Properties [
      (''count'', Schema [Description ''Number of occurrences in this series up to the last heartbeat time'',
          Type [''integer''],
          Format ''int32'']),
      (''lastObservedTime'', Schema [Description ''Time of the last occurrence observed'',
          Default (JObject []),
          Ref (ref ''k8s.io/apimachinery/pkg/apis/meta/v1.MicroTime'')])]],
     Dependencies = [''k8s.io/apimachinery/pkg/apis/meta/v1.MicroTime'']\<rparr>"

definition schema_k8sio_api_core_v1_EventSource :: "(string \<Rightarrow> 'r) \<Rightarrow> 'r openapi_definition" where
  "schema_k8sio_api_core_v1_EventSource ref =
    \<lparr>defSchema = Schema [Description ''EventSource contains information for an event.'',
      Type [''object''],
      Properties [
      (''component'', Schema [Description ''Component from which the event is generated.'',
          Type [''string''],
          Format '''']),
      (''host'', Schema [Description ''Node name on which the event is generated.'',
          Type [''string''],
          Format ''''])]],
     Dependencies = []\<rparr>"

definition schema_k8sio_api_core_v1_LimitRange :: "(string \<Rightarrow> 'r) \<Rightarrow> 'r openapi_definition" where
  "schema_k8sio_api_core_v1_LimitRange ref =
    \<lparr>defSchema = Schema [Description ''LimitRange sets resource usage limits for each kind of resource in a Namespace.'',
      Type [''object''],
      Properties [
      (''kind'', Schema [Description ''Kind is a string value representing the REST resource this object represents. Servers may infer this from the endpoint the client submits requests to. Cannot be updated. In CamelCase. More info: https://git.k8s.io/community/contributors/devel/sig-architecture/api-conventions.md#types-kinds'',
          Type [''string''],
          Format '''']),
      (''apiVersion'', Schema [Description ''APIVersion defines the versioned schema of this representation of an object. Servers should convert recognized schemas to the latest internal value, and may reject unrecognized values. More info: https://git.k8s.io/community/contributors/devel/sig-architecture/api-conventions.md#resources'',
          Type [''string''],
          Format '''']),
      (''metadata'', Schema [Description ''Standard object's metadata. More info: https://git.k8s.io/community/contributors/devel/sig-architecture/api-conventions.md#metadata'',
          Default (JObject []),
          Ref (ref ''k8s.io/apimachinery/pkg/apis/meta/v1.ObjectMeta'')]),
      (''spec'', Schema [Description ''Spec defines the limits enforced. More info: https://git.k8s.io/community/contributors/devel/sig-architecture/api-conventions.md#spec-and-status'',
          Default (JObject []),
          Ref (ref ''k8s.io/api/core/v1.LimitRangeSpec'')])]],
     Dependencies = [''k8s.io/api/core/v1.LimitRangeSpec'',
     ''k8s.io/apimachinery/pkg/apis/meta/v1.ObjectMeta'']\<rparr>"

definition schema_k8sio_api_core_v1_LimitRangeItem :: "(string \<Rightarrow> 'r) \<Rightarrow> 'r openapi_definition" where
  "schema_k8sio_api_core_v1_LimitRangeItem ref =
    \<lparr>defSchema = Schema [Description ''LimitRangeItem defines a min/max usage limit for any resource that matches on kind.'',
      Type [''object''],
      Properties [
      (''type'', Schema [Description ''Type of resource that this limit applies to.'',
          Default (JString ''''),
          Type [''string''],
          Format '''']),
      (''max'', Schema [Description ''Max usage constraints on this kind by resource name.'',
          Type [''object''],
          AdditionalProperties True (Schema [Default (JObject []),
            Ref (ref ''k8s.io/apimachinery/pkg/api/resource.Quantity'')])]),
      (''min'', Schema [Description ''Min usage constraints on this kind by resource name.'',
          Type [''object''],
          AdditionalProperties True (Schema [Default (JObject []),
            Ref (ref ''k8s.io/apimachinery/pkg/api/resource.Quantity'')])]),
      (''default'', Schema [Description ''Default resource requirement limit value by resource name if resource limit is omitted.'',
          Type [''object''],
          AdditionalProperties True (Schema [Default (JObject []),
            Ref (ref ''k8s.io/apimachinery/pkg/api/resource.Quantity'')])]),
      (''defaultRequest'', Schema [Description ''DefaultRequest is the default resource requirement request value by resource name if resource request is omitted.'',
          Type [''object''],
          AdditionalProperties True (Schema [Default (JObject []),
            Ref (ref ''k8s.io/apimachinery/pkg/api/resource.Quantity'')])]),
      (''maxLimitRequestRatio'', Schema [Description ''MaxLimitRequestRatio if specified, the named resource must have a request and limit that are both non-zero where limit divided by request is less than or equal to the enumerated value; this represents the max burst for the named resource.'',
          Type [''object''],
          AdditionalProperties True (Schema [Default (JObject []),
            Ref (ref ''k8s.io/apimachinery/pkg/api/resource.Quantity'')])])],
      Required [''type'']],
     Dependencies = [''k8s.io/apimachinery/pkg/api/resource.Quantity'']\<rparr>"

definition schema_k8sio_api_core_v1_LimitRangeList :: "(string \<Rightarrow> 'r) \<Rightarrow> 'r openapi_definition" where
  "schema_k8sio_api_core_v1_LimitRangeList ref =
    \<lparr>defSchema = Schema [Description ''LimitRangeList is a list of LimitRange items.'',
      Type [''object''],
      Properties [
      (''kind'', Schema [Description ''Kind is a string value representing the REST resource this object represents. Servers may infer this from the endpoint the client submits requests to. Cannot be updated. In CamelCase. More info: https://git.k8s.io/community/contributors/devel/sig-architecture/api-conventions.md#types-kinds'',
          Type [''string''],
          Format '''']),
      (''apiVersion'', Schema [Description ''APIVersion defines the versioned schema of this representation of an object. Servers should convert recognized schemas to the latest internal value, and may reject unrecognized values. More info: https://git.k8s.io/community/contributors/devel/sig-architecture/api-conventions.md#resources'',
          Type [''string''],
          Format '''']),
      (''metadata'', Schema [Description ''Standard list metadata. More info: https://git.k8s.io/community/contributors/devel/sig-architecture/api-conventions.md#types-kinds'',
          Default (JObject []),
          Ref (ref ''k8s.io/apimachinery/pkg/apis/meta/v1.ListMeta'')]),
      (''items'', Schema [Description ''Items is a list of LimitRange objects. More info: https://kubernetes.io/docs/concepts/configuration/manage-resources-containers/'',
          Type [''array''],
          Items (Schema [Default (JObject []),
            Ref (ref ''k8s.io/api/core/v1.LimitRange'')])])],
      Required [''items'']],
     Dependencies = [''k8s.io/api/core/v1.LimitRange'',
     ''k8s.io/apimachinery/pkg/apis/meta/v1.ListMeta'']\<rparr>"

definition schema_k8sio_api_core_v1_LimitRangeSpec :: "(string \<Rightarrow> 'r) \<Rightarrow> 'r openapi_definition" where
  "schema_k8sio_api_core_v1_LimitRangeSpec ref =
    \<lparr>defSchema = Schema [Description ''LimitRangeSpec defines a min/max usage limit for resources that match on kind.'',
      Type [''object''],
      Properties [
      (''limits'', Schema [Description ''Limits is the list of LimitRangeItem objects that are enforced.'',
          Type [''array''],
          Items (Schema [Default (JObject []),
            Ref (ref ''k8s.io/api/core/v1.LimitRangeItem'')])])],
      Required [''limits'']],
     Dependencies = [''k8s.io/api/core/v1.LimitRangeItem'']\<rparr>"

definition schema_k8sio_api_core_v1_List :: "(string \<Rightarrow> 'r) \<Rightarrow> 'r openapi_definition" where
  "schema_k8sio_api_core_v1_List ref =
    \<lparr>defSchema = Schema [Description ''List holds a list of objects, which may not be known by the server.'',
      Type [''object''],
      Properties [
      (''kind'', Schema [Description ''Kind is a string value representing the REST resource this object represents. Servers may infer this from the endpoint the client submits requests to. Cannot be updated. In CamelCase. More info: https://git.k8s.io/community/contributors/devel/sig-architecture/api-conventions.md#types-kinds'',
          Type [''string''],
          Format '''']),
      (''apiVersion'', Schema [Description ''APIVersion defines the versioned schema of this representation of an object. Servers should convert recognized schemas to the latest internal value, and may reject unrecognized values. More info: https://git.k8s.io/community/contributors/devel/sig-architecture/api-conventions.md#resources'',
          Type [''string''],
          Format '''']),
      (''metadata'', Schema [Description ''Standard list metadata. More info: https://git.k8s.io/community/contributors/devel/sig-architecture/api-conventions.md#types-kinds'',
          Default (JObject []),
          Ref (ref ''k8s.io/apimachinery/pkg/apis/meta/v1.ListMeta'')]),
      (''items'', Schema [Description ''List of objects'',
          Type [''array''],
          Items (Schema [Default (JObject []),
            Ref (ref ''k8s.io/apimachinery/pkg/runtime.RawExtension'')])])],
      Required [''items'']],
     Dependencies = [''k8s.io/apimachinery/pkg/apis/meta/v1.ListMeta'',
     ''k8s.io/apimachinery/pkg/runtime.RawExtension'']\<rparr>"

definition schema_k8sio_api_core_v1_LoadBalancerIngress :: "(string \<Rightarrow> 'r) \<Rightarrow> 'r openapi_definition" where
  "schema_k8sio_api_core_v1_LoadBalancerIngress ref =
    \<lparr>defSchema = Schema [Description ''LoadBalancerIngress represents the status of a load-balancer ingress point: traffic intended for the service should be sent to an ingress point.'',
      Type [''object''],
      Properties [
      (''ip'', Schema [Description ''IP is set for load-balancer ingress points that are IP based (typically GCE or OpenStack load-balancers)'',
          Type [''string''],
          Format '''']),
      (''hostname'', Schema [Description ''Hostname is set for load-balancer ingress points that are DNS based (typically AWS load-balancers)'',
          Type [''string''],
          Format '''']),
      (''ports'', Schema [Extensions [(''x-kubernetes-list-type'', JString ''atomic'')],
          Description ''Ports is a list of records of service ports If used, every port defined in the service should have an entry in it'',
          Type [''array''],
          Items (Schema [Default (JObject []),
            Ref (ref ''k8s.io/api/core/v1.PortStatus'')])])]],
     Dependencies = [''k8s.io/api/core/v1.PortStatus'']\<rparr>"

definition schema_k8sio_api_core_v1_LoadBalancerStatus :: "(string \<Rightarrow> 'r) \<Rightarrow> 'r openapi_definition" where
  "schema_k8sio_api_core_v1_LoadBalancerStatus ref =
    \<lparr>defSchema = Schema [Description ''LoadBalancerStatus represents the status of a load-balancer.'',
      Type [''object''],
      Properties [
      (''ingress'', Schema [Description ''Ingress is a list containing ingress points for the load-balancer. Traffic intended for the service should be sent to these ingress points.'',
          Type [''array''],
          Items (Schema [Default (JObject []),
            Ref (ref ''k8s.io/api/core/v1.LoadBalancerIngress'')])])]],
     Dependencies = [''k8s.io/api/core/v1.LoadBalancerIngress'']\<rparr>"

definition schema_k8sio_api_core_v1_Namespace :: "(string \<Rightarrow> 'r) \<Rightarrow> 'r openapi_definition" where
  "schema_k8sio_api_core_v1_Namespace ref =
    \<lparr>defSchema = Schema [Description ''Namespace provides a scope for Names. Use of multiple namespaces is optional.'',
      Type [''object''],
      Properties [
      (''kind'', Schema [Description ''Kind is a string value representing the REST resource this object represents. Servers may infer this from the endpoint the client submits requests to. Cannot be updated. In CamelCase. More info: https://git.k8s.io/community/contributors/devel/sig-architecture/api-conventions.md#types-kinds'',
          Type [''string''],
          Format '''']),
      (''apiVersion'', Schema [Description ''APIVersion defines the versioned schema of this representation of an object. Servers should convert recognized schemas to the latest internal value, and may reject unrecognized values. More info: https://git.k8s.io/community/contributors/devel/sig-architecture/api-conventions.md#resources'',
          Type [''string''],
          Format '''']),
      (''metadata'', Schema [Description ''Standard object's metadata. More info: https://git.k8s.io/community/contributors/devel/sig-architecture/api-conventions.md#metadata'',
          Default (JObject []),
          Ref (ref ''k8s.io/apimachinery/pkg/apis/meta/v1.ObjectMeta'')]),
      (''spec'', Schema [Description ''Spec defines the behavior of the Namespace. More info: https://git.k8s.io/community/contributors/devel/sig-architecture/api-conventions.md#spec-and-status'',
          Default (JObject []),
          Ref (ref ''k8s.io/api/core/v1.NamespaceSpec'')]),
      (''status'', Schema [Description ''Status describes the current status of a Namespace. More info: https://git.k8s.io/community/contributors/devel/sig-architecture/api-conventions.md#spec-and-status'',
          Default (JObject []),
          Ref (ref ''k8s.io/api/core/v1.NamespaceStatus'')])]],
     Dependencies = [''k8s.io/api/core/v1.NamespaceSpec'',
     ''k8s.io/api/core/v1.NamespaceStatus'',
     ''k8s.io/apimachinery/pkg/apis/meta/v1.ObjectMeta'']\<rparr>"

definition schema_k8sio_api_core_v1_NamespaceCondition :: "(string \<Rightarrow> 'r) \<Rightarrow> 'r openapi_definition" where
  "schema_k8sio_api_core_v1_NamespaceCondition ref =
    \<lparr>defSchema = Schema [Description ''NamespaceCondition contains details about state of namespace.'',
      Type [''object''],
      Properties [
      (''type'', Schema [Description ''Type of namespace controller condition.'',
          Default (JString ''''),
          Type [''string''],
          Format '''']),
      (''status'', Schema [Description ''Status of the condition, one of True, False, Unknown.'',
          Default (JString ''''),
          Type [''string''],
          Format '''']),
      (''lastTransitionTime'', Schema [Default (JObject []),
          Ref (ref ''k8s.io/apimachinery/pkg/apis/meta/v1.Time'')]),
      (''reason'', Schema [Type [''string''],
          Format '''']),
      (''message'', Schema [Type [''string''],
          Format ''''])],
      Required [''type'', ''status'']],
     Dependencies = [''k8s.io/apimachinery/pkg/apis/meta/v1.Time'']\<rparr>"

definition schema_k8sio_api_core_v1_NamespaceList :: "(string \<Rightarrow> 'r) \<Rightarrow> 'r openapi_definition" where
  "schema_k8sio_api_core_v1_NamespaceList ref =
    \<lparr>defSchema = Schema [Description ''NamespaceList is a list of Namespaces.'',
      Type [''object''],
      Properties [
      (''kind'', Schema [Description ''Kind is a string value representing the REST resource this object represents. Servers may infer this from the endpoint the client submits requests to. Cannot be updated. In CamelCase. More info: https://git.k8s.io/community/contributors/devel/sig-architecture/api-conventions.md#types-kinds'',
          Type [''string''],
          Format '''']),
      (''apiVersion'', Schema [Description ''APIVersion defines the versioned schema of this representation of an object. Servers should convert recognized schemas to the latest internal value, and may reject unrecognized values. More info: https://git.k8s.io/community/contributors/devel/sig-architecture/api-conventions.md#resources'',
          Type [''string''],
          Format '''']),
      (''metadata'', Schema [Description ''Standard list metadata. More info: https://git.k8s.io/community/contributors/devel/sig-architecture/api-conventions.md#types-kinds'',
          Default (JObject []),
          Ref (ref ''k8s.io/apimachinery/pkg/apis/meta/v1.ListMeta'')]),
      (''items'', Schema [Description ''Items is the list of Namespace objects in the list. More info: https://kubernetes.io/docs/concepts/overview/working-with-objects/namespaces/'',
          Type [''array''],
          Items (Schema [Default (JObject []),
            Ref (ref ''k8s.io/api/core/v1.Namespace'')])])],
      Required [''items'']],
     Dependencies = [''k8s.io/api/core/v1.Namespace'',
     ''k8s.io/apimachinery/pkg/apis/meta/v1.ListMeta'']\<rparr>"

definition schema_k8sio_api_core_v1_NamespaceSpec :: "(string \<Rightarrow> 'r) \<Rightarrow> 'r openapi_definition" where
  "schema_k8sio_api_core_v1_NamespaceSpec ref =
    \<lparr>defSchema = Schema [Description ''NamespaceSpec describes the attributes on a Namespace.'',
      Type [''object''],
      Properties [
      (''finalizers'', Schema [Description ''Finalizers is an opaque list of values that must be empty to permanently remove object from storage. More info: https://kubernetes.io/docs/tasks/administer-cluster/namespaces/'',
          Type [''array''],
          Items (Schema [Default (JString ''''),
            Type [''string''],
            Format ''''])])]],
     Dependencies = []\<rparr>"

definition schema_k8sio_api_core_v1_NamespaceStatus :: "(string \<Rightarrow> 'r) \<Rightarrow> 'r openapi_definition" where
  "schema_k8sio_api_core_v1_NamespaceStatus ref =
    \<lparr>defSchema = Schema [Description ''NamespaceStatus is information about the current status of a Namespace.'',
      Type [''object''],
      Properties [
      (''phase'', Schema [Description ''Phase is the current lifecycle phase of the namespace. More info: https://kubernetes.io/docs/tasks/administer-cluster/namespaces/'',
          Type [''string''],
          Format '''']),
      (''conditions'', Schema [Extensions [(''x-kubernetes-patch-merge-key'', JString ''type''), (''x-kubernetes-patch-strategy'', JString ''merge'')],
          Description ''Represents the latest available observations of a namespace's current state.'',
          Type [''array''],
          Items (Schema [Default (JObject []),
            Ref (ref ''k8s.io/api/core/v1.NamespaceCondition'')])])]],
     Dependencies = [''k8s.io/api/core/v1.NamespaceCondition'']\<rparr>"

definition schema_k8sio_api_core_v1_NodeList :: "(string \<Rightarrow> 'r) \<Rightarrow> 'r openapi_definition" where
  "schema_k8sio_api_core_v1_NodeList ref =
    \<lparr>defSchema = Schema [Description ''NodeList is the whole list of all Nodes which have been registered with master.'',
      Type [''object''],
      Properties [
      (''kind'', Schema [Description ''Kind is a string value representing the REST resource this object represents. Servers may infer this from the endpoint the client submits requests to. Cannot be updated. In CamelCase. More info: https://git.k8s.io/community/contributors/devel/sig-architecture/api-conventions.md#types-kinds'',
          Type [''string''],
          Format '''']),
      (''apiVersion'', Schema [Description ''APIVersion defines the versioned schema of this representation of an object. Servers should convert recognized schemas to the latest internal value, and may reject unrecognized values. More info: https://git.k8s.io/community/contributors/devel/sig-architecture/api-conventions.md#resources'',
          Type [''string''],
          Format '''']),
      (''metadata'', Schema [Description ''Standard list metadata. More info: https://git.k8s.io/community/contributors/devel/sig-architecture/api-conventions.md#types-kinds'',
          Default (JObject []),
          Ref (ref ''k8s.io/apimachinery/pkg/apis/meta/v1.ListMeta'')]),
      (''items'', Schema [Description ''List of nodes'',
          Type [''array''],
          Items (Schema [Default (JObject []),
            Ref (ref ''k8s.io/api/core/v1.Node'')])])],
      Required [''items'']],
     Dependencies = [''k8s.io/api/core/v1.Node'',
     ''k8s.io/apimachinery/pkg/apis/meta/v1.ListMeta'']\<rparr>"

definition schema_k8sio_api_core_v1_NodeProxyOptions :: "(string \<Rightarrow> 'r) \<Rightarrow> 'r openapi_definition" where
  "schema_k8sio_api_core_v1_NodeProxyOptions ref =
    \<lparr>defSchema = Schema [Description ''NodeProxyOptions is the query options to a Node's proxy call.'',
      Type [''object''],
      Properties [
      (''kind'', Schema [Description ''Kind is a string value representing the REST resource this object represents. Servers may infer this from the endpoint the client submits requests to. Cannot be updated. In CamelCase. More info: https://git.k8s.io/community/contributors/devel/sig-architecture/api-conventions.md#types-kinds'',
          Type [''string''],
          Format '''']),
      (''apiVersion'', Schema [Description ''APIVersion defines the versioned schema of this representation of an object. Servers should convert recognized schemas to the latest internal value, and may reject unrecognized values. More info: https://git.k8s.io/community/contributors/devel/sig-architecture/api-conventions.md#resources'',
          Type [''string''],
          Format '''']),
      (''path'', Schema [Description ''Path is the URL path to use for the current proxy request to node.'',
          Type [''string''],
          Format ''''])]],
     Dependencies = []\<rparr>"

definition schema_k8sio_api_core_v1_NodeResources :: "(string \<Rightarrow> 'r) \<Rightarrow> 'r openapi_definition" where
  "schema_k8sio_api_core_v1_NodeResources ref =
    \<lparr>defSchema = Schema [Description ''NodeResources is an object for conveying resource information about a node. see https://kubernetes.io/docs/concepts/architecture/nodes/#capacity for more details.'',
      Type [''object''],
      Properties [
      (''Capacity'', Schema [Description ''Capacity represents the available resources of a node'',
          Type [''object''],
          AdditionalProperties True (Schema [Default (JObject []),
            Ref (ref ''k8s.io/apimachinery/pkg/api/resource.Quantity'')])])],
      Required [''Capacity'']],
     Dependencies = [''k8s.io/apimachinery/pkg/api/resource.Quantity'']\<rparr>"

definition schema_k8sio_api_core_v1_PodAttachOptions :: "(string \<Rightarrow> 'r) \<Rightarrow> 'r openapi_definition" where
  "schema_k8sio_api_core_v1_PodAttachOptions ref =
    \<lparr>defSchema = Schema [Description ''PodAttachOptions is the query options to a Pod's remote attach call.'',
      Type [''object''],
      Properties [
      (''kind'', Schema [Description ''Kind is a string value representing the REST resource this object represents. Servers may infer this from the endpoint the client submits requests to. Cannot be updated. In CamelCase. More info: https://git.k8s.io/community/contributors/devel/sig-architecture/api-conventions.md#types-kinds'',
          Type [''string''],
          Format '''']),
      (''apiVersion'', Schema [Description ''APIVersion defines the versioned schema of this representation of an object. Servers should convert recognized schemas to the latest internal value, and may reject unrecognized values. More info: https://git.k8s.io/community/contributors/devel/sig-architecture/api-conventions.md#resources'',
          Type [''string''],
          Format '''']),
      (''stdin'', Schema [Description ''Stdin if true, redirects the standard input stream of the pod for this call. Defaults to false.'',
          Type [''boolean''],
          Format '''']),
      (''stdout'', Schema [Description ''Stdout if true indicates that stdout is to be redirected for the attach call. Defaults to true.'',
          Type [''boolean''],
          Format '''']),
      (''stderr'', Schema [Description ''Stderr if true indicates that stderr is to be redirected for the attach call. Defaults to true.'',
          Type [''boolean''],
          Format '''']),
      (''tty'', Schema [Description ''TTY if true indicates that a tty will be allocated for the attach call. This is passed through the container runtime so the tty is allocated on the worker node by the container runtime. Defaults to false.'',
          Type [''boolean''],
          Format '''']),
      (''container'', Schema [Description ''The container in which to execute the command. Defaults to only container if there is only one container in the pod.'',
          Type [''string''],
          Format ''''])]],
     Dependencies = []\<rparr>"

definition schema_k8sio_api_core_v1_PodExecOptions :: "(string \<Rightarrow> 'r) \<Rightarrow> 'r openapi_definition" where
  "schema_k8sio_api_core_v1_PodExecOptions ref =
    \<lparr>defSchema = Schema [Description ''PodExecOptions is the query options to a Pod's remote exec call.'',
      Type [''object''],
      Properties [
      (''kind'', Schema [Description ''Kind is a string value representing the REST resource this object represents. Servers may infer this from the endpoint the client submits requests to. Cannot be updated. In CamelCase. More info: https://git.k8s.io/community/contributors/devel/sig-architecture/api-conventions.md#types-kinds'',
          Type [''string''],
          Format '''']),
      (''apiVersion'', Schema [Description ''APIVersion defines the versioned schema of this representation of an object. Servers should convert recognized schemas to the latest internal value, and may reject unrecognized values. More info: https://git.k8s.io/community/contributors/devel/sig-architecture/api-conventions.md#resources'',
          Type [''string''],
          Format '''']),
      (''stdin'', Schema [Description ''Redirect the standard input stream of the pod for this call. Defaults to false.'',
          Type [''boolean''],
          Format '''']),
      (''stdout'', Schema [Description ''Redirect the standard output stream of the pod for this call. Defaults to true.'',
          Type [''boolean''],
          Format '''']),
      (''stderr'', Schema [Description ''Redirect the standard error stream of the pod for this call. Defaults to true.'',
          Type [''boolean''],
          Format '''']),
      (''tty'', Schema [Description ''TTY if true indicates that a tty will be allocated for the exec call. Defaults to false.'',
          Type [''boolean''],
          Format '''']),
      (''container'', Schema [Description ''Container in which to execute the command. Defaults to only container if there is only one container in the pod.'',
          Type [''string''],
          Format '''']),
      (''command'', Schema [Description ''Command is the remote command to execute. argv array. Not executed within a shell.'',
          Type [''array''],
          Items (Schema [Default (JString ''''),
            Type [''string''],
            Format ''''])])],
      Required [''command'']],
     Dependencies = []\<rparr>"

definition schema_k8sio_api_core_v1_PodList :: "(string \<Rightarrow> 'r) \<Rightarrow> 'r openapi_definition" where
  "schema_k8sio_api_core_v1_PodList ref =
    \<lparr>defSchema = Schema [Description ''PodList is a list of Pods.'',
      Type [''object''],
      Properties [
      (''kind'', Schema [Description ''Kind is a string value representing the REST resource this object represents. Servers may infer this from the endpoint the client submits requests to. Cannot be updated. In CamelCase. More info: https://git.k8s.io/community/contributors/devel/sig-architecture/api-conventions.md#types-kinds'',
          Type [''string''],
          Format '''']),
      (''apiVersion'', Schema [Description ''APIVersion defines the versioned schema of this representation of an object. Servers should convert recognized schemas to the latest internal value, and may reject unrecognized values. More info: https://git.k8s.io/community/contributors/devel/sig-architecture/api-conventions.md#resources'',
          Type [''string''],
          Format '''']),
      (''metadata'', Schema [Description ''Standard list metadata. More info: https://git.k8s.io/community/contributors/devel/sig-architecture/api-conventions.md#types-kinds'',
          Default (JObject []),
          Ref (ref ''k8s.io/apimachinery/pkg/apis/meta/v1.ListMeta'')]),
      (''items'', Schema [Description ''List of pods. More info: https://git.k8s.io/community/contributors/devel/sig-architecture/api-conventions.md'',
          Type [''array''],
          Items (Schema [Default (JObject []),
            Ref (ref ''k8s.io/api/core/v1.Pod'')])])],
      Required [''items'']],
     Dependencies = [''k8s.io/api/core/v1.Pod'',
     ''k8s.io/apimachinery/pkg/apis/meta/v1.ListMeta'']\<rparr>"

definition schema_k8sio_api_core_v1_PodLogOptions :: "(string \<Rightarrow> 'r) \<Rightarrow> 'r openapi_definition" where
  "schema_k8sio_api_core_v1_PodLogOptions ref =
    \<lparr>defSchema = Schema [Description ''PodLogOptions is the query options for a Pod's logs REST call.'',
      Type [''object''],
      Properties [
      (''kind'', Schema [Description ''Kind is a string value representing the REST resource this object represents. Servers may infer this from the endpoint the client submits requests to. Cannot be updated. In CamelCase. More info: https://git.k8s.io/community/contributors/devel/sig-architecture/api-conventions.md#types-kinds'',
          Type [''string''],
          Format '''']),
      (''apiVersion'', Schema [Description ''APIVersion defines the versioned schema of this representation of an object. Servers should convert recognized schemas to the latest internal value, and may reject unrecognized values. More info: https://git.k8s.io/community/contributors/devel/sig-architecture/api-conventions.md#resources'',
          Type [''string''],
          Format '''']),
      (''container'', Schema [Description ''The container for which to stream logs. Defaults to only container if there is one container in the pod.'',
          Type [''string''],
          Format '''']),
      (''follow'', Schema [Description ''Follow the log stream of the pod. Defaults to false.'',
          Type [''boolean''],
          Format '''']),
      (''previous'', Schema [Description ''Return previous terminated container logs. Defaults to false.'',
          Type [''boolean''],
          Format '''']),
      (''sinceSeconds'', Schema [Description ''A relative time in seconds before the current time from which to show logs. If this value precedes the time a pod was started, only logs since the pod start will be returned. If this value is in the future, no logs will be returned. Only one of sinceSeconds or sinceTime may be specified.'',
          Type [''integer''],
          Format ''int64'']),
      (''sinceTime'', Schema [Description ''An RFC3339 timestamp from which to show logs. If this value precedes the time a pod was started, only logs since the pod start will be returned. If this value is in the future, no logs will be returned. Only one of sinceSeconds or sinceTime may be specified.'',
          Ref (ref ''k8s.io/apimachinery/pkg/apis/meta/v1.Time'')]),
      (''timestamps'', Schema [Description ''If true, add an RFC3339 or RFC3339Nano timestamp at the beginning of every line of log output. Defaults to false.'',
          Type [''boolean''],
          Format '''']),
      (''tailLines'', Schema [Description ''If set, the number of lines from the end of the logs to show. If not specified, logs are shown from the creation of the container or sinceSeconds or sinceTime'',
          Type [''integer''],
          Format ''int64'']),
      (''limitBytes'', Schema [Description ''If set, the number of bytes to read from the server before terminating the log output. This may not display a complete final line of logging, and may return slightly more or slightly less than the specified limit.'',
          Type [''integer''],
          Format ''int64'']),
      (''insecureSkipTLSVerifyBackend'', Schema [Description ''insecureSkipTLSVerifyBackend indicates that the apiserver should not confirm the validity of the serving certificate of the backend it is connecting to.  This will make the HTTPS connection between the apiserver and the backend insecure. This means the apiserver cannot verify the log data it is receiving came from the real kubelet.  If the kubelet is configured to verify the apiserver's TLS credentials, it does not mean the connection to the real kubelet is vulnerable to a man in the middle attack (e.g. an attacker could not intercept the actual log data coming from the real kubelet).'',
          Type [''boolean''],
          Format ''''])]],
     Dependencies = [''k8s.io/apimachinery/pkg/apis/meta/v1.Time'']\<rparr>"

definition schema_k8sio_api_core_v1_PodPortForwardOptions :: "(string \<Rightarrow> 'r) \<Rightarrow> 'r openapi_definition" where
  "schema_k8sio_api_core_v1_PodPortForwardOptions ref =
    \<lparr>defSchema = Schema [Description ''PodPortForwardOptions is the query options to a Pod's port forward call when using WebSockets. The `port` query parameter must specify the port or ports (comma separated) to forward over. Port forwarding over SPDY does not use these options. It requires the port to be passed in the `port` header as part of request.'',
      Type [''object''],
      Properties [
      (''kind'', Schema [Description ''Kind is a string value representing the REST resource this object represents. Servers may infer this from the endpoint the client submits requests to. Cannot be updated. In CamelCase. More info: https://git.k8s.io/community/contributors/devel/sig-architecture/api-conventions.md#types-kinds'',
          Type [''string''],
          Format '''']),
      (''apiVersion'', Schema [Description ''APIVersion defines the versioned schema of this representation of an object. Servers should convert recognized schemas to the latest internal value, and may reject unrecognized values. More info: https://git.k8s.io/community/contributors/devel/sig-architecture/api-conventions.md#resources'',
          Type [''string''],
          Format '''']),
      (''ports'', Schema [Description ''List of ports to forward Required when using WebSockets'',
          Type [''array''],
          Items (Schema [Default (JNumber 0),
            Type [''integer''],
            Format ''int32''])])]],
     Dependencies = []\<rparr>"

definition schema_k8sio_api_core_v1_PodProxyOptions :: "(string \<Rightarrow> 'r) \<Rightarrow> 'r openapi_definition" where
  "schema_k8sio_api_core_v1_PodProxyOptions ref =
    \<lparr>defSchema = Schema [Description ''PodProxyOptions is the query options to a Pod's proxy call.'',
      Type [''object''],
      Properties [
      (''kind'', Schema [Description ''Kind is a string value representing the REST resource this object represents. Servers may infer this from the endpoint the client submits requests to. Cannot be updated. In CamelCase. More info: https://git.k8s.io/community/contributors/devel/sig-architecture/api-conventions.md#types-kinds'',
          Type [''string''],
          Format '''']),
      (''apiVersion'', Schema [Description ''APIVersion defines the versioned schema of this representation of an object. Servers should convert recognized schemas to the latest internal value, and may reject unrecognized values. More info: https://git.k8s.io/community/contributors/devel/sig-architecture/api-conventions.md#resources'',
          Type [''string''],
          Format '''']),
      (''path'', Schema [Description ''Path is the URL path to use for the current proxy request to pod.'',
          Type [''string''],
          Format ''''])]],
     Dependencies = []\<rparr>"

definition schema_k8sio_api_core_v1_PodSignature :: "(string \<Rightarrow> 'r) \<Rightarrow> 'r openapi_definition" where
  "schema_k8sio_api_core_v1_PodSignature ref =
    \<lparr>defSchema = Schema [Description ''Describes the class of pods that should avoid this node. Exactly one field should be set.'',
      Type [''object''],
      Properties [
      (''podController'', Schema [Description ''Reference to controller whose pods should avoid this node.'',
          Ref (ref ''k8s.io/apimachinery/pkg/apis/meta/v1.OwnerReference'')])]],
     Dependencies = [''k8s.io/apimachinery/pkg/apis/meta/v1.OwnerReference'']\<rparr>"

definition schema_k8sio_api_core_v1_PodStatusResult :: "(string \<Rightarrow> 'r) \<Rightarrow> 'r openapi_definition" where
  "schema_k8sio_api_core_v1_PodStatusResult ref =
    \<lparr>defSchema = Schema [Description ''PodStatusResult is a wrapper for PodStatus returned by kubelet that can be encode/decoded'',
      Type [''object''],
      Properties [
      (''kind'', Schema [Description ''Kind is a string value representing the REST resource this object represents. Servers may infer this from the endpoint the client submits requests to. Cannot be updated. In CamelCase. More info: https://git.k8s.io/community/contributors/devel/sig-architecture/api-conventions.md#types-kinds'',
          Type [''string''],
          Format '''']),
      (''apiVersion'', Schema [Description ''APIVersion defines the versioned schema of this representation of an object. Servers should convert recognized schemas to the latest internal value, and may reject unrecognized values. More info: https://git.k8s.io/community/contributors/devel/sig-architecture/api-conventions.md#resources'',
          Type [''string''],
          Format '''']),
      (''metadata'', Schema [Description ''Standard object's metadata. More info: https://git.k8s.io/community/contributors/devel/sig-architecture/api-conventions.md#metadata'',
          Default (JObject []),
          Ref (ref ''k8s.io/apimachinery/pkg/apis/meta/v1.ObjectMeta'')]),
      (''status'', Schema [Description ''Most recently observed status of the pod. This data may not be up to date. Populated by the system. Read-only. More info: https://git.k8s.io/community/contributors/devel/sig-architecture/api-conventions.md#spec-and-status'',
          Default (JObject []),
          Ref (ref ''k8s.io/api/core/v1.PodStatus'')])]],
     Dependencies = [''k8s.io/api/core/v1.PodStatus'',
     ''k8s.io/apimachinery/pkg/apis/meta/v1.ObjectMeta'']\<rparr>"

definition schema_k8sio_api_core_v1_PodTemplate :: "(string \<Rightarrow> 'r) \<Rightarrow> 'r openapi_definition" where
  "schema_k8sio_api_core_v1_PodTemplate ref =
    \<lparr>defSchema = Schema [Description ''PodTemplate describes a template for creating copies of a predefined pod.'',
      Type [''object''],
      Properties [
      (''kind'', Schema [Description ''Kind is a string value representing the REST resource this object represents. Servers may infer this from the endpoint the client submits requests to. Cannot be updated. In CamelCase. More info: https://git.k8s.io/community/contributors/devel/sig-architecture/api-conventions.md#types-kinds'',
          Type [''string''],
          Format '''']),
      (''apiVersion'', Schema [Description ''APIVersion defines the versioned schema of this representation of an object. Servers should convert recognized schemas to the latest internal value, and may reject unrecognized values. More info: https://git.k8s.io/community/contributors/devel/sig-architecture/api-conventions.md#resources'',
          Type [''string''],
          Format '''']),
      (''metadata'', Schema [Description ''Standard object's metadata. More info: https://git.k8s.io/community/contributors/devel/sig-architecture/api-conventions.md#metadata'',
          Default (JObject []),
          Ref (ref ''k8s.io/apimachinery/pkg/apis/meta/v1.ObjectMeta'')]),
      (''template'', Schema [Description ''Template defines the pods that will be created from this pod template. https://git.k8s.io/community/contributors/devel/sig-architecture/api-conventions.md#spec-and-status'',
          Default (JObject []),
          Ref (ref ''k8s.io/api/core/v1.PodTemplateSpec'')])]],
     Dependencies = [''k8s.io/api/core/v1.PodTemplateSpec'',
     ''k8s.io/apimachinery/pkg/apis/meta/v1.ObjectMeta'']\<rparr>"

definition schema_k8sio_api_core_v1_PodTemplateList :: "(string \<Rightarrow> 'r) \<Rightarrow> 'r openapi_definition" where
  "schema_k8sio_api_core_v1_PodTemplateList ref =
    \<lparr>defSchema = Schema [Description ''PodTemplateList is a list of PodTemplates.'',
      Type [''object''],
      Properties [
      (''kind'', Schema [Description ''Kind is a string value representing the REST resource this object represents. Servers may infer this from the endpoint the client submits requests to. Cannot be updated. In CamelCase. More info: https://git.k8s.io/community/contributors/devel/sig-architecture/api-conventions.md#types-kinds'',
          Type [''string''],
          Format '''']),
      (''apiVersion'', Schema [Description ''APIVersion defines the versioned schema of this representation of an object. Servers should convert recognized schemas to the latest internal value, and may reject unrecognized values. More info: https://git.k8s.io/community/contributors/devel/sig-architecture/api-conventions.md#resources'',
          Type [''string''],
          Format '''']),
      (''metadata'', Schema [Description ''Standard list metadata. More info: https://git.k8s.io/community/contributors/devel/sig-architecture/api-conventions.md#types-kinds'',
          Default (JObject []),
          Ref (ref ''k8s.io/apimachinery/pkg/apis/meta/v1.ListMeta'')]),
      (''items'', Schema [Description ''List of pod templates'',
          Type [''array''],
          Items (Schema [Default (JObject []),
            Ref (ref ''k8s.io/api/core/v1.PodTemplate'')])])],
      Required [''items'']],
     Dependencies = [''k8s.io/api/core/v1.PodTemplate'',
     ''k8s.io/apimachinery/pkg/apis/meta/v1.ListMeta'']\<rparr>"

definition schema_k8sio_api_core_v1_PodTemplateSpec :: "(string \<Rightarrow> 'r) \<Rightarrow> 'r openapi_definition" where
  "schema_k8sio_api_core_v1_PodTemplateSpec ref =
    \<lparr>defSchema = Schema [Description ''PodTemplateSpec describes the data a pod should have when created from a template'',
      Type [''object''],
      Properties [
      (''metadata'', Schema [Description ''Standard object's metadata. More info: https://git.k8s.io/community/contributors/devel/sig-architecture/api-conventions.md#metadata'',
          Default (JObject []),
          Ref (ref ''k8s.io/apimachinery/pkg/apis/meta/v1.ObjectMeta'')]),
      (''spec'', Schema [Description ''Specification of the desired behavior of the pod. More info: https://git.k8s.io/community/contributors/devel/sig-architecture/api-conventions.md#spec-and-status'',
          Default (JObject []),
          Ref (ref ''k8s.io/api/core/v1.PodSpec'')])]],
     Dependencies = [''k8s.io/api/core/v1.PodSpec'',
     ''k8s.io/apimachinery/pkg/apis/meta/v1.ObjectMeta'']\<rparr>"

definition schema_k8sio_api_core_v1_PortStatus :: "(string \<Rightarrow> 'r) \<Rightarrow> 'r openapi_definition" where
  "schema_k8sio_api_core_v1_PortStatus ref =
    \<lparr>defSchema = Schema [Type [''object''],
      Properties [
      (''port'', Schema [Description ''Port is the port number of the service port of which status is recorded here'',
          Default (JNumber 0),
          Type [''integer''],
          Format ''int32'']),
      (''protocol'', Schema [Description ''Protocol is the protocol of the service port of which status is recorded here The supported values are: \"TCP\", \"UDP\", \"SCTP\"'',
          Default (JString ''''),
          Type [''string''],
          Format '''']),
      (''error'', Schema [Description (''Error is to record the problem with the service port The format of the error shall comply with the following rules: - built-in error values shall be specified in this file and those shall use'' @ [CHR 0x0A] @ ''  CamelCase names'' @ [CHR 0x0A] @ ''- cloud provider specific error values must have names that comply with the'' @ [CHR 0x0A] @ ''  format foo.example.com/CamelCase.''),
          Type [''string''],
          Format ''''])],
      Required [''port'', ''protocol'']],
     Dependencies = []\<rparr>"

definition schema_k8sio_api_core_v1_PreferAvoidPodsEntry :: "(string \<Rightarrow> 'r) \<Rightarrow> 'r openapi_definition" where
  "schema_k8sio_api_core_v1_PreferAvoidPodsEntry ref =
    \<lparr>defSchema = Schema [Description ''Describes a class of pods that should avoid this node.'',
      Type [''object''],
      Properties [
      (''podSignature'', Schema [Description ''The class of pods.'',
          Default (JObject []),
          Ref (ref ''k8s.io/api/core/v1.PodSignature'')]),
      (''evictionTime'', Schema [Description ''Time at which this entry was added to the list.'',
          Default (JObject []),
          Ref (ref ''k8s.io/apimachinery/pkg/apis/meta/v1.Time'')]),
      (''reason'', Schema [Description ''(brief) reason why this entry was added to the list.'',
          Type [''string''],
          Format '''']),
      (''message'', Schema [Description ''Human readable message indicating why this entry was added to the list.'',
          Type [''string''],
          Format ''''])],
      Required [''podSignature'']],
     Dependencies = [''k8s.io/api/core/v1.PodSignature'',
     ''k8s.io/apimachinery/pkg/apis/meta/v1.Time'']\<rparr>"

definition schema_k8sio_api_core_v1_RangeAllocation :: "(string \<Rightarrow> 'r) \<Rightarrow> 'r openapi_definition" where
  "schema_k8sio_api_core_v1_RangeAllocation ref =
    \<lparr>defSchema = Schema [Description ''RangeAllocation is not a public type.'',
      Type [''object''],
      Properties [
      (''kind'', Schema [Description ''Kind is a string value representing the REST resource this object represents. Servers may infer this from the endpoint the client submits requests to. Cannot be updated. In CamelCase. More info: https://git.k8s.io/community/contributors/devel/sig-architecture/api-conventions.md#types-kinds'',
          Type [''string''],
          Format '''']),
      (''apiVersion'', Schema [Description ''APIVersion defines the versioned schema of this representation of an object. Servers should convert recognized schemas to the latest internal value, and may reject unrecognized values. More info: https://git.k8s.io/community/contributors/devel/sig-architecture/api-conventions.md#resources'',
          Type [''string''],
          Format '''']),
      (''metadata'', Schema [Description ''Standard object's metadata. More info: https://git.k8s.io/community/contributors/devel/sig-architecture/api-conventions.md#metadata'',
          Default (JObject []),
          Ref (ref ''k8s.io/apimachinery/pkg/apis/meta/v1.ObjectMeta'')]),
      (''range'', Schema [Description ''Range is string that identifies the range represented by 'data'.'',
          Default (JString ''''),
          Type [''string''],
          Format '''']),
      (''data'', Schema [Description ''Data is a bit array containing all allocated addresses in the previous segment.'',
          Type [''string''],
          Format ''byte''])],
      Required [''range'', ''data'']],
     Dependencies = [''k8s.io/apimachinery/pkg/apis/meta/v1.ObjectMeta'']\<rparr>"

definition schema_k8sio_api_core_v1_ReplicationController :: "(string \<Rightarrow> 'r) \<Rightarrow> 'r openapi_definition" where
  "schema_k8sio_api_core_v1_ReplicationController ref =
    \<lparr>defSchema = Schema [Description ''ReplicationController represents the configuration of a replication controller.'',
      Type [''object''],
      Properties [
      (''kind'', Schema [Description ''Kind is a string value representing the REST resource this object represents. Servers may infer this from the endpoint the client submits requests to. Cannot be updated. In CamelCase. More info: https://git.k8s.io/community/contributors/devel/sig-architecture/api-conventions.md#types-kinds'',
          Type [''string''],
          Format '''']),
      (''apiVersion'', Schema [Description ''APIVersion defines the versioned schema of this representation of an object. Servers should convert recognized schemas to the latest internal value, and may reject unrecognized values. More info: https://git.k8s.io/community/contributors/devel/sig-architecture/api-conventions.md#resources'',
          Type [''string''],
          Format '''']),
      (''metadata'', Schema [Description ''If the Labels of a ReplicationController are empty, they are defaulted to be the same as the Pod(s) that the replication controller manages. Standard object's metadata. More info: https://git.k8s.io/community/contributors/devel/sig-architecture/api-conventions.md#metadata'',
          Default (JObject []),
          Ref (ref ''k8s.io/apimachinery/pkg/apis/meta/v1.ObjectMeta'')]),
      (''spec'', Schema [Description ''Spec defines the specification of the desired behavior of the replication controller. More info: https://git.k8s.io/community/contributors/devel/sig-architecture/api-conventions.md#spec-and-status'',
          Default (JObject []),
          Ref (ref ''k8s.io/api/core/v1.ReplicationControllerSpec'')]),
      (''status'', Schema [Description ''Status is the most recently observed status of the replication controller. This data may be out of date by some window of time. Populated by the system. Read-only. More info: https://git.k8s.io/community/contributors/devel/sig-architecture/api-conventions.md#spec-and-status'',
          Default (JObject []),
          Ref (ref ''k8s.io/api/core/v1.ReplicationControllerStatus'')])]],
     Dependencies = [''k8s.io/api/core/v1.ReplicationControllerSpec'',
     ''k8s.io/api/core/v1.ReplicationControllerStatus'',
     ''k8s.io/apimachinery/pkg/apis/meta/v1.ObjectMeta'']\<rparr>"

definition schema_k8sio_api_core_v1_ReplicationControllerCondition :: "(string \<Rightarrow> 'r) \<Rightarrow> 'r openapi_definition" where
  "schema_k8sio_api_core_v1_ReplicationControllerCondition ref =
    \<lparr>defSchema = Schema [Description ''ReplicationControllerCondition describes the state of a replication controller at a certain point.'',
      Type [''object''],
      Properties [
      (''type'', Schema [Description ''Type of replication controller condition.'',
          Default (JString ''''),
          Type [''string''],
          Format '''']),
      (''status'', Schema [Description ''Status of the condition, one of True, False, Unknown.'',
          Default (JString ''''),
          Type [''string''],
          Format '''']),
      (''lastTransitionTime'', Schema [Description ''The last time the condition transitioned from one status to another.'',
          Default (JObject []),
          Ref (ref ''k8s.io/apimachinery/pkg/apis/meta/v1.Time'')]),
      (''reason'', Schema [Description ''The reason for the condition's last transition.'',
          Type [''string''],
          Format '''']),
      (''message'', Schema [Description ''A human readable message indicating details about the transition.'',
          Type [''string''],
          Format ''''])],
      Required [''type'', ''status'']],
     Dependencies = [''k8s.io/apimachinery/pkg/apis/meta/v1.Time'']\<rparr>"

definition schema_k8sio_api_core_v1_ReplicationControllerList :: "(string \<Rightarrow> 'r) \<Rightarrow> 'r openapi_definition" where
  "schema_k8sio_api_core_v1_ReplicationControllerList ref =
    \<lparr>defSchema = Schema [Description ''ReplicationControllerList is a collection of replication controllers.'',
      Type [''object''],
      Properties [
      (''kind'', Schema [Description ''Kind is a string value representing the REST resource this object represents. Servers may infer this from the endpoint the client submits requests to. Cannot be updated. In CamelCase. More info: https://git.k8s.io/community/contributors/devel/sig-architecture/api-conventions.md#types-kinds'',
          Type [''string''],
          Format '''']),
      (''apiVersion'', Schema [Description ''APIVersion defines the versioned schema of this representation of an object. Servers should convert recognized schemas to the latest internal value, and may reject unrecognized values. More info: https://git.k8s.io/community/contributors/devel/sig-architecture/api-conventions.md#resources'',
          Type [''string''],
          Format '''']),
      (''metadata'', Schema [Description ''Standard list metadata. More info: https://git.k8s.io/community/contributors/devel/sig-architecture/api-conventions.md#types-kinds'',
          Default (JObject []),
          Ref (ref ''k8s.io/apimachinery/pkg/apis/meta/v1.ListMeta'')]),
      (''items'', Schema [Description ''List of replication controllers. More info: https://kubernetes.io/docs/concepts/workloads/controllers/replicationcontroller'',
          Type [''array''],
          Items (Schema [Default (JObject []),
            Ref (ref ''k8s.io/api/core/v1.ReplicationController'')])])],
      Required [''items'']],
     Dependencies = [''k8s.io/api/core/v1.ReplicationController'',
     ''k8s.io/apimachinery/pkg/apis/meta/v1.ListMeta'']\<rparr>"

definition schema_k8sio_api_core_v1_ReplicationControllerSpec :: "(string \<Rightarrow> 'r) \<Rightarrow> 'r openapi_definition" where
  "schema_k8sio_api_core_v1_ReplicationControllerSpec ref =
    \<lparr>defSchema = Schema [Description ''ReplicationControllerSpec is the specification of a replication controller.'',
      Type [''object''],
      Properties [
      (''replicas'', Schema [Description ''Replicas is the number of desired replicas. This is a pointer to distinguish between explicit zero and unspecified. Defaults to 1. More info: https://kubernetes.io/docs/concepts/workloads/controllers/replicationcontroller#what-is-a-replicationcontroller'',
          Type [''integer''],
          Format ''int32'']),
      (''minReadySeconds'', Schema [Description ''Minimum number of seconds for which a newly created pod should be ready without any of its container crashing, for it to be considered available. Defaults to 0 (pod will be considered available as soon as it is ready)'',
          Type [''integer''],
          Format ''int32'']),
      (''selector'', Schema [Extensions [(''x-kubernetes-map-type'', JString ''atomic'')],
          Description ''Selector is a label query over pods that should match the Replicas count. If Selector is empty, it is defaulted to the labels present on the Pod template. Label keys and values that must match in order to be controlled by this replication controller, if empty defaulted to labels on Pod template. More info: https://kubernetes.io/docs/concepts/overview/working-with-objects/labels/#label-selectors'',
          Type [''object''],
          AdditionalProperties True (Schema [Default (JString ''''),
            Type [''string''],
            Format ''''])]),
      (''template'', Schema [Description ''Template is the object that describes the pod that will be created if insufficient replicas are detected. This takes precedence over a TemplateRef. More info: https://kubernetes.io/docs/concepts/workloads/controllers/replicationcontroller#pod-template'',
          Ref (ref ''k8s.io/api/core/v1.PodTemplateSpec'')])]],
     Dependencies = [''k8s.io/api/core/v1.PodTemplateSpec'']\<rparr>"

definition schema_k8sio_api_core_v1_ReplicationControllerStatus :: "(string \<Rightarrow> 'r) \<Rightarrow> 'r openapi_definition" where
  "schema_k8sio_api_core_v1_ReplicationControllerStatus ref =
    \<lparr>defSchema = Schema [Description ''ReplicationControllerStatus represents the current status of a replication controller.'',
      Type [''object''],
      Properties [
      (''replicas'', Schema [Description ''Replicas is the most recently oberved number of replicas. More info: https://kubernetes.io/docs/concepts/workloads/controllers/replicationcontroller#what-is-a-replicationcontroller'',
          Default (JNumber 0),
          Type [''integer''],
          Format ''int32'']),
      (''fullyLabeledReplicas'', Schema [Description ''The number of pods that have labels matching the labels of the pod template of the replication controller.'',
          Type [''integer''],
          Format ''int32'']),
      (''readyReplicas'', Schema [Description ''The number of ready replicas for this replication controller.'',
          Type [''integer''],
          Format ''int32'']),
      (''availableReplicas'', Schema [Description ''The number of available replicas (ready for at least minReadySeconds) for this replication controller.'',
          Type [''integer''],
          Format ''int32'']),
      (''observedGeneration'', Schema [Description ''ObservedGeneration reflects the generation of the most recently observed replication controller.'',
          Type [''integer''],
          Format ''int64'']),
      (''conditions'', Schema [Extensions [(''x-kubernetes-patch-merge-key'', JString ''type''), (''x-kubernetes-patch-strategy'', JString ''merge'')],
          Description ''Represents the latest available observations of a replication controller's current state.'',
          Type [''array''],
          Items (Schema [Default (JObject []),
            Ref (ref ''k8s.io/api/core/v1.ReplicationControllerCondition'')])])],
      Required [''replicas'']],
     Dependencies = [''k8s.io/api/core/v1.ReplicationControllerCondition'']\<rparr>"

definition schema_k8sio_api_core_v1_ResourceQuota :: "(string \<Rightarrow> 'r) \<Rightarrow> 'r openapi_definition" where
  "schema_k8sio_api_core_v1_ResourceQuota ref =
    \<lparr>defSchema = Schema [Description ''ResourceQuota sets aggregate quota restrictions enforced per namespace'',
      Type [''object''],
      Properties [
      (''kind'', Schema [Description ''Kind is a string value representing the REST resource this object represents. Servers may infer this from the endpoint the client submits requests to. Cannot be updated. In CamelCase. More info: https://git.k8s.io/community/contributors/devel/sig-architecture/api-conventions.md#types-kinds'',
          Type [''string''],
          Format '''']),
      (''apiVersion'', Schema [Description ''APIVersion defines the versioned schema of this representation of an object. Servers should convert recognized schemas to the latest internal value, and may reject unrecognized values. More info: https://git.k8s.io/community/contributors/devel/sig-architecture/api-conventions.md#resources'',
          Type [''string''],
          Format '''']),
      (''metadata'', Schema [Description ''Standard object's metadata. More info: https://git.k8s.io/community/contributors/devel/sig-architecture/api-conventions.md#metadata'',
          Default (JObject []),
          Ref (ref ''k8s.io/apimachinery/pkg/apis/meta/v1.ObjectMeta'')]),
      (''spec'', Schema [Description ''Spec defines the desired quota. https://git.k8s.io/community/contributors/devel/sig-architecture/api-conventions.md#spec-and-status'',
          Default (JObject []),
          Ref (ref ''k8s.io/api/core/v1.ResourceQuotaSpec'')]),
      (''status'', Schema [Description ''Status defines the actual enforced quota and its current usage. https://git.k8s.io/community/contributors/devel/sig-architecture/api-conventions.md#spec-and-status'',
          Default (JObject []),
          Ref (ref ''k8s.io/api/core/v1.ResourceQuotaStatus'')])]],
     Dependencies = [''k8s.io/api/core/v1.ResourceQuotaSpec'',
     ''k8s.io/api/core/v1.ResourceQuotaStatus'',
     ''k8s.io/apimachinery/pkg/apis/meta/v1.ObjectMeta'']\<rparr>"

definition schema_k8sio_api_core_v1_ResourceQuotaList :: "(string \<Rightarrow> 'r) \<Rightarrow> 'r openapi_definition" where
  "schema_k8sio_api_core_v1_ResourceQuotaList ref =
    \<lparr>defSchema = Schema [Description ''ResourceQuotaList is a list of ResourceQuota items.'',
      Type [''object''],
      Properties [
      (''kind'', Schema [Description ''Kind is a string value representing the REST resource this object represents. Servers may infer this from the endpoint the client submits requests to. Cannot be updated. In CamelCase. More info: https://git.k8s.io/community/contributors/devel/sig-architecture/api-conventions.md#types-kinds'',
          Type [''string''],
          Format '''']),
      (''apiVersion'', Schema [Description ''APIVersion defines the versioned schema of this representation of an object. Servers should convert recognized schemas to the latest internal value, and may reject unrecognized values. More info: https://git.k8s.io/community/contributors/devel/sig-architecture/api-conventions.md#resources'',
          Type [''string''],
          Format '''']),
      (''metadata'', Schema [Description ''Standard list metadata. More info: https://git.k8s.io/community/contributors/devel/sig-architecture/api-conventions.md#types-kinds'',
          Default (JObject []),
          Ref (ref ''k8s.io/apimachinery/pkg/apis/meta/v1.ListMeta'')]),
      (''items'', Schema [Description ''Items is a list of ResourceQuota objects. More info: https://kubernetes.io/docs/concepts/policy/resource-quotas/'',
          Type [''array''],
          Items (Schema [Default (JObject []),
            Ref (ref ''k8s.io/api/core/v1.ResourceQuota'')])])],
      Required [''items'']],
     Dependencies = [''k8s.io/api/core/v1.ResourceQuota'',
     ''k8s.io/apimachinery/pkg/apis/meta/v1.ListMeta'']\<rparr>"

definition schema_k8sio_api_core_v1_ResourceQuotaSpec :: "(string \<Rightarrow> 'r) \<Rightarrow> 'r openapi_definition" where
  "schema_k8sio_api_core_v1_ResourceQuotaSpec ref =
    \<lparr>defSchema = Schema [Description ''ResourceQuotaSpec defines the desired hard limits to enforce for Quota.'',
      Type [''object''],
      Properties [
      (''hard'', Schema [Description ''hard is the set of desired hard limits for each named resource. More info: https://kubernetes.io/docs/concepts/policy/resource-quotas/'',
          Type [''object''],
          AdditionalProperties True (Schema [Default (JObject []),
            Ref (ref ''k8s.io/apimachinery/pkg/api/resource.Quantity'')])]),
      (''scopes'', Schema [Description ''A collection of filters that must match each object tracked by a quota. If not specified, the quota matches all objects.'',
          Type [''array''],
          Items (Schema [Default (JString ''''),
            Type [''string''],
            Format ''''])]),
      (''scopeSelector'', Schema [Description ''scopeSelector is also a collection of filters like scopes that must match each object tracked by a quota but expressed using ScopeSelectorOperator in combination with possible values. For a resource to match, both scopes AND scopeSelector (if specified in spec), must be matched.'',
          Ref (ref ''k8s.io/api/core/v1.ScopeSelector'')])]],
     Dependencies = [''k8s.io/api/core/v1.ScopeSelector'',
     ''k8s.io/apimachinery/pkg/api/resource.Quantity'']\<rparr>"

definition schema_k8sio_api_core_v1_ResourceQuotaStatus :: "(string \<Rightarrow> 'r) \<Rightarrow> 'r openapi_definition" where
  "schema_k8sio_api_core_v1_ResourceQuotaStatus ref =
    \<lparr>defSchema = Schema [Description ''ResourceQuotaStatus defines the enforced hard limits and observed use.'',
      Type [''object''],
      Properties [
      (''hard'', Schema [Description ''Hard is the set of enforced hard limits for each named resource. More info: https://kubernetes.io/docs/concepts/policy/resource-quotas/'',
          Type [''object''],
          AdditionalProperties True (Schema [Default (JObject []),
            Ref (ref ''k8s.io/apimachinery/pkg/api/resource.Quantity'')])]),
      (''used'', Schema [Description ''Used is the current observed total usage of the resource in the namespace.'',
          Type [''object''],
          AdditionalProperties True (Schema [Default (JObject []),
            Ref (ref ''k8s.io/apimachinery/pkg/api/resource.Quantity'')])])]],
     Dependencies = [''k8s.io/apimachinery/pkg/api/resource.Quantity'']\<rparr>"

definition schema_k8sio_api_core_v1_ScopeSelector :: "(string \<Rightarrow> 'r) \<Rightarrow> 'r openapi_definition" where
  "schema_k8sio_api_core_v1_ScopeSelector ref =
    \<lparr>defSchema = Schema [Description ''A scope selector represents the AND of the selectors represented by the scoped-resource selector requirements.'',
      Type [''object''],
      Properties [
      (''matchExpressions'', Schema [Description ''A list of scope selector requirements by scope of the resources.'',
          Type [''array''],
          Items (Schema [Default (JObject []),
            Ref (ref ''k8s.io/api/core/v1.ScopedResourceSelectorRequirement'')])])],
      Extensions [(''x-kubernetes-map-type'', JString ''atomic'')]],
     Dependencies = [''k8s.io/api/core/v1.ScopedResourceSelectorRequirement'']\<rparr>"

definition schema_k8sio_api_core_v1_ScopedResourceSelectorRequirement :: "(string \<Rightarrow> 'r) \<Rightarrow> 'r openapi_definition" where
  "schema_k8sio_api_core_v1_ScopedResourceSelectorRequirement ref =
    \<lparr>defSchema = Schema [Description ''A scoped-resource selector requirement is a selector that contains values, a scope name, and an operator that relates the scope name and values.'',
      Type [''object''],
      Properties [
      (''scopeName'', Schema [Description ''The name of the scope that the selector applies to.'',
          Default (JString ''''),
          Type [''string''],
          Format '''']),
      (''operator'', Schema [Description ''Represents a scope's relationship to a set of values. Valid operators are In, NotIn, Exists, DoesNotExist.'',
          Default (JString ''''),
          Type [''string''],
          Format '''']),
      (''values'', Schema [Description ''An array of string values. If the operator is In or NotIn, the values array must be non-empty. If the operator is Exists or DoesNotExist, the values array must be empty. This array is replaced during a strategic merge patch.'',
          Type [''array''],
          Items (Schema [Default (JString ''''),
            Type [''string''],
            Format ''''])])],
      Required [''scopeName'', ''operator'']],
     Dependencies = []\<rparr>"

definition schema_k8sio_api_core_v1_Secret :: "(string \<Rightarrow> 'r) \<Rightarrow> 'r openapi_definition" where
  "schema_k8sio_api_core_v1_Secret ref =
    \<lparr>defSchema = Schema [Description ''Secret holds secret data of a certain type. The total bytes of the values in the Data field must be less than MaxSecretSize bytes.'',
      Type [''object''],
      Properties [
      (''kind'', Schema [Description ''Kind is a string value representing the REST resource this object represents. Servers may infer this from the endpoint the client submits requests to. Cannot be updated. In CamelCase. More info: https://git.k8s.io/community/contributors/devel/sig-architecture/api-conventions.md#types-kinds'',
          Type [''string''],
          Format '''']),
      (''apiVersion'', Schema [Description ''APIVersion defines the versioned schema of this representation of an object. Servers should convert recognized schemas to the latest internal value, and may reject unrecognized values. More info: https://git.k8s.io/community/contributors/devel/sig-architecture/api-conventions.md#resources'',
          Type [''string''],
          Format '''']),
      (''metadata'', Schema [Description ''Standard object's metadata. More info: https://git.k8s.io/community/contributors/devel/sig-architecture/api-conventions.md#metadata'',
          Default (JObject []),
          Ref (ref ''k8s.io/apimachinery/pkg/apis/meta/v1.ObjectMeta'')]),
      (''immutable'', Schema [Description ''Immutable, if set to true, ensures that data stored in the Secret cannot be updated (only object metadata can be modified). If not set to true, the field can be modified at any time. Defaulted to nil.'',
          Type [''boolean''],
          Format '''']),
      (''data'', Schema [Description ''Data contains the secret data. Each key must consist of alphanumeric characters, '-', '_' or '.'. The serialized form of the secret data is a base64 encoded string, representing the arbitrary (possibly non-string) data value here. Described in https://tools.ietf.org/html/rfc4648#section-4'',
          Type [''object''],
          AdditionalProperties True (Schema [Type [''string''],
            Format ''byte''])]),
      (''stringData'', Schema [Description ''stringData allows specifying non-binary secret data in string form. It is provided as a write-only input field for convenience. All keys and values are merged into the data field on write, overwriting any existing values. The stringData field is never output when reading from the API.'',
          Type [''object''],
          AdditionalProperties True (Schema [Default (JString ''''),
            Type [''string''],
            Format ''''])]),
      (''type'', Schema [Description ''Used to facilitate programmatic handling of secret data.'',
          Type [''string''],
          Format ''''])]],
     Dependencies = [''k8s.io/apimachinery/pkg/apis/meta/v1.ObjectMeta'']\<rparr>"

definition schema_k8sio_api_core_v1_SecretList :: "(string \<Rightarrow> 'r) \<Rightarrow> 'r openapi_definition" where
  "schema_k8sio_api_core_v1_SecretList ref =
    \<lparr>defSchema = Schema [Description ''SecretList is a list of Secret.'',
      Type [''object''],
      Properties [
      (''kind'', Schema [Description ''Kind is a string value representing the REST resource this object represents. Servers may infer this from the endpoint the client submits requests to. Cannot be updated. In CamelCase. More info: https://git.k8s.io/community/contributors/devel/sig-architecture/api-conventions.md#types-kinds'',
          Type [''string''],
          Format '''']),
      (''apiVersion'', Schema [Description ''APIVersion defines the versioned schema of this representation of an object. Servers should convert recognized schemas to the latest internal value, and may reject unrecognized values. More info: https://git.k8s.io/community/contributors/devel/sig-architecture/api-conventions.md#resources'',
          Type [''string''],
          Format '''']),
      (''metadata'', Schema [Description ''Standard list metadata. More info: https://git.k8s.io/community/contributors/devel/sig-architecture/api-conventions.md#types-kinds'',
          Default (JObject []),
          Ref (ref ''k8s.io/apimachinery/pkg/apis/meta/v1.ListMeta'')]),
      (''items'', Schema [Description ''Items is a list of secret objects. More info: https://kubernetes.io/docs/concepts/configuration/secret'',
          Type [''array''],
          Items (Schema [Default (JObject []),
            Ref (ref ''k8s.io/api/core/v1.Secret'')])])],
      Required [''items'']],
     Dependencies = [''k8s.io/api/core/v1.Secret'',
     ''k8s.io/apimachinery/pkg/apis/meta/v1.ListMeta'']\<rparr>"

definition schema_k8sio_api_core_v1_SerializedReference :: "(string \<Rightarrow> 'r) \<Rightarrow> 'r openapi_definition" where
  "schema_k8sio_api_core_v1_SerializedReference ref =
    \<lparr>defSchema = Schema [Description ''SerializedReference is a reference to serialized object.'',
      Type [''object''],
      Properties [
      (''kind'', Schema [Description ''Kind is a string value representing the REST resource this object represents. Servers may infer this from the endpoint the client submits requests to. Cannot be updated. In CamelCase. More info: https://git.k8s.io/community/contributors/devel/sig-architecture/api-conventions.md#types-kinds'',
          Type [''string''],
          Format '''']),
      (''apiVersion'', Schema [Description ''APIVersion defines the versioned schema of this representation of an object. Servers should convert recognized schemas to the latest internal value, and may reject unrecognized values. More info: https://git.k8s.io/community/contributors/devel/sig-architecture/api-conventions.md#resources'',
          Type [''string''],
          Format '''']),
      (''reference'', Schema [Description ''The reference to an object in the system.'',
          Default (JObject []),
          Ref (ref ''k8s.io/api/core/v1.ObjectReference'')])]],
     Dependencies = [''k8s.io/api/core/v1.ObjectReference'']\<rparr>"

definition schema_k8sio_api_core_v1_Service :: "(string \<Rightarrow> 'r) \<Rightarrow> 'r openapi_definition" where
  "schema_k8sio_api_core_v1_Service ref =
    \<lparr>defSchema = Schema [Description ''Service is a named abstraction of software service (for example, mysql) consisting of local port (for example 3306) that the proxy listens on, and the selector that determines which pods will answer requests sent through the proxy.'',
      Type [''object''],
      Properties [
      (''kind'', Schema [Description ''Kind is a string value representing the REST resource this object represents. Servers may infer this from the endpoint the client submits requests to. Cannot be updated. In CamelCase. More info: https://git.k8s.io/community/contributors/devel/sig-architecture/api-conventions.md#types-kinds'',
          Type [''string''],
          Format '''']),
      (''apiVersion'', Schema [Description ''APIVersion defines the versioned schema of this representation of an object. Servers should convert recognized schemas to the latest internal value, and may reject unrecognized values. More info: https://git.k8s.io/community/contributors/devel/sig-architecture/api-conventions.md#resources'',
          Type [''string''],
          Format '''']),
      (''metadata'', Schema [Description ''Standard object's metadata. More info: https://git.k8s.io/community/contributors/devel/sig-architecture/api-conventions.md#metadata'',
          Default (JObject []),
          Ref (ref ''k8s.io/apimachinery/pkg/apis/meta/v1.ObjectMeta'')]),
      (''spec'', Schema [Description ''Spec defines the behavior of a service. https://git.k8s.io/community/contributors/devel/sig-architecture/api-conventions.md#spec-and-status'',
          Default (JObject []),
          Ref (ref ''k8s.io/api/core/v1.ServiceSpec'')]),
      (''status'', Schema [Description ''Most recently observed status of the service. Populated by the system. Read-only. More info: https://git.k8s.io/community/contributors/devel/sig-architecture/api-conventions.md#spec-and-status'',
          Default (JObject []),
          Ref (ref ''k8s.io/api/core/v1.ServiceStatus'')])]],
     Dependencies = [''k8s.io/api/core/v1.ServiceSpec'',
     ''k8s.io/api/core/v1.ServiceStatus'',
     ''k8s.io/apimachinery/pkg/apis/meta/v1.ObjectMeta'']\<rparr>"

definition schema_k8sio_api_core_v1_ServiceAccount :: "(string \<Rightarrow> 'r) \<Rightarrow> 'r openapi_definition" where
  "schema_k8sio_api_core_v1_ServiceAccount ref =
    \<lparr>defSchema = Schema [Description ''ServiceAccount binds together: * a name, understood by users, and perhaps by peripheral systems, for an identity * a principal that can be authenticated and authorized * a set of secrets'',
      Type [''object''],
      Properties [
      (''kind'', Schema [Description ''Kind is a string value representing the REST resource this object represents. Servers may infer this from the endpoint the client submits requests to. Cannot be updated. In CamelCase. More info: https://git.k8s.io/community/contributors/devel/sig-architecture/api-conventions.md#types-kinds'',
          Type [''string''],
          Format '''']),
      (''apiVersion'', Schema [Description ''APIVersion defines the versioned schema of this representation of an object. Servers should convert recognized schemas to the latest internal value, and may reject unrecognized values. More info: https://git.k8s.io/community/contributors/devel/sig-architecture/api-conventions.md#resources'',
          Type [''string''],
          Format '''']),
      (''metadata'', Schema [Description ''Standard object's metadata. More info: https://git.k8s.io/community/contributors/devel/sig-architecture/api-conventions.md#metadata'',
          Default (JObject []),
          Ref (ref ''k8s.io/apimachinery/pkg/apis/meta/v1.ObjectMeta'')]),
      (''secrets'', Schema [Extensions [(''x-kubernetes-patch-merge-key'', JString ''name''), (''x-kubernetes-patch-strategy'', JString ''merge'')],
          Description ''Secrets is the list of secrets allowed to be used by pods running using this ServiceAccount. More info: https://kubernetes.io/docs/concepts/configuration/secret'',
          Type [''array''],
          Items (Schema [Default (JObject []),
            Ref (ref ''k8s.io/api/core/v1.ObjectReference'')])]),
      (''imagePullSecrets'', Schema [Description ''ImagePullSecrets is a list of references to secrets in the same namespace to use for pulling any images in pods that reference this ServiceAccount. ImagePullSecrets are distinct from Secrets because Secrets can be mounted in the pod, but ImagePullSecrets are only accessed by the kubelet. More info: https://kubernetes.io/docs/concepts/containers/images/#specifying-imagepullsecrets-on-a-pod'',
          Type [''array''],
          Items (Schema [Default (JObject []),
            Ref (ref ''k8s.io/api/core/v1.LocalObjectReference'')])]),
      (''automountServiceAccountToken'', Schema [Description ''AutomountServiceAccountToken indicates whether pods running as this service account should have an API token automatically mounted. Can be overridden at the pod level.'',
          Type [''boolean''],
          Format ''''])]],
     Dependencies = [''k8s.io/api/core/v1.LocalObjectReference'',
     ''k8s.io/api/core/v1.ObjectReference'',
     ''k8s.io/apimachinery/pkg/apis/meta/v1.ObjectMeta'']\<rparr>"

definition schema_k8sio_api_core_v1_ServiceAccountList :: "(string \<Rightarrow> 'r) \<Rightarrow> 'r openapi_definition" where
  "schema_k8sio_api_core_v1_ServiceAccountList ref =
    \<lparr>defSchema = Schema [Description ''ServiceAccountList is a list of ServiceAccount objects'',
      Type [''object''],
      Properties [
      (''kind'', Schema [Description ''Kind is a string value representing the REST resource this object represents. Servers may infer this from the endpoint the client submits requests to. Cannot be updated. In CamelCase. More info: https://git.k8s.io/community/contributors/devel/sig-architecture/api-conventions.md#types-kinds'',
          Type [''string''],
          Format '''']),
      (''apiVersion'', Schema [Description ''APIVersion defines the versioned schema of this representation of an object. Servers should convert recognized schemas to the latest internal value, and may reject unrecognized values. More info: https://git.k8s.io/community/contributors/devel/sig-architecture/api-conventions.md#resources'',
          Type [''string''],
          Format '''']),
      (''metadata'', Schema [Description ''Standard list metadata. More info: https://git.k8s.io/community/contributors/devel/sig-architecture/api-conventions.md#types-kinds'',
          Default (JObject []),
          Ref (ref ''k8s.io/apimachinery/pkg/apis/meta/v1.ListMeta'')]),
      (''items'', Schema [Description ''List of ServiceAccounts. More info: https://kubernetes.io/docs/tasks/configure-pod-container/configure-service-account/'',
          Type [''array''],
          Items (Schema [Default (JObject []),
            Ref (ref ''k8s.io/api/core/v1.ServiceAccount'')])])],
      Required [''items'']],
     Dependencies = [''k8s.io/api/core/v1.ServiceAccount'',
     ''k8s.io/apimachinery/pkg/apis/meta/v1.ListMeta'']\<rparr>"

definition schema_k8sio_api_core_v1_ServiceList :: "(string \<Rightarrow> 'r) \<Rightarrow> 'r openapi_definition" where
  "schema_k8sio_api_core_v1_ServiceList ref =
    \<lparr>defSchema = Schema [Description ''ServiceList holds a list of services.'',
      Type [''object''],
      Properties [
      (''kind'', Schema [Description ''Kind is a string value representing the REST resource this object represents. Servers may infer this from the endpoint the client submits requests to. Cannot be updated. In CamelCase. More info: https://git.k8s.io/community/contributors/devel/sig-architecture/api-conventions.md#types-kinds'',
          Type [''string''],
          Format '''']),
      (''apiVersion'', Schema [Description ''APIVersion defines the versioned schema of this representation of an object. Servers should convert recognized schemas to the latest internal value, and may reject unrecognized values. More info: https://git.k8s.io/community/contributors/devel/sig-architecture/api-conventions.md#resources'',
          Type [''string''],
          Format '''']),
      (''metadata'', Schema [Description ''Standard list metadata. More info: https://git.k8s.io/community/contributors/devel/sig-architecture/api-conventions.md#types-kinds'',
          Default (JObject []),
          Ref (ref ''k8s.io/apimachinery/pkg/apis/meta/v1.ListMeta'')]),
      (''items'', Schema [Description ''List of services'',
          Type [''array''],
          Items (Schema [Default (JObject []),
            Ref (ref ''k8s.io/api/core/v1.Service'')])])],
      Required [''items'']],
     Dependencies = [''k8s.io/api/core/v1.Service'',
     ''k8s.io/apimachinery/pkg/apis/meta/v1.ListMeta'']\<rparr>"

definition schema_k8sio_api_core_v1_ServicePort :: "(string \<Rightarrow> 'r) \<Rightarrow> 'r openapi_definition" where
  "schema_k8sio_api_core_v1_ServicePort ref =
    \<lparr>defSchema = Schema [Description ''ServicePort contains information on service's port.'',
      Type [''object''],
      Properties [
      (''name'', Schema [Description ''The name of this port within the service. This must be a DNS_LABEL. All ports within a ServiceSpec must have unique names. When considering the endpoints for a Service, this must match the 'name' field in the EndpointPort. Optional if only one ServicePort is defined on this service.'',
          Type [''string''],
          Format '''']),
      (''protocol'', Schema [Description ''The IP protocol for this port. Supports \"TCP\", \"UDP\", and \"SCTP\". Default is TCP.'',
          Default (JString ''TCP''),
          Type [''string''],
          Format '''']),
      (''appProtocol'', Schema [Description ''The application protocol for this port. This field follows standard Kubernetes label syntax. Un-prefixed names are reserved for IANA standard service names (as per RFC-6335 and http://www.iana.org/assignments/service-names). Non-standard protocols should use prefixed names such as mycompany.com/my-custom-protocol.'',
          Type [''string''],
          Format '''']),
      (''port'', Schema [Description ''The port that will be exposed by this service.'',
          Default (JNumber 0),
          Type [''integer''],
          Format ''int32'']),
      (''targetPort'', Schema [Description ''Number or name of the port to access on the pods targeted by the service. Number must be in the range 1 to 65535. Name must be an IANA_SVC_NAME. If this is a string, it will be looked up as a named port in the target Pod's container ports. If this is not specified, the value of the 'port' field is used (an identity map). This field is ignored for services with clusterIP=None, and should be omitted or set equal to the 'port' field. More info: https://kubernetes.io/docs/concepts/services-networking/service/#defining-a-service'',
          Default (JObject []),
          Ref (ref ''k8s.io/apimachinery/pkg/util/intstr.IntOrString'')]),
      (''nodePort'', Schema [Description ''The port on each node on which this service is exposed when type is NodePort or LoadBalancer.  Usually assigned by the system. If a value is specified, in-range, and not in use it will be used, otherwise the operation will fail.  If not specified, a port will be allocated if this Service requires one.  If this field is specified when creating a Service which does not need it, creation will fail. This field will be wiped when updating a Service to no longer need it (e.g. changing type from NodePort to ClusterIP). More info: https://kubernetes.io/docs/concepts/services-networking/service/#type-nodeport'',
          Type [''integer''],
          Format ''int32''])],
      Required [''port'']],
     Dependencies = [''k8s.io/apimachinery/pkg/util/intstr.IntOrString'']\<rparr>"

definition schema_k8sio_api_core_v1_ServiceProxyOptions :: "(string \<Rightarrow> 'r) \<Rightarrow> 'r openapi_definition" where
  "schema_k8sio_api_core_v1_ServiceProxyOptions ref =
    \<lparr>defSchema = Schema [Description ''ServiceProxyOptions is the query options to a Service's proxy call.'',
      Type [''object''],
      Properties [
      (''kind'', Schema [Description ''Kind is a string value representing the REST resource this object represents. Servers may infer this from the endpoint the client submits requests to. Cannot be updated. In CamelCase. More info: https://git.k8s.io/community/contributors/devel/sig-architecture/api-conventions.md#types-kinds'',
          Type [''string''],
          Format '''']),
      (''apiVersion'', Schema [Description ''APIVersion defines the versioned schema of this representation of an object. Servers should convert recognized schemas to the latest internal value, and may reject unrecognized values. More info: https://git.k8s.io/community/contributors/devel/sig-architecture/api-conventions.md#resources'',
          Type [''string''],
          Format '''']),
      (''path'', Schema [Description ''Path is the part of URLs that include service endpoints, suffixes, and parameters to use for the current proxy request to service. For example, the whole request URL is http://localhost/api/v1/namespaces/kube-system/services/elasticsearch-logging/_search?q=user:kimchy. Path is _search?q=user:kimchy.'',
          Type [''string''],
          Format ''''])]],
     Dependencies = []\<rparr>"

definition schema_k8sio_api_core_v1_ServiceSpec :: "(string \<Rightarrow> 'r) \<Rightarrow> 'r openapi_definition" where
  "schema_k8sio_api_core_v1_ServiceSpec ref =
    \<lparr>defSchema = Schema [Description ''ServiceSpec describes the attributes that a user creates on a service.'',
      Type [''object''],
      Properties [
      (''ports'', Schema [Extensions [(''x-kubernetes-list-map-keys'', JArray [JString ''port'', JString ''protocol'']), (''x-kubernetes-list-type'', JString ''map''), (''x-kubernetes-patch-merge-key'', JString ''port''), (''x-kubernetes-patch-strategy'', JString ''merge'')],
          Description ''The list of ports that are exposed by this service. More info: https://kubernetes.io/docs/concepts/services-networking/service/#virtual-ips-and-service-proxies'',
          Type [''array''],
          Items (Schema [Default (JObject []),
            Ref (ref ''k8s.io/api/core/v1.ServicePort'')])]),
      (''selector'', Schema [Extensions [(''x-kubernetes-map-type'', JString ''atomic'')],
          Description ''Route service traffic to pods with label keys and values matching this selector. If empty or not present, the service is assumed to have an external process managing its endpoints, which Kubernetes will not modify. Only applies to types ClusterIP, NodePort, and LoadBalancer. Ignored if type is ExternalName. More info: https://kubernetes.io/docs/concepts/services-networking/service/'',
          Type [''object''],
          AdditionalProperties True (Schema [Default (JString ''''),
            Type [''string''],
            Format ''''])]),
      (''clusterIP'', Schema [Description ''clusterIP is the IP address of the service and is usually assigned randomly. If an address is specified manually, is in-range (as per system configuration), and is not in use, it will be allocated to the service; otherwise creation of the service will fail. This field may not be changed through updates unless the type field is also being changed to ExternalName (which requires this field to be blank) or the type field is being changed from ExternalName (in which case this field may optionally be specified, as describe above).  Valid values are \"None\", empty string (\"\"), or a valid IP address. Setting this to \"None\" makes a \"headless service\" (no virtual IP), which is useful when direct endpoint connections are preferred and proxying is not required.  Only applies to types ClusterIP, NodePort, and LoadBalancer. If this field is specified when creating a Service of type ExternalName, creation will fail. This field will be wiped when updating a Service to type ExternalName. More info: https://kubernetes.io/docs/concepts/services-networking/service/#virtual-ips-and-service-proxies'',
          Type [''string''],
          Format '''']),
      (''clusterIPs'', Schema [Extensions [(''x-kubernetes-list-type'', JString ''atomic'')],
          Description (''ClusterIPs is a list of IP addresses assigned to this service, and are usually assigned randomly.  If an address is specified manually, is in-range (as per system configuration), and is not in use, it will be allocated to the service; otherwise creation of the service will fail. This field may not be changed through updates unless the type field is also being changed to ExternalName (which requires this field to be empty) or the type field is being changed from ExternalName (in which case this field may optionally be specified, as describe above).  Valid values are \"None\", empty string (\"\"), or a valid IP address.  Setting this to \"None\" makes a \"headless service\" (no virtual IP), which is useful when direct endpoint connections are preferred and proxying is not required.  Only applies to types ClusterIP, NodePort, and LoadBalancer. If this field is specified when creating a Service of type ExternalName, creation will fail. This field will be wiped when updating a Service to type ExternalName.  If this field is not specified, it will be initialized from the clusterIP field.  If this field is specified, clients must ensure that clusterIPs[0] and clusterIP have the same value.'' @ [CHR 0x0A, CHR 0x0A] @ ''Unless the \"IPv6DualStack\" feature gate is enabled, this field is limited to one value, which must be the same as the clusterIP field.  If the feature gate is enabled, this field may hold a maximum of two entries (dual-stack IPs, in either order).  These IPs must correspond to the values of the ipFamilies field. Both clusterIPs and ipFamilies are governed by the ipFamilyPolicy field. More info: https://kubernetes.io/docs/concepts/services-networking/service/#virtual-ips-and-service-proxies''),
          Type [''array''],
          Items (Schema [Default (JString ''''),
            Type [''string''],
            Format ''''])]),
      (''type'', Schema [Description ''type determines how the Service is exposed. Defaults to ClusterIP. Valid options are ExternalName, ClusterIP, NodePort, and LoadBalancer. \"ClusterIP\" allocates a cluster-internal IP address for load-balancing to endpoints. Endpoints are determined by the selector or if that is not specified, by manual construction of an Endpoints object or EndpointSlice objects. If clusterIP is \"None\", no virtual IP is allocated and the endpoints are published as a set of endpoints rather than a virtual IP. \"NodePort\" builds on ClusterIP and allocates a port on every node which routes to the same endpoints as the clusterIP. \"LoadBalancer\" builds on NodePort and creates an external load-balancer (if supported in the current cloud) which routes to the same endpoints as the clusterIP. \"ExternalName\" aliases this service to the specified externalName. Several other fields do not apply to ExternalName services. More info: https://kubernetes.io/docs/concepts/services-networking/service/#publishing-services-service-types'',
          Type [''string''],
          Format '''']),
      (''externalIPs'', Schema [Description ''externalIPs is a list of IP addresses for which nodes in the cluster will also accept traffic for this service.  These IPs are not managed by Kubernetes.  The user is responsible for ensuring that traffic arrives at a node with this IP.  A common example is external load-balancers that are not part of the Kubernetes system.'',
          Type [''array''],
          Items (Schema [Default (JString ''''),
            Type [''string''],
            Format ''''])]),
      (''sessionAffinity'', Schema [Description ''Supports \"ClientIP\" and \"None\". Used to maintain session affinity. Enable client IP based session affinity. Must be ClientIP or None. Defaults to None. More info: https://kubernetes.io/docs/concepts/services-networking/service/#virtual-ips-and-service-proxies'',
          Type [''string''],
          Format '''']),
      (''loadBalancerIP'', Schema [Description ''Only applies to Service Type: LoadBalancer LoadBalancer will get created with the IP specified in this field. This feature depends on whether the underlying cloud-provider supports specifying the loadBalancerIP when a load balancer is created. This field will be ignored if the cloud-provider does not support the feature.'',
          Type [''string''],
          Format '''']),
      (''loadBalancerSourceRanges'', Schema [Description ''If specified and supported by the platform, this will restrict traffic through the cloud-provider load-balancer will be restricted to the specified client IPs. This field will be ignored if the cloud-provider does not support the feature.\" More info: https://kubernetes.io/docs/tasks/access-application-cluster/create-external-load-balancer/'',
          Type [''array''],
          Items (Schema [Default (JString ''''),
            Type [''string''],
            Format ''''])]),
      (''externalName'', Schema [Description ''externalName is the external reference that discovery mechanisms will return as an alias for this service (e.g. a DNS CNAME record). No proxying will be involved.  Must be a lowercase RFC-1123 hostname (https://tools.ietf.org/html/rfc1123) and requires `type` to be \"ExternalName\".'',
          Type [''string''],
          Format '''']),
      (''externalTrafficPolicy'', Schema [Description ''externalTrafficPolicy denotes if this Service desires to route external traffic to node-local or cluster-wide endpoints. \"Local\" preserves the client source IP and avoids a second hop for LoadBalancer and Nodeport type services, but risks potentially imbalanced traffic spreading. \"Cluster\" obscures the client source IP and may cause a second hop to another node, but should have good overall load-spreading.'',
          Type [''string''],
          Format '''']),
      (''healthCheckNodePort'', Schema [Description ''healthCheckNodePort specifies the healthcheck nodePort for the service. This only applies when type is set to LoadBalancer and externalTrafficPolicy is set to Local. If a value is specified, is in-range, and is not in use, it will be used.  If not specified, a value will be automatically allocated.  External systems (e.g. load-balancers) can use this port to determine if a given node holds endpoints for this service or not.  If this field is specified when creating a Service which does not need it, creation will fail. This field will be wiped when updating a Service to no longer need it (e.g. changing type).'',
          Type [''integer''],
          Format ''int32'']),
      (''publishNotReadyAddresses'', Schema [Description ''publishNotReadyAddresses indicates that any agent which deals with endpoints for this Service should disregard any indications of ready/not-ready. The primary use case for setting this field is for a StatefulSet's Headless Service to propagate SRV DNS records for its Pods for the purpose of peer discovery. The Kubernetes controllers that generate Endpoints and EndpointSlice resources for Services interpret this to mean that all endpoints are considered \"ready\" even if the Pods themselves are not. Agents which consume only Kubernetes generated endpoints through the Endpoints or EndpointSlice resources can safely assume this behavior.'',
          Type [''boolean''],
          Format '''']),
      (''sessionAffinityConfig'', Schema [Description ''sessionAffinityConfig contains the configurations of session affinity.'',
          Ref (ref ''k8s.io/api/core/v1.SessionAffinityConfig'')]),
      (''ipFamilies'', Schema [Extensions [(''x-kubernetes-list-type'', JString ''atomic'')],
          Description (''IPFamilies is a list of IP families (e.g. IPv4, IPv6) assigned to this service, and is gated by the \"IPv6DualStack\" feature gate.  This field is usually assigned automatically based on cluster configuration and the ipFamilyPolicy field. If this field is specified manually, the requested family is available in the cluster, and ipFamilyPolicy allows it, it will be used; otherwise creation of the service will fail.  This field is conditionally mutable: it allows for adding or removing a secondary IP family, but it does not allow changing the primary IP family of the Service.  Valid values are \"IPv4\" and \"IPv6\".  This field only applies to Services of types ClusterIP, NodePort, and LoadBalancer, and does apply to \"headless\" services.  This field will be wiped when updating a Service to type ExternalName.'' @ [CHR 0x0A, CHR 0x0A] @ ''This field may hold a maximum of two entries (dual-stack families, in either order).  These families must correspond to the values of the clusterIPs field, if specified. Both clusterIPs and ipFamilies are governed by the ipFamilyPolicy field.''),
          Type [''array''],
          Items (Schema [Default (JString ''''),
            Type [''string''],
            Format ''''])]),
      (''ipFamilyPolicy'', Schema [Description ''IPFamilyPolicy represents the dual-stack-ness requested or required by this Service, and is gated by the \"IPv6DualStack\" feature gate.  If there is no value provided, then this field will be set to SingleStack. Services can be \"SingleStack\" (a single IP family), \"PreferDualStack\" (two IP families on dual-stack configured clusters or a single IP family on single-stack clusters), or \"RequireDualStack\" (two IP families on dual-stack configured clusters, otherwise fail). The ipFamilies and clusterIPs fields depend on the value of this field.  This field will be wiped when updating a service to type ExternalName.'',
          Type [''string''],
          Format '''']),
      (''allocateLoadBalancerNodePorts'', Schema [Description ''allocateLoadBalancerNodePorts defines if NodePorts will be automatically allocated for services with type LoadBalancer.  Default is \"true\". It may be set to \"false\" if the cluster load-balancer does not rely on NodePorts.  If the caller requests specific NodePorts (by specifying a value), those requests will be respected, regardless of this field. This field may only be set for services with type LoadBalancer and will be cleared if the type is changed to any other type. This field is beta-level and is only honored by servers that enable the ServiceLBNodePortControl feature.'',
          Type [''boolean''],
          Format '''']),
      (''loadBalancerClass'', Schema [Description ''loadBalancerClass is the class of the load balancer implementation this Service belongs to. If specified, the value of this field must be a label-style identifier, with an optional prefix, e.g. \"internal-vip\" or \"example.com/internal-vip\". Unprefixed names are reserved for end-users. This field can only be set when the Service type is 'LoadBalancer'. If not set, the default load balancer implementation is used, today this is typically done through the cloud provider integration, but should apply for any default implementation. If set, it is assumed that a load balancer implementation is watching for Services with a matching class. Any default load balancer implementation (e.g. cloud providers) should ignore Services that set this field. This field can only be set when creating or updating a Service to type 'LoadBalancer'. Once set, it can not be changed. This field will be wiped when a service is updated to a non 'LoadBalancer' type.'',
          Type [''string''],
          Format '''']),
      (''internalTrafficPolicy'', Schema [Description ''InternalTrafficPolicy specifies if the cluster internal traffic should be routed to all endpoints or node-local endpoints only. \"Cluster\" routes internal traffic to a Service to all endpoints. \"Local\" routes traffic to node-local endpoints only, traffic is dropped if no node-local endpoints are ready. The default value is \"Cluster\".'',
          Type [''string''],
          Format ''''])]],
     Dependencies = [''k8s.io/api/core/v1.ServicePort'',
     ''k8s.io/api/core/v1.SessionAffinityConfig'']\<rparr>"

definition schema_k8sio_api_core_v1_ServiceStatus :: "(string \<Rightarrow> 'r) \<Rightarrow> 'r openapi_definition" where
  "schema_k8sio_api_core_v1_ServiceStatus ref =
    \<lparr>defSchema = Schema [Description ''ServiceStatus represents the current status of a service.'',
      Type [''object''],
      Properties [
      (''loadBalancer'', Schema [Description ''LoadBalancer contains the current status of the load-balancer, if one is present.'',
          Default (JObject []),
          Ref (ref ''k8s.io/api/core/v1.LoadBalancerStatus'')]),
      (''conditions'', Schema [Extensions [(''x-kubernetes-list-map-keys'', JArray [JString ''type'']), (''x-kubernetes-list-type'', JString ''map''), (''x-kubernetes-patch-merge-key'', JString ''type''), (''x-kubernetes-patch-strategy'', JString ''merge'')],
          Description ''Current service state'',
          Type [''array''],
          Items (Schema [Default (JObject []),
            Ref (ref ''k8s.io/apimachinery/pkg/apis/meta/v1.Condition'')])])]],
     Dependencies = [''k8s.io/api/core/v1.LoadBalancerStatus'',
     ''k8s.io/apimachinery/pkg/apis/meta/v1.Condition'']\<rparr>"

definition schema_k8sio_api_core_v1_SessionAffinityConfig :: "(string \<Rightarrow> 'r) \<Rightarrow> 'r openapi_definition" where
  "schema_k8sio_api_core_v1_SessionAffinityConfig ref =
    \<lparr>defSchema = Schema [Description ''SessionAffinityConfig represents the configurations of session affinity.'',
      Type [''object''],
      Properties [
      (''clientIP'', Schema [Description ''clientIP contains the configurations of Client IP based session affinity.'',
          Ref (ref ''k8s.io/api/core/v1.ClientIPConfig'')])]],
     Dependencies = [''k8s.io/api/core/v1.ClientIPConfig'']\<rparr>"

definition schema_k8sio_api_core_v1_TopologySelectorLabelRequirement :: "(string \<Rightarrow> 'r) \<Rightarrow> 'r openapi_definition" where
  "schema_k8sio_api_core_v1_TopologySelectorLabelRequirement ref =
    \<lparr>defSchema = Schema [Description ''A topology selector requirement is a selector that matches given label. This is an alpha feature and may change in the future.'',
      Type [''object''],
      Properties [
      (''key'', Schema [Description ''The label key that the selector applies to.'',
          Default (JString ''''),
          Type [''string''],
          Format '''']),
      (''values'', Schema [Description ''An array of string values. One value must match the label to be selected. Each entry in Values is ORed.'',
          Type [''array''],
          Items (Schema [Default (JString ''''),
            Type [''string''],
            Format ''''])])],
      Required [''key'', ''values'']],
     Dependencies = []\<rparr>"

definition schema_k8sio_api_core_v1_TopologySelectorTerm :: "(string \<Rightarrow> 'r) \<Rightarrow> 'r openapi_definition" where
  "schema_k8sio_api_core_v1_TopologySelectorTerm ref =
    \<lparr>defSchema = Schema [Description ''A topology selector term represents the result of label queries. A null or empty topology selector term matches no objects. The requirements of them are ANDed. It provides a subset of functionality as NodeSelectorTerm. This is an alpha feature and may change in the future.'',
      Type [''object''],
      Properties [
      (''matchLabelExpressions'', Schema [Description ''A list of topology selector requirements by labels.'',
          Type [''array''],
          Items (Schema [Default (JObject []),
            Ref (ref ''k8s.io/api/core/v1.TopologySelectorLabelRequirement'')])])],
      Extensions [(''x-kubernetes-map-type'', JString ''atomic'')]],
     Dependencies = [''k8s.io/api/core/v1.TopologySelectorLabelRequirement'']\<rparr>"

text \<open>Every definition here is consistent.\<close>

lemma openapi_core_ok_1:
  "definition_ok ref (schema_k8sio_api_core_v1_AvoidPods ref)"
  "definition_ok ref (schema_k8sio_api_core_v1_ClientIPConfig ref)"
  "definition_ok ref (schema_k8sio_api_core_v1_ComponentCondition ref)"
  "definition_ok ref (schema_k8sio_api_core_v1_ComponentStatus ref)"
  "definition_ok ref (schema_k8sio_api_core_v1_ComponentStatusList ref)"
  "definition_ok ref (schema_k8sio_api_core_v1_ConfigMap ref)"
  "definition_ok ref (schema_k8sio_api_core_v1_ConfigMapList ref)"
  "definition_ok ref (schema_k8sio_api_core_v1_EndpointAddress ref)"
  unfolding definition_ok_def
  by (simp_all add:
        schema_k8sio_api_core_v1_AvoidPods_def
        schema_k8sio_api_core_v1_ClientIPConfig_def
        schema_k8sio_api_core_v1_ComponentCondition_def
        schema_k8sio_api_core_v1_ComponentStatus_def
        schema_k8sio_api_core_v1_ComponentStatusList_def
        schema_k8sio_api_core_v1_ConfigMap_def
        schema_k8sio_api_core_v1_ConfigMapList_def
        schema_k8sio_api_core_v1_EndpointAddress_def)

lemma openapi_core_ok_2:
  "definition_ok ref (schema_k8sio_api_core_v1_EndpointPort ref)"
  "definition_ok ref (schema_k8sio_api_core_v1_EndpointSubset ref)"
  "definition_ok ref (schema_k8sio_api_core_v1_Endpoints ref)"
  "definition_ok ref (schema_k8sio_api_core_v1_EndpointsList ref)"
  "definition_ok ref (schema_k8sio_api_core_v1_EphemeralContainerCommon ref)"
  "definition_ok ref (schema_k8sio_api_core_v1_Event ref)"
  "definition_ok ref (schema_k8sio_api_core_v1_EventList ref)"
  "definition_ok ref (schema_k8sio_api_core_v1_EventSeries ref)"
  unfolding definition_ok_def
  by (simp_all add:
        schema_k8sio_api_core_v1_EndpointPort_def
        schema_k8sio_api_core_v1_EndpointSubset_def
        schema_k8sio_api_core_v1_Endpoints_def
        schema_k8sio_api_core_v1_EndpointsList_def
        schema_k8sio_api_core_v1_EphemeralContainerCommon_def
        schema_k8sio_api_core_v1_Event_def
        schema_k8sio_api_core_v1_EventList_def
        schema_k8sio_api_core_v1_EventSeries_def)

lemma openapi_core_ok_3:
  "definition_ok ref (schema_k8sio_api_core_v1_EventSource ref)"
  "definition_ok ref (schema_k8sio_api_core_v1_LimitRange ref)"
  "definition_ok ref (schema_k8sio_api_core_v1_LimitRangeItem ref)"
  "definition_ok ref (schema_k8sio_api_core_v1_LimitRangeList ref)"
  "definition_ok ref (schema_k8sio_api_core_v1_LimitRangeSpec ref)"
  "definition_ok ref (schema_k8sio_api_core_v1_List ref)"
  "definition_ok ref (schema_k8sio_api_core_v1_LoadBalancerIngress ref)"
  "definition_ok ref (schema_k8sio_api_core_v1_LoadBalancerStatus ref)"
  unfolding definition_ok_def
  by (simp_all add:
        schema_k8sio_api_core_v1_EventSource_def
        schema_k8sio_api_core_v1_LimitRange_def
        schema_k8sio_api_core_v1_LimitRangeItem_def
        schema_k8sio_api_core_v1_LimitRangeList_def
        schema_k8sio_api_core_v1_LimitRangeSpec_def
        schema_k8sio_api_core_v1_List_def
        schema_k8sio_api_core_v1_LoadBalancerIngress_def
        schema_k8sio_api_core_v1_LoadBalancerStatus_def)

lemma openapi_core_ok_4:
  "definition_ok ref (schema_k8sio_api_core_v1_Namespace ref)"
  "definition_ok ref (schema_k8sio_api_core_v1_NamespaceCondition ref)"
  "definition_ok ref (schema_k8sio_api_core_v1_NamespaceList ref)"
  "definition_ok ref (schema_k8sio_api_core_v1_NamespaceSpec ref)"
  "definition_ok ref (schema_k8sio_api_core_v1_NamespaceStatus ref)"
  "definition_ok ref (schema_k8sio_api_core_v1_NodeList ref)"
  "definition_ok ref (schema_k8sio_api_core_v1_NodeProxyOptions ref)"
  "definition_ok ref (schema_k8sio_api_core_v1_NodeResources ref)"
  unfolding definition_ok_def
  by (simp_all add:
        schema_k8sio_api_core_v1_Namespace_def
        schema_k8sio_api_core_v1_NamespaceCondition_def
        schema_k8sio_api_core_v1_NamespaceList_def
        schema_k8sio_api_core_v1_NamespaceSpec_def
        schema_k8sio_api_core_v1_NamespaceStatus_def
        schema_k8sio_api_core_v1_NodeList_def
        schema_k8sio_api_core_v1_NodeProxyOptions_def
        schema_k8sio_api_core_v1_NodeResources_def)

lemma openapi_core_ok_5:
  "definition_ok ref (schema_k8sio_api_core_v1_PodAttachOptions ref)"
  "definition_ok ref (schema_k8sio_api_core_v1_PodExecOptions ref)"
  "definition_ok ref (schema_k8sio_api_core_v1_PodList ref)"
  "definition_ok ref (schema_k8sio_api_core_v1_PodLogOptions ref)"
  "definition_ok ref (schema_k8sio_api_core_v1_PodPortForwardOptions ref)"
  "definition_ok ref (schema_k8sio_api_core_v1_PodProxyOptions ref)"
  "definition_ok ref (schema_k8sio_api_core_v1_PodSignature ref)"
  "definition_ok ref (schema_k8sio_api_core_v1_PodStatusResult ref)"
  unfolding definition_ok_def
  by (simp_all add:
        schema_k8sio_api_core_v1_PodAttachOptions_def
        schema_k8sio_api_core_v1_PodExecOptions_def
        schema_k8sio_api_core_v1_PodList_def
        schema_k8sio_api_core_v1_PodLogOptions_def
        schema_k8sio_api_core_v1_PodPortForwardOptions_def
        schema_k8sio_api_core_v1_PodProxyOptions_def
        schema_k8sio_api_core_v1_PodSignature_def
        schema_k8sio_api_core_v1_PodStatusResult_def)

lemma openapi_core_ok_6:
  "definition_ok ref (schema_k8sio_api_core_v1_PodTemplate ref)"
  "definition_ok ref (schema_k8sio_api_core_v1_PodTemplateList ref)"
  "definition_ok ref (schema_k8sio_api_core_v1_PodTemplateSpec ref)"
  "definition_ok ref (schema_k8sio_api_core_v1_PortStatus ref)"
  "definition_ok ref (schema_k8sio_api_core_v1_PreferAvoidPodsEntry ref)"
  "definition_ok ref (schema_k8sio_api_core_v1_RangeAllocation ref)"
  "definition_ok ref (schema_k8sio_api_core_v1_ReplicationController ref)"
  "definition_ok ref (schema_k8sio_api_core_v1_ReplicationControllerCondition ref)"
  unfolding definition_ok_def
  by (simp_all add:
        schema_k8sio_api_core_v1_PodTemplate_def
        schema_k8sio_api_core_v1_PodTemplateList_def
        schema_k8sio_api_core_v1_PodTemplateSpec_def
        schema_k8sio_api_core_v1_PortStatus_def
        schema_k8sio_api_core_v1_PreferAvoidPodsEntry_def
        schema_k8sio_api_core_v1_RangeAllocation_def
        schema_k8sio_api_core_v1_ReplicationController_def
        schema_k8sio_api_core_v1_ReplicationControllerCondition_def)

lemma openapi_core_ok_7:
  "definition_ok ref (schema_k8sio_api_core_v1_ReplicationControllerList ref)"
  "definition_ok ref (schema_k8sio_api_core_v1_ReplicationControllerSpec ref)"
  "definition_ok ref (schema_k8sio_api_core_v1_ReplicationControllerStatus ref)"
  "definition_ok ref (schema_k8sio_api_core_v1_ResourceQuota ref)"
  "definition_ok ref (schema_k8sio_api_core_v1_ResourceQuotaList ref)"
  "definition_ok ref (schema_k8sio_api_core_v1_ResourceQuotaSpec ref)"
  "definition_ok ref (schema_k8sio_api_core_v1_ResourceQuotaStatus ref)"
  "definition_ok ref (schema_k8sio_api_core_v1_ScopeSelector ref)"
  unfolding definition_ok_def
  by (simp_all add:
        schema_k8sio_api_core_v1_ReplicationControllerList_def
        schema_k8sio_api_core_v1_ReplicationControllerSpec_def
        schema_k8sio_api_core_v1_ReplicationControllerStatus_def
        schema_k8sio_api_core_v1_ResourceQuota_def
        schema_k8sio_api_core_v1_ResourceQuotaList_def
        schema_k8sio_api_core_v1_ResourceQuotaSpec_def
        schema_k8sio_api_core_v1_ResourceQuotaStatus_def
        schema_k8sio_api_core_v1_ScopeSelector_def)

lemma openapi_core_ok_8:
  "definition_ok ref (schema_k8sio_api_core_v1_ScopedResourceSelectorRequirement ref)"
  "definition_ok ref (schema_k8sio_api_core_v1_Secret ref)"
  "definition_ok ref (schema_k8sio_api_core_v1_SecretList ref)"
  "definition_ok ref (schema_k8sio_api_core_v1_SerializedReference ref)"
  "definition_ok ref (schema_k8sio_api_core_v1_Service ref)"
  "definition_ok ref (schema_k8sio_api_core_v1_ServiceAccount ref)"
  "definition_ok ref (schema_k8sio_api_core_v1_ServiceAccountList ref)"
  "definition_ok ref (schema_k8sio_api_core_v1_ServiceList ref)"
  unfolding definition_ok_def
  by (simp_all add:
        schema_k8sio_api_core_v1_ScopedResourceSelectorRequirement_def
        schema_k8sio_api_core_v1_Secret_def
        schema_k8sio_api_core_v1_SecretList_def
        schema_k8sio_api_core_v1_SerializedReference_def
        schema_k8sio_api_core_v1_Service_def
        schema_k8sio_api_core_v1_ServiceAccount_def
        schema_k8sio_api_core_v1_ServiceAccountList_def
        schema_k8sio_api_core_v1_ServiceList_def)

lemma openapi_core_ok_9:
  "definition_ok ref (schema_k8sio_api_core_v1_ServicePort ref)"
  "definition_ok ref (schema_k8sio_api_core_v1_ServiceProxyOptions ref)"
  "definition_ok ref (schema_k8sio_api_core_v1_ServiceSpec ref)"
  "definition_ok ref (schema_k8sio_api_core_v1_ServiceStatus ref)"
  "definition_ok ref (schema_k8sio_api_core_v1_SessionAffinityConfig ref)"
  "definition_ok ref (schema_k8sio_api_core_v1_TopologySelectorLabelRequirement ref)"
  "definition_ok ref (schema_k8sio_api_core_v1_TopologySelectorTerm ref)"
  unfolding definition_ok_def
  by (simp_all add:
        schema_k8sio_api_core_v1_ServicePort_def
        schema_k8sio_api_core_v1_ServiceProxyOptions_def
        schema_k8sio_api_core_v1_ServiceSpec_def
        schema_k8sio_api_core_v1_ServiceStatus_def
        schema_k8sio_api_core_v1_SessionAffinityConfig_def
        schema_k8sio_api_core_v1_TopologySelectorLabelRequirement_def
        schema_k8sio_api_core_v1_TopologySelectorTerm_def)

lemmas openapi_core_ok =
  openapi_core_ok_1
  openapi_core_ok_2
  openapi_core_ok_3
  openapi_core_ok_4
  openapi_core_ok_5
  openapi_core_ok_6
  openapi_core_ok_7
  openapi_core_ok_8
  openapi_core_ok_9

end
