(* ===== verification/OpenAPI_Storage.thy ===== *)
theory OpenAPI_Storage
  imports OpenAPI
begin

text \<open>
  The definitions of \<open>zz_generated.openapi.go\<close> for persistent volumes, their claims and \<open>storage/v1\<close>, which the volume controller works on.
\<close>

definition schema_k8sio_api_core_v1_AzureFilePersistentVolumeSource :: "(string \<Rightarrow> 'r) \<Rightarrow> 'r openapi_definition" where
  "schema_k8sio_api_core_v1_AzureFilePersistentVolumeSource ref =
    \<lparr>defSchema = Schema [Description ''AzureFile represents an Azure File Service mount on the host and bind mount to the pod.'',
      Type [''object''],
      Properties [
      (''secretName'', Schema [Description ''the name of secret that contains Azure Storage Account Name and Key'',
          Default (JString ''''),
          Type [''string''],
          Format '''']),
      (''shareName'', Schema [Description ''Share Name'',
          Default (JString ''''),
          Type [''string''],
          Format '''']),
      (''readOnly'', Schema [Description ''Defaults to false (read/write). ReadOnly here will force the ReadOnly setting in VolumeMounts.'',
          Type [''boolean''],
          Format '''']),
      (''secretNamespace'', Schema [Description ''the namespace of the secret that contains Azure Storage Account Name and Key default is the same as the Pod'',
          Type [''string''],
          Format ''''])],
      Required [''secretName'', ''shareName'']],
     Dependencies = []\<rparr>"

definition schema_k8sio_api_core_v1_CSIPersistentVolumeSource :: "(string \<Rightarrow> 'r) \<Rightarrow> 'r openapi_definition" where
  "schema_k8sio_api_core_v1_CSIPersistentVolumeSource ref =
    \<lparr>defSchema = Schema [Description ''Represents storage that is managed by an external CSI volume driver (Beta feature)'',
      Type [''object''],
      Properties [
      (''driver'', Schema [Description ''Driver is the name of the driver to use for this volume. Required.'',
          Default (JString ''''),
          Type [''string''],
          Format '''']),
      (''volumeHandle'', Schema [Description (''VolumeHandle is the unique volume name returned by the CSI volume plugin'' @ [CHR 0xE2, CHR 0x80, CHR 0x99] @ ''s CreateVolume to refer to the volume on all subsequent calls. Required.''),
          Default (JString ''''),
          Type [''string''],
          Format '''']),
      (''readOnly'', Schema [Description ''Optional: The value to pass to ControllerPublishVolumeRequest. Defaults to false (read/write).'',
          Type [''boolean''],
          Format '''']),
      (''fsType'', Schema [Description ''Filesystem type to mount. Must be a filesystem type supported by the host operating system. Ex. \"ext4\", \"xfs\", \"ntfs\".'',
          Type [''string''],
          Format '''']),
      (''volumeAttributes'', Schema [Description ''Attributes of the volume to publish.'',
          Type [''object''],
          AdditionalProperties True (Schema [Default (JString ''''),
            Type [''string''],
            Format ''''])]),
      (''controllerPublishSecretRef'', Schema [Description ''ControllerPublishSecretRef is a reference to the secret object containing sensitive information to pass to the CSI driver to complete the CSI ControllerPublishVolume and ControllerUnpublishVolume calls. This field is optional, and may be empty if no secret is required. If the secret object contains more than one secret, all secrets are passed.'',
          Ref (ref ''k8s.io/api/core/v1.SecretReference'')]),
      (''nodeStageSecretRef'', Schema [Description ''NodeStageSecretRef is a reference to the secret object containing sensitive information to pass to the CSI driver to complete the CSI NodeStageVolume and NodeStageVolume and NodeUnstageVolume calls. This field is optional, and may be empty if no secret is required. If the secret object contains more than one secret, all secrets are passed.'',
          Ref (ref ''k8s.io/api/core/v1.SecretReference'')]),
      (''nodePublishSecretRef'', Schema [Description ''NodePublishSecretRef is a reference to the secret object containing sensitive information to pass to the CSI driver to complete the CSI NodePublishVolume and NodeUnpublishVolume calls. This field is optional, and may be empty if no secret is required. If the secret object contains more than one secret, all secrets are passed.'',
          Ref (ref ''k8s.io/api/core/v1.SecretReference'')]),
      (''controllerExpandSecretRef'', Schema [Description ''ControllerExpandSecretRef is a reference to the secret object containing sensitive information to pass to the CSI driver to complete the CSI ControllerExpandVolume call. This is an alpha field and requires enabling ExpandCSIVolumes feature gate. This field is optional, and may be empty if no secret is required. If the secret object contains more than one secret, all secrets are passed.'',
          Ref (ref ''k8s.io/api/core/v1.SecretReference'')])],
      Required [''driver'', ''volumeHandle'']],
     Dependencies = [''k8s.io/api/core/v1.SecretReference'']\<rparr>"

definition schema_k8sio_api_core_v1_CephFSPersistentVolumeSource :: "(string \<Rightarrow> 'r) \<Rightarrow> 'r openapi_definition" where
  "schema_k8sio_api_core_v1_CephFSPersistentVolumeSource ref =
    \<lparr>defSchema = Schema [Description ''Represents a Ceph Filesystem mount that lasts the lifetime of a pod Cephfs volumes do not support ownership management or SELinux relabeling.'',
      Type [''object''],
      Properties [
      (''monitors'', Schema [Description ''Required: Monitors is a collection of Ceph monitors More info: https://examples.k8s.io/volumes/cephfs/README.md#how-to-use-it'',
          Type [''array''],
          Items (Schema [Default (JString ''''),
            Type [''string''],
            Format ''''])]),
      (''path'', Schema [Description ''Optional: Used as the mounted root, rather than the full Ceph tree, default is /'',
          Type [''string''],
          Format '''']),
      (''user'', Schema [Description ''Optional: User is the rados user name, default is admin More info: https://examples.k8s.io/volumes/cephfs/README.md#how-to-use-it'',
          Type [''string''],
          Format '''']),
      (''secretFile'', Schema [Description ''Optional: SecretFile is the path to key ring for User, default is /etc/ceph/user.secret More info: https://examples.k8s.io/volumes/cephfs/README.md#how-to-use-it'',
          Type [''string''],
          Format '''']),
      (''secretRef'', Schema [Description ''Optional: SecretRef is reference to the authentication secret for User, default is empty. More info: https://examples.k8s.io/volumes/cephfs/README.md#how-to-use-it'',
          Ref (ref ''k8s.io/api/core/v1.SecretReference'')]),
      (''readOnly'', Schema [Description ''Optional: Defaults to false (read/write). ReadOnly here will force the ReadOnly setting in VolumeMounts. More info: https://examples.k8s.io/volumes/cephfs/README.md#how-to-use-it'',
          Type [''boolean''],
          Format ''''])],
      Required [''monitors'']],
     Dependencies = [''k8s.io/api/core/v1.SecretReference'']\<rparr>"

definition schema_k8sio_api_core_v1_CinderPersistentVolumeSource :: "(string \<Rightarrow> 'r) \<Rightarrow> 'r openapi_definition" where
  "schema_k8sio_api_core_v1_CinderPersistentVolumeSource ref =
    \<lparr>defSchema = Schema [Description ''Represents a cinder volume resource in Openstack. A Cinder volume must exist before mounting to a container. The volume must also be in the same region as the kubelet. Cinder volumes support ownership management and SELinux relabeling.'',
      Type [''object''],
      Properties [
      (''volumeID'', Schema [Description ''volume id used to identify the volume in cinder. More info: https://examples.k8s.io/mysql-cinder-pd/README.md'',
          Default (JString ''''),
          Type [''string''],
          Format '''']),
      (''fsType'', Schema [Description ''Filesystem type to mount. Must be a filesystem type supported by the host operating system. Examples: \"ext4\", \"xfs\", \"ntfs\". Implicitly inferred to be \"ext4\" if unspecified. More info: https://examples.k8s.io/mysql-cinder-pd/README.md'',
          Type [''string''],
          Format '''']),
      (''readOnly'', Schema [Description ''Optional: Defaults to false (read/write). ReadOnly here will force the ReadOnly setting in VolumeMounts. More info: https://examples.k8s.io/mysql-cinder-pd/README.md'',
          Type [''boolean''],
          Format '''']),
      (''secretRef'', Schema [Description ''Optional: points to a secret object containing parameters used to connect to OpenStack.'',
          Ref (ref ''k8s.io/api/core/v1.SecretReference'')])],
      Required [''volumeID'']],
     Dependencies = [''k8s.io/api/core/v1.SecretReference'']\<rparr>"

definition schema_k8sio_api_core_v1_FlexPersistentVolumeSource :: "(string \<Rightarrow> 'r) \<Rightarrow> 'r openapi_definition" where
  "schema_k8sio_api_core_v1_FlexPersistentVolumeSource ref =
    \<lparr>defSchema = Schema [Description ''FlexPersistentVolumeSource represents a generic persistent volume resource that is provisioned/attached using an exec based plugin.'',
      Type [''object''],
      Properties [
      (''driver'', Schema [Description ''Driver is the name of the driver to use for this volume.'',
          Default (JString ''''),
          Type [''string''],
          Format '''']),
      (''fsType'', Schema [Description ''Filesystem type to mount. Must be a filesystem type supported by the host operating system. Ex. \"ext4\", \"xfs\", \"ntfs\". The default filesystem depends on FlexVolume script.'',
          Type [''string''],
          Format '''']),
      (''secretRef'', Schema [Description ''Optional: SecretRef is reference to the secret object containing sensitive information to pass to the plugin scripts. This may be empty if no secret object is specified. If the secret object contains more than one secret, all secrets are passed to the plugin scripts.'',
          Ref (ref ''k8s.io/api/core/v1.SecretReference'')]),
      (''readOnly'', Schema [Description ''Optional: Defaults to false (read/write). ReadOnly here will force the ReadOnly setting in VolumeMounts.'',
          Type [''boolean''],
          Format '''']),
      (''options'', Schema [Description ''Optional: Extra command options if any.'',
          Type [''object''],
          AdditionalProperties True (Schema [Default (JString ''''),
            Type [''string''],
            Format ''''])])],
      Required [''driver'']],
     Dependencies = [''k8s.io/api/core/v1.SecretReference'']\<rparr>"

definition schema_k8sio_api_core_v1_GlusterfsPersistentVolumeSource :: "(string \<Rightarrow> 'r) \<Rightarrow> 'r openapi_definition" where
  "schema_k8sio_api_core_v1_GlusterfsPersistentVolumeSource ref =
    \<lparr>defSchema = Schema [Description ''Represents a Glusterfs mount that lasts the lifetime of a pod. Glusterfs volumes do not support ownership management or SELinux relabeling.'',
      Type [''object''],
      Properties [
      (''endpoints'', Schema [Description ''EndpointsName is the endpoint name that details Glusterfs topology. More info: https://examples.k8s.io/volumes/glusterfs/README.md#create-a-pod'',
          Default (JString ''''),
          Type [''string''],
          Format '''']),
      (''path'', Schema [Description ''Path is the Glusterfs volume path. More info: https://examples.k8s.io/volumes/glusterfs/README.md#create-a-pod'',
          Default (JString ''''),
          Type [''string''],
          Format '''']),
      (''readOnly'', Schema [Description ''ReadOnly here will force the Glusterfs volume to be mounted with read-only permissions. Defaults to false. More info: https://examples.k8s.io/volumes/glusterfs/README.md#create-a-pod'',
          Type [''boolean''],
          Format '''']),
      (''endpointsNamespace'', Schema [Description ''EndpointsNamespace is the namespace that contains Glusterfs endpoint. If this field is empty, the EndpointNamespace defaults to the same namespace as the bound PVC. More info: https://examples.k8s.io/volumes/glusterfs/README.md#create-a-pod'',
          Type [''string''],
          Format ''''])],
      Required [''endpoints'', ''path'']],
     Dependencies = []\<rparr>"

definition schema_k8sio_api_core_v1_ISCSIPersistentVolumeSource :: "(string \<Rightarrow> 'r) \<Rightarrow> 'r openapi_definition" where
  "schema_k8sio_api_core_v1_ISCSIPersistentVolumeSource ref =
    \<lparr>defSchema = Schema [Description ''ISCSIPersistentVolumeSource represents an ISCSI disk. ISCSI volumes can only be mounted as read/write once. ISCSI volumes support ownership management and SELinux relabeling.'',
      Type [''object''],
      Properties [
      (''targetPortal'', Schema [Description ''iSCSI Target Portal. The Portal is either an IP or ip_addr:port if the port is other than default (typically TCP ports 860 and 3260).'',
          Default (JString ''''),
          Type [''string''],
          Format '''']),
      (''iqn'', Schema [Description ''Target iSCSI Qualified Name.'',
          Default (JString ''''),
          Type [''string''],
          Format '''']),
      (''lun'', Schema [Description ''iSCSI Target Lun number.'',
          Default (JNumber 0),
          Type [''integer''],
          Format ''int32'']),
      (''iscsiInterface'', Schema [Description ''iSCSI Interface Name that uses an iSCSI transport. Defaults to 'default' (tcp).'',
          Type [''string''],
          Format '''']),
      (''fsType'', Schema [Description ''Filesystem type of the volume that you want to mount. Tip: Ensure that the filesystem type is supported by the host operating system. Examples: \"ext4\", \"xfs\", \"ntfs\". Implicitly inferred to be \"ext4\" if unspecified. More info: https://kubernetes.io/docs/concepts/storage/volumes#iscsi'',
          Type [''string''],
          Format '''']),
      (''readOnly'', Schema [Description ''ReadOnly here will force the ReadOnly setting in VolumeMounts. Defaults to false.'',
          Type [''boolean''],
          Format '''']),
      (''portals'', Schema [Description ''iSCSI Target Portal List. The Portal is either an IP or ip_addr:port if the port is other than default (typically TCP ports 860 and 3260).'',
          Type [''array''],
          Items (Schema [Default (JString ''''),
            Type [''string''],
            Format ''''])]),
      (''chapAuthDiscovery'', Schema [Description ''whether support iSCSI Discovery CHAP authentication'',
          Type [''boolean''],
          Format '''']),
      (''chapAuthSession'', Schema [Description ''whether support iSCSI Session CHAP authentication'',
          Type [''boolean''],
          Format '''']),
      (''secretRef'', Schema [Description ''CHAP Secret for iSCSI target and initiator authentication'',
          Ref (ref ''k8s.io/api/core/v1.SecretReference'')]),
      (''initiatorName'', Schema [Description ''Custom iSCSI Initiator Name. If initiatorName is specified with iscsiInterface simultaneously, new iSCSI interface <target portal>:<volume name> will be created for the connection.'',
          Type [''string''],
          Format ''''])],
      Required [''targetPortal'', ''iqn'', ''lun'']],
     Dependencies = [''k8s.io/api/core/v1.SecretReference'']\<rparr>"

definition schema_k8sio_api_core_v1_LocalVolumeSource :: "(string \<Rightarrow> 'r) \<Rightarrow> 'r openapi_definition" where
  "schema_k8sio_api_core_v1_LocalVolumeSource ref =
    \<lparr>defSchema = Schema [Description ''Local represents directly-attached storage with node affinity (Beta feature)'',
      Type [''object''],
      Properties [
      (''path'', Schema [Description ''The full path to the volume on the node. It can be either a directory or block device (disk, partition, ...).'',
          Default (JString ''''),
          Type [''string''],
          Format '''']),
      (''fsType'', Schema [Description ''Filesystem type to mount. It applies only when the Path is a block device. Must be a filesystem type supported by the host operating system. Ex. \"ext4\", \"xfs\", \"ntfs\". The default value is to auto-select a fileystem if unspecified.'',
          Type [''string''],
          Format ''''])],
      Required [''path'']],
     Dependencies = []\<rparr>"

definition schema_k8sio_api_core_v1_PersistentVolume :: "(string \<Rightarrow> 'r) \<Rightarrow> 'r openapi_definition" where
  "schema_k8sio_api_core_v1_PersistentVolume ref =
    \<lparr>defSchema = Schema [Description ''PersistentVolume (PV) is a storage resource provisioned by an administrator. It is analogous to a node. More info: https://kubernetes.io/docs/concepts/storage/persistent-volumes'',
      Type [''object''],
      Properties [
      (''kind'', Schema [Description ''Kind is a string value representing the REST resource this object represents. Servers may infer this from the endpoint the client submits requests to. Cannot be updated. In CamelCase. More info: https://git.k8s.io/community/contributors/devel/sig-architecture/api-conventions.md#types-kinds'',
          Type [''string''],
          Format '''']),
      (''apiVersion'', Schema [Description ''APIVersion defines the versioned schema of this representation of an object. Servers should convert recognized schemas to the latest internal value, and may reject unrecognized values. More info: https://git.k8s.io/community/contributors/devel/sig-architecture/api-conventions.md#resources'',
          Type [''string''],
          Format '''']),
      (''metadata'', Schema [Description ''Standard object's metadata. More info: https://git.k8s.io/community/contributors/devel/sig-architecture/api-conventions.md#metadata'',
          Default (JObject []),
          Ref (ref ''k8s.io/apimachinery/pkg/apis/meta/v1.ObjectMeta'')]),
      (''spec'', Schema [Description ''Spec defines a specification of a persistent volume owned by the cluster. Provisioned by an administrator. More info: https://kubernetes.io/docs/concepts/storage/persistent-volumes#persistent-volumes'',
          Default (JObject []),
          Ref (ref ''k8s.io/api/core/v1.PersistentVolumeSpec'')]),
      (''status'', Schema [Description ''Status represents the current information/status for the persistent volume. Populated by the system. Read-only. More info: https://kubernetes.io/docs/concepts/storage/persistent-volumes#persistent-volumes'',
          Default (JObject []),
          Ref (ref ''k8s.io/api/core/v1.PersistentVolumeStatus'')])]],
     Dependencies = [''k8s.io/api/core/v1.PersistentVolumeSpec'',
     ''k8s.io/api/core/v1.PersistentVolumeStatus'',
     ''k8s.io/apimachinery/pkg/apis/meta/v1.ObjectMeta'']\<rparr>"

definition schema_k8sio_api_core_v1_PersistentVolumeClaim :: "(string \<Rightarrow> 'r) \<Rightarrow> 'r openapi_definition" where
  "schema_k8sio_api_core_v1_PersistentVolumeClaim ref =
    \<lparr>defSchema = Schema [Description ''PersistentVolumeClaim is a user's request for and claim to a persistent volume'',
      Type [''object''],
      Properties [
      (''kind'', Schema [Description ''Kind is a string value representing the REST resource this object represents. Servers may infer this from the endpoint the client submits requests to. Cannot be updated. In CamelCase. More info: https://git.k8s.io/community/contributors/devel/sig-architecture/api-conventions.md#types-kinds'',
          Type [''string''],
          Format '''']),
      (''apiVersion'', Schema [Description ''APIVersion defines the versioned schema of this representation of an object. Servers should convert recognized schemas to the latest internal value, and may reject unrecognized values. More info: https://git.k8s.io/community/contributors/devel/sig-architecture/api-conventions.md#resources'',
          Type [''string''],
          Format '''']),
      (''metadata'', Schema [Description ''Standard object's metadata. More info: https://git.k8s.io/community/contributors/devel/sig-architecture/api-conventions.md#metadata'',
          Default (JObject []),
          Ref (ref ''k8s.io/apimachinery/pkg/apis/meta/v1.ObjectMeta'')]),
      (''spec'', Schema [Description ''Spec defines the desired characteristics of a volume requested by a pod author. More info: https://kubernetes.io/docs/concepts/storage/persistent-volumes#persistentvolumeclaims'',
          Default (JObject []),
          Ref (ref ''k8s.io/api/core/v1.PersistentVolumeClaimSpec'')]),
      (''status'', Schema [Description ''Status represents the current information/status of a persistent volume claim. Read-only. More info: https://kubernetes.io/docs/concepts/storage/persistent-volumes#persistentvolumeclaims'',
          Default (JObject []),
          Ref (ref ''k8s.io/api/core/v1.PersistentVolumeClaimStatus'')])]],
     Dependencies = [''k8s.io/api/core/v1.PersistentVolumeClaimSpec'',
     ''k8s.io/api/core/v1.PersistentVolumeClaimStatus'',
     ''k8s.io/apimachinery/pkg/apis/meta/v1.ObjectMeta'']\<rparr>"

definition schema_k8sio_api_core_v1_PersistentVolumeClaimCondition :: "(string \<Rightarrow> 'r) \<Rightarrow> 'r openapi_definition" where
  "schema_k8sio_api_core_v1_PersistentVolumeClaimCondition ref =
    \<lparr>defSchema = Schema [Description ''PersistentVolumeClaimCondition contails details about state of pvc'',
      Type [''object''],
      Properties [
      (''type'', Schema [Default (JString ''''),
          Type [''string''],
          Format '''']),
      (''status'', Schema [Default (JString ''''),
          Type [''string''],
          Format '''']),
      (''lastProbeTime'', Schema [Description ''Last time we probed the condition.'',
          Default (JObject []),
          Ref (ref ''k8s.io/apimachinery/pkg/apis/meta/v1.Time'')]),
      (''lastTransitionTime'', Schema [Description ''Last time the condition transitioned from one status to another.'',
          Default (JObject []),
          Ref (ref ''k8s.io/apimachinery/pkg/apis/meta/v1.Time'')]),
      (''reason'', Schema [Description ''Unique, this should be a short, machine understandable string that gives the reason for condition's last transition. If it reports \"ResizeStarted\" that means the underlying persistent volume is being resized.'',
          Type [''string''],
          Format '''']),
      (''message'', Schema [Description ''Human-readable message indicating details about last transition.'',
          Type [''string''],
          Format ''''])],
      Required [''type'', ''status'']],
     Dependencies = [''k8s.io/apimachinery/pkg/apis/meta/v1.Time'']\<rparr>"

definition schema_k8sio_api_core_v1_PersistentVolumeClaimList :: "(string \<Rightarrow> 'r) \<Rightarrow> 'r openapi_definition" where
  "schema_k8sio_api_core_v1_PersistentVolumeClaimList ref =
    \<lparr>defSchema = Schema [Description ''PersistentVolumeClaimList is a list of PersistentVolumeClaim items.'',
      Type [''object''],
      Properties [
      (''kind'', Schema [Description ''Kind is a string value representing the REST resource this object represents. Servers may infer this from the endpoint the client submits requests to. Cannot be updated. In CamelCase. More info: https://git.k8s.io/community/contributors/devel/sig-architecture/api-conventions.md#types-kinds'',
          Type [''string''],
          Format '''']),
      (''apiVersion'', Schema [Description ''APIVersion defines the versioned schema of this representation of an object. Servers should convert recognized schemas to the latest internal value, and may reject unrecognized values. More info: https://git.k8s.io/community/contributors/devel/sig-architecture/api-conventions.md#resources'',
          Type [''string''],
          Format '''']),
      (''metadata'', Schema [Description ''Standard list metadata. More info: https://git.k8s.io/community/contributors/devel/sig-architecture/api-conventions.md#types-kinds'',
          Default (JObject []),
          Ref (ref ''k8s.io/apimachinery/pkg/apis/meta/v1.ListMeta'')]),
      (''items'', Schema [Description ''A list of persistent volume claims. More info: https://kubernetes.io/docs/concepts/storage/persistent-volumes#persistentvolumeclaims'',
          Type [''array''],
          Items (Schema [Default (JObject []),
            Ref (ref ''k8s.io/api/core/v1.PersistentVolumeClaim'')])])],
      Required [''items'']],
     Dependencies = [''k8s.io/api/core/v1.PersistentVolumeClaim'',
     ''k8s.io/apimachinery/pkg/apis/meta/v1.ListMeta'']\<rparr>"

definition schema_k8sio_api_core_v1_PersistentVolumeClaimStatus :: "(string \<Rightarrow> 'r) \<Rightarrow> 'r openapi_definition" where
  "schema_k8sio_api_core_v1_PersistentVolumeClaimStatus ref =
    \<lparr>defSchema = Schema [Description ''PersistentVolumeClaimStatus is the current status of a persistent volume claim.'',
      Type [''object''],
      Properties [
      (''phase'', Schema [Description ''Phase represents the current phase of PersistentVolumeClaim.'',
          Type [''string''],
          Format '''']),
      (''accessModes'', Schema [Description ''AccessModes contains the actual access modes the volume backing the PVC has. More info: https://kubernetes.io/docs/concepts/storage/persistent-volumes#access-modes-1'',
          Type [''array''],
          Items (Schema [Default (JString ''''),
            Type [''string''],
            Format ''''])]),
      (''capacity'', Schema [Description ''Represents the actual resources of the underlying volume.'',
          Type [''object''],
          AdditionalProperties True (Schema [Default (JObject []),
            Ref (ref ''k8s.io/apimachinery/pkg/api/resource.Quantity'')])]),
      (''conditions'', Schema [Extensions [(''x-kubernetes-patch-merge-key'', JString ''type''), (''x-kubernetes-patch-strategy'', JString ''merge'')],
          Description ''Current Condition of persistent volume claim. If underlying persistent volume is being resized then the Condition will be set to 'ResizeStarted'.'',
          Type [''array''],
          Items (Schema [Default (JObject []),
            Ref (ref ''k8s.io/api/core/v1.PersistentVolumeClaimCondition'')])])]],
     Dependencies = [''k8s.io/api/core/v1.PersistentVolumeClaimCondition'',
     ''k8s.io/apimachinery/pkg/api/resource.Quantity'']\<rparr>"

definition schema_k8sio_api_core_v1_PersistentVolumeList :: "(string \<Rightarrow> 'r) \<Rightarrow> 'r openapi_definition" where
  "schema_k8sio_api_core_v1_PersistentVolumeList ref =
    \<lparr>defSchema = Schema [Description ''PersistentVolumeList is a list of PersistentVolume items.'',
      Type [''object''],
      Properties [
      (''kind'', Schema [Description ''Kind is a string value representing the REST resource this object represents. Servers may infer this from the endpoint the client submits requests to. Cannot be updated. In CamelCase. More info: https://git.k8s.io/community/contributors/devel/sig-architecture/api-conventions.md#types-kinds'',
          Type [''string''],
          Format '''']),
      (''apiVersion'', Schema [Description ''APIVersion defines the versioned schema of this representation of an object. Servers should convert recognized schemas to the latest internal value, and may reject unrecognized values. More info: https://git.k8s.io/community/contributors/devel/sig-architecture/api-conventions.md#resources'',
          Type [''string''],
          Format '''']),
      (''metadata'', Schema [Description ''Standard list metadata. More info: https://git.k8s.io/community/contributors/devel/sig-architecture/api-conventions.md#types-kinds'',
          Default (JObject []),
          Ref (ref ''k8s.io/apimachinery/pkg/apis/meta/v1.ListMeta'')]),
      (''items'', Schema [Description ''List of persistent volumes. More info: https://kubernetes.io/docs/concepts/storage/persistent-volumes'',
          Type [''array''],
          Items (Schema [Default (JObject []),
            Ref (ref ''k8s.io/api/core/v1.PersistentVolume'')])])],
      Required [''items'']],
     Dependencies = [''k8s.io/api/core/v1.PersistentVolume'',
     ''k8s.io/apimachinery/pkg/apis/meta/v1.ListMeta'']\<rparr>"

definition schema_k8sio_api_core_v1_PersistentVolumeSource :: "(string \<Rightarrow> 'r) \<Rightarrow> 'r openapi_definition" where
  "schema_k8sio_api_core_v1_PersistentVolumeSource ref =
    \<lparr>defSchema = Schema [Description ''PersistentVolumeSource is similar to VolumeSource but meant for the administrator who creates PVs. Exactly one of its members must be set.'',
      Type [''object''],
      Properties [
      (''gcePersistentDisk'', Schema [Description ''GCEPersistentDisk represents a GCE Disk resource that is attached to a kubelet's host machine and then exposed to the pod. Provisioned by an admin. More info: https://kubernetes.io/docs/concepts/storage/volumes#gcepersistentdisk'',
          Ref (ref ''k8s.io/api/core/v1.GCEPersistentDiskVolumeSource'')]),
      (''awsElasticBlockStore'', Schema [Description ''AWSElasticBlockStore represents an AWS Disk resource that is attached to a kubelet's host machine and then exposed to the pod. More info: https://kubernetes.io/docs/concepts/storage/volumes#awselasticblockstore'',
          Ref (ref ''k8s.io/api/core/v1.AWSElasticBlockStoreVolumeSource'')]),
      (''hostPath'', Schema [Description ''HostPath represents a directory on the host. Provisioned by a developer or tester. This is useful for single-node development and testing only! On-host storage is not supported in any way and WILL NOT WORK in a multi-node cluster. More info: https://kubernetes.io/docs/concepts/storage/volumes#hostpath'',
          Ref (ref ''k8s.io/api/core/v1.HostPathVolumeSource'')]),
      (''glusterfs'', Schema [Description ''Glusterfs represents a Glusterfs volume that is attached to a host and exposed to the pod. Provisioned by an admin. More info: https://examples.k8s.io/volumes/glusterfs/README.md'',
          Ref (ref ''k8s.io/api/core/v1.GlusterfsPersistentVolumeSource'')]),
      (''nfs'', Schema [Description ''NFS represents an NFS mount on the host. Provisioned by an admin. More info: https://kubernetes.io/docs/concepts/storage/volumes#nfs'',
          Ref (ref ''k8s.io/api/core/v1.NFSVolumeSource'')]),
      (''rbd'', Schema [Description ''RBD represents a Rados Block Device mount on the host that shares a pod's lifetime. More info: https://examples.k8s.io/volumes/rbd/README.md'',
          Ref (ref ''k8s.io/api/core/v1.RBDPersistentVolumeSource'')]),
      (''iscsi'', Schema [Description ''ISCSI represents an ISCSI Disk resource that is attached to a kubelet's host machine and then exposed to the pod. Provisioned by an admin.'',
          Ref (ref ''k8s.io/api/core/v1.ISCSIPersistentVolumeSource'')]),
      (''cinder'', Schema [Description ''Cinder represents a cinder volume attached and mounted on kubelets host machine. More info: https://examples.k8s.io/mysql-cinder-pd/README.md'',
          Ref (ref ''k8s.io/api/core/v1.CinderPersistentVolumeSource'')]),
      (''cephfs'', Schema [Description ''CephFS represents a Ceph FS mount on the host that shares a pod's lifetime'',
          Ref (ref ''k8s.io/api/core/v1.CephFSPersistentVolumeSource'')]),
      (''fc'', Schema [Description ''FC represents a Fibre Channel resource that is attached to a kubelet's host machine and then exposed to the pod.'',
          Ref (ref ''k8s.io/api/core/v1.FCVolumeSource'')]),
      (''flocker'', Schema [Description ''Flocker represents a Flocker volume attached to a kubelet's host machine and exposed to the pod for its usage. This depends on the Flocker control service being running'',
          Ref (ref ''k8s.io/api/core/v1.FlockerVolumeSource'')]),
      (''flexVolume'', Schema [Description ''FlexVolume represents a generic volume resource that is provisioned/attached using an exec based plugin.'',
          Ref (ref ''k8s.io/api/core/v1.FlexPersistentVolumeSource'')]),
      (''azureFile'', Schema [Description ''AzureFile represents an Azure File Service mount on the host and bind mount to the pod.'',
          Ref (ref ''k8s.io/api/core/v1.AzureFilePersistentVolumeSource'')]),
      (''vsphereVolume'', Schema [Description ''VsphereVolume represents a vSphere volume attached and mounted on kubelets host machine'',
          Ref (ref ''k8s.io/api/core/v1.VsphereVirtualDiskVolumeSource'')]),
      (''quobyte'', Schema [Description ''Quobyte represents a Quobyte mount on the host that shares a pod's lifetime'',
          Ref (ref ''k8s.io/api/core/v1.QuobyteVolumeSource'')]),
      (''azureDisk'', Schema [Description ''AzureDisk represents an Azure Data Disk mount on the host and bind mount to the pod.'',
          Ref (ref ''k8s.io/api/core/v1.AzureDiskVolumeSource'')]),
      (''photonPersistentDisk'', Schema [Description ''PhotonPersistentDisk represents a PhotonController persistent disk attached and mounted on kubelets host machine'',
          Ref (ref ''k8s.io/api/core/v1.PhotonPersistentDiskVolumeSource'')]),
      (''portworxVolume'', Schema [Description ''PortworxVolume represents a portworx volume attached and mounted on kubelets host machine'',
          Ref (ref ''k8s.io/api/core/v1.PortworxVolumeSource'')]),
      (''scaleIO'', Schema [Description ''ScaleIO represents a ScaleIO persistent volume attached and mounted on Kubernetes nodes.'',
          Ref (ref ''k8s.io/api/core/v1.ScaleIOPersistentVolumeSource'')]),
      (''local'', Schema [Description ''Local represents directly-attached storage with node affinity'',
          Ref (ref ''k8s.io/api/core/v1.LocalVolumeSource'')]),
      (''storageos'', Schema [Description ''StorageOS represents a StorageOS volume that is attached to the kubelet's host machine and mounted into the pod More info: https://examples.k8s.io/volumes/storageos/README.md'',
          Ref (ref ''k8s.io/api/core/v1.StorageOSPersistentVolumeSource'')]),
      (''csi'', Schema [Description ''CSI represents storage that is handled by an external CSI driver (Beta feature).'',
          Ref (ref ''k8s.io/api/core/v1.CSIPersistentVolumeSource'')])]],
     Dependencies = [''k8s.io/api/core/v1.AWSElasticBlockStoreVolumeSource'',
     ''k8s.io/api/core/v1.AzureDiskVolumeSource'',
     ''k8s.io/api/core/v1.AzureFilePersistentVolumeSource'',
     ''k8s.io/api/core/v1.CSIPersistentVolumeSource'',
     ''k8s.io/api/core/v1.CephFSPersistentVolumeSource'',
     ''k8s.io/api/core/v1.CinderPersistentVolumeSource'',
     ''k8s.io/api/core/v1.FCVolumeSource'',
     ''k8s.io/api/core/v1.FlexPersistentVolumeSource'',
     ''k8s.io/api/core/v1.FlockerVolumeSource'',
     ''k8s.io/api/core/v1.GCEPersistentDiskVolumeSource'',
     ''k8s.io/api/core/v1.GlusterfsPersistentVolumeSource'',
     ''k8s.io/api/core/v1.HostPathVolumeSource'',
     ''k8s.io/api/core/v1.ISCSIPersistentVolumeSource'',
     ''k8s.io/api/core/v1.LocalVolumeSource'',
     ''k8s.io/api/core/v1.NFSVolumeSource'',
     ''k8s.io/api/core/v1.PhotonPersistentDiskVolumeSource'',
     ''k8s.io/api/core/v1.PortworxVolumeSource'',
     ''k8s.io/api/core/v1.QuobyteVolumeSource'',
     ''k8s.io/api/core/v1.RBDPersistentVolumeSource'',
     ''k8s.io/api/core/v1.ScaleIOPersistentVolumeSource'',
     ''k8s.io/api/core/v1.StorageOSPersistentVolumeSource'',
     ''k8s.io/api/core/v1.VsphereVirtualDiskVolumeSource'']\<rparr>"

definition schema_k8sio_api_core_v1_PersistentVolumeSpec :: "(string \<Rightarrow> 'r) \<Rightarrow> 'r openapi_definition" where
  "schema_k8sio_api_core_v1_PersistentVolumeSpec ref =
    \<lparr>defSchema = Schema [Description ''PersistentVolumeSpec is the specification of a persistent volume.'',
      Type [''object''],
      Properties [
      (''capacity'', Schema [Description ''A description of the persistent volume's resources and capacity. More info: https://kubernetes.io/docs/concepts/storage/persistent-volumes#capacity'',
          Type [''object''],
          AdditionalProperties True (Schema [Default (JObject []),
            Ref (ref ''k8s.io/apimachinery/pkg/api/resource.Quantity'')])]),
      (''gcePersistentDisk'', Schema [Description ''GCEPersistentDisk represents a GCE Disk resource that is attached to a kubelet's host machine and then exposed to the pod. Provisioned by an admin. More info: https://kubernetes.io/docs/concepts/storage/volumes#gcepersistentdisk'',
          Ref (ref ''k8s.io/api/core/v1.GCEPersistentDiskVolumeSource'')]),
      (''awsElasticBlockStore'', Schema [Description ''AWSElasticBlockStore represents an AWS Disk resource that is attached to a kubelet's host machine and then exposed to the pod. More info: https://kubernetes.io/docs/concepts/storage/volumes#awselasticblockstore'',
          Ref (ref ''k8s.io/api/core/v1.AWSElasticBlockStoreVolumeSource'')]),
      (''hostPath'', Schema [Description ''HostPath represents a directory on the host. Provisioned by a developer or tester. This is useful for single-node development and testing only! On-host storage is not supported in any way and WILL NOT WORK in a multi-node cluster. More info: https://kubernetes.io/docs/concepts/storage/volumes#hostpath'',
          Ref (ref ''k8s.io/api/core/v1.HostPathVolumeSource'')]),
      (''glusterfs'', Schema [Description ''Glusterfs represents a Glusterfs volume that is attached to a host and exposed to the pod. Provisioned by an admin. More info: https://examples.k8s.io/volumes/glusterfs/README.md'',
          Ref (ref ''k8s.io/api/core/v1.GlusterfsPersistentVolumeSource'')]),
      (''nfs'', Schema [Description ''NFS represents an NFS mount on the host. Provisioned by an admin. More info: https://kubernetes.io/docs/concepts/storage/volumes#nfs'',
          Ref (ref ''k8s.io/api/core/v1.NFSVolumeSource'')]),
      (''rbd'', Schema [Description ''RBD represents a Rados Block Device mount on the host that shares a pod's lifetime. More info: https://examples.k8s.io/volumes/rbd/README.md'',
          Ref (ref ''k8s.io/api/core/v1.RBDPersistentVolumeSource'')]),
      (''iscsi'', Schema [Description ''ISCSI represents an ISCSI Disk resource that is attached to a kubelet's host machine and then exposed to the pod. Provisioned by an admin.'',
          Ref (ref ''k8s.io/api/core/v1.ISCSIPersistentVolumeSource'')]),
      (''cinder'', Schema [Description ''Cinder represents a cinder volume attached and mounted on kubelets host machine. More info: https://examples.k8s.io/mysql-cinder-pd/README.md'',
          Ref (ref ''k8s.io/api/core/v1.CinderPersistentVolumeSource'')]),
      (''cephfs'', Schema [Description ''CephFS represents a Ceph FS mount on the host that shares a pod's lifetime'',
          Ref (ref ''k8s.io/api/core/v1.CephFSPersistentVolumeSource'')]),
      (''fc'', Schema [Description ''FC represents a Fibre Channel resource that is attached to a kubelet's host machine and then exposed to the pod.'',
          Ref (ref ''k8s.io/api/core/v1.FCVolumeSource'')]),
      (''flocker'', Schema [Description ''Flocker represents a Flocker volume attached to a kubelet's host machine and exposed to the pod for its usage. This depends on the Flocker control service being running'',
          Ref (ref ''k8s.io/api/core/v1.FlockerVolumeSource'')]),
      (''flexVolume'', Schema [Description ''FlexVolume represents a generic volume resource that is provisioned/attached using an exec based plugin.'',
          Ref (ref ''k8s.io/api/core/v1.FlexPersistentVolumeSource'')]),
      (''azureFile'', Schema [Description ''AzureFile represents an Azure File Service mount on the host and bind mount to the pod.'',
          Ref (ref ''k8s.io/api/core/v1.AzureFilePersistentVolumeSource'')]),
      (''vsphereVolume'', Schema [Description ''VsphereVolume represents a vSphere volume attached and mounted on kubelets host machine'',
          Ref (ref ''k8s.io/api/core/v1.VsphereVirtualDiskVolumeSource'')]),
      (''quobyte'', Schema [Description ''Quobyte represents a Quobyte mount on the host that shares a pod's lifetime'',
          Ref (ref ''k8s.io/api/core/v1.QuobyteVolumeSource'')]),
      (''azureDisk'', Schema [Description ''AzureDisk represents an Azure Data Disk mount on the host and bind mount to the pod.'',
          Ref (ref ''k8s.io/api/core/v1.AzureDiskVolumeSource'')]),
      (''photonPersistentDisk'', Schema [Description ''PhotonPersistentDisk represents a PhotonController persistent disk attached and mounted on kubelets host machine'',
          Ref (ref ''k8s.io/api/core/v1.PhotonPersistentDiskVolumeSource'')]),
      (''portworxVolume'', Schema [Description ''PortworxVolume represents a portworx volume attached and mounted on kubelets host machine'',
          Ref (ref ''k8s.io/api/core/v1.PortworxVolumeSource'')]),
      (''scaleIO'', Schema [Description ''ScaleIO represents a ScaleIO persistent volume attached and mounted on Kubernetes nodes.'',
          Ref (ref ''k8s.io/api/core/v1.ScaleIOPersistentVolumeSource'')]),
      (''local'', Schema [Description ''Local represents directly-attached storage with node affinity'',
          Ref (ref ''k8s.io/api/core/v1.LocalVolumeSource'')]),
      (''storageos'', Schema [Description ''StorageOS represents a StorageOS volume that is attached to the kubelet's host machine and mounted into the pod More info: https://examples.k8s.io/volumes/storageos/README.md'',
          Ref (ref ''k8s.io/api/core/v1.StorageOSPersistentVolumeSource'')]),
      (''csi'', Schema [Description ''CSI represents storage that is handled by an external CSI driver (Beta feature).'',
          Ref (ref ''k8s.io/api/core/v1.CSIPersistentVolumeSource'')]),
      (''accessModes'', Schema [Description ''AccessModes contains all ways the volume can be mounted. More info: https://kubernetes.io/docs/concepts/storage/persistent-volumes#access-modes'',
          Type [''array''],
          Items (Schema [Default (JString ''''),
            Type [''string''],
            Format ''''])]),
      (''claimRef'', Schema [Description ''ClaimRef is part of a bi-directional binding between PersistentVolume and PersistentVolumeClaim. Expected to be non-nil when bound. claim.VolumeName is the authoritative bind between PV and PVC. More info: https://kubernetes.io/docs/concepts/storage/persistent-volumes#binding'',
          Ref (ref ''k8s.io/api/core/v1.ObjectReference'')]),
      (''persistentVolumeReclaimPolicy'', Schema [Description ''What happens to a persistent volume when released from its claim. Valid options are Retain (default for manually created PersistentVolumes), Delete (default for dynamically provisioned PersistentVolumes), and Recycle (deprecated). Recycle must be supported by the volume plugin underlying this PersistentVolume. More info: https://kubernetes.io/docs/concepts/storage/persistent-volumes#reclaiming'',
          Type [''string''],
          Format '''']),
      (''storageClassName'', Schema [Description ''Name of StorageClass to which this persistent volume belongs. Empty value means that this volume does not belong to any StorageClass.'',
          Type [''string''],
          Format '''']),
      (''mountOptions'', Schema [Description ''A list of mount options, e.g. [\"ro\", \"soft\"]. Not validated - mount will simply fail if one is invalid. More info: https://kubernetes.io/docs/concepts/storage/persistent-volumes/#mount-options'',
          Type [''array''],
          Items (Schema [Default (JString ''''),
            Type [''string''],
            Format ''''])]),
      (''volumeMode'', Schema [Description ''volumeMode defines if a volume is intended to be used with a formatted filesystem or to remain in raw block state. Value of Filesystem is implied when not included in spec.'',
          Type [''string''],
          Format '''']),
      (''nodeAffinity'', Schema [Description ''NodeAffinity defines constraints that limit what nodes this volume can be accessed from. This field influences the scheduling of pods that use this volume.'',
          Ref (ref ''k8s.io/api/core/v1.VolumeNodeAffinity'')])]],
     Dependencies = [''k8s.io/api/core/v1.AWSElasticBlockStoreVolumeSource'',
     ''k8s.io/api/core/v1.AzureDiskVolumeSource'',
     ''k8s.io/api/core/v1.AzureFilePersistentVolumeSource'',
     ''k8s.io/api/core/v1.CSIPersistentVolumeSource'',
     ''k8s.io/api/core/v1.CephFSPersistentVolumeSource'',
     ''k8s.io/api/core/v1.CinderPersistentVolumeSource'',
     ''k8s.io/api/core/v1.FCVolumeSource'',
     ''k8s.io/api/core/v1.FlexPersistentVolumeSource'',
     ''k8s.io/api/core/v1.FlockerVolumeSource'',
     ''k8s.io/api/core/v1.GCEPersistentDiskVolumeSource'',
     ''k8s.io/api/core/v1.GlusterfsPersistentVolumeSource'',
     ''k8s.io/api/core/v1.HostPathVolumeSource'',
     ''k8s.io/api/core/v1.ISCSIPersistentVolumeSource'',
     ''k8s.io/api/core/v1.LocalVolumeSource'',
     ''k8s.io/api/core/v1.NFSVolumeSource'',
     ''k8s.io/api/core/v1.ObjectReference'',
     ''k8s.io/api/core/v1.PhotonPersistentDiskVolumeSource'',
     ''k8s.io/api/core/v1.PortworxVolumeSource'',
     ''k8s.io/api/core/v1.QuobyteVolumeSource'',
     ''k8s.io/api/core/v1.RBDPersistentVolumeSource'',
     ''k8s.io/api/core/v1.ScaleIOPersistentVolumeSource'',
     ''k8s.io/api/core/v1.StorageOSPersistentVolumeSource'',
     ''k8s.io/api/core/v1.VolumeNodeAffinity'',
     ''k8s.io/api/core/v1.VsphereVirtualDiskVolumeSource'',
     ''k8s.io/apimachinery/pkg/api/resource.Quantity'']\<rparr>"

definition schema_k8sio_api_core_v1_PersistentVolumeStatus :: "(string \<Rightarrow> 'r) \<Rightarrow> 'r openapi_definition" where
  "schema_k8sio_api_core_v1_PersistentVolumeStatus ref =
    \<lparr>defSchema = Schema [Description ''PersistentVolumeStatus is the current status of a persistent volume.'',
      Type [''object''],
      Properties [
      (''phase'', Schema [Description ''Phase indicates if a volume is available, bound to a claim, or released by a claim. More info: https://kubernetes.io/docs/concepts/storage/persistent-volumes#phase'',
          Type [''string''],
          Format '''']),
      (''message'', Schema [Description ''A human-readable message indicating details about why the volume is in this state.'',
          Type [''string''],
          Format '''']),
      (''reason'', Schema [Description ''Reason is a brief CamelCase string that describes any failure and is meant for machine parsing and tidy display in the CLI.'',
          Type [''string''],
          Format ''''])]],
     Dependencies = []\<rparr>"

definition schema_k8sio_api_core_v1_RBDPersistentVolumeSource :: "(string \<Rightarrow> 'r) \<Rightarrow> 'r openapi_definition" where
  "schema_k8sio_api_core_v1_RBDPersistentVolumeSource ref =
    \<lparr>defSchema = Schema [Description ''Represents a Rados Block Device mount that lasts the lifetime of a pod. RBD volumes support ownership management and SELinux relabeling.'',
      Type [''object''],
      Properties [
      (''monitors'', Schema [Description ''A collection of Ceph monitors. More info: https://examples.k8s.io/volumes/rbd/README.md#how-to-use-it'',
          Type [''array''],
          Items (Schema [Default (JString ''''),
            Type [''string''],
            Format ''''])]),
      (''image'', Schema [Description ''The rados image name. More info: https://examples.k8s.io/volumes/rbd/README.md#how-to-use-it'',
          Default (JString ''''),
          Type [''string''],
          Format '''']),
      (''fsType'', Schema [Description ''Filesystem type of the volume that you want to mount. Tip: Ensure that the filesystem type is supported by the host operating system. Examples: \"ext4\", \"xfs\", \"ntfs\". Implicitly inferred to be \"ext4\" if unspecified. More info: https://kubernetes.io/docs/concepts/storage/volumes#rbd'',
          Type [''string''],
          Format '''']),
      (''pool'', Schema [Description ''The rados pool name. Default is rbd. More info: https://examples.k8s.io/volumes/rbd/README.md#how-to-use-it'',
          Type [''string''],
          Format '''']),
      (''user'', Schema [Description ''The rados user name. Default is admin. More info: https://examples.k8s.io/volumes/rbd/README.md#how-to-use-it'',
          Type [''string''],
          Format '''']),
      (''keyring'', Schema [Description ''Keyring is the path to key ring for RBDUser. Default is /etc/ceph/keyring. More info: https://examples.k8s.io/volumes/rbd/README.md#how-to-use-it'',
          Type [''string''],
          Format '''']),
      (''secretRef'', Schema [Description ''SecretRef is name of the authentication secret for RBDUser. If provided overrides keyring. Default is nil. More info: https://examples.k8s.io/volumes/rbd/README.md#how-to-use-it'',
          Ref (ref ''k8s.io/api/core/v1.SecretReference'')]),
      (''readOnly'', Schema [Description ''ReadOnly here will force the ReadOnly setting in VolumeMounts. Defaults to false. More info: https://examples.k8s.io/volumes/rbd/README.md#how-to-use-it'',
          Type [''boolean''],
          Format ''''])],
      Required [''monitors'', ''image'']],
     Dependencies = [''k8s.io/api/core/v1.SecretReference'']\<rparr>"

definition schema_k8sio_api_core_v1_ScaleIOPersistentVolumeSource :: "(string \<Rightarrow> 'r) \<Rightarrow> 'r openapi_definition" where
  "schema_k8sio_api_core_v1_ScaleIOPersistentVolumeSource ref =
    \<lparr>defSchema = Schema [Description ''ScaleIOPersistentVolumeSource represents a persistent ScaleIO volume'',
      Type [''object''],
      Properties [
      (''gateway'', Schema [Description ''The host address of the ScaleIO API Gateway.'',
          Default (JString ''''),
          Type [''string''],
          Format '''']),
      (''system'', Schema [Description ''The name of the storage system as configured in ScaleIO.'',
          Default (JString ''''),
          Type [''string''],
          Format '''']),
      (''secretRef'', Schema [Description ''SecretRef references to the secret for ScaleIO user and other sensitive information. If this is not provided, Login operation will fail.'',
          Ref (ref ''k8s.io/api/core/v1.SecretReference'')]),
      (''sslEnabled'', Schema [Description ''Flag to enable/disable SSL communication with Gateway, default false'',
          Type [''boolean''],
          Format '''']),
      (''protectionDomain'', Schema [Description ''The name of the ScaleIO Protection Domain for the configured storage.'',
          Type [''string''],
          Format '''']),
      (''storagePool'', Schema [Description ''The ScaleIO Storage Pool associated with the protection domain.'',
          Type [''string''],
          Format '''']),
      (''storageMode'', Schema [Description ''Indicates whether the storage for a volume should be ThickProvisioned or ThinProvisioned. Default is ThinProvisioned.'',
          Type [''string''],
          Format '''']),
      (''volumeName'', Schema [Description ''The name of a volume already created in the ScaleIO system that is associated with this volume source.'',
          Type [''string''],
          Format '''']),
      (''fsType'', Schema [Description ''Filesystem type to mount. Must be a filesystem type supported by the host operating system. Ex. \"ext4\", \"xfs\", \"ntfs\". Default is \"xfs\"'',
          Type [''string''],
          Format '''']),
      (''readOnly'', Schema [Description ''Defaults to false (read/write). ReadOnly here will force the ReadOnly setting in VolumeMounts.'',
          Type [''boolean''],
          Format ''''])],
      Required [''gateway'', ''system'', ''secretRef'']],
     Dependencies = [''k8s.io/api/core/v1.SecretReference'']\<rparr>"

definition schema_k8sio_api_core_v1_SecretReference :: "(string \<Rightarrow> 'r) \<Rightarrow> 'r openapi_definition" where
  "schema_k8sio_api_core_v1_SecretReference ref =
    \<lparr>defSchema = Schema [Description ''SecretReference represents a Secret Reference. It has enough information to retrieve secret in any namespace'',
      Type [''object''],
      Properties [
      (''name'', Schema [Description ''Name is unique within a namespace to reference a secret resource.'',
          Type [''string''],
          Format '''']),
      (''namespace'', Schema [Description ''Namespace defines the space within which the secret name must be unique.'',
          Type [''string''],
          Format ''''])],
      Extensions [(''x-kubernetes-map-type'', JString ''atomic'')]],
     Dependencies = []\<rparr>"

definition schema_k8sio_api_core_v1_StorageOSPersistentVolumeSource :: "(string \<Rightarrow> 'r) \<Rightarrow> 'r openapi_definition" where
  "schema_k8sio_api_core_v1_StorageOSPersistentVolumeSource ref =
    \<lparr>defSchema = Schema [Description ''Represents a StorageOS persistent volume resource.'',
      Type [''object''],
      Properties [
      (''volumeName'', Schema [Description ''VolumeName is the human-readable name of the StorageOS volume.  Volume names are only unique within a namespace.'',
          Type [''string''],
          Format '''']),
      (''volumeNamespace'', Schema [Description ''VolumeNamespace specifies the scope of the volume within StorageOS.  If no namespace is specified then the Pod's namespace will be used.  This allows the Kubernetes name scoping to be mirrored within StorageOS for tighter integration. Set VolumeName to any name to override the default behaviour. Set to \"default\" if you are not using namespaces within StorageOS. Namespaces that do not pre-exist within StorageOS will be created.'',
          Type [''string''],
          Format '''']),
      (''fsType'', Schema [Description ''Filesystem type to mount. Must be a filesystem type supported by the host operating system. Ex. \"ext4\", \"xfs\", \"ntfs\". Implicitly inferred to be \"ext4\" if unspecified.'',
          Type [''string''],
          Format '''']),
      (''readOnly'', Schema [Description ''Defaults to false (read/write). ReadOnly here will force the ReadOnly setting in VolumeMounts.'',
          Type [''boolean''],
          Format '''']),
      (''secretRef'', Schema [Description ''SecretRef specifies the secret to use for obtaining the StorageOS API credentials.  If not specified, default values will be attempted.'',
          Ref (ref ''k8s.io/api/core/v1.ObjectReference'')])]],
     Dependencies = [''k8s.io/api/core/v1.ObjectReference'']\<rparr>"

definition schema_k8sio_api_core_v1_VolumeNodeAffinity :: "(string \<Rightarrow> 'r) \<Rightarrow> 'r openapi_definition" where
  "schema_k8sio_api_core_v1_VolumeNodeAffinity ref =
    \<lparr>defSchema = Schema [Description ''VolumeNodeAffinity defines constraints that limit what nodes this volume can be accessed from.'',
      Type [''object''],
      Properties [
      (''required'', Schema [Description ''Required specifies hard node constraints that must be met.'',
          Ref (ref ''k8s.io/api/core/v1.NodeSelector'')])]],
     Dependencies = [''k8s.io/api/core/v1.NodeSelector'']\<rparr>"

definition schema_k8sio_api_core_v1_VolumeSource :: "(string \<Rightarrow> 'r) \<Rightarrow> 'r openapi_definition" where
  "schema_k8sio_api_core_v1_VolumeSource ref =
    \<lparr>defSchema = Schema [Description ''Represents the source of a volume to mount. Only one of its members may be specified.'',
      Type [''object''],
      Properties [
      (''hostPath'', Schema [Description ''HostPath represents a pre-existing file or directory on the host machine that is directly exposed to the container. This is generally used for system agents or other privileged things that are allowed to see the host machine. Most containers will NOT need this. More info: https://kubernetes.io/docs/concepts/storage/volumes#hostpath'',
          Ref (ref ''k8s.io/api/core/v1.HostPathVolumeSource'')]),
      (''emptyDir'', Schema [Description ''EmptyDir represents a temporary directory that shares a pod's lifetime. More info: https://kubernetes.io/docs/concepts/storage/volumes#emptydir'',
          Ref (ref ''k8s.io/api/core/v1.EmptyDirVolumeSource'')]),
      (''gcePersistentDisk'', Schema [Description ''GCEPersistentDisk represents a GCE Disk resource that is attached to a kubelet's host machine and then exposed to the pod. More info: https://kubernetes.io/docs/concepts/storage/volumes#gcepersistentdisk'',
          Ref (ref ''k8s.io/api/core/v1.GCEPersistentDiskVolumeSource'')]),
      (''awsElasticBlockStore'', Schema [Description ''AWSElasticBlockStore represents an AWS Disk resource that is attached to a kubelet's host machine and then exposed to the pod. More info: https://kubernetes.io/docs/concepts/storage/volumes#awselasticblockstore'',
          Ref (ref ''k8s.io/api/core/v1.AWSElasticBlockStoreVolumeSource'')]),
      (''gitRepo'', Schema [Description ''GitRepo represents a git repository at a particular revision. DEPRECATED: GitRepo is deprecated. To provision a container with a git repo, mount an EmptyDir into an InitContainer that clones the repo using git, then mount the EmptyDir into the Pod's container.'',
          Ref (ref ''k8s.io/api/core/v1.GitRepoVolumeSource'')]),
      (''secret'', Schema [Description ''Secret represents a secret that should populate this volume. More info: https://kubernetes.io/docs/concepts/storage/volumes#secret'',
          Ref (ref ''k8s.io/api/core/v1.SecretVolumeSource'')]),
      (''nfs'', Schema [Description ''NFS represents an NFS mount on the host that shares a pod's lifetime More info: https://kubernetes.io/docs/concepts/storage/volumes#nfs'',
          Ref (ref ''k8s.io/api/core/v1.NFSVolumeSource'')]),
      (''iscsi'', Schema [Description ''ISCSI represents an ISCSI Disk resource that is attached to a kubelet's host machine and then exposed to the pod. More info: https://examples.k8s.io/volumes/iscsi/README.md'',
          Ref (ref ''k8s.io/api/core/v1.ISCSIVolumeSource'')]),
      (''glusterfs'', Schema [Description ''Glusterfs represents a Glusterfs mount on the host that shares a pod's lifetime. More info: https://examples.k8s.io/volumes/glusterfs/README.md'',
          Ref (ref ''k8s.io/api/core/v1.GlusterfsVolumeSource'')]),
      (''persistentVolumeClaim'', Schema [Description ''PersistentVolumeClaimVolumeSource represents a reference to a PersistentVolumeClaim in the same namespace. More info: https://kubernetes.io/docs/concepts/storage/persistent-volumes#persistentvolumeclaims'',
          Ref (ref ''k8s.io/api/core/v1.PersistentVolumeClaimVolumeSource'')]),
      (''rbd'', Schema [Description ''RBD represents a Rados Block Device mount on the host that shares a pod's lifetime. More info: https://examples.k8s.io/volumes/rbd/README.md'',
          Ref (ref ''k8s.io/api/core/v1.RBDVolumeSource'')]),
      (''flexVolume'', Schema [Description ''FlexVolume represents a generic volume resource that is provisioned/attached using an exec based plugin.'',
          Ref (ref ''k8s.io/api/core/v1.FlexVolumeSource'')]),
      (''cinder'', Schema [Description ''Cinder represents a cinder volume attached and mounted on kubelets host machine. More info: https://examples.k8s.io/mysql-cinder-pd/README.md'',
          Ref (ref ''k8s.io/api/core/v1.CinderVolumeSource'')]),
      (''cephfs'', Schema [Description ''CephFS represents a Ceph FS mount on the host that shares a pod's lifetime'',
          Ref (ref ''k8s.io/api/core/v1.CephFSVolumeSource'')]),
      (''flocker'', Schema [Description ''Flocker represents a Flocker volume attached to a kubelet's host machine. This depends on the Flocker control service being running'',
          Ref (ref ''k8s.io/api/core/v1.FlockerVolumeSource'')]),
      (''downwardAPI'', Schema [Description ''DownwardAPI represents downward API about the pod that should populate this volume'',
          Ref (ref ''k8s.io/api/core/v1.DownwardAPIVolumeSource'')]),
      (''fc'', Schema [Description ''FC represents a Fibre Channel resource that is attached to a kubelet's host machine and then exposed to the pod.'',
          Ref (ref ''k8s.io/api/core/v1.FCVolumeSource'')]),
      (''azureFile'', Schema [Description ''AzureFile represents an Azure File Service mount on the host and bind mount to the pod.'',
          Ref (ref ''k8s.io/api/core/v1.AzureFileVolumeSource'')]),
      (''configMap'', Schema [Description ''ConfigMap represents a configMap that should populate this volume'',
          Ref (ref ''k8s.io/api/core/v1.ConfigMapVolumeSource'')]),
      (''vsphereVolume'', Schema [Description ''VsphereVolume represents a vSphere volume attached and mounted on kubelets host machine'',
          Ref (ref ''k8s.io/api/core/v1.VsphereVirtualDiskVolumeSource'')]),
      (''quobyte'', Schema [Description ''Quobyte represents a Quobyte mount on the host that shares a pod's lifetime'',
          Ref (ref ''k8s.io/api/core/v1.QuobyteVolumeSource'')]),
      (''azureDisk'', Schema [Description ''AzureDisk represents an Azure Data Disk mount on the host and bind mount to the pod.'',
          Ref (ref ''k8s.io/api/core/v1.AzureDiskVolumeSource'')]),
      (''photonPersistentDisk'', Schema [Description ''PhotonPersistentDisk represents a PhotonController persistent disk attached and mounted on kubelets host machine'',
          Ref (ref ''k8s.io/api/core/v1.PhotonPersistentDiskVolumeSource'')]),
      (''projected'', Schema [Description ''Items for all in one resources secrets, configmaps, and downward API'',
          Ref (ref ''k8s.io/api/core/v1.ProjectedVolumeSource'')]),
      (''portworxVolume'', Schema [Description ''PortworxVolume represents a portworx volume attached and mounted on kubelets host machine'',
          Ref (ref ''k8s.io/api/core/v1.PortworxVolumeSource'')]),
      (''scaleIO'', Schema [Description ''ScaleIO represents a ScaleIO persistent volume attached and mounted on Kubernetes nodes.'',
          Ref (ref ''k8s.io/api/core/v1.ScaleIOVolumeSource'')]),
      (''storageos'', Schema [Description ''StorageOS represents a StorageOS volume attached and mounted on Kubernetes nodes.'',
          Ref (ref ''k8s.io/api/core/v1.StorageOSVolumeSource'')]),
      (''csi'', Schema [Description ''CSI (Container Storage Interface) represents ephemeral storage that is handled by certain external CSI drivers (Beta feature).'',
          Ref (ref ''k8s.io/api/core/v1.CSIVolumeSource'')]),
      (''ephemeral'', Schema [Description (''Ephemeral represents a volume that is handled by a cluster storage driver. The volume's lifecycle is tied to the pod that defines it - it will be created before the pod starts, and deleted when the pod is removed.'' @ [CHR 0x0A, CHR 0x0A] @ ''Use this if: a) the volume is only needed while the pod runs, b) features of normal volumes like restoring from snapshot or capacity'' @ [CHR 0x0A] @ ''   tracking are needed,'' @ [CHR 0x0A] @ ''c) the storage driver is specified through a storage class, and d) the storage driver supports dynamic volume provisioning through'' @ [CHR 0x0A] @ ''   a PersistentVolumeClaim (see EphemeralVolumeSource for more'' @ [CHR 0x0A] @ ''   information on the connection between this volume type'' @ [CHR 0x0A] @ ''   and PersistentVolumeClaim).'' @ [CHR 0x0A, CHR 0x0A] @ ''Use PersistentVolumeClaim or one of the vendor-specific APIs for volumes that persist for longer than the lifecycle of an individual pod.'' @ [CHR 0x0A, CHR 0x0A] @ ''Use CSI for light-weight local ephemeral volumes if the CSI driver is meant to be used that way - see the documentation of the driver for more information.'' @ [CHR 0x0A, CHR 0x0A] @ ''A pod can use both types of ephemeral volumes and persistent volumes at the same time.'' @ [CHR 0x0A, CHR 0x0A] @ ''This is a beta feature and only available when the GenericEphemeralVolume feature gate is enabled.''),
          Ref (ref ''k8s.io/api/core/v1.EphemeralVolumeSource'')])]],
     Dependencies = [''k8s.io/api/core/v1.AWSElasticBlockStoreVolumeSource'',
     ''k8s.io/api/core/v1.AzureDiskVolumeSource'',
     ''k8s.io/api/core/v1.AzureFileVolumeSource'',
     ''k8s.io/api/core/v1.CSIVolumeSource'',
     ''k8s.io/api/core/v1.CephFSVolumeSource'',
     ''k8s.io/api/core/v1.CinderVolumeSource'',
     ''k8s.io/api/core/v1.ConfigMapVolumeSource'',
     ''k8s.io/api/core/v1.DownwardAPIVolumeSource'',
     ''k8s.io/api/core/v1.EmptyDirVolumeSource'',
     ''k8s.io/api/core/v1.EphemeralVolumeSource'',
     ''k8s.io/api/core/v1.FCVolumeSource'',
     ''k8s.io/api/core/v1.FlexVolumeSource'',
     ''k8s.io/api/core/v1.FlockerVolumeSource'',
     ''k8s.io/api/core/v1.GCEPersistentDiskVolumeSource'',
     ''k8s.io/api/core/v1.GitRepoVolumeSource'',
     ''k8s.io/api/core/v1.GlusterfsVolumeSource'',
     ''k8s.io/api/core/v1.HostPathVolumeSource'',
     ''k8s.io/api/core/v1.ISCSIVolumeSource'',
     ''k8s.io/api/core/v1.NFSVolumeSource'',
     ''k8s.io/api/core/v1.PersistentVolumeClaimVolumeSource'',
     ''k8s.io/api/core/v1.PhotonPersistentDiskVolumeSource'',
     ''k8s.io/api/core/v1.PortworxVolumeSource'',
     ''k8s.io/api/core/v1.ProjectedVolumeSource'',
     ''k8s.io/api/core/v1.QuobyteVolumeSource'',
     ''k8s.io/api/core/v1.RBDVolumeSource'',
     ''k8s.io/api/core/v1.ScaleIOVolumeSource'',
     ''k8s.io/api/core/v1.SecretVolumeSource'',
     ''k8s.io/api/core/v1.StorageOSVolumeSource'',
     ''k8s.io/api/core/v1.VsphereVirtualDiskVolumeSource'']\<rparr>"

definition schema_k8sio_api_storage_v1_CSIDriver :: "(string \<Rightarrow> 'r) \<Rightarrow> 'r openapi_definition" where
  "schema_k8sio_api_storage_v1_CSIDriver ref =
    \<lparr>defSchema = Schema [Description ''CSIDriver captures information about a Container Storage Interface (CSI) volume driver deployed on the cluster. Kubernetes attach detach controller uses this object to determine whether attach is required. Kubelet uses this object to determine whether pod information needs to be passed on mount. CSIDriver objects are non-namespaced.'',
      Type [''object''],
      Properties [
      (''kind'', Schema [Description ''Kind is a string value representing the REST resource this object represents. Servers may infer this from the endpoint the client submits requests to. Cannot be updated. In CamelCase. More info: https://git.k8s.io/community/contributors/devel/sig-architecture/api-conventions.md#types-kinds'',
          Type [''string''],
          Format '''']),
      (''apiVersion'', Schema [Description ''APIVersion defines the versioned schema of this representation of an object. Servers should convert recognized schemas to the latest internal value, and may reject unrecognized values. More info: https://git.k8s.io/community/contributors/devel/sig-architecture/api-conventions.md#resources'',
          Type [''string''],
          Format '''']),
      (''metadata'', Schema [Description ''Standard object metadata. metadata.Name indicates the name of the CSI driver that this object refers to; it MUST be the same name returned by the CSI GetPluginName() call for that driver. The driver name must be 63 characters or less, beginning and ending with an alphanumeric character ([a-z0-9A-Z]) with dashes (-), dots (.), and alphanumerics between. More info: https://git.k8s.io/community/contributors/devel/sig-architecture/api-conventions.md#metadata'',
          Default (JObject []),
          Ref (ref ''k8s.io/apimachinery/pkg/apis/meta/v1.ObjectMeta'')]),
      (''spec'', Schema [Description ''Specification of the CSI Driver.'',
          Default (JObject []),
          Ref (ref ''k8s.io/api/storage/v1.CSIDriverSpec'')])],
      Required [''spec'']],
     Dependencies = [''k8s.io/api/storage/v1.CSIDriverSpec'',
     ''k8s.io/apimachinery/pkg/apis/meta/v1.ObjectMeta'']\<rparr>"

definition schema_k8sio_api_storage_v1_CSIDriverList :: "(string \<Rightarrow> 'r) \<Rightarrow> 'r openapi_definition" where
  "schema_k8sio_api_storage_v1_CSIDriverList ref =
    \<lparr>defSchema = Schema [Description ''CSIDriverList is a collection of CSIDriver objects.'',
      Type [''object''],
      Properties [
      (''kind'', Schema [Description ''Kind is a string value representing the REST resource this object represents. Servers may infer this from the endpoint the client submits requests to. Cannot be updated. In CamelCase. More info: https://git.k8s.io/community/contributors/devel/sig-architecture/api-conventions.md#types-kinds'',
          Type [''string''],
          Format '''']),
      (''apiVersion'', Schema [Description ''APIVersion defines the versioned schema of this representation of an object. Servers should convert recognized schemas to the latest internal value, and may reject unrecognized values. More info: https://git.k8s.io/community/contributors/devel/sig-architecture/api-conventions.md#resources'',
          Type [''string''],
          Format '''']),
      (''metadata'', Schema [Description ''Standard list metadata More info: https://git.k8s.io/community/contributors/devel/sig-architecture/api-conventions.md#metadata'',
          Default (JObject []),
          Ref (ref ''k8s.io/apimachinery/pkg/apis/meta/v1.ListMeta'')]),
      (''items'', Schema [Description ''items is the list of CSIDriver'',
          Type [''array''],
          Items (Schema [Default (JObject []),
            Ref (ref ''k8s.io/api/storage/v1.CSIDriver'')])])],
      Required [''items'']],
     Dependencies = [''k8s.io/api/storage/v1.CSIDriver'',
     ''k8s.io/apimachinery/pkg/apis/meta/v1.ListMeta'']\<rparr>"

definition schema_k8sio_api_storage_v1_CSIDriverSpec :: "(string \<Rightarrow> 'r) \<Rightarrow> 'r openapi_definition" where
  "schema_k8sio_api_storage_v1_CSIDriverSpec ref =
    \<lparr>defSchema = Schema [Description ''CSIDriverSpec is the specification of a CSIDriver.'',
      Type [''object''],
      Properties [
      (''attachRequired'', Schema [Description (''attachRequired indicates this CSI volume driver requires an attach operation (because it implements the CSI ControllerPublishVolume() method), and that the Kubernetes attach detach controller should call the attach volume interface which checks the volumeattachment status and waits until the volume is attached before proceeding to mounting. The CSI external-attacher coordinates with CSI volume driver and updates the volumeattachment status when the attach operation is complete. If the CSIDriverRegistry feature gate is enabled and the value is specified to false, the attach operation will be skipped. Otherwise the attach operation will be called.'' @ [CHR 0x0A, CHR 0x0A] @ ''This field is immutable.''),
          Type [''boolean''],
          Format '''']),
      (''podInfoOnMount'', Schema [Description (''If set to true, podInfoOnMount indicates this CSI volume driver requires additional pod information (like podName, podUID, etc.) during mount operations. If set to false, pod information will not be passed on mount. Default is false. The CSI driver specifies podInfoOnMount as part of driver deployment. If true, Kubelet will pass pod information as VolumeContext in the CSI NodePublishVolume() calls. The CSI driver is responsible for parsing and validating the information passed in as VolumeContext. The following VolumeConext will be passed if podInfoOnMount is set to true. This list might grow, but the prefix will be used. \"csi.storage.k8s.io/pod.name\": pod.Name \"csi.storage.k8s.io/pod.namespace\": pod.Namespace \"csi.storage.k8s.io/pod.uid\": string(pod.UID) \"csi.storage.k8s.io/ephemeral\": \"true\" if the volume is an ephemeral inline volume'' @ [CHR 0x0A] @ ''                                defined by a CSIVolumeSource, otherwise \"false\"'' @ [CHR 0x0A, CHR 0x0A] @ ''\"csi.storage.k8s.io/ephemeral\" is a new feature in Kubernetes 1.16. It is only required for drivers which support both the \"Persistent\" and \"Ephemeral\" VolumeLifecycleMode. Other drivers can leave pod info disabled and/or ignore this field. As Kubernetes 1.15 doesn't support this field, drivers can only support one mode when deployed on such a cluster and the deployment determines which mode that is, for example via a command line parameter of the driver.'' @ [CHR 0x0A, CHR 0x0A] @ ''This field is immutable.''),
          Type [''boolean''],
          Format '''']),
      (''volumeLifecycleModes'', Schema [Extensions [(''x-kubernetes-list-type'', JString ''set'')],
          Description (''volumeLifecycleModes defines what kind of volumes this CSI volume driver supports. The default if the list is empty is \"Persistent\", which is the usage defined by the CSI specification and implemented in Kubernetes via the usual PV/PVC mechanism. The other mode is \"Ephemeral\". In this mode, volumes are defined inline inside the pod spec with CSIVolumeSource and their lifecycle is tied to the lifecycle of that pod. A driver has to be aware of this because it is only going to get a NodePublishVolume call for such a volume. For more information about implementing this mode, see https://kubernetes-csi.github.io/docs/ephemeral-local-volumes.html A driver can support one or more of these modes and more modes may be added in the future. This field is beta.'' @ [CHR 0x0A, CHR 0x0A] @ ''This field is immutable.''),
          Type [''array''],
          Items (Schema [Default (JString ''''),
            Type [''string''],
            Format ''''])]),
      (''storageCapacity'', Schema [Description (''If set to true, storageCapacity indicates that the CSI volume driver wants pod scheduling to consider the storage capacity that the driver deployment will report by creating CSIStorageCapacity objects with capacity information.'' @ [CHR 0x0A, CHR 0x0A] @ ''The check can be enabled immediately when deploying a driver. In that case, provisioning new volumes with late binding will pause until the driver deployment has published some suitable CSIStorageCapacity object.'' @ [CHR 0x0A, CHR 0x0A] @ ''Alternatively, the driver can be deployed with the field unset or false and it can be flipped later when storage capacity information has been published.'' @ [CHR 0x0A, CHR 0x0A] @ ''This field is immutable.'' @ [CHR 0x0A, CHR 0x0A] @ ''This is a beta field and only available when the CSIStorageCapacity feature is enabled. The default is false.''),
          Type [''boolean''],
          Format '''']),
      (''fsGroupPolicy'', Schema [Description (''Defines if the underlying volume supports changing ownership and permission of the volume before being mounted. Refer to the specific FSGroupPolicy values for additional details. This field is beta, and is only honored by servers that enable the CSIVolumeFSGroupPolicy feature gate.'' @ [CHR 0x0A, CHR 0x0A] @ ''This field is immutable.'' @ [CHR 0x0A, CHR 0x0A] @ ''Defaults to ReadWriteOnceWithFSType, which will examine each volume to determine if Kubernetes should modify ownership and permissions of the volume. With the default policy the defined fsGroup will only be applied if a fstype is defined and the volume's access mode contains ReadWriteOnce.''),
          Type [''string''],
          Format '''']),
      (''tokenRequests'', Schema [Extensions [(''x-kubernetes-list-type'', JString ''atomic'')],
          Description (''TokenRequests indicates the CSI driver needs pods' service account tokens it is mounting volume for to do necessary authentication. Kubelet will pass the tokens in VolumeContext in the CSI NodePublishVolume calls. The CSI driver should parse and validate the following VolumeContext: \"csi.storage.k8s.io/serviceAccount.tokens\": {'' @ [CHR 0x0A] @ ''  \"<audience>\": {'' @ [CHR 0x0A] @ ''    \"token\": <token>,'' @ [CHR 0x0A] @ ''    \"expirationTimestamp\": <expiration timestamp in RFC3339>,'' @ [CHR 0x0A] @ ''  },'' @ [CHR 0x0A] @ ''  ...'' @ [CHR 0x0A] @ ''}'' @ [CHR 0x0A, CHR 0x0A] @ ''Note: Audience in each TokenRequest should be different and at most one token is empty string. To receive a new token after expiry, RequiresRepublish can be used to trigger NodePublishVolume periodically.''),
          Type [''array''],
          Items (Schema [Default (JObject []),
            Ref (ref ''k8s.io/api/storage/v1.TokenRequest'')])]),
      (''requiresRepublish'', Schema [Description (''RequiresRepublish indicates the CSI driver wants `NodePublishVolume` being periodically called to reflect any possible change in the mounted volume. This field defaults to false.'' @ [CHR 0x0A, CHR 0x0A] @ ''Note: After a successful initial NodePublishVolume call, subsequent calls to NodePublishVolume should only update the contents of the volume. New mount points will not be seen by a running container.''),
          Type [''boolean''],
          Format ''''])]],
     Dependencies = [''k8s.io/api/storage/v1.TokenRequest'']\<rparr>"

definition schema_k8sio_api_storage_v1_CSINode :: "(string \<Rightarrow> 'r) \<Rightarrow> 'r openapi_definition" where
  "schema_k8sio_api_storage_v1_CSINode ref =
    \<lparr>defSchema = Schema [Description ''CSINode holds information about all CSI drivers installed on a node. CSI drivers do not need to create the CSINode object directly. As long as they use the node-driver-registrar sidecar container, the kubelet will automatically populate the CSINode object for the CSI driver as part of kubelet plugin registration. CSINode has the same name as a node. If the object is missing, it means either there are no CSI Drivers available on the node, or the Kubelet version is low enough that it doesn't create this object. CSINode has an OwnerReference that points to the corresponding node object.'',
      Type [''object''],
      Properties [
      (''kind'', Schema [Description ''Kind is a string value representing the REST resource this object represents. Servers may infer this from the endpoint the client submits requests to. Cannot be updated. In CamelCase. More info: https://git.k8s.io/community/contributors/devel/sig-architecture/api-conventions.md#types-kinds'',
          Type [''string''],
          Format '''']),
      (''apiVersion'', Schema [Description ''APIVersion defines the versioned schema of this representation of an object. Servers should convert recognized schemas to the latest internal value, and may reject unrecognized values. More info: https://git.k8s.io/community/contributors/devel/sig-architecture/api-conventions.md#resources'',
          Type [''string''],
          Format '''']),
      (''metadata'', Schema [Description ''metadata.name must be the Kubernetes node name.'',
          Default (JObject []),
          Ref (ref ''k8s.io/apimachinery/pkg/apis/meta/v1.ObjectMeta'')]),
      (''spec'', Schema [Description ''spec is the specification of CSINode'',
          Default (JObject []),
          Ref (ref ''k8s.io/api/storage/v1.CSINodeSpec'')])],
      Required [''spec'']],
     Dependencies = [''k8s.io/api/storage/v1.CSINodeSpec'',
     ''k8s.io/apimachinery/pkg/apis/meta/v1.ObjectMeta'']\<rparr>"

definition schema_k8sio_api_storage_v1_CSINodeDriver :: "(string \<Rightarrow> 'r) \<Rightarrow> 'r openapi_definition" where
  "schema_k8sio_api_storage_v1_CSINodeDriver ref =
    \<lparr>defSchema = Schema [Description ''CSINodeDriver holds information about the specification of one CSI driver installed on a node'',
      Type [''object''],
      Properties [
      (''name'', Schema [Description ''This is the name of the CSI driver that this object refers to. This MUST be the same name returned by the CSI GetPluginName() call for that driver.'',
          Default (JString ''''),
          Type [''string''],
          Format '''']),
      (''nodeID'', Schema [Description ''nodeID of the node from the driver point of view. This field enables Kubernetes to communicate with storage systems that do not share the same nomenclature for nodes. For example, Kubernetes may refer to a given node as \"node1\", but the storage system may refer to the same node as \"nodeA\". When Kubernetes issues a command to the storage system to attach a volume to a specific node, it can use this field to refer to the node name using the ID that the storage system will understand, e.g. \"nodeA\" instead of \"node1\". This field is required.'',
          Default (JString ''''),
          Type [''string''],
          Format '''']),
      (''topologyKeys'', Schema [Description ''topologyKeys is the list of keys supported by the driver. When a driver is initialized on a cluster, it provides a set of topology keys that it understands (e.g. \"company.com/zone\", \"company.com/region\"). When a driver is initialized on a node, it provides the same topology keys along with values. Kubelet will expose these topology keys as labels on its own node object. When Kubernetes does topology aware provisioning, it can use this list to determine which labels it should retrieve from the node object and pass back to the driver. It is possible for different nodes to use different topology keys. This can be empty if driver does not support topology.'',
          Type [''array''],
          Items (Schema [Default (JString ''''),
            Type [''string''],
            Format ''''])]),
      (''allocatable'', Schema [Description ''allocatable represents the volume resources of a node that are available for scheduling. This field is beta.'',
          Ref (ref ''k8s.io/api/storage/v1.VolumeNodeResources'')])],
      Required [''name'', ''nodeID'']],
     Dependencies = [''k8s.io/api/storage/v1.VolumeNodeResources'']\<rparr>"

definition schema_k8sio_api_storage_v1_CSINodeList :: "(string \<Rightarrow> 'r) \<Rightarrow> 'r openapi_definition" where
  "schema_k8sio_api_storage_v1_CSINodeList ref =
    \<lparr>defSchema = Schema [Description ''CSINodeList is a collection of CSINode objects.'',
      Type [''object''],
      Properties [
      (''kind'', Schema [Description ''Kind is a string value representing the REST resource this object represents. Servers may infer this from the endpoint the client submits requests to. Cannot be updated. In CamelCase. More info: https://git.k8s.io/community/contributors/devel/sig-architecture/api-conventions.md#types-kinds'',
          Type [''string''],
          Format '''']),
      (''apiVersion'', Schema [Description ''APIVersion defines the versioned schema of this representation of an object. Servers should convert recognized schemas to the latest internal value, and may reject unrecognized values. More info: https://git.k8s.io/community/contributors/devel/sig-architecture/api-conventions.md#resources'',
          Type [''string''],
          Format '''']),
      (''metadata'', Schema [Description ''Standard list metadata More info: https://git.k8s.io/community/contributors/devel/sig-architecture/api-conventions.md#metadata'',
          Default (JObject []),
          Ref (ref ''k8s.io/apimachinery/pkg/apis/meta/v1.ListMeta'')]),
      (''items'', Schema [Description ''items is the list of CSINode'',
          Type [''array''],
          Items (Schema [Default (JObject []),
            Ref (ref ''k8s.io/api/storage/v1.CSINode'')])])],
      Required [''items'']],
     Dependencies = [''k8s.io/api/storage/v1.CSINode'',
     ''k8s.io/apimachinery/pkg/apis/meta/v1.ListMeta'']\<rparr>"

definition schema_k8sio_api_storage_v1_CSINodeSpec :: "(string \<Rightarrow> 'r) \<Rightarrow> 'r openapi_definition" where
  "schema_k8sio_api_storage_v1_CSINodeSpec ref =
    \<lparr>defSchema = Schema [Description ''CSINodeSpec holds information about the specification of all CSI drivers installed on a node'',
      Type [''object''],
      Properties [
      (''drivers'', Schema [Extensions [(''x-kubernetes-patch-merge-key'', JString ''name''), (''x-kubernetes-patch-strategy'', JString ''merge'')],
          Description ''drivers is a list of information of all CSI Drivers existing on a node. If all drivers in the list are uninstalled, this can become empty.'',
          Type [''array''],
          Items (Schema [Default (JObject []),
            Ref (ref ''k8s.io/api/storage/v1.CSINodeDriver'')])])],
      Required [''drivers'']],
     Dependencies = [''k8s.io/api/storage/v1.CSINodeDriver'']\<rparr>"

definition schema_k8sio_api_storage_v1_StorageClass :: "(string \<Rightarrow> 'r) \<Rightarrow> 'r openapi_definition" where
  "schema_k8sio_api_storage_v1_StorageClass ref =
    \<lparr>defSchema = Schema [Description (''StorageClass describes the parameters for a class of storage for which PersistentVolumes can be dynamically provisioned.'' @ [CHR 0x0A, CHR 0x0A] @ ''StorageClasses are non-namespaced; the name of the storage class according to etcd is in ObjectMeta.Name.''),
      Type [''object''],
      Properties [
      (''kind'', Schema [Description ''Kind is a string value representing the REST resource this object represents. Servers may infer this from the endpoint the client submits requests to. Cannot be updated. In CamelCase. More info: https://git.k8s.io/community/contributors/devel/sig-architecture/api-conventions.md#types-kinds'',
          Type [''string''],
          Format '''']),
      (''apiVersion'', Schema [Description ''APIVersion defines the versioned schema of this representation of an object. Servers should convert recognized schemas to the latest internal value, and may reject unrecognized values. More info: https://git.k8s.io/community/contributors/devel/sig-architecture/api-conventions.md#resources'',
          Type [''string''],
          Format '''']),
      (''metadata'', Schema [Description ''Standard object's metadata. More info: https://git.k8s.io/community/contributors/devel/sig-architecture/api-conventions.md#metadata'',
          Default (JObject []),
          Ref (ref ''k8s.io/apimachinery/pkg/apis/meta/v1.ObjectMeta'')]),
      (''provisioner'', Schema [Description ''Provisioner indicates the type of the provisioner.'',
          Default (JString ''''),
          Type [''string''],
          Format '''']),
      (''parameters'', Schema [Description ''Parameters holds the parameters for the provisioner that should create volumes of this storage class.'',
          Type [''object''],
          AdditionalProperties True (Schema [Default (JString ''''),
            Type [''string''],
            Format ''''])]),
      (''reclaimPolicy'', Schema [Description ''Dynamically provisioned PersistentVolumes of this storage class are created with this reclaimPolicy. Defaults to Delete.'',
          Type [''string''],
          Format '''']),
      (''mountOptions'', Schema [Description ''Dynamically provisioned PersistentVolumes of this storage class are created with these mountOptions, e.g. [\"ro\", \"soft\"]. Not validated - mount of the PVs will simply fail if one is invalid.'',
          Type [''array''],
          Items (Schema [Default (JString ''''),
            Type [''string''],
            Format ''''])]),
      (''allowVolumeExpansion'', Schema [Description ''AllowVolumeExpansion shows whether the storage class allow volume expand'',
          Type [''boolean''],
          Format '''']),
      (''volumeBindingMode'', Schema [Description ''VolumeBindingMode indicates how PersistentVolumeClaims should be provisioned and bound.  When unset, VolumeBindingImmediate is used. This field is only honored by servers that enable the VolumeScheduling feature.'',
          Type [''string''],
          Format '''']),
      (''allowedTopologies'', Schema [Extensions [(''x-kubernetes-list-type'', JString ''atomic'')],
          Description ''Restrict the node topologies where volumes can be dynamically provisioned. Each volume plugin defines its own supported topology specifications. An empty TopologySelectorTerm list means there is no topology restriction. This field is only honored by servers that enable the VolumeScheduling feature.'',
          Type [''array''],
          Items (Schema [Default (JObject []),
            Ref (ref ''k8s.io/api/core/v1.TopologySelectorTerm'')])])],
      Required [''provisioner'']],
     Dependencies = [''k8s.io/api/core/v1.TopologySelectorTerm'',
     ''k8s.io/apimachinery/pkg/apis/meta/v1.ObjectMeta'']\<rparr>"

definition schema_k8sio_api_storage_v1_StorageClassList :: "(string \<Rightarrow> 'r) \<Rightarrow> 'r openapi_definition" where
  "schema_k8sio_api_storage_v1_StorageClassList ref =
    \<lparr>defSchema = Schema [Description ''StorageClassList is a collection of storage classes.'',
      Type [''object''],
      Properties [
      (''kind'', Schema [Description ''Kind is a string value representing the REST resource this object represents. Servers may infer this from the endpoint the client submits requests to. Cannot be updated. In CamelCase. More info: https://git.k8s.io/community/contributors/devel/sig-architecture/api-conventions.md#types-kinds'',
          Type [''string''],
          Format '''']),
      (''apiVersion'', Schema [Description ''APIVersion defines the versioned schema of this representation of an object. Servers should convert recognized schemas to the latest internal value, and may reject unrecognized values. More info: https://git.k8s.io/community/contributors/devel/sig-architecture/api-conventions.md#resources'',
          Type [''string''],
          Format '''']),
      (''metadata'', Schema [Description ''Standard list metadata More info: https://git.k8s.io/community/contributors/devel/sig-architecture/api-conventions.md#metadata'',
          Default (JObject []),
          Ref (ref ''k8s.io/apimachinery/pkg/apis/meta/v1.ListMeta'')]),
      (''items'', Schema [Description ''Items is the list of StorageClasses'',
          Type [''array''],
          Items (Schema [Default (JObject []),
            Ref (ref ''k8s.io/api/storage/v1.StorageClass'')])])],
      Required [''items'']],
     Dependencies = [''k8s.io/api/storage/v1.StorageClass'',
     ''k8s.io/apimachinery/pkg/apis/meta/v1.ListMeta'']\<rparr>"

definition schema_k8sio_api_storage_v1_TokenRequest :: "(string \<Rightarrow> 'r) \<Rightarrow> 'r openapi_definition" where
  "schema_k8sio_api_storage_v1_TokenRequest ref =
    \<lparr>defSchema = Schema [Description ''TokenRequest contains parameters of a service account token.'',
      Type [''object''],
      Properties [
      (''audience'', Schema [Description ''Audience is the intended audience of the token in \"TokenRequestSpec\". It will default to the audiences of kube apiserver.'',
          Default (JString ''''),
          Type [''string''],
          Format '''']),
      (''expirationSeconds'', Schema [Description ''ExpirationSeconds is the duration of validity of the token in \"TokenRequestSpec\". It has the same default value of \"ExpirationSeconds\" in \"TokenRequestSpec\".'',
          Type [''integer''],
          Format ''int64''])],
      Required [''audience'']],
     Dependencies = []\<rparr>"

definition schema_k8sio_api_storage_v1_VolumeAttachment :: "(string \<Rightarrow> 'r) \<Rightarrow> 'r openapi_definition" where
  "schema_k8sio_api_storage_v1_VolumeAttachment ref =
    \<lparr>defSchema = Schema [Description (''VolumeAttachment captures the intent to attach or detach the specified volume to/from the specified node.'' @ [CHR 0x0A, CHR 0x0A] @ ''VolumeAttachment objects are non-namespaced.''),
      Type [''object''],
      Properties [
      (''kind'', Schema [Description ''Kind is a string value representing the REST resource this object represents. Servers may infer this from the endpoint the client submits requests to. Cannot be updated. In CamelCase. More info: https://git.k8s.io/community/contributors/devel/sig-architecture/api-conventions.md#types-kinds'',
          Type [''string''],
          Format '''']),
      (''apiVersion'', Schema [Description ''APIVersion defines the versioned schema of this representation of an object. Servers should convert recognized schemas to the latest internal value, and may reject unrecognized values. More info: https://git.k8s.io/community/contributors/devel/sig-architecture/api-conventions.md#resources'',
          Type [''string''],
          Format '''']),
      (''metadata'', Schema [Description ''Standard object metadata. More info: https://git.k8s.io/community/contributors/devel/sig-architecture/api-conventions.md#metadata'',
          Default (JObject []),
          Ref (ref ''k8s.io/apimachinery/pkg/apis/meta/v1.ObjectMeta'')]),
      (''spec'', Schema [Description ''Specification of the desired attach/detach volume behavior. Populated by the Kubernetes system.'',
          Default (JObject []),
          Ref (ref ''k8s.io/api/storage/v1.VolumeAttachmentSpec'')]),
      (''status'', Schema [Description ''Status of the VolumeAttachment request. Populated by the entity completing the attach or detach operation, i.e. the external-attacher.'',
          Default (JObject []),
          Ref (ref ''k8s.io/api/storage/v1.VolumeAttachmentStatus'')])],
      Required [''spec'']],
     Dependencies = [''k8s.io/api/storage/v1.VolumeAttachmentSpec'',
     ''k8s.io/api/storage/v1.VolumeAttachmentStatus'',
     ''k8s.io/apimachinery/pkg/apis/meta/v1.ObjectMeta'']\<rparr>"

definition schema_k8sio_api_storage_v1_VolumeAttachmentList :: "(string \<Rightarrow> 'r) \<Rightarrow> 'r openapi_definition" where
  "schema_k8sio_api_storage_v1_VolumeAttachmentList ref =
    \<lparr>defSchema = Schema [Description ''VolumeAttachmentList is a collection of VolumeAttachment objects.'',
      Type [''object''],
      Properties [
      (''kind'', Schema [Description ''Kind is a string value representing the REST resource this object represents. Servers may infer this from the endpoint the client submits requests to. Cannot be updated. In CamelCase. More info: https://git.k8s.io/community/contributors/devel/sig-architecture/api-conventions.md#types-kinds'',
          Type [''string''],
          Format '''']),
      (''apiVersion'', Schema [Description ''APIVersion defines the versioned schema of this representation of an object. Servers should convert recognized schemas to the latest internal value, and may reject unrecognized values. More info: https://git.k8s.io/community/contributors/devel/sig-architecture/api-conventions.md#resources'',
          Type [''string''],
          Format '''']),
      (''metadata'', Schema [Description ''Standard list metadata More info: https://git.k8s.io/community/contributors/devel/sig-architecture/api-conventions.md#metadata'',
          Default (JObject []),
          Ref (ref ''k8s.io/apimachinery/pkg/apis/meta/v1.ListMeta'')]),
      (''items'', Schema [Description ''Items is the list of VolumeAttachments'',
          Type [''array''],
          Items (Schema [Default (JObject []),
            Ref (ref ''k8s.io/api/storage/v1.VolumeAttachment'')])])],
      Required [''items'']],
     Dependencies = [''k8s.io/api/storage/v1.VolumeAttachment'',
     ''k8s.io/apimachinery/pkg/apis/meta/v1.ListMeta'']\<rparr>"

definition schema_k8sio_api_storage_v1_VolumeAttachmentSource :: "(string \<Rightarrow> 'r) \<Rightarrow> 'r openapi_definition" where
  "schema_k8sio_api_storage_v1_VolumeAttachmentSource ref =
    \<lparr>defSchema = Schema [Description ''VolumeAttachmentSource represents a volume that should be attached. Right now only PersistenVolumes can be attached via external attacher, in future we may allow also inline volumes in pods. Exactly one member can be set.'',
      Type [''object''],
      Properties [
      (''persistentVolumeName'', Schema [Description ''Name of the persistent volume to attach.'',
          Type [''string''],
          Format '''']),
      (''inlineVolumeSpec'', Schema [Description ''inlineVolumeSpec contains all the information necessary to attach a persistent volume defined by a pod's inline VolumeSource. This field is populated only for the CSIMigration feature. It contains translated fields from a pod's inline VolumeSource to a PersistentVolumeSpec. This field is beta-level and is only honored by servers that enabled the CSIMigration feature.'',
          Ref (ref ''k8s.io/api/core/v1.PersistentVolumeSpec'')])]],
     Dependencies = [''k8s.io/api/core/v1.PersistentVolumeSpec'']\<rparr>"

definition schema_k8sio_api_storage_v1_VolumeAttachmentSpec :: "(string \<Rightarrow> 'r) \<Rightarrow> 'r openapi_definition" where
  "schema_k8sio_api_storage_v1_VolumeAttachmentSpec ref =
    \<lparr>defSchema = Schema [Description ''VolumeAttachmentSpec is the specification of a VolumeAttachment request.'',
      Type [''object''],
      Properties [
      (''attacher'', Schema [Description ''Attacher indicates the name of the volume driver that MUST handle this request. This is the name returned by GetPluginName().'',
          Default (JString ''''),
          Type [''string''],
          Format '''']),
      (''source'', Schema [Description ''Source represents the volume that should be attached.'',
          Default (JObject []),
          Ref (ref ''k8s.io/api/storage/v1.VolumeAttachmentSource'')]),
      (''nodeName'', Schema [Description ''The node that the volume should be attached to.'',
          Default (JString ''''),
          Type [''string''],
          Format ''''])],
      Required [''attacher'', ''source'', ''nodeName'']],
     Dependencies = [''k8s.io/api/storage/v1.VolumeAttachmentSource'']\<rparr>"

definition schema_k8sio_api_storage_v1_VolumeAttachmentStatus :: "(string \<Rightarrow> 'r) \<Rightarrow> 'r openapi_definition" where
  "schema_k8sio_api_storage_v1_VolumeAttachmentStatus ref =
    \<lparr>defSchema = Schema [Description ''VolumeAttachmentStatus is the status of a VolumeAttachment request.'',
      Type [''object''],
      Properties [
      (''attached'', Schema [Description ''Indicates the volume is successfully attached. This field must only be set by the entity completing the attach operation, i.e. the external-attacher.'',
          Default (JBool False),
          Type [''boolean''],
          Format '''']),
      (''attachmentMetadata'', Schema [Description ''Upon successful attach, this field is populated with any information returned by the attach operation that must be passed into subsequent WaitForAttach or Mount calls. This field must only be set by the entity completing the attach operation, i.e. the external-attacher.'',
          Type [''object''],
          AdditionalProperties True (Schema [Default (JString ''''),
            Type [''string''],
            Format ''''])]),
      (''attachError'', Schema [Description ''The last error encountered during attach operation, if any. This field must only be set by the entity completing the attach operation, i.e. the external-attacher.'',
          Ref (ref ''k8s.io/api/storage/v1.VolumeError'')]),
      (''detachError'', Schema [Description ''The last error encountered during detach operation, if any. This field must only be set by the entity completing the detach operation, i.e. the external-attacher.'',
          Ref (ref ''k8s.io/api/storage/v1.VolumeError'')])],
      Required [''attached'']],
     Dependencies = [''k8s.io/api/storage/v1.VolumeError'']\<rparr>"

definition schema_k8sio_api_storage_v1_VolumeError :: "(string \<Rightarrow> 'r) \<Rightarrow> 'r openapi_definition" where
  "schema_k8sio_api_storage_v1_VolumeError ref =
    \<lparr>defSchema = Schema [Description ''VolumeError captures an error encountered during a volume operation.'',
      Type [''object''],
      Properties [
      (''time'', Schema [Description ''Time the error was encountered.'',
          Default (JObject []),
          Ref (ref ''k8s.io/apimachinery/pkg/apis/meta/v1.Time'')]),
      (''message'', Schema [Description ''String detailing the error encountered during Attach or Detach operation. This string may be logged, so it should not contain sensitive information.'',
          Type [''string''],
          Format ''''])]],
     Dependencies = [''k8s.io/apimachinery/pkg/apis/meta/v1.Time'']\<rparr>"

definition schema_k8sio_api_storage_v1_VolumeNodeResources :: "(string \<Rightarrow> 'r) \<Rightarrow> 'r openapi_definition" where
  "schema_k8sio_api_storage_v1_VolumeNodeResources ref =
    \<lparr>defSchema = Schema [Description ''VolumeNodeResources is a set of resource limits for scheduling of volumes.'',
      Type [''object''],
      Properties [
      (''count'', Schema [Description ''Maximum number of unique volumes managed by the CSI driver that can be used on a node. A volume that is both attached and mounted on a node is considered to be used once, not twice. The same rule applies for a unique volume that is shared among multiple pods on the same node. If this field is not specified, then the supported number of volumes on this node is unbounded.'',
          Type [''integer''],
          Format ''int32''])]],
     Dependencies = []\<rparr>"

text \<open>Every definition here is consistent.\<close>

lemma openapi_storage_ok_1:
  "definition_ok ref (schema_k8sio_api_core_v1_AzureFilePersistentVolumeSource ref)"
  "definition_ok ref (schema_k8sio_api_core_v1_CSIPersistentVolumeSource ref)"
  "definition_ok ref (schema_k8sio_api_core_v1_CephFSPersistentVolumeSource ref)"
  "definition_ok ref (schema_k8sio_api_core_v1_CinderPersistentVolumeSource ref)"
  "definition_ok ref (schema_k8sio_api_core_v1_FlexPersistentVolumeSource ref)"
  "definition_ok ref (schema_k8sio_api_core_v1_GlusterfsPersistentVolumeSource ref)"
  "definition_ok ref (schema_k8sio_api_core_v1_ISCSIPersistentVolumeSource ref)"
  "definition_ok ref (schema_k8sio_api_core_v1_LocalVolumeSource ref)"
  unfolding definition_ok_def
  by (simp_all add:
        schema_k8sio_api_core_v1_AzureFilePersistentVolumeSource_def
        schema_k8sio_api_core_v1_CSIPersistentVolumeSource_def
        schema_k8sio_api_core_v1_CephFSPersistentVolumeSource_def
        schema_k8sio_api_core_v1_CinderPersistentVolumeSource_def
        schema_k8sio_api_core_v1_FlexPersistentVolumeSource_def
        schema_k8sio_api_core_v1_GlusterfsPersistentVolumeSource_def
        schema_k8sio_api_core_v1_ISCSIPersistentVolumeSource_def
        schema_k8sio_api_core_v1_LocalVolumeSource_def)

lemma openapi_storage_ok_2:
  "definition_ok ref (schema_k8sio_api_core_v1_PersistentVolume ref)"
  "definition_ok ref (schema_k8sio_api_core_v1_PersistentVolumeClaim ref)"
  "definition_ok ref (schema_k8sio_api_core_v1_PersistentVolumeClaimCondition ref)"
  "definition_ok ref (schema_k8sio_api_core_v1_PersistentVolumeClaimList ref)"
  "definition_ok ref (schema_k8sio_api_core_v1_PersistentVolumeClaimStatus ref)"
  "definition_ok ref (schema_k8sio_api_core_v1_PersistentVolumeList ref)"
  "definition_ok ref (schema_k8sio_api_core_v1_PersistentVolumeSource ref)"
  "definition_ok ref (schema_k8sio_api_core_v1_PersistentVolumeSpec ref)"
  unfolding definition_ok_def
  by (simp_all add:
        schema_k8sio_api_core_v1_PersistentVolume_def
        schema_k8sio_api_core_v1_PersistentVolumeClaim_def
        schema_k8sio_api_core_v1_PersistentVolumeClaimCondition_def
        schema_k8sio_api_core_v1_PersistentVolumeClaimList_def
        schema_k8sio_api_core_v1_PersistentVolumeClaimStatus_def
        schema_k8sio_api_core_v1_PersistentVolumeList_def
        schema_k8sio_api_core_v1_PersistentVolumeSource_def
        schema_k8sio_api_core_v1_PersistentVolumeSpec_def)

lemma openapi_storage_ok_3:
  "definition_ok ref (schema_k8sio_api_core_v1_PersistentVolumeStatus ref)"
  "definition_ok ref (schema_k8sio_api_core_v1_RBDPersistentVolumeSource ref)"
  "definition_ok ref (schema_k8sio_api_core_v1_ScaleIOPersistentVolumeSource ref)"
  "definition_ok ref (schema_k8sio_api_core_v1_SecretReference ref)"
  "definition_ok ref (schema_k8sio_api_core_v1_StorageOSPersistentVolumeSource ref)"
  "definition_ok ref (schema_k8sio_api_core_v1_VolumeNodeAffinity ref)"
  "definition_ok ref (schema_k8sio_api_core_v1_VolumeSource ref)"
  "definition_ok ref (schema_k8sio_api_storage_v1_CSIDriver ref)"
  unfolding definition_ok_def
  by (simp_all add:
        schema_k8sio_api_core_v1_PersistentVolumeStatus_def
        schema_k8sio_api_core_v1_RBDPersistentVolumeSource_def
        schema_k8sio_api_core_v1_ScaleIOPersistentVolumeSource_def
        schema_k8sio_api_core_v1_SecretReference_def
        schema_k8sio_api_core_v1_StorageOSPersistentVolumeSource_def
        schema_k8sio_api_core_v1_VolumeNodeAffinity_def
        schema_k8sio_api_core_v1_VolumeSource_def
        schema_k8sio_api_storage_v1_CSIDriver_def)

lemma openapi_storage_ok_4:
  "definition_ok ref (schema_k8sio_api_storage_v1_CSIDriverList ref)"
  "definition_ok ref (schema_k8sio_api_storage_v1_CSIDriverSpec ref)"
  "definition_ok ref (schema_k8sio_api_storage_v1_CSINode ref)"
  "definition_ok ref (schema_k8sio_api_storage_v1_CSINodeDriver ref)"
  "definition_ok ref (schema_k8sio_api_storage_v1_CSINodeList ref)"
  "definition_ok ref (schema_k8sio_api_storage_v1_CSINodeSpec ref)"
  "definition_ok ref (schema_k8sio_api_storage_v1_StorageClass ref)"
  "definition_ok ref (schema_k8sio_api_storage_v1_StorageClassList ref)"
  unfolding definition_ok_def
  by (simp_all add:
        schema_k8sio_api_storage_v1_CSIDriverList_def
        schema_k8sio_api_storage_v1_CSIDriverSpec_def
        schema_k8sio_api_storage_v1_CSINode_def
        schema_k8sio_api_storage_v1_CSINodeDriver_def
        schema_k8sio_api_storage_v1_CSINodeList_def
        schema_k8sio_api_storage_v1_CSINodeSpec_def
        schema_k8sio_api_storage_v1_StorageClass_def
        schema_k8sio_api_storage_v1_StorageClassList_def)

lemma openapi_storage_ok_5:
  "definition_ok ref (schema_k8sio_api_storage_v1_TokenRequest ref)"
  "definition_ok ref (schema_k8sio_api_storage_v1_VolumeAttachment ref)"
  "definition_ok ref (schema_k8sio_api_storage_v1_VolumeAttachmentList ref)"
  "definition_ok ref (schema_k8sio_api_storage_v1_VolumeAttachmentSource ref)"
  "definition_ok ref (schema_k8sio_api_storage_v1_VolumeAttachmentSpec ref)"
  "definition_ok ref (schema_k8sio_api_storage_v1_VolumeAttachmentStatus ref)"
  "definition_ok ref (schema_k8sio_api_storage_v1_VolumeError ref)"
  "definition_ok ref (schema_k8sio_api_storage_v1_VolumeNodeResources ref)"
  unfolding definition_ok_def
  by (simp_all add:
        schema_k8sio_api_storage_v1_TokenRequest_def
        schema_k8sio_api_storage_v1_VolumeAttachment_def
        schema_k8sio_api_storage_v1_VolumeAttachmentList_def
        schema_k8sio_api_storage_v1_VolumeAttachmentSource_def
        schema_k8sio_api_storage_v1_VolumeAttachmentSpec_def
        schema_k8sio_api_storage_v1_VolumeAttachmentStatus_def
        schema_k8sio_api_storage_v1_VolumeError_def
        schema_k8sio_api_storage_v1_VolumeNodeResources_def)

lemmas openapi_storage_ok =
  openapi_storage_ok_1
  openapi_storage_ok_2
  openapi_storage_ok_3
  openapi_storage_ok_4
  openapi_storage_ok_5

end
