(* ===== verification/OpenAPI_Scheduler.thy ===== *)
theory OpenAPI_Scheduler
  imports OpenAPI
begin

text \<open>
  The definitions of \<open>zz_generated.openapi.go\<close> for the configuration of the Kubernetes scheduler and the arguments of its plugins.
\<close>

definition schema_k8sio_kube_scheduler_config_v1_ExtenderManagedResource :: "(string \<Rightarrow> 'r) \<Rightarrow> 'r openapi_definition" where
  "schema_k8sio_kube_scheduler_config_v1_ExtenderManagedResource ref =
    \<lparr>defSchema = Schema [Description ''ExtenderManagedResource describes the arguments of extended resources managed by an extender.'',
      Type [''object''],
      Properties [
      (''name'', Schema [Description ''Name is the extended resource name.'',
          Default (JString ''''),
          Type [''string''],
          Format '''']),
      (''ignoredByScheduler'', Schema [Description ''IgnoredByScheduler indicates whether kube-scheduler should ignore this resource when applying predicates.'',
          Type [''boolean''],
          Format ''''])],
      Required [''name'']],
     Dependencies = []\<rparr>"

definition schema_k8sio_kube_scheduler_config_v1_ExtenderTLSConfig :: "(string \<Rightarrow> 'r) \<Rightarrow> 'r openapi_definition" where
  "schema_k8sio_kube_scheduler_config_v1_ExtenderTLSConfig ref =
    \<lparr>defSchema = Schema [Description ''ExtenderTLSConfig contains settings to enable TLS with extender'',
      Type [''object''],
      Properties [
      (''insecure'', Schema [Description ''Server should be accessed without verifying the TLS certificate. For testing only.'',
          Type [''boolean''],
          Format '''']),
      (''serverName'', Schema [Description ''ServerName is passed to the server for SNI and is used in the client to check server certificates against. If ServerName is empty, the hostname used to contact the server is used.'',
          Type [''string''],
          Format '''']),
      (''certFile'', Schema [Description ''Server requires TLS client certificate authentication'',
          Type [''string''],
          Format '''']),
      (''keyFile'', Schema [Description ''Server requires TLS client certificate authentication'',
          Type [''string''],
          Format '''']),
      (''caFile'', Schema [Description ''Trusted root certificates for server'',
          Type [''string''],
          Format '''']),
      (''certData'', Schema [Description ''CertData holds PEM-encoded bytes (typically read from a client certificate file). CertData takes precedence over CertFile'',
          Type [''string''],
          Format ''byte'']),
      (''keyData'', Schema [Description ''KeyData holds PEM-encoded bytes (typically read from a client certificate key file). KeyData takes precedence over KeyFile'',
          Type [''string''],
          Format ''byte'']),
      (''caData'', Schema [Description ''CAData holds PEM-encoded bytes (typically read from a root certificates bundle). CAData takes precedence over CAFile'',
          Type [''string''],
          Format ''byte''])]],
     Dependencies = []\<rparr>"

definition schema_k8sio_kube_scheduler_config_v1_LabelPreference :: "(string \<Rightarrow> 'r) \<Rightarrow> 'r openapi_definition" where
  "schema_k8sio_kube_scheduler_config_v1_LabelPreference ref =
    \<lparr>defSchema = Schema [Description ''LabelPreference holds the parameters that are used to configure the corresponding priority function'',
      Type [''object''],
      Properties [
      (''label'', Schema [Description ''Used to identify node \"groups\"'',
          Default (JString ''''),
          Type [''string''],
          Format '''']),
      (''presence'', Schema [Description ''This is a boolean flag If true, higher priority is given to nodes that have the label If false, higher priority is given to nodes that do not have the label'',
          Default (JBool False),
          Type [''boolean''],
          Format ''''])],
      Required [''label'', ''presence'']],
     Dependencies = []\<rparr>"

definition schema_k8sio_kube_scheduler_config_v1_LabelsPresence :: "(string \<Rightarrow> 'r) \<Rightarrow> 'r openapi_definition" where
  "schema_k8sio_kube_scheduler_config_v1_LabelsPresence ref =
    \<lparr>defSchema = Schema [Description ''LabelsPresence holds the parameters that are used to configure the corresponding predicate in scheduler policy configuration.'',
      Type [''object''],
      Properties [
      (''labels'', Schema [Description ''The list of labels that identify node \"groups\" All of the labels should be either present (or absent) for the node to be considered a fit for hosting the pod'',
          Type [''array''],
          Items (Schema [Default (JString ''''),
            Type [''string''],
            Format ''''])]),
      (''presence'', Schema [Description ''The boolean flag that indicates whether the labels should be present or absent from the node'',
          Default (JBool False),
          Type [''boolean''],
          Format ''''])],
      Required [''labels'', ''presence'']],
     Dependencies = []\<rparr>"

definition schema_k8sio_kube_scheduler_config_v1_LegacyExtender :: "(string \<Rightarrow> 'r) \<Rightarrow> 'r openapi_definition" where
  "schema_k8sio_kube_scheduler_config_v1_LegacyExtender ref =
    \<lparr>defSchema = Schema [Description ''LegacyExtender holds the parameters used to communicate with the extender. If a verb is unspecified/empty, it is assumed that the extender chose not to provide that extension.'',
      Type [''object''],
      Properties [
      (''urlPrefix'', Schema [Description ''URLPrefix at which the extender is available'',
          Default (JString ''''),
          Type [''string''],
          Format '''']),
      (''filterVerb'', Schema [Description ''Verb for the filter call, empty if not supported. This verb is appended to the URLPrefix when issuing the filter call to extender.'',
          Type [''string''],
          Format '''']),
      (''preemptVerb'', Schema [Description ''Verb for the preempt call, empty if not supported. This verb is appended to the URLPrefix when issuing the preempt call to extender.'',
          Type [''string''],
          Format '''']),
      (''prioritizeVerb'', Schema [Description ''Verb for the prioritize call, empty if not supported. This verb is appended to the URLPrefix when issuing the prioritize call to extender.'',
          Type [''string''],
          Format '''']),
      (''weight'', Schema [Description ''The numeric multiplier for the node scores that the prioritize call generates. The weight should be a positive integer'',
          Type [''integer''],
          Format ''int64'']),
      (''bindVerb'', Schema [Description ''Verb for the bind call, empty if not supported. This verb is appended to the URLPrefix when issuing the bind call to extender. If this method is implemented by the extender, it is the extender's responsibility to bind the pod to apiserver. Only one extender can implement this function.'',
          Type [''string''],
          Format '''']),
      (''enableHttps'', Schema [Description ''EnableHTTPS specifies whether https should be used to communicate with the extender'',
          Type [''boolean''],
          Format '''']),
      (''tlsConfig'', Schema [Description ''TLSConfig specifies the transport layer security config'',
          Ref (ref ''k8s.io/kube-scheduler/config/v1.ExtenderTLSConfig'')]),
      (''httpTimeout'', Schema [Description ''HTTPTimeout specifies the timeout duration for a call to the extender. Filter timeout fails the scheduling of the pod. Prioritize timeout is ignored, k8s/other extenders priorities are used to select the node.'',
          Type [''integer''],
          Format ''int64'']),
      (''nodeCacheCapable'', Schema [Description ''NodeCacheCapable specifies that the extender is capable of caching node information, so the scheduler should only send minimal information about the eligible nodes assuming that the extender already cached full details of all nodes in the cluster'',
          Type [''boolean''],
          Format '''']),
      (''managedResources'', Schema [Description (''ManagedResources is a list of extended resources that are managed by this extender. - A pod will be sent to the extender on the Filter, Prioritize and Bind'' @ [CHR 0x0A] @ ''  (if the extender is the binder) phases iff the pod requests at least'' @ [CHR 0x0A] @ ''  one of the extended resources in this list. If empty or unspecified,'' @ [CHR 0x0A] @ ''  all pods will be sent to this extender.'' @ [CHR 0x0A] @ ''- If IgnoredByScheduler is set to true for a resource, kube-scheduler'' @ [CHR 0x0A] @ ''  will skip checking the resource in predicates.''),
          Type [''array''],
          Items (Schema [Default (JObject []),
            Ref (ref ''k8s.io/kube-scheduler/config/v1.ExtenderManagedResource'')])]),
      (''ignorable'', Schema [Description ''Ignorable specifies if the extender is ignorable, i.e. scheduling should not fail when the extender returns an error or is not reachable.'',
          Type [''boolean''],
          Format ''''])],
      Required [''urlPrefix'']],
     Dependencies = [''k8s.io/kube-scheduler/config/v1.ExtenderManagedResource'',
     ''k8s.io/kube-scheduler/config/v1.ExtenderTLSConfig'']\<rparr>"

definition schema_k8sio_kube_scheduler_config_v1_Policy :: "(string \<Rightarrow> 'r) \<Rightarrow> 'r openapi_definition" where
  "schema_k8sio_kube_scheduler_config_v1_Policy ref =
    \<lparr>defSchema = Schema [Description ''Policy describes a struct for a policy resource used in api.'',
      Type [''object''],
      Properties [
      (''kind'', Schema [Description ''Kind is a string value representing the REST resource this object represents. Servers may infer this from the endpoint the client submits requests to. Cannot be updated. In CamelCase. More info: https://git.k8s.io/community/contributors/devel/sig-architecture/api-conventions.md#types-kinds'',
          Type [''string''],
          Format '''']),
      (''apiVersion'', Schema [Description ''APIVersion defines the versioned schema of this representation of an object. Servers should convert recognized schemas to the latest internal value, and may reject unrecognized values. More info: https://git.k8s.io/community/contributors/devel/sig-architecture/api-conventions.md#resources'',
          Type [''string''],
          Format '''']),
      (''predicates'', Schema [Description ''Holds the information to configure the fit predicate functions'',
          Type [''array''],
          Items (Schema [Default (JObject []),
            Ref (ref ''k8s.io/kube-scheduler/config/v1.PredicatePolicy'')])]),
      (''priorities'', Schema [Description ''Holds the information to configure the priority functions'',
          Type [''array''],
          Items (Schema [Default (JObject []),
            Ref (ref ''k8s.io/kube-scheduler/config/v1.PriorityPolicy'')])]),
      (''extenders'', Schema [Description ''Holds the information to communicate with the extender(s)'',
          Type [''array''],
          Items (Schema [Default (JObject []),
            Ref (ref ''k8s.io/kube-scheduler/config/v1.LegacyExtender'')])]),
      (''hardPodAffinitySymmetricWeight'', Schema [Description ''RequiredDuringScheduling affinity is not symmetric, but there is an implicit PreferredDuringScheduling affinity rule corresponding to every RequiredDuringScheduling affinity rule. HardPodAffinitySymmetricWeight represents the weight of implicit PreferredDuringScheduling affinity rule, in the range 1-100.'',
          Default (JNumber 0),
          Type [''integer''],
          Format ''int32'']),
      (''alwaysCheckAllPredicates'', Schema [Description ''When AlwaysCheckAllPredicates is set to true, scheduler checks all the configured predicates even after one or more of them fails. When the flag is set to false, scheduler skips checking the rest of the predicates after it finds one predicate that failed.'',
          Default (JBool False),
          Type [''boolean''],
          Format ''''])],
      Required [''predicates'', ''priorities'', ''extenders'', ''hardPodAffinitySymmetricWeight'', ''alwaysCheckAllPredicates'']],
     Dependencies = [''k8s.io/kube-scheduler/config/v1.LegacyExtender'',
     ''k8s.io/kube-scheduler/config/v1.PredicatePolicy'',
     ''k8s.io/kube-scheduler/config/v1.PriorityPolicy'']\<rparr>"

definition schema_k8sio_kube_scheduler_config_v1_PredicateArgument :: "(string \<Rightarrow> 'r) \<Rightarrow> 'r openapi_definition" where
  "schema_k8sio_kube_scheduler_config_v1_PredicateArgument ref =
    \<lparr>defSchema = Schema [Description ''PredicateArgument represents the arguments to configure predicate functions in scheduler policy configuration. Only one of its members may be specified'',
      Type [''object''],
      Properties [
      (''serviceAffinity'', Schema [Description ''The predicate that provides affinity for pods belonging to a service It uses a label to identify nodes that belong to the same \"group\"'',
          Ref (ref ''k8s.io/kube-scheduler/config/v1.ServiceAffinity'')]),
      (''labelsPresence'', Schema [Description ''The predicate that checks whether a particular node has a certain label defined or not, regardless of value'',
          Ref (ref ''k8s.io/kube-scheduler/config/v1.LabelsPresence'')])],
      Required [''serviceAffinity'', ''labelsPresence'']],
     Dependencies = [''k8s.io/kube-scheduler/config/v1.LabelsPresence'',
     ''k8s.io/kube-scheduler/config/v1.ServiceAffinity'']\<rparr>"

definition schema_k8sio_kube_scheduler_config_v1_PredicatePolicy :: "(string \<Rightarrow> 'r) \<Rightarrow> 'r openapi_definition" where
  "schema_k8sio_kube_scheduler_config_v1_PredicatePolicy ref =
    \<lparr>defSchema = Schema [Description ''PredicatePolicy describes a struct of a predicate policy.'',
      Type [''object''],
      Properties [
      (''name'', Schema [Description ''Identifier of the predicate policy For a custom predicate, the name can be user-defined For the Kubernetes provided predicates, the name is the identifier of the pre-defined predicate'',
          Default (JString ''''),
          Type [''string''],
          Format '''']),
      (''argument'', Schema [Description ''Holds the parameters to configure the given predicate'',
          Ref (ref ''k8s.io/kube-scheduler/config/v1.PredicateArgument'')])],
      Required [''name'', ''argument'']],
     Dependencies = [''k8s.io/kube-scheduler/config/v1.PredicateArgument'']\<rparr>"

definition schema_k8sio_kube_scheduler_config_v1_PriorityArgument :: "(string \<Rightarrow> 'r) \<Rightarrow> 'r openapi_definition" where
  "schema_k8sio_kube_scheduler_config_v1_PriorityArgument ref =
    \<lparr>defSchema = Schema [Description ''PriorityArgument represents the arguments to configure priority functions in scheduler policy configuration. Only one of its members may be specified'',
      Type [''object''],
      Properties [
      (''serviceAntiAffinity'', Schema [Description ''The priority function that ensures a good spread (anti-affinity) for pods belonging to a service It uses a label to identify nodes that belong to the same \"group\"'',
          Ref (ref ''k8s.io/kube-scheduler/config/v1.ServiceAntiAffinity'')]),
      (''labelPreference'', Schema [Description ''The priority function that checks whether a particular node has a certain label defined or not, regardless of value'',
          Ref (ref ''k8s.io/kube-scheduler/config/v1.LabelPreference'')]),
      (''requestedToCapacityRatioArguments'', Schema [Description ''The RequestedToCapacityRatio priority function is parametrized with function shape.'',
          Ref (ref ''k8s.io/kube-scheduler/config/v1.RequestedToCapacityRatioArguments'')])],
      Required [''serviceAntiAffinity'', ''labelPreference'', ''requestedToCapacityRatioArguments'']],
     Dependencies = [''k8s.io/kube-scheduler/config/v1.LabelPreference'',
     ''k8s.io/kube-scheduler/config/v1.RequestedToCapacityRatioArguments'',
     ''k8s.io/kube-scheduler/config/v1.ServiceAntiAffinity'']\<rparr>"

definition schema_k8sio_kube_scheduler_config_v1_PriorityPolicy :: "(string \<Rightarrow> 'r) \<Rightarrow> 'r openapi_definition" where
  "schema_k8sio_kube_scheduler_config_v1_PriorityPolicy ref =
    \<lparr>defSchema = Schema [Description ''PriorityPolicy describes a struct of a priority policy.'',
      Type [''object''],
      Properties [
      (''name'', Schema [Description ''Identifier of the priority policy For a custom priority, the name can be user-defined For the Kubernetes provided priority functions, the name is the identifier of the pre-defined priority function'',
          Default (JString ''''),
          Type [''string''],
          Format '''']),
      (''weight'', Schema [Description ''The numeric multiplier for the node scores that the priority function generates The weight should be non-zero and can be a positive or a negative integer'',
          Default (JNumber 0),
          Type [''integer''],
          Format ''int64'']),
      (''argument'', Schema [Description ''Holds the parameters to configure the given priority function'',
          Ref (ref ''k8s.io/kube-scheduler/config/v1.PriorityArgument'')])],
      Required [''name'', ''weight'', ''argument'']],
     Dependencies = [''k8s.io/kube-scheduler/config/v1.PriorityArgument'']\<rparr>"

definition schema_k8sio_kube_scheduler_config_v1_RequestedToCapacityRatioArguments :: "(string \<Rightarrow> 'r) \<Rightarrow> 'r openapi_definition" where
  "schema_k8sio_kube_scheduler_config_v1_RequestedToCapacityRatioArguments ref =
    \<lparr>defSchema = Schema [Description ''RequestedToCapacityRatioArguments holds arguments specific to RequestedToCapacityRatio priority function.'',
      Type [''object''],
      Properties [
      (''shape'', Schema [Description ''Array of point defining priority function shape.'',
          Type [''array''],
          Items (Schema [Default (JObject []),
            Ref (ref ''k8s.io/kube-scheduler/config/v1.UtilizationShapePoint'')])]),
      (''resources'', Schema [Type [''array''],
          Items (Schema [Default (JObject []),
            Ref (ref ''k8s.io/kube-scheduler/config/v1.ResourceSpec'')])])],
      Required [''shape'']],
     Dependencies = [''k8s.io/kube-scheduler/config/v1.ResourceSpec'',
     ''k8s.io/kube-scheduler/config/v1.UtilizationShapePoint'']\<rparr>"

definition schema_k8sio_kube_scheduler_config_v1_ResourceSpec :: "(string \<Rightarrow> 'r) \<Rightarrow> 'r openapi_definition" where
  "schema_k8sio_kube_scheduler_config_v1_ResourceSpec ref =
    \<lparr>defSchema = Schema [Description ''ResourceSpec represents single resource and weight for bin packing of priority RequestedToCapacityRatioArguments.'',
      Type [''object''],
      Properties [
      (''name'', Schema [Description ''Name of the resource to be managed by RequestedToCapacityRatio function.'',
          Default (JString ''''),
          Type [''string''],
          Format '''']),
      (''weight'', Schema [Description ''Weight of the resource.'',
          Type [''integer''],
          Format ''int64''])],
      Required [''name'']],
     Dependencies = []\<rparr>"

definition schema_k8sio_kube_scheduler_config_v1_ServiceAffinity :: "(string \<Rightarrow> 'r) \<Rightarrow> 'r openapi_definition" where
  "schema_k8sio_kube_scheduler_config_v1_ServiceAffinity ref =
    \<lparr>defSchema = Schema [Description ''ServiceAffinity holds the parameters that are used to configure the corresponding predicate in scheduler policy configuration.'',
      Type [''object''],
      Properties [
      (''labels'', Schema [Description ''The list of labels that identify node \"groups\" All of the labels should match for the node to be considered a fit for hosting the pod'',
          Type [''array''],
          Items (Schema [Default (JString ''''),
            Type [''string''],
            Format ''''])])],
      Required [''labels'']],
     Dependencies = []\<rparr>"

definition schema_k8sio_kube_scheduler_config_v1_ServiceAntiAffinity :: "(string \<Rightarrow> 'r) \<Rightarrow> 'r openapi_definition" where
  "schema_k8sio_kube_scheduler_config_v1_ServiceAntiAffinity ref =
    \<lparr>defSchema = Schema [Description ''ServiceAntiAffinity holds the parameters that are used to configure the corresponding priority function'',
      Type [''object''],
      Properties [
      (''label'', Schema [Description ''Used to identify node \"groups\"'',
          Default (JString ''''),
          Type [''string''],
          Format ''''])],
      Required [''label'']],
     Dependencies = []\<rparr>"

definition schema_k8sio_kube_scheduler_config_v1_UtilizationShapePoint :: "(string \<Rightarrow> 'r) \<Rightarrow> 'r openapi_definition" where
  "schema_k8sio_kube_scheduler_config_v1_UtilizationShapePoint ref =
    \<lparr>defSchema = Schema [Description ''UtilizationShapePoint represents single point of priority function shape.'',
      Type [''object''],
      Properties [
      (''utilization'', Schema [Description ''Utilization (x axis). Valid values are 0 to 100. Fully utilized node maps to 100.'',
          Default (JNumber 0),
          Type [''integer''],
          Format ''int32'']),
      (''score'', Schema [Description ''Score assigned to given utilization (y axis). Valid values are 0 to 10.'',
          Default (JNumber 0),
          Type [''integer''],
          Format ''int32''])],
      Required [''utilization'', ''score'']],
     Dependencies = []\<rparr>"

definition schema_k8sio_kube_scheduler_config_v1beta2_DefaultPreemptionArgs :: "(string \<Rightarrow> 'r) \<Rightarrow> 'r openapi_definition" where
  "schema_k8sio_kube_scheduler_config_v1beta2_DefaultPreemptionArgs ref =
    \<lparr>defSchema = Schema [Description ''DefaultPreemptionArgs holds arguments used to configure the DefaultPreemption plugin.'',
      Type [''object''],
      Properties [
      (''kind'', Schema [Description ''Kind is a string value representing the REST resource this object represents. Servers may infer this from the endpoint the client submits requests to. Cannot be updated. In CamelCase. More info: https://git.k8s.io/community/contributors/devel/sig-architecture/api-conventions.md#types-kinds'',
          Type [''string''],
          Format '''']),
      (''apiVersion'', Schema [Description ''APIVersion defines the versioned schema of this representation of an object. Servers should convert recognized schemas to the latest internal value, and may reject unrecognized values. More info: https://git.k8s.io/community/contributors/devel/sig-architecture/api-conventions.md#resources'',
          Type [''string''],
          Format '''']),
      (''minCandidateNodesPercentage'', Schema [Description ''MinCandidateNodesPercentage is the minimum number of candidates to shortlist when dry running preemption as a percentage of number of nodes. Must be in the range [0, 100]. Defaults to 10% of the cluster size if unspecified.'',
          Type [''integer''],
          Format ''int32'']),
      (''minCandidateNodesAbsolute'', Schema [Description ''MinCandidateNodesAbsolute is the absolute minimum number of candidates to shortlist. The likely number of candidates enumerated for dry running preemption is given by the formula: numCandidates = max(numNodes * minCandidateNodesPercentage, minCandidateNodesAbsolute) We say \"likely\" because there are other factors such as PDB violations that play a role in the number of candidates shortlisted. Must be at least 0 nodes. Defaults to 100 nodes if unspecified.'',
          Type [''integer''],
          Format ''int32''])]],
     Dependencies = []\<rparr>"

definition schema_k8sio_kube_scheduler_config_v1beta2_Extender :: "(string \<Rightarrow> 'r) \<Rightarrow> 'r openapi_definition" where
  "schema_k8sio_kube_scheduler_config_v1beta2_Extender ref =
    \<lparr>defSchema = Schema [Description ''Extender holds the parameters used to communicate with the extender. If a verb is unspecified/empty, it is assumed that the extender chose not to provide that extension.'',
      Type [''object''],
      Properties [
      (''urlPrefix'', Schema [Description ''URLPrefix at which the extender is available'',
          Default (JString ''''),
          Type [''string''],
          Format '''']),
      (''filterVerb'', Schema [Description ''Verb for the filter call, empty if not supported. This verb is appended to the URLPrefix when issuing the filter call to extender.'',
          Type [''string''],
          Format '''']),
      (''preemptVerb'', Schema [Description ''Verb for the preempt call, empty if not supported. This verb is appended to the URLPrefix when issuing the preempt call to extender.'',
          Type [''string''],
          Format '''']),
      (''prioritizeVerb'', Schema [Description ''Verb for the prioritize call, empty if not supported. This verb is appended to the URLPrefix when issuing the prioritize call to extender.'',
          Type [''string''],
          Format '''']),
      (''weight'', Schema [Description ''The numeric multiplier for the node scores that the prioritize call generates. The weight should be a positive integer'',
          Type [''integer''],
          Format ''int64'']),
      (''bindVerb'', Schema [Description ''Verb for the bind call, empty if not supported. This verb is appended to the URLPrefix when issuing the bind call to extender. If this method is implemented by the extender, it is the extender's responsibility to bind the pod to apiserver. Only one extender can implement this function.'',
          Type [''string''],
          Format '''']),
      (''enableHTTPS'', Schema [Description ''EnableHTTPS specifies whether https should be used to communicate with the extender'',
          Type [''boolean''],
          Format '''']),
      (''tlsConfig'', Schema [Description ''TLSConfig specifies the transport layer security config'',
          Ref (ref ''k8s.io/kube-scheduler/config/v1.ExtenderTLSConfig'')]),
      (''httpTimeout'', Schema [Description ''HTTPTimeout specifies the timeout duration for a call to the extender. Filter timeout fails the scheduling of the pod. Prioritize timeout is ignored, k8s/other extenders priorities are used to select the node.'',
          Default (JObject []),
          Ref (ref ''k8s.io/apimachinery/pkg/apis/meta/v1.Duration'')]),
      (''nodeCacheCapable'', Schema [Description ''NodeCacheCapable specifies that the extender is capable of caching node information, so the scheduler should only send minimal information about the eligible nodes assuming that the extender already cached full details of all nodes in the cluster'',
          Type [''boolean''],
          Format '''']),
      (''managedResources'', Schema [Extensions [(''x-kubernetes-list-type'', JString ''atomic'')],
          Description (''ManagedResources is a list of extended resources that are managed by this extender. - A pod will be sent to the extender on the Filter, Prioritize and Bind'' @ [CHR 0x0A] @ ''  (if the extender is the binder) phases iff the pod requests at least'' @ [CHR 0x0A] @ ''  one of the extended resources in this list. If empty or unspecified,'' @ [CHR 0x0A] @ ''  all pods will be sent to this extender.'' @ [CHR 0x0A] @ ''- If IgnoredByScheduler is set to true for a resource, kube-scheduler'' @ [CHR 0x0A] @ ''  will skip checking the resource in predicates.''),
          Type [''array''],
          Items (Schema [Default (JObject []),
            Ref (ref ''k8s.io/kube-scheduler/config/v1.ExtenderManagedResource'')])]),
      (''ignorable'', Schema [Description ''Ignorable specifies if the extender is ignorable, i.e. scheduling should not fail when the extender returns an error or is not reachable.'',
          Type [''boolean''],
          Format ''''])],
      Required [''urlPrefix'']],
     Dependencies = [''k8s.io/apimachinery/pkg/apis/meta/v1.Duration'',
     ''k8s.io/kube-scheduler/config/v1.ExtenderManagedResource'',
     ''k8s.io/kube-scheduler/config/v1.ExtenderTLSConfig'']\<rparr>"

definition schema_k8sio_kube_scheduler_config_v1beta2_InterPodAffinityArgs :: "(string \<Rightarrow> 'r) \<Rightarrow> 'r openapi_definition" where
  "schema_k8sio_kube_scheduler_config_v1beta2_InterPodAffinityArgs ref =
    \<lparr>defSchema = Schema [Description ''InterPodAffinityArgs holds arguments used to configure the InterPodAffinity plugin.'',
      Type [''object''],
      Properties [
      (''kind'', Schema [Description ''Kind is a string value representing the REST resource this object represents. Servers may infer this from the endpoint the client submits requests to. Cannot be updated. In CamelCase. More info: https://git.k8s.io/community/contributors/devel/sig-architecture/api-conventions.md#types-kinds'',
          Type [''string''],
          Format '''']),
      (''apiVersion'', Schema [Description ''APIVersion defines the versioned schema of this representation of an object. Servers should convert recognized schemas to the latest internal value, and may reject unrecognized values. More info: https://git.k8s.io/community/contributors/devel/sig-architecture/api-conventions.md#resources'',
          Type [''string''],
          Format '''']),
      (''hardPodAffinityWeight'', Schema [Description ''HardPodAffinityWeight is the scoring weight for existing pods with a matching hard affinity to the incoming pod.'',
          Type [''integer''],
          Format ''int32''])]],
     Dependencies = []\<rparr>"

definition schema_k8sio_kube_scheduler_config_v1beta2_KubeSchedulerProfile :: "(string \<Rightarrow> 'r) \<Rightarrow> 'r openapi_definition" where
  "schema_k8sio_kube_scheduler_config_v1beta2_KubeSchedulerProfile ref =
    \<lparr>defSchema = Schema [Description ''KubeSchedulerProfile is a scheduling profile.'',
      Type [''object''],
      Properties [
      (''schedulerName'', Schema [Description ''SchedulerName is the name of the scheduler associated to this profile. If SchedulerName matches with the pod's \"spec.schedulerName\", then the pod is scheduled with this profile.'',
          Type [''string''],
          Format '''']),
      (''plugins'', Schema [Description ''Plugins specify the set of plugins that should be enabled or disabled. Enabled plugins are the ones that should be enabled in addition to the default plugins. Disabled plugins are any of the default plugins that should be disabled. When no enabled or disabled plugin is specified for an extension point, default plugins for that extension point will be used if there is any. If a QueueSort plugin is specified, the same QueueSort Plugin and PluginConfig must be specified for all profiles.'',
          Ref (ref ''k8s.io/kube-scheduler/config/v1beta2.Plugins'')]),
      (''pluginConfig'', Schema [Extensions [(''x-kubernetes-list-map-keys'', JArray [JString ''name'']), (''x-kubernetes-list-type'', JString ''map'')],
          Description ''PluginConfig is an optional set of custom plugin arguments for each plugin. Omitting config args for a plugin is equivalent to using the default config for that plugin.'',
          Type [''array''],
          Items (Schema [Default (JObject []),
            Ref (ref ''k8s.io/kube-scheduler/config/v1beta2.PluginConfig'')])])]],
     Dependencies = [''k8s.io/kube-scheduler/config/v1beta2.PluginConfig'',
     ''k8s.io/kube-scheduler/config/v1beta2.Plugins'']\<rparr>"

definition schema_k8sio_kube_scheduler_config_v1beta2_NodeAffinityArgs :: "(string \<Rightarrow> 'r) \<Rightarrow> 'r openapi_definition" where
  "schema_k8sio_kube_scheduler_config_v1beta2_NodeAffinityArgs ref =
    \<lparr>defSchema = Schema [Description ''NodeAffinityArgs holds arguments to configure the NodeAffinity plugin.'',
      Type [''object''],
      Properties [
      (''kind'', Schema [Description ''Kind is a string value representing the REST resource this object represents. Servers may infer this from the endpoint the client submits requests to. Cannot be updated. In CamelCase. More info: https://git.k8s.io/community/contributors/devel/sig-architecture/api-conventions.md#types-kinds'',
          Type [''string''],
          Format '''']),
      (''apiVersion'', Schema [Description ''APIVersion defines the versioned schema of this representation of an object. Servers should convert recognized schemas to the latest internal value, and may reject unrecognized values. More info: https://git.k8s.io/community/contributors/devel/sig-architecture/api-conventions.md#resources'',
          Type [''string''],
          Format '''']),
      (''addedAffinity'', Schema [Description ''AddedAffinity is applied to all Pods additionally to the NodeAffinity specified in the PodSpec. That is, Nodes need to satisfy AddedAffinity AND .spec.NodeAffinity. AddedAffinity is empty by default (all Nodes match). When AddedAffinity is used, some Pods with affinity requirements that match a specific Node (such as Daemonset Pods) might remain unschedulable.'',
          Ref (ref ''k8s.io/api/core/v1.NodeAffinity'')])]],
     Dependencies = [''k8s.io/api/core/v1.NodeAffinity'']\<rparr>"

definition schema_k8sio_kube_scheduler_config_v1beta2_NodeResourcesBalancedAllocationArgs :: "(string \<Rightarrow> 'r) \<Rightarrow> 'r openapi_definition" where
  "schema_k8sio_kube_scheduler_config_v1beta2_NodeResourcesBalancedAllocationArgs ref =
    \<lparr>defSchema = Schema [Description ''NodeResourcesBalancedAllocationArgs holds arguments used to configure NodeResourcesBalancedAllocation plugin.'',
      Type [''object''],
      Properties [
      (''kind'', Schema [Description ''Kind is a string value representing the REST resource this object represents. Servers may infer this from the endpoint the client submits requests to. Cannot be updated. In CamelCase. More info: https://git.k8s.io/community/contributors/devel/sig-architecture/api-conventions.md#types-kinds'',
          Type [''string''],
          Format '''']),
      (''apiVersion'', Schema [Description ''APIVersion defines the versioned schema of this representation of an object. Servers should convert recognized schemas to the latest internal value, and may reject unrecognized values. More info: https://git.k8s.io/community/contributors/devel/sig-architecture/api-conventions.md#resources'',
          Type [''string''],
          Format '''']),
      (''resources'', Schema [Extensions [(''x-kubernetes-list-map-keys'', JArray [JString ''name'']), (''x-kubernetes-list-type'', JString ''map'')],
          Description ''Resources to be managed, the default is \"cpu\" and \"memory\" if not specified.'',
          Type [''array''],
          Items (Schema [Default (JObject []),
            Ref (ref ''k8s.io/kube-scheduler/config/v1beta2.ResourceSpec'')])])]],
     Dependencies = [''k8s.io/kube-scheduler/config/v1beta2.ResourceSpec'']\<rparr>"

definition schema_k8sio_kube_scheduler_config_v1beta2_NodeResourcesFitArgs :: "(string \<Rightarrow> 'r) \<Rightarrow> 'r openapi_definition" where
  "schema_k8sio_kube_scheduler_config_v1beta2_NodeResourcesFitArgs ref =
    \<lparr>defSchema = Schema [Description ''NodeResourcesFitArgs holds arguments used to configure the NodeResourcesFit plugin.'',
      Type [''object''],
      Properties [
      (''kind'', Schema [Description ''Kind is a string value representing the REST resource this object represents. Servers may infer this from the endpoint the client submits requests to. Cannot be updated. In CamelCase. More info: https://git.k8s.io/community/contributors/devel/sig-architecture/api-conventions.md#types-kinds'',
          Type [''string''],
          Format '''']),
      (''apiVersion'', Schema [Description ''APIVersion defines the versioned schema of this representation of an object. Servers should convert recognized schemas to the latest internal value, and may reject unrecognized values. More info: https://git.k8s.io/community/contributors/devel/sig-architecture/api-conventions.md#resources'',
          Type [''string''],
          Format '''']),
      (''ignoredResources'', Schema [Extensions [(''x-kubernetes-list-type'', JString ''atomic'')],
          Description ''IgnoredResources is the list of resources that NodeResources fit filter should ignore. This doesn't apply to scoring.'',
          Type [''array''],
          Items (Schema [Default (JString ''''),
            Type [''string''],
            Format ''''])]),
      (''ignoredResourceGroups'', Schema [Extensions [(''x-kubernetes-list-type'', JString ''atomic'')],
          Description ''IgnoredResourceGroups defines the list of resource groups that NodeResources fit filter should ignore. e.g. if group is [\"example.com\"], it will ignore all resource names that begin with \"example.com\", such as \"example.com/aaa\" and \"example.com/bbb\". A resource group name can't contain '/'. This doesn't apply to scoring.'',
          Type [''array''],
          Items (Schema [Default (JString ''''),
            Type [''string''],
            Format ''''])]),
      (''scoringStrategy'', Schema [Description ''ScoringStrategy selects the node resource scoring strategy. The default strategy is LeastAllocated with an equal \"cpu\" and \"memory\" weight.'',
          Ref (ref ''k8s.io/kube-scheduler/config/v1beta2.ScoringStrategy'')])]],
     Dependencies = [''k8s.io/kube-scheduler/config/v1beta2.ScoringStrategy'']\<rparr>"

definition schema_k8sio_kube_scheduler_config_v1beta2_Plugin :: "(string \<Rightarrow> 'r) \<Rightarrow> 'r openapi_definition" where
  "schema_k8sio_kube_scheduler_config_v1beta2_Plugin ref =
    \<lparr>defSchema = Schema [Description ''Plugin specifies a plugin name and its weight when applicable. Weight is used only for Score plugins.'',
      Type [''object''],
      Properties [
      (''name'', Schema [Description ''Name defines the name of plugin'',
          Default (JString ''''),
          Type [''string''],
          Format '''']),
      (''weight'', Schema [Description ''Weight defines the weight of plugin, only used for Score plugins.'',
          Type [''integer''],
          Format ''int32''])],
      Required [''name'']],
     Dependencies = []\<rparr>"

definition schema_k8sio_kube_scheduler_config_v1beta2_PluginConfig :: "(string \<Rightarrow> 'r) \<Rightarrow> 'r openapi_definition" where
  "schema_k8sio_kube_scheduler_config_v1beta2_PluginConfig ref =
    \<lparr>defSchema = Schema [Description ''PluginConfig specifies arguments that should be passed to a plugin at the time of initialization. A plugin that is invoked at multiple extension points is initialized once. Args can have arbitrary structure. It is up to the plugin to process these Args.'',
      Type [''object''],
      Properties [
      (''name'', Schema [Description ''Name defines the name of plugin being configured'',
          Default (JString ''''),
          Type [''string''],
          Format '''']),
      (''args'', Schema [Description ''Args defines the arguments passed to the plugins at the time of initialization. Args can have arbitrary structure.'',
          Default (JObject []),
          Ref (ref ''k8s.io/apimachinery/pkg/runtime.RawExtension'')])],
      Required [''name'']],
     Dependencies = [''k8s.io/apimachinery/pkg/runtime.RawExtension'']\<rparr>"

definition schema_k8sio_kube_scheduler_config_v1beta2_PluginSet :: "(string \<Rightarrow> 'r) \<Rightarrow> 'r openapi_definition" where
  "schema_k8sio_kube_scheduler_config_v1beta2_PluginSet ref =
    \<lparr>defSchema = Schema [Description ''PluginSet specifies enabled and disabled plugins for an extension point. If an array is empty, missing, or nil, default plugins at that extension point will be used.'',
      Type [''object''],
      Properties [
      (''enabled'', Schema [Extensions [(''x-kubernetes-list-type'', JString ''atomic'')],
          Description ''Enabled specifies plugins that should be enabled in addition to default plugins. If the default plugin is also configured in the scheduler config file, the weight of plugin will be overridden accordingly. These are called after default plugins and in the same order specified here.'',
          Type [''array''],
          Items (Schema [Default (JObject []),
            Ref (ref ''k8s.io/kube-scheduler/config/v1beta2.Plugin'')])]),
      (''disabled'', Schema [Extensions [(''x-kubernetes-list-map-keys'', JArray [JString ''name'']), (''x-kubernetes-list-type'', JString ''map'')],
          Description ''Disabled specifies default plugins that should be disabled. When all default plugins need to be disabled, an array containing only one \"*\" should be provided.'',
          Type [''array''],
          Items (Schema [Default (JObject []),
            Ref (ref ''k8s.io/kube-scheduler/config/v1beta2.Plugin'')])])]],
     Dependencies = [''k8s.io/kube-scheduler/config/v1beta2.Plugin'']\<rparr>"

definition schema_k8sio_kube_scheduler_config_v1beta2_Plugins :: "(string \<Rightarrow> 'r) \<Rightarrow> 'r openapi_definition" where
  "schema_k8sio_kube_scheduler_config_v1beta2_Plugins ref =
    \<lparr>defSchema = Schema [Description ''Plugins include multiple extension points. When specified, the list of plugins for a particular extension point are the only ones enabled. If an extension point is omitted from the config, then the default set of plugins is used for that extension point. Enabled plugins are called in the order specified here, after default plugins. If they need to be invoked before default plugins, default plugins must be disabled and re-enabled here in desired order.'',
      Type [''object''],
      Properties [
      (''queueSort'', Schema [Description ''QueueSort is a list of plugins that should be invoked when sorting pods in the scheduling queue.'',
          Default (JObject []),
          Ref (ref ''k8s.io/kube-scheduler/config/v1beta2.PluginSet'')]),
      (''preFilter'', Schema [Description ''PreFilter is a list of plugins that should be invoked at \"PreFilter\" extension point of the scheduling framework.'',
          Default (JObject []),
          Ref (ref ''k8s.io/kube-scheduler/config/v1beta2.PluginSet'')]),
      (''filter'', Schema [Description ''Filter is a list of plugins that should be invoked when filtering out nodes that cannot run the Pod.'',
          Default (JObject []),
          Ref (ref ''k8s.io/kube-scheduler/config/v1beta2.PluginSet'')]),
      (''postFilter'', Schema [Description ''PostFilter is a list of plugins that are invoked after filtering phase, no matter whether filtering succeeds or not.'',
          Default (JObject []),
          Ref (ref ''k8s.io/kube-scheduler/config/v1beta2.PluginSet'')]),
      (''preScore'', Schema [Description ''PreScore is a list of plugins that are invoked before scoring.'',
          Default (JObject []),
          Ref (ref ''k8s.io/kube-scheduler/config/v1beta2.PluginSet'')]),
      (''score'', Schema [Description ''Score is a list of plugins that should be invoked when ranking nodes that have passed the filtering phase.'',
          Default (JObject []),
          Ref (ref ''k8s.io/kube-scheduler/config/v1beta2.PluginSet'')]),
      (''reserve'', Schema [Description ''Reserve is a list of plugins invoked when reserving/unreserving resources after a node is assigned to run the pod.'',
          Default (JObject []),
          Ref (ref ''k8s.io/kube-scheduler/config/v1beta2.PluginSet'')]),
      (''permit'', Schema [Description ''Permit is a list of plugins that control binding of a Pod. These plugins can prevent or delay binding of a Pod.'',
          Default (JObject []),
          Ref (ref ''k8s.io/kube-scheduler/config/v1beta2.PluginSet'')]),
      (''preBind'', Schema [Description ''PreBind is a list of plugins that should be invoked before a pod is bound.'',
          Default (JObject []),
          Ref (ref ''k8s.io/kube-scheduler/config/v1beta2.PluginSet'')]),
      (''bind'', Schema [Description ''Bind is a list of plugins that should be invoked at \"Bind\" extension point of the scheduling framework. The scheduler call these plugins in order. Scheduler skips the rest of these plugins as soon as one returns success.'',
          Default (JObject []),
          Ref (ref ''k8s.io/kube-scheduler/config/v1beta2.PluginSet'')]),
      (''postBind'', Schema [Description ''PostBind is a list of plugins that should be invoked after a pod is successfully bound.'',
          Default (JObject []),
          Ref (ref ''k8s.io/kube-scheduler/config/v1beta2.PluginSet'')])]],
     Dependencies = [''k8s.io/kube-scheduler/config/v1beta2.PluginSet'']\<rparr>"

definition schema_k8sio_kube_scheduler_config_v1beta2_PodTopologySpreadArgs :: "(string \<Rightarrow> 'r) \<Rightarrow> 'r openapi_definition" where
  "schema_k8sio_kube_scheduler_config_v1beta2_PodTopologySpreadArgs ref =
    \<lparr>defSchema = Schema [Description ''PodTopologySpreadArgs holds arguments used to configure the PodTopologySpread plugin.'',
      Type [''object''],
      Properties [
      (''kind'', Schema [Description ''Kind is a string value representing the REST resource this object represents. Servers may infer this from the endpoint the client submits requests to. Cannot be updated. In CamelCase. More info: https://git.k8s.io/community/contributors/devel/sig-architecture/api-conventions.md#types-kinds'',
          Type [''string''],
          Format '''']),
      (''apiVersion'', Schema [Description ''APIVersion defines the versioned schema of this representation of an object. Servers should convert recognized schemas to the latest internal value, and may reject unrecognized values. More info: https://git.k8s.io/community/contributors/devel/sig-architecture/api-conventions.md#resources'',
          Type [''string''],
          Format '''']),
      (''defaultConstraints'', Schema [Extensions [(''x-kubernetes-list-type'', JString ''atomic'')],
          Description ''DefaultConstraints defines topology spread constraints to be applied to Pods that don't define any in `pod.spec.topologySpreadConstraints`. `.defaultConstraints[*].labelSelectors` must be empty, as they are deduced from the Pod's membership to Services, ReplicationControllers, ReplicaSets or StatefulSets. When not empty, .defaultingType must be \"List\".'',
          Type [''array''],
          Items (Schema [Default (JObject []),
            Ref (ref ''k8s.io/api/core/v1.TopologySpreadConstraint'')])]),
      (''defaultingType'', Schema [Description (''DefaultingType determines how .defaultConstraints are deduced. Can be one of \"System\" or \"List\".'' @ [CHR 0x0A, CHR 0x0A] @ ''- \"System\": Use kubernetes defined constraints that spread Pods among'' @ [CHR 0x0A] @ ''  Nodes and Zones.'' @ [CHR 0x0A] @ ''- \"List\": Use constraints defined in .defaultConstraints.'' @ [CHR 0x0A, CHR 0x0A] @ ''Defaults to \"List\" if feature gate DefaultPodTopologySpread is disabled and to \"System\" if enabled.''),
          Type [''string''],
          Format ''''])]],
     Dependencies = [''k8s.io/api/core/v1.TopologySpreadConstraint'']\<rparr>"

definition schema_k8sio_kube_scheduler_config_v1beta2_RequestedToCapacityRatioParam :: "(string \<Rightarrow> 'r) \<Rightarrow> 'r openapi_definition" where
  "schema_k8sio_kube_scheduler_config_v1beta2_RequestedToCapacityRatioParam ref =
    \<lparr>defSchema = Schema [Description ''RequestedToCapacityRatioParam define RequestedToCapacityRatio parameters'',
      Type [''object''],
      Properties [
      (''shape'', Schema [Extensions [(''x-kubernetes-list-type'', JString ''atomic'')],
          Description ''Shape is a list of points defining the scoring function shape.'',
          Type [''array''],
          Items (Schema [Default (JObject []),
            Ref (ref ''k8s.io/kube-scheduler/config/v1beta2.UtilizationShapePoint'')])])]],
     Dependencies = [''k8s.io/kube-scheduler/config/v1beta2.UtilizationShapePoint'']\<rparr>"

definition schema_k8sio_kube_scheduler_config_v1beta2_ResourceSpec :: "(string \<Rightarrow> 'r) \<Rightarrow> 'r openapi_definition" where
  "schema_k8sio_kube_scheduler_config_v1beta2_ResourceSpec ref =
    \<lparr>defSchema = Schema [Description ''ResourceSpec represents a single resource.'',
      Type [''object''],
      Properties [
      (''name'', Schema [Description ''Name of the resource.'',
          Default (JString ''''),
          Type [''string''],
          Format '''']),
      (''weight'', Schema [Description ''Weight of the resource.'',
          Type [''integer''],
          Format ''int64''])],
      Required [''name'']],
     Dependencies = []\<rparr>"

definition schema_k8sio_kube_scheduler_config_v1beta2_ScoringStrategy :: "(string \<Rightarrow> 'r) \<Rightarrow> 'r openapi_definition" where
  "schema_k8sio_kube_scheduler_config_v1beta2_ScoringStrategy ref =
    \<lparr>defSchema = Schema [Description ''ScoringStrategy define ScoringStrategyType for node resource plugin'',
      Type [''object''],
      Properties [
      (''type'', Schema [Description ''Type selects which strategy to run.'',
          Type [''string''],
          Format '''']),
      (''resources'', Schema [Extensions [(''x-kubernetes-list-map-keys'', JArray [JString ''topologyKey'']), (''x-kubernetes-list-type'', JString ''map'')],
          Description ''Resources to consider when scoring. The default resource set includes \"cpu\" and \"memory\" with an equal weight. Allowed weights go from 1 to 100. Weight defaults to 1 if not specified or explicitly set to 0.'',
          Type [''array''],
          Items (Schema [Default (JObject []),
            Ref (ref ''k8s.io/kube-scheduler/config/v1beta2.ResourceSpec'')])]),
      (''requestedToCapacityRatio'', Schema [Description ''Arguments specific to RequestedToCapacityRatio strategy.'',
          Ref (ref ''k8s.io/kube-scheduler/config/v1beta2.RequestedToCapacityRatioParam'')])]],
     Dependencies = [''k8s.io/kube-scheduler/config/v1beta2.RequestedToCapacityRatioParam'',
     ''k8s.io/kube-scheduler/config/v1beta2.ResourceSpec'']\<rparr>"

definition schema_k8sio_kube_scheduler_config_v1beta2_UtilizationShapePoint :: "(string \<Rightarrow> 'r) \<Rightarrow> 'r openapi_definition" where
  "schema_k8sio_kube_scheduler_config_v1beta2_UtilizationShapePoint ref =
    \<lparr>defSchema = Schema [Description ''UtilizationShapePoint represents single point of priority function shape.'',
      Type [''object''],
      Properties [
      (''utilization'', Schema [Description ''Utilization (x axis). Valid values are 0 to 100. Fully utilized node maps to 100.'',
          Default (JNumber 0),
          Type [''integer''],
          Format ''int32'']),
      (''score'', Schema [Description ''Score assigned to given utilization (y axis). Valid values are 0 to 10.'',
          Default (JNumber 0),
          Type [''integer''],
          Format ''int32''])],
      Required [''utilization'', ''score'']],
     Dependencies = []\<rparr>"

definition schema_k8sio_kube_scheduler_config_v1beta2_VolumeBindingArgs :: "(string \<Rightarrow> 'r) \<Rightarrow> 'r openapi_definition" where
  "schema_k8sio_kube_scheduler_config_v1beta2_VolumeBindingArgs ref =
    \<lparr>defSchema = Schema [Description ''VolumeBindingArgs holds arguments used to configure the VolumeBinding plugin.'',
      Type [''object''],
      Properties [
      (''kind'', Schema [Description ''Kind is a string value representing the REST resource this object represents. Servers may infer this from the endpoint the client submits requests to. Cannot be updated. In CamelCase. More info: https://git.k8s.io/community/contributors/devel/sig-architecture/api-conventions.md#types-kinds'',
          Type [''string''],
          Format '''']),
      (''apiVersion'', Schema [Description ''APIVersion defines the versioned schema of this representation of an object. Servers should convert recognized schemas to the latest internal value, and may reject unrecognized values. More info: https://git.k8s.io/community/contributors/devel/sig-architecture/api-conventions.md#resources'',
          Type [''string''],
          Format '''']),
      (''bindTimeoutSeconds'', Schema [Description ''BindTimeoutSeconds is the timeout in seconds in volume binding operation. Value must be non-negative integer. The value zero indicates no waiting. If this value is nil, the default value (600) will be used.'',
          Type [''integer''],
          Format ''int64'']),
      (''shape'', Schema [Extensions [(''x-kubernetes-list-type'', JString ''atomic'')],
          Description ''Shape specifies the points defining the score function shape, which is used to score nodes based on the utilization of statically provisioned PVs. The utilization is calculated by dividing the total requested storage of the pod by the total capacity of feasible PVs on each node. Each point contains utilization (ranges from 0 to 100) and its associated score (ranges from 0 to 10). You can turn the priority by specifying different scores for different utilization numbers. The default shape points are: 1) 0 for 0 utilization 2) 10 for 100 utilization All points must be sorted in increasing order by utilization.'',
          Type [''array''],
          Items (Schema [Default (JObject []),
            Ref (ref ''k8s.io/kube-scheduler/config/v1beta2.UtilizationShapePoint'')])])]],
     Dependencies = [''k8s.io/kube-scheduler/config/v1beta2.UtilizationShapePoint'']\<rparr>"

text \<open>Every definition here is consistent.\<close>

lemma openapi_scheduler_ok_1:
  "definition_ok ref (schema_k8sio_kube_scheduler_config_v1_ExtenderManagedResource ref)"
  "definition_ok ref (schema_k8sio_kube_scheduler_config_v1_ExtenderTLSConfig ref)"
  "definition_ok ref (schema_k8sio_kube_scheduler_config_v1_LabelPreference ref)"
  "definition_ok ref (schema_k8sio_kube_scheduler_config_v1_LabelsPresence ref)"
  "definition_ok ref (schema_k8sio_kube_scheduler_config_v1_LegacyExtender ref)"
  "definition_ok ref (schema_k8sio_kube_scheduler_config_v1_Policy ref)"
  "definition_ok ref (schema_k8sio_kube_scheduler_config_v1_PredicateArgument ref)"
  "definition_ok ref (schema_k8sio_kube_scheduler_config_v1_PredicatePolicy ref)"
  unfolding definition_ok_def
  by (simp_all add:
        schema_k8sio_kube_scheduler_config_v1_ExtenderManagedResource_def
        schema_k8sio_kube_scheduler_config_v1_ExtenderTLSConfig_def
        schema_k8sio_kube_scheduler_config_v1_LabelPreference_def
        schema_k8sio_kube_scheduler_config_v1_LabelsPresence_def
        schema_k8sio_kube_scheduler_config_v1_LegacyExtender_def
        schema_k8sio_kube_scheduler_config_v1_Policy_def
        schema_k8sio_kube_scheduler_config_v1_PredicateArgument_def
        schema_k8sio_kube_scheduler_config_v1_PredicatePolicy_def)

lemma openapi_scheduler_ok_2:
  "definition_ok ref (schema_k8sio_kube_scheduler_config_v1_PriorityArgument ref)"
  "definition_ok ref (schema_k8sio_kube_scheduler_config_v1_PriorityPolicy ref)"
  "definition_ok ref (schema_k8sio_kube_scheduler_config_v1_RequestedToCapacityRatioArguments ref)"
  "definition_ok ref (schema_k8sio_kube_scheduler_config_v1_ResourceSpec ref)"
  "definition_ok ref (schema_k8sio_kube_scheduler_config_v1_ServiceAffinity ref)"
  "definition_ok ref (schema_k8sio_kube_scheduler_config_v1_ServiceAntiAffinity ref)"
  "definition_ok ref (schema_k8sio_kube_scheduler_config_v1_UtilizationShapePoint ref)"
  "definition_ok ref (schema_k8sio_kube_scheduler_config_v1beta2_DefaultPreemptionArgs ref)"
  unfolding definition_ok_def
  by (simp_all add:
        schema_k8sio_kube_scheduler_config_v1_PriorityArgument_def
        schema_k8sio_kube_scheduler_config_v1_PriorityPolicy_def
        schema_k8sio_kube_scheduler_config_v1_RequestedToCapacityRatioArguments_def
        schema_k8sio_kube_scheduler_config_v1_ResourceSpec_def
        schema_k8sio_kube_scheduler_config_v1_ServiceAffinity_def
        schema_k8sio_kube_scheduler_config_v1_ServiceAntiAffinity_def
        schema_k8sio_kube_scheduler_config_v1_UtilizationShapePoint_def
        schema_k8sio_kube_scheduler_config_v1beta2_DefaultPreemptionArgs_def)

lemma openapi_scheduler_ok_3:
  "definition_ok ref (schema_k8sio_kube_scheduler_config_v1beta2_Extender ref)"
  "definition_ok ref (schema_k8sio_kube_scheduler_config_v1beta2_InterPodAffinityArgs ref)"
  "definition_ok ref (schema_k8sio_kube_scheduler_config_v1beta2_KubeSchedulerProfile ref)"
  "definition_ok ref (schema_k8sio_kube_scheduler_config_v1beta2_NodeAffinityArgs ref)"
  "definition_ok ref (schema_k8sio_kube_scheduler_config_v1beta2_NodeResourcesBalancedAllocationArgs ref)"
  "definition_ok ref (schema_k8sio_kube_scheduler_config_v1beta2_NodeResourcesFitArgs ref)"
  "definition_ok ref (schema_k8sio_kube_scheduler_config_v1beta2_Plugin ref)"
  "definition_ok ref (schema_k8sio_kube_scheduler_config_v1beta2_PluginConfig ref)"
  unfolding definition_ok_def
  by (simp_all add:
        schema_k8sio_kube_scheduler_config_v1beta2_Extender_def
        schema_k8sio_kube_scheduler_config_v1beta2_InterPodAffinityArgs_def
        schema_k8sio_kube_scheduler_config_v1beta2_KubeSchedulerProfile_def
        schema_k8sio_kube_scheduler_config_v1beta2_NodeAffinityArgs_def
        schema_k8sio_kube_scheduler_config_v1beta2_NodeResourcesBalancedAllocationArgs_def
        schema_k8sio_kube_scheduler_config_v1beta2_NodeResourcesFitArgs_def
        schema_k8sio_kube_scheduler_config_v1beta2_Plugin_def
        schema_k8sio_kube_scheduler_config_v1beta2_PluginConfig_def)

lemma openapi_scheduler_ok_4:
  "definition_ok ref (schema_k8sio_kube_scheduler_config_v1beta2_PluginSet ref)"
  "definition_ok ref (schema_k8sio_kube_scheduler_config_v1beta2_Plugins ref)"
  "definition_ok ref (schema_k8sio_kube_scheduler_config_v1beta2_PodTopologySpreadArgs ref)"
  "definition_ok ref (schema_k8sio_kube_scheduler_config_v1beta2_RequestedToCapacityRatioParam ref)"
  "definition_ok ref (schema_k8sio_kube_scheduler_config_v1beta2_ResourceSpec ref)"
  "definition_ok ref (schema_k8sio_kube_scheduler_config_v1beta2_ScoringStrategy ref)"
  "definition_ok ref (schema_k8sio_kube_scheduler_config_v1beta2_UtilizationShapePoint ref)"
  "definition_ok ref (schema_k8sio_kube_scheduler_config_v1beta2_VolumeBindingArgs ref)"
  unfolding definition_ok_def
  by (simp_all add:
        schema_k8sio_kube_scheduler_config_v1beta2_PluginSet_def
        schema_k8sio_kube_scheduler_config_v1beta2_Plugins_def
        schema_k8sio_kube_scheduler_config_v1beta2_PodTopologySpreadArgs_def
        schema_k8sio_kube_scheduler_config_v1beta2_RequestedToCapacityRatioParam_def
        schema_k8sio_kube_scheduler_config_v1beta2_ResourceSpec_def
        schema_k8sio_kube_scheduler_config_v1beta2_ScoringStrategy_def
        schema_k8sio_kube_scheduler_config_v1beta2_UtilizationShapePoint_def
        schema_k8sio_kube_scheduler_config_v1beta2_VolumeBindingArgs_def)

lemmas openapi_scheduler_ok =
  openapi_scheduler_ok_1
  openapi_scheduler_ok_2
  openapi_scheduler_ok_3
  openapi_scheduler_ok_4

end
