(* ===== verification/OpenAPI_Workloads.thy ===== *)
theory OpenAPI_Workloads
  imports OpenAPI
begin

text \<open>
  The definitions of \<open>zz_generated.openapi.go\<close> for \<open>apps/v1\<close>, \<open>policy/v1\<close> and \<open>scheduling/v1\<close>, which the plugins of the Kubernetes scheduler read.
\<close>

definition schema_k8sio_api_apps_v1_ControllerRevision :: "(string \<Rightarrow> 'r) \<Rightarrow> 'r openapi_definition" where
  "schema_k8sio_api_apps_v1_ControllerRevision ref =
    \<lparr>defSchema = Schema [Description ''ControllerRevision implements an immutable snapshot of state data. Clients are responsible for serializing and deserializing the objects that contain their internal state. Once a ControllerRevision has been successfully created, it can not be updated. The API Server will fail validation of all requests that attempt to mutate the Data field. ControllerRevisions may, however, be deleted. Note that, due to its use by both the DaemonSet and StatefulSet controllers for update and rollback, this object is beta. However, it may be subject to name and representation changes in future releases, and clients should not depend on its stability. It is primarily for internal use by controllers.'',
      Type [''object''],
      Properties [
      (''kind'', Schema [Description ''Kind is a string value representing the REST resource this object represents. Servers may infer this from the endpoint the client submits requests to. Cannot be updated. In CamelCase. More info: https://git.k8s.io/community/contributors/devel/sig-architecture/api-conventions.md#types-kinds'',
          Type [''string''],
          Format '''']),
      (''apiVersion'', Schema [Description ''APIVersion defines the versioned schema of this representation of an object. Servers should convert recognized schemas to the latest internal value, and may reject unrecognized values. More info: https://git.k8s.io/community/contributors/devel/sig-architecture/api-conventions.md#resources'',
          Type [''string''],
          Format '''']),
      (''metadata'', Schema [Description ''Standard object's metadata. More info: https://git.k8s.io/community/contributors/devel/sig-architecture/api-conventions.md#metadata'',
          Default (JObject []),
          Ref (ref ''k8s.io/apimachinery/pkg/apis/meta/v1.ObjectMeta'')]),
      (''data'', Schema [Description ''Data is the serialized representation of the state.'',
          Default (JObject []),
          Ref (ref ''k8s.io/apimachinery/pkg/runtime.RawExtension'')]),
      (''revision'', Schema [Description ''Revision indicates the revision of the state represented by Data.'',
          Default (JNumber 0),
          Type [''integer''],
          Format ''int64''])],
      Required [''revision'']],
     Dependencies = [''k8s.io/apimachinery/pkg/apis/meta/v1.ObjectMeta'',
     ''k8s.io/apimachinery/pkg/runtime.RawExtension'']\<rparr>"

definition schema_k8sio_api_apps_v1_ControllerRevisionList :: "(string \<Rightarrow> 'r) \<Rightarrow> 'r openapi_definition" where
  "schema_k8sio_api_apps_v1_ControllerRevisionList ref =
    \<lparr>defSchema = Schema [Description ''ControllerRevisionList is a resource containing a list of ControllerRevision objects.'',
      Type [''object''],
      Properties [
      (''kind'', Schema [Description ''Kind is a string value representing the REST resource this object represents. Servers may infer this from the endpoint the client submits requests to. Cannot be updated. In CamelCase. More info: https://git.k8s.io/community/contributors/devel/sig-architecture/api-conventions.md#types-kinds'',
          Type [''string''],
          Format '''']),
      (''apiVersion'', Schema [Description ''APIVersion defines the versioned schema of this representation of an object. Servers should convert recognized schemas to the latest internal value, and may reject unrecognized values. More info: https://git.k8s.io/community/contributors/devel/sig-architecture/api-conventions.md#resources'',
          Type [''string''],
          Format '''']),
      (''metadata'', Schema [Description ''More info: https://git.k8s.io/community/contributors/devel/sig-architecture/api-conventions.md#metadata'',
          Default (JObject []),
          Ref (ref ''k8s.io/apimachinery/pkg/apis/meta/v1.ListMeta'')]),
      (''items'', Schema [Description ''Items is the list of ControllerRevisions'',
          Type [''array''],
          Items (Schema [Default (JObject []),
            Ref (ref ''k8s.io/api/apps/v1.ControllerRevision'')])])],
      Required [''items'']],
     Dependencies = [''k8s.io/api/apps/v1.ControllerRevision'',
     ''k8s.io/apimachinery/pkg/apis/meta/v1.ListMeta'']\<rparr>"

definition schema_k8sio_api_apps_v1_DaemonSet :: "(string \<Rightarrow> 'r) \<Rightarrow> 'r openapi_definition" where
  "schema_k8sio_api_apps_v1_DaemonSet ref =
    \<lparr>defSchema = Schema [Description ''DaemonSet represents the configuration of a daemon set.'',
      Type [''object''],
      Properties [
      (''kind'', Schema [Description ''Kind is a string value representing the REST resource this object represents. Servers may infer this from the endpoint the client submits requests to. Cannot be updated. In CamelCase. More info: https://git.k8s.io/community/contributors/devel/sig-architecture/api-conventions.md#types-kinds'',
          Type [''string''],
          Format '''']),
      (''apiVersion'', Schema [Description ''APIVersion defines the versioned schema of this representation of an object. Servers should convert recognized schemas to the latest internal value, and may reject unrecognized values. More info: https://git.k8s.io/community/contributors/devel/sig-architecture/api-conventions.md#resources'',
          Type [''string''],
          Format '''']),
      (''metadata'', Schema [Description ''Standard object's metadata. More info: https://git.k8s.io/community/contributors/devel/sig-architecture/api-conventions.md#metadata'',
          Default (JObject []),
          Ref (ref ''k8s.io/apimachinery/pkg/apis/meta/v1.ObjectMeta'')]),
      (''spec'', Schema [Description ''The desired behavior of this daemon set. More info: https://git.k8s.io/community/contributors/devel/sig-architecture/api-conventions.md#spec-and-status'',
          Default (JObject []),
          Ref (ref ''k8s.io/api/apps/v1.DaemonSetSpec'')]),
      (''status'', Schema [Description ''The current status of this daemon set. This data may be out of date by some window of time. Populated by the system. Read-only. More info: https://git.k8s.io/community/contributors/devel/sig-architecture/api-conventions.md#spec-and-status'',
          Default (JObject []),
          Ref (ref ''k8s.io/api/apps/v1.DaemonSetStatus'')])]],
     Dependencies = [''k8s.io/api/apps/v1.DaemonSetSpec'',
     ''k8s.io/api/apps/v1.DaemonSetStatus'',
     ''k8s.io/apimachinery/pkg/apis/meta/v1.ObjectMeta'']\<rparr>"

definition schema_k8sio_api_apps_v1_DaemonSetCondition :: "(string \<Rightarrow> 'r) \<Rightarrow> 'r openapi_definition" where
  "schema_k8sio_api_apps_v1_DaemonSetCondition ref =
    \<lparr>defSchema = Schema [Description ''DaemonSetCondition describes the state of a DaemonSet at a certain point.'',
      Type [''object''],
      Properties [
      (''type'', Schema [Description ''Type of DaemonSet condition.'',
          Default (JString ''''),
          Type [''string''],
          Format '''']),
      (''status'', Schema [Description ''Status of the condition, one of True, False, Unknown.'',
          Default (JString ''''),
          Type [''string''],
          Format '''']),
      (''lastTransitionTime'', Schema [Description ''Last time the condition transitioned from one status to another.'',
          Default (JObject []),
          Ref (ref ''k8s.io/apimachinery/pkg/apis/meta/v1.Time'')]),
      (''reason'', Schema [Description ''The reason for the condition's last transition.'',
          Type [''string''],
          Format '''']),
      (''message'', Schema [Description ''A human readable message indicating details about the transition.'',
          Type [''string''],
          Format ''''])],
      Required [''type'', ''status'']],
     Dependencies = [''k8s.io/apimachinery/pkg/apis/meta/v1.Time'']\<rparr>"

definition schema_k8sio_api_apps_v1_DaemonSetList :: "(string \<Rightarrow> 'r) \<Rightarrow> 'r openapi_definition" where
  "schema_k8sio_api_apps_v1_DaemonSetList ref =
    \<lparr>defSchema = Schema [Description ''DaemonSetList is a collection of daemon sets.'',
      Type [''object''],
      Properties [
      (''kind'', Schema [Description ''Kind is a string value representing the REST resource this object represents. Servers may infer this from the endpoint the client submits requests to. Cannot be updated. In CamelCase. More info: https://git.k8s.io/community/contributors/devel/sig-architecture/api-conventions.md#types-kinds'',
          Type [''string''],
          Format '''']),
      (''apiVersion'', Schema [Description ''APIVersion defines the versioned schema of this representation of an object. Servers should convert recognized schemas to the latest internal value, and may reject unrecognized values. More info: https://git.k8s.io/community/contributors/devel/sig-architecture/api-conventions.md#resources'',
          Type [''string''],
          Format '''']),
      (''metadata'', Schema [Description ''Standard list metadata. More info: https://git.k8s.io/community/contributors/devel/sig-architecture/api-conventions.md#metadata'',
          Default (JObject []),
          Ref (ref ''k8s.io/apimachinery/pkg/apis/meta/v1.ListMeta'')]),
      (''items'', Schema [Description ''A list of daemon sets.'',
          Type [''array''],
          Items (Schema [Default (JObject []),
            Ref (ref ''k8s.io/api/apps/v1.DaemonSet'')])])],
      Required [''items'']],
     Dependencies = [''k8s.io/api/apps/v1.DaemonSet'',
     ''k8s.io/apimachinery/pkg/apis/meta/v1.ListMeta'']\<rparr>"

definition schema_k8sio_api_apps_v1_DaemonSetSpec :: "(string \<Rightarrow> 'r) \<Rightarrow> 'r openapi_definition" where
  "schema_k8sio_api_apps_v1_DaemonSetSpec ref =
    \<lparr>defSchema = Schema [Description ''DaemonSetSpec is the specification of a daemon set.'',
      Type [''object''],
      Properties [
      (''selector'', Schema [Description ''A label query over pods that are managed by the daemon set. Must match in order to be controlled. It must match the pod template's labels. More info: https://kubernetes.io/docs/concepts/overview/working-with-objects/labels/#label-selectors'',
          Ref (ref ''k8s.io/apimachinery/pkg/apis/meta/v1.LabelSelector'')]),
      (''template'', Schema [Description ''An object that describes the pod that will be created. The DaemonSet will create exactly one copy of this pod on every node that matches the template's node selector (or on every node if no node selector is specified). More info: https://kubernetes.io/docs/concepts/workloads/controllers/replicationcontroller#pod-template'',
          Default (JObject []),
          Ref (ref ''k8s.io/api/core/v1.PodTemplateSpec'')]),
      (''updateStrategy'', Schema [Description ''An update strategy to replace existing DaemonSet pods with new pods.'',
          Default (JObject []),
          Ref (ref ''k8s.io/api/apps/v1.DaemonSetUpdateStrategy'')]),
      (''minReadySeconds'', Schema [Description ''The minimum number of seconds for which a newly created DaemonSet pod should be ready without any of its container crashing, for it to be considered available. Defaults to 0 (pod will be considered available as soon as it is ready).'',
          Type [''integer''],
          Format ''int32'']),
      (''revisionHistoryLimit'', Schema [Description ''The number of old history to retain to allow rollback. This is a pointer to distinguish between explicit zero and not specified. Defaults to 10.'',
          Type [''integer''],
          Format ''int32''])],
      Required [''selector'', ''template'']],
     Dependencies = [''k8s.io/api/apps/v1.DaemonSetUpdateStrategy'',
     ''k8s.io/api/core/v1.PodTemplateSpec'',
     ''k8s.io/apimachinery/pkg/apis/meta/v1.LabelSelector'']\<rparr>"

definition schema_k8sio_api_apps_v1_DaemonSetStatus :: "(string \<Rightarrow> 'r) \<Rightarrow> 'r openapi_definition" where
  "schema_k8sio_api_apps_v1_DaemonSetStatus ref =
    \<lparr>defSchema = Schema [Description ''DaemonSetStatus represents the current status of a daemon set.'',
      Type [''object''],
      Properties [
      (''currentNumberScheduled'', Schema [Description ''The number of nodes that are running at least 1 daemon pod and are supposed to run the daemon pod. More info: https://kubernetes.io/docs/concepts/workloads/controllers/daemonset/'',
          Default (JNumber 0),
          Type [''integer''],
          Format ''int32'']),
      (''numberMisscheduled'', Schema [Description ''The number of nodes that are running the daemon pod, but are not supposed to run the daemon pod. More info: https://kubernetes.io/docs/concepts/workloads/controllers/daemonset/'',
          Default (JNumber 0),
          Type [''integer''],
          Format ''int32'']),
      (''desiredNumberScheduled'', Schema [Description ''The total number of nodes that should be running the daemon pod (including nodes correctly running the daemon pod). More info: https://kubernetes.io/docs/concepts/workloads/controllers/daemonset/'',
          Default (JNumber 0),
          Type [''integer''],
          Format ''int32'']),
      (''numberReady'', Schema [Description ''numberReady is the number of nodes that should be running the daemon pod and have one or more of the daemon pod running with a Ready Condition.'',
          Default (JNumber 0),
          Type [''integer''],
          Format ''int32'']),
      (''observedGeneration'', Schema [Description ''The most recent generation observed by the daemon set controller.'',
          Type [''integer''],
          Format ''int64'']),
      (''updatedNumberScheduled'', Schema [Description ''The total number of nodes that are running updated daemon pod'',
          Type [''integer''],
          Format ''int32'']),
      (''numberAvailable'', Schema [Description ''The number of nodes that should be running the daemon pod and have one or more of the daemon pod running and available (ready for at least spec.minReadySeconds)'',
          Type [''integer''],
          Format ''int32'']),
      (''numberUnavailable'', Schema [Description ''The number of nodes that should be running the daemon pod and have none of the daemon pod running and available (ready for at least spec.minReadySeconds)'',
          Type [''integer''],
          Format ''int32'']),
      (''collisionCount'', Schema [Description ''Count of hash collisions for the DaemonSet. The DaemonSet controller uses this field as a collision avoidance mechanism when it needs to create the name for the newest ControllerRevision.'',
          Type [''integer''],
          Format ''int32'']),
      (''conditions'', Schema [Extensions [(''x-kubernetes-patch-merge-key'', JString ''type''), (''x-kubernetes-patch-strategy'', JString ''merge'')],
          Description ''Represents the latest available observations of a DaemonSet's current state.'',
          Type [''array''],
          Items (Schema [Default (JObject []),
            Ref (ref ''k8s.io/api/apps/v1.DaemonSetCondition'')])])],
      Required [''currentNumberScheduled'', ''numberMisscheduled'', ''desiredNumberScheduled'', ''numberReady'']],
     Dependencies = [''k8s.io/api/apps/v1.DaemonSetCondition'']\<rparr>"

definition schema_k8sio_api_apps_v1_DaemonSetUpdateStrategy :: "(string \<Rightarrow> 'r) \<Rightarrow> 'r openapi_definition" where
  "schema_k8sio_api_apps_v1_DaemonSetUpdateStrategy ref =
    \<lparr>defSchema = Schema [Description ''DaemonSetUpdateStrategy is a struct used to control the update strategy for a DaemonSet.'',
      Type [''object''],
      Properties [
      (''type'', Schema [Description ''Type of daemon set update. Can be \"RollingUpdate\" or \"OnDelete\". Default is RollingUpdate.'',
          Type [''string''],
          Format '''']),
      (''rollingUpdate'', Schema [Description ''Rolling update config params. Present only if type = \"RollingUpdate\".'',
          Ref (ref ''k8s.io/api/apps/v1.RollingUpdateDaemonSet'')])]],
     Dependencies = [''k8s.io/api/apps/v1.RollingUpdateDaemonSet'']\<rparr>"

definition schema_k8sio_api_apps_v1_Deployment :: "(string \<Rightarrow> 'r) \<Rightarrow> 'r openapi_definition" where
  "schema_k8sio_api_apps_v1_Deployment ref =
    \<lparr>defSchema = Schema [Description ''Deployment enables declarative updates for Pods and ReplicaSets.'',
      Type [''object''],
      Properties [
      (''kind'', Schema [Description ''Kind is a string value representing the REST resource this object represents. Servers may infer this from the endpoint the client submits requests to. Cannot be updated. In CamelCase. More info: https://git.k8s.io/community/contributors/devel/sig-architecture/api-conventions.md#types-kinds'',
          Type [''string''],
          Format '''']),
      (''apiVersion'', Schema [Description ''APIVersion defines the versioned schema of this representation of an object. Servers should convert recognized schemas to the latest internal value, and may reject unrecognized values. More info: https://git.k8s.io/community/contributors/devel/sig-architecture/api-conventions.md#resources'',
          Type [''string''],
          Format '''']),
      (''metadata'', Schema [Description ''Standard object's metadata. More info: https://git.k8s.io/community/contributors/devel/sig-architecture/api-conventions.md#metadata'',
          Default (JObject []),
          Ref (ref ''k8s.io/apimachinery/pkg/apis/meta/v1.ObjectMeta'')]),
      (''spec'', Schema [Description ''Specification of the desired behavior of the Deployment.'',
          Default (JObject []),
          Ref (ref ''k8s.io/api/apps/v1.DeploymentSpec'')]),
      (''status'', Schema [Description ''Most recently observed status of the Deployment.'',
          Default (JObject []),
          Ref (ref ''k8s.io/api/apps/v1.DeploymentStatus'')])]],
     Dependencies = [''k8s.io/api/apps/v1.DeploymentSpec'',
     ''k8s.io/api/apps/v1.DeploymentStatus'',
     ''k8s.io/apimachinery/pkg/apis/meta/v1.ObjectMeta'']\<rparr>"

definition schema_k8sio_api_apps_v1_DeploymentCondition :: "(string \<Rightarrow> 'r) \<Rightarrow> 'r openapi_definition" where
  "schema_k8sio_api_apps_v1_DeploymentCondition ref =
    \<lparr>defSchema = Schema [Description ''DeploymentCondition describes the state of a deployment at a certain point.'',
      Type [''object''],
      Properties [
      (''type'', Schema [Description ''Type of deployment condition.'',
          Default (JString ''''),
          Type [''string''],
          Format '''']),
      (''status'', Schema [Description ''Status of the condition, one of True, False, Unknown.'',
          Default (JString ''''),
          Type [''string''],
          Format '''']),
      (''lastUpdateTime'', Schema [Description ''The last time this condition was updated.'',
          Default (JObject []),
          Ref (ref ''k8s.io/apimachinery/pkg/apis/meta/v1.Time'')]),
      (''lastTransitionTime'', Schema [Description ''Last time the condition transitioned from one status to another.'',
          Default (JObject []),
          Ref (ref ''k8s.io/apimachinery/pkg/apis/meta/v1.Time'')]),
      (''reason'', Schema [Description ''The reason for the condition's last transition.'',
          Type [''string''],
          Format '''']),
      (''message'', Schema [Description ''A human readable message indicating details about the transition.'',
          Type [''string''],
          Format ''''])],
      Required [''type'', ''status'']],
     Dependencies = [''k8s.io/apimachinery/pkg/apis/meta/v1.Time'']\<rparr>"

definition schema_k8sio_api_apps_v1_DeploymentList :: "(string \<Rightarrow> 'r) \<Rightarrow> 'r openapi_definition" where
  "schema_k8sio_api_apps_v1_DeploymentList ref =
    \<lparr>defSchema = Schema [Description ''DeploymentList is a list of Deployments.'',
      Type [''object''],
      Properties [
      (''kind'', Schema [Description ''Kind is a string value representing the REST resource this object represents. Servers may infer this from the endpoint the client submits requests to. Cannot be updated. In CamelCase. More info: https://git.k8s.io/community/contributors/devel/sig-architecture/api-conventions.md#types-kinds'',
          Type [''string''],
          Format '''']),
      (''apiVersion'', Schema [Description ''APIVersion defines the versioned schema of this representation of an object. Servers should convert recognized schemas to the latest internal value, and may reject unrecognized values. More info: https://git.k8s.io/community/contributors/devel/sig-architecture/api-conventions.md#resources'',
          Type [''string''],
          Format '''']),
      (''metadata'', Schema [Description ''Standard list metadata.'',
          Default (JObject []),
          Ref (ref ''k8s.io/apimachinery/pkg/apis/meta/v1.ListMeta'')]),
      (''items'', Schema [Description ''Items is the list of Deployments.'',
          Type [''array''],
          Items (Schema [Default (JObject []),
            Ref (ref ''k8s.io/api/apps/v1.Deployment'')])])],
      Required [''items'']],
     Dependencies = [''k8s.io/api/apps/v1.Deployment'',
     ''k8s.io/apimachinery/pkg/apis/meta/v1.ListMeta'']\<rparr>"

definition schema_k8sio_api_apps_v1_DeploymentSpec :: "(string \<Rightarrow> 'r) \<Rightarrow> 'r openapi_definition" where
  "schema_k8sio_api_apps_v1_DeploymentSpec ref =
    \<lparr>defSchema = Schema [Description ''DeploymentSpec is the specification of the desired behavior of the Deployment.'',
      Type [''object''],
      Properties [
      (''replicas'', Schema [Description ''Number of desired pods. This is a pointer to distinguish between explicit zero and not specified. Defaults to 1.'',
          Type [''integer''],
          Format ''int32'']),
      (''selector'', Schema [Description ''Label selector for pods. Existing ReplicaSets whose pods are selected by this will be the ones affected by this deployment. It must match the pod template's labels.'',
          Ref (ref ''k8s.io/apimachinery/pkg/apis/meta/v1.LabelSelector'')]),
      (''template'', Schema [Description ''Template describes the pods that will be created.'',
          Default (JObject []),
          Ref (ref ''k8s.io/api/core/v1.PodTemplateSpec'')]),
      (''strategy'', Schema [Extensions [(''x-kubernetes-patch-strategy'', JString ''retainKeys'')],
          Description ''The deployment strategy to use to replace existing pods with new ones.'',
          Default (JObject []),
          Ref (ref ''k8s.io/api/apps/v1.DeploymentStrategy'')]),
      (''minReadySeconds'', Schema [Description ''Minimum number of seconds for which a newly created pod should be ready without any of its container crashing, for it to be considered available. Defaults to 0 (pod will be considered available as soon as it is ready)'',
          Type [''integer''],
          Format ''int32'']),
      (''revisionHistoryLimit'', Schema [Description ''The number of old ReplicaSets to retain to allow rollback. This is a pointer to distinguish between explicit zero and not specified. Defaults to 10.'',
          Type [''integer''],
          Format ''int32'']),
      (''paused'', Schema [Description ''Indicates that the deployment is paused.'',
          Type [''boolean''],
          Format '''']),
      (''progressDeadlineSeconds'', Schema [Description ''The maximum time in seconds for a deployment to make progress before it is considered to be failed. The deployment controller will continue to process failed deployments and a condition with a ProgressDeadlineExceeded reason will be surfaced in the deployment status. Note that progress will not be estimated during the time a deployment is paused. Defaults to 600s.'',
          Type [''integer''],
          Format ''int32''])],
      Required [''selector'', ''template'']],
     Dependencies = [''k8s.io/api/apps/v1.DeploymentStrategy'',
     ''k8s.io/api/core/v1.PodTemplateSpec'',
     ''k8s.io/apimachinery/pkg/apis/meta/v1.LabelSelector'']\<rparr>"

definition schema_k8sio_api_apps_v1_DeploymentStatus :: "(string \<Rightarrow> 'r) \<Rightarrow> 'r openapi_definition" where
  "schema_k8sio_api_apps_v1_DeploymentStatus ref =
    \<lparr>defSchema = Schema [Description ''DeploymentStatus is the most recently observed status of the Deployment.'',
      Type [''object''],
      Properties [
      (''observedGeneration'', Schema [Description ''The generation observed by the deployment controller.'',
          Type [''integer''],
          Format ''int64'']),
      (''replicas'', Schema [Description ''Total number of non-terminated pods targeted by this deployment (their labels match the selector).'',
          Type [''integer''],
          Format ''int32'']),
      (''updatedReplicas'', Schema [Description ''Total number of non-terminated pods targeted by this deployment that have the desired template spec.'',
          Type [''integer''],
          Format ''int32'']),
      (''readyReplicas'', Schema [Description ''readyReplicas is the number of pods targeted by this Deployment with a Ready Condition.'',
          Type [''integer''],
          Format ''int32'']),
      (''availableReplicas'', Schema [Description ''Total number of available pods (ready for at least minReadySeconds) targeted by this deployment.'',
          Type [''integer''],
          Format ''int32'']),
      (''unavailableReplicas'', Schema [Description ''Total number of unavailable pods targeted by this deployment. This is the total number of pods that are still required for the deployment to have 100% available capacity. They may either be pods that are running but not yet available or pods that still have not been created.'',
          Type [''integer''],
          Format ''int32'']),
      (''conditions'', Schema [Extensions [(''x-kubernetes-patch-merge-key'', JString ''type''), (''x-kubernetes-patch-strategy'', JString ''merge'')],
          Description ''Represents the latest available observations of a deployment's current state.'',
          Type [''array''],
          Items (Schema [Default (JObject []),
            Ref (ref ''k8s.io/api/apps/v1.DeploymentCondition'')])]),
      (''collisionCount'', Schema [Description ''Count of hash collisions for the Deployment. The Deployment controller uses this field as a collision avoidance mechanism when it needs to create the name for the newest ReplicaSet.'',
          Type [''integer''],
          Format ''int32''])]],
     Dependencies = [''k8s.io/api/apps/v1.DeploymentCondition'']\<rparr>"

definition schema_k8sio_api_apps_v1_DeploymentStrategy :: "(string \<Rightarrow> 'r) \<Rightarrow> 'r openapi_definition" where
  "schema_k8sio_api_apps_v1_DeploymentStrategy ref =
    \<lparr>defSchema = Schema [Description ''DeploymentStrategy describes how to replace existing pods with new ones.'',
      Type [''object''],
      Properties [
      (''type'', Schema [Description ''Type of deployment. Can be \"Recreate\" or \"RollingUpdate\". Default is RollingUpdate.'',
          Type [''string''],
          Format '''']),
      (''rollingUpdate'', Schema [Description ''Rolling update config params. Present only if DeploymentStrategyType = RollingUpdate.'',
          Ref (ref ''k8s.io/api/apps/v1.RollingUpdateDeployment'')])]],
     Dependencies = [''k8s.io/api/apps/v1.RollingUpdateDeployment'']\<rparr>"

definition schema_k8sio_api_apps_v1_ReplicaSet :: "(string \<Rightarrow> 'r) \<Rightarrow> 'r openapi_definition" where
  "schema_k8sio_api_apps_v1_ReplicaSet ref =
    \<lparr>defSchema = Schema [Description ''ReplicaSet ensures that a specified number of pod replicas are running at any given time.'',
      Type [''object''],
      Properties [
      (''kind'', Schema [Description ''Kind is a string value representing the REST resource this object represents. Servers may infer this from the endpoint the client submits requests to. Cannot be updated. In CamelCase. More info: https://git.k8s.io/community/contributors/devel/sig-architecture/api-conventions.md#types-kinds'',
          Type [''string''],
          Format '''']),
      (''apiVersion'', Schema [Description ''APIVersion defines the versioned schema of this representation of an object. Servers should convert recognized schemas to the latest internal value, and may reject unrecognized values. More info: https://git.k8s.io/community/contributors/devel/sig-architecture/api-conventions.md#resources'',
          Type [''string''],
          Format '''']),
      (''metadata'', Schema [Description ''If the Labels of a ReplicaSet are empty, they are defaulted to be the same as the Pod(s) that the ReplicaSet manages. Standard object's metadata. More info: https://git.k8s.io/community/contributors/devel/sig-architecture/api-conventions.md#metadata'',
          Default (JObject []),
          Ref (ref ''k8s.io/apimachinery/pkg/apis/meta/v1.ObjectMeta'')]),
      (''spec'', Schema [Description ''Spec defines the specification of the desired behavior of the ReplicaSet. More info: https://git.k8s.io/community/contributors/devel/sig-architecture/api-conventions.md#spec-and-status'',
          Default (JObject []),
          Ref (ref ''k8s.io/api/apps/v1.ReplicaSetSpec'')]),
      (''status'', Schema [Description ''Status is the most recently observed status of the ReplicaSet. This data may be out of date by some window of time. Populated by the system. Read-only. More info: https://git.k8s.io/community/contributors/devel/sig-architecture/api-conventions.md#spec-and-status'',
          Default (JObject []),
          Ref (ref ''k8s.io/api/apps/v1.ReplicaSetStatus'')])]],
     Dependencies = [''k8s.io/api/apps/v1.ReplicaSetSpec'',
     ''k8s.io/api/apps/v1.ReplicaSetStatus'',
     ''k8s.io/apimachinery/pkg/apis/meta/v1.ObjectMeta'']\<rparr>"

definition schema_k8sio_api_apps_v1_ReplicaSetCondition :: "(string \<Rightarrow> 'r) \<Rightarrow> 'r openapi_definition" where
  "schema_k8sio_api_apps_v1_ReplicaSetCondition ref =
    \<lparr>defSchema = Schema [Description ''ReplicaSetCondition describes the state of a replica set at a certain point.'',
      Type [''object''],
      Properties [
      (''type'', Schema [Description ''Type of replica set condition.'',
          Default (JString ''''),
          Type [''string''],
          Format '''']),
      (''status'', Schema [Description ''Status of the condition, one of True, False, Unknown.'',
          Default (JString ''''),
          Type [''string''],
          Format '''']),
      (''lastTransitionTime'', Schema [Description ''The last time the condition transitioned from one status to another.'',
          Default (JObject []),
          Ref (ref ''k8s.io/apimachinery/pkg/apis/meta/v1.Time'')]),
      (''reason'', Schema [Description ''The reason for the condition's last transition.'',
          Type [''string''],
          Format '''']),
      (''message'', Schema [Description ''A human readable message indicating details about the transition.'',
          Type [''string''],
          Format ''''])],
      Required [''type'', ''status'']],
     Dependencies = [''k8s.io/apimachinery/pkg/apis/meta/v1.Time'']\<rparr>"

definition schema_k8sio_api_apps_v1_ReplicaSetList :: "(string \<Rightarrow> 'r) \<Rightarrow> 'r openapi_definition" where
  "schema_k8sio_api_apps_v1_ReplicaSetList ref =
    \<lparr>defSchema = Schema [Description ''ReplicaSetList is a collection of ReplicaSets.'',
      Type [''object''],
      Properties [
      (''kind'', Schema [Description ''Kind is a string value representing the REST resource this object represents. Servers may infer this from the endpoint the client submits requests to. Cannot be updated. In CamelCase. More info: https://git.k8s.io/community/contributors/devel/sig-architecture/api-conventions.md#types-kinds'',
          Type [''string''],
          Format '''']),
      (''apiVersion'', Schema [Description ''APIVersion defines the versioned schema of this representation of an object. Servers should convert recognized schemas to the latest internal value, and may reject unrecognized values. More info: https://git.k8s.io/community/contributors/devel/sig-architecture/api-conventions.md#resources'',
          Type [''string''],
          Format '''']),
      (''metadata'', Schema [Description ''Standard list metadata. More info: https://git.k8s.io/community/contributors/devel/sig-architecture/api-conventions.md#types-kinds'',
          Default (JObject []),
          Ref (ref ''k8s.io/apimachinery/pkg/apis/meta/v1.ListMeta'')]),
      (''items'', Schema [Description ''List of ReplicaSets. More info: https://kubernetes.io/docs/concepts/workloads/controllers/replicationcontroller'',
          Type [''array''],
          Items (Schema [Default (JObject []),
            Ref (ref ''k8s.io/api/apps/v1.ReplicaSet'')])])],
      Required [''items'']],
     Dependencies = [''k8s.io/api/apps/v1.ReplicaSet'',
     ''k8s.io/apimachinery/pkg/apis/meta/v1.ListMeta'']\<rparr>"

definition schema_k8sio_api_apps_v1_ReplicaSetSpec :: "(string \<Rightarrow> 'r) \<Rightarrow> 'r openapi_definition" where
  "schema_k8sio_api_apps_v1_ReplicaSetSpec ref =
    \<lparr>defSchema = Schema [Description ''ReplicaSetSpec is the specification of a ReplicaSet.'',
      Type [''object''],
      Properties [
      (''replicas'', Schema [Description ''Replicas is the number of desired replicas. This is a pointer to distinguish between explicit zero and unspecified. Defaults to 1. More info: https://kubernetes.io/docs/concepts/workloads/controllers/replicationcontroller/#what-is-a-replicationcontroller'',
          Type [''integer''],
          Format ''int32'']),
      (''minReadySeconds'', Schema [Description ''Minimum number of seconds for which a newly created pod should be ready without any of its container crashing, for it to be considered available. Defaults to 0 (pod will be considered available as soon as it is ready)'',
          Type [''integer''],
          Format ''int32'']),
      (''selector'', Schema [Description ''Selector is a label query over pods that should match the replica count. Label keys and values that must match in order to be controlled by this replica set. It must match the pod template's labels. More info: https://kubernetes.io/docs/concepts/overview/working-with-objects/labels/#label-selectors'',
          Ref (ref ''k8s.io/apimachinery/pkg/apis/meta/v1.LabelSelector'')]),
      (''template'', Schema [Description ''Template is the object that describes the pod that will be created if insufficient replicas are detected. More info: https://kubernetes.io/docs/concepts/workloads/controllers/replicationcontroller#pod-template'',
          Default (JObject []),
          Ref (ref ''k8s.io/api/core/v1.PodTemplateSpec'')])],
      Required [''selector'']],
     Dependencies = [''k8s.io/api/core/v1.PodTemplateSpec'',
     ''k8s.io/apimachinery/pkg/apis/meta/v1.LabelSelector'']\<rparr>"

definition schema_k8sio_api_apps_v1_ReplicaSetStatus :: "(string \<Rightarrow> 'r) \<Rightarrow> 'r openapi_definition" where
  "schema_k8sio_api_apps_v1_ReplicaSetStatus ref =
    \<lparr>defSchema = Schema [Description ''ReplicaSetStatus represents the current status of a ReplicaSet.'',
      Type [''object''],
      Properties [
      (''replicas'', Schema [Description ''Replicas is the most recently oberved number of replicas. More info: https://kubernetes.io/docs/concepts/workloads/controllers/replicationcontroller/#what-is-a-replicationcontroller'',
          Default (JNumber 0),
          Type [''integer''],
          Format ''int32'']),
      (''fullyLabeledReplicas'', Schema [Description ''The number of pods that have labels matching the labels of the pod template of the replicaset.'',
          Type [''integer''],
          Format ''int32'']),
      (''readyReplicas'', Schema [Description ''readyReplicas is the number of pods targeted by this ReplicaSet with a Ready Condition.'',
          Type [''integer''],
          Format ''int32'']),
      (''availableReplicas'', Schema [Description ''The number of available replicas (ready for at least minReadySeconds) for this replica set.'',
          Type [''integer''],
          Format ''int32'']),
      (''observedGeneration'', Schema [Description ''ObservedGeneration reflects the generation of the most recently observed ReplicaSet.'',
          Type [''integer''],
          Format ''int64'']),
      (''conditions'', Schema [Extensions [(''x-kubernetes-patch-merge-key'', JString ''type''), (''x-kubernetes-patch-strategy'', JString ''merge'')],
          Description ''Represents the latest available observations of a replica set's current state.'',
          Type [''array''],
          Items (Schema [Default (JObject []),
            Ref (ref ''k8s.io/api/apps/v1.ReplicaSetCondition'')])])],
      Required [''replicas'']],
     Dependencies = [''k8s.io/api/apps/v1.ReplicaSetCondition'']\<rparr>"

definition schema_k8sio_api_apps_v1_RollingUpdateDaemonSet :: "(string \<Rightarrow> 'r) \<Rightarrow> 'r openapi_definition" where
  "schema_k8sio_api_apps_v1_RollingUpdateDaemonSet ref =
    \<lparr>defSchema = Schema [Description ''Spec to control the desired behavior of daemon set rolling update.'',
      Type [''object''],
      Properties [
      (''maxUnavailable'', Schema [Description ''The maximum number of DaemonSet pods that can be unavailable during the update. Value can be an absolute number (ex: 5) or a percentage of total number of DaemonSet pods at the start of the update (ex: 10%). Absolute number is calculated from percentage by rounding up. This cannot be 0 if MaxSurge is 0 Default value is 1. Example: when this is set to 30%, at most 30% of the total number of nodes that should be running the daemon pod (i.e. status.desiredNumberScheduled) can have their pods stopped for an update at any given time. The update starts by stopping at most 30% of those DaemonSet pods and then brings up new DaemonSet pods in their place. Once the new pods are available, it then proceeds onto other DaemonSet pods, thus ensuring that at least 70% of original number of DaemonSet pods are available at all times during the update.'',
          Ref (ref ''k8s.io/apimachinery/pkg/util/intstr.IntOrString'')]),
      (''maxSurge'', Schema [Description ''The maximum number of nodes with an existing available DaemonSet pod that can have an updated DaemonSet pod during during an update. Value can be an absolute number (ex: 5) or a percentage of desired pods (ex: 10%). This can not be 0 if MaxUnavailable is 0. Absolute number is calculated from percentage by rounding up to a minimum of 1. Default value is 0. Example: when this is set to 30%, at most 30% of the total number of nodes that should be running the daemon pod (i.e. status.desiredNumberScheduled) can have their a new pod created before the old pod is marked as deleted. The update starts by launching new pods on 30% of nodes. Once an updated pod is available (Ready for at least minReadySeconds) the old DaemonSet pod on that node is marked deleted. If the old pod becomes unavailable for any reason (Ready transitions to false, is evicted, or is drained) an updated pod is immediatedly created on that node without considering surge limits. Allowing surge implies the possibility that the resources consumed by the daemonset on any given node can double if the readiness check fails, and so resource intensive daemonsets should take into account that they may cause evictions during disruption. This is beta field and enabled/disabled by DaemonSetUpdateSurge feature gate.'',
          Ref (ref ''k8s.io/apimachinery/pkg/util/intstr.IntOrString'')])]],
     Dependencies = [''k8s.io/apimachinery/pkg/util/intstr.IntOrString'']\<rparr>"

definition schema_k8sio_api_apps_v1_RollingUpdateDeployment :: "(string \<Rightarrow> 'r) \<Rightarrow> 'r openapi_definition" where
  "schema_k8sio_api_apps_v1_RollingUpdateDeployment ref =
    \<lparr>defSchema = Schema [Description ''Spec to control the desired behavior of rolling update.'',
      Type [''object''],
      Properties [
      (''maxUnavailable'', Schema [Description ''The maximum number of pods that can be unavailable during the update. Value can be an absolute number (ex: 5) or a percentage of desired pods (ex: 10%). Absolute number is calculated from percentage by rounding down. This can not be 0 if MaxSurge is 0. Defaults to 25%. Example: when this is set to 30%, the old ReplicaSet can be scaled down to 70% of desired pods immediately when the rolling update starts. Once new pods are ready, old ReplicaSet can be scaled down further, followed by scaling up the new ReplicaSet, ensuring that the total number of pods available at all times during the update is at least 70% of desired pods.'',
          Ref (ref ''k8s.io/apimachinery/pkg/util/intstr.IntOrString'')]),
      (''maxSurge'', Schema [Description ''The maximum number of pods that can be scheduled above the desired number of pods. Value can be an absolute number (ex: 5) or a percentage of desired pods (ex: 10%). This can not be 0 if MaxUnavailable is 0. Absolute number is calculated from percentage by rounding up. Defaults to 25%. Example: when this is set to 30%, the new ReplicaSet can be scaled up immediately when the rolling update starts, such that the total number of old and new pods do not exceed 130% of desired pods. Once old pods have been killed, new ReplicaSet can be scaled up further, ensuring that total number of pods running at any time during the update is at most 130% of desired pods.'',
          Ref (ref ''k8s.io/apimachinery/pkg/util/intstr.IntOrString'')])]],
     Dependencies = [''k8s.io/apimachinery/pkg/util/intstr.IntOrString'']\<rparr>"

definition schema_k8sio_api_apps_v1_RollingUpdateStatefulSetStrategy :: "(string \<Rightarrow> 'r) \<Rightarrow> 'r openapi_definition" where
  "schema_k8sio_api_apps_v1_RollingUpdateStatefulSetStrategy ref =
    \<lparr>defSchema = Schema [Description ''RollingUpdateStatefulSetStrategy is used to communicate parameter for RollingUpdateStatefulSetStrategyType.'',
      Type [''object''],
      Properties [
      (''partition'', Schema [Description ''Partition indicates the ordinal at which the StatefulSet should be partitioned. Default value is 0.'',
          Type [''integer''],
          Format ''int32''])]],
     Dependencies = []\<rparr>"

definition schema_k8sio_api_apps_v1_StatefulSet :: "(string \<Rightarrow> 'r) \<Rightarrow> 'r openapi_definition" where
  "schema_k8sio_api_apps_v1_StatefulSet ref =
    \<lparr>defSchema = Schema [Description (''StatefulSet represents a set of pods with consistent identities. Identities are defined as:'' @ [CHR 0x0A] @ '' - Network: A single stable DNS and hostname.'' @ [CHR 0x0A] @ '' - Storage: As many VolumeClaims as requested.'' @ [CHR 0x0A] @ ''The StatefulSet guarantees that a given network identity will always map to the same storage identity.''),
      Type [''object''],
      Properties [
      (''kind'', Schema [Description ''Kind is a string value representing the REST resource this object represents. Servers may infer this from the endpoint the client submits requests to. Cannot be updated. In CamelCase. More info: https://git.k8s.io/community/contributors/devel/sig-architecture/api-conventions.md#types-kinds'',
          Type [''string''],
          Format '''']),
      (''apiVersion'', Schema [Description ''APIVersion defines the versioned schema of this representation of an object. Servers should convert recognized schemas to the latest internal value, and may reject unrecognized values. More info: https://git.k8s.io/community/contributors/devel/sig-architecture/api-conventions.md#resources'',
          Type [''string''],
          Format '''']),
      (''metadata'', Schema [Description ''Standard object's metadata. More info: https://git.k8s.io/community/contributors/devel/sig-architecture/api-conventions.md#metadata'',
          Default (JObject []),
          Ref (ref ''k8s.io/apimachinery/pkg/apis/meta/v1.ObjectMeta'')]),
      (''spec'', Schema [Description ''Spec defines the desired identities of pods in this set.'',
          Default (JObject []),
          Ref (ref ''k8s.io/api/apps/v1.StatefulSetSpec'')]),
      (''status'', Schema [Description ''Status is the current status of Pods in this StatefulSet. This data may be out of date by some window of time.'',
          Default (JObject []),
          Ref (ref ''k8s.io/api/apps/v1.StatefulSetStatus'')])]],
     Dependencies = [''k8s.io/api/apps/v1.StatefulSetSpec'',
     ''k8s.io/api/apps/v1.StatefulSetStatus'',
     ''k8s.io/apimachinery/pkg/apis/meta/v1.ObjectMeta'']\<rparr>"

definition schema_k8sio_api_apps_v1_StatefulSetCondition :: "(string \<Rightarrow> 'r) \<Rightarrow> 'r openapi_definition" where
  "schema_k8sio_api_apps_v1_StatefulSetCondition ref =
    \<lparr>defSchema = Schema [Description ''StatefulSetCondition describes the state of a statefulset at a certain point.'',
      Type [''object''],
      Properties [
      (''type'', Schema [Description ''Type of statefulset condition.'',
          Default (JString ''''),
          Type [''string''],
          Format '''']),
      (''status'', Schema [Description ''Status of the condition, one of True, False, Unknown.'',
          Default (JString ''''),
          Type [''string''],
          Format '''']),
      (''lastTransitionTime'', Schema [Description ''Last time the condition transitioned from one status to another.'',
          Default (JObject []),
          Ref (ref ''k8s.io/apimachinery/pkg/apis/meta/v1.Time'')]),
      (''reason'', Schema [Description ''The reason for the condition's last transition.'',
          Type [''string''],
          Format '''']),
      (''message'', Schema [Description ''A human readable message indicating details about the transition.'',
          Type [''string''],
          Format ''''])],
      Required [''type'', ''status'']],
     Dependencies = [''k8s.io/apimachinery/pkg/apis/meta/v1.Time'']\<rparr>"

definition schema_k8sio_api_apps_v1_StatefulSetList :: "(string \<Rightarrow> 'r) \<Rightarrow> 'r openapi_definition" where
  "schema_k8sio_api_apps_v1_StatefulSetList ref =
    \<lparr>defSchema = Schema [Description ''StatefulSetList is a collection of StatefulSets.'',
      Type [''object''],
      Properties [
      (''kind'', Schema [Description ''Kind is a string value representing the REST resource this object represents. Servers may infer this from the endpoint the client submits requests to. Cannot be updated. In CamelCase. More info: https://git.k8s.io/community/contributors/devel/sig-architecture/api-conventions.md#types-kinds'',
          Type [''string''],
          Format '''']),
      (''apiVersion'', Schema [Description ''APIVersion defines the versioned schema of this representation of an object. Servers should convert recognized schemas to the latest internal value, and may reject unrecognized values. More info: https://git.k8s.io/community/contributors/devel/sig-architecture/api-conventions.md#resources'',
          Type [''string''],
          Format '''']),
      (''metadata'', Schema [Description ''Standard list's metadata. More info: https://git.k8s.io/community/contributors/devel/sig-architecture/api-conventions.md#metadata'',
          Default (JObject []),
          Ref (ref ''k8s.io/apimachinery/pkg/apis/meta/v1.ListMeta'')]),
      (''items'', Schema [Description ''Items is the list of stateful sets.'',
          Type [''array''],
          Items (Schema [Default (JObject []),
            Ref (ref ''k8s.io/api/apps/v1.StatefulSet'')])])],
      Required [''items'']],
     Dependencies = [''k8s.io/api/apps/v1.StatefulSet'',
     ''k8s.io/apimachinery/pkg/apis/meta/v1.ListMeta'']\<rparr>"

definition schema_k8sio_api_apps_v1_StatefulSetSpec :: "(string \<Rightarrow> 'r) \<Rightarrow> 'r openapi_definition" where
  "schema_k8sio_api_apps_v1_StatefulSetSpec ref =
    \<lparr>defSchema = Schema [Description ''A StatefulSetSpec is the specification of a StatefulSet.'',
      Type [''object''],
      Properties [
      (''replicas'', Schema [Description ''replicas is the desired number of replicas of the given Template. These are replicas in the sense that they are instantiations of the same Template, but individual replicas also have a consistent identity. If unspecified, defaults to 1.'',
          Type [''integer''],
          Format ''int32'']),
      (''selector'', Schema [Description ''selector is a label query over pods that should match the replica count. It must match the pod template's labels. More info: https://kubernetes.io/docs/concepts/overview/working-with-objects/labels/#label-selectors'',
          Ref (ref ''k8s.io/apimachinery/pkg/apis/meta/v1.LabelSelector'')]),
      (''template'', Schema [Description ''template is the object that describes the pod that will be created if insufficient replicas are detected. Each pod stamped out by the StatefulSet will fulfill this Template, but have a unique identity from the rest of the StatefulSet.'',
          Default (JObject []),
          Ref (ref ''k8s.io/api/core/v1.PodTemplateSpec'')]),
      (''volumeClaimTemplates'', Schema [Description ''volumeClaimTemplates is a list of claims that pods are allowed to reference. The StatefulSet controller is responsible for mapping network identities to claims in a way that maintains the identity of a pod. Every claim in this list must have at least one matching (by name) volumeMount in one container in the template. A claim in this list takes precedence over any volumes in the template, with the same name.'',
          Type [''array''],
          Items (Schema [Default (JObject []),
            Ref (ref ''k8s.io/api/core/v1.PersistentVolumeClaim'')])]),
      (''serviceName'', Schema [Description ''serviceName is the name of the service that governs this StatefulSet. This service must exist before the StatefulSet, and is responsible for the network identity of the set. Pods get DNS/hostnames that follow the pattern: pod-specific-string.serviceName.default.svc.cluster.local where \"pod-specific-string\" is managed by the StatefulSet controller.'',
          Default (JString ''''),
          Type [''string''],
          Format '''']),
      (''podManagementPolicy'', Schema [Description ''podManagementPolicy controls how pods are created during initial scale up, when replacing pods on nodes, or when scaling down. The default policy is `OrderedReady`, where pods are created in increasing order (pod-0, then pod-1, etc) and the controller will wait until each pod is ready before continuing. When scaling down, the pods are removed in the opposite order. The alternative policy is `Parallel` which will create pods in parallel to match the desired scale without waiting, and on scale down will delete all pods at once.'',
          Type [''string''],
          Format '''']),
      (''updateStrategy'', Schema [Description ''updateStrategy indicates the StatefulSetUpdateStrategy that will be employed to update Pods in the StatefulSet when a revision is made to Template.'',
          Default (JObject []),
          Ref (ref ''k8s.io/api/apps/v1.StatefulSetUpdateStrategy'')]),
      (''revisionHistoryLimit'', Schema [Description ''revisionHistoryLimit is the maximum number of revisions that will be maintained in the StatefulSet's revision history. The revision history consists of all revisions not represented by a currently applied StatefulSetSpec version. The default value is 10.'',
          Type [''integer''],
          Format ''int32'']),
      (''minReadySeconds'', Schema [Description ''Minimum number of seconds for which a newly created pod should be ready without any of its container crashing for it to be considered available. Defaults to 0 (pod will be considered available as soon as it is ready) This is an alpha field and requires enabling StatefulSetMinReadySeconds feature gate.'',
          Type [''integer''],
          Format ''int32''])],
      Required [''selector'', ''template'', ''serviceName'']],
     Dependencies = [''k8s.io/api/apps/v1.StatefulSetUpdateStrategy'',
     ''k8s.io/api/core/v1.PersistentVolumeClaim'',
     ''k8s.io/api/core/v1.PodTemplateSpec'',
     ''k8s.io/apimachinery/pkg/apis/meta/v1.LabelSelector'']\<rparr>"

definition schema_k8sio_api_apps_v1_StatefulSetStatus :: "(string \<Rightarrow> 'r) \<Rightarrow> 'r openapi_definition" where
  "schema_k8sio_api_apps_v1_StatefulSetStatus ref =
    \<lparr>defSchema = Schema [Description ''StatefulSetStatus represents the current state of a StatefulSet.'',
      Type [''object''],
      Properties [
      (''observedGeneration'', Schema [Description ''observedGeneration is the most recent generation observed for this StatefulSet. It corresponds to the StatefulSet's generation, which is updated on mutation by the API Server.'',
          Type [''integer''],
          Format ''int64'']),
      (''replicas'', Schema [Description ''replicas is the number of Pods created by the StatefulSet controller.'',
          Default (JNumber 0),
          Type [''integer''],
          Format ''int32'']),
      (''readyReplicas'', Schema [Description ''readyReplicas is the number of pods created for this StatefulSet with a Ready Condition.'',
          Type [''integer''],
          Format ''int32'']),
      (''currentReplicas'', Schema [Description ''currentReplicas is the number of Pods created by the StatefulSet controller from the StatefulSet version indicated by currentRevision.'',
          Type [''integer''],
          Format ''int32'']),
      (''updatedReplicas'', Schema [Description ''updatedReplicas is the number of Pods created by the StatefulSet controller from the StatefulSet version indicated by updateRevision.'',
          Type [''integer''],
          Format ''int32'']),
      (''currentRevision'', Schema [Description ''currentRevision, if not empty, indicates the version of the StatefulSet used to generate Pods in the sequence [0,currentReplicas).'',
          Type [''string''],
          Format '''']),
      (''updateRevision'', Schema [Description ''updateRevision, if not empty, indicates the version of the StatefulSet used to generate Pods in the sequence [replicas-updatedReplicas,replicas)'',
          Type [''string''],
          Format '''']),
      (''collisionCount'', Schema [Description ''collisionCount is the count of hash collisions for the StatefulSet. The StatefulSet controller uses this field as a collision avoidance mechanism when it needs to create the name for the newest ControllerRevision.'',
          Type [''integer''],
          Format ''int32'']),
      (''conditions'', Schema [Extensions [(''x-kubernetes-patch-merge-key'', JString ''type''), (''x-kubernetes-patch-strategy'', JString ''merge'')],
          Description ''Represents the latest available observations of a statefulset's current state.'',
          Type [''array''],
          Items (Schema [Default (JObject []),
            Ref (ref ''k8s.io/api/apps/v1.StatefulSetCondition'')])]),
      (''availableReplicas'', Schema [Description ''Total number of available pods (ready for at least minReadySeconds) targeted by this statefulset. This is an alpha field and requires enabling StatefulSetMinReadySeconds feature gate. Remove omitempty when graduating to beta'',
          Type [''integer''],
          Format ''int32''])],
      Required [''replicas'']],
     Dependencies = [''k8s.io/api/apps/v1.StatefulSetCondition'']\<rparr>"

definition schema_k8sio_api_apps_v1_StatefulSetUpdateStrategy :: "(string \<Rightarrow> 'r) \<Rightarrow> 'r openapi_definition" where
  "schema_k8sio_api_apps_v1_StatefulSetUpdateStrategy ref =
    \<lparr>defSchema = Schema [Description ''StatefulSetUpdateStrategy indicates the strategy that the StatefulSet controller will use to perform updates. It includes any additional parameters necessary to perform the update for the indicated strategy.'',
      Type [''object''],
      Properties [
      (''type'', Schema [Description ''Type indicates the type of the StatefulSetUpdateStrategy. Default is RollingUpdate.'',
          Type [''string''],
          Format '''']),
      (''rollingUpdate'', Schema [Description ''RollingUpdate is used to communicate parameters when Type is RollingUpdateStatefulSetStrategyType.'',
          Ref (ref ''k8s.io/api/apps/v1.RollingUpdateStatefulSetStrategy'')])]],
     Dependencies = [''k8s.io/api/apps/v1.RollingUpdateStatefulSetStrategy'']\<rparr>"

definition schema_k8sio_api_policy_v1_Eviction :: "(string \<Rightarrow> 'r) \<Rightarrow> 'r openapi_definition" where
  "schema_k8sio_api_policy_v1_Eviction ref =
    \<lparr>defSchema = Schema [Description ''Eviction evicts a pod from its node subject to certain policies and safety constraints. This is a subresource of Pod.  A request to cause such an eviction is created by POSTing to .../pods/<pod name>/evictions.'',
      Type [''object''],
      Properties [
      (''kind'', Schema [Description ''Kind is a string value representing the REST resource this object represents. Servers may infer this from the endpoint the client submits requests to. Cannot be updated. In CamelCase. More info: https://git.k8s.io/community/contributors/devel/sig-architecture/api-conventions.md#types-kinds'',
          Type [''string''],
          Format '''']),
      (''apiVersion'', Schema [Description ''APIVersion defines the versioned schema of this representation of an object. Servers should convert recognized schemas to the latest internal value, and may reject unrecognized values. More info: https://git.k8s.io/community/contributors/devel/sig-architecture/api-conventions.md#resources'',
          Type [''string''],
          Format '''']),
      (''metadata'', Schema [Description ''ObjectMeta describes the pod that is being evicted.'',
          Default (JObject []),
          Ref (ref ''k8s.io/apimachinery/pkg/apis/meta/v1.ObjectMeta'')]),
      (''deleteOptions'', Schema [Description ''DeleteOptions may be provided'',
          Ref (ref ''k8s.io/apimachinery/pkg/apis/meta/v1.DeleteOptions'')])]],
     Dependencies = [''k8s.io/apimachinery/pkg/apis/meta/v1.DeleteOptions'',
     ''k8s.io/apimachinery/pkg/apis/meta/v1.ObjectMeta'']\<rparr>"

definition schema_k8sio_api_policy_v1_PodDisruptionBudget :: "(string \<Rightarrow> 'r) \<Rightarrow> 'r openapi_definition" where
  "schema_k8sio_api_policy_v1_PodDisruptionBudget ref =
    \<lparr>defSchema = Schema [Description ''PodDisruptionBudget is an object to define the max disruption that can be caused to a collection of pods'',
      Type [''object''],
      Properties [
      (''kind'', Schema [Description ''Kind is a string value representing the REST resource this object represents. Servers may infer this from the endpoint the client submits requests to. Cannot be updated. In CamelCase. More info: https://git.k8s.io/community/contributors/devel/sig-architecture/api-conventions.md#types-kinds'',
          Type [''string''],
          Format '''']),
      (''apiVersion'', Schema [Description ''APIVersion defines the versioned schema of this representation of an object. Servers should convert recognized schemas to the latest internal value, and may reject unrecognized values. More info: https://git.k8s.io/community/contributors/devel/sig-architecture/api-conventions.md#resources'',
          Type [''string''],
          Format '''']),
      (''metadata'', Schema [Description ''Standard object's metadata. More info: https://git.k8s.io/community/contributors/devel/sig-architecture/api-conventions.md#metadata'',
          Default (JObject []),
          Ref (ref ''k8s.io/apimachinery/pkg/apis/meta/v1.ObjectMeta'')]),
      (''spec'', Schema [Description ''Specification of the desired behavior of the PodDisruptionBudget.'',
          Default (JObject []),
          Ref (ref ''k8s.io/api/policy/v1.PodDisruptionBudgetSpec'')]),
      (''status'', Schema [Description ''Most recently observed status of the PodDisruptionBudget.'',
          Default (JObject []),
          Ref (ref ''k8s.io/api/policy/v1.PodDisruptionBudgetStatus'')])]],
     Dependencies = [''k8s.io/api/policy/v1.PodDisruptionBudgetSpec'',
     ''k8s.io/api/policy/v1.PodDisruptionBudgetStatus'',
     ''k8s.io/apimachinery/pkg/apis/meta/v1.ObjectMeta'']\<rparr>"

definition schema_k8sio_api_policy_v1_PodDisruptionBudgetList :: "(string \<Rightarrow> 'r) \<Rightarrow> 'r openapi_definition" where
  "schema_k8sio_api_policy_v1_PodDisruptionBudgetList ref =
    \<lparr>defSchema = Schema [Description ''PodDisruptionBudgetList is a collection of PodDisruptionBudgets.'',
      Type [''object''],
      Properties [
      (''kind'', Schema [Description ''Kind is a string value representing the REST resource this object represents. Servers may infer this from the endpoint the client submits requests to. Cannot be updated. In CamelCase. More info: https://git.k8s.io/community/contributors/devel/sig-architecture/api-conventions.md#types-kinds'',
          Type [''string''],
          Format '''']),
      (''apiVersion'', Schema [Description ''APIVersion defines the versioned schema of this representation of an object. Servers should convert recognized schemas to the latest internal value, and may reject unrecognized values. More info: https://git.k8s.io/community/contributors/devel/sig-architecture/api-conventions.md#resources'',
          Type [''string''],
          Format '''']),
      (''metadata'', Schema [Description ''Standard object's metadata. More info: https://git.k8s.io/community/contributors/devel/sig-architecture/api-conventions.md#metadata'',
          Default (JObject []),
          Ref (ref ''k8s.io/apimachinery/pkg/apis/meta/v1.ListMeta'')]),
      (''items'', Schema [Description ''Items is a list of PodDisruptionBudgets'',
          Type [''array''],
          Items (Schema [Default (JObject []),
            Ref (ref ''k8s.io/api/policy/v1.PodDisruptionBudget'')])])],
      Required [''items'']],
     Dependencies = [''k8s.io/api/policy/v1.PodDisruptionBudget'',
     ''k8s.io/apimachinery/pkg/apis/meta/v1.ListMeta'']\<rparr>"

definition schema_k8sio_api_policy_v1_PodDisruptionBudgetSpec :: "(string \<Rightarrow> 'r) \<Rightarrow> 'r openapi_definition" where
  "schema_k8sio_api_policy_v1_PodDisruptionBudgetSpec ref =
    \<lparr>defSchema = Schema [Description ''PodDisruptionBudgetSpec is a description of a PodDisruptionBudget.'',
      Type [''object''],
      Properties [
      (''minAvailable'', Schema [Description ''An eviction is allowed if at least \"minAvailable\" pods selected by \"selector\" will still be available after the eviction, i.e. even in the absence of the evicted pod.  So for example you can prevent all voluntary evictions by specifying \"100%\".'',
          Ref (ref ''k8s.io/apimachinery/pkg/util/intstr.IntOrString'')]),
      (''selector'', Schema [Extensions [(''x-kubernetes-patch-strategy'', JString ''replace'')],
          Description ''Label query over pods whose evictions are managed by the disruption budget. A null selector will match no pods, while an empty ({}) selector will select all pods within the namespace.'',
          Ref (ref ''k8s.io/apimachinery/pkg/apis/meta/v1.LabelSelector'')]),
      (''maxUnavailable'', Schema [Description ''An eviction is allowed if at most \"maxUnavailable\" pods selected by \"selector\" are unavailable after the eviction, i.e. even in absence of the evicted pod. For example, one can prevent all voluntary evictions by specifying 0. This is a mutually exclusive setting with \"minAvailable\".'',
          Ref (ref ''k8s.io/apimachinery/pkg/util/intstr.IntOrString'')])]],
     Dependencies = [''k8s.io/apimachinery/pkg/apis/meta/v1.LabelSelector'',
     ''k8s.io/apimachinery/pkg/util/intstr.IntOrString'']\<rparr>"

definition schema_k8sio_api_policy_v1_PodDisruptionBudgetStatus :: "(string \<Rightarrow> 'r) \<Rightarrow> 'r openapi_definition" where
  "schema_k8sio_api_policy_v1_PodDisruptionBudgetStatus ref =
    \<lparr>defSchema = Schema [Description ''PodDisruptionBudgetStatus represents information about the status of a PodDisruptionBudget. Status may trail the actual state of a system.'',
      Type [''object''],
      Properties [
      (''observedGeneration'', Schema [Description ''Most recent generation observed when updating this PDB status. DisruptionsAllowed and other status information is valid only if observedGeneration equals to PDB's object generation.'',
          Type [''integer''],
          Format ''int64'']),
      (''disruptedPods'', Schema [Description ''DisruptedPods contains information about pods whose eviction was processed by the API server eviction subresource handler but has not yet been observed by the PodDisruptionBudget controller. A pod will be in this map from the time when the API server processed the eviction request to the time when the pod is seen by PDB controller as having been marked for deletion (or after a timeout). The key in the map is the name of the pod and the value is the time when the API server processed the eviction request. If the deletion didn't occur and a pod is still there it will be removed from the list automatically by PodDisruptionBudget controller after some time. If everything goes smooth this map should be empty for the most of the time. Large number of entries in the map may indicate problems with pod deletions.'',
          Type [''object''],
          AdditionalProperties True (Schema [Default (JObject []),
            Ref (ref ''k8s.io/apimachinery/pkg/apis/meta/v1.Time'')])]),
      (''disruptionsAllowed'', Schema [Description ''Number of pod disruptions that are currently allowed.'',
          Default (JNumber 0),
          Type [''integer''],
          Format ''int32'']),
      (''currentHealthy'', Schema [Description ''current number of healthy pods'',
          Default (JNumber 0),
          Type [''integer''],
          Format ''int32'']),
      (''desiredHealthy'', Schema [Description ''minimum desired number of healthy pods'',
          Default (JNumber 0),
          Type [''integer''],
          Format ''int32'']),
      (''expectedPods'', Schema [Description ''total number of pods counted by this disruption budget'',
          Default (JNumber 0),
          Type [''integer''],
          Format ''int32'']),
      (''conditions'', Schema [Extensions [(''x-kubernetes-list-map-keys'', JArray [JString ''type'']), (''x-kubernetes-list-type'', JString ''map''), (''x-kubernetes-patch-merge-key'', JString ''type''), (''x-kubernetes-patch-strategy'', JString ''merge'')],
          Description (''Conditions contain conditions for PDB. The disruption controller sets the DisruptionAllowed condition. The following are known values for the reason field (additional reasons could be added in the future): - SyncFailed: The controller encountered an error and wasn't able to compute'' @ [CHR 0x0A] @ ''              the number of allowed disruptions. Therefore no disruptions are'' @ [CHR 0x0A] @ ''              allowed and the status of the condition will be False.'' @ [CHR 0x0A] @ ''- InsufficientPods: The number of pods are either at or below the number'' @ [CHR 0x0A] @ ''                    required by the PodDisruptionBudget. No disruptions are'' @ [CHR 0x0A] @ ''                    allowed and the status of the condition will be False.'' @ [CHR 0x0A] @ ''- SufficientPods: There are more pods than required by the PodDisruptionBudget.'' @ [CHR 0x0A] @ ''                  The condition will be True, and the number of allowed'' @ [CHR 0x0A] @ ''                  disruptions are provided by the disruptionsAllowed property.''),
          Type [''array''],
          Items (Schema [Default (JObject []),
            Ref (ref ''k8s.io/apimachinery/pkg/apis/meta/v1.Condition'')])])],
      Required [''disruptionsAllowed'', ''currentHealthy'', ''desiredHealthy'', ''expectedPods'']],
     Dependencies = [''k8s.io/apimachinery/pkg/apis/meta/v1.Condition'',
     ''k8s.io/apimachinery/pkg/apis/meta/v1.Time'']\<rparr>"

definition schema_k8sio_api_scheduling_v1_PriorityClass :: "(string \<Rightarrow> 'r) \<Rightarrow> 'r openapi_definition" where
  "schema_k8sio_api_scheduling_v1_PriorityClass ref =
    \<lparr>defSchema = Schema [Description ''PriorityClass defines mapping from a priority class name to the priority integer value. The value can be any valid integer.'',
      Type [''object''],
      Properties [
      (''kind'', Schema [Description ''Kind is a string value representing the REST resource this object represents. Servers may infer this from the endpoint the client submits requests to. Cannot be updated. In CamelCase. More info: https://git.k8s.io/community/contributors/devel/sig-architecture/api-conventions.md#types-kinds'',
          Type [''string''],
          Format '''']),
      (''apiVersion'', Schema [Description ''APIVersion defines the versioned schema of this representation of an object. Servers should convert recognized schemas to the latest internal value, and may reject unrecognized values. More info: https://git.k8s.io/community/contributors/devel/sig-architecture/api-conventions.md#resources'',
          Type [''string''],
          Format '''']),
      (''metadata'', Schema [Description ''Standard object's metadata. More info: https://git.k8s.io/community/contributors/devel/sig-architecture/api-conventions.md#metadata'',
          Default (JObject []),
          Ref (ref ''k8s.io/apimachinery/pkg/apis/meta/v1.ObjectMeta'')]),
      (''value'', Schema [Description ''The value of this priority class. This is the actual priority that pods receive when they have the name of this class in their pod spec.'',
          Default (JNumber 0),
          Type [''integer''],
          Format ''int32'']),
      (''globalDefault'', Schema [Description ''globalDefault specifies whether this PriorityClass should be considered as the default priority for pods that do not have any priority class. Only one PriorityClass can be marked as `globalDefault`. However, if more than one PriorityClasses exists with their `globalDefault` field set to true, the smallest value of such global default PriorityClasses will be used as the default priority.'',
          Type [''boolean''],
          Format '''']),
      (''description'', Schema [Description ''description is an arbitrary string that usually provides guidelines on when this priority class should be used.'',
          Type [''string''],
          Format '''']),
      (''preemptionPolicy'', Schema [Description ''PreemptionPolicy is the Policy for preempting pods with lower priority. One of Never, PreemptLowerPriority. Defaults to PreemptLowerPriority if unset. This field is beta-level, gated by the NonPreemptingPriority feature-gate.'',
          Type [''string''],
          Format ''''])],
      Required [''value'']],
     Dependencies = [''k8s.io/apimachinery/pkg/apis/meta/v1.ObjectMeta'']\<rparr>"

definition schema_k8sio_api_scheduling_v1_PriorityClassList :: "(string \<Rightarrow> 'r) \<Rightarrow> 'r openapi_definition" where
  "schema_k8sio_api_scheduling_v1_PriorityClassList ref =
    \<lparr>defSchema = Schema [Description ''PriorityClassList is a collection of priority classes.'',
      Type [''object''],
      Properties [
      (''kind'', Schema [Description ''Kind is a string value representing the REST resource this object represents. Servers may infer this from the endpoint the client submits requests to. Cannot be updated. In CamelCase. More info: https://git.k8s.io/community/contributors/devel/sig-architecture/api-conventions.md#types-kinds'',
          Type [''string''],
          Format '''']),
      (''apiVersion'', Schema [Description ''APIVersion defines the versioned schema of this representation of an object. Servers should convert recognized schemas to the latest internal value, and may reject unrecognized values. More info: https://git.k8s.io/community/contributors/devel/sig-architecture/api-conventions.md#resources'',
          Type [''string''],
          Format '''']),
      (''metadata'', Schema [Description ''Standard list metadata More info: https://git.k8s.io/community/contributors/devel/sig-architecture/api-conventions.md#metadata'',
          Default (JObject []),
          Ref (ref ''k8s.io/apimachinery/pkg/apis/meta/v1.ListMeta'')]),
      (''items'', Schema [Description ''items is the list of PriorityClasses'',
          Type [''array''],
          Items (Schema [Default (JObject []),
            Ref (ref ''k8s.io/api/scheduling/v1.PriorityClass'')])])],
      Required [''items'']],
     Dependencies = [''k8s.io/api/scheduling/v1.PriorityClass'',
     ''k8s.io/apimachinery/pkg/apis/meta/v1.ListMeta'']\<rparr>"

text \<open>Every definition here is consistent.\<close>

lemma openapi_workloads_ok_1:
  "definition_ok ref (schema_k8sio_api_apps_v1_ControllerRevision ref)"
  "definition_ok ref (schema_k8sio_api_apps_v1_ControllerRevisionList ref)"
  "definition_ok ref (schema_k8sio_api_apps_v1_DaemonSet ref)"
  "definition_ok ref (schema_k8sio_api_apps_v1_DaemonSetCondition ref)"
  "definition_ok ref (schema_k8sio_api_apps_v1_DaemonSetList ref)"
  "definition_ok ref (schema_k8sio_api_apps_v1_DaemonSetSpec ref)"
  "definition_ok ref (schema_k8sio_api_apps_v1_DaemonSetStatus ref)"
  "definition_ok ref (schema_k8sio_api_apps_v1_DaemonSetUpdateStrategy ref)"
  unfolding definition_ok_def
  by (simp_all add:
        schema_k8sio_api_apps_v1_ControllerRevision_def
        schema_k8sio_api_apps_v1_ControllerRevisionList_def
        schema_k8sio_api_apps_v1_DaemonSet_def
        schema_k8sio_api_apps_v1_DaemonSetCondition_def
        schema_k8sio_api_apps_v1_DaemonSetList_def
        schema_k8sio_api_apps_v1_DaemonSetSpec_def
        schema_k8sio_api_apps_v1_DaemonSetStatus_def
        schema_k8sio_api_apps_v1_DaemonSetUpdateStrategy_def)

lemma openapi_workloads_ok_2:
  "definition_ok ref (schema_k8sio_api_apps_v1_Deployment ref)"
  "definition_ok ref (schema_k8sio_api_apps_v1_DeploymentCondition ref)"
  "definition_ok ref (schema_k8sio_api_apps_v1_DeploymentList ref)"
  "definition_ok ref (schema_k8sio_api_apps_v1_DeploymentSpec ref)"
  "definition_ok ref (schema_k8sio_api_apps_v1_DeploymentStatus ref)"
  "definition_ok ref (schema_k8sio_api_apps_v1_DeploymentStrategy ref)"
  "definition_ok ref (schema_k8sio_api_apps_v1_ReplicaSet ref)"
  "definition_ok ref (schema_k8sio_api_apps_v1_ReplicaSetCondition ref)"
  unfolding definition_ok_def
  by (simp_all add:
        schema_k8sio_api_apps_v1_Deployment_def
        schema_k8sio_api_apps_v1_DeploymentCondition_def
        schema_k8sio_api_apps_v1_DeploymentList_def
        schema_k8sio_api_apps_v1_DeploymentSpec_def
        schema_k8sio_api_apps_v1_DeploymentStatus_def
        schema_k8sio_api_apps_v1_DeploymentStrategy_def
        schema_k8sio_api_apps_v1_ReplicaSet_def
        schema_k8sio_api_apps_v1_ReplicaSetCondition_def)

lemma openapi_workloads_ok_3:
  "definition_ok ref (schema_k8sio_api_apps_v1_ReplicaSetList ref)"
  "definition_ok ref (schema_k8sio_api_apps_v1_ReplicaSetSpec ref)"
  "definition_ok ref (schema_k8sio_api_apps_v1_ReplicaSetStatus ref)"
  "definition_ok ref (schema_k8sio_api_apps_v1_RollingUpdateDaemonSet ref)"
  "definition_ok ref (schema_k8sio_api_apps_v1_RollingUpdateDeployment ref)"
  "definition_ok ref (schema_k8sio_api_apps_v1_RollingUpdateStatefulSetStrategy ref)"
  "definition_ok ref (schema_k8sio_api_apps_v1_StatefulSet ref)"
  "definition_ok ref (schema_k8sio_api_apps_v1_StatefulSetCondition ref)"
  unfolding definition_ok_def
  by (simp_all add:
        schema_k8sio_api_apps_v1_ReplicaSetList_def
        schema_k8sio_api_apps_v1_ReplicaSetSpec_def
        schema_k8sio_api_apps_v1_ReplicaSetStatus_def
        schema_k8sio_api_apps_v1_RollingUpdateDaemonSet_def
        schema_k8sio_api_apps_v1_RollingUpdateDeployment_def
        schema_k8sio_api_apps_v1_RollingUpdateStatefulSetStrategy_def
        schema_k8sio_api_apps_v1_StatefulSet_def
        schema_k8sio_api_apps_v1_StatefulSetCondition_def)

lemma openapi_workloads_ok_4:
  "definition_ok ref (schema_k8sio_api_apps_v1_StatefulSetList ref)"
  "definition_ok ref (schema_k8sio_api_apps_v1_StatefulSetSpec ref)"
  "definition_ok ref (schema_k8sio_api_apps_v1_StatefulSetStatus ref)"
  "definition_ok ref (schema_k8sio_api_apps_v1_StatefulSetUpdateStrategy ref)"
  "definition_ok ref (schema_k8sio_api_policy_v1_Eviction ref)"
  "definition_ok ref (schema_k8sio_api_policy_v1_PodDisruptionBudget ref)"
  "definition_ok ref (schema_k8sio_api_policy_v1_PodDisruptionBudgetList ref)"
  "definition_ok ref (schema_k8sio_api_policy_v1_PodDisruptionBudgetSpec ref)"
  unfolding definition_ok_def
  by (simp_all add:
        schema_k8sio_api_apps_v1_StatefulSetList_def
        schema_k8sio_api_apps_v1_StatefulSetSpec_def
        schema_k8sio_api_apps_v1_StatefulSetStatus_def
        schema_k8sio_api_apps_v1_StatefulSetUpdateStrategy_def
        schema_k8sio_api_policy_v1_Eviction_def
        schema_k8sio_api_policy_v1_PodDisruptionBudget_def
        schema_k8sio_api_policy_v1_PodDisruptionBudgetList_def
        schema_k8sio_api_policy_v1_PodDisruptionBudgetSpec_def)

lemma openapi_workloads_ok_5:
  "definition_ok ref (schema_k8sio_api_policy_v1_PodDisruptionBudgetStatus ref)"
  "definition_ok ref (schema_k8sio_api_scheduling_v1_PriorityClass ref)"
  "definition_ok ref (schema_k8sio_api_scheduling_v1_PriorityClassList ref)"
  unfolding definition_ok_def
  by (simp_all add:
        schema_k8sio_api_policy_v1_PodDisruptionBudgetStatus_def
        schema_k8sio_api_scheduling_v1_PriorityClass_def
        schema_k8sio_api_scheduling_v1_PriorityClassList_def)

lemmas openapi_workloads_ok =
  openapi_workloads_ok_1
  openapi_workloads_ok_2
  openapi_workloads_ok_3
  openapi_workloads_ok_4
  openapi_workloads_ok_5

end
