(* ===== verification/OpenAPI_Flow.thy ===== *)
theory OpenAPI_Flow
  imports OpenAPI
begin

text \<open>
  The definitions of \<open>zz_generated.openapi.go\<close> for events (\<open>events/v1\<close>), leases, and the flow control of the API server.
\<close>

definition schema_k8sio_api_coordination_v1_Lease :: "(string \<Rightarrow> 'r) \<Rightarrow> 'r openapi_definition" where
  "schema_k8sio_api_coordination_v1_Lease ref =
    \<lparr>defSchema = Schema [Description ''Lease defines a lease concept.'',
      Type [''object''],
      Properties [
      (''kind'', Schema [Description ''Kind is a string value representing the REST resource this object represents. Servers may infer this from the endpoint the client submits requests to. Cannot be updated. In CamelCase. More info: https://git.k8s.io/community/contributors/devel/sig-architecture/api-conventions.md#types-kinds'',
          Type [''string''],
          Format '''']),
      (''apiVersion'', Schema [Description ''APIVersion defines the versioned schema of this representation of an object. Servers should convert recognized schemas to the latest internal value, and may reject unrecognized values. More info: https://git.k8s.io/community/contributors/devel/sig-architecture/api-conventions.md#resources'',
          Type [''string''],
          Format '''']),
      (''metadata'', Schema [Description ''More info: https://git.k8s.io/community/contributors/devel/sig-architecture/api-conventions.md#metadata'',
          Default (JObject []),
          Ref (ref ''k8s.io/apimachinery/pkg/apis/meta/v1.ObjectMeta'')]),
      (''spec'', Schema [Description ''Specification of the Lease. More info: https://git.k8s.io/community/contributors/devel/sig-architecture/api-conventions.md#spec-and-status'',
          Default (JObject []),
          Ref (ref ''k8s.io/api/coordination/v1.LeaseSpec'')])]],
     Dependencies = [''k8s.io/api/coordination/v1.LeaseSpec'',
     ''k8s.io/apimachinery/pkg/apis/meta/v1.ObjectMeta'']\<rparr>"

definition schema_k8sio_api_coordination_v1_LeaseList :: "(string \<Rightarrow> 'r) \<Rightarrow> 'r openapi_definition" where
  "schema_k8sio_api_coordination_v1_LeaseList ref =
    \<lparr>defSchema = Schema [Description ''LeaseList is a list of Lease objects.'',
      Type [''object''],
      Properties [
      (''kind'', Schema [Description ''Kind is a string value representing the REST resource this object represents. Servers may infer this from the endpoint the client submits requests to. Cannot be updated. In CamelCase. More info: https://git.k8s.io/community/contributors/devel/sig-architecture/api-conventions.md#types-kinds'',
          Type [''string''],
          Format '''']),
      (''apiVersion'', Schema [Description ''APIVersion defines the versioned schema of this representation of an object. Servers should convert recognized schemas to the latest internal value, and may reject unrecognized values. More info: https://git.k8s.io/community/contributors/devel/sig-architecture/api-conventions.md#resources'',
          Type [''string''],
          Format '''']),
      (''metadata'', Schema [Description ''Standard list metadata. More info: https://git.k8s.io/community/contributors/devel/sig-architecture/api-conventions.md#metadata'',
          Default (JObject []),
          Ref (ref ''k8s.io/apimachinery/pkg/apis/meta/v1.ListMeta'')]),
      (''items'', Schema [Description ''Items is a list of schema objects.'',
          Type [''array''],
          Items (Schema [Default (JObject []),
            Ref (ref ''k8s.io/api/coordination/v1.Lease'')])])],
      Required [''items'']],
     Dependencies = [''k8s.io/api/coordination/v1.Lease'',
     ''k8s.io/apimachinery/pkg/apis/meta/v1.ListMeta'']\<rparr>"

definition schema_k8sio_api_coordination_v1_LeaseSpec :: "(string \<Rightarrow> 'r) \<Rightarrow> 'r openapi_definition" where
  "schema_k8sio_api_coordination_v1_LeaseSpec ref =
    \<lparr>defSchema = Schema [Description ''LeaseSpec is a specification of a Lease.'',
      Type [''object''],
      Properties [
      (''holderIdentity'', Schema [Description ''holderIdentity contains the identity of the holder of a current lease.'',
          Type [''string''],
          Format '''']),
      (''leaseDurationSeconds'', Schema [Description ''leaseDurationSeconds is a duration that candidates for a lease need to wait to force acquire it. This is measure against time of last observed RenewTime.'',
          Type [''integer''],
          Format ''int32'']),
      (''acquireTime'', Schema [Description ''acquireTime is a time when the current lease was acquired.'',
          Ref (ref ''k8s.io/apimachinery/pkg/apis/meta/v1.MicroTime'')]),
      (''renewTime'', Schema [Description ''renewTime is a time when the current holder of a lease has last updated the lease.'',
          Ref (ref ''k8s.io/apimachinery/pkg/apis/meta/v1.MicroTime'')]),
      (''leaseTransitions'', Schema [Description ''leaseTransitions is the number of transitions of a lease between holders.'',
          Type [''integer''],
          Format ''int32''])]],
     Dependencies = [''k8s.io/apimachinery/pkg/apis/meta/v1.MicroTime'']\<rparr>"

definition schema_k8sio_api_events_v1_Event :: "(string \<Rightarrow> 'r) \<Rightarrow> 'r openapi_definition" where
  "schema_k8sio_api_events_v1_Event ref =
    \<lparr>defSchema = Schema [Description ''Event is a report of an event somewhere in the cluster. It generally denotes some state change in the system. Events have a limited retention time and triggers and messages may evolve with time.  Event consumers should not rely on the timing of an event with a given Reason reflecting a consistent underlying trigger, or the continued existence of events with that Reason.  Events should be treated as informative, best-effort, supplemental data.'',
      Type [''object''],
      Properties [
      (''kind'', Schema [Description ''Kind is a string value representing the REST resource this object represents. Servers may infer this from the endpoint the client submits requests to. Cannot be updated. In CamelCase. More info: https://git.k8s.io/community/contributors/devel/sig-architecture/api-conventions.md#types-kinds'',
          Type [''string''],
          Format '''']),
      (''apiVersion'', Schema [Description ''APIVersion defines the versioned schema of this representation of an object. Servers should convert recognized schemas to the latest internal value, and may reject unrecognized values. More info: https://git.k8s.io/community/contributors/devel/sig-architecture/api-conventions.md#resources'',
          Type [''string''],
          Format '''']),
      (''metadata'', Schema [Description ''Standard object's metadata. More info: https://git.k8s.io/community/contributors/devel/sig-architecture/api-conventions.md#metadata'',
          Default (JObject []),
          Ref (ref ''k8s.io/apimachinery/pkg/apis/meta/v1.ObjectMeta'')]),
      (''eventTime'', Schema [Description ''eventTime is the time when this Event was first observed. It is required.'',
          Default (JObject []),
          Ref (ref ''k8s.io/apimachinery/pkg/apis/meta/v1.MicroTime'')]),
      (''series'', Schema [Description ''series is data about the Event series this event represents or nil if it's a singleton Event.'',
          Ref (ref ''k8s.io/api/events/v1.EventSeries'')]),
      (''reportingController'', Schema [Description ''reportingController is the name of the controller that emitted this Event, e.g. `kubernetes.io/kubelet`. This field cannot be empty for new Events.'',
          Type [''string''],
          Format '''']),
      (''reportingInstance'', Schema [Description ''reportingInstance is the ID of the controller instance, e.g. `kubelet-xyzf`. This field cannot be empty for new Events and it can have at most 128 characters.'',
          Type [''string''],
          Format '''']),
      (''action'', Schema [Description ''action is what action was taken/failed regarding to the regarding object. It is machine-readable. This field cannot be empty for new Events and it can have at most 128 characters.'',
          Type [''string''],
          Format '''']),
      (''reason'', Schema [Description ''reason is why the action was taken. It is human-readable. This field cannot be empty for new Events and it can have at most 128 characters.'',
          Type [''string''],
          Format '''']),
      (''regarding'', Schema [Description ''regarding contains the object this Event is about. In most cases it's an Object reporting controller implements, e.g. ReplicaSetController implements ReplicaSets and this event is emitted because it acts on some changes in a ReplicaSet object.'',
          Default (JObject []),
          Ref (ref ''k8s.io/api/core/v1.ObjectReference'')]),
      (''related'', Schema [Description ''related is the optional secondary object for more complex actions. E.g. when regarding object triggers a creation or deletion of related object.'',
          Ref (ref ''k8s.io/api/core/v1.ObjectReference'')]),
      (''note'', Schema [Description ''note is a human-readable description of the status of this operation. Maximal length of the note is 1kB, but libraries should be prepared to handle values up to 64kB.'',
          Type [''string''],
          Format '''']),
      (''type'', Schema [Description ''type is the type of this event (Normal, Warning), new types could be added in the future. It is machine-readable. This field cannot be empty for new Events.'',
          Type [''string''],
          Format '''']),
      (''deprecatedSource'', Schema [Description ''deprecatedSource is the deprecated field assuring backward compatibility with core.v1 Event type.'',
          Default (JObject []),
          Ref (ref ''k8s.io/api/core/v1.EventSource'')]),
      (''deprecatedFirstTimestamp'', Schema [Description ''deprecatedFirstTimestamp is the deprecated field assuring backward compatibility with core.v1 Event type.'',
          Default (JObject []),
          Ref (ref ''k8s.io/apimachinery/pkg/apis/meta/v1.Time'')]),
      (''deprecatedLastTimestamp'', Schema [Description ''deprecatedLastTimestamp is the deprecated field assuring backward compatibility with core.v1 Event type.'',
          Default (JObject []),
          Ref (ref ''k8s.io/apimachinery/pkg/apis/meta/v1.Time'')]),
      (''deprecatedCount'', Schema [Description ''deprecatedCount is the deprecated field assuring backward compatibility with core.v1 Event type.'',
          Type [''integer''],
          Format ''int32''])],
      Required [''eventTime'']],
     Dependencies = [''k8s.io/api/core/v1.EventSource'',
     ''k8s.io/api/core/v1.ObjectReference'',
     ''k8s.io/api/events/v1.EventSeries'',
     ''k8s.io/apimachinery/pkg/apis/meta/v1.MicroTime'',
     ''k8s.io/apimachinery/pkg/apis/meta/v1.ObjectMeta'',
     ''k8s.io/apimachinery/pkg/apis/meta/v1.Time'']\<rparr>"

definition schema_k8sio_api_events_v1_EventList :: "(string \<Rightarrow> 'r) \<Rightarrow> 'r openapi_definition" where
  "schema_k8sio_api_events_v1_EventList ref =
    \<lparr>defSchema = Schema [Description ''EventList is a list of Event objects.'',
      Type [''object''],
      Properties [
      (''kind'', Schema [Description ''Kind is a string value representing the REST resource this object represents. Servers may infer this from the endpoint the client submits requests to. Cannot be updated. In CamelCase. More info: https://git.k8s.io/community/contributors/devel/sig-architecture/api-conventions.md#types-kinds'',
          Type [''string''],
          Format '''']),
      (''apiVersion'', Schema [Description ''APIVersion defines the versioned schema of this representation of an object. Servers should convert recognized schemas to the latest internal value, and may reject unrecognized values. More info: https://git.k8s.io/community/contributors/devel/sig-architecture/api-conventions.md#resources'',
          Type [''string''],
          Format '''']),
      (''metadata'', Schema [Description ''Standard list metadata. More info: https://git.k8s.io/community/contributors/devel/sig-architecture/api-conventions.md#metadata'',
          Default (JObject []),
          Ref (ref ''k8s.io/apimachinery/pkg/apis/meta/v1.ListMeta'')]),
      (''items'', Schema [Description ''items is a list of schema objects.'',
          Type [''array''],
          Items (Schema [Default (JObject []),
            Ref (ref ''k8s.io/api/events/v1.Event'')])])],
      Required [''items'']],
     Dependencies = [''k8s.io/api/events/v1.Event'',
     ''k8s.io/apimachinery/pkg/apis/meta/v1.ListMeta'']\<rparr>"

definition schema_k8sio_api_events_v1_EventSeries :: "(string \<Rightarrow> 'r) \<Rightarrow> 'r openapi_definition" where
  "schema_k8sio_api_events_v1_EventSeries ref =
    \<lparr>defSchema = Schema [Description ''EventSeries contain information on series of events, i.e. thing that was/is happening continuously for some time. How often to update the EventSeries is up to the event reporters. The default event reporter in \"k8s.io/client-go/tools/events/event_broadcaster.go\" shows how this struct is updated on heartbeats and can guide customized reporter implementations.'',
      Type [''object''],
      Properties [
      (''count'', Schema [Description ''count is the number of occurrences in this series up to the last heartbeat time.'',
          Default (JNumber 0),
          Type [''integer''],
          Format ''int32'']),
      (''lastObservedTime'', Schema [Description ''lastObservedTime is the time when last Event from the series was seen before last heartbeat.'',
          Default (JObject []),
          Ref (ref ''k8s.io/apimachinery/pkg/apis/meta/v1.MicroTime'')])],
      Required [''count'', ''lastObservedTime'']],
     Dependencies = [''k8s.io/apimachinery/pkg/apis/meta/v1.MicroTime'']\<rparr>"

definition schema_k8sio_api_flowcontrol_v1beta1_FlowDistinguisherMethod :: "(string \<Rightarrow> 'r) \<Rightarrow> 'r openapi_definition" where
  "schema_k8sio_api_flowcontrol_v1beta1_FlowDistinguisherMethod ref =
    \<lparr>defSchema = Schema [Description ''FlowDistinguisherMethod specifies the method of a flow distinguisher.'',
      Type [''object''],
      Properties [
      (''type'', Schema [Description ''`type` is the type of flow distinguisher method The supported types are \"ByUser\" and \"ByNamespace\". Required.'',
          Default (JString ''''),
          Type [''string''],
          Format ''''])],
      Required [''type'']],
     Dependencies = []\<rparr>"

definition schema_k8sio_api_flowcontrol_v1beta1_FlowSchema :: "(string \<Rightarrow> 'r) \<Rightarrow> 'r openapi_definition" where
  "schema_k8sio_api_flowcontrol_v1beta1_FlowSchema ref =
    \<lparr>defSchema = Schema [Description ''FlowSchema defines the schema of a group of flows. Note that a flow is made up of a set of inbound API requests with similar attributes and is identified by a pair of strings: the name of the FlowSchema and a \"flow distinguisher\".'',
      Type [''object''],
      Properties [
      (''kind'', Schema [Description ''Kind is a string value representing the REST resource this object represents. Servers may infer this from the endpoint the client submits requests to. Cannot be updated. In CamelCase. More info: https://git.k8s.io/community/contributors/devel/sig-architecture/api-conventions.md#types-kinds'',
          Type [''string''],
          Format '''']),
      (''apiVersion'', Schema [Description ''APIVersion defines the versioned schema of this representation of an object. Servers should convert recognized schemas to the latest internal value, and may reject unrecognized values. More info: https://git.k8s.io/community/contributors/devel/sig-architecture/api-conventions.md#resources'',
          Type [''string''],
          Format '''']),
      (''metadata'', Schema [Description ''`metadata` is the standard object's metadata. More info: https://git.k8s.io/community/contributors/devel/sig-architecture/api-conventions.md#metadata'',
          Default (JObject []),
          Ref (ref ''k8s.io/apimachinery/pkg/apis/meta/v1.ObjectMeta'')]),
      (''spec'', Schema [Description ''`spec` is the specification of the desired behavior of a FlowSchema. More info: https://git.k8s.io/community/contributors/devel/sig-architecture/api-conventions.md#spec-and-status'',
          Default (JObject []),
          Ref (ref ''k8s.io/api/flowcontrol/v1beta1.FlowSchemaSpec'')]),
      (''status'', Schema [Description ''`status` is the current status of a FlowSchema. More info: https://git.k8s.io/community/contributors/devel/sig-architecture/api-conventions.md#spec-and-status'',
          Default (JObject []),
          Ref (ref ''k8s.io/api/flowcontrol/v1beta1.FlowSchemaStatus'')])]],
     Dependencies = [''k8s.io/api/flowcontrol/v1beta1.FlowSchemaSpec'',
     ''k8s.io/api/flowcontrol/v1beta1.FlowSchemaStatus'',
     ''k8s.io/apimachinery/pkg/apis/meta/v1.ObjectMeta'']\<rparr>"

definition schema_k8sio_api_flowcontrol_v1beta1_FlowSchemaCondition :: "(string \<Rightarrow> 'r) \<Rightarrow> 'r openapi_definition" where
  "schema_k8sio_api_flowcontrol_v1beta1_FlowSchemaCondition ref =
    \<lparr>defSchema = Schema [Description ''FlowSchemaCondition describes conditions for a FlowSchema.'',
      Type [''object''],
      Properties [
      (''type'', Schema [Description ''`type` is the type of the condition. Required.'',
          Type [''string''],
          Format '''']),
      (''status'', Schema [Description ''`status` is the status of the condition. Can be True, False, Unknown. Required.'',
          Type [''string''],
          Format '''']),
      (''lastTransitionTime'', Schema [Description ''`lastTransitionTime` is the last time the condition transitioned from one status to another.'',
          Default (JObject []),
          Ref (ref ''k8s.io/apimachinery/pkg/apis/meta/v1.Time'')]),
      (''reason'', Schema [Description ''`reason` is a unique, one-word, CamelCase reason for the condition's last transition.'',
          Type [''string''],
          Format '''']),
      (''message'', Schema [Description ''`message` is a human-readable message indicating details about last transition.'',
          Type [''string''],
          Format ''''])]],
     Dependencies = [''k8s.io/apimachinery/pkg/apis/meta/v1.Time'']\<rparr>"

definition schema_k8sio_api_flowcontrol_v1beta1_FlowSchemaList :: "(string \<Rightarrow> 'r) \<Rightarrow> 'r openapi_definition" where
  "schema_k8sio_api_flowcontrol_v1beta1_FlowSchemaList ref =
    \<lparr>defSchema = Schema [Description ''FlowSchemaList is a list of FlowSchema objects.'',
      Type [''object''],
      Properties [
      (''kind'', Schema [Description ''Kind is a string value representing the REST resource this object represents. Servers may infer this from the endpoint the client submits requests to. Cannot be updated. In CamelCase. More info: https://git.k8s.io/community/contributors/devel/sig-architecture/api-conventions.md#types-kinds'',
          Type [''string''],
          Format '''']),
      (''apiVersion'', Schema [Description ''APIVersion defines the versioned schema of this representation of an object. Servers should convert recognized schemas to the latest internal value, and may reject unrecognized values. More info: https://git.k8s.io/community/contributors/devel/sig-architecture/api-conventions.md#resources'',
          Type [''string''],
          Format '''']),
      (''metadata'', Schema [Description ''`metadata` is the standard list metadata. More info: https://git.k8s.io/community/contributors/devel/sig-architecture/api-conventions.md#metadata'',
          Default (JObject []),
          Ref (ref ''k8s.io/apimachinery/pkg/apis/meta/v1.ListMeta'')]),
      (''items'', Schema [Description ''`items` is a list of FlowSchemas.'',
          Type [''array''],
          Items (Schema [Default (JObject []),
            Ref (ref ''k8s.io/api/flowcontrol/v1beta1.FlowSchema'')])])],
      Required [''items'']],
     Dependencies = [''k8s.io/api/flowcontrol/v1beta1.FlowSchema'',
     ''k8s.io/apimachinery/pkg/apis/meta/v1.ListMeta'']\<rparr>"

definition schema_k8sio_api_flowcontrol_v1beta1_FlowSchemaSpec :: "(string \<Rightarrow> 'r) \<Rightarrow> 'r openapi_definition" where
  "schema_k8sio_api_flowcontrol_v1beta1_FlowSchemaSpec ref =
    \<lparr>defSchema = Schema [Description ''FlowSchemaSpec describes how the FlowSchema's specification looks like.'',
      Type [''object''],
      Properties [
      (''priorityLevelConfiguration'', Schema [Description ''`priorityLevelConfiguration` should reference a PriorityLevelConfiguration in the cluster. If the reference cannot be resolved, the FlowSchema will be ignored and marked as invalid in its status. Required.'',
          Default (JObject []),
          Ref (ref ''k8s.io/api/flowcontrol/v1beta1.PriorityLevelConfigurationReference'')]),
      (''matchingPrecedence'', Schema [Description ''`matchingPrecedence` is used to choose among the FlowSchemas that match a given request. The chosen FlowSchema is among those with the numerically lowest (which we take to be logically highest) MatchingPrecedence.  Each MatchingPrecedence value must be ranged in [1,10000]. Note that if the precedence is not specified, it will be set to 1000 as default.'',
          Default (JNumber 0),
          Type [''integer''],
          Format ''int32'']),
      (''distinguisherMethod'', Schema [Description ''`distinguisherMethod` defines how to compute the flow distinguisher for requests that match this schema. `nil` specifies that the distinguisher is disabled and thus will always be the empty string.'',
          Ref (ref ''k8s.io/api/flowcontrol/v1beta1.FlowDistinguisherMethod'')]),
      (''rules'', Schema [Extensions [(''x-kubernetes-list-type'', JString ''atomic'')],
          Description ''`rules` describes which requests will match this flow schema. This FlowSchema matches a request if and only if at least one member of rules matches the request. if it is an empty slice, there will be no requests matching the FlowSchema.'',
          Type [''array''],
          Items (Schema [Default (JObject []),
            Ref (ref ''k8s.io/api/flowcontrol/v1beta1.PolicyRulesWithSubjects'')])])],
      Required [''priorityLevelConfiguration'']],
     Dependencies = [''k8s.io/api/flowcontrol/v1beta1.FlowDistinguisherMethod'',
     ''k8s.io/api/flowcontrol/v1beta1.PolicyRulesWithSubjects'',
     ''k8s.io/api/flowcontrol/v1beta1.PriorityLevelConfigurationReference'']\<rparr>"

definition schema_k8sio_api_flowcontrol_v1beta1_FlowSchemaStatus :: "(string \<Rightarrow> 'r) \<Rightarrow> 'r openapi_definition" where
  "schema_k8sio_api_flowcontrol_v1beta1_FlowSchemaStatus ref =
    \<lparr>defSchema = Schema [Description ''FlowSchemaStatus represents the current state of a FlowSchema.'',
      Type [''object''],
      Properties [
      (''conditions'', Schema [Extensions [(''x-kubernetes-list-map-keys'', JArray [JString ''type'']), (''x-kubernetes-list-type'', JString ''map'')],
          Description ''`conditions` is a list of the current states of FlowSchema.'',
          Type [''array''],
          Items (Schema [Default (JObject []),
            Ref (ref ''k8s.io/api/flowcontrol/v1beta1.FlowSchemaCondition'')])])]],
     Dependencies = [''k8s.io/api/flowcontrol/v1beta1.FlowSchemaCondition'']\<rparr>"

definition schema_k8sio_api_flowcontrol_v1beta1_GroupSubject :: "(string \<Rightarrow> 'r) \<Rightarrow> 'r openapi_definition" where
  "schema_k8sio_api_flowcontrol_v1beta1_GroupSubject ref =
    \<lparr>defSchema = Schema [Description ''GroupSubject holds detailed information for group-kind subject.'',
      Type [''object''],
      Properties [
      (''name'', Schema [Description ''name is the user group that matches, or \"*\" to match all user groups. See https://github.com/kubernetes/apiserver/blob/master/pkg/authentication/user/user.go for some well-known group names. Required.'',
          Default (JString ''''),
          Type [''string''],
          Format ''''])],
      Required [''name'']],
     Dependencies = []\<rparr>"

definition schema_k8sio_api_flowcontrol_v1beta1_LimitResponse :: "(string \<Rightarrow> 'r) \<Rightarrow> 'r openapi_definition" where
  "schema_k8sio_api_flowcontrol_v1beta1_LimitResponse ref =
    \<lparr>defSchema = Schema [Description ''LimitResponse defines how to handle requests that can not be executed right now.'',
      Type [''object''],
      Properties [
      (''type'', Schema [Description ''`type` is \"Queue\" or \"Reject\". \"Queue\" means that requests that can not be executed upon arrival are held in a queue until they can be executed or a queuing limit is reached. \"Reject\" means that requests that can not be executed upon arrival are rejected. Required.'',
          Default (JString ''''),
          Type [''string''],
          Format '''']),
      (''queuing'', Schema [Description ''`queuing` holds the configuration parameters for queuing. This field may be non-empty only if `type` is `\"Queue\"`.'',
          Ref (ref ''k8s.io/api/flowcontrol/v1beta1.QueuingConfiguration'')])],
      Required [''type''],
      Extensions [(''x-kubernetes-unions'', JArray [JObject [(''discriminator'', JString ''type''), (''fields-to-discriminateBy'', JObject [(''queuing'', JString ''Queuing'')])]])]],
     Dependencies = [''k8s.io/api/flowcontrol/v1beta1.QueuingConfiguration'']\<rparr>"

definition schema_k8sio_api_flowcontrol_v1beta1_LimitedPriorityLevelConfiguration :: "(string \<Rightarrow> 'r) \<Rightarrow> 'r openapi_definition" where
  "schema_k8sio_api_flowcontrol_v1beta1_LimitedPriorityLevelConfiguration ref =
    \<lparr>defSchema = Schema [Description (''LimitedPriorityLevelConfiguration specifies how to handle requests that are subject to limits. It addresses two issues:'' @ [CHR 0x0A] @ '' * How are requests for this priority level limited?'' @ [CHR 0x0A] @ '' * What should be done with requests that exceed the limit?''),
      Type [''object''],
      Properties [
      (''assuredConcurrencyShares'', Schema [Description (''`assuredConcurrencyShares` (ACS) configures the execution limit, which is a limit on the number of requests of this priority level that may be exeucting at a given time.  ACS must be a positive number. The server's concurrency limit (SCL) is divided among the concurrency-controlled priority levels in proportion to their assured concurrency shares. This produces the assured concurrency value (ACV) --- the number of requests that may be executing at a time --- for each such priority level:'' @ [CHR 0x0A, CHR 0x0A] @ ''            ACV(l) = ceil( SCL * ACS(l) / ( sum[priority levels k] ACS(k) ) )'' @ [CHR 0x0A, CHR 0x0A] @ ''bigger numbers of ACS mean more reserved concurrent requests (at the expense of every other PL). This field has a default value of 30.''),
          Default (JNumber 0),
          Type [''integer''],
          Format ''int32'']),
      (''limitResponse'', Schema [Description ''`limitResponse` indicates what to do with requests that can not be executed right now'',
          Default (JObject []),
          Ref (ref ''k8s.io/api/flowcontrol/v1beta1.LimitResponse'')])]],
     Dependencies = [''k8s.io/api/flowcontrol/v1beta1.LimitResponse'']\<rparr>"

definition schema_k8sio_api_flowcontrol_v1beta1_NonResourcePolicyRule :: "(string \<Rightarrow> 'r) \<Rightarrow> 'r openapi_definition" where
  "schema_k8sio_api_flowcontrol_v1beta1_NonResourcePolicyRule ref =
    \<lparr>defSchema = Schema [Description ''NonResourcePolicyRule is a predicate that matches non-resource requests according to their verb and the target non-resource URL. A NonResourcePolicyRule matches a request if and only if both (a) at least one member of verbs matches the request and (b) at least one member of nonResourceURLs matches the request.'',
      Type [''object''],
      Properties [
      (''verbs'', Schema [Extensions [(''x-kubernetes-list-type'', JString ''set'')],
          Description ''`verbs` is a list of matching verbs and may not be empty. \"*\" matches all verbs. If it is present, it must be the only entry. Required.'',
          Type [''array''],
          Items (Schema [Default (JString ''''),
            Type [''string''],
            Format ''''])]),
      (''nonResourceURLs'', Schema [Extensions [(''x-kubernetes-list-type'', JString ''set'')],
          Description (''`nonResourceURLs` is a set of url prefixes that a user should have access to and may not be empty. For example:'' @ [CHR 0x0A] @ ''  - \"/healthz\" is legal'' @ [CHR 0x0A] @ ''  - \"/hea*\" is illegal'' @ [CHR 0x0A] @ ''  - \"/hea\" is legal but matches nothing'' @ [CHR 0x0A] @ ''  - \"/hea/*\" also matches nothing'' @ [CHR 0x0A] @ ''  - \"/healthz/*\" matches all per-component health checks.'' @ [CHR 0x0A] @ ''\"*\" matches all non-resource urls. if it is present, it must be the only entry. Required.''),
          Type [''array''],
          Items (Schema [Default (JString ''''),
            Type [''string''],
            Format ''''])])],
      Required [''verbs'', ''nonResourceURLs'']],
     Dependencies = []\<rparr>"

definition schema_k8sio_api_flowcontrol_v1beta1_PolicyRulesWithSubjects :: "(string \<Rightarrow> 'r) \<Rightarrow> 'r openapi_definition" where
  "schema_k8sio_api_flowcontrol_v1beta1_PolicyRulesWithSubjects ref =
    \<lparr>defSchema = Schema [Description ''PolicyRulesWithSubjects prescribes a test that applies to a request to an apiserver. The test considers the subject making the request, the verb being requested, and the resource to be acted upon. This PolicyRulesWithSubjects matches a request if and only if both (a) at least one member of subjects matches the request and (b) at least one member of resourceRules or nonResourceRules matches the request.'',
      Type [''object''],
      Properties [
      (''subjects'', Schema [Extensions [(''x-kubernetes-list-type'', JString ''atomic'')],
          Description ''subjects is the list of normal user, serviceaccount, or group that this rule cares about. There must be at least one member in this slice. A slice that includes both the system:authenticated and system:unauthenticated user groups matches every request. Required.'',
          Type [''array''],
          Items (Schema [Default (JObject []),
            Ref (ref ''k8s.io/api/flowcontrol/v1beta1.Subject'')])]),
      (''resourceRules'', Schema [Extensions [(''x-kubernetes-list-type'', JString ''atomic'')],
          Description ''`resourceRules` is a slice of ResourcePolicyRules that identify matching requests according to their verb and the target resource. At least one of `resourceRules` and `nonResourceRules` has to be non-empty.'',
          Type [''array''],
          Items (Schema [Default (JObject []),
            Ref (ref ''k8s.io/api/flowcontrol/v1beta1.ResourcePolicyRule'')])]),
      (''nonResourceRules'', Schema [Extensions [(''x-kubernetes-list-type'', JString ''atomic'')],
          Description ''`nonResourceRules` is a list of NonResourcePolicyRules that identify matching requests according to their verb and the target non-resource URL.'',
          Type [''array''],
          Items (Schema [Default (JObject []),
            Ref (ref ''k8s.io/api/flowcontrol/v1beta1.NonResourcePolicyRule'')])])],
      Required [''subjects'']],
     Dependencies = [''k8s.io/api/flowcontrol/v1beta1.NonResourcePolicyRule'',
     ''k8s.io/api/flowcontrol/v1beta1.ResourcePolicyRule'',
     ''k8s.io/api/flowcontrol/v1beta1.Subject'']\<rparr>"

definition schema_k8sio_api_flowcontrol_v1beta1_PriorityLevelConfiguration :: "(string \<Rightarrow> 'r) \<Rightarrow> 'r openapi_definition" where
  "schema_k8sio_api_flowcontrol_v1beta1_PriorityLevelConfiguration ref =
    \<lparr>defSchema = Schema [Description ''PriorityLevelConfiguration represents the configuration of a priority level.'',
      Type [''object''],
      Properties [
      (''kind'', Schema [Description ''Kind is a string value representing the REST resource this object represents. Servers may infer this from the endpoint the client submits requests to. Cannot be updated. In CamelCase. More info: https://git.k8s.io/community/contributors/devel/sig-architecture/api-conventions.md#types-kinds'',
          Type [''string''],
          Format '''']),
      (''apiVersion'', Schema [Description ''APIVersion defines the versioned schema of this representation of an object. Servers should convert recognized schemas to the latest internal value, and may reject unrecognized values. More info: https://git.k8s.io/community/contributors/devel/sig-architecture/api-conventions.md#resources'',
          Type [''string''],
          Format '''']),
      (''metadata'', Schema [Description ''`metadata` is the standard object's metadata. More info: https://git.k8s.io/community/contributors/devel/sig-architecture/api-conventions.md#metadata'',
          Default (JObject []),
          Ref (ref ''k8s.io/apimachinery/pkg/apis/meta/v1.ObjectMeta'')]),
      (''spec'', Schema [Description ''`spec` is the specification of the desired behavior of a \"request-priority\". More info: https://git.k8s.io/community/contributors/devel/sig-architecture/api-conventions.md#spec-and-status'',
          Default (JObject []),
          Ref (ref ''k8s.io/api/flowcontrol/v1beta1.PriorityLevelConfigurationSpec'')]),
      (''status'', Schema [Description ''`status` is the current status of a \"request-priority\". More info: https://git.k8s.io/community/contributors/devel/sig-architecture/api-conventions.md#spec-and-status'',
          Default (JObject []),
          Ref (ref ''k8s.io/api/flowcontrol/v1beta1.PriorityLevelConfigurationStatus'')])]],
     Dependencies = [''k8s.io/api/flowcontrol/v1beta1.PriorityLevelConfigurationSpec'',
     ''k8s.io/api/flowcontrol/v1beta1.PriorityLevelConfigurationStatus'',
     ''k8s.io/apimachinery/pkg/apis/meta/v1.ObjectMeta'']\<rparr>"

definition schema_k8sio_api_flowcontrol_v1beta1_PriorityLevelConfigurationCondition :: "(string \<Rightarrow> 'r) \<Rightarrow> 'r openapi_definition" where
  "schema_k8sio_api_flowcontrol_v1beta1_PriorityLevelConfigurationCondition ref =
    \<lparr>defSchema = Schema [Description ''PriorityLevelConfigurationCondition defines the condition of priority level.'',
      Type [''object''],
      Properties [
      (''type'', Schema [Description ''`type` is the type of the condition. Required.'',
          Type [''string''],
          Format '''']),
      (''status'', Schema [Description ''`status` is the status of the condition. Can be True, False, Unknown. Required.'',
          Type [''string''],
          Format '''']),
      (''lastTransitionTime'', Schema [Description ''`lastTransitionTime` is the last time the condition transitioned from one status to another.'',
          Default (JObject []),
          Ref (ref ''k8s.io/apimachinery/pkg/apis/meta/v1.Time'')]),
      (''reason'', Schema [Description ''`reason` is a unique, one-word, CamelCase reason for the condition's last transition.'',
          Type [''string''],
          Format '''']),
      (''message'', Schema [Description ''`message` is a human-readable message indicating details about last transition.'',
          Type [''string''],
          Format ''''])]],
     Dependencies = [''k8s.io/apimachinery/pkg/apis/meta/v1.Time'']\<rparr>"

definition schema_k8sio_api_flowcontrol_v1beta1_PriorityLevelConfigurationList :: "(string \<Rightarrow> 'r) \<Rightarrow> 'r openapi_definition" where
  "schema_k8sio_api_flowcontrol_v1beta1_PriorityLevelConfigurationList ref =
    \<lparr>defSchema = Schema [Description ''PriorityLevelConfigurationList is a list of PriorityLevelConfiguration objects.'',
      Type [''object''],
      Properties [
      (''kind'', Schema [Description ''Kind is a string value representing the REST resource this object represents. Servers may infer this from the endpoint the client submits requests to. Cannot be updated. In CamelCase. More info: https://git.k8s.io/community/contributors/devel/sig-architecture/api-conventions.md#types-kinds'',
          Type [''string''],
          Format '''']),
      (''apiVersion'', Schema [Description ''APIVersion defines the versioned schema of this representation of an object. Servers should convert recognized schemas to the latest internal value, and may reject unrecognized values. More info: https://git.k8s.io/community/contributors/devel/sig-architecture/api-conventions.md#resources'',
          Type [''string''],
          Format '''']),
      (''metadata'', Schema [Description ''`metadata` is the standard object's metadata. More info: https://git.k8s.io/community/contributors/devel/sig-architecture/api-conventions.md#metadata'',
          Default (JObject []),
          Ref (ref ''k8s.io/apimachinery/pkg/apis/meta/v1.ListMeta'')]),
      (''items'', Schema [Description ''`items` is a list of request-priorities.'',
          Type [''array''],
          Items (Schema [Default (JObject []),
            Ref (ref ''k8s.io/api/flowcontrol/v1beta1.PriorityLevelConfiguration'')])])],
      Required [''items'']],
     Dependencies = [''k8s.io/api/flowcontrol/v1beta1.PriorityLevelConfiguration'',
     ''k8s.io/apimachinery/pkg/apis/meta/v1.ListMeta'']\<rparr>"

definition schema_k8sio_api_flowcontrol_v1beta1_PriorityLevelConfigurationReference :: "(string \<Rightarrow> 'r) \<Rightarrow> 'r openapi_definition" where
  "schema_k8sio_api_flowcontrol_v1beta1_PriorityLevelConfigurationReference ref =
    \<lparr>defSchema = Schema [Description ''PriorityLevelConfigurationReference contains information that points to the \"request-priority\" being used.'',
      Type [''object''],
      Properties [
      (''name'', Schema [Description ''`name` is the name of the priority level configuration being referenced Required.'',
          Default (JString ''''),
          Type [''string''],
          Format ''''])],
      Required [''name'']],
     Dependencies = []\<rparr>"

definition schema_k8sio_api_flowcontrol_v1beta1_PriorityLevelConfigurationSpec :: "(string \<Rightarrow> 'r) \<Rightarrow> 'r openapi_definition" where
  "schema_k8sio_api_flowcontrol_v1beta1_PriorityLevelConfigurationSpec ref =
    \<lparr>defSchema = Schema [Description ''PriorityLevelConfigurationSpec specifies the configuration of a priority level.'',
      Type [''object''],
      Properties [
      (''type'', Schema [Description ''`type` indicates whether this priority level is subject to limitation on request execution.  A value of `\"Exempt\"` means that requests of this priority level are not subject to a limit (and thus are never queued) and do not detract from the capacity made available to other priority levels.  A value of `\"Limited\"` means that (a) requests of this priority level _are_ subject to limits and (b) some of the server's limited capacity is made available exclusively to this priority level. Required.'',
          Default (JString ''''),
          Type [''string''],
          Format '''']),
      (''limited'', Schema [Description ''`limited` specifies how requests are handled for a Limited priority level. This field must be non-empty if and only if `type` is `\"Limited\"`.'',
          Ref (ref ''k8s.io/api/flowcontrol/v1beta1.LimitedPriorityLevelConfiguration'')])],
      Required [''type''],
      Extensions [(''x-kubernetes-unions'', JArray [JObject [(''discriminator'', JString ''type''), (''fields-to-discriminateBy'', JObject [(''limited'', JString ''Limited'')])]])]],
     Dependencies = [''k8s.io/api/flowcontrol/v1beta1.LimitedPriorityLevelConfiguration'']\<rparr>"

definition schema_k8sio_api_flowcontrol_v1beta1_PriorityLevelConfigurationStatus :: "(string \<Rightarrow> 'r) \<Rightarrow> 'r openapi_definition" where
  "schema_k8sio_api_flowcontrol_v1beta1_PriorityLevelConfigurationStatus ref =
    \<lparr>defSchema = Schema [Description ''PriorityLevelConfigurationStatus represents the current state of a \"request-priority\".'',
      Type [''object''],
      Properties [
      (''conditions'', Schema [Extensions [(''x-kubernetes-list-map-keys'', JArray [JString ''type'']), (''x-kubernetes-list-type'', JString ''map'')],
          Description ''`conditions` is the current state of \"request-priority\".'',
          Type [''array''],
          Items (Schema [Default (JObject []),
            Ref (ref ''k8s.io/api/flowcontrol/v1beta1.PriorityLevelConfigurationCondition'')])])]],
     Dependencies = [''k8s.io/api/flowcontrol/v1beta1.PriorityLevelConfigurationCondition'']\<rparr>"

definition schema_k8sio_api_flowcontrol_v1beta1_QueuingConfiguration :: "(string \<Rightarrow> 'r) \<Rightarrow> 'r openapi_definition" where
  "schema_k8sio_api_flowcontrol_v1beta1_QueuingConfiguration ref =
    \<lparr>defSchema = Schema [Description ''QueuingConfiguration holds the configuration parameters for queuing'',
      Type [''object''],
      Properties [
      (''queues'', Schema [Description ''`queues` is the number of queues for this priority level. The queues exist independently at each apiserver. The value must be positive.  Setting it to 1 effectively precludes shufflesharding and thus makes the distinguisher method of associated flow schemas irrelevant.  This field has a default value of 64.'',
          Default (JNumber 0),
          Type [''integer''],
          Format ''int32'']),
      (''handSize'', Schema [Description ''`handSize` is a small positive number that configures the shuffle sharding of requests into queues.  When enqueuing a request at this priority level the request's flow identifier (a string pair) is hashed and the hash value is used to shuffle the list of queues and deal a hand of the size specified here.  The request is put into one of the shortest queues in that hand. `handSize` must be no larger than `queues`, and should be significantly smaller (so that a few heavy flows do not saturate most of the queues).  See the user-facing documentation for more extensive guidance on setting this field.  This field has a default value of 8.'',
          Default (JNumber 0),
          Type [''integer''],
          Format ''int32'']),
      (''queueLengthLimit'', Schema [Description ''`queueLengthLimit` is the maximum number of requests allowed to be waiting in a given queue of this priority level at a time; excess requests are rejected.  This value must be positive.  If not specified, it will be defaulted to 50.'',
          Default (JNumber 0),
          Type [''integer''],
          Format ''int32''])]],
     Dependencies = []\<rparr>"

definition schema_k8sio_api_flowcontrol_v1beta1_ResourcePolicyRule :: "(string \<Rightarrow> 'r) \<Rightarrow> 'r openapi_definition" where
  "schema_k8sio_api_flowcontrol_v1beta1_ResourcePolicyRule ref =
    \<lparr>defSchema = Schema [Description ''ResourcePolicyRule is a predicate that matches some resource requests, testing the request's verb and the target resource. A ResourcePolicyRule matches a resource request if and only if: (a) at least one member of verbs matches the request, (b) at least one member of apiGroups matches the request, (c) at least one member of resources matches the request, and (d) least one member of namespaces matches the request.'',
      Type [''object''],
      Properties [
      (''verbs'', Schema [Extensions [(''x-kubernetes-list-type'', JString ''set'')],
          Description ''`verbs` is a list of matching verbs and may not be empty. \"*\" matches all verbs and, if present, must be the only entry. Required.'',
          Type [''array''],
          Items (Schema [Default (JString ''''),
            Type [''string''],
            Format ''''])]),
      (''apiGroups'', Schema [Extensions [(''x-kubernetes-list-type'', JString ''set'')],
          Description ''`apiGroups` is a list of matching API groups and may not be empty. \"*\" matches all API groups and, if present, must be the only entry. Required.'',
          Type [''array''],
          Items (Schema [Default (JString ''''),
            Type [''string''],
            Format ''''])]),
      (''resources'', Schema [Extensions [(''x-kubernetes-list-type'', JString ''set'')],
          Description ''`resources` is a list of matching resources (i.e., lowercase and plural) with, if desired, subresource.  For example, [ \"services\", \"nodes/status\" ].  This list may not be empty. \"*\" matches all resources and, if present, must be the only entry. Required.'',
          Type [''array''],
          Items (Schema [Default (JString ''''),
            Type [''string''],
            Format ''''])]),
      (''clusterScope'', Schema [Description ''`clusterScope` indicates whether to match requests that do not specify a namespace (which happens either because the resource is not namespaced or the request targets all namespaces). If this field is omitted or false then the `namespaces` field must contain a non-empty list.'',
          Type [''boolean''],
          Format '''']),
      (''namespaces'', Schema [Extensions [(''x-kubernetes-list-type'', JString ''set'')],
          Description ''`namespaces` is a list of target namespaces that restricts matches.  A request that specifies a target namespace matches only if either (a) this list contains that target namespace or (b) this list contains \"*\".  Note that \"*\" matches any specified namespace but does not match a request that _does not specify_ a namespace (see the `clusterScope` field for that). This list may be empty, but only if `clusterScope` is true.'',
          Type [''array''],
          Items (Schema [Default (JString ''''),
            Type [''string''],
            Format ''''])])],
      Required [''verbs'', ''apiGroups'', ''resources'']],
     Dependencies = []\<rparr>"

definition schema_k8sio_api_flowcontrol_v1beta1_ServiceAccountSubject :: "(string \<Rightarrow> 'r) \<Rightarrow> 'r openapi_definition" where
  "schema_k8sio_api_flowcontrol_v1beta1_ServiceAccountSubject ref =
    \<lparr>defSchema = Schema [Description ''ServiceAccountSubject holds detailed information for service-account-kind subject.'',
      Type [''object''],
      Properties [
      (''namespace'', Schema [Description ''`namespace` is the namespace of matching ServiceAccount objects. Required.'',
          Default (JString ''''),
          Type [''string''],
          Format '''']),
      (''name'', Schema [Description ''`name` is the name of matching ServiceAccount objects, or \"*\" to match regardless of name. Required.'',
          Default (JString ''''),
          Type [''string''],
          Format ''''])],
      Required [''namespace'', ''name'']],
     Dependencies = []\<rparr>"

definition schema_k8sio_api_flowcontrol_v1beta1_Subject :: "(string \<Rightarrow> 'r) \<Rightarrow> 'r openapi_definition" where
  "schema_k8sio_api_flowcontrol_v1beta1_Subject ref =
    \<lparr>defSchema = Schema [Description ''Subject matches the originator of a request, as identified by the request authentication system. There are three ways of matching an originator; by user, group, or service account.'',
      Type [''object''],
      Properties [
      (''kind'', Schema [Description ''`kind` indicates which one of the other fields is non-empty. Required'',
          Default (JString ''''),
          Type [''string''],
          Format '''']),
      (''user'', Schema [Description ''`user` matches based on username.'',
          Ref (ref ''k8s.io/api/flowcontrol/v1beta1.UserSubject'')]),
      (''group'', Schema [Description ''`group` matches based on user group name.'',
          Ref (ref ''k8s.io/api/flowcontrol/v1beta1.GroupSubject'')]),
      (''serviceAccount'', Schema [Description ''`serviceAccount` matches ServiceAccounts.'',
          Ref (ref ''k8s.io/api/flowcontrol/v1beta1.ServiceAccountSubject'')])],
      Required [''kind''],
      Extensions [(''x-kubernetes-unions'', JArray [JObject [(''discriminator'', JString ''kind''), (''fields-to-discriminateBy'', JObject [(''group'', JString ''Group''), (''serviceAccount'', JString ''ServiceAccount''), (''user'', JString ''User'')])]])]],
     Dependencies = [''k8s.io/api/flowcontrol/v1beta1.GroupSubject'',
     ''k8s.io/api/flowcontrol/v1beta1.ServiceAccountSubject'',
     ''k8s.io/api/flowcontrol/v1beta1.UserSubject'']\<rparr>"

definition schema_k8sio_api_flowcontrol_v1beta1_UserSubject :: "(string \<Rightarrow> 'r) \<Rightarrow> 'r openapi_definition" where
  "schema_k8sio_api_flowcontrol_v1beta1_UserSubject ref =
    \<lparr>defSchema = Schema [Description ''UserSubject holds detailed information for user-kind subject.'',
      Type [''object''],
      Properties [
      (''name'', Schema [Description ''`name` is the username that matches, or \"*\" to match all usernames. Required.'',
          Default (JString ''''),
          Type [''string''],
          Format ''''])],
      Required [''name'']],
     Dependencies = []\<rparr>"

text \<open>Every definition here is consistent.\<close>

lemma openapi_flow_ok_1:
  "definition_ok ref (schema_k8sio_api_coordination_v1_Lease ref)"
  "definition_ok ref (schema_k8sio_api_coordination_v1_LeaseList ref)"
  "definition_ok ref (schema_k8sio_api_coordination_v1_LeaseSpec ref)"
  "definition_ok ref (schema_k8sio_api_events_v1_Event ref)"
  "definition_ok ref (schema_k8sio_api_events_v1_EventList ref)"
  "definition_ok ref (schema_k8sio_api_events_v1_EventSeries ref)"
  "definition_ok ref (schema_k8sio_api_flowcontrol_v1beta1_FlowDistinguisherMethod ref)"
  "definition_ok ref (schema_k8sio_api_flowcontrol_v1beta1_FlowSchema ref)"
  unfolding definition_ok_def
  by (simp_all add:
        schema_k8sio_api_coordination_v1_Lease_def
        schema_k8sio_api_coordination_v1_LeaseList_def
        schema_k8sio_api_coordination_v1_LeaseSpec_def
        schema_k8sio_api_events_v1_Event_def
        schema_k8sio_api_events_v1_EventList_def
        schema_k8sio_api_events_v1_EventSeries_def
        schema_k8sio_api_flowcontrol_v1beta1_FlowDistinguisherMethod_def
        schema_k8sio_api_flowcontrol_v1beta1_FlowSchema_def)

lemma openapi_flow_ok_2:
  "definition_ok ref (schema_k8sio_api_flowcontrol_v1beta1_FlowSchemaCondition ref)"
  "definition_ok ref (schema_k8sio_api_flowcontrol_v1beta1_FlowSchemaList ref)"
  "definition_ok ref (schema_k8sio_api_flowcontrol_v1beta1_FlowSchemaSpec ref)"
  "definition_ok ref (schema_k8sio_api_flowcontrol_v1beta1_FlowSchemaStatus ref)"
  "definition_ok ref (schema_k8sio_api_flowcontrol_v1beta1_GroupSubject ref)"
  "definition_ok ref (schema_k8sio_api_flowcontrol_v1beta1_LimitResponse ref)"
  "definition_ok ref (schema_k8sio_api_flowcontrol_v1beta1_LimitedPriorityLevelConfiguration ref)"
  "definition_ok ref (schema_k8sio_api_flowcontrol_v1beta1_NonResourcePolicyRule ref)"
  unfolding definition_ok_def
  by (simp_all add:
        schema_k8sio_api_flowcontrol_v1beta1_FlowSchemaCondition_def
        schema_k8sio_api_flowcontrol_v1beta1_FlowSchemaList_def
        schema_k8sio_api_flowcontrol_v1beta1_FlowSchemaSpec_def
        schema_k8sio_api_flowcontrol_v1beta1_FlowSchemaStatus_def
        schema_k8sio_api_flowcontrol_v1beta1_GroupSubject_def
        schema_k8sio_api_flowcontrol_v1beta1_LimitResponse_def
        schema_k8sio_api_flowcontrol_v1beta1_LimitedPriorityLevelConfiguration_def
        schema_k8sio_api_flowcontrol_v1beta1_NonResourcePolicyRule_def)

lemma openapi_flow_ok_3:
  "definition_ok ref (schema_k8sio_api_flowcontrol_v1beta1_PolicyRulesWithSubjects ref)"
  "definition_ok ref (schema_k8sio_api_flowcontrol_v1beta1_PriorityLevelConfiguration ref)"
  "definition_ok ref (schema_k8sio_api_flowcontrol_v1beta1_PriorityLevelConfigurationCondition ref)"
  "definition_ok ref (schema_k8sio_api_flowcontrol_v1beta1_PriorityLevelConfigurationList ref)"
  "definition_ok ref (schema_k8sio_api_flowcontrol_v1beta1_PriorityLevelConfigurationReference ref)"
  "definition_ok ref (schema_k8sio_api_flowcontrol_v1beta1_PriorityLevelConfigurationSpec ref)"
  "definition_ok ref (schema_k8sio_api_flowcontrol_v1beta1_PriorityLevelConfigurationStatus ref)"
  "definition_ok ref (schema_k8sio_api_flowcontrol_v1beta1_QueuingConfiguration ref)"
  unfolding definition_ok_def
  by (simp_all add:
        schema_k8sio_api_flowcontrol_v1beta1_PolicyRulesWithSubjects_def
        schema_k8sio_api_flowcontrol_v1beta1_PriorityLevelConfiguration_def
        schema_k8sio_api_flowcontrol_v1beta1_PriorityLevelConfigurationCondition_def
        schema_k8sio_api_flowcontrol_v1beta1_PriorityLevelConfigurationList_def
        schema_k8sio_api_flowcontrol_v1beta1_PriorityLevelConfigurationReference_def
        schema_k8sio_api_flowcontrol_v1beta1_PriorityLevelConfigurationSpec_def
        schema_k8sio_api_flowcontrol_v1beta1_PriorityLevelConfigurationStatus_def
        schema_k8sio_api_flowcontrol_v1beta1_QueuingConfiguration_def)

lemma openapi_flow_ok_4:
  "definition_ok ref (schema_k8sio_api_flowcontrol_v1beta1_ResourcePolicyRule ref)"
  "definition_ok ref (schema_k8sio_api_flowcontrol_v1beta1_ServiceAccountSubject ref)"
  "definition_ok ref (schema_k8sio_api_flowcontrol_v1beta1_Subject ref)"
  "definition_ok ref (schema_k8sio_api_flowcontrol_v1beta1_UserSubject ref)"
  unfolding definition_ok_def
  by (simp_all add:
        schema_k8sio_api_flowcontrol_v1beta1_ResourcePolicyRule_def
        schema_k8sio_api_flowcontrol_v1beta1_ServiceAccountSubject_def
        schema_k8sio_api_flowcontrol_v1beta1_Subject_def
        schema_k8sio_api_flowcontrol_v1beta1_UserSubject_def)

lemmas openapi_flow_ok =
  openapi_flow_ok_1
  openapi_flow_ok_2
  openapi_flow_ok_3
  openapi_flow_ok_4

end
