(* ===== verification/OpenAPI_Definitions.thy ===== *)
theory OpenAPI_Definitions
  imports
    OpenAPI_Meta OpenAPI_Node OpenAPI_Volume OpenAPI_Container OpenAPI_Pod OpenAPI_Requests
    OpenAPI_Core OpenAPI_Storage OpenAPI_Scheduler OpenAPI_Workloads OpenAPI_Flow
begin

text \<open>
  The table that \<open>GetOpenAPIDefinitions\<close> returns, restricted to the API groups that the
  components of the program use: all of \<open>core/v1\<close>, \<open>storage/v1\<close>, \<open>events/v1\<close>, \<open>apps/v1\<close>,
  \<open>policy/v1\<close>, \<open>scheduling/v1\<close>, \<open>coordination/v1\<close>, \<open>flowcontrol/v1beta1\<close> and
  \<open>meta/v1\<close>, the configuration of the Kubernetes scheduler, and all they depend on.  Left
  out of these are the two entries whose dependencies the table of the source lacks,
  \<open>InternalEvent\<close> and \<open>KubeSchedulerConfiguration\<close>.
  A Go map is modelled as the list of its entries, in the order of the source.
\<close>

definition GetOpenAPIDefinitions ::
    "openapi_lib \<Rightarrow> (string \<Rightarrow> 'r) \<Rightarrow> (string \<times> 'r openapi_definition) list" where
  "GetOpenAPIDefinitions lib ref =
    [(''k8s.io/api/apps/v1.ControllerRevision'', schema_k8sio_api_apps_v1_ControllerRevision ref),
     (''k8s.io/api/apps/v1.ControllerRevisionList'', schema_k8sio_api_apps_v1_ControllerRevisionList ref),
     (''k8s.io/api/apps/v1.DaemonSet'', schema_k8sio_api_apps_v1_DaemonSet ref),
     (''k8s.io/api/apps/v1.DaemonSetCondition'', schema_k8sio_api_apps_v1_DaemonSetCondition ref),
     (''k8s.io/api/apps/v1.DaemonSetList'', schema_k8sio_api_apps_v1_DaemonSetList ref),
     (''k8s.io/api/apps/v1.DaemonSetSpec'', schema_k8sio_api_apps_v1_DaemonSetSpec ref),
     (''k8s.io/api/apps/v1.DaemonSetStatus'', schema_k8sio_api_apps_v1_DaemonSetStatus ref),
     (''k8s.io/api/apps/v1.DaemonSetUpdateStrategy'', schema_k8sio_api_apps_v1_DaemonSetUpdateStrategy ref),
     (''k8s.io/api/apps/v1.Deployment'', schema_k8sio_api_apps_v1_Deployment ref),
     (''k8s.io/api/apps/v1.DeploymentCondition'', schema_k8sio_api_apps_v1_DeploymentCondition ref),
     (''k8s.io/api/apps/v1.DeploymentList'', schema_k8sio_api_apps_v1_DeploymentList ref),
     (''k8s.io/api/apps/v1.DeploymentSpec'', schema_k8sio_api_apps_v1_DeploymentSpec ref),
     (''k8s.io/api/apps/v1.DeploymentStatus'', schema_k8sio_api_apps_v1_DeploymentStatus ref),
     (''k8s.io/api/apps/v1.DeploymentStrategy'', schema_k8sio_api_apps_v1_DeploymentStrategy ref),
     (''k8s.io/api/apps/v1.ReplicaSet'', schema_k8sio_api_apps_v1_ReplicaSet ref),
     (''k8s.io/api/apps/v1.ReplicaSetCondition'', schema_k8sio_api_apps_v1_ReplicaSetCondition ref),
     (''k8s.io/api/apps/v1.ReplicaSetList'', schema_k8sio_api_apps_v1_ReplicaSetList ref),
     (''k8s.io/api/apps/v1.ReplicaSetSpec'', schema_k8sio_api_apps_v1_ReplicaSetSpec ref),
     (''k8s.io/api/apps/v1.ReplicaSetStatus'', schema_k8sio_api_apps_v1_ReplicaSetStatus ref),
     (''k8s.io/api/apps/v1.RollingUpdateDaemonSet'', schema_k8sio_api_apps_v1_RollingUpdateDaemonSet ref),
     (''k8s.io/api/apps/v1.RollingUpdateDeployment'', schema_k8sio_api_apps_v1_RollingUpdateDeployment ref),
     (''k8s.io/api/apps/v1.RollingUpdateStatefulSetStrategy'', schema_k8sio_api_apps_v1_RollingUpdateStatefulSetStrategy ref),
     (''k8s.io/api/apps/v1.StatefulSet'', schema_k8sio_api_apps_v1_StatefulSet ref),
     (''k8s.io/api/apps/v1.StatefulSetCondition'', schema_k8sio_api_apps_v1_StatefulSetCondition ref),
     (''k8s.io/api/apps/v1.StatefulSetList'', schema_k8sio_api_apps_v1_StatefulSetList ref),
     (''k8s.io/api/apps/v1.StatefulSetSpec'', schema_k8sio_api_apps_v1_StatefulSetSpec ref),
     (''k8s.io/api/apps/v1.StatefulSetStatus'', schema_k8sio_api_apps_v1_StatefulSetStatus ref),
     (''k8s.io/api/apps/v1.StatefulSetUpdateStrategy'', schema_k8sio_api_apps_v1_StatefulSetUpdateStrategy ref),
     (''k8s.io/api/coordination/v1.Lease'', schema_k8sio_api_coordination_v1_Lease ref),
     (''k8s.io/api/coordination/v1.LeaseList'', schema_k8sio_api_coordination_v1_LeaseList ref),
     (''k8s.io/api/coordination/v1.LeaseSpec'', schema_k8sio_api_coordination_v1_LeaseSpec ref),
     (''k8s.io/api/core/v1.AWSElasticBlockStoreVolumeSource'', schema_k8sio_api_core_v1_AWSElasticBlockStoreVolumeSource ref),
     (''k8s.io/api/core/v1.Affinity'', schema_k8sio_api_core_v1_Affinity ref),
     (''k8s.io/api/core/v1.AttachedVolume'', schema_k8sio_api_core_v1_AttachedVolume ref),
     (''k8s.io/api/core/v1.AvoidPods'', schema_k8sio_api_core_v1_AvoidPods ref),
     (''k8s.io/api/core/v1.AzureDiskVolumeSource'', schema_k8sio_api_core_v1_AzureDiskVolumeSource ref),
     (''k8s.io/api/core/v1.AzureFilePersistentVolumeSource'', schema_k8sio_api_core_v1_AzureFilePersistentVolumeSource ref),
     (''k8s.io/api/core/v1.AzureFileVolumeSource'', schema_k8sio_api_core_v1_AzureFileVolumeSource ref),
     (''k8s.io/api/core/v1.Binding'', schema_k8sio_api_core_v1_Binding ref),
     (''k8s.io/api/core/v1.CSIPersistentVolumeSource'', schema_k8sio_api_core_v1_CSIPersistentVolumeSource ref),
     (''k8s.io/api/core/v1.CSIVolumeSource'', schema_k8sio_api_core_v1_CSIVolumeSource ref),
     (''k8s.io/api/core/v1.Capabilities'', schema_k8sio_api_core_v1_Capabilities ref),
     (''k8s.io/api/core/v1.CephFSPersistentVolumeSource'', schema_k8sio_api_core_v1_CephFSPersistentVolumeSource ref),
     (''k8s.io/api/core/v1.CephFSVolumeSource'', schema_k8sio_api_core_v1_CephFSVolumeSource ref),
     (''k8s.io/api/core/v1.CinderPersistentVolumeSource'', schema_k8sio_api_core_v1_CinderPersistentVolumeSource ref),
     (''k8s.io/api/core/v1.CinderVolumeSource'', schema_k8sio_api_core_v1_CinderVolumeSource ref),
     (''k8s.io/api/core/v1.ClientIPConfig'', schema_k8sio_api_core_v1_ClientIPConfig ref),
     (''k8s.io/api/core/v1.ComponentCondition'', schema_k8sio_api_core_v1_ComponentCondition ref),
     (''k8s.io/api/core/v1.ComponentStatus'', schema_k8sio_api_core_v1_ComponentStatus ref),
     (''k8s.io/api/core/v1.ComponentStatusList'', schema_k8sio_api_core_v1_ComponentStatusList ref),
     (''k8s.io/api/core/v1.ConfigMap'', schema_k8sio_api_core_v1_ConfigMap ref),
     (''k8s.io/api/core/v1.ConfigMapEnvSource'', schema_k8sio_api_core_v1_ConfigMapEnvSource ref),
     (''k8s.io/api/core/v1.ConfigMapKeySelector'', schema_k8sio_api_core_v1_ConfigMapKeySelector ref),
     (''k8s.io/api/core/v1.ConfigMapList'', schema_k8sio_api_core_v1_ConfigMapList ref),
     (''k8s.io/api/core/v1.ConfigMapNodeConfigSource'', schema_k8sio_api_core_v1_ConfigMapNodeConfigSource ref),
     (''k8s.io/api/core/v1.ConfigMapProjection'', schema_k8sio_api_core_v1_ConfigMapProjection ref),
     (''k8s.io/api/core/v1.ConfigMapVolumeSource'', schema_k8sio_api_core_v1_ConfigMapVolumeSource ref),
     (''k8s.io/api/core/v1.Container'', schema_k8sio_api_core_v1_Container ref),
     (''k8s.io/api/core/v1.ContainerImage'', schema_k8sio_api_core_v1_ContainerImage ref),
     (''k8s.io/api/core/v1.ContainerPort'', schema_k8sio_api_core_v1_ContainerPort ref),
     (''k8s.io/api/core/v1.ContainerState'', schema_k8sio_api_core_v1_ContainerState ref),
     (''k8s.io/api/core/v1.ContainerStateRunning'', schema_k8sio_api_core_v1_ContainerStateRunning ref),
     (''k8s.io/api/core/v1.ContainerStateTerminated'', schema_k8sio_api_core_v1_ContainerStateTerminated ref),
     (''k8s.io/api/core/v1.ContainerStateWaiting'', schema_k8sio_api_core_v1_ContainerStateWaiting ref),
     (''k8s.io/api/core/v1.ContainerStatus'', schema_k8sio_api_core_v1_ContainerStatus ref),
     (''k8s.io/api/core/v1.DaemonEndpoint'', schema_k8sio_api_core_v1_DaemonEndpoint ref),
     (''k8s.io/api/core/v1.DownwardAPIProjection'', schema_k8sio_api_core_v1_DownwardAPIProjection ref),
     (''k8s.io/api/core/v1.DownwardAPIVolumeFile'', schema_k8sio_api_core_v1_DownwardAPIVolumeFile ref),
     (''k8s.io/api/core/v1.DownwardAPIVolumeSource'', schema_k8sio_api_core_v1_DownwardAPIVolumeSource ref),
     (''k8s.io/api/core/v1.EmptyDirVolumeSource'', schema_k8sio_api_core_v1_EmptyDirVolumeSource ref),
     (''k8s.io/api/core/v1.EndpointAddress'', schema_k8sio_api_core_v1_EndpointAddress ref),
     (''k8s.io/api/core/v1.EndpointPort'', schema_k8sio_api_core_v1_EndpointPort ref),
     (''k8s.io/api/core/v1.EndpointSubset'', schema_k8sio_api_core_v1_EndpointSubset ref),
     (''k8s.io/api/core/v1.Endpoints'', schema_k8sio_api_core_v1_Endpoints ref),
     (''k8s.io/api/core/v1.EndpointsList'', schema_k8sio_api_core_v1_EndpointsList ref),
     (''k8s.io/api/core/v1.EnvFromSource'', schema_k8sio_api_core_v1_EnvFromSource ref),
     (''k8s.io/api/core/v1.EnvVar'', schema_k8sio_api_core_v1_EnvVar ref),
     (''k8s.io/api/core/v1.EnvVarSource'', schema_k8sio_api_core_v1_EnvVarSource ref),
     (''k8s.io/api/core/v1.EphemeralContainer'', schema_k8sio_api_core_v1_EphemeralContainer ref),
     (''k8s.io/api/core/v1.EphemeralContainerCommon'', schema_k8sio_api_core_v1_EphemeralContainerCommon ref),
     (''k8s.io/api/core/v1.EphemeralVolumeSource'', schema_k8sio_api_core_v1_EphemeralVolumeSource ref),
     (''k8s.io/api/core/v1.Event'', schema_k8sio_api_core_v1_Event ref),
     (''k8s.io/api/core/v1.EventList'', schema_k8sio_api_core_v1_EventList ref),
     (''k8s.io/api/core/v1.EventSeries'', schema_k8sio_api_core_v1_EventSeries ref),
     (''k8s.io/api/core/v1.EventSource'', schema_k8sio_api_core_v1_EventSource ref),
     (''k8s.io/api/core/v1.ExecAction'', schema_k8sio_api_core_v1_ExecAction ref),
     (''k8s.io/api/core/v1.FCVolumeSource'', schema_k8sio_api_core_v1_FCVolumeSource ref),
     (''k8s.io/api/core/v1.FlexPersistentVolumeSource'', schema_k8sio_api_core_v1_FlexPersistentVolumeSource ref),
     (''k8s.io/api/core/v1.FlexVolumeSource'', schema_k8sio_api_core_v1_FlexVolumeSource ref),
     (''k8s.io/api/core/v1.FlockerVolumeSource'', schema_k8sio_api_core_v1_FlockerVolumeSource ref),
     (''k8s.io/api/core/v1.GCEPersistentDiskVolumeSource'', schema_k8sio_api_core_v1_GCEPersistentDiskVolumeSource ref),
     (''k8s.io/api/core/v1.GitRepoVolumeSource'', schema_k8sio_api_core_v1_GitRepoVolumeSource ref),
     (''k8s.io/api/core/v1.GlusterfsPersistentVolumeSource'', schema_k8sio_api_core_v1_GlusterfsPersistentVolumeSource ref),
     (''k8s.io/api/core/v1.GlusterfsVolumeSource'', schema_k8sio_api_core_v1_GlusterfsVolumeSource ref),
     (''k8s.io/api/core/v1.HTTPGetAction'', schema_k8sio_api_core_v1_HTTPGetAction ref),
     (''k8s.io/api/core/v1.HTTPHeader'', schema_k8sio_api_core_v1_HTTPHeader ref),
     (''k8s.io/api/core/v1.Handler'', schema_k8sio_api_core_v1_Handler ref),
     (''k8s.io/api/core/v1.HostAlias'', schema_k8sio_api_core_v1_HostAlias ref),
     (''k8s.io/api/core/v1.HostPathVolumeSource'', schema_k8sio_api_core_v1_HostPathVolumeSource ref),
     (''k8s.io/api/core/v1.ISCSIPersistentVolumeSource'', schema_k8sio_api_core_v1_ISCSIPersistentVolumeSource ref),
     (''k8s.io/api/core/v1.ISCSIVolumeSource'', schema_k8sio_api_core_v1_ISCSIVolumeSource ref),
     (''k8s.io/api/core/v1.KeyToPath'', schema_k8sio_api_core_v1_KeyToPath ref),
     (''k8s.io/api/core/v1.Lifecycle'', schema_k8sio_api_core_v1_Lifecycle ref),
     (''k8s.io/api/core/v1.LimitRange'', schema_k8sio_api_core_v1_LimitRange ref),
     (''k8s.io/api/core/v1.LimitRangeItem'', schema_k8sio_api_core_v1_LimitRangeItem ref),
     (''k8s.io/api/core/v1.LimitRangeList'', schema_k8sio_api_core_v1_LimitRangeList ref),
     (''k8s.io/api/core/v1.LimitRangeSpec'', schema_k8sio_api_core_v1_LimitRangeSpec ref),
     (''k8s.io/api/core/v1.List'', schema_k8sio_api_core_v1_List ref),
     (''k8s.io/api/core/v1.LoadBalancerIngress'', schema_k8sio_api_core_v1_LoadBalancerIngress ref),
     (''k8s.io/api/core/v1.LoadBalancerStatus'', schema_k8sio_api_core_v1_LoadBalancerStatus ref),
     (''k8s.io/api/core/v1.LocalObjectReference'', schema_k8sio_api_core_v1_LocalObjectReference ref),
     (''k8s.io/api/core/v1.LocalVolumeSource'', schema_k8sio_api_core_v1_LocalVolumeSource ref),
     (''k8s.io/api/core/v1.NFSVolumeSource'', schema_k8sio_api_core_v1_NFSVolumeSource ref),
     (''k8s.io/api/core/v1.Namespace'', schema_k8sio_api_core_v1_Namespace ref),
     (''k8s.io/api/core/v1.NamespaceCondition'', schema_k8sio_api_core_v1_NamespaceCondition ref),
     (''k8s.io/api/core/v1.NamespaceList'', schema_k8sio_api_core_v1_NamespaceList ref),
     (''k8s.io/api/core/v1.NamespaceSpec'', schema_k8sio_api_core_v1_NamespaceSpec ref),
     (''k8s.io/api/core/v1.NamespaceStatus'', schema_k8sio_api_core_v1_NamespaceStatus ref),
     (''k8s.io/api/core/v1.Node'', schema_k8sio_api_core_v1_Node ref),
     (''k8s.io/api/core/v1.NodeAddress'', schema_k8sio_api_core_v1_NodeAddress ref),
     (''k8s.io/api/core/v1.NodeAffinity'', schema_k8sio_api_core_v1_NodeAffinity ref),
     (''k8s.io/api/core/v1.NodeCondition'', schema_k8sio_api_core_v1_NodeCondition ref),
     (''k8s.io/api/core/v1.NodeConfigSource'', schema_k8sio_api_core_v1_NodeConfigSource ref),
     (''k8s.io/api/core/v1.NodeConfigStatus'', schema_k8sio_api_core_v1_NodeConfigStatus ref),
     (''k8s.io/api/core/v1.NodeDaemonEndpoints'', schema_k8sio_api_core_v1_NodeDaemonEndpoints ref),
     (''k8s.io/api/core/v1.NodeList'', schema_k8sio_api_core_v1_NodeList ref),
     (''k8s.io/api/core/v1.NodeProxyOptions'', schema_k8sio_api_core_v1_NodeProxyOptions ref),
     (''k8s.io/api/core/v1.NodeResources'', schema_k8sio_api_core_v1_NodeResources ref),
     (''k8s.io/api/core/v1.NodeSelector'', schema_k8sio_api_core_v1_NodeSelector ref),
     (''k8s.io/api/core/v1.NodeSelectorRequirement'', schema_k8sio_api_core_v1_NodeSelectorRequirement ref),
     (''k8s.io/api/core/v1.NodeSelectorTerm'', schema_k8sio_api_core_v1_NodeSelectorTerm ref),
     (''k8s.io/api/core/v1.NodeSpec'', schema_k8sio_api_core_v1_NodeSpec ref),
     (''k8s.io/api/core/v1.NodeStatus'', schema_k8sio_api_core_v1_NodeStatus ref),
     (''k8s.io/api/core/v1.NodeSystemInfo'', schema_k8sio_api_core_v1_NodeSystemInfo ref),
     (''k8s.io/api/core/v1.ObjectFieldSelector'', schema_k8sio_api_core_v1_ObjectFieldSelector ref),
     (''k8s.io/api/core/v1.ObjectReference'', schema_k8sio_api_core_v1_ObjectReference ref),
     (''k8s.io/api/core/v1.PersistentVolume'', schema_k8sio_api_core_v1_PersistentVolume ref),
     (''k8s.io/api/core/v1.PersistentVolumeClaim'', schema_k8sio_api_core_v1_PersistentVolumeClaim ref),
     (''k8s.io/api/core/v1.PersistentVolumeClaimCondition'', schema_k8sio_api_core_v1_PersistentVolumeClaimCondition ref),
     (''k8s.io/api/core/v1.PersistentVolumeClaimList'', schema_k8sio_api_core_v1_PersistentVolumeClaimList ref),
     (''k8s.io/api/core/v1.PersistentVolumeClaimSpec'', schema_k8sio_api_core_v1_PersistentVolumeClaimSpec ref),
     (''k8s.io/api/core/v1.PersistentVolumeClaimStatus'', schema_k8sio_api_core_v1_PersistentVolumeClaimStatus ref),
     (''k8s.io/api/core/v1.PersistentVolumeClaimTemplate'', schema_k8sio_api_core_v1_PersistentVolumeClaimTemplate ref),
     (''k8s.io/api/core/v1.PersistentVolumeClaimVolumeSource'', schema_k8sio_api_core_v1_PersistentVolumeClaimVolumeSource ref),
     (''k8s.io/api/core/v1.PersistentVolumeList'', schema_k8sio_api_core_v1_PersistentVolumeList ref),
     (''k8s.io/api/core/v1.PersistentVolumeSource'', schema_k8sio_api_core_v1_PersistentVolumeSource ref),
     (''k8s.io/api/core/v1.PersistentVolumeSpec'', schema_k8sio_api_core_v1_PersistentVolumeSpec ref),
     (''k8s.io/api/core/v1.PersistentVolumeStatus'', schema_k8sio_api_core_v1_PersistentVolumeStatus ref),
     (''k8s.io/api/core/v1.PhotonPersistentDiskVolumeSource'', schema_k8sio_api_core_v1_PhotonPersistentDiskVolumeSource ref),
     (''k8s.io/api/core/v1.Pod'', schema_k8sio_api_core_v1_Pod ref),
     (''k8s.io/api/core/v1.PodAffinity'', schema_k8sio_api_core_v1_PodAffinity ref),
     (''k8s.io/api/core/v1.PodAffinityTerm'', schema_k8sio_api_core_v1_PodAffinityTerm ref),
     (''k8s.io/api/core/v1.PodAntiAffinity'', schema_k8sio_api_core_v1_PodAntiAffinity ref),
     (''k8s.io/api/core/v1.PodAttachOptions'', schema_k8sio_api_core_v1_PodAttachOptions ref),
     (''k8s.io/api/core/v1.PodCondition'', schema_k8sio_api_core_v1_PodCondition ref),
     (''k8s.io/api/core/v1.PodDNSConfig'', schema_k8sio_api_core_v1_PodDNSConfig ref),
     (''k8s.io/api/core/v1.PodDNSConfigOption'', schema_k8sio_api_core_v1_PodDNSConfigOption ref),
     (''k8s.io/api/core/v1.PodExecOptions'', schema_k8sio_api_core_v1_PodExecOptions ref),
     (''k8s.io/api/core/v1.PodIP'', schema_k8sio_api_core_v1_PodIP ref),
     (''k8s.io/api/core/v1.PodList'', schema_k8sio_api_core_v1_PodList ref),
     (''k8s.io/api/core/v1.PodLogOptions'', schema_k8sio_api_core_v1_PodLogOptions ref),
     (''k8s.io/api/core/v1.PodPortForwardOptions'', schema_k8sio_api_core_v1_PodPortForwardOptions ref),
     (''k8s.io/api/core/v1.PodProxyOptions'', schema_k8sio_api_core_v1_PodProxyOptions ref),
     (''k8s.io/api/core/v1.PodReadinessGate'', schema_k8sio_api_core_v1_PodReadinessGate ref),
     (''k8s.io/api/core/v1.PodSecurityContext'', schema_k8sio_api_core_v1_PodSecurityContext ref),
     (''k8s.io/api/core/v1.PodSignature'', schema_k8sio_api_core_v1_PodSignature ref),
     (''k8s.io/api/core/v1.PodSpec'', schema_k8sio_api_core_v1_PodSpec ref),
     (''k8s.io/api/core/v1.PodStatus'', schema_k8sio_api_core_v1_PodStatus ref),
     (''k8s.io/api/core/v1.PodStatusResult'', schema_k8sio_api_core_v1_PodStatusResult ref),
     (''k8s.io/api/core/v1.PodTemplate'', schema_k8sio_api_core_v1_PodTemplate ref),
     (''k8s.io/api/core/v1.PodTemplateList'', schema_k8sio_api_core_v1_PodTemplateList ref),
     (''k8s.io/api/core/v1.PodTemplateSpec'', schema_k8sio_api_core_v1_PodTemplateSpec ref),
     (''k8s.io/api/core/v1.PortStatus'', schema_k8sio_api_core_v1_PortStatus ref),
     (''k8s.io/api/core/v1.PortworxVolumeSource'', schema_k8sio_api_core_v1_PortworxVolumeSource ref),
     (''k8s.io/api/core/v1.PreferAvoidPodsEntry'', schema_k8sio_api_core_v1_PreferAvoidPodsEntry ref),
     (''k8s.io/api/core/v1.PreferredSchedulingTerm'', schema_k8sio_api_core_v1_PreferredSchedulingTerm ref),
     (''k8s.io/api/core/v1.Probe'', schema_k8sio_api_core_v1_Probe ref),
     (''k8s.io/api/core/v1.ProjectedVolumeSource'', schema_k8sio_api_core_v1_ProjectedVolumeSource ref),
     (''k8s.io/api/core/v1.QuobyteVolumeSource'', schema_k8sio_api_core_v1_QuobyteVolumeSource ref),
     (''k8s.io/api/core/v1.RBDPersistentVolumeSource'', schema_k8sio_api_core_v1_RBDPersistentVolumeSource ref),
     (''k8s.io/api/core/v1.RBDVolumeSource'', schema_k8sio_api_core_v1_RBDVolumeSource ref),
     (''k8s.io/api/core/v1.RangeAllocation'', schema_k8sio_api_core_v1_RangeAllocation ref),
     (''k8s.io/api/core/v1.ReplicationController'', schema_k8sio_api_core_v1_ReplicationController ref),
     (''k8s.io/api/core/v1.ReplicationControllerCondition'', schema_k8sio_api_core_v1_ReplicationControllerCondition ref),
     (''k8s.io/api/core/v1.ReplicationControllerList'', schema_k8sio_api_core_v1_ReplicationControllerList ref),
     (''k8s.io/api/core/v1.ReplicationControllerSpec'', schema_k8sio_api_core_v1_ReplicationControllerSpec ref),
     (''k8s.io/api/core/v1.ReplicationControllerStatus'', schema_k8sio_api_core_v1_ReplicationControllerStatus ref),
     (''k8s.io/api/core/v1.ResourceFieldSelector'', schema_k8sio_api_core_v1_ResourceFieldSelector ref),
     (''k8s.io/api/core/v1.ResourceQuota'', schema_k8sio_api_core_v1_ResourceQuota ref),
     (''k8s.io/api/core/v1.ResourceQuotaList'', schema_k8sio_api_core_v1_ResourceQuotaList ref),
     (''k8s.io/api/core/v1.ResourceQuotaSpec'', schema_k8sio_api_core_v1_ResourceQuotaSpec ref),
     (''k8s.io/api/core/v1.ResourceQuotaStatus'', schema_k8sio_api_core_v1_ResourceQuotaStatus ref),
     (''k8s.io/api/core/v1.ResourceRequirements'', schema_k8sio_api_core_v1_ResourceRequirements ref),
     (''k8s.io/api/core/v1.SELinuxOptions'', schema_k8sio_api_core_v1_SELinuxOptions ref),
     (''k8s.io/api/core/v1.ScaleIOPersistentVolumeSource'', schema_k8sio_api_core_v1_ScaleIOPersistentVolumeSource ref),
     (''k8s.io/api/core/v1.ScaleIOVolumeSource'', schema_k8sio_api_core_v1_ScaleIOVolumeSource ref),
     (''k8s.io/api/core/v1.ScopeSelector'', schema_k8sio_api_core_v1_ScopeSelector ref),
     (''k8s.io/api/core/v1.ScopedResourceSelectorRequirement'', schema_k8sio_api_core_v1_ScopedResourceSelectorRequirement ref),
     (''k8s.io/api/core/v1.SeccompProfile'', schema_k8sio_api_core_v1_SeccompProfile ref),
     (''k8s.io/api/core/v1.Secret'', schema_k8sio_api_core_v1_Secret ref),
     (''k8s.io/api/core/v1.SecretEnvSource'', schema_k8sio_api_core_v1_SecretEnvSource ref),
     (''k8s.io/api/core/v1.SecretKeySelector'', schema_k8sio_api_core_v1_SecretKeySelector ref),
     (''k8s.io/api/core/v1.SecretList'', schema_k8sio_api_core_v1_SecretList ref),
     (''k8s.io/api/core/v1.SecretProjection'', schema_k8sio_api_core_v1_SecretProjection ref),
     (''k8s.io/api/core/v1.SecretReference'', schema_k8sio_api_core_v1_SecretReference ref),
     (''k8s.io/api/core/v1.SecretVolumeSource'', schema_k8sio_api_core_v1_SecretVolumeSource ref),
     (''k8s.io/api/core/v1.SecurityContext'', schema_k8sio_api_core_v1_SecurityContext ref),
     (''k8s.io/api/core/v1.SerializedReference'', schema_k8sio_api_core_v1_SerializedReference ref),
     (''k8s.io/api/core/v1.Service'', schema_k8sio_api_core_v1_Service ref),
     (''k8s.io/api/core/v1.ServiceAccount'', schema_k8sio_api_core_v1_ServiceAccount ref),
     (''k8s.io/api/core/v1.ServiceAccountList'', schema_k8sio_api_core_v1_ServiceAccountList ref),
     (''k8s.io/api/core/v1.ServiceAccountTokenProjection'', schema_k8sio_api_core_v1_ServiceAccountTokenProjection ref),
     (''k8s.io/api/core/v1.ServiceList'', schema_k8sio_api_core_v1_ServiceList ref),
     (''k8s.io/api/core/v1.ServicePort'', schema_k8sio_api_core_v1_ServicePort ref),
     (''k8s.io/api/core/v1.ServiceProxyOptions'', schema_k8sio_api_core_v1_ServiceProxyOptions ref),
     (''k8s.io/api/core/v1.ServiceSpec'', schema_k8sio_api_core_v1_ServiceSpec ref),
     (''k8s.io/api/core/v1.ServiceStatus'', schema_k8sio_api_core_v1_ServiceStatus ref),
     (''k8s.io/api/core/v1.SessionAffinityConfig'', schema_k8sio_api_core_v1_SessionAffinityConfig ref),
     (''k8s.io/api/core/v1.StorageOSPersistentVolumeSource'', schema_k8sio_api_core_v1_StorageOSPersistentVolumeSource ref),
     (''k8s.io/api/core/v1.StorageOSVolumeSource'', schema_k8sio_api_core_v1_StorageOSVolumeSource ref),
     (''k8s.io/api/core/v1.Sysctl'', schema_k8sio_api_core_v1_Sysctl ref),
     (''k8s.io/api/core/v1.TCPSocketAction'', schema_k8sio_api_core_v1_TCPSocketAction ref),
     (''k8s.io/api/core/v1.Taint'', schema_k8sio_api_core_v1_Taint ref),
     (''k8s.io/api/core/v1.Toleration'', schema_k8sio_api_core_v1_Toleration ref),
     (''k8s.io/api/core/v1.TopologySelectorLabelRequirement'', schema_k8sio_api_core_v1_TopologySelectorLabelRequirement ref),
     (''k8s.io/api/core/v1.TopologySelectorTerm'', schema_k8sio_api_core_v1_TopologySelectorTerm ref),
     (''k8s.io/api/core/v1.TopologySpreadConstraint'', schema_k8sio_api_core_v1_TopologySpreadConstraint ref),
     (''k8s.io/api/core/v1.TypedLocalObjectReference'', schema_k8sio_api_core_v1_TypedLocalObjectReference ref),
     (''k8s.io/api/core/v1.Volume'', schema_k8sio_api_core_v1_Volume ref),
     (''k8s.io/api/core/v1.VolumeDevice'', schema_k8sio_api_core_v1_VolumeDevice ref),
     (''k8s.io/api/core/v1.VolumeMount'', schema_k8sio_api_core_v1_VolumeMount ref),
     (''k8s.io/api/core/v1.VolumeNodeAffinity'', schema_k8sio_api_core_v1_VolumeNodeAffinity ref),
     (''k8s.io/api/core/v1.VolumeProjection'', schema_k8sio_api_core_v1_VolumeProjection ref),
     (''k8s.io/api/core/v1.VolumeSource'', schema_k8sio_api_core_v1_VolumeSource ref),
     (''k8s.io/api/core/v1.VsphereVirtualDiskVolumeSource'', schema_k8sio_api_core_v1_VsphereVirtualDiskVolumeSource ref),
     (''k8s.io/api/core/v1.WeightedPodAffinityTerm'', schema_k8sio_api_core_v1_WeightedPodAffinityTerm ref),
     (''k8s.io/api/core/v1.WindowsSecurityContextOptions'', schema_k8sio_api_core_v1_WindowsSecurityContextOptions ref),
     (''k8s.io/api/events/v1.Event'', schema_k8sio_api_events_v1_Event ref),
     (''k8s.io/api/events/v1.EventList'', schema_k8sio_api_events_v1_EventList ref),
     (''k8s.io/api/events/v1.EventSeries'', schema_k8sio_api_events_v1_EventSeries ref),
     (''k8s.io/api/flowcontrol/v1beta1.FlowDistinguisherMethod'', schema_k8sio_api_flowcontrol_v1beta1_FlowDistinguisherMethod ref),
     (''k8s.io/api/flowcontrol/v1beta1.FlowSchema'', schema_k8sio_api_flowcontrol_v1beta1_FlowSchema ref),
     (''k8s.io/api/flowcontrol/v1beta1.FlowSchemaCondition'', schema_k8sio_api_flowcontrol_v1beta1_FlowSchemaCondition ref),
     (''k8s.io/api/flowcontrol/v1beta1.FlowSchemaList'', schema_k8sio_api_flowcontrol_v1beta1_FlowSchemaList ref),
     (''k8s.io/api/flowcontrol/v1beta1.FlowSchemaSpec'', schema_k8sio_api_flowcontrol_v1beta1_FlowSchemaSpec ref),
     (''k8s.io/api/flowcontrol/v1beta1.FlowSchemaStatus'', schema_k8sio_api_flowcontrol_v1beta1_FlowSchemaStatus ref),
     (''k8s.io/api/flowcontrol/v1beta1.GroupSubject'', schema_k8sio_api_flowcontrol_v1beta1_GroupSubject ref),
     (''k8s.io/api/flowcontrol/v1beta1.LimitResponse'', schema_k8sio_api_flowcontrol_v1beta1_LimitResponse ref),
     (''k8s.io/api/flowcontrol/v1beta1.LimitedPriorityLevelConfiguration'', schema_k8sio_api_flowcontrol_v1beta1_LimitedPriorityLevelConfiguration ref),
     (''k8s.io/api/flowcontrol/v1beta1.NonResourcePolicyRule'', schema_k8sio_api_flowcontrol_v1beta1_NonResourcePolicyRule ref),
     (''k8s.io/api/flowcontrol/v1beta1.PolicyRulesWithSubjects'', schema_k8sio_api_flowcontrol_v1beta1_PolicyRulesWithSubjects ref),
     (''k8s.io/api/flowcontrol/v1beta1.PriorityLevelConfiguration'', schema_k8sio_api_flowcontrol_v1beta1_PriorityLevelConfiguration ref),
     (''k8s.io/api/flowcontrol/v1beta1.PriorityLevelConfigurationCondition'', schema_k8sio_api_flowcontrol_v1beta1_PriorityLevelConfigurationCondition ref),
     (''k8s.io/api/flowcontrol/v1beta1.PriorityLevelConfigurationList'', schema_k8sio_api_flowcontrol_v1beta1_PriorityLevelConfigurationList ref),
     (''k8s.io/api/flowcontrol/v1beta1.PriorityLevelConfigurationReference'', schema_k8sio_api_flowcontrol_v1beta1_PriorityLevelConfigurationReference ref),
     (''k8s.io/api/flowcontrol/v1beta1.PriorityLevelConfigurationSpec'', schema_k8sio_api_flowcontrol_v1beta1_PriorityLevelConfigurationSpec ref),
     (''k8s.io/api/flowcontrol/v1beta1.PriorityLevelConfigurationStatus'', schema_k8sio_api_flowcontrol_v1beta1_PriorityLevelConfigurationStatus ref),
     (''k8s.io/api/flowcontrol/v1beta1.QueuingConfiguration'', schema_k8sio_api_flowcontrol_v1beta1_QueuingConfiguration ref),
     (''k8s.io/api/flowcontrol/v1beta1.ResourcePolicyRule'', schema_k8sio_api_flowcontrol_v1beta1_ResourcePolicyRule ref),
     (''k8s.io/api/flowcontrol/v1beta1.ServiceAccountSubject'', schema_k8sio_api_flowcontrol_v1beta1_ServiceAccountSubject ref),
     (''k8s.io/api/flowcontrol/v1beta1.Subject'', schema_k8sio_api_flowcontrol_v1beta1_Subject ref),
     (''k8s.io/api/flowcontrol/v1beta1.UserSubject'', schema_k8sio_api_flowcontrol_v1beta1_UserSubject ref),
     (''k8s.io/api/policy/v1.Eviction'', schema_k8sio_api_policy_v1_Eviction ref),
     (''k8s.io/api/policy/v1.PodDisruptionBudget'', schema_k8sio_api_policy_v1_PodDisruptionBudget ref),
     (''k8s.io/api/policy/v1.PodDisruptionBudgetList'', schema_k8sio_api_policy_v1_PodDisruptionBudgetList ref),
     (''k8s.io/api/policy/v1.PodDisruptionBudgetSpec'', schema_k8sio_api_policy_v1_PodDisruptionBudgetSpec ref),
     (''k8s.io/api/policy/v1.PodDisruptionBudgetStatus'', schema_k8sio_api_policy_v1_PodDisruptionBudgetStatus ref),
     (''k8s.io/api/scheduling/v1.PriorityClass'', schema_k8sio_api_scheduling_v1_PriorityClass ref),
     (''k8s.io/api/scheduling/v1.PriorityClassList'', schema_k8sio_api_scheduling_v1_PriorityClassList ref),
     (''k8s.io/api/storage/v1.CSIDriver'', schema_k8sio_api_storage_v1_CSIDriver ref),
     (''k8s.io/api/storage/v1.CSIDriverList'', schema_k8sio_api_storage_v1_CSIDriverList ref),
     (''k8s.io/api/storage/v1.CSIDriverSpec'', schema_k8sio_api_storage_v1_CSIDriverSpec ref),
     (''k8s.io/api/storage/v1.CSINode'', schema_k8sio_api_storage_v1_CSINode ref),
     (''k8s.io/api/storage/v1.CSINodeDriver'', schema_k8sio_api_storage_v1_CSINodeDriver ref),
     (''k8s.io/api/storage/v1.CSINodeList'', schema_k8sio_api_storage_v1_CSINodeList ref),
     (''k8s.io/api/storage/v1.CSINodeSpec'', schema_k8sio_api_storage_v1_CSINodeSpec ref),
     (''k8s.io/api/storage/v1.StorageClass'', schema_k8sio_api_storage_v1_StorageClass ref),
     (''k8s.io/api/storage/v1.StorageClassList'', schema_k8sio_api_storage_v1_StorageClassList ref),
     (''k8s.io/api/storage/v1.TokenRequest'', schema_k8sio_api_storage_v1_TokenRequest ref),
     (''k8s.io/api/storage/v1.VolumeAttachment'', schema_k8sio_api_storage_v1_VolumeAttachment ref),
     (''k8s.io/api/storage/v1.VolumeAttachmentList'', schema_k8sio_api_storage_v1_VolumeAttachmentList ref),
     (''k8s.io/api/storage/v1.VolumeAttachmentSource'', schema_k8sio_api_storage_v1_VolumeAttachmentSource ref),
     (''k8s.io/api/storage/v1.VolumeAttachmentSpec'', schema_k8sio_api_storage_v1_VolumeAttachmentSpec ref),
     (''k8s.io/api/storage/v1.VolumeAttachmentStatus'', schema_k8sio_api_storage_v1_VolumeAttachmentStatus ref),
     (''k8s.io/api/storage/v1.VolumeError'', schema_k8sio_api_storage_v1_VolumeError ref),
     (''k8s.io/api/storage/v1.VolumeNodeResources'', schema_k8sio_api_storage_v1_VolumeNodeResources ref),
     (''k8s.io/apimachinery/pkg/api/resource.Quantity'', schema_apimachinery_pkg_api_resource_Quantity lib ref),
     (''k8s.io/apimachinery/pkg/apis/meta/v1.APIGroup'', schema_pkg_apis_meta_v1_APIGroup ref),
     (''k8s.io/apimachinery/pkg/apis/meta/v1.APIGroupList'', schema_pkg_apis_meta_v1_APIGroupList ref),
     (''k8s.io/apimachinery/pkg/apis/meta/v1.APIResource'', schema_pkg_apis_meta_v1_APIResource ref),
     (''k8s.io/apimachinery/pkg/apis/meta/v1.APIResourceList'', schema_pkg_apis_meta_v1_APIResourceList ref),
     (''k8s.io/apimachinery/pkg/apis/meta/v1.APIVersions'', schema_pkg_apis_meta_v1_APIVersions ref),
     (''k8s.io/apimachinery/pkg/apis/meta/v1.ApplyOptions'', schema_pkg_apis_meta_v1_ApplyOptions ref),
     (''k8s.io/apimachinery/pkg/apis/meta/v1.Condition'', schema_pkg_apis_meta_v1_Condition ref),
     (''k8s.io/apimachinery/pkg/apis/meta/v1.CreateOptions'', schema_pkg_apis_meta_v1_CreateOptions ref),
     (''k8s.io/apimachinery/pkg/apis/meta/v1.DeleteOptions'', schema_pkg_apis_meta_v1_DeleteOptions ref),
     (''k8s.io/apimachinery/pkg/apis/meta/v1.Duration'', schema_pkg_apis_meta_v1_Duration lib ref),
     (''k8s.io/apimachinery/pkg/apis/meta/v1.FieldsV1'', schema_pkg_apis_meta_v1_FieldsV1 ref),
     (''k8s.io/apimachinery/pkg/apis/meta/v1.GetOptions'', schema_pkg_apis_meta_v1_GetOptions ref),
     (''k8s.io/apimachinery/pkg/apis/meta/v1.GroupKind'', schema_pkg_apis_meta_v1_GroupKind ref),
     (''k8s.io/apimachinery/pkg/apis/meta/v1.GroupResource'', schema_pkg_apis_meta_v1_GroupResource ref),
     (''k8s.io/apimachinery/pkg/apis/meta/v1.GroupVersion'', schema_pkg_apis_meta_v1_GroupVersion ref),
     (''k8s.io/apimachinery/pkg/apis/meta/v1.GroupVersionForDiscovery'', schema_pkg_apis_meta_v1_GroupVersionForDiscovery ref),
     (''k8s.io/apimachinery/pkg/apis/meta/v1.GroupVersionKind'', schema_pkg_apis_meta_v1_GroupVersionKind ref),
     (''k8s.io/apimachinery/pkg/apis/meta/v1.GroupVersionResource'', schema_pkg_apis_meta_v1_GroupVersionResource ref),
     (''k8s.io/apimachinery/pkg/apis/meta/v1.LabelSelector'', schema_pkg_apis_meta_v1_LabelSelector ref),
     (''k8s.io/apimachinery/pkg/apis/meta/v1.LabelSelectorRequirement'', schema_pkg_apis_meta_v1_LabelSelectorRequirement ref),
     (''k8s.io/apimachinery/pkg/apis/meta/v1.List'', schema_pkg_apis_meta_v1_List ref),
     (''k8s.io/apimachinery/pkg/apis/meta/v1.ListMeta'', schema_pkg_apis_meta_v1_ListMeta ref),
     (''k8s.io/apimachinery/pkg/apis/meta/v1.ListOptions'', schema_pkg_apis_meta_v1_ListOptions ref),
     (''k8s.io/apimachinery/pkg/apis/meta/v1.ManagedFieldsEntry'', schema_pkg_apis_meta_v1_ManagedFieldsEntry ref),
     (''k8s.io/apimachinery/pkg/apis/meta/v1.MicroTime'', schema_pkg_apis_meta_v1_MicroTime lib ref),
     (''k8s.io/apimachinery/pkg/apis/meta/v1.ObjectMeta'', schema_pkg_apis_meta_v1_ObjectMeta ref),
     (''k8s.io/apimachinery/pkg/apis/meta/v1.OwnerReference'', schema_pkg_apis_meta_v1_OwnerReference ref),
     (''k8s.io/apimachinery/pkg/apis/meta/v1.PartialObjectMetadata'', schema_pkg_apis_meta_v1_PartialObjectMetadata ref),
     (''k8s.io/apimachinery/pkg/apis/meta/v1.PartialObjectMetadataList'', schema_pkg_apis_meta_v1_PartialObjectMetadataList ref),
     (''k8s.io/apimachinery/pkg/apis/meta/v1.Patch'', schema_pkg_apis_meta_v1_Patch ref),
     (''k8s.io/apimachinery/pkg/apis/meta/v1.PatchOptions'', schema_pkg_apis_meta_v1_PatchOptions ref),
     (''k8s.io/apimachinery/pkg/apis/meta/v1.Preconditions'', schema_pkg_apis_meta_v1_Preconditions ref),
     (''k8s.io/apimachinery/pkg/apis/meta/v1.RootPaths'', schema_pkg_apis_meta_v1_RootPaths ref),
     (''k8s.io/apimachinery/pkg/apis/meta/v1.ServerAddressByClientCIDR'', schema_pkg_apis_meta_v1_ServerAddressByClientCIDR ref),
     (''k8s.io/apimachinery/pkg/apis/meta/v1.Status'', schema_pkg_apis_meta_v1_Status ref),
     (''k8s.io/apimachinery/pkg/apis/meta/v1.StatusCause'', schema_pkg_apis_meta_v1_StatusCause ref),
     (''k8s.io/apimachinery/pkg/apis/meta/v1.StatusDetails'', schema_pkg_apis_meta_v1_StatusDetails ref),
     (''k8s.io/apimachinery/pkg/apis/meta/v1.Table'', schema_pkg_apis_meta_v1_Table ref),
     (''k8s.io/apimachinery/pkg/apis/meta/v1.TableColumnDefinition'', schema_pkg_apis_meta_v1_TableColumnDefinition ref),
     (''k8s.io/apimachinery/pkg/apis/meta/v1.TableOptions'', schema_pkg_apis_meta_v1_TableOptions ref),
     (''k8s.io/apimachinery/pkg/apis/meta/v1.TableRow'', schema_pkg_apis_meta_v1_TableRow ref),
     (''k8s.io/apimachinery/pkg/apis/meta/v1.TableRowCondition'', schema_pkg_apis_meta_v1_TableRowCondition ref),
     (''k8s.io/apimachinery/pkg/apis/meta/v1.Time'', schema_pkg_apis_meta_v1_Time lib ref),
     (''k8s.io/apimachinery/pkg/apis/meta/v1.Timestamp'', schema_pkg_apis_meta_v1_Timestamp ref),
     (''k8s.io/apimachinery/pkg/apis/meta/v1.TypeMeta'', schema_pkg_apis_meta_v1_TypeMeta ref),
     (''k8s.io/apimachinery/pkg/apis/meta/v1.UpdateOptions'', schema_pkg_apis_meta_v1_UpdateOptions ref),
     (''k8s.io/apimachinery/pkg/apis/meta/v1.WatchEvent'', schema_pkg_apis_meta_v1_WatchEvent ref),
     (''k8s.io/apimachinery/pkg/runtime.RawExtension'', schema_k8sio_apimachinery_pkg_runtime_RawExtension ref),
     (''k8s.io/apimachinery/pkg/util/intstr.IntOrString'', schema_apimachinery_pkg_util_intstr_IntOrString lib ref),
     (''k8s.io/kube-scheduler/config/v1.ExtenderManagedResource'', schema_k8sio_kube_scheduler_config_v1_ExtenderManagedResource ref),
     (''k8s.io/kube-scheduler/config/v1.ExtenderTLSConfig'', schema_k8sio_kube_scheduler_config_v1_ExtenderTLSConfig ref),
     (''k8s.io/kube-scheduler/config/v1.LabelPreference'', schema_k8sio_kube_scheduler_config_v1_LabelPreference ref),
     (''k8s.io/kube-scheduler/config/v1.LabelsPresence'', schema_k8sio_kube_scheduler_config_v1_LabelsPresence ref),
     (''k8s.io/kube-scheduler/config/v1.LegacyExtender'', schema_k8sio_kube_scheduler_config_v1_LegacyExtender ref),
     (''k8s.io/kube-scheduler/config/v1.Policy'', schema_k8sio_kube_scheduler_config_v1_Policy ref),
     (''k8s.io/kube-scheduler/config/v1.PredicateArgument'', schema_k8sio_kube_scheduler_config_v1_PredicateArgument ref),
     (''k8s.io/kube-scheduler/config/v1.PredicatePolicy'', schema_k8sio_kube_scheduler_config_v1_PredicatePolicy ref),
     (''k8s.io/kube-scheduler/config/v1.PriorityArgument'', schema_k8sio_kube_scheduler_config_v1_PriorityArgument ref),
     (''k8s.io/kube-scheduler/config/v1.PriorityPolicy'', schema_k8sio_kube_scheduler_config_v1_PriorityPolicy ref),
     (''k8s.io/kube-scheduler/config/v1.RequestedToCapacityRatioArguments'', schema_k8sio_kube_scheduler_config_v1_RequestedToCapacityRatioArguments ref),
     (''k8s.io/kube-scheduler/config/v1.ResourceSpec'', schema_k8sio_kube_scheduler_config_v1_ResourceSpec ref),
     (''k8s.io/kube-scheduler/config/v1.ServiceAffinity'', schema_k8sio_kube_scheduler_config_v1_ServiceAffinity ref),
     (''k8s.io/kube-scheduler/config/v1.ServiceAntiAffinity'', schema_k8sio_kube_scheduler_config_v1_ServiceAntiAffinity ref),
     (''k8s.io/kube-scheduler/config/v1.UtilizationShapePoint'', schema_k8sio_kube_scheduler_config_v1_UtilizationShapePoint ref),
     (''k8s.io/kube-scheduler/config/v1beta2.DefaultPreemptionArgs'', schema_k8sio_kube_scheduler_config_v1beta2_DefaultPreemptionArgs ref),
     (''k8s.io/kube-scheduler/config/v1beta2.Extender'', schema_k8sio_kube_scheduler_config_v1beta2_Extender ref),
     (''k8s.io/kube-scheduler/config/v1beta2.InterPodAffinityArgs'', schema_k8sio_kube_scheduler_config_v1beta2_InterPodAffinityArgs ref),
     (''k8s.io/kube-scheduler/config/v1beta2.KubeSchedulerProfile'', schema_k8sio_kube_scheduler_config_v1beta2_KubeSchedulerProfile ref),
     (''k8s.io/kube-scheduler/config/v1beta2.NodeAffinityArgs'', schema_k8sio_kube_scheduler_config_v1beta2_NodeAffinityArgs ref),
     (''k8s.io/kube-scheduler/config/v1beta2.NodeResourcesBalancedAllocationArgs'', schema_k8sio_kube_scheduler_config_v1beta2_NodeResourcesBalancedAllocationArgs ref),
     (''k8s.io/kube-scheduler/config/v1beta2.NodeResourcesFitArgs'', schema_k8sio_kube_scheduler_config_v1beta2_NodeResourcesFitArgs ref),
     (''k8s.io/kube-scheduler/config/v1beta2.Plugin'', schema_k8sio_kube_scheduler_config_v1beta2_Plugin ref),
     (''k8s.io/kube-scheduler/config/v1beta2.PluginConfig'', schema_k8sio_kube_scheduler_config_v1beta2_PluginConfig ref),
     (''k8s.io/kube-scheduler/config/v1beta2.PluginSet'', schema_k8sio_kube_scheduler_config_v1beta2_PluginSet ref),
     (''k8s.io/kube-scheduler/config/v1beta2.Plugins'', schema_k8sio_kube_scheduler_config_v1beta2_Plugins ref),
     (''k8s.io/kube-scheduler/config/v1beta2.PodTopologySpreadArgs'', schema_k8sio_kube_scheduler_config_v1beta2_PodTopologySpreadArgs ref),
     (''k8s.io/kube-scheduler/config/v1beta2.RequestedToCapacityRatioParam'', schema_k8sio_kube_scheduler_config_v1beta2_RequestedToCapacityRatioParam ref),
     (''k8s.io/kube-scheduler/config/v1beta2.ResourceSpec'', schema_k8sio_kube_scheduler_config_v1beta2_ResourceSpec ref),
     (''k8s.io/kube-scheduler/config/v1beta2.ScoringStrategy'', schema_k8sio_kube_scheduler_config_v1beta2_ScoringStrategy ref),
     (''k8s.io/kube-scheduler/config/v1beta2.UtilizationShapePoint'', schema_k8sio_kube_scheduler_config_v1beta2_UtilizationShapePoint ref),
     (''k8s.io/kube-scheduler/config/v1beta2.VolumeBindingArgs'', schema_k8sio_kube_scheduler_config_v1beta2_VolumeBindingArgs ref)]"

section \<open>Depth of the definitions\<close>

text \<open>
  How deep the references of a definition are nested: a definition without dependencies has
  rank 0, and every other one a rank above those of its dependencies.
\<close>

definition openapi_ranks :: "(string \<times> nat) list" where
  "openapi_ranks =
    [(''k8s.io/api/apps/v1.ControllerRevision'', 3),
     (''k8s.io/api/apps/v1.ControllerRevisionList'', 4),
     (''k8s.io/api/apps/v1.DaemonSet'', 10),
     (''k8s.io/api/apps/v1.DaemonSetCondition'', 1),
     (''k8s.io/api/apps/v1.DaemonSetList'', 11),
     (''k8s.io/api/apps/v1.DaemonSetSpec'', 9),
     (''k8s.io/api/apps/v1.DaemonSetStatus'', 2),
     (''k8s.io/api/apps/v1.DaemonSetUpdateStrategy'', 2),
     (''k8s.io/api/apps/v1.Deployment'', 10),
     (''k8s.io/api/apps/v1.DeploymentCondition'', 1),
     (''k8s.io/api/apps/v1.DeploymentList'', 11),
     (''k8s.io/api/apps/v1.DeploymentSpec'', 9),
     (''k8s.io/api/apps/v1.DeploymentStatus'', 2),
     (''k8s.io/api/apps/v1.DeploymentStrategy'', 2),
     (''k8s.io/api/apps/v1.ReplicaSet'', 10),
     (''k8s.io/api/apps/v1.ReplicaSetCondition'', 1),
     (''k8s.io/api/apps/v1.ReplicaSetList'', 11),
     (''k8s.io/api/apps/v1.ReplicaSetSpec'', 9),
     (''k8s.io/api/apps/v1.ReplicaSetStatus'', 2),
     (''k8s.io/api/apps/v1.RollingUpdateDaemonSet'', 1),
     (''k8s.io/api/apps/v1.RollingUpdateDeployment'', 1),
     (''k8s.io/api/apps/v1.RollingUpdateStatefulSetStrategy'', 0),
     (''k8s.io/api/apps/v1.StatefulSet'', 10),
     (''k8s.io/api/apps/v1.StatefulSetCondition'', 1),
     (''k8s.io/api/apps/v1.StatefulSetList'', 11),
     (''k8s.io/api/apps/v1.StatefulSetSpec'', 9),
     (''k8s.io/api/apps/v1.StatefulSetStatus'', 2),
     (''k8s.io/api/apps/v1.StatefulSetUpdateStrategy'', 1),
     (''k8s.io/api/coordination/v1.Lease'', 3),
     (''k8s.io/api/coordination/v1.LeaseList'', 4),
     (''k8s.io/api/coordination/v1.LeaseSpec'', 1),
     (''k8s.io/api/core/v1.AWSElasticBlockStoreVolumeSource'', 0),
     (''k8s.io/api/core/v1.Affinity'', 5),
     (''k8s.io/api/core/v1.AttachedVolume'', 0),
     (''k8s.io/api/core/v1.AvoidPods'', 3),
     (''k8s.io/api/core/v1.AzureDiskVolumeSource'', 0),
     (''k8s.io/api/core/v1.AzureFilePersistentVolumeSource'', 0),
     (''k8s.io/api/core/v1.AzureFileVolumeSource'', 0),
     (''k8s.io/api/core/v1.Binding'', 3),
     (''k8s.io/api/core/v1.CSIPersistentVolumeSource'', 1),
     (''k8s.io/api/core/v1.CSIVolumeSource'', 1),
     (''k8s.io/api/core/v1.Capabilities'', 0),
     (''k8s.io/api/core/v1.CephFSPersistentVolumeSource'', 1),
     (''k8s.io/api/core/v1.CephFSVolumeSource'', 1),
     (''k8s.io/api/core/v1.CinderPersistentVolumeSource'', 1),
     (''k8s.io/api/core/v1.CinderVolumeSource'', 1),
     (''k8s.io/api/core/v1.ClientIPConfig'', 0),
     (''k8s.io/api/core/v1.ComponentCondition'', 0),
     (''k8s.io/api/core/v1.ComponentStatus'', 3),
     (''k8s.io/api/core/v1.ComponentStatusList'', 4),
     (''k8s.io/api/core/v1.ConfigMap'', 3),
     (''k8s.io/api/core/v1.ConfigMapEnvSource'', 0),
     (''k8s.io/api/core/v1.ConfigMapKeySelector'', 0),
     (''k8s.io/api/core/v1.ConfigMapList'', 4),
     (''k8s.io/api/core/v1.ConfigMapNodeConfigSource'', 0),
     (''k8s.io/api/core/v1.ConfigMapProjection'', 1),
     (''k8s.io/api/core/v1.ConfigMapVolumeSource'', 1),
     (''k8s.io/api/core/v1.Container'', 4),
     (''k8s.io/api/core/v1.ContainerImage'', 0),
     (''k8s.io/api/core/v1.ContainerPort'', 0),
     (''k8s.io/api/core/v1.ContainerState'', 2),
     (''k8s.io/api/core/v1.ContainerStateRunning'', 1),
     (''k8s.io/api/core/v1.ContainerStateTerminated'', 1),
     (''k8s.io/api/core/v1.ContainerStateWaiting'', 0),
     (''k8s.io/api/core/v1.ContainerStatus'', 3),
     (''k8s.io/api/core/v1.DaemonEndpoint'', 0),
     (''k8s.io/api/core/v1.DownwardAPIProjection'', 3),
     (''k8s.io/api/core/v1.DownwardAPIVolumeFile'', 2),
     (''k8s.io/api/core/v1.DownwardAPIVolumeSource'', 3),
     (''k8s.io/api/core/v1.EmptyDirVolumeSource'', 1),
     (''k8s.io/api/core/v1.EndpointAddress'', 1),
     (''k8s.io/api/core/v1.EndpointPort'', 0),
     (''k8s.io/api/core/v1.EndpointSubset'', 2),
     (''k8s.io/api/core/v1.Endpoints'', 3),
     (''k8s.io/api/core/v1.EndpointsList'', 4),
     (''k8s.io/api/core/v1.EnvFromSource'', 1),
     (''k8s.io/api/core/v1.EnvVar'', 3),
     (''k8s.io/api/core/v1.EnvVarSource'', 2),
     (''k8s.io/api/core/v1.EphemeralContainer'', 4),
     (''k8s.io/api/core/v1.EphemeralContainerCommon'', 4),
     (''k8s.io/api/core/v1.EphemeralVolumeSource'', 4),
     (''k8s.io/api/core/v1.Event'', 3),
     (''k8s.io/api/core/v1.EventList'', 4),
     (''k8s.io/api/core/v1.EventSeries'', 1),
     (''k8s.io/api/core/v1.EventSource'', 0),
     (''k8s.io/api/core/v1.ExecAction'', 0),
     (''k8s.io/api/core/v1.FCVolumeSource'', 0),
     (''k8s.io/api/core/v1.FlexPersistentVolumeSource'', 1),
     (''k8s.io/api/core/v1.FlexVolumeSource'', 1),
     (''k8s.io/api/core/v1.FlockerVolumeSource'', 0),
     (''k8s.io/api/core/v1.GCEPersistentDiskVolumeSource'', 0),
     (''k8s.io/api/core/v1.GitRepoVolumeSource'', 0),
     (''k8s.io/api/core/v1.GlusterfsPersistentVolumeSource'', 0),
     (''k8s.io/api/core/v1.GlusterfsVolumeSource'', 0),
     (''k8s.io/api/core/v1.HTTPGetAction'', 1),
     (''k8s.io/api/core/v1.HTTPHeader'', 0),
     (''k8s.io/api/core/v1.Handler'', 2),
     (''k8s.io/api/core/v1.HostAlias'', 0),
     (''k8s.io/api/core/v1.HostPathVolumeSource'', 0),
     (''k8s.io/api/core/v1.ISCSIPersistentVolumeSource'', 1),
     (''k8s.io/api/core/v1.ISCSIVolumeSource'', 1),
     (''k8s.io/api/core/v1.KeyToPath'', 0),
     (''k8s.io/api/core/v1.Lifecycle'', 3),
     (''k8s.io/api/core/v1.LimitRange'', 3),
     (''k8s.io/api/core/v1.LimitRangeItem'', 1),
     (''k8s.io/api/core/v1.LimitRangeList'', 4),
     (''k8s.io/api/core/v1.LimitRangeSpec'', 2),
     (''k8s.io/api/core/v1.List'', 1),
     (''k8s.io/api/core/v1.LoadBalancerIngress'', 1),
     (''k8s.io/api/core/v1.LoadBalancerStatus'', 2),
     (''k8s.io/api/core/v1.LocalObjectReference'', 0),
     (''k8s.io/api/core/v1.LocalVolumeSource'', 0),
     (''k8s.io/api/core/v1.NFSVolumeSource'', 0),
     (''k8s.io/api/core/v1.Namespace'', 3),
     (''k8s.io/api/core/v1.NamespaceCondition'', 1),
     (''k8s.io/api/core/v1.NamespaceList'', 4),
     (''k8s.io/api/core/v1.NamespaceSpec'', 0),
     (''k8s.io/api/core/v1.NamespaceStatus'', 2),
     (''k8s.io/api/core/v1.Node'', 4),
     (''k8s.io/api/core/v1.NodeAddress'', 0),
     (''k8s.io/api/core/v1.NodeAffinity'', 3),
     (''k8s.io/api/core/v1.NodeCondition'', 1),
     (''k8s.io/api/core/v1.NodeConfigSource'', 1),
     (''k8s.io/api/core/v1.NodeConfigStatus'', 2),
     (''k8s.io/api/core/v1.NodeDaemonEndpoints'', 1),
     (''k8s.io/api/core/v1.NodeList'', 5),
     (''k8s.io/api/core/v1.NodeProxyOptions'', 0),
     (''k8s.io/api/core/v1.NodeResources'', 1),
     (''k8s.io/api/core/v1.NodeSelector'', 2),
     (''k8s.io/api/core/v1.NodeSelectorRequirement'', 0),
     (''k8s.io/api/core/v1.NodeSelectorTerm'', 1),
     (''k8s.io/api/core/v1.NodeSpec'', 2),
     (''k8s.io/api/core/v1.NodeStatus'', 3),
     (''k8s.io/api/core/v1.NodeSystemInfo'', 0),
     (''k8s.io/api/core/v1.ObjectFieldSelector'', 0),
     (''k8s.io/api/core/v1.ObjectReference'', 0),
     (''k8s.io/api/core/v1.PersistentVolume'', 5),
     (''k8s.io/api/core/v1.PersistentVolumeClaim'', 3),
     (''k8s.io/api/core/v1.PersistentVolumeClaimCondition'', 1),
     (''k8s.io/api/core/v1.PersistentVolumeClaimList'', 4),
     (''k8s.io/api/core/v1.PersistentVolumeClaimSpec'', 2),
     (''k8s.io/api/core/v1.PersistentVolumeClaimStatus'', 2),
     (''k8s.io/api/core/v1.PersistentVolumeClaimTemplate'', 3),
     (''k8s.io/api/core/v1.PersistentVolumeClaimVolumeSource'', 0),
     (''k8s.io/api/core/v1.PersistentVolumeList'', 6),
     (''k8s.io/api/core/v1.PersistentVolumeSource'', 2),
     (''k8s.io/api/core/v1.PersistentVolumeSpec'', 4),
     (''k8s.io/api/core/v1.PersistentVolumeStatus'', 0),
     (''k8s.io/api/core/v1.PhotonPersistentDiskVolumeSource'', 0),
     (''k8s.io/api/core/v1.Pod'', 8),
     (''k8s.io/api/core/v1.PodAffinity'', 4),
     (''k8s.io/api/core/v1.PodAffinityTerm'', 2),
     (''k8s.io/api/core/v1.PodAntiAffinity'', 4),
     (''k8s.io/api/core/v1.PodAttachOptions'', 0),
     (''k8s.io/api/core/v1.PodCondition'', 1),
     (''k8s.io/api/core/v1.PodDNSConfig'', 1),
     (''k8s.io/api/core/v1.PodDNSConfigOption'', 0),
     (''k8s.io/api/core/v1.PodExecOptions'', 0),
     (''k8s.io/api/core/v1.PodIP'', 0),
     (''k8s.io/api/core/v1.PodList'', 9),
     (''k8s.io/api/core/v1.PodLogOptions'', 1),
     (''k8s.io/api/core/v1.PodPortForwardOptions'', 0),
     (''k8s.io/api/core/v1.PodProxyOptions'', 0),
     (''k8s.io/api/core/v1.PodReadinessGate'', 0),
     (''k8s.io/api/core/v1.PodSecurityContext'', 1),
     (''k8s.io/api/core/v1.PodSignature'', 1),
     (''k8s.io/api/core/v1.PodSpec'', 7),
     (''k8s.io/api/core/v1.PodStatus'', 4),
     (''k8s.io/api/core/v1.PodStatusResult'', 5),
     (''k8s.io/api/core/v1.PodTemplate'', 9),
     (''k8s.io/api/core/v1.PodTemplateList'', 10),
     (''k8s.io/api/core/v1.PodTemplateSpec'', 8),
     (''k8s.io/api/core/v1.PortStatus'', 0),
     (''k8s.io/api/core/v1.PortworxVolumeSource'', 0),
     (''k8s.io/api/core/v1.PreferAvoidPodsEntry'', 2),
     (''k8s.io/api/core/v1.PreferredSchedulingTerm'', 2),
     (''k8s.io/api/core/v1.Probe'', 2),
     (''k8s.io/api/core/v1.ProjectedVolumeSource'', 5),
     (''k8s.io/api/core/v1.QuobyteVolumeSource'', 0),
     (''k8s.io/api/core/v1.RBDPersistentVolumeSource'', 1),
     (''k8s.io/api/core/v1.RBDVolumeSource'', 1),
     (''k8s.io/api/core/v1.RangeAllocation'', 3),
     (''k8s.io/api/core/v1.ReplicationController'', 10),
     (''k8s.io/api/core/v1.ReplicationControllerCondition'', 1),
     (''k8s.io/api/core/v1.ReplicationControllerList'', 11),
     (''k8s.io/api/core/v1.ReplicationControllerSpec'', 9),
     (''k8s.io/api/core/v1.ReplicationControllerStatus'', 2),
     (''k8s.io/api/core/v1.ResourceFieldSelector'', 1),
     (''k8s.io/api/core/v1.ResourceQuota'', 3),
     (''k8s.io/api/core/v1.ResourceQuotaList'', 4),
     (''k8s.io/api/core/v1.ResourceQuotaSpec'', 2),
     (''k8s.io/api/core/v1.ResourceQuotaStatus'', 1),
     (''k8s.io/api/core/v1.ResourceRequirements'', 1),
     (''k8s.io/api/core/v1.SELinuxOptions'', 0),
     (''k8s.io/api/core/v1.ScaleIOPersistentVolumeSource'', 1),
     (''k8s.io/api/core/v1.ScaleIOVolumeSource'', 1),
     (''k8s.io/api/core/v1.ScopeSelector'', 1),
     (''k8s.io/api/core/v1.ScopedResourceSelectorRequirement'', 0),
     (''k8s.io/api/core/v1.SeccompProfile'', 0),
     (''k8s.io/api/core/v1.Secret'', 3),
     (''k8s.io/api/core/v1.SecretEnvSource'', 0),
     (''k8s.io/api/core/v1.SecretKeySelector'', 0),
     (''k8s.io/api/core/v1.SecretList'', 4),
     (''k8s.io/api/core/v1.SecretProjection'', 1),
     (''k8s.io/api/core/v1.SecretReference'', 0),
     (''k8s.io/api/core/v1.SecretVolumeSource'', 1),
     (''k8s.io/api/core/v1.SecurityContext'', 1),
     (''k8s.io/api/core/v1.SerializedReference'', 1),
     (''k8s.io/api/core/v1.Service'', 4),
     (''k8s.io/api/core/v1.ServiceAccount'', 3),
     (''k8s.io/api/core/v1.ServiceAccountList'', 4),
     (''k8s.io/api/core/v1.ServiceAccountTokenProjection'', 0),
     (''k8s.io/api/core/v1.ServiceList'', 5),
     (''k8s.io/api/core/v1.ServicePort'', 1),
     (''k8s.io/api/core/v1.ServiceProxyOptions'', 0),
     (''k8s.io/api/core/v1.ServiceSpec'', 2),
     (''k8s.io/api/core/v1.ServiceStatus'', 3),
     (''k8s.io/api/core/v1.SessionAffinityConfig'', 1),
     (''k8s.io/api/core/v1.StorageOSPersistentVolumeSource'', 1),
     (''k8s.io/api/core/v1.StorageOSVolumeSource'', 1),
     (''k8s.io/api/core/v1.Sysctl'', 0),
     (''k8s.io/api/core/v1.TCPSocketAction'', 1),
     (''k8s.io/api/core/v1.Taint'', 1),
     (''k8s.io/api/core/v1.Toleration'', 0),
     (''k8s.io/api/core/v1.TopologySelectorLabelRequirement'', 0),
     (''k8s.io/api/core/v1.TopologySelectorTerm'', 1),
     (''k8s.io/api/core/v1.TopologySpreadConstraint'', 2),
     (''k8s.io/api/core/v1.TypedLocalObjectReference'', 0),
     (''k8s.io/api/core/v1.Volume'', 6),
     (''k8s.io/api/core/v1.VolumeDevice'', 0),
     (''k8s.io/api/core/v1.VolumeMount'', 0),
     (''k8s.io/api/core/v1.VolumeNodeAffinity'', 3),
     (''k8s.io/api/core/v1.VolumeProjection'', 4),
     (''k8s.io/api/core/v1.VolumeSource'', 6),
     (''k8s.io/api/core/v1.VsphereVirtualDiskVolumeSource'', 0),
     (''k8s.io/api/core/v1.WeightedPodAffinityTerm'', 3),
     (''k8s.io/api/core/v1.WindowsSecurityContextOptions'', 0),
     (''k8s.io/api/events/v1.Event'', 3),
     (''k8s.io/api/events/v1.EventList'', 4),
     (''k8s.io/api/events/v1.EventSeries'', 1),
     (''k8s.io/api/flowcontrol/v1beta1.FlowDistinguisherMethod'', 0),
     (''k8s.io/api/flowcontrol/v1beta1.FlowSchema'', 4),
     (''k8s.io/api/flowcontrol/v1beta1.FlowSchemaCondition'', 1),
     (''k8s.io/api/flowcontrol/v1beta1.FlowSchemaList'', 5),
     (''k8s.io/api/flowcontrol/v1beta1.FlowSchemaSpec'', 3),
     (''k8s.io/api/flowcontrol/v1beta1.FlowSchemaStatus'', 2),
     (''k8s.io/api/flowcontrol/v1beta1.GroupSubject'', 0),
     (''k8s.io/api/flowcontrol/v1beta1.LimitResponse'', 1),
     (''k8s.io/api/flowcontrol/v1beta1.LimitedPriorityLevelConfiguration'', 2),
     (''k8s.io/api/flowcontrol/v1beta1.NonResourcePolicyRule'', 0),
     (''k8s.io/api/flowcontrol/v1beta1.PolicyRulesWithSubjects'', 2),
     (''k8s.io/api/flowcontrol/v1beta1.PriorityLevelConfiguration'', 4),
     (''k8s.io/api/flowcontrol/v1beta1.PriorityLevelConfigurationCondition'', 1),
     (''k8s.io/api/flowcontrol/v1beta1.PriorityLevelConfigurationList'', 5),
     (''k8s.io/api/flowcontrol/v1beta1.PriorityLevelConfigurationReference'', 0),
     (''k8s.io/api/flowcontrol/v1beta1.PriorityLevelConfigurationSpec'', 3),
     (''k8s.io/api/flowcontrol/v1beta1.PriorityLevelConfigurationStatus'', 2),
     (''k8s.io/api/flowcontrol/v1beta1.QueuingConfiguration'', 0),
     (''k8s.io/api/flowcontrol/v1beta1.ResourcePolicyRule'', 0),
     (''k8s.io/api/flowcontrol/v1beta1.ServiceAccountSubject'', 0),
     (''k8s.io/api/flowcontrol/v1beta1.Subject'', 1),
     (''k8s.io/api/flowcontrol/v1beta1.UserSubject'', 0),
     (''k8s.io/api/policy/v1.Eviction'', 3),
     (''k8s.io/api/policy/v1.PodDisruptionBudget'', 3),
     (''k8s.io/api/policy/v1.PodDisruptionBudgetList'', 4),
     (''k8s.io/api/policy/v1.PodDisruptionBudgetSpec'', 2),
     (''k8s.io/api/policy/v1.PodDisruptionBudgetStatus'', 2),
     (''k8s.io/api/scheduling/v1.PriorityClass'', 3),
     (''k8s.io/api/scheduling/v1.PriorityClassList'', 4),
     (''k8s.io/api/storage/v1.CSIDriver'', 3),
     (''k8s.io/api/storage/v1.CSIDriverList'', 4),
     (''k8s.io/api/storage/v1.CSIDriverSpec'', 1),
     (''k8s.io/api/storage/v1.CSINode'', 3),
     (''k8s.io/api/storage/v1.CSINodeDriver'', 1),
     (''k8s.io/api/storage/v1.CSINodeList'', 4),
     (''k8s.io/api/storage/v1.CSINodeSpec'', 2),
     (''k8s.io/api/storage/v1.StorageClass'', 3),
     (''k8s.io/api/storage/v1.StorageClassList'', 4),
     (''k8s.io/api/storage/v1.TokenRequest'', 0),
     (''k8s.io/api/storage/v1.VolumeAttachment'', 7),
     (''k8s.io/api/storage/v1.VolumeAttachmentList'', 8),
     (''k8s.io/api/storage/v1.VolumeAttachmentSource'', 5),
     (''k8s.io/api/storage/v1.VolumeAttachmentSpec'', 6),
     (''k8s.io/api/storage/v1.VolumeAttachmentStatus'', 2),
     (''k8s.io/api/storage/v1.VolumeError'', 1),
     (''k8s.io/api/storage/v1.VolumeNodeResources'', 0),
     (''k8s.io/apimachinery/pkg/api/resource.Quantity'', 0),
     (''k8s.io/apimachinery/pkg/apis/meta/v1.APIGroup'', 1),
     (''k8s.io/apimachinery/pkg/apis/meta/v1.APIGroupList'', 2),
     (''k8s.io/apimachinery/pkg/apis/meta/v1.APIResource'', 0),
     (''k8s.io/apimachinery/pkg/apis/meta/v1.APIResourceList'', 1),
     (''k8s.io/apimachinery/pkg/apis/meta/v1.APIVersions'', 1),
     (''k8s.io/apimachinery/pkg/apis/meta/v1.ApplyOptions'', 0),
     (''k8s.io/apimachinery/pkg/apis/meta/v1.Condition'', 1),
     (''k8s.io/apimachinery/pkg/apis/meta/v1.CreateOptions'', 0),
     (''k8s.io/apimachinery/pkg/apis/meta/v1.DeleteOptions'', 1),
     (''k8s.io/apimachinery/pkg/apis/meta/v1.Duration'', 0),
     (''k8s.io/apimachinery/pkg/apis/meta/v1.FieldsV1'', 0),
     (''k8s.io/apimachinery/pkg/apis/meta/v1.GetOptions'', 0),
     (''k8s.io/apimachinery/pkg/apis/meta/v1.GroupKind'', 0),
     (''k8s.io/apimachinery/pkg/apis/meta/v1.GroupResource'', 0),
     (''k8s.io/apimachinery/pkg/apis/meta/v1.GroupVersion'', 0),
     (''k8s.io/apimachinery/pkg/apis/meta/v1.GroupVersionForDiscovery'', 0),
     (''k8s.io/apimachinery/pkg/apis/meta/v1.GroupVersionKind'', 0),
     (''k8s.io/apimachinery/pkg/apis/meta/v1.GroupVersionResource'', 0),
     (''k8s.io/apimachinery/pkg/apis/meta/v1.LabelSelector'', 1),
     (''k8s.io/apimachinery/pkg/apis/meta/v1.LabelSelectorRequirement'', 0),
     (''k8s.io/apimachinery/pkg/apis/meta/v1.List'', 1),
     (''k8s.io/apimachinery/pkg/apis/meta/v1.ListMeta'', 0),
     (''k8s.io/apimachinery/pkg/apis/meta/v1.ListOptions'', 0),
     (''k8s.io/apimachinery/pkg/apis/meta/v1.ManagedFieldsEntry'', 1),
     (''k8s.io/apimachinery/pkg/apis/meta/v1.MicroTime'', 0),
     (''k8s.io/apimachinery/pkg/apis/meta/v1.ObjectMeta'', 2),
     (''k8s.io/apimachinery/pkg/apis/meta/v1.OwnerReference'', 0),
     (''k8s.io/apimachinery/pkg/apis/meta/v1.PartialObjectMetadata'', 3),
     (''k8s.io/apimachinery/pkg/apis/meta/v1.PartialObjectMetadataList'', 4),
     (''k8s.io/apimachinery/pkg/apis/meta/v1.Patch'', 0),
     (''k8s.io/apimachinery/pkg/apis/meta/v1.PatchOptions'', 0),
     (''k8s.io/apimachinery/pkg/apis/meta/v1.Preconditions'', 0),
     (''k8s.io/apimachinery/pkg/apis/meta/v1.RootPaths'', 0),
     (''k8s.io/apimachinery/pkg/apis/meta/v1.ServerAddressByClientCIDR'', 0),
     (''k8s.io/apimachinery/pkg/apis/meta/v1.Status'', 2),
     (''k8s.io/apimachinery/pkg/apis/meta/v1.StatusCause'', 0),
     (''k8s.io/apimachinery/pkg/apis/meta/v1.StatusDetails'', 1),
     (''k8s.io/apimachinery/pkg/apis/meta/v1.Table'', 2),
     (''k8s.io/apimachinery/pkg/apis/meta/v1.TableColumnDefinition'', 0),
     (''k8s.io/apimachinery/pkg/apis/meta/v1.TableOptions'', 0),
     (''k8s.io/apimachinery/pkg/apis/meta/v1.TableRow'', 1),
     (''k8s.io/apimachinery/pkg/apis/meta/v1.TableRowCondition'', 0),
     (''k8s.io/apimachinery/pkg/apis/meta/v1.Time'', 0),
     (''k8s.io/apimachinery/pkg/apis/meta/v1.Timestamp'', 0),
     (''k8s.io/apimachinery/pkg/apis/meta/v1.TypeMeta'', 0),
     (''k8s.io/apimachinery/pkg/apis/meta/v1.UpdateOptions'', 0),
     (''k8s.io/apimachinery/pkg/apis/meta/v1.WatchEvent'', 1),
     (''k8s.io/apimachinery/pkg/runtime.RawExtension'', 0),
     (''k8s.io/apimachinery/pkg/util/intstr.IntOrString'', 0),
     (''k8s.io/kube-scheduler/config/v1.ExtenderManagedResource'', 0),
     (''k8s.io/kube-scheduler/config/v1.ExtenderTLSConfig'', 0),
     (''k8s.io/kube-scheduler/config/v1.LabelPreference'', 0),
     (''k8s.io/kube-scheduler/config/v1.LabelsPresence'', 0),
     (''k8s.io/kube-scheduler/config/v1.LegacyExtender'', 1),
     (''k8s.io/kube-scheduler/config/v1.Policy'', 4),
     (''k8s.io/kube-scheduler/config/v1.PredicateArgument'', 1),
     (''k8s.io/kube-scheduler/config/v1.PredicatePolicy'', 2),
     (''k8s.io/kube-scheduler/config/v1.PriorityArgument'', 2),
     (''k8s.io/kube-scheduler/config/v1.PriorityPolicy'', 3),
     (''k8s.io/kube-scheduler/config/v1.RequestedToCapacityRatioArguments'', 1),
     (''k8s.io/kube-scheduler/config/v1.ResourceSpec'', 0),
     (''k8s.io/kube-scheduler/config/v1.ServiceAffinity'', 0),
     (''k8s.io/kube-scheduler/config/v1.ServiceAntiAffinity'', 0),
     (''k8s.io/kube-scheduler/config/v1.UtilizationShapePoint'', 0),
     (''k8s.io/kube-scheduler/config/v1beta2.DefaultPreemptionArgs'', 0),
     (''k8s.io/kube-scheduler/config/v1beta2.Extender'', 1),
     (''k8s.io/kube-scheduler/config/v1beta2.InterPodAffinityArgs'', 0),
     (''k8s.io/kube-scheduler/config/v1beta2.KubeSchedulerProfile'', 3),
     (''k8s.io/kube-scheduler/config/v1beta2.NodeAffinityArgs'', 4),
     (''k8s.io/kube-scheduler/config/v1beta2.NodeResourcesBalancedAllocationArgs'', 1),
     (''k8s.io/kube-scheduler/config/v1beta2.NodeResourcesFitArgs'', 3),
     (''k8s.io/kube-scheduler/config/v1beta2.Plugin'', 0),
     (''k8s.io/kube-scheduler/config/v1beta2.PluginConfig'', 1),
     (''k8s.io/kube-scheduler/config/v1beta2.PluginSet'', 1),
     (''k8s.io/kube-scheduler/config/v1beta2.Plugins'', 2),
     (''k8s.io/kube-scheduler/config/v1beta2.PodTopologySpreadArgs'', 3),
     (''k8s.io/kube-scheduler/config/v1beta2.RequestedToCapacityRatioParam'', 1),
     (''k8s.io/kube-scheduler/config/v1beta2.ResourceSpec'', 0),
     (''k8s.io/kube-scheduler/config/v1beta2.ScoringStrategy'', 2),
     (''k8s.io/kube-scheduler/config/v1beta2.UtilizationShapePoint'', 0),
     (''k8s.io/kube-scheduler/config/v1beta2.VolumeBindingArgs'', 1)]"

definition openapi_rank :: "string \<Rightarrow> nat option" where
  "openapi_rank = map_of openapi_ranks"

lemma sorted_names: "sorted_wrt (<) (map fst openapi_ranks)"
  unfolding openapi_ranks_def list.map fst_conv
  by (simp add: sorted_wrt2 [OF transp_on_less] sorted_wrt1 less_list_code less_char_def del: sorted_wrt.simps)

lemma distinct_names: "distinct (map fst openapi_ranks)"
  using sorted_names by (simp only: strict_sorted_iff)

lemma ranks_lookup: "list_all (\<lambda>(n, k). openapi_rank n = Some k) openapi_ranks"
  using distinct_names by (auto simp: openapi_rank_def list_all_iff)

lemmas rank_of_name = ranks_lookup [unfolded openapi_ranks_def list.pred_inject prod.case]

lemma table_names: "map fst (GetOpenAPIDefinitions lib ref) = map fst openapi_ranks"
  unfolding GetOpenAPIDefinitions_def openapi_ranks_def list.map fst_conv by (rule refl)

section \<open>The table is closed and its references end\<close>

text \<open>
  Every entry is consistent, and its dependencies have a smaller rank, so they are entries too.
\<close>

lemma table_entries:
  "list_all2 (\<lambda>(n, k) (m, d). n = m \<and> definition_ok ref d \<and> deps_below openapi_rank k d)
     openapi_ranks (GetOpenAPIDefinitions lib ref)"
  unfolding GetOpenAPIDefinitions_def openapi_ranks_def list_all2_Cons list_all2_Nil prod.case
  by (intro conjI refl TrueI openapi_meta_ok openapi_node_ok openapi_volume_ok openapi_container_ok openapi_pod_ok openapi_requests_ok openapi_core_ok openapi_storage_ok openapi_scheduler_ok openapi_workloads_ok openapi_flow_ok;
      simp add: deps_below_def rank_of_name
        schema_k8sio_api_apps_v1_ControllerRevision_def
        schema_k8sio_api_apps_v1_ControllerRevisionList_def
        schema_k8sio_api_apps_v1_DaemonSet_def
        schema_k8sio_api_apps_v1_DaemonSetCondition_def
        schema_k8sio_api_apps_v1_DaemonSetList_def
        schema_k8sio_api_apps_v1_DaemonSetSpec_def
        schema_k8sio_api_apps_v1_DaemonSetStatus_def
        schema_k8sio_api_apps_v1_DaemonSetUpdateStrategy_def
        schema_k8sio_api_apps_v1_Deployment_def
        schema_k8sio_api_apps_v1_DeploymentCondition_def
        schema_k8sio_api_apps_v1_DeploymentList_def
        schema_k8sio_api_apps_v1_DeploymentSpec_def
        schema_k8sio_api_apps_v1_DeploymentStatus_def
        schema_k8sio_api_apps_v1_DeploymentStrategy_def
        schema_k8sio_api_apps_v1_ReplicaSet_def
        schema_k8sio_api_apps_v1_ReplicaSetCondition_def
        schema_k8sio_api_apps_v1_ReplicaSetList_def
        schema_k8sio_api_apps_v1_ReplicaSetSpec_def
        schema_k8sio_api_apps_v1_ReplicaSetStatus_def
        schema_k8sio_api_apps_v1_RollingUpdateDaemonSet_def
        schema_k8sio_api_apps_v1_RollingUpdateDeployment_def
        schema_k8sio_api_apps_v1_RollingUpdateStatefulSetStrategy_def
        schema_k8sio_api_apps_v1_StatefulSet_def
        schema_k8sio_api_apps_v1_StatefulSetCondition_def
        schema_k8sio_api_apps_v1_StatefulSetList_def
        schema_k8sio_api_apps_v1_StatefulSetSpec_def
        schema_k8sio_api_apps_v1_StatefulSetStatus_def
        schema_k8sio_api_apps_v1_StatefulSetUpdateStrategy_def
        schema_k8sio_api_coordination_v1_Lease_def
        schema_k8sio_api_coordination_v1_LeaseList_def
        schema_k8sio_api_coordination_v1_LeaseSpec_def
        schema_k8sio_api_core_v1_AWSElasticBlockStoreVolumeSource_def
        schema_k8sio_api_core_v1_Affinity_def
        schema_k8sio_api_core_v1_AttachedVolume_def
        schema_k8sio_api_core_v1_AvoidPods_def
        schema_k8sio_api_core_v1_AzureDiskVolumeSource_def
        schema_k8sio_api_core_v1_AzureFilePersistentVolumeSource_def
        schema_k8sio_api_core_v1_AzureFileVolumeSource_def
        schema_k8sio_api_core_v1_Binding_def
        schema_k8sio_api_core_v1_CSIPersistentVolumeSource_def
        schema_k8sio_api_core_v1_CSIVolumeSource_def
        schema_k8sio_api_core_v1_Capabilities_def
        schema_k8sio_api_core_v1_CephFSPersistentVolumeSource_def
        schema_k8sio_api_core_v1_CephFSVolumeSource_def
        schema_k8sio_api_core_v1_CinderPersistentVolumeSource_def
        schema_k8sio_api_core_v1_CinderVolumeSource_def
        schema_k8sio_api_core_v1_ClientIPConfig_def
        schema_k8sio_api_core_v1_ComponentCondition_def
        schema_k8sio_api_core_v1_ComponentStatus_def
        schema_k8sio_api_core_v1_ComponentStatusList_def
        schema_k8sio_api_core_v1_ConfigMap_def
        schema_k8sio_api_core_v1_ConfigMapEnvSource_def
        schema_k8sio_api_core_v1_ConfigMapKeySelector_def
        schema_k8sio_api_core_v1_ConfigMapList_def
        schema_k8sio_api_core_v1_ConfigMapNodeConfigSource_def
        schema_k8sio_api_core_v1_ConfigMapProjection_def
        schema_k8sio_api_core_v1_ConfigMapVolumeSource_def
        schema_k8sio_api_core_v1_Container_def
        schema_k8sio_api_core_v1_ContainerImage_def
        schema_k8sio_api_core_v1_ContainerPort_def
        schema_k8sio_api_core_v1_ContainerState_def
        schema_k8sio_api_core_v1_ContainerStateRunning_def
        schema_k8sio_api_core_v1_ContainerStateTerminated_def
        schema_k8sio_api_core_v1_ContainerStateWaiting_def
        schema_k8sio_api_core_v1_ContainerStatus_def
        schema_k8sio_api_core_v1_DaemonEndpoint_def
        schema_k8sio_api_core_v1_DownwardAPIProjection_def
        schema_k8sio_api_core_v1_DownwardAPIVolumeFile_def
        schema_k8sio_api_core_v1_DownwardAPIVolumeSource_def
        schema_k8sio_api_core_v1_EmptyDirVolumeSource_def
        schema_k8sio_api_core_v1_EndpointAddress_def
        schema_k8sio_api_core_v1_EndpointPort_def
        schema_k8sio_api_core_v1_EndpointSubset_def
        schema_k8sio_api_core_v1_Endpoints_def
        schema_k8sio_api_core_v1_EndpointsList_def
        schema_k8sio_api_core_v1_EnvFromSource_def
        schema_k8sio_api_core_v1_EnvVar_def
        schema_k8sio_api_core_v1_EnvVarSource_def
        schema_k8sio_api_core_v1_EphemeralContainer_def
        schema_k8sio_api_core_v1_EphemeralContainerCommon_def
        schema_k8sio_api_core_v1_EphemeralVolumeSource_def
        schema_k8sio_api_core_v1_Event_def
        schema_k8sio_api_core_v1_EventList_def
        schema_k8sio_api_core_v1_EventSeries_def
        schema_k8sio_api_core_v1_EventSource_def
        schema_k8sio_api_core_v1_ExecAction_def
        schema_k8sio_api_core_v1_FCVolumeSource_def
        schema_k8sio_api_core_v1_FlexPersistentVolumeSource_def
        schema_k8sio_api_core_v1_FlexVolumeSource_def
        schema_k8sio_api_core_v1_FlockerVolumeSource_def
        schema_k8sio_api_core_v1_GCEPersistentDiskVolumeSource_def
        schema_k8sio_api_core_v1_GitRepoVolumeSource_def
        schema_k8sio_api_core_v1_GlusterfsPersistentVolumeSource_def
        schema_k8sio_api_core_v1_GlusterfsVolumeSource_def
        schema_k8sio_api_core_v1_HTTPGetAction_def
        schema_k8sio_api_core_v1_HTTPHeader_def
        schema_k8sio_api_core_v1_Handler_def
        schema_k8sio_api_core_v1_HostAlias_def
        schema_k8sio_api_core_v1_HostPathVolumeSource_def
        schema_k8sio_api_core_v1_ISCSIPersistentVolumeSource_def
        schema_k8sio_api_core_v1_ISCSIVolumeSource_def
        schema_k8sio_api_core_v1_KeyToPath_def
        schema_k8sio_api_core_v1_Lifecycle_def
        schema_k8sio_api_core_v1_LimitRange_def
        schema_k8sio_api_core_v1_LimitRangeItem_def
        schema_k8sio_api_core_v1_LimitRangeList_def
        schema_k8sio_api_core_v1_LimitRangeSpec_def
        schema_k8sio_api_core_v1_List_def
        schema_k8sio_api_core_v1_LoadBalancerIngress_def
        schema_k8sio_api_core_v1_LoadBalancerStatus_def
        schema_k8sio_api_core_v1_LocalObjectReference_def
        schema_k8sio_api_core_v1_LocalVolumeSource_def
        schema_k8sio_api_core_v1_NFSVolumeSource_def
        schema_k8sio_api_core_v1_Namespace_def
        schema_k8sio_api_core_v1_NamespaceCondition_def
        schema_k8sio_api_core_v1_NamespaceList_def
        schema_k8sio_api_core_v1_NamespaceSpec_def
        schema_k8sio_api_core_v1_NamespaceStatus_def
        schema_k8sio_api_core_v1_Node_def
        schema_k8sio_api_core_v1_NodeAddress_def
        schema_k8sio_api_core_v1_NodeAffinity_def
        schema_k8sio_api_core_v1_NodeCondition_def
        schema_k8sio_api_core_v1_NodeConfigSource_def
        schema_k8sio_api_core_v1_NodeConfigStatus_def
        schema_k8sio_api_core_v1_NodeDaemonEndpoints_def
        schema_k8sio_api_core_v1_NodeList_def
        schema_k8sio_api_core_v1_NodeProxyOptions_def
        schema_k8sio_api_core_v1_NodeResources_def
        schema_k8sio_api_core_v1_NodeSelector_def
        schema_k8sio_api_core_v1_NodeSelectorRequirement_def
        schema_k8sio_api_core_v1_NodeSelectorTerm_def
        schema_k8sio_api_core_v1_NodeSpec_def
        schema_k8sio_api_core_v1_NodeStatus_def
        schema_k8sio_api_core_v1_NodeSystemInfo_def
        schema_k8sio_api_core_v1_ObjectFieldSelector_def
        schema_k8sio_api_core_v1_ObjectReference_def
        schema_k8sio_api_core_v1_PersistentVolume_def
        schema_k8sio_api_core_v1_PersistentVolumeClaim_def
        schema_k8sio_api_core_v1_PersistentVolumeClaimCondition_def
        schema_k8sio_api_core_v1_PersistentVolumeClaimList_def
        schema_k8sio_api_core_v1_PersistentVolumeClaimSpec_def
        schema_k8sio_api_core_v1_PersistentVolumeClaimStatus_def
        schema_k8sio_api_core_v1_PersistentVolumeClaimTemplate_def
        schema_k8sio_api_core_v1_PersistentVolumeClaimVolumeSource_def
        schema_k8sio_api_core_v1_PersistentVolumeList_def
        schema_k8sio_api_core_v1_PersistentVolumeSource_def
        schema_k8sio_api_core_v1_PersistentVolumeSpec_def
        schema_k8sio_api_core_v1_PersistentVolumeStatus_def
        schema_k8sio_api_core_v1_PhotonPersistentDiskVolumeSource_def
        schema_k8sio_api_core_v1_Pod_def
        schema_k8sio_api_core_v1_PodAffinity_def
        schema_k8sio_api_core_v1_PodAffinityTerm_def
        schema_k8sio_api_core_v1_PodAntiAffinity_def
        schema_k8sio_api_core_v1_PodAttachOptions_def
        schema_k8sio_api_core_v1_PodCondition_def
        schema_k8sio_api_core_v1_PodDNSConfig_def
        schema_k8sio_api_core_v1_PodDNSConfigOption_def
        schema_k8sio_api_core_v1_PodExecOptions_def
        schema_k8sio_api_core_v1_PodIP_def
        schema_k8sio_api_core_v1_PodList_def
        schema_k8sio_api_core_v1_PodLogOptions_def
        schema_k8sio_api_core_v1_PodPortForwardOptions_def
        schema_k8sio_api_core_v1_PodProxyOptions_def
        schema_k8sio_api_core_v1_PodReadinessGate_def
        schema_k8sio_api_core_v1_PodSecurityContext_def
        schema_k8sio_api_core_v1_PodSignature_def
        schema_k8sio_api_core_v1_PodSpec_def
        schema_k8sio_api_core_v1_PodStatus_def
        schema_k8sio_api_core_v1_PodStatusResult_def
        schema_k8sio_api_core_v1_PodTemplate_def
        schema_k8sio_api_core_v1_PodTemplateList_def
        schema_k8sio_api_core_v1_PodTemplateSpec_def
        schema_k8sio_api_core_v1_PortStatus_def
        schema_k8sio_api_core_v1_PortworxVolumeSource_def
        schema_k8sio_api_core_v1_PreferAvoidPodsEntry_def
        schema_k8sio_api_core_v1_PreferredSchedulingTerm_def
        schema_k8sio_api_core_v1_Probe_def
        schema_k8sio_api_core_v1_ProjectedVolumeSource_def
        schema_k8sio_api_core_v1_QuobyteVolumeSource_def
        schema_k8sio_api_core_v1_RBDPersistentVolumeSource_def
        schema_k8sio_api_core_v1_RBDVolumeSource_def
        schema_k8sio_api_core_v1_RangeAllocation_def
        schema_k8sio_api_core_v1_ReplicationController_def
        schema_k8sio_api_core_v1_ReplicationControllerCondition_def
        schema_k8sio_api_core_v1_ReplicationControllerList_def
        schema_k8sio_api_core_v1_ReplicationControllerSpec_def
        schema_k8sio_api_core_v1_ReplicationControllerStatus_def
        schema_k8sio_api_core_v1_ResourceFieldSelector_def
        schema_k8sio_api_core_v1_ResourceQuota_def
        schema_k8sio_api_core_v1_ResourceQuotaList_def
        schema_k8sio_api_core_v1_ResourceQuotaSpec_def
        schema_k8sio_api_core_v1_ResourceQuotaStatus_def
        schema_k8sio_api_core_v1_ResourceRequirements_def
        schema_k8sio_api_core_v1_SELinuxOptions_def
        schema_k8sio_api_core_v1_ScaleIOPersistentVolumeSource_def
        schema_k8sio_api_core_v1_ScaleIOVolumeSource_def
        schema_k8sio_api_core_v1_ScopeSelector_def
        schema_k8sio_api_core_v1_ScopedResourceSelectorRequirement_def
        schema_k8sio_api_core_v1_SeccompProfile_def
        schema_k8sio_api_core_v1_Secret_def
        schema_k8sio_api_core_v1_SecretEnvSource_def
        schema_k8sio_api_core_v1_SecretKeySelector_def
        schema_k8sio_api_core_v1_SecretList_def
        schema_k8sio_api_core_v1_SecretProjection_def
        schema_k8sio_api_core_v1_SecretReference_def
        schema_k8sio_api_core_v1_SecretVolumeSource_def
        schema_k8sio_api_core_v1_SecurityContext_def
        schema_k8sio_api_core_v1_SerializedReference_def
        schema_k8sio_api_core_v1_Service_def
        schema_k8sio_api_core_v1_ServiceAccount_def
        schema_k8sio_api_core_v1_ServiceAccountList_def
        schema_k8sio_api_core_v1_ServiceAccountTokenProjection_def
        schema_k8sio_api_core_v1_ServiceList_def
        schema_k8sio_api_core_v1_ServicePort_def
        schema_k8sio_api_core_v1_ServiceProxyOptions_def
        schema_k8sio_api_core_v1_ServiceSpec_def
        schema_k8sio_api_core_v1_ServiceStatus_def
        schema_k8sio_api_core_v1_SessionAffinityConfig_def
        schema_k8sio_api_core_v1_StorageOSPersistentVolumeSource_def
        schema_k8sio_api_core_v1_StorageOSVolumeSource_def
        schema_k8sio_api_core_v1_Sysctl_def
        schema_k8sio_api_core_v1_TCPSocketAction_def
        schema_k8sio_api_core_v1_Taint_def
        schema_k8sio_api_core_v1_Toleration_def
        schema_k8sio_api_core_v1_TopologySelectorLabelRequirement_def
        schema_k8sio_api_core_v1_TopologySelectorTerm_def
        schema_k8sio_api_core_v1_TopologySpreadConstraint_def
        schema_k8sio_api_core_v1_TypedLocalObjectReference_def
        schema_k8sio_api_core_v1_Volume_def
        schema_k8sio_api_core_v1_VolumeDevice_def
        schema_k8sio_api_core_v1_VolumeMount_def
        schema_k8sio_api_core_v1_VolumeNodeAffinity_def
        schema_k8sio_api_core_v1_VolumeProjection_def
        schema_k8sio_api_core_v1_VolumeSource_def
        schema_k8sio_api_core_v1_VsphereVirtualDiskVolumeSource_def
        schema_k8sio_api_core_v1_WeightedPodAffinityTerm_def
        schema_k8sio_api_core_v1_WindowsSecurityContextOptions_def
        schema_k8sio_api_events_v1_Event_def
        schema_k8sio_api_events_v1_EventList_def
        schema_k8sio_api_events_v1_EventSeries_def
        schema_k8sio_api_flowcontrol_v1beta1_FlowDistinguisherMethod_def
        schema_k8sio_api_flowcontrol_v1beta1_FlowSchema_def
        schema_k8sio_api_flowcontrol_v1beta1_FlowSchemaCondition_def
        schema_k8sio_api_flowcontrol_v1beta1_FlowSchemaList_def
        schema_k8sio_api_flowcontrol_v1beta1_FlowSchemaSpec_def
        schema_k8sio_api_flowcontrol_v1beta1_FlowSchemaStatus_def
        schema_k8sio_api_flowcontrol_v1beta1_GroupSubject_def
        schema_k8sio_api_flowcontrol_v1beta1_LimitResponse_def
        schema_k8sio_api_flowcontrol_v1beta1_LimitedPriorityLevelConfiguration_def
        schema_k8sio_api_flowcontrol_v1beta1_NonResourcePolicyRule_def
        schema_k8sio_api_flowcontrol_v1beta1_PolicyRulesWithSubjects_def
        schema_k8sio_api_flowcontrol_v1beta1_PriorityLevelConfiguration_def
        schema_k8sio_api_flowcontrol_v1beta1_PriorityLevelConfigurationCondition_def
        schema_k8sio_api_flowcontrol_v1beta1_PriorityLevelConfigurationList_def
        schema_k8sio_api_flowcontrol_v1beta1_PriorityLevelConfigurationReference_def
        schema_k8sio_api_flowcontrol_v1beta1_PriorityLevelConfigurationSpec_def
        schema_k8sio_api_flowcontrol_v1beta1_PriorityLevelConfigurationStatus_def
        schema_k8sio_api_flowcontrol_v1beta1_QueuingConfiguration_def
        schema_k8sio_api_flowcontrol_v1beta1_ResourcePolicyRule_def
        schema_k8sio_api_flowcontrol_v1beta1_ServiceAccountSubject_def
        schema_k8sio_api_flowcontrol_v1beta1_Subject_def
        schema_k8sio_api_flowcontrol_v1beta1_UserSubject_def
        schema_k8sio_api_policy_v1_Eviction_def
        schema_k8sio_api_policy_v1_PodDisruptionBudget_def
        schema_k8sio_api_policy_v1_PodDisruptionBudgetList_def
        schema_k8sio_api_policy_v1_PodDisruptionBudgetSpec_def
        schema_k8sio_api_policy_v1_PodDisruptionBudgetStatus_def
        schema_k8sio_api_scheduling_v1_PriorityClass_def
        schema_k8sio_api_scheduling_v1_PriorityClassList_def
        schema_k8sio_api_storage_v1_CSIDriver_def
        schema_k8sio_api_storage_v1_CSIDriverList_def
        schema_k8sio_api_storage_v1_CSIDriverSpec_def
        schema_k8sio_api_storage_v1_CSINode_def
        schema_k8sio_api_storage_v1_CSINodeDriver_def
        schema_k8sio_api_storage_v1_CSINodeList_def
        schema_k8sio_api_storage_v1_CSINodeSpec_def
        schema_k8sio_api_storage_v1_StorageClass_def
        schema_k8sio_api_storage_v1_StorageClassList_def
        schema_k8sio_api_storage_v1_TokenRequest_def
        schema_k8sio_api_storage_v1_VolumeAttachment_def
        schema_k8sio_api_storage_v1_VolumeAttachmentList_def
        schema_k8sio_api_storage_v1_VolumeAttachmentSource_def
        schema_k8sio_api_storage_v1_VolumeAttachmentSpec_def
        schema_k8sio_api_storage_v1_VolumeAttachmentStatus_def
        schema_k8sio_api_storage_v1_VolumeError_def
        schema_k8sio_api_storage_v1_VolumeNodeResources_def
        schema_apimachinery_pkg_api_resource_Quantity_def
        schema_pkg_apis_meta_v1_APIGroup_def
        schema_pkg_apis_meta_v1_APIGroupList_def
        schema_pkg_apis_meta_v1_APIResource_def
        schema_pkg_apis_meta_v1_APIResourceList_def
        schema_pkg_apis_meta_v1_APIVersions_def
        schema_pkg_apis_meta_v1_ApplyOptions_def
        schema_pkg_apis_meta_v1_Condition_def
        schema_pkg_apis_meta_v1_CreateOptions_def
        schema_pkg_apis_meta_v1_DeleteOptions_def
        schema_pkg_apis_meta_v1_Duration_def
        schema_pkg_apis_meta_v1_FieldsV1_def
        schema_pkg_apis_meta_v1_GetOptions_def
        schema_pkg_apis_meta_v1_GroupKind_def
        schema_pkg_apis_meta_v1_GroupResource_def
        schema_pkg_apis_meta_v1_GroupVersion_def
        schema_pkg_apis_meta_v1_GroupVersionForDiscovery_def
        schema_pkg_apis_meta_v1_GroupVersionKind_def
        schema_pkg_apis_meta_v1_GroupVersionResource_def
        schema_pkg_apis_meta_v1_LabelSelector_def
        schema_pkg_apis_meta_v1_LabelSelectorRequirement_def
        schema_pkg_apis_meta_v1_List_def
        schema_pkg_apis_meta_v1_ListMeta_def
        schema_pkg_apis_meta_v1_ListOptions_def
        schema_pkg_apis_meta_v1_ManagedFieldsEntry_def
        schema_pkg_apis_meta_v1_MicroTime_def
        schema_pkg_apis_meta_v1_ObjectMeta_def
        schema_pkg_apis_meta_v1_OwnerReference_def
        schema_pkg_apis_meta_v1_PartialObjectMetadata_def
        schema_pkg_apis_meta_v1_PartialObjectMetadataList_def
        schema_pkg_apis_meta_v1_Patch_def
        schema_pkg_apis_meta_v1_PatchOptions_def
        schema_pkg_apis_meta_v1_Preconditions_def
        schema_pkg_apis_meta_v1_RootPaths_def
        schema_pkg_apis_meta_v1_ServerAddressByClientCIDR_def
        schema_pkg_apis_meta_v1_Status_def
        schema_pkg_apis_meta_v1_StatusCause_def
        schema_pkg_apis_meta_v1_StatusDetails_def
        schema_pkg_apis_meta_v1_Table_def
        schema_pkg_apis_meta_v1_TableColumnDefinition_def
        schema_pkg_apis_meta_v1_TableOptions_def
        schema_pkg_apis_meta_v1_TableRow_def
        schema_pkg_apis_meta_v1_TableRowCondition_def
        schema_pkg_apis_meta_v1_Time_def
        schema_pkg_apis_meta_v1_Timestamp_def
        schema_pkg_apis_meta_v1_TypeMeta_def
        schema_pkg_apis_meta_v1_UpdateOptions_def
        schema_pkg_apis_meta_v1_WatchEvent_def
        schema_k8sio_apimachinery_pkg_runtime_RawExtension_def
        schema_apimachinery_pkg_util_intstr_IntOrString_def
        schema_k8sio_kube_scheduler_config_v1_ExtenderManagedResource_def
        schema_k8sio_kube_scheduler_config_v1_ExtenderTLSConfig_def
        schema_k8sio_kube_scheduler_config_v1_LabelPreference_def
        schema_k8sio_kube_scheduler_config_v1_LabelsPresence_def
        schema_k8sio_kube_scheduler_config_v1_LegacyExtender_def
        schema_k8sio_kube_scheduler_config_v1_Policy_def
        schema_k8sio_kube_scheduler_config_v1_PredicateArgument_def
        schema_k8sio_kube_scheduler_config_v1_PredicatePolicy_def
        schema_k8sio_kube_scheduler_config_v1_PriorityArgument_def
        schema_k8sio_kube_scheduler_config_v1_PriorityPolicy_def
        schema_k8sio_kube_scheduler_config_v1_RequestedToCapacityRatioArguments_def
        schema_k8sio_kube_scheduler_config_v1_ResourceSpec_def
        schema_k8sio_kube_scheduler_config_v1_ServiceAffinity_def
        schema_k8sio_kube_scheduler_config_v1_ServiceAntiAffinity_def
        schema_k8sio_kube_scheduler_config_v1_UtilizationShapePoint_def
        schema_k8sio_kube_scheduler_config_v1beta2_DefaultPreemptionArgs_def
        schema_k8sio_kube_scheduler_config_v1beta2_Extender_def
        schema_k8sio_kube_scheduler_config_v1beta2_InterPodAffinityArgs_def
        schema_k8sio_kube_scheduler_config_v1beta2_KubeSchedulerProfile_def
        schema_k8sio_kube_scheduler_config_v1beta2_NodeAffinityArgs_def
        schema_k8sio_kube_scheduler_config_v1beta2_NodeResourcesBalancedAllocationArgs_def
        schema_k8sio_kube_scheduler_config_v1beta2_NodeResourcesFitArgs_def
        schema_k8sio_kube_scheduler_config_v1beta2_Plugin_def
        schema_k8sio_kube_scheduler_config_v1beta2_PluginConfig_def
        schema_k8sio_kube_scheduler_config_v1beta2_PluginSet_def
        schema_k8sio_kube_scheduler_config_v1beta2_Plugins_def
        schema_k8sio_kube_scheduler_config_v1beta2_PodTopologySpreadArgs_def
        schema_k8sio_kube_scheduler_config_v1beta2_RequestedToCapacityRatioParam_def
        schema_k8sio_kube_scheduler_config_v1beta2_ResourceSpec_def
        schema_k8sio_kube_scheduler_config_v1beta2_ScoringStrategy_def
        schema_k8sio_kube_scheduler_config_v1beta2_UtilizationShapePoint_def
        schema_k8sio_kube_scheduler_config_v1beta2_VolumeBindingArgs_def)

lemma entry_ok:
  assumes "(n, d) \<in> set (GetOpenAPIDefinitions lib ref)"
  shows "definition_ok ref d \<and> (\<exists>k. openapi_rank n = Some k \<and> deps_below openapi_rank k d)"
proof -
  from assms obtain i where i: "i < length (GetOpenAPIDefinitions lib ref)"
    and nd: "GetOpenAPIDefinitions lib ref ! i = (n, d)"
    by (auto simp: in_set_conv_nth)
  have len: "length openapi_ranks = length (GetOpenAPIDefinitions lib ref)"
    using table_entries [of ref lib] by (rule list_all2_lengthD)
  obtain n' k where nk: "openapi_ranks ! i = (n', k)" by (cases "openapi_ranks ! i")
  have "(n', k) \<in> set openapi_ranks" using i nk by (metis len nth_mem)
  then have "openapi_rank n' = Some k" using ranks_lookup by (auto simp: list_all_iff)
  moreover have "n' = n \<and> definition_ok ref d \<and> deps_below openapi_rank k d"
    using list_all2_nthD [OF table_entries [of ref lib], of i] i len nd nk by simp
  ultimately show ?thesis by blast
qed

lemma distinct_table: "distinct (map fst (GetOpenAPIDefinitions lib ref))"
  by (simp only: table_names distinct_names)

lemma ranked_name_is_entry:
  assumes "openapi_rank n = Some k"
  shows "\<exists>d. map_of (GetOpenAPIDefinitions lib ref) n = Some d"
proof -
  have "n \<in> set (map fst openapi_ranks)"
    using assms map_of_SomeD [of openapi_ranks n k] by (force simp: openapi_rank_def)
  then have "n \<in> set (map fst (GetOpenAPIDefinitions lib ref))" by (simp only: table_names)
  then show ?thesis by (simp add: map_of_eq_None_iff flip: not_None_eq)
qed


lemma pod_entry:
  "map_of (GetOpenAPIDefinitions lib ref) ''k8s.io/api/core/v1.Pod'' = Some (schema_k8sio_api_core_v1_Pod ref)"
proof (rule map_of_is_SomeI [OF distinct_table])
  show "(''k8s.io/api/core/v1.Pod'', schema_k8sio_api_core_v1_Pod ref) \<in> set (GetOpenAPIDefinitions lib ref)"
    unfolding GetOpenAPIDefinitions_def by (rule list.set_intros(1) | rule list.set_intros(2))+
qed



end
