(* ===== verification/API_Config.thy ===== *)
theory API_Config
  imports Framework OpenAPI_Definitions
begin

text \<open>
  The configuration of the API server, from \<open>k8sapiserver/k8sapiserver.go\<close>: its options, who a
  request is taken to come from, what it may do, and the definitions it publishes.  The
  functions of the Kubernetes libraries are arguments.
\<close>

section \<open>Authentication and authorization\<close>

record user_info =
  uName :: string
  uUID :: string
  uGroups :: "string list"

record auth_response =
  respUser :: user_info

text \<open>
  \<open>'q\<close> is \<open>*http.Request\<close>.  An authenticator returns a response, whether it has authenticated
  the request, and an error; an authorizer, for a user and a request, a decision, a reason and
  an error.
\<close>

type_synonym 'q authenticator = "'q \<Rightarrow> auth_response option \<times> bool \<times> goerror option"

datatype decision = DecisionDeny | DecisionAllow | DecisionNoOpinion

type_synonym 'q authorizer = "user_info \<Rightarrow> 'q \<Rightarrow> decision \<times> string \<times> goerror option"

definition alwaysEmpty :: "'q authenticator" where
  "alwaysEmpty r = (Some \<lparr>respUser = \<lparr>uName = [], uUID = [], uGroups = []\<rparr>\<rparr>, True, None)"

text \<open>
  The constructors of the packages \<open>authenticatorfactory\<close>, \<open>authenticatorunion\<close>,
  \<open>authorizerfactory\<close> and \<open>authorizerunion\<close>.
\<close>

record 'q auth_lib =
  NewFromTokens :: "(string \<rightharpoonup> user_info) \<Rightarrow> string list \<Rightarrow> 'q authenticator"
  authenticatorunion_New :: "'q authenticator list \<Rightarrow> 'q authenticator"
  NewPrivilegedGroups :: "string list \<Rightarrow> 'q authorizer"
  NewAlwaysAllowAuthorizer :: "'q authorizer"
  authorizerunion_New :: "'q authorizer list \<Rightarrow> 'q authorizer"

text \<open>
  What they document.  \<open>bearer\<close> reads the bearer token of a request.  A token authenticator
  knows the requests with one of its tokens.  A union of authenticators tries them in order
  until one succeeds.  The authorizers have no opinion of users outside the privileged groups,
  and allow everything; a union of authorizers asks them in order until one allows or denies.
\<close>

definition auth_laws :: "('q \<Rightarrow> string option) \<Rightarrow> 'q auth_lib \<Rightarrow> bool" where
  "auth_laws bearer lib \<longleftrightarrow>
     (\<forall>tokens aud r. case bearer r of
        None \<Rightarrow> \<not> fst (snd (NewFromTokens lib tokens aud r))
      | Some t \<Rightarrow>
          (case tokens t of
             None \<Rightarrow> \<not> fst (snd (NewFromTokens lib tokens aud r))
           | Some u \<Rightarrow> NewFromTokens lib tokens aud r = (Some \<lparr>respUser = u\<rparr>, True, None))) \<and>
     (\<forall>a as r resp. a r = (resp, True, None) \<longrightarrow>
        authenticatorunion_New lib (a # as) r = (resp, True, None)) \<and>
     (\<forall>a as r resp. \<not> fst (snd (a r)) \<longrightarrow> authenticatorunion_New lib as r = (resp, True, None) \<longrightarrow>
        authenticatorunion_New lib (a # as) r = (resp, True, None)) \<and>
     (\<forall>gs u r. fst (NewPrivilegedGroups lib gs u r) =
        (if set (uGroups u) \<inter> set gs = {} then DecisionNoOpinion else DecisionAllow)) \<and>
     (\<forall>u r. fst (NewAlwaysAllowAuthorizer lib u r) = DecisionAllow) \<and>
     (\<forall>a as u r. fst (authorizerunion_New lib (a # as) u r) =
        (if fst (a u r) = DecisionNoOpinion then fst (authorizerunion_New lib as u r) else fst (a u r)))"

lemma auth_lawsD:
  assumes "auth_laws bearer lib"
  shows "bearer r = Some t \<Longrightarrow> tokens t = Some u \<Longrightarrow>
      NewFromTokens lib tokens aud r = (Some \<lparr>respUser = u\<rparr>, True, None)"
    and "(\<And>t. bearer r = Some t \<Longrightarrow> tokens t = None) \<Longrightarrow> \<not> fst (snd (NewFromTokens lib tokens aud r))"
    and "a r = (resp, True, None) \<Longrightarrow> authenticatorunion_New lib (a # as) r = (resp, True, None)"
    and "\<not> fst (snd (a r)) \<Longrightarrow> authenticatorunion_New lib as r = (resp, True, None) \<Longrightarrow>
      authenticatorunion_New lib (a # as) r = (resp, True, None)"
proof -
  have tok: "\<forall>tokens aud r. case bearer r of
        None \<Rightarrow> \<not> fst (snd (NewFromTokens lib tokens aud r))
      | Some t \<Rightarrow>
          (case tokens t of
             None \<Rightarrow> \<not> fst (snd (NewFromTokens lib tokens aud r))
           | Some u \<Rightarrow> NewFromTokens lib tokens aud r = (Some \<lparr>respUser = u\<rparr>, True, None))"
    using assms unfolding auth_laws_def by (rule conjunct1)
  show "NewFromTokens lib tokens aud r = (Some \<lparr>respUser = u\<rparr>, True, None)"
    if "bearer r = Some t" "tokens t = Some u"
    using tok [THEN spec [of _ tokens], THEN spec [of _ aud], THEN spec [of _ r]] that by simp
  show "\<not> fst (snd (NewFromTokens lib tokens aud r))" if "\<And>t. bearer r = Some t \<Longrightarrow> tokens t = None"
    using tok [THEN spec [of _ tokens], THEN spec [of _ aud], THEN spec [of _ r]] that by (auto split: option.splits)
qed (use assms in \<open>simp_all add: auth_laws_def\<close>)

section \<open>The definitions to publish\<close>

text \<open>\<open>'r\<close> is \<open>spec.Ref\<close>; the fields of \<open>openapicommon.Config\<close> that the program sets.\<close>

record 'r openapi_config =
  InfoTitle :: string
  InfoVersion :: string
  DefaultResponse :: string
  GetDefinitions :: "(string \<Rightarrow> 'r) \<Rightarrow> (string \<times> 'r openapi_definition) list"

text \<open>\<open>defaults\<close> is \<open>genericapiserver.DefaultOpenAPIConfig\<close> with the namer of the scheme.\<close>

definition defaultOpenAPIConfig ::
    "(((string \<Rightarrow> 'r) \<Rightarrow> (string \<times> 'r openapi_definition) list) \<Rightarrow> 'r openapi_config)
       \<Rightarrow> openapi_lib \<Rightarrow> 'r openapi_config" where
  "defaultOpenAPIConfig defaults lib =
     (let openAPIConfig = defaults (GetOpenAPIDefinitions lib);
          openAPIConfig = openAPIConfig\<lparr>InfoTitle := ''Kubernetes'', InfoVersion := ''unversioned''\<rparr>;
          openAPIConfig = openAPIConfig\<lparr>DefaultResponse := ''Default Response.''\<rparr>
      in openAPIConfig\<lparr>GetDefinitions := GetOpenAPIDefinitions lib\<rparr>)"

section \<open>The listener\<close>

text \<open>A connection or \<open>nil\<close> and an error; an address is an IP and a port.\<close>

record 'conn listener =
  Accept :: "'conn option \<times> goerror option"
  Close :: "goerror option"
  Addr :: "string \<times> nat"

definition fakeLocalhost443Listener :: "'conn listener" where
  "fakeLocalhost443Listener = \<lparr>Accept = (None, None), Close = None, Addr = (''127.0.0.1'', 443)\<rparr>"

section \<open>Configuration\<close>

record rest_config =
  rcHost :: string
  rcGroupVersion :: "(string \<times> string) option"
  rcQPS :: nat
  rcBurst :: nat
  rcBearerToken :: string
  rcTimeout :: duration

text \<open>The arguments of \<open>utilflowcontrol.New\<close>, and an address with the length of its mask.\<close>

record flow_control =
  fcConcurrencyLimit :: int64
  fcRequestWaitLimit :: duration

record ip_net =
  netIP :: string
  netMask :: nat

record ('q, 'r) control_plane_config =
  etcdPrefix :: string
  etcdServers :: "string list"
  versionMajor :: string
  versionMinor :: string
  SecureServing :: "unit listener"
  MaxRequestsInFlight :: int64
  MaxMutatingRequestsInFlight :: int64
  RequestTimeout :: duration
  APIAudiences :: "string list"
  KubeletPort :: nat
  APIServerServicePort :: nat
  MasterCount :: nat
  LoopbackClientConfig :: rest_config
  Authenticator :: "'q authenticator"
  Authorizer :: "'q authorizer"
  PublicAddress :: string
  OpenAPIConfig :: "'r openapi_config"
  VersionedInformers :: "duration option"   \<comment> \<open>the factory, by its resync period\<close>
  FlowControl :: "flow_control option"
  ServiceIPRange :: "ip_net option"

text \<open>
  What the libraries answer: fresh UUIDs by number, the version of the build, the errors of
  completing the storage configuration, of creating the storage factory and of applying the
  options, two names, the defaults of \<open>genericapiserver.NewConfig\<close>, and the constructors used.
\<close>

record ('q, 'r) config_sources =
  uuid :: "nat \<Rightarrow> string"
  buildMajor :: string
  buildMinor :: string
  completeErr :: "goerror option"
  factoryErr :: "goerror option"
  applyErr :: "goerror option"
  APIServerUser :: string
  SystemPrivilegedGroup :: string
  newMaxRequestsInFlight :: int64
  newMaxMutatingRequestsInFlight :: int64
  newRequestTimeout :: duration
  newAPIAudiences :: "string list"
  authLib :: "'q auth_lib"
  openapiLib :: openapi_lib
  DefaultOpenAPIConfig ::
    "((string \<Rightarrow> 'r) \<Rightarrow> (string \<times> 'r openapi_definition) list) \<Rightarrow> 'r openapi_config"

definition panic_on :: "goerror option \<Rightarrow> (panic + 'a) \<Rightarrow> panic + 'a" where
  "panic_on err r = (if err \<noteq> None then Inl (PanicMsg ''error'') else r)"

text \<open>The tokens that the server knows: one, for its own client.\<close>

definition loopback_tokens ::
    "('q, 'r) config_sources \<Rightarrow> string \<Rightarrow> string \<rightharpoonup> user_info" where
  "loopback_tokens src privilegedLoopbackToken =
     [privilegedLoopbackToken \<mapsto>
        \<lparr>uName = APIServerUser src, uUID = uuid src 2, uGroups = [SystemPrivilegedGroup src]\<rparr>]"

definition NewControlPlaneConfigWithOptions ::
    "('q, 'r) config_sources \<Rightarrow> string \<Rightarrow> string \<Rightarrow> panic + ('q, 'r) control_plane_config" where
  "NewControlPlaneConfigWithOptions src serverURL etcdURL =
     panic_on (completeErr src) (panic_on (factoryErr src) (panic_on (applyErr src)
       (let privilegedLoopbackToken = uuid src 1;
            tokens = loopback_tokens src privilegedLoopbackToken;
            tokenAuthenticator = NewFromTokens (authLib src) tokens (newAPIAudiences src);
            tokenAuthorizer = NewPrivilegedGroups (authLib src) [SystemPrivilegedGroup src]
        in Inr \<lparr>etcdPrefix = uuid src 0, etcdServers = [etcdURL],
             versionMajor = (if buildMajor src = [] then ''1'' else buildMajor src),
             versionMinor = (if buildMinor src = [] then ''22'' else buildMinor src),
             SecureServing = fakeLocalhost443Listener,
             MaxRequestsInFlight = newMaxRequestsInFlight src,
             MaxMutatingRequestsInFlight = newMaxMutatingRequestsInFlight src,
             RequestTimeout = newRequestTimeout src, APIAudiences = newAPIAudiences src,
             KubeletPort = 10250, APIServerServicePort = 443, MasterCount = 1,
             LoopbackClientConfig = \<lparr>rcHost = serverURL, rcGroupVersion = None, rcQPS = 50,
               rcBurst = 100, rcBearerToken = privilegedLoopbackToken, rcTimeout = 0\<rparr>,
             Authenticator = authenticatorunion_New (authLib src) [tokenAuthenticator, alwaysEmpty],
             Authorizer = authorizerunion_New (authLib src)
               [tokenAuthorizer, NewAlwaysAllowAuthorizer (authLib src)],
             PublicAddress = ''192.168.10.4'',
             OpenAPIConfig = defaultOpenAPIConfig (DefaultOpenAPIConfig src) (openapiLib src),
             VersionedInformers = None, FlowControl = None, ServiceIPRange = None\<rparr>)))"

section \<open>Properties\<close>

text \<open>
  C32: Every request is authenticated and every user is allowed everything: a request with the
  bearer token of the loopback client comes from the API server's own user, in the privileged
  group, and any other, with a wrong token or with none, from the user without a name.  The
  loopback client reaches the server that was given.
\<close>

theorem api_admits_every_request:
  assumes "auth_laws bearer (authLib src)"
    and "NewControlPlaneConfigWithOptions src serverURL etcdURL = Inr c"
  shows "(\<exists>resp. Authenticator c r = (Some resp, True, None) \<and>
       (if bearer r = Some (rcBearerToken (LoopbackClientConfig c))
        then uName (respUser resp) = APIServerUser src \<and> uGroups (respUser resp) = [SystemPrivilegedGroup src]
        else uName (respUser resp) = [] \<and> uGroups (respUser resp) = [])) \<and>
     fst (Authorizer c u r) = DecisionAllow \<and>
     rcHost (LoopbackClientConfig c) = serverURL \<and> etcdServers c = [etcdURL]"
proof -
  let ?lib = "authLib src" and ?tok = "uuid src 1"
  let ?t = "NewFromTokens ?lib (loopback_tokens src ?tok) (newAPIAudiences src)"
  let ?own = "\<lparr>uName = APIServerUser src, uUID = uuid src 2, uGroups = [SystemPrivilegedGroup src]\<rparr>"
  have empty: "authenticatorunion_New ?lib [alwaysEmpty] r =
      (Some \<lparr>respUser = \<lparr>uName = [], uUID = [], uGroups = []\<rparr>\<rparr>, True, None)"
    by (rule auth_lawsD(3) [OF assms(1)]) (simp add: alwaysEmpty_def)
  have authn: "authenticatorunion_New ?lib [?t, alwaysEmpty] r =
      (Some \<lparr>respUser = if bearer r = Some ?tok then ?own else \<lparr>uName = [], uUID = [], uGroups = []\<rparr>\<rparr>, True, None)"
  proof (cases "bearer r = Some ?tok")
    case True
    have "?t r = (Some \<lparr>respUser = ?own\<rparr>, True, None)"
      by (rule auth_lawsD(1) [OF assms(1) True]) (simp add: loopback_tokens_def)
    from auth_lawsD(3) [where a = ?t, OF assms(1) this] True show ?thesis by simp
  next
    case False
    have "\<not> fst (snd (?t r))"
      by (rule auth_lawsD(2) [OF assms(1)]) (use False in \<open>auto simp: loopback_tokens_def\<close>)
    from auth_lawsD(4) [where a = ?t, OF assms(1) this empty] False show ?thesis by simp
  qed
  have authz: "fst (authorizerunion_New ?lib
      [NewPrivilegedGroups ?lib [SystemPrivilegedGroup src], NewAlwaysAllowAuthorizer ?lib] u r) = DecisionAllow"
    using assms(1) by (simp add: auth_laws_def)
  show ?thesis
    using assms(2) authn authz
    by (auto simp: NewControlPlaneConfigWithOptions_def panic_on_def Let_def split: if_splits)
qed

text \<open>
  Libraries that do what is documented, on requests that are just a bearer token or none.
\<close>

primrec first_success :: "'q authenticator list \<Rightarrow> 'q authenticator" where
  "first_success [] r = (None, False, None)"
| "first_success (a # as) r =
     (case a r of (resp, ok, err) \<Rightarrow> if ok \<and> err = None then (resp, ok, err) else first_success as r)"

primrec first_opinion :: "'q authorizer list \<Rightarrow> 'q authorizer" where
  "first_opinion [] u r = (DecisionNoOpinion, [], None)"
| "first_opinion (a # as) u r =
     (if fst (a u r) = DecisionNoOpinion then first_opinion as u r else a u r)"

definition sample_auth_lib :: "string option auth_lib" where
  "sample_auth_lib =
     \<lparr>NewFromTokens = (\<lambda>tokens aud r. case r of
          None \<Rightarrow> (None, False, None)
        | Some t \<Rightarrow>
            (case tokens t of
               None \<Rightarrow> (None, False, Some (ExtError ''invalid bearer token''))
             | Some u \<Rightarrow> (Some \<lparr>respUser = u\<rparr>, True, None))),
      authenticatorunion_New = first_success,
      NewPrivilegedGroups = (\<lambda>gs u r.
        (if set (uGroups u) \<inter> set gs = {} then DecisionNoOpinion else DecisionAllow, [], None)),
      NewAlwaysAllowAuthorizer = (\<lambda>u r. (DecisionAllow, [], None)),
      authorizerunion_New = first_opinion\<rparr>"

lemma sample_auth_laws: "auth_laws (\<lambda>r. r) sample_auth_lib"
  unfolding auth_laws_def
  by (auto simp: sample_auth_lib_def split: option.split prod.split)

definition sample_sources :: "(string option, string) config_sources" where
  "sample_sources = \<lparr>uuid = (\<lambda>n. replicate n (CHR ''u'')), buildMajor = [], buildMinor = [],
     completeErr = None, factoryErr = None, applyErr = None, APIServerUser = ''system:apiserver'',
     SystemPrivilegedGroup = ''system:masters'', newMaxRequestsInFlight = 400,
     newMaxMutatingRequestsInFlight = 200, newRequestTimeout = 60000000000, newAPIAudiences = [],
     authLib = sample_auth_lib,
     openapiLib = \<lparr>OpenAPISchemaType = (\<lambda>t. [''string'']), OpenAPISchemaFormat = (\<lambda>t. [])\<rparr>,
     DefaultOpenAPIConfig = (\<lambda>defs. \<lparr>InfoTitle = [], InfoVersion = [], DefaultResponse = [],
       GetDefinitions = defs\<rparr>)\<rparr>"

theorem api_admits_every_request_witness:
  "\<exists>c. NewControlPlaneConfigWithOptions sample_sources ''http://127.0.0.1:1'' ''etcd'' = Inr c \<and>
     (\<exists>resp. Authenticator c (Some ''u'') = (Some resp, True, None) \<and>
        uName (respUser resp) = ''system:apiserver'' \<and> fst (Authorizer c (respUser resp) (Some ''u'')) = DecisionAllow)"
proof -
  obtain c where c: "NewControlPlaneConfigWithOptions sample_sources ''http://127.0.0.1:1'' ''etcd'' = Inr c"
    and "rcBearerToken (LoopbackClientConfig c) = ''u''"
    by (simp add: NewControlPlaneConfigWithOptions_def panic_on_def sample_sources_def Let_def)
  moreover have laws: "auth_laws (\<lambda>r. r) (authLib sample_sources)"
    using sample_auth_laws by (simp add: sample_sources_def)
  moreover have "APIServerUser sample_sources = ''system:apiserver''"
    by (simp add: sample_sources_def)
  ultimately show ?thesis
    using api_admits_every_request [OF laws c, where r = "Some ''u''"] c by auto
qed

end
