(* ===== verification/API_Server.thy ===== *)
theory API_Server
  imports API_Config
begin

text \<open>
  Bringing the API server up and down, \<open>k8sapiserver/k8sapiserver.go\<close>: the HTTP server that
  waits for it, the last settings of its configuration, the function that closes it, and the
  wait until it is healthy.  What the Kubernetes libraries answer is an argument.
\<close>

section \<open>State\<close>

text \<open>
  \<open>'m\<close> is \<open>*controlplane.Instance\<close> and \<open>'x\<close> the state behind the libraries.  A closed channel
  is a flag; closing it again panics.
\<close>

record ('m, 'x) api_state =
  httpOpen :: bool           \<comment> \<open>the \<open>httptest\<close> server\<close>
  stopClosed :: bool         \<comment> \<open>\<open>stopCh\<close>\<close>
  Initialized :: bool        \<comment> \<open>the channel of the holder\<close>
  holderM :: "'m option"     \<comment> \<open>\<open>M\<close> of the holder\<close>
  serverM :: "'m option"     \<comment> \<open>the variable \<open>m\<close> that \<open>closeFn\<close> reads\<close>
  postStart :: bool          \<comment> \<open>the post-start hooks have been run\<close>
  apiWorld :: 'x

text \<open>
  The errors of creating the two clients, from their configurations, the creation of the
  control plane from its configuration, and the calls on it.
\<close>

record ('q, 'r, 'm, 'x) api_lib =
  NewForConfig :: "rest_config \<Rightarrow> goerror option"
  ServerNew :: "('q, 'r) control_plane_config \<Rightarrow> 'x \<Rightarrow> (goerror + 'm) \<times> 'x"
  RESTClientFor :: "rest_config \<Rightarrow> goerror option"
  healthz :: "'x \<Rightarrow> nat \<times> 'x"   \<comment> \<open>the status code of a request, 0 if there is none\<close>
  PollImmediate :: "duration \<Rightarrow> duration \<Rightarrow> ('x \<Rightarrow> (bool \<times> goerror option) \<times> 'x) \<Rightarrow> 'x \<Rightarrow> goerror option \<times> 'x"
  RunPreShutdownHooks :: "'m \<Rightarrow> 'x \<Rightarrow> goerror option \<times> 'x"

definition close_channel :: "bool \<Rightarrow> panic + bool" where
  "close_channel closed = (if closed then Inl (PanicMsg ''close of closed channel'') else Inr True)"

section \<open>The holder and the handler\<close>

definition SetAPIServer :: "'m \<Rightarrow> ('m, 'x) api_state \<Rightarrow> panic + ('m, 'x) api_state" where
  "SetAPIServer m st =
     (let st = st\<lparr>holderM := Some m\<rparr>
      in case close_channel (Initialized st) of
           Inl e \<Rightarrow> Inl e
         | Inr c \<Rightarrow> Inr (st\<lparr>Initialized := c\<rparr>))"

datatype 'm request = Blocked | ServedBy 'm

text \<open>The handler of the HTTP server, for one request in a state.\<close>

definition handle_request :: "('m, 'x) api_state \<Rightarrow> panic + 'm request" where
  "handle_request st =
     (if \<not> Initialized st then Inr Blocked
      else case holderM st of None \<Rightarrow> Inl NilDeref | Some m \<Rightarrow> Inr (ServedBy m))"

section \<open>Closing\<close>

definition closeFn :: "('q, 'r, 'm, 'x) api_lib \<Rightarrow> ('m, 'x) api_state \<Rightarrow> panic + ('m, 'x) api_state" where
  "closeFn lib st =
     (let st = (case serverM st of
                  None \<Rightarrow> st
                | Some m \<Rightarrow> st\<lparr>apiWorld := snd (RunPreShutdownHooks lib m (apiWorld st))\<rparr>)
      in case close_channel (stopClosed st) of
           Inl e \<Rightarrow> Inl e
         | Inr c \<Rightarrow> Inr (st\<lparr>stopClosed := c, httpOpen := False\<rparr>))"

definition shutdownFunc :: "('q, 'r, 'm, 'x) api_lib \<Rightarrow> ('m, 'x) api_state \<Rightarrow> panic + ('m, 'x) api_state" where
  "shutdownFunc lib st =
     (case closeFn lib st of
        Inl e \<Rightarrow> Inl e
      | Inr st \<Rightarrow> Inr (st\<lparr>httpOpen := False\<rparr>))"

section \<open>Starting\<close>

definition healthy :: "('q, 'r, 'm, 'x) api_lib \<Rightarrow> 'x \<Rightarrow> (bool \<times> goerror option) \<times> 'x" where
  "healthy lib x =
     (let (status, x) = healthz lib x
      in if status = 200 then ((True, None), x) else ((False, None), x))"

text \<open>Division of a duration by a positive constant, which truncates.\<close>

definition duration_div :: "duration \<Rightarrow> int \<Rightarrow> duration" where
  "duration_div d n = word_of_int (if 0 \<le> sint d then sint d div n else - (- sint d div n))"

text \<open>What \<open>startAPIServer\<close> sets in the configuration before the server is created.\<close>

definition complete_config ::
    "('q, 'r) control_plane_config \<Rightarrow> ('q, 'r) control_plane_config" where
  "complete_config c =
     (let c = c\<lparr>VersionedInformers := Some (rcTimeout (LoopbackClientConfig c))\<rparr>;
          c = c\<lparr>FlowControl := Some
            \<lparr>fcConcurrencyLimit = MaxRequestsInFlight c + MaxMutatingRequestsInFlight c,
             fcRequestWaitLimit = duration_div (RequestTimeout c) 4\<rparr>\<rparr>
      in c\<lparr>ServiceIPRange := Some \<lparr>netIP = ''10.0.0.0'', netMask = 24\<rparr>\<rparr>)"

definition startAPIServer ::
    "('q, 'r, 'm, 'x) api_lib \<Rightarrow> ('q, 'r) control_plane_config \<Rightarrow> ('m, 'x) api_state
       \<Rightarrow> panic + goerror option \<times> ('m, 'x) api_state" where
  "startAPIServer lib c st =
     (let st = st\<lparr>serverM := None, stopClosed := False\<rparr>
      in case NewForConfig lib (LoopbackClientConfig c) of
           Some err \<Rightarrow> Inr (Some (Errorf ''create clientset: %w'' [] (Some err)), st)
         | None \<Rightarrow>
             (case ServerNew lib (complete_config c) (apiWorld st) of
                (Inl err, x) \<Rightarrow>
                  (case closeFn lib (st\<lparr>apiWorld := x\<rparr>) of
                     Inl e \<Rightarrow> Inl e
                   | Inr st \<Rightarrow> Inr (Some (Errorf ''bringing up the apiserver: %w'' [] (Some err)), st))
              | (Inr m, x) \<Rightarrow>
                  (case SetAPIServer m (st\<lparr>apiWorld := x, serverM := Some m\<rparr>) of
                     Inl e \<Rightarrow> Inl e
                   | Inr st \<Rightarrow>
                       let st = st\<lparr>postStart := True\<rparr>
                       in case RESTClientFor lib ((LoopbackClientConfig c)\<lparr>rcGroupVersion := Some ([], [])\<rparr>) of
                            Some err \<Rightarrow>
                              (case closeFn lib st of
                                 Inl e \<Rightarrow> Inl e
                               | Inr st \<Rightarrow> Inr (Some (Errorf ''create restclient: %w'' [] (Some err)), st))
                          | None \<Rightarrow>
                              (case PollImmediate lib 100000000 30000000000 (healthy lib) (apiWorld st) of
                                 (Some err, x) \<Rightarrow>
                                   (case closeFn lib (st\<lparr>apiWorld := x\<rparr>) of
                                      Inl e \<Rightarrow> Inl e
                                    | Inr st \<Rightarrow> Inr (Some (Errorf ''last health content: %w'' [] (Some err)), st))
                               | (None, x) \<Rightarrow> Inr (None, st\<lparr>apiWorld := x\<rparr>)))))"

section \<open>Starting with a new configuration\<close>

text \<open>
  \<open>StartAPIServer\<close>: \<open>url\<close> is the URL of the HTTP server that it starts.  It returns a client
  configuration, whose shutdown function is \<open>shutdownFunc\<close>, or an error.
\<close>

definition StartAPIServer ::
    "('q, 'r) config_sources \<Rightarrow> ('q, 'r, 'm, 'x) api_lib \<Rightarrow> string \<Rightarrow> string \<Rightarrow> 'x
       \<Rightarrow> panic + (goerror + rest_config) \<times> ('m, 'x) api_state" where
  "StartAPIServer src lib url etcdURL x =
     (let st = \<lparr>httpOpen = True, stopClosed = False, Initialized = False, holderM = None,
            serverM = None, postStart = False, apiWorld = x\<rparr>
      in case NewControlPlaneConfigWithOptions src url etcdURL of
           Inl e \<Rightarrow> Inl e
         | Inr c \<Rightarrow>
             (case startAPIServer lib c st of
                Inl e \<Rightarrow> Inl e
              | Inr (Some err, st) \<Rightarrow> Inr (Inl (Errorf ''start API server: %w'' [] (Some err)), st)
              | Inr (None, st) \<Rightarrow>
                  Inr (Inr \<lparr>rcHost = url, rcGroupVersion = Some ([], ''v1''), rcQPS = 5000,
                    rcBurst = 5000, rcBearerToken = [], rcTimeout = 0\<rparr>, st)))"

section \<open>Properties\<close>

definition api_up :: "('m, 'x) api_state \<Rightarrow> bool" where
  "api_up st \<longleftrightarrow> httpOpen st \<and> \<not> stopClosed st \<and>
     (\<exists>m. serverM st = Some m \<and> handle_request st = Inr (ServedBy m))"

definition api_down :: "('m, 'x) api_state \<Rightarrow> bool" where
  "api_down st \<longleftrightarrow> \<not> httpOpen st \<and> stopClosed st"

lemma closeFn_ok: "\<not> stopClosed st \<Longrightarrow> \<exists>st'. closeFn lib st = Inr st' \<and> api_down st'"
  by (auto simp: closeFn_def close_channel_def api_down_def split: option.split)

lemma closeFn_panics: "stopClosed st \<Longrightarrow> closeFn lib st = Inl (PanicMsg ''close of closed channel'')"
  by (auto simp: closeFn_def close_channel_def split: option.split)

text \<open>The client of the API server itself can be created.\<close>

definition loopback_ok ::
    "('q, 'r) config_sources \<Rightarrow> ('q, 'r, 'm, 'x) api_lib \<Rightarrow> string \<Rightarrow> bool" where
  "loopback_ok src lib url \<longleftrightarrow>
     NewForConfig lib \<lparr>rcHost = url, rcGroupVersion = None, rcQPS = 50, rcBurst = 100,
       rcBearerToken = uuid src 1, rcTimeout = 0\<rparr> = None"

lemma StartAPIServer_closes:
  assumes "StartAPIServer src lib url etcdURL x = Inr (r, st)"
  shows "case r of
       Inr cfg \<Rightarrow> \<not> stopClosed st \<and> loopback_ok src lib url
     | Inl err \<Rightarrow> api_down st \<or> \<not> loopback_ok src lib url"
  using assms
  by (auto simp: StartAPIServer_def startAPIServer_def NewControlPlaneConfigWithOptions_def panic_on_def
        SetAPIServer_def closeFn_def close_channel_def api_down_def loopback_ok_def Let_def
        split: if_splits sum.splits option.splits prod.splits)


text \<open>A library whose server comes up, and one whose server is never healthy.\<close>

definition sample_api_lib :: "nat \<Rightarrow> (string option, string, nat, nat) api_lib" where
  "sample_api_lib status =
     \<lparr>NewForConfig = (\<lambda>c. None), ServerNew = (\<lambda>c x. (Inr 7, Suc x)), RESTClientFor = (\<lambda>c. None),
      healthz = (\<lambda>x. (status, x)),
      PollImmediate = (\<lambda>i t cond x. let ((ok, err), x) = cond x
        in if ok then (None, x) else (Some (ExtError ''timed out waiting for the condition''), x)),
      RunPreShutdownHooks = (\<lambda>m x. (None, x + 10))\<rparr>"


text \<open>
  The shutdown function of a started API server runs the pre-shutdown hooks and closes the
  server and the stop channel; calling it again panics, because the stop channel is closed
  twice.
\<close>

theorem shutdownFunc_once:
  assumes "StartAPIServer src lib url etcdURL x = Inr (Inr cfg, st)"
  shows "\<exists>st' m. shutdownFunc lib st = Inr st' \<and> api_down st' \<and> serverM st = Some m \<and>
     apiWorld st' = snd (RunPreShutdownHooks lib m (apiWorld st)) \<and>
     shutdownFunc lib st' = Inl (PanicMsg ''close of closed channel'')"
  using assms
  by (auto simp: StartAPIServer_def startAPIServer_def NewControlPlaneConfigWithOptions_def panic_on_def
        SetAPIServer_def closeFn_def close_channel_def api_down_def shutdownFunc_def Let_def
        split: if_splits sum.splits option.splits prod.splits)

theorem shutdownFunc_once_witness:
  "\<exists>cfg st st'. StartAPIServer sample_sources (sample_api_lib 200) ''http://127.0.0.1:1'' ''etcd'' 0 = Inr (Inr cfg, st) \<and>
     shutdownFunc (sample_api_lib 200) st = Inr st' \<and> apiWorld st' = 11"
proof -
  obtain cfg st where up: "StartAPIServer sample_sources (sample_api_lib 200) ''http://127.0.0.1:1'' ''etcd'' 0 =
      Inr (Inr cfg, st)" and "apiWorld st = 1"
    by (simp add: StartAPIServer_def startAPIServer_def NewControlPlaneConfigWithOptions_def panic_on_def
          SetAPIServer_def closeFn_def close_channel_def sample_sources_def sample_api_lib_def healthy_def Let_def)
  with shutdownFunc_once [OF up] show ?thesis by (auto simp: sample_api_lib_def)
qed

end
