(* ===== verification/Startup.thy ===== *)
theory Startup
  imports Service App_Config API_Server
begin

text \<open>
  The entry point, \<open>sched.go\<close>, and the start of the persistent-volume controller,
  \<open>pvcontroller/pvcontroller.go\<close>: the API server, the controller and the scheduler are
  started one after the other, the scenario runs, and the deferred functions shut them down in
  the reverse order.
\<close>

section \<open>The process\<close>

text \<open>\<open>'c\<close> is the cluster that the scenario's client talks to.\<close>

record ('m, 'x, 'sched, 'w, 'c) host =
  hApi :: "('m, 'x) api_state option"   \<comment> \<open>the API server, once \<open>StartAPIServer\<close> was called\<close>
  hProc :: "('sched, 'w) process"
  hControllers :: "nat list"            \<comment> \<open>volume controllers, by the context they run under\<close>
  hCluster :: 'c

text \<open>\<open>newController\<close> is the error of \<open>persistentvolume.NewController\<close>.\<close>

definition StartPersistentVolumeController ::
    "goerror option \<Rightarrow> ('m, 'x, 'sched, 'w, 'c) host \<Rightarrow> (goerror + nat) \<times> ('m, 'x, 'sched, 'w, 'c) host" where
  "StartPersistentVolumeController newController h =
     (let (ctx, p) = WithCancel (hProc h)
      in case newController of
           Some err \<Rightarrow>
             (Inl (Errorf ''construct persistentvolume controller: %w'' [] (Some err)),
              h\<lparr>hProc := cancel ctx p\<rparr>)
         | None \<Rightarrow>
             (Inr ctx, h\<lparr>hProc := p\<lparr>informersStarted := informersStarted p @ [ctx]\<rparr>,
                hControllers := hControllers h @ [ctx]\<rparr>))"

section \<open>The scenario\<close>

text \<open>The client set, on the cluster; \<open>Sleep\<close> lets the rest of the system run.\<close>

record 'c client =
  CreateNode :: "node \<Rightarrow> 'c \<Rightarrow> goerror option \<times> 'c"
  CreatePod :: "string \<Rightarrow> string \<Rightarrow> (string \<times> string) list \<Rightarrow> 'c \<Rightarrow> goerror option \<times> 'c"
    \<comment> \<open>namespace, name, and the names and images of the containers\<close>
  GetPod :: "string \<Rightarrow> string \<Rightarrow> 'c \<Rightarrow> (goerror + pod) \<times> 'c"
  Sleep :: "duration \<Rightarrow> 'c \<Rightarrow> 'c"

fun create_nodes :: "'c client \<Rightarrow> nat list \<Rightarrow> 'c \<Rightarrow> goerror option \<times> 'c" where
  "create_nodes cl [] c = (None, c)"
| "create_nodes cl (i # is) c =
     (let suffix = FormatInt (int i)
      in case CreateNode cl \<lparr>nodeName = ''node'' @ suffix, nodeUnschedulable = True\<rparr> c of
           (Some err, c) \<Rightarrow> (Some (Errorf ''create node: %w'' [] (Some err)), c)
         | (None, c) \<Rightarrow> create_nodes cl is c)"

definition scenario :: "'c client \<Rightarrow> 'c \<Rightarrow> goerror option \<times> 'c" where
  "scenario cl c =
     (case create_nodes cl [0..<9] c of
        (Some err, c) \<Rightarrow> (Some err, c)
      | (None, c) \<Rightarrow>
     (case CreatePod cl ''default'' ''pod1'' [(''container1'', ''k8s.gcr.io/pause:3.5'')] c of
        (Some err, c) \<Rightarrow> (Some (Errorf ''create pod: %w'' [] (Some err)), c)
      | (None, c) \<Rightarrow>
     (let c = Sleep cl (3 * Second) c
      in case GetPod cl ''default'' ''pod1'' c of
        (Inl err, c) \<Rightarrow> (Some (Errorf ''get pod: %w'' [] (Some err)), c)
      | (Inr pod1, c) \<Rightarrow>
     (if length (podNodeName pod1) \<noteq> 0 then (Some (ErrorString ''pod1 should not be bound yet''), c)
      else
     (case CreateNode cl \<lparr>nodeName = ''node10'', nodeUnschedulable = False\<rparr> c of
        (Some err, c) \<Rightarrow> (Some (Errorf ''create node: %w'' [] (Some err)), c)
      | (None, c) \<Rightarrow>
     (let c = Sleep cl (5 * Second) c
      in case GetPod cl ''default'' ''pod1'' c of
        (Inl err, c) \<Rightarrow> (Some (Errorf ''get pod: %w'' [] (Some err)), c)
      | (Inr pod1, c) \<Rightarrow> (None, c)))))))"

section \<open>Start\<close>

text \<open>A deferred call: it runs when the rest of the function has returned.\<close>

definition defer_call ::
    "('h \<Rightarrow> panic + 'h) \<Rightarrow> (panic + goerror option \<times> 'h) \<Rightarrow> panic + goerror option \<times> 'h" where
  "defer_call f r =
     (case r of
        Inl e \<Rightarrow> Inl e
      | Inr (err, h) \<Rightarrow> (case f h of Inl e \<Rightarrow> Inl e | Inr h \<Rightarrow> Inr (err, h)))"

definition api_shutdown ::
    "('q, 'r, 'm, 'x) api_lib \<Rightarrow> ('m, 'x, 'sched, 'w, 'c) host \<Rightarrow> panic + ('m, 'x, 'sched, 'w, 'c) host" where
  "api_shutdown lib h =
     (case hApi h of
        None \<Rightarrow> Inl NilDeref
      | Some st \<Rightarrow> (case shutdownFunc lib st of Inl e \<Rightarrow> Inl e | Inr st \<Rightarrow> Inr (h\<lparr>hApi := Some st\<rparr>)))"

record ('q, 'r, 'm, 'x, 'sched, 'w, 'c, 'cfg) start_lib =
  Getenv :: "string \<Rightarrow> string"
  atoiErr :: "string \<Rightarrow> goerror"
  apiSources :: "('q, 'r) config_sources"
  apiLib :: "('q, 'r, 'm, 'x) api_lib"
  serverURL :: string
  apiWorld0 :: 'x
  clientsetErr :: "goerror option"      \<comment> \<open>\<open>NewForConfigOrDie\<close> panics on it\<close>
  newController :: "goerror option"
  defaultConfig :: 'cfg                 \<comment> \<open>\<open>DefaultSchedulerConfig\<close>\<close>
  newScheduler :: "'w \<Rightarrow> panic + (goerror + 'sched) \<times> 'w"
  startClient :: "'c client"

definition run_scenario ::
    "'c client \<Rightarrow> ('m, 'x, 'sched, 'w, 'c) host \<Rightarrow> panic + goerror option \<times> ('m, 'x, 'sched, 'w, 'c) host" where
  "run_scenario cl h =
     (case scenario cl (hCluster h) of
        (Some err, c) \<Rightarrow> Inr (Some (Errorf ''start scenario: %w'' [] (Some err)), h\<lparr>hCluster := c\<rparr>)
      | (None, c) \<Rightarrow> Inr (None, h\<lparr>hCluster := c\<rparr>))"

definition start ::
    "('q, 'r, 'm, 'x, 'sched, 'w, 'c, 'cfg) start_lib \<Rightarrow> ('m, 'x, 'sched, 'w, 'c) host
       \<Rightarrow> panic + goerror option \<times> ('m, 'x, 'sched, 'w, 'c) host" where
  "start lib h =
     (case NewConfig (Getenv lib) (atoiErr lib) of
        Inl err \<Rightarrow> Inr (Some (Errorf ''get config: %w'' [] (Some err)), h)
      | Inr cfg \<Rightarrow>
     (case StartAPIServer (apiSources lib) (apiLib lib) (serverURL lib) (EtcdURL cfg) (apiWorld0 lib) of
        Inl e \<Rightarrow> Inl e
      | Inr (Inl err, st) \<Rightarrow> Inr (Some (Errorf ''start API server: %w'' [] (Some err)), h\<lparr>hApi := Some st\<rparr>)
      | Inr (Inr restclientCfg, st) \<Rightarrow>
     (let h = h\<lparr>hApi := Some st\<rparr>
      in defer_call (api_shutdown (apiLib lib))
        (if clientsetErr lib \<noteq> None then Inl (PanicMsg ''error'')
         else
     (case StartPersistentVolumeController (newController lib) h of
        (Inl err, h) \<Rightarrow> Inr (Some (Errorf ''start pv controller: %w'' [] (Some err)), h)
      | (Inr ctx, h) \<Rightarrow>
          defer_call (\<lambda>h. Inr (h\<lparr>hProc := cancel ctx (hProc h)\<rparr>))
     (case StartScheduler (newScheduler lib) (Some (defaultConfig lib)) NewSchedulerService (hProc h) of
        Inl e \<Rightarrow> Inl e
      | Inr (Some err, s, p) \<Rightarrow> Inr (Some (Errorf ''start scheduler: %w'' [] (Some err)), h\<lparr>hProc := p\<rparr>)
      | Inr (None, s, p) \<Rightarrow>
          defer_call (\<lambda>h. Inr (h\<lparr>hProc := ShutdownScheduler s (hProc h)\<rparr>))
            (run_scenario (startClient lib) (h\<lparr>hProc := p\<rparr>))))))))"

text \<open>\<open>main\<close>: \<open>klog.Fatalf\<close> ends the process with a failure.\<close>

datatype exit = Panicked panic | Failed goerror | Finished

definition main ::
    "('q, 'r, 'm, 'x, 'sched, 'w, 'c, 'cfg) start_lib \<Rightarrow> ('m, 'x, 'sched, 'w, 'c) host \<Rightarrow> exit" where
  "main lib h =
     (case start lib h of
        Inl e \<Rightarrow> Panicked e
      | Inr (Some err, h) \<Rightarrow> Failed err
      | Inr (None, h) \<Rightarrow> Finished)"

section \<open>Everything that was started is shut down\<close>

text \<open>Nothing of the process runs: no scheduler, informer, recorder or volume controller.\<close>

definition quiet :: "('m, 'x, 'sched, 'w, 'c) host \<Rightarrow> bool" where
  "quiet h \<longleftrightarrow> nothing_live (hProc h) \<and> set (hControllers h) \<subseteq> cancelled (hProc h) \<and>
     started (hProc h) \<union> cancelled (hProc h) \<subseteq> {..<nextContext (hProc h)} \<and>
     distinct (map fst (schedulers (hProc h)))"

lemma process_ok_nothing_live:
  assumes "nothing_live p" and "started p \<union> cancelled p \<subseteq> {..<nextContext p}"
    and "distinct (map fst (schedulers p))"
  shows "process_ok NewSchedulerService p"
  using assms by (auto simp: process_ok_def nothing_live_iff)

lemma defer_call_Inr:
  "defer_call f r = Inr (err, h') \<longleftrightarrow> (\<exists>h. r = Inr (err, h) \<and> f h = Inr h')"
  by (auto simp: defer_call_def split: sum.splits)

lemma StartScheduler_started:
  assumes "StartScheduler new cfg NewSchedulerService p = Inr (err, s, p')"
  shows "started p' = insert (nextContext p) (started p) \<and> nextContext p' = Suc (nextContext p) \<and>
     (case err of
        Some _ \<Rightarrow> cancelled p' = insert (nextContext p) (cancelled p) \<and> schedulers p' = schedulers p
      | None \<Rightarrow> cancelled p' = cancelled p \<and> shutdownfn s = Some (nextContext p) \<and>
          (\<exists>sched. schedulers p' = schedulers p @ [(nextContext p, sched)]))"
proof -
  obtain r x where new: "new (world p) = Inr (r, x)"
    using assms by (auto simp: StartScheduler_def WithCancel_def Let_def split: sum.splits)
  show ?thesis
  proof (cases r)
    case (Inl e)
    then have "err \<noteq> None" and p': "p' = cancel (nextContext p) (p\<lparr>nextContext := Suc (nextContext p),
        recording := recording p @ [nextContext p], world := x\<rparr>)"
      using assms new by (auto simp: StartScheduler_def WithCancel_def)
    then show ?thesis by (simp add: p' started_def split: option.split)
  next
    case (Inr sched)
    then have "err = None" and "shutdownfn s = Some (nextContext p)"
      and p': "p' = p\<lparr>nextContext := Suc (nextContext p), recording := recording p @ [nextContext p],
        world := x, informersStarted := informersStarted p @ [nextContext p],
        schedulers := schedulers p @ [(nextContext p, sched)]\<rparr>"
      using assms new by (auto simp: StartScheduler_def WithCancel_def)
    then show ?thesis by (simp add: p' started_def)
  qed
qed

lemma run_scenario_host:
  assumes "run_scenario cl h = Inr (err, h')"
  shows "hProc h' = hProc h \<and> hControllers h' = hControllers h \<and> hApi h' = hApi h"
  using assms by (auto simp: run_scenario_def split: prod.splits option.splits)

text \<open>What follows the start of the API server leaves nothing running.\<close>

lemma scheduler_part_quiet:
  assumes "started p \<subseteq> insert ctx (cancelled p)" and "insert ctx (started p \<union> cancelled p) \<subseteq> {..<nextContext p}"
    and "distinct (map fst (schedulers p))" and "hProc h = p"
    and "set (hControllers h) \<subseteq> insert ctx (cancelled p)"
    and "(case StartScheduler new cfg NewSchedulerService (hProc h) of
        Inl e \<Rightarrow> Inl e
      | Inr (Some err, s, p) \<Rightarrow> Inr (Some (Errorf ''start scheduler: %w'' [] (Some err)), h\<lparr>hProc := p\<rparr>)
      | Inr (None, s, p) \<Rightarrow>
          defer_call (\<lambda>h. Inr (h\<lparr>hProc := ShutdownScheduler s (hProc h)\<rparr>))
            (run_scenario cl (h\<lparr>hProc := p\<rparr>))) = Inr (err, h')"
  shows "started (hProc h') \<subseteq> insert ctx (cancelled (hProc h')) \<and>
    insert ctx (started (hProc h') \<union> cancelled (hProc h')) \<subseteq> {..<nextContext (hProc h')} \<and>
    distinct (map fst (schedulers (hProc h'))) \<and> set (hControllers h') \<subseteq> insert ctx (cancelled (hProc h')) \<and>
    hApi h' = hApi h"
proof -
  obtain e s q where run: "StartScheduler new cfg NewSchedulerService (hProc h) = Inr (e, s, q)"
    using assms(6) by (auto split: sum.splits)
  note st = StartScheduler_started [OF run]
  have fresh: "nextContext p \<notin> fst ` set (schedulers p)"
    using assms(2) by (auto simp: started_def)
  show ?thesis
  proof (cases e)
    case (Some err')
    then have "h' = h\<lparr>hProc := q\<rparr>" using assms(6) run by simp
    then show ?thesis using st assms(1-5) Some by auto
  next
    case None
    then obtain h1 where h1: "run_scenario cl (h\<lparr>hProc := q\<rparr>) = Inr (err, h1)"
      and h': "h' = h1\<lparr>hProc := ShutdownScheduler s (hProc h1)\<rparr>"
      using assms(6) run by (auto simp: defer_call_Inr)
    obtain sched where q: "started q = insert (nextContext p) (started p)" "nextContext q = Suc (nextContext p)"
      "cancelled q = cancelled p" "shutdownfn s = Some (nextContext p)"
      "schedulers q = schedulers p @ [(nextContext p, sched)]"
      using st None assms(4) by auto
    have "hProc h' = cancel (nextContext p) q" "hControllers h' = hControllers h" "hApi h' = hApi h"
      using run_scenario_host [OF h1] h' q by (simp_all add: ShutdownScheduler_def)
    then show ?thesis using q assms(1-3,5) fresh by auto
  qed
qed

lemma start_quiet:
  assumes "quiet h" and "hApi h = None" and "start lib h = Inr (err, h')"
  shows "quiet h' \<and>
    (case hApi h' of None \<Rightarrow> True | Some st \<Rightarrow> api_down st \<or> \<not> loopback_ok (apiSources lib) (apiLib lib) (serverURL lib))"
proof (cases "NewConfig (Getenv lib) (atoiErr lib)")
  case (Inl e)
  then show ?thesis using assms by (simp add: start_def)
next
  case (Inr cfg)
  let ?api = "StartAPIServer (apiSources lib) (apiLib lib) (serverURL lib) (EtcdURL cfg) (apiWorld0 lib)"
  from assms(3) Inr obtain r st where api: "?api = Inr (r, st)"
    by (auto simp: start_def split: sum.splits)
  show ?thesis
  proof (cases r)
    case r: (Inl e)
    then have "h' = h\<lparr>hApi := Some st\<rparr>" using assms(3) Inr api by (simp add: start_def)
    then show ?thesis
      using StartAPIServer_closes [OF api] r assms(1) by (auto simp: quiet_def)
  next
    case r: (Inr rc)
    let ?h = "h\<lparr>hApi := Some st\<rparr>" and ?c = "nextContext (hProc h)"
    have up: "\<not> stopClosed st" using StartAPIServer_closes [OF api] r by simp
    obtain h1 where run: "(case StartPersistentVolumeController (newController lib) ?h of
        (Inl err, h) \<Rightarrow> Inr (Some (Errorf ''start pv controller: %w'' [] (Some err)), h)
      | (Inr ctx, h) \<Rightarrow>
          defer_call (\<lambda>h. Inr (h\<lparr>hProc := cancel ctx (hProc h)\<rparr>))
     (case StartScheduler (newScheduler lib) (Some (defaultConfig lib)) NewSchedulerService (hProc h) of
        Inl e \<Rightarrow> Inl e
      | Inr (Some err, s, p) \<Rightarrow> Inr (Some (Errorf ''start scheduler: %w'' [] (Some err)), h\<lparr>hProc := p\<rparr>)
      | Inr (None, s, p) \<Rightarrow>
          defer_call (\<lambda>h. Inr (h\<lparr>hProc := ShutdownScheduler s (hProc h)\<rparr>))
            (run_scenario (startClient lib) (h\<lparr>hProc := p\<rparr>)))) = Inr (err, h1)"
      and down: "api_shutdown (apiLib lib) h1 = Inr h'"
      using assms(3) Inr api r by (auto simp: start_def defer_call_Inr split: if_splits)
    have "hApi h1 = Some st \<and> quiet h1"
    proof (cases "newController lib")
      case (Some e)
      then have "h1 = ?h\<lparr>hProc := cancel ?c ((hProc h)\<lparr>nextContext := Suc ?c\<rparr>)\<rparr>"
        using run by (simp add: StartPersistentVolumeController_def WithCancel_def)
      moreover have "started ((hProc h)\<lparr>nextContext := Suc ?c\<rparr>) = started (hProc h)"
        by (simp add: started_def)
      ultimately show ?thesis using assms(1) by (auto simp: quiet_def nothing_live_iff)
    next
      case None
      let ?p = "(hProc h)\<lparr>nextContext := Suc ?c, informersStarted := informersStarted (hProc h) @ [?c]\<rparr>"
      let ?g = "?h\<lparr>hProc := ?p, hControllers := hControllers h @ [?c]\<rparr>"
      from run None obtain h2 where part:
        "(case StartScheduler (newScheduler lib) (Some (defaultConfig lib)) NewSchedulerService (hProc ?g) of
        Inl e \<Rightarrow> Inl e
      | Inr (Some err, s, p) \<Rightarrow> Inr (Some (Errorf ''start scheduler: %w'' [] (Some err)), ?g\<lparr>hProc := p\<rparr>)
      | Inr (None, s, p) \<Rightarrow>
          defer_call (\<lambda>h. Inr (h\<lparr>hProc := ShutdownScheduler s (hProc h)\<rparr>))
            (run_scenario (startClient lib) (?g\<lparr>hProc := p\<rparr>))) = Inr (err, h2)"
        and h1: "h1 = h2\<lparr>hProc := cancel ?c (hProc h2)\<rparr>"
        by (auto simp: StartPersistentVolumeController_def WithCancel_def defer_call_Inr)
      have p: "started ?p = insert ?c (started (hProc h))" by (auto simp: started_def)
      have pre: "started ?p \<subseteq> insert ?c (cancelled ?p)"
          "insert ?c (started ?p \<union> cancelled ?p) \<subseteq> {..<nextContext ?p}"
          "distinct (map fst (schedulers ?p))" "hProc ?g = ?p"
          "set (hControllers ?g) \<subseteq> insert ?c (cancelled ?p)"
        unfolding p using assms(1) by (auto simp: quiet_def nothing_live_iff)
      from scheduler_part_quiet [OF pre part]
      have "started (hProc h2) \<subseteq> insert ?c (cancelled (hProc h2)) \<and>
          insert ?c (started (hProc h2) \<union> cancelled (hProc h2)) \<subseteq> {..<nextContext (hProc h2)} \<and>
          distinct (map fst (schedulers (hProc h2))) \<and>
          set (hControllers h2) \<subseteq> insert ?c (cancelled (hProc h2)) \<and> hApi h2 = Some st"
        by simp
      then show ?thesis by (auto simp: h1 quiet_def nothing_live_iff)
    qed
    then show ?thesis
      using down closeFn_ok [OF up, of "apiLib lib"]
      by (auto simp: api_shutdown_def shutdownFunc_def api_down_def quiet_def split: sum.splits)
  qed
qed


section \<open>What the scenario asks of the cluster\<close>

datatype client_call =
    CallCreateNode node
  | CallCreatePod string string "(string \<times> string) list"
  | CallGetPod string string
  | CallSleep duration

text \<open>A client that keeps the calls that are made through it.\<close>

definition logging :: "'c client \<Rightarrow> ('c \<times> client_call list) client" where
  "logging cl =
     \<lparr>CreateNode = (\<lambda>n (c, l). let (err, c) = CreateNode cl n c in (err, (c, l @ [CallCreateNode n]))),
      CreatePod = (\<lambda>ns name cs (c, l).
        let (err, c) = CreatePod cl ns name cs c in (err, (c, l @ [CallCreatePod ns name cs]))),
      GetPod = (\<lambda>ns name (c, l). let (r, c) = GetPod cl ns name c in (r, (c, l @ [CallGetPod ns name]))),
      Sleep = (\<lambda>d (c, l). (Sleep cl d c, l @ [CallSleep d]))\<rparr>"

lemma logging_sel:
  "CreateNode (logging cl) n (c, l) =
     (let (err, c) = CreateNode cl n c in (err, (c, l @ [CallCreateNode n])))"
  "CreatePod (logging cl) ns name cs (c, l) =
     (let (err, c) = CreatePod cl ns name cs c in (err, (c, l @ [CallCreatePod ns name cs])))"
  "GetPod (logging cl) ns name (c, l) =
     (let (r, c) = GetPod cl ns name c in (r, (c, l @ [CallGetPod ns name])))"
  "Sleep (logging cl) d (c, l) = (Sleep cl d c, l @ [CallSleep d])"
  by (simp_all add: logging_def)

definition unschedulable_node :: "nat \<Rightarrow> node" where
  "unschedulable_node i = \<lparr>nodeName = ''node'' @ FormatInt (int i), nodeUnschedulable = True\<rparr>"

lemma create_nodes_logging:
  "create_nodes (logging cl) is (c, l) = (None, c', l') \<Longrightarrow>
     l' = l @ map (\<lambda>i. CallCreateNode (unschedulable_node i)) is"
proof (induction "is" arbitrary: c l)
  case (Cons i "is")
  then obtain c1 where "create_nodes (logging cl) is (c1, l @ [CallCreateNode (unschedulable_node i)]) = (None, c', l')"
    by (auto simp: logging_sel unschedulable_node_def Let_def split: prod.splits option.splits)
  from Cons.IH [OF this] show ?case by simp
qed simp

text \<open>
  A scenario that succeeds has created the nine unschedulable nodes node0 to node8, then
  pod1, has waited three seconds and read pod1, created the schedulable node10, waited five
  seconds and read pod1 again.  It succeeds whatever node pod1 is then on, or none.
\<close>

theorem scenario_calls:
  assumes "scenario (logging cl) (c, []) = (None, (c', calls))"
  shows "calls = map (\<lambda>i. CallCreateNode (unschedulable_node i)) [0..<9] @
     [CallCreatePod ''default'' ''pod1'' [(''container1'', ''k8s.gcr.io/pause:3.5'')],
      CallSleep (3 * Second), CallGetPod ''default'' ''pod1'',
      CallCreateNode \<lparr>nodeName = ''node10'', nodeUnschedulable = False\<rparr>,
      CallSleep (5 * Second), CallGetPod ''default'' ''pod1'']"
proof -
  obtain c1 l1 where nodes: "create_nodes (logging cl) [0..<9] (c, []) = (None, (c1, l1))"
    using assms by (auto simp: scenario_def split: prod.splits option.splits)
  have "calls = l1 @
     [CallCreatePod ''default'' ''pod1'' [(''container1'', ''k8s.gcr.io/pause:3.5'')],
      CallSleep (3 * Second), CallGetPod ''default'' ''pod1'',
      CallCreateNode \<lparr>nodeName = ''node10'', nodeUnschedulable = False\<rparr>,
      CallSleep (5 * Second), CallGetPod ''default'' ''pod1'']"
    using assms unfolding scenario_def nodes
    by (auto simp: logging_sel Let_def split: prod.splits option.splits sum.splits if_splits)
  with create_nodes_logging [OF nodes] show ?thesis by simp
qed

text \<open>
  A cluster in which the pod is put on the first schedulable node, while the client sleeps.
\<close>

definition sample_client :: "(string list \<times> string) client" where
  "sample_client =
     \<lparr>CreateNode = (\<lambda>n (free, bound). (None, (if nodeUnschedulable n then free else free @ [nodeName n], bound))),
      CreatePod = (\<lambda>ns name cs c. (None, c)),
      GetPod = (\<lambda>ns name (free, bound).
        (Inr \<lparr>podName = name, podNamespace = ns, podUID = name, podNodeName = bound\<rparr>, (free, bound))),
      Sleep = (\<lambda>d (free, bound). (free, if free = [] then bound else hd free))\<rparr>"

lemma sample_create_nodes: "create_nodes (logging sample_client) is (c, l) =
    (None, (c, l @ map (\<lambda>i. CallCreateNode (unschedulable_node i)) is))"
  by (induction "is" arbitrary: l) (auto simp: logging_sel sample_client_def unschedulable_node_def split: prod.splits)

theorem scenario_calls_witness:
  "\<exists>calls. scenario (logging sample_client) (([], []), []) = (None, (([''node10''], ''node10''), calls)) \<and>
     hd calls = CallCreateNode \<lparr>nodeName = ''node0'', nodeUnschedulable = True\<rparr> \<and> length calls = 15"
proof -
  obtain calls where run: "scenario (logging sample_client) (([], []), []) = (None, (([''node10''], ''node10''), calls))"
    by (simp add: scenario_def sample_create_nodes)
       (simp add: logging_sel sample_client_def Let_def)
  have "FormatInt 0 = ''0''" by (simp add: FormatInt_def nat_digits.simps digit_char_def char_of_def bit_0)
  with scenario_calls [OF run] run show ?thesis
    by (simp add: unschedulable_node_def hd_append hd_map)
qed

definition sample_start_lib ::
    "(string option, string, nat, nat, string, unit, string list \<times> string, unit) start_lib" where
  "sample_start_lib =
     \<lparr>Getenv = environment_of \<lparr>Port = 1212, EtcdURL = ''http://etcd'', FrontendURL = ''http://web''\<rparr>,
      atoiErr = ExtError, apiSources = sample_sources, apiLib = sample_api_lib 200,
      serverURL = ''http://127.0.0.1:1'', apiWorld0 = 0, clientsetErr = None, newController = None,
      defaultConfig = (), newScheduler = (\<lambda>x. Inr (Inr ''sched'', x)), startClient = sample_client\<rparr>"

definition sample_host :: "(nat, nat, string, unit, string list \<times> string) host" where
  "sample_host =
     \<lparr>hApi = None, hProc = \<lparr>nextContext = 0, cancelled = {}, recording = [], informersStarted = [],
        schedulers = [], world = ()\<rparr>, hControllers = [], hCluster = ([], [])\<rparr>"

lemma create_nodes_sample: "create_nodes sample_client is c = (None, c)"
  by (induction "is" arbitrary: c) (auto simp: sample_client_def split: prod.splits)

abbreviation sample_app_config :: app_config where
  "sample_app_config \<equiv> \<lparr>Port = 1212, EtcdURL = ''http://etcd'', FrontendURL = ''http://web''\<rparr>"

lemma sample_config: "NewConfig (environment_of sample_app_config) ExtError = Inr sample_app_config"
  by (simp add: NewConfig_def getPort_def getEtcdURL_def getFrontendURL_def environment_of_def
      FormatInt_not_Nil Atoi_FormatInt)

lemma sample_api:
  obtains rc st where "StartAPIServer sample_sources (sample_api_lib 200) ''http://127.0.0.1:1'' ''http://etcd'' 0 =
      Inr (Inr rc, st)"
  by (simp add: StartAPIServer_def startAPIServer_def NewControlPlaneConfigWithOptions_def panic_on_def
        SetAPIServer_def closeFn_def close_channel_def sample_sources_def sample_api_lib_def healthy_def Let_def)


end
