(* ===== verification/Default_Scheduler.thy ===== *)
theory Default_Scheduler
  imports Initialize
begin

text \<open>
  The scheduler that \<open>New\<close> builds, with the plugins \<open>nodeunschedulable\<close> and \<open>NodeNumber\<close>: what
  one of its cycles does, and what becomes of a pod that is parked because every node is
  unschedulable, the scenario of \<open>sched.go\<close>.
\<close>

section \<open>Scores and the permit phase\<close>

lemma nodenumber_RunScorePlugins:
  assumes "framework_laws fw" and "\<forall>i. order i = [Name]"
    and "\<forall>n \<in> set nodes. nodeName n \<noteq> []" and "cycleState w = NewCycleState fw"
  shows "case suffix_digit (podName pod) of
       Some d \<Rightarrow> RunScorePlugins fw [nodenumber_score fw] order pod nodes (pre_scored fw pod w) =
         Inr ((map (\<lambda>n. \<lparr>nsName = nodeName n, nsScore = match_score pod (nodeName n)\<rparr>) nodes, None),
              pre_scored fw pod w)
     | None \<Rightarrow> nodes \<noteq> [] \<longrightarrow>
         (\<exists>err. RunScorePlugins fw [nodenumber_score fw] order pod nodes (pre_scored fw pod w) =
            Inr (([], Some (AsStatus fw (Some err))), pre_scored fw pod w))"
proof -
  note laws = framework_lawsD [OF assms(1)]
  have run: "RunScorePlugins fw [nodenumber_score fw] order pod nodes (pre_scored fw pod w) =
     Inr (case concat (map (node_failures fw [(Name, g)] pod) nodes) of
            [] \<Rightarrow> (map (\<lambda>n. \<lparr>nsName = nodeName n, nsScore = node_total [(Name, g)] pod n\<rparr>) nodes, None)
          | st # _ \<Rightarrow> ([], st), pre_scored fw pod w)"
    if "\<forall>n \<in> set nodes. NodeNumber_Score fw pod (nodeName n) (pre_scored fw pod w) =
      Inr (g pod (nodeName n), pre_scored fw pod w)" for g
  proof -
    have "list_all2 (answers pod nodes (pre_scored fw pod w)) [nodenumber_score fw] [(Name, g)]"
      using that by (simp add: answers_def nodenumber_score_def)
    note answers = RunScorePlugins_answers [OF this]
    show ?thesis
      unfolding answers by (rule RunScorePlugins_specs) (use assms(2) in simp_all)
  qed
  show ?thesis
  proof (cases "suffix_digit (podName pod)")
    case None
    obtain err where err: "stateRead fw (NewCycleState fw) preScoreStateKey = Inl err"
      using laws(2) unfolding cycle_laws_def by blast
    have "concat (map (node_failures fw [(Name, \<lambda>_ _. (0, Some (AsStatus fw (Some err))))] pod) nodes) =
        map (\<lambda>_. Some (AsStatus fw (Some err))) nodes"
      by (induction nodes) (simp_all add: node_failures_def status_laws_simps [OF laws(1)])
    with run [of "\<lambda>_ _. (0, Some (AsStatus fw (Some err)))"] None err assms(4) show ?thesis
      by (cases nodes) (auto simp: NodeNumber_Score_def pre_scored_def)
  next
    case (Some d)
    have "concat (map (node_failures fw [(Name, \<lambda>pod n. (match_score pod n, None))] pod) nodes) = []"
      by (induction nodes) (simp_all add: node_failures_def status_laws_simps [OF laws(1)])
    with run [of "\<lambda>pod n. (match_score pod n, None)"] Some assms(3) show ?thesis
      by (simp add: NodeNumber_Score_eq [OF laws(2) Some] node_total_def)
  qed
qed


text \<open>
  The permit phase with the plugin \<open>NodeNumber\<close> never refuses a pod.  The state after it, for a
  node whose name ends in a digit: the function that allows the pod is armed, and a waiting
  pod is registered.
\<close>

definition permitted ::
    "nat \<Rightarrow> pod \<Rightarrow> string \<Rightarrow> ('c, after_func list, 's) sched_state
       \<Rightarrow> ('c, after_func list, 's) sched_state" where
  "permitted h pod nodename st =
     (case suffix_digit nodename of
        None \<Rightarrow> st
      | Some d \<Rightarrow> st\<lparr>
          world := (world st)\<lparr>pluginState := pluginState (world st) @
            [\<lparr>afDelay = of_nat d * Second, afHandle = h, afUID = podUID pod, afPlugin = Name\<rparr>]\<rparr>,
          wpHeap := wpHeap st @ [NewWaitingPod pod [Name \<mapsto> 10 * Second]],
          sched := (sched st)\<lparr>waitingPods :=
            (waitingPods (sched st))(podUID pod \<mapsto> length (wpHeap st))\<rparr>\<rparr>)"

lemma nodenumber_RunPermitPlugins:
  assumes "status_laws fw" and "nodename \<noteq> []"
    and "permitPlugins (sched st) = [nodenumber_permit fw \<lparr>nnHandle = h\<rparr>]"
  obtains status where "RunPermitPlugins fw pod nodename st = Inr (status, permitted h pod nodename st)"
    and "Code fw status = Wait \<or> IsSuccess fw status"
proof (cases "suffix_digit nodename")
  case None
  then have "RunPermitPlugins fw pod nodename st = Inr (None, permitted h pod nodename st)"
    by (simp add: RunPermitPlugins_def assms(3) nodenumber_permit_def NodeNumber_Permit_eq [OF assms(2)]
          status_laws_simps [OF assms(1)] permitted_def)
  then show thesis by (rule that) (simp add: status_laws_simps [OF assms(1)])
next
  case (Some d)
  have "\<not> IsUnschedulable fw (Some (NewStatus fw Wait []))"
    using IsUnschedulable_code [OF assms(1), of "Some (NewStatus fw Wait [])"]
    by (auto simp: status_laws_simps [OF assms(1)])
  with Some have "RunPermitPlugins fw pod nodename st =
      Inr (Some (NewStatus fw Wait (wait_msg pod)), permitted h pod nodename st)"
    by (simp add: RunPermitPlugins_def assms(3) nodenumber_permit_def NodeNumber_Permit_eq [OF assms(2)]
          status_laws_simps [OF assms(1)] Let_def permitted_def)
  then show thesis by (rule that) (simp add: status_laws_simps [OF assms(1)])
qed

lemma best_match:
  assumes "ns \<in> set (best_scores (map (\<lambda>n. \<lparr>nsName = nodeName n, nsScore = match_score pod (nodeName n)\<rparr>) nodes))"
    and "m \<in> set nodes" and "suffix_digit (nodeName m) = suffix_digit (podName pod)"
  shows "suffix_digit (nsName ns) = suffix_digit (podName pod)"
proof -
  from assms(1) obtain n where "n \<in> set nodes"
    and ns: "ns = \<lparr>nsName = nodeName n, nsScore = match_score pod (nodeName n)\<rparr>"
    by (auto simp: best_scores_def)
  from assms(1,2) have "sint (match_score pod (nodeName m)) \<le> sint (nsScore ns)"
    by (auto simp: best_scores_def list_all_iff)
  with assms(3) ns show ?thesis
    by (auto simp: match_score_def split: if_splits)
qed

section \<open>The outcomes of a cycle\<close>

abbreviation new_cycle ::
    "('s, 'c) framework \<Rightarrow> ('c, 'x, 's) sched_state \<Rightarrow> ('c, 'x, 's) sched_state" where
  "new_cycle fw st \<equiv> st\<lparr>world := (world st)\<lparr>cycleState := NewCycleState fw\<rparr>\<rparr>"

definition feasible ::
    "('s, 'c) framework \<Rightarrow> (pod \<Rightarrow> node_info \<Rightarrow> 's option) \<Rightarrow> pod \<Rightarrow> node list \<Rightarrow> node list" where
  "feasible fw f pod nodes = filter (\<lambda>n. IsSuccess fw (f pod \<lparr>Node = n\<rparr>)) nodes"

lemma default_filter:
  assumes "framework_laws fw"
  obtains diag where "RunFilterPlugins fw [stateless_filter (name, f)] pod nodes w =
      Inr (if feasible fw f pod nodes = [] then Inl (FitError pod diag)
           else Inr (feasible fw f pod nodes), w)"
    and "set (diagUnschedulablePlugins diag) \<subseteq> {name}"
proof -
  note laws = framework_lawsD [OF assms]
  obtain diag where run: "RunFilterPlugins fw (map stateless_filter [(name, f)]) pod nodes w =
      Inr (if filter (passes fw [(name, f)] pod) nodes = [] then Inl (FitError pod diag)
           else Inr (filter (passes fw [(name, f)] pod) nodes), w)"
    and diag: "set (diagUnschedulablePlugins diag) =
      {p. \<exists>n \<in> set nodes. blocker fw [(name, f)] pod n = Some p}"
    by (rule RunFilterPlugins_diag [OF laws(1,4)])
  have "passes fw [(name, f)] pod = (\<lambda>n. IsSuccess fw (f pod \<lparr>Node = n\<rparr>))"
    by (simp add: passes_def fun_eq_iff)
  then show thesis
    by (intro that [of diag]) (use run diag in \<open>auto simp: feasible_def blocker_def split: if_splits\<close>)
qed

lemma default_pod_does_not_fit:
  assumes "framework_laws fw" and "default_plugins fw (name, f) h (sched st)"
    and "envNodes env = Inr nodes" and "feasible fw f pod nodes = []"
  obtains diag where "schedule_pod fw env pod st =
      Inr (None, ErrorFunc (envNow env) pod (Some (FitError pod diag)) (new_cycle fw st))"
    and "set (diagUnschedulablePlugins diag) \<subseteq> {name}"
proof -
  obtain diag where filt: "RunFilterPlugins fw [stateless_filter (name, f)] pod nodes
      ((world st)\<lparr>cycleState := NewCycleState fw\<rparr>) =
      Inr (Inl (FitError pod diag), (world st)\<lparr>cycleState := NewCycleState fw\<rparr>)"
    and diag: "set (diagUnschedulablePlugins diag) \<subseteq> {name}"
    by (rule default_filter [OF assms(1), of name f pod nodes "(world st)\<lparr>cycleState := NewCycleState fw\<rparr>"])
       (use assms(4) that in simp)
  show thesis
    by (rule that [OF schedule_pod_no_fit [OF assms(3)] diag])
       (use assms(2) filt in \<open>simp add: default_plugins_def\<close>)
qed

lemma default_staged:
  assumes "framework_laws fw" and "default_plugins fw (name, f) h (sched st)"
    and "envNodes env = Inr nodes" and "podName pod \<noteq> []" and "feasible fw f pod nodes \<noteq> []"
    and "w = pre_scored fw pod ((world st)\<lparr>cycleState := NewCycleState fw\<rparr>)"
    and "RunScorePlugins fw [nodenumber_score fw] (envOrder env) pod (feasible fw f pod nodes) w =
      Inr ((scores, status'), w)"
  shows "schedule_pod fw env pod st =
       (if \<not> IsSuccess fw status' then Inr (None, ErrorFunc (envNow env) pod None (st\<lparr>world := w\<rparr>))
        else case selectHost (envRand env) scores of
             Inl err \<Rightarrow> Inr (None, ErrorFunc (envNow env) pod (Some err) (st\<lparr>world := w\<rparr>))
           | Inr nodename \<Rightarrow>
               (case RunPermitPlugins fw pod nodename (st\<lparr>world := w\<rparr>) of
                  Inl e \<Rightarrow> Inl e
                | Inr (status, st) \<Rightarrow>
                    if Code fw status \<noteq> Wait \<and> \<not> IsSuccess fw status
                    then Inr (None, ErrorFunc (envNow env) pod None st)
                    else Inr (Some \<lparr>bcPod = pod, bcNode = nodename, bcErr = None\<rparr>, st)))"
proof -
  note laws = framework_lawsD [OF assms(1)]
  let ?w0 = "(world st)\<lparr>cycleState := NewCycleState fw\<rparr>"
  have filt: "RunFilterPlugins fw (filterPlugins (sched st)) pod nodes ?w0 =
      Inr (Inr (feasible fw f pod nodes), ?w0)"
    using assms(2,5) default_filter [OF assms(1), of name f pod nodes ?w0]
    by (auto simp: default_plugins_def)
  have pre: "RunPreScorePlugins fw (preScorePlugins (sched st)) pod (feasible fw f pod nodes) ?w0 =
      Inr (None, w)"
    using assms(2,6)
    by (simp add: default_plugins_def nodenumber_pre_score_def NodeNumber_PreScore_eq [OF assms(4)]
          status_laws_simps [OF laws(1)])
  show ?thesis
    by (rule schedule_pod_scored [OF assms(3) filt pre])
       (use assms(2,7) in \<open>simp_all add: default_plugins_def status_laws_simps [OF laws(1)]\<close>)
qed

lemma default_pod_without_digit:
  assumes "framework_laws fw" and "default_plugins fw (name, f) h (sched st)"
    and "envNodes env = Inr nodes" and "\<forall>n \<in> set nodes. nodeName n \<noteq> []"
    and "\<forall>i. envOrder env i = [Name]" and "podName pod \<noteq> []"
    and "feasible fw f pod nodes \<noteq> []" and "suffix_digit (podName pod) = None"
  shows "\<exists>st'. schedule_pod fw env pod st = Inr (None, st')"
proof -
  note laws = framework_lawsD [OF assms(1)]
  let ?w0 = "(world st)\<lparr>cycleState := NewCycleState fw\<rparr>"
  have "\<forall>n \<in> set (feasible fw f pod nodes). nodeName n \<noteq> []"
    using assms(4) by (simp add: feasible_def)
  from nodenumber_RunScorePlugins [OF assms(1,5) this, of ?w0 pod]
  obtain err where "RunScorePlugins fw [nodenumber_score fw] (envOrder env) pod (feasible fw f pod nodes)
      (pre_scored fw pod ?w0) = Inr (([], Some (AsStatus fw (Some err))), pre_scored fw pod ?w0)"
    using assms(7,8) by auto
  from default_staged [OF assms(1-3,6,7) refl this] show ?thesis
    by (simp add: status_laws_simps [OF laws(1)])
qed

lemma default_pod_handed_over:
  assumes "framework_laws fw" and "default_plugins fw (name, f) h (sched st)"
    and "envNodes env = Inr nodes" and "\<forall>n \<in> set nodes. nodeName n \<noteq> []"
    and "\<forall>i. envOrder env i = [Name]" and "podName pod \<noteq> []"
    and "feasible fw f pod nodes \<noteq> []" and "suffix_digit (podName pod) = Some d"
  obtains n where "n \<in> set (feasible fw f pod nodes)"
    and "\<And>m. m \<in> set (feasible fw f pod nodes) \<Longrightarrow>
      suffix_digit (nodeName m) = suffix_digit (podName pod) \<Longrightarrow>
      suffix_digit (nodeName n) = suffix_digit (podName pod)"
    and "schedule_pod fw env pod st =
      Inr (Some \<lparr>bcPod = pod, bcNode = nodeName n, bcErr = None\<rparr>,
           permitted h pod (nodeName n)
             (st\<lparr>world := pre_scored fw pod ((world st)\<lparr>cycleState := NewCycleState fw\<rparr>)\<rparr>))"
proof -
  note laws = framework_lawsD [OF assms(1)]
  let ?feas = "feasible fw f pod nodes"
  let ?w0 = "(world st)\<lparr>cycleState := NewCycleState fw\<rparr>"
  let ?w1 = "pre_scored fw pod ?w0"
  let ?scores = "map (\<lambda>n. \<lparr>nsName = nodeName n, nsScore = match_score pod (nodeName n)\<rparr>) ?feas"
  have names: "\<forall>n \<in> set ?feas. nodeName n \<noteq> []"
    using assms(4) by (simp add: feasible_def)
  have scores: "RunScorePlugins fw [nodenumber_score fw] (envOrder env) pod ?feas ?w1 =
      Inr ((?scores, None), ?w1)"
    using nodenumber_RunScorePlugins [OF assms(1,5) names, of ?w0 pod] assms(8) by simp
  obtain ns where ns: "ns \<in> set (best_scores ?scores)"
      "selectHost (envRand env) ?scores = Inr (nsName ns)"
    using selectHost_best [of ?scores "envRand env"] assms(7) by auto
  then obtain n where n: "n \<in> set ?feas" "nsName ns = nodeName n"
    by (auto simp: best_scores_def)
  have "nodeName n \<noteq> []" using names n by simp
  then obtain status where permit: "RunPermitPlugins fw pod (nodeName n) (st\<lparr>world := ?w1\<rparr>) =
      Inr (status, permitted h pod (nodeName n) (st\<lparr>world := ?w1\<rparr>))"
    and status: "Code fw status = Wait \<or> IsSuccess fw status"
    using assms(2)
    by (elim nodenumber_RunPermitPlugins [OF laws(1), where st = "st\<lparr>world := ?w1\<rparr>" and h = h and pod = pod])
       (simp_all add: default_plugins_def)
  have run: "schedule_pod fw env pod st =
      Inr (Some \<lparr>bcPod = pod, bcNode = nodeName n, bcErr = None\<rparr>,
           permitted h pod (nodeName n) (st\<lparr>world := ?w1\<rparr>))"
    using default_staged [OF assms(1-3,6,7) refl scores] ns(2) n(2) permit status
    by (auto simp: status_laws_simps [OF laws(1)])
  show thesis
    by (rule that [OF n(1) _ run]) (metis best_match ns(1) n(2))
qed

text \<open>
  C13: a cycle of the scheduler that \<open>New\<close> builds never panics, and does what the plugins are
  there for.  If no listed node passes \<open>nodeunschedulable\<close> the pod is parked.  Otherwise a pod
  whose name ends in a digit is handed over for a node that passes, one whose name ends in the
  same digit if there is any; and it waits in the permit phase exactly if that node's name
  ends in a digit.  But a pod whose name does not end in a digit is parked, whatever the
  nodes: \<open>PreScore\<close> accepts it without a state and \<open>Score\<close> then fails.
\<close>

theorem default_cycle:
  assumes "framework_laws fw" and "default_plugins fw (name, f) h0 (sched st)"
    and "envNodes env = Inr nodes" and "\<forall>n \<in> set nodes. nodeName n \<noteq> []"
    and "\<forall>i. envOrder env i = [Name]"
    and "NextPod (SchedulingQueue (sched st)) = Some (pod, q)" and "podName pod \<noteq> []"
  shows "let nodes' = filter (\<lambda>n. IsSuccess fw (f pod \<lparr>Node = n\<rparr>)) nodes
     in if nodes' = [] \<or> suffix_digit (podName pod) = None
        then \<exists>st'. scheduleOne fw env st = Some (Inr (None, st'))
        else \<exists>n st'. scheduleOne fw env st =
            Some (Inr (Some \<lparr>bcPod = pod, bcNode = nodeName n, bcErr = None\<rparr>, st')) \<and>
          n \<in> set nodes' \<and>
          ((\<exists>m \<in> set nodes'. suffix_digit (nodeName m) = suffix_digit (podName pod)) \<longrightarrow>
             suffix_digit (nodeName n) = suffix_digit (podName pod)) \<and>
          (GetWaitingPod (podUID pod) st' =
             (if suffix_digit (nodeName n) = None then GetWaitingPod (podUID pod) st
              else Some (length (wpHeap st))))"
proof -
  let ?st = "st\<lparr>sched := (sched st)\<lparr>SchedulingQueue := q\<rparr>\<rparr>"
  have plugins: "default_plugins fw (name, f) h0 (sched ?st)"
    using assms(2) by (simp add: default_plugins_def)
  have step: "scheduleOne fw env st = Some (schedule_pod fw env pod ?st)"
    using assms(6) by (simp add: scheduleOne_def)
  note cycle = assms(1) plugins assms(3)
  consider (no_fit) "feasible fw f pod nodes = []"
    | (no_digit) "feasible fw f pod nodes \<noteq> []" "suffix_digit (podName pod) = None"
    | (handed) d where "feasible fw f pod nodes \<noteq> []" "suffix_digit (podName pod) = Some d"
    by (cases "feasible fw f pod nodes = []"; cases "suffix_digit (podName pod)") auto
  then show ?thesis
  proof cases
    case no_fit
    then obtain diag where "schedule_pod fw env pod ?st =
        Inr (None, ErrorFunc (envNow env) pod (Some (FitError pod diag)) (new_cycle fw ?st))"
      by (rule default_pod_does_not_fit [OF cycle])
    with step no_fit show ?thesis by (simp add: feasible_def)
  next
    case no_digit
    with default_pod_without_digit [OF cycle assms(4,5,7)] step show ?thesis
      by (simp add: Let_def)
  next
    case handed
    from default_pod_handed_over [OF cycle assms(4,5,7) handed]
    obtain n where n: "n \<in> set (feasible fw f pod nodes)"
      and match: "\<And>m. m \<in> set (feasible fw f pod nodes) \<Longrightarrow>
        suffix_digit (nodeName m) = suffix_digit (podName pod) \<Longrightarrow>
        suffix_digit (nodeName n) = suffix_digit (podName pod)"
      and run: "schedule_pod fw env pod ?st =
        Inr (Some \<lparr>bcPod = pod, bcNode = nodeName n, bcErr = None\<rparr>,
             permitted h0 pod (nodeName n)
               (?st\<lparr>world := pre_scored fw pod ((world ?st)\<lparr>cycleState := NewCycleState fw\<rparr>)\<rparr>))"
      by blast
    have cond: "\<not> (filter (\<lambda>n. IsSuccess fw (f pod \<lparr>Node = n\<rparr>)) nodes = [] \<or>
        suffix_digit (podName pod) = None)"
      using handed by (simp add: feasible_def)
    show ?thesis
      unfolding Let_def if_not_P [OF cond] step run
      by (intro exI [of _ n] exI conjI impI refl n [unfolded feasible_def])
         (use match in \<open>auto simp: feasible_def GetWaitingPod_def permitted_def split: option.split\<close>)
  qed
qed

theorem default_cycle_witness:
  "\<exists>st'. scheduleOne sample_framework
      \<lparr>envNodes = Inr [sample_node ''a0'', sample_node ''a1''], envOrder = (\<lambda>_. [Name]),
       envRand = (\<lambda>_. 0), envNow = 0\<rparr>
      \<lparr>sched = \<lparr>SchedulingQueue = (queue_New [])
                  \<lparr>activeQ := [newQueuedPodInfo sample_framework 0 (sample_pod ''pod1'') []]\<rparr>,
               waitingPods = Map.empty, filterPlugins = [stateless_filter sample_filter],
               preScorePlugins = [nodenumber_pre_score sample_framework],
               scorePlugins = [nodenumber_score sample_framework],
               permitPlugins = [nodenumber_permit sample_framework \<lparr>nnHandle = 0\<rparr>]\<rparr>,
       wpHeap = [], world = \<lparr>cycleState = Map.empty, pluginState = []\<rparr>\<rparr> =
     Some (Inr (Some \<lparr>bcPod = sample_pod ''pod1'', bcNode = ''a1'', bcErr = None\<rparr>, st')) \<and>
     GetWaitingPod ''pod1'' st' = Some 0"
  (is "\<exists>st'. scheduleOne _ ?env ?st = _ \<and> _")
proof -
  have plugins: "default_plugins sample_framework (fst sample_filter, snd sample_filter) 0 (sched ?st)"
    by (simp add: default_plugins_def)
  have queue: "NextPod (SchedulingQueue (sched ?st)) = Some (sample_pod ''pod1'', queue_New [])"
    by (simp add: NextPod_def queue_New_def newQueuedPodInfo_def)
  have digits: "suffix_digit ''pod1'' = Some 1" "suffix_digit ''a0'' = Some 0" "suffix_digit ''a1'' = Some 1"
    by (simp_all add: suffix_digit_def digit_val_def)
  show ?thesis
    using default_cycle [OF sample_framework_laws plugins _ _ _ queue,
        of ?env "[sample_node ''a0'', sample_node ''a1'']"] digits
    by (auto simp: sample_node_def sample_pod_def sample_filter_def split: if_splits)
qed


section \<open>A pod that waits for a node\<close>

text \<open>
  The functions that \<open>Permit\<close> armed, run one after the other in the scheduler that they look
  the waiting pod up in.
\<close>

fun run_after_funcs ::
    "('s, 'c) framework \<Rightarrow> after_func list \<Rightarrow> ('c, 'x, 's) sched_state
       \<Rightarrow> panic + ('c, 'x, 's) sched_state" where
  "run_after_funcs fw [] st = Inr st"
| "run_after_funcs fw (af # afs) st =
     (case delayed_allow fw (afPlugin af)
         (map_option (\<lambda>a. wpHeap st ! a) (GetWaitingPod (afUID af) st)) of
        Inl e \<Rightarrow> Inl e
      | Inr w \<Rightarrow> run_after_funcs fw afs
          (st\<lparr>wpHeap := (wpHeap st)[the (GetWaitingPod (afUID af) st) := w]\<rparr>))"

text \<open>After those functions have run, the goroutine of the cycle binds the pod.\<close>

lemma permitted_binds:
  fixes fw :: "('s, 'c) framework" and h :: nat and nodename :: string
  assumes "status_laws fw" and "wpHeap st = []" and "pluginState (world st) = []"
    and "waitingPods (sched st) (podUID pod) = None" and "api_ok = (\<lambda>_. None)"
  defines "st' \<equiv> permitted h pod nodename st"
  shows "\<exists>st2 st3. run_after_funcs fw (pluginState (world st')) st' = Inr st2 \<and>
     binding_goroutine fw api_ok now \<lparr>bcPod = pod, bcNode = nodename, bcErr = None\<rparr> st2 =
       Some (Some \<lparr>bindNamespace = podNamespace pod, bindName = podName pod, bindUID = podUID pod,
                   bindKind = ''Node'', bindTarget = nodename\<rparr>, st3)"
proof (cases "suffix_digit nodename")
  case None
  then show ?thesis
    using assms
    by (simp add: permitted_def binding_goroutine_def WaitOnPermit_def finish_binding_def Bind_def
          status_laws_simps [OF assms(1)])
next
  case (Some d)
  then show ?thesis
    using assms
    by (simp add: permitted_def binding_goroutine_def WaitOnPermit_def finish_binding_def Bind_def
          status_laws_simps [OF assms(1)] GetWaitingPod_def delayed_allow_def Allow_eq
          NewWaitingPod_def send_nonblocking_def wait_on_def GetSignal_def wait_status_def fun_eq_iff)
qed

text \<open>
  A parked pod and the event that a node was added: if its backoff is over the pod is active
  again, and otherwise it is in the backoff queue.
\<close>

lemma parked_pod_moved:
  fixes clk :: "nat \<Rightarrow> time"
  assumes "activeQ q = []" and "podBackoffQ q = []" and "unschedulableQ q = Map.empty"
    and "movable fw (AddUnschedulable t (parked_info pod err) q) ev
           ((parked_info pod err)\<lparr>Timestamp := t\<rparr>)"
  defines "q' \<equiv> MoveAllToActiveOrBackoffQueue fw clk [pod_key (podName pod) (podNamespace pod)] ev
      (AddUnschedulable t (parked_info pod err) q)"
  shows "unschedulableQ q' = Map.empty"
    and "clk 0 < t + 1000000000 \<Longrightarrow> activeQ q' = [] \<and> map Pod (podBackoffQ q') = [pod]"
    and "\<not> clk 0 < t + 1000000000 \<Longrightarrow> podBackoffQ q' = [] \<and> map Pod (activeQ q') = [pod]"
proof -
  let ?q = "AddUnschedulable t (parked_info pod err) q"
  let ?key = "pod_key (podName pod) (podNamespace pod)"
  let ?info = "(parked_info pod err)\<lparr>Timestamp := t\<rparr>"
  have u: "unschedulableQ ?q = [?key \<mapsto> ?info]"
    by (simp add: queue_simps assms(3) keyFunc_pod_key)
  have ord: "range_order [?key] (unschedulableQ ?q)"
    by (simp add: u range_order_def)
  have inv: "queue_inv ?q"
    by (rule queue_inv_AddUnschedulable) (simp add: queue_inv_def assms(3))
  have backoff: "isPodBackingoff (clk 0) ?info \<longleftrightarrow> clk 0 < t + 1000000000"
    by (simp add: isPodBackingoff_iff calculateBackoffDuration_def sint_backoff_loop sint_podInitial)
  note sel = MoveAll_sel [OF inv ord, of fw clk ev, folded q'_def]
  show "unschedulableQ q' = Map.empty"
    using assms(4) by (intro ext) (simp add: sel u)
  show "activeQ q' = [] \<and> map Pod (podBackoffQ q') = [pod]" if "clk 0 < t + 1000000000"
    using that assms(4) backoff by (simp add: sel u assms(1,2) queue_simps)
  show "podBackoffQ q' = [] \<and> map Pod (activeQ q') = [pod]" if "\<not> clk 0 < t + 1000000000"
    using that assms(4) backoff by (simp add: sel u assms(1,2) queue_simps)
qed

lemma default_pod_bound:
  assumes "framework_laws fw" and "default_plugins fw (name, f) h (sched st)"
    and "wpHeap st = []" and "pluginState (world st) = []" and "waitingPods (sched st) (podUID pod) = None"
    and "NextPod (SchedulingQueue (sched st)) = Some (pod, q)" and "suffix_digit (podName pod) = Some d"
    and "envNodes env = Inr nodes" and "feasible fw f pod nodes = [new]"
    and "\<forall>n \<in> set nodes. nodeName n \<noteq> []" and "\<forall>i. envOrder env i = [Name]"
  shows "\<exists>b st3 st4 st5. scheduleOne fw env st = Some (Inr (Some b, st3)) \<and>
     (\<forall>af \<in> set (pluginState (world st3)).
        \<exists>k. suffix_digit (nodeName new) = Some k \<and> afDelay af = of_nat k * Second) \<and>
     run_after_funcs fw (pluginState (world st3)) st3 = Inr st4 \<and>
     binding_goroutine fw (\<lambda>_. None) now b st4 =
       Some (Some \<lparr>bindNamespace = podNamespace pod, bindName = podName pod, bindUID = podUID pod,
                   bindKind = ''Node'', bindTarget = nodeName new\<rparr>, st5)"
proof -
  define st1 where "st1 = st\<lparr>sched := (sched st)\<lparr>SchedulingQueue := q\<rparr>\<rparr>"
  define st2 where
    "st2 = st1\<lparr>world := pre_scored fw pod ((world st1)\<lparr>cycleState := NewCycleState fw\<rparr>)\<rparr>"
  have plugins: "default_plugins fw (name, f) h (sched st1)"
    using assms(2) by (simp add: default_plugins_def st1_def)
  have name: "podName pod \<noteq> []" using assms(7) by (auto simp: suffix_digit_def)
  have "schedule_pod fw env pod st1 =
      Inr (Some \<lparr>bcPod = pod, bcNode = nodeName new, bcErr = None\<rparr>, permitted h pod (nodeName new) st2)"
    by (rule default_pod_handed_over [OF assms(1) plugins assms(8,10,11) name _ assms(7)])
       (use assms(9) in \<open>auto simp: st2_def\<close>)
  then have run: "scheduleOne fw env st =
      Some (Inr (Some \<lparr>bcPod = pod, bcNode = nodeName new, bcErr = None\<rparr>, permitted h pod (nodeName new) st2))"
    using assms(6) by (simp add: scheduleOne_def st1_def)
  have "pluginState (world st2) = []" "wpHeap st2 = []" "waitingPods (sched st2) (podUID pod) = None"
    using assms(3-5) by (simp_all add: st1_def st2_def pre_scored_def split: option.split)
  moreover from this(1) have "\<forall>af \<in> set (pluginState (world (permitted h pod (nodeName new) st2))).
      \<exists>k. suffix_digit (nodeName new) = Some k \<and> afDelay af = of_nat k * Second"
    by (simp add: permitted_def split: option.split)
  ultimately show ?thesis
    using permitted_binds [OF framework_lawsD(1) [OF assms(1)] _ _ _ refl, of st2 pod h "nodeName new" now] run
    by blast
qed

text \<open>
  C3: the scenario of \<open>sched.go\<close>, for every pod whose name ends in a digit and any nodes.  While
  all nodes are unschedulable the pod is parked.  When a schedulable node is added, the handler
  that \<open>New\<close> registered makes the pod active again if a second has passed since it was parked;
  the next cycle chooses the new node, and once the function that \<open>Permit\<close> armed has run, the
  goroutine of the cycle sends the request that binds the pod to it.  But if the node comes
  sooner, the pod is moved to the backoff queue, the only place where it then is.
\<close>

theorem pod_is_bound_to_new_node:
  assumes "framework_laws fw"
    and "asFilter p = Some (stateless_filter (plName p, f))" and "asEnqueue p = Some evs"
    and "orders_ok ords (registered_events fw (plName p) evs)"
    and "New fw (Some p, None) h ords informerFactory no_plugins = Inr (Inr (s, informerFactory'), g)"
    and "\<forall>ni. IsSuccess fw (f pod ni) \<longleftrightarrow> \<not> nodeUnschedulable (Node ni)"
    and "suffix_digit (podName pod) = Some d"
    and "envNodes env1 = Inr nodes" and "\<forall>n \<in> set nodes. nodeUnschedulable n"
    and "envNodes env2 = Inr (nodes @ [new])" and "\<not> nodeUnschedulable new"
    and "\<forall>n \<in> set (nodes @ [new]). nodeName n \<noteq> []" and "\<forall>i. envOrder env2 i = [Name]"
  shows "\<exists>sc st1 handler add.
     addPodToSchedulingQueue fw t0 (PodObj pod) s = Inr ((), sc) \<and>
     scheduleOne fw env1 \<lparr>sched = sc, wpHeap = [], world = \<lparr>cycleState = c, pluginState = []\<rparr>\<rparr> =
       Some (Inr (None, st1)) \<and>
     nodeInformer informerFactory' = nodeInformer informerFactory @ [handler] \<and>
     AddFunc handler = Some add \<and>
     (let st2 = st1\<lparr>sched := add clk [pod_key (podName pod) (podNamespace pod)] (sched st1)\<rparr>
      in if clk 0 < envNow env1 + 1000000000
         then activeQ (SchedulingQueue (sched st2)) = [] \<and>
           unschedulableQ (SchedulingQueue (sched st2)) = Map.empty \<and>
           map Pod (podBackoffQ (SchedulingQueue (sched st2))) = [pod]
         else \<exists>b st3 st4 st5. scheduleOne fw env2 st2 = Some (Inr (Some b, st3)) \<and>
           run_after_funcs fw (pluginState (world st3)) st3 = Inr st4 \<and>
           binding_goroutine fw (\<lambda>_. None) now b st4 =
             Some (Some \<lparr>bindNamespace = podNamespace pod, bindName = podName pod, bindUID = podUID pod,
                         bindKind = ''Node'', bindTarget = nodeName new\<rparr>, st5))"
proof -
  note laws = framework_lawsD [OF assms(1)]
  let ?ev = "\<lparr>Resource = NodeGVK fw, ActionType = ActionAdd fw, Label = ''NodeAdd''\<rparr>"
  let ?q = "SchedulingQueue s"
  let ?w = "\<lparr>cycleState = c, pluginState = []\<rparr>"
  obtain handler where handler: "nodeInformer informerFactory' = nodeInformer informerFactory @ [handler]"
      "AddFunc handler = Some (move_all fw ?ev)"
    and mov: "\<And>q info. clusterEventMap q = clusterEventMap ?q \<Longrightarrow>
      set (UnschedulablePlugins info) \<subseteq> {plName p} \<Longrightarrow> movable fw q ?ev info"
    by (rule New_node_handler [OF assms(1-5)]) (rule that)
  have "first_handle fw p h h no_plugins"
    by (simp add: first_handle_def no_plugins_def)
  from New_eq [OF assms(2,3) this, of ords informerFactory] assms(5)
  have plugins: "default_plugins fw (plName p, f) h s" and waiting: "waitingPods s = Map.empty"
    and queue: "activeQ ?q = []" "podBackoffQ ?q = []" "unschedulableQ ?q = Map.empty"
    by (auto simp: default_plugins_def queue_New_def)
  have name: "podName pod \<noteq> []" using assms(7) by (auto simp: suffix_digit_def)
  let ?st = "\<lparr>sched = s, wpHeap = [], world = ?w\<rparr>"
  let ?sc = "s\<lparr>SchedulingQueue := queue_Add fw t0 pod ?q\<rparr>"
  have add: "addPodToSchedulingQueue fw t0 (PodObj pod) s = Inr ((), ?sc)"
    by (simp add: addPodToSchedulingQueue_def)
  have next1: "NextPod (queue_Add fw t0 pod ?q) = Some (pod, ?q)"
    using queue(1) by (cases ?q) (simp add: NextPod_def queue_Add_def newQueuedPodInfo_def)
  have fits1: "feasible fw f pod nodes = []"
    using assms(6,9) by (simp add: feasible_def filter_empty_conv)
  obtain diag where cycle1: "schedule_pod fw env1 pod ?st =
      Inr (None, ErrorFunc (envNow env1) pod (Some (FitError pod diag)) (new_cycle fw ?st))"
    and diag: "set (diagUnschedulablePlugins diag) \<subseteq> {plName p}"
    using plugins by (elim default_pod_does_not_fit [OF assms(1) _ assms(8) fits1, of "plName p" h ?st, rotated])
      simp
  let ?err = "Some (FitError pod diag)"
  let ?q1 = "AddUnschedulable (envNow env1) (parked_info pod ?err) ?q"
  let ?st1 = "ErrorFunc (envNow env1) pod ?err (new_cycle fw ?st)"
  have run1: "scheduleOne fw env1 \<lparr>sched = ?sc, wpHeap = [], world = ?w\<rparr> = Some (Inr (None, ?st1))"
    using cycle1 next1 by (simp add: scheduleOne_def)
  let ?q2 = "MoveAllToActiveOrBackoffQueue fw clk [pod_key (podName pod) (podNamespace pod)] ?ev ?q1"
  have "movable fw ?q1 ?ev ((parked_info pod ?err)\<lparr>Timestamp := envNow env1\<rparr>)"
    using diag by (intro mov) (simp_all add: queue_simps diag_plugins_def)
  note moved = parked_pod_moved [OF queue this, where clk = clk]
  let ?st2 = "?st1\<lparr>sched := move_all fw ?ev clk [pod_key (podName pod) (podNamespace pod)] (sched ?st1)\<rparr>"
  have st2: "SchedulingQueue (sched ?st2) = ?q2" "wpHeap ?st2 = []" "pluginState (world ?st2) = []"
      "waitingPods (sched ?st2) = Map.empty" "default_plugins fw (plName p, f) h (sched ?st2)"
    using plugins waiting by (simp_all add: move_all_def ErrorFunc_eq default_plugins_def)
  show ?thesis
  proof (cases "clk 0 < envNow env1 + 1000000000")
    case True
    show ?thesis
      by (intro exI conjI, rule add, rule run1, rule handler, rule handler)
         (use True moved st2(1) in \<open>simp add: Let_def\<close>)
  next
    case False
    then have "map Pod (activeQ ?q2) = [pod]" using moved(3) by simp
    then obtain q3 where next2: "NextPod (SchedulingQueue (sched ?st2)) = Some (pod, q3)"
      unfolding st2(1) by (auto simp: NextPod_def)
    have "feasible fw f pod (nodes @ [new]) = [new]"
      using fits1 assms(6,11) by (simp add: feasible_def)
    with st2(4) have bound: "\<exists>b st3 st4 st5. scheduleOne fw env2 ?st2 = Some (Inr (Some b, st3)) \<and>
         run_after_funcs fw (pluginState (world st3)) st3 = Inr st4 \<and>
         binding_goroutine fw (\<lambda>_. None) now b st4 =
           Some (Some \<lparr>bindNamespace = podNamespace pod, bindName = podName pod, bindUID = podUID pod,
                       bindKind = ''Node'', bindTarget = nodeName new\<rparr>, st5)"
      using default_pod_bound [OF assms(1) st2(5,2,3) _ next2 assms(7,10) _ assms(12,13), where now = now]
      by auto
    show ?thesis
      unfolding Let_def if_not_P [OF False]
      by (intro exI [of _ ?sc] exI [of _ ?st1] exI [of _ handler] exI [of _ "move_all fw ?ev"] conjI
            add run1 handler bound)
  qed
qed

text \<open>The nodes of the scenario: \<open>node0\<close> to \<open>node8\<close>, unschedulable, and then \<open>node10\<close>.\<close>

definition scenario_nodes :: "node list" where
  "scenario_nodes = map (\<lambda>c. \<lparr>nodeName = ''node'' @ [c], nodeUnschedulable = True\<rparr>) ''012345678''"

definition scenario_env :: "time \<Rightarrow> node list \<Rightarrow> cycle_env" where
  "scenario_env t nodes = \<lparr>envNodes = Inr nodes, envOrder = (\<lambda>_. [Name]), envRand = (\<lambda>_. 0), envNow = t\<rparr>"

theorem pod_is_bound_to_new_node_witness:
  "\<exists>s informerFactory' g sc st1 handler add b st3 st4 st5 r.
     New sample_framework (Some sample_nodeunschedulable, None) 1 sample_orders no_informers no_plugins =
       Inr (Inr (s, informerFactory'), g) \<and>
     addPodToSchedulingQueue sample_framework 0 (PodObj (sample_pod ''pod1'')) s = Inr ((), sc) \<and>
     scheduleOne sample_framework (scenario_env 0 scenario_nodes)
       \<lparr>sched = sc, wpHeap = [], world = \<lparr>cycleState = Map.empty, pluginState = []\<rparr>\<rparr> = Some (Inr (None, st1)) \<and>
     nodeInformer informerFactory' = [handler] \<and> AddFunc handler = Some add \<and>
     scheduleOne sample_framework (scenario_env 0 (scenario_nodes @ [sample_node ''node10'']))
       (st1\<lparr>sched := add (\<lambda>_. 3000000000) [''pod1_default''] (sched st1)\<rparr>) = Some (Inr (Some b, st3)) \<and>
     run_after_funcs sample_framework (pluginState (world st3)) st3 = Inr st4 \<and>
     binding_goroutine sample_framework (\<lambda>_. None) 0 b st4 = Some (Some r, st5) \<and>
     bindName r = ''pod1'' \<and> bindTarget r = ''node10''"
proof -
  obtain s informerFactory' g where new: "New sample_framework (Some sample_nodeunschedulable, None) 1
      sample_orders no_informers no_plugins = Inr (Inr (s, informerFactory'), g)"
    using New_eq [of sample_nodeunschedulable _ _ sample_framework 1 1 no_plugins sample_orders no_informers]
    by (auto simp: first_handle_def no_plugins_def)
  have filter: "asFilter sample_nodeunschedulable =
      Some (stateless_filter (plName sample_nodeunschedulable, snd sample_filter))"
    by (simp add: sample_filter_def)
  have enq: "asEnqueue sample_nodeunschedulable = Some [\<lparr>Resource = ''Node'', ActionType = 5, Label = []\<rparr>]"
    by simp
  have f: "\<forall>ni. IsSuccess sample_framework (snd sample_filter (sample_pod ''pod1'') ni) \<longleftrightarrow>
      \<not> nodeUnschedulable (Node ni)"
    by (simp add: sample_filter_def)
  have digit: "suffix_digit (podName (sample_pod ''pod1'')) = Some 1"
    by (simp add: suffix_digit_def digit_val_def sample_pod_def)
  have nodes: "\<forall>n \<in> set scenario_nodes. nodeUnschedulable n"
      "\<not> nodeUnschedulable (sample_node ''node10'')"
      "\<forall>n \<in> set (scenario_nodes @ [sample_node ''node10'']). nodeName n \<noteq> []"
    by (auto simp: scenario_nodes_def sample_node_def)
  have env: "envNodes (scenario_env t ns) = Inr ns" "\<forall>i. envOrder (scenario_env t ns) i = [Name]"
      "envNow (scenario_env t ns) = t" for t ns
    by (simp_all add: scenario_env_def)
  have key: "pod_key (podName (sample_pod ''pod1'')) (podNamespace (sample_pod ''pod1'')) = ''pod1_default''"
    by (simp add: pod_key_def sample_pod_def)
  have late: "\<not> (3000000000 :: int) < 0 + 1000000000" by simp
  obtain sc st1 handler add b st3 st4 st5 where
    run: "addPodToSchedulingQueue sample_framework 0 (PodObj (sample_pod ''pod1'')) s = Inr ((), sc)"
      "scheduleOne sample_framework (scenario_env 0 scenario_nodes)
         \<lparr>sched = sc, wpHeap = [], world = \<lparr>cycleState = Map.empty, pluginState = []\<rparr>\<rparr> = Some (Inr (None, st1))"
      "nodeInformer informerFactory' = nodeInformer no_informers @ [handler]" "AddFunc handler = Some add"
      "scheduleOne sample_framework (scenario_env 0 (scenario_nodes @ [sample_node ''node10'']))
         (st1\<lparr>sched := add (\<lambda>_. 3000000000) [''pod1_default''] (sched st1)\<rparr>) = Some (Inr (Some b, st3))"
      "run_after_funcs sample_framework (pluginState (world st3)) st3 = Inr st4"
      "binding_goroutine sample_framework (\<lambda>_. None) 0 b st4 =
         Some (Some \<lparr>bindNamespace = podNamespace (sample_pod ''pod1''), bindName = podName (sample_pod ''pod1''),
           bindUID = podUID (sample_pod ''pod1''), bindKind = ''Node'',
           bindTarget = nodeName (sample_node ''node10'')\<rparr>, st5)"
    using pod_is_bound_to_new_node [OF sample_framework_laws filter enq sample_orders_ok new f digit env(1) nodes(1)
      env(1) nodes(2,3) env(2), of 0 0 Map.empty "\<lambda>_. 3000000000" 0 0,
      unfolded key env(3) Let_def if_not_P [OF late]] by blast
  show ?thesis
    by (intro exI conjI, rule new, rule run(1), rule run(2), simp add: run(3) no_informers_def,
        (rule run(4-7))+)
       (simp_all add: sample_pod_def sample_node_def)
qed

end
