(* ===== verification/Scenario_Run.thy ===== *)
theory Scenario_Run
  imports Startup Default_Scheduler
begin

text \<open>
  The scenario of \<open>sched.go\<close> run against the scheduler that \<open>New\<close> builds.  The client of
  \<open>Startup\<close> is instantiated with a cluster: what is created is stored and reported to the
  registered informer handlers, and while the client sleeps the scheduler, the timers and the
  goroutines run.
\<close>

section \<open>The cluster\<close>

text \<open>
  \<open>clTimers\<close> are the functions that \<open>Permit\<close> armed, with the time at which they run.  The ten
  seconds of the waiting pods' own timers are longer than the whole scenario; they do not fire.
\<close>

record ('c, 's) cluster =
  clNodes :: "node list"
  clPods :: "pod list"
  clInformers :: "(('c, after_func list) plugin_world, 's) informers"
  clState :: "('c, after_func list, 's) sched_state"
  clTimers :: "(time \<times> after_func) list"
  clGoroutines :: "binding_cycle list"
  clNow :: time
  clCrash :: "panic option"

text \<open>
  The event that a node was added, to every handler; \<open>keys\<close> is the order of the range over
  the unschedulable pods.
\<close>

primrec deliver_node ::
    "(nat \<Rightarrow> time) \<Rightarrow> ((string \<rightharpoonup> queued_pod_info) \<Rightarrow> string list) \<Rightarrow> ('w, 's) event_funcs list
       \<Rightarrow> ('w, 's) scheduler \<Rightarrow> ('w, 's) scheduler" where
  "deliver_node clk keys [] s = s"
| "deliver_node clk keys (h # hs) s =
     (case AddFunc h of
        None \<Rightarrow> deliver_node clk keys hs s
      | Some add \<Rightarrow> deliver_node clk keys hs (add clk (keys (unschedulableQ (SchedulingQueue s))) s))"

primrec deliver_pod ::
    "time \<Rightarrow> api_obj \<Rightarrow> ('w, 's) pod_handler list \<Rightarrow> ('w, 's) scheduler \<Rightarrow> panic + ('w, 's) scheduler" where
  "deliver_pod now obj [] s = Inr s"
| "deliver_pod now obj (h # hs) s =
     (if FilterFunc h obj
      then (case PodAddFunc h now obj s of Inl e \<Rightarrow> Inl e | Inr (_, s) \<Rightarrow> deliver_pod now obj hs s)
      else deliver_pod now obj hs s)"

definition cluster_CreateNode ::
    "((string \<rightharpoonup> queued_pod_info) \<Rightarrow> string list) \<Rightarrow> node \<Rightarrow> ('c, 's) cluster
       \<Rightarrow> goerror option \<times> ('c, 's) cluster" where
  "cluster_CreateNode keys n c =
     (None, c\<lparr>clNodes := clNodes c @ [n],
        clState := (clState c)\<lparr>sched :=
          deliver_node (\<lambda>_. clNow c) keys (nodeInformer (clInformers c)) (sched (clState c))\<rparr>\<rparr>)"

definition cluster_CreatePod ::
    "string \<Rightarrow> string \<Rightarrow> ('c, 's) cluster \<Rightarrow> goerror option \<times> ('c, 's) cluster" where
  "cluster_CreatePod ns name c =
     (let pod = \<lparr>podName = name, podNamespace = ns, podUID = ns @ name, podNodeName = []\<rparr>;
          c = c\<lparr>clPods := clPods c @ [pod]\<rparr>
      in case deliver_pod (clNow c) (PodObj pod) (podInformer (clInformers c)) (sched (clState c)) of
           Inl e \<Rightarrow> (None, c\<lparr>clCrash := Some e\<rparr>)
         | Inr s \<Rightarrow> (None, c\<lparr>clState := (clState c)\<lparr>sched := s\<rparr>\<rparr>))"

definition cluster_GetPod ::
    "string \<Rightarrow> string \<Rightarrow> ('c, 's) cluster \<Rightarrow> (goerror + pod) \<times> ('c, 's) cluster" where
  "cluster_GetPod ns name c =
     (case find (\<lambda>p. podNamespace p = ns \<and> podName p = name) (clPods c) of
        None \<Rightarrow> (Inl (ExtError ''not found''), c)
      | Some p \<Rightarrow> (Inr p, c))"

section \<open>Time passes\<close>

definition cluster_env :: "(nat \<Rightarrow> nat) \<Rightarrow> ('c, 's) cluster \<Rightarrow> cycle_env" where
  "cluster_env rnd c =
     \<lparr>envNodes = Inr (clNodes c), envOrder = (\<lambda>_. [Name]), envRand = rnd, envNow = clNow c\<rparr>"

text \<open>A cycle: the functions it armed become timers, and its goroutine starts.\<close>

definition cluster_cycle ::
    "('s, 'c) framework \<Rightarrow> (nat \<Rightarrow> nat) \<Rightarrow> ('c, 's) cluster \<Rightarrow> ('c, 's) cluster" where
  "cluster_cycle fw rnd c =
     (case scheduleOne fw (cluster_env rnd c) (clState c) of
        None \<Rightarrow> c
      | Some (Inl e) \<Rightarrow> c\<lparr>clCrash := Some e\<rparr>
      | Some (Inr (b, st)) \<Rightarrow>
          let armed = drop (length (pluginState (world (clState c)))) (pluginState (world st))
          in c\<lparr>clState := st,
               clTimers := clTimers c @ map (\<lambda>af. (time_Add (clNow c) (afDelay af), af)) armed,
               clGoroutines := clGoroutines c @ (case b of None \<Rightarrow> [] | Some b \<Rightarrow> [b])\<rparr>)"

text \<open>A timer whose time has come runs.\<close>

definition cluster_fire :: "('s, 'c) framework \<Rightarrow> ('c, 's) cluster \<Rightarrow> ('c, 's) cluster" where
  "cluster_fire fw c =
     (let due = filter (\<lambda>(t, af). t \<le> clNow c) (clTimers c)
      in case run_after_funcs fw (map snd due) (clState c) of
           Inl e \<Rightarrow> c\<lparr>clCrash := Some e\<rparr>
         | Inr st \<Rightarrow> c\<lparr>clState := st, clTimers := filter (\<lambda>(t, af). \<not> t \<le> clNow c) (clTimers c)\<rparr>)"

definition bind_pod :: "binding \<Rightarrow> pod list \<Rightarrow> pod list" where
  "bind_pod r = map (\<lambda>p. if podNamespace p = bindNamespace r \<and> podName p = bindName r
     then p\<lparr>podNodeName := bindTarget r\<rparr> else p)"

text \<open>The goroutines that can, finish; the API server accepts every binding.\<close>

fun cluster_bind :: "('s, 'c) framework \<Rightarrow> binding_cycle list \<Rightarrow> ('c, 's) cluster \<Rightarrow> ('c, 's) cluster" where
  "cluster_bind fw [] c = c"
| "cluster_bind fw (b # bs) c =
     (case binding_goroutine fw (\<lambda>_. None) (clNow c) b (clState c) of
        None \<Rightarrow> (let c = cluster_bind fw bs c in c\<lparr>clGoroutines := b # clGoroutines c\<rparr>)
      | Some (None, st) \<Rightarrow> cluster_bind fw bs (c\<lparr>clState := st\<rparr>)
      | Some (Some r, st) \<Rightarrow> cluster_bind fw bs (c\<lparr>clState := st, clPods := bind_pod r (clPods c)\<rparr>))"

text \<open>
  The active pods are scheduled, one cycle each, then the time has passed, and timers and
  goroutines run.  A cycle takes its pod out of the active queue and puts none in, so there are
  as many cycles as pods.
\<close>

definition cluster_Sleep ::
    "('s, 'c) framework \<Rightarrow> (nat \<Rightarrow> nat) \<Rightarrow> duration \<Rightarrow> ('c, 's) cluster \<Rightarrow> ('c, 's) cluster" where
  "cluster_Sleep fw rnd d c =
     (let c = (cluster_cycle fw rnd ^^ length (activeQ (SchedulingQueue (sched (clState c))))) c;
          c = cluster_fire fw (c\<lparr>clNow := time_Add (clNow c) d\<rparr>)
      in cluster_bind fw (clGoroutines c) (c\<lparr>clGoroutines := []\<rparr>))"

definition cluster_client ::
    "('s, 'c) framework \<Rightarrow> ((string \<rightharpoonup> queued_pod_info) \<Rightarrow> string list) \<Rightarrow> (nat \<Rightarrow> nat)
       \<Rightarrow> ('c, 's) cluster client" where
  "cluster_client fw keys rnd =
     \<lparr>CreateNode = cluster_CreateNode keys,
      CreatePod = (\<lambda>ns name containers. cluster_CreatePod ns name),
      GetPod = cluster_GetPod,
      Sleep = cluster_Sleep fw rnd\<rparr>"

text \<open>A process that has just started its scheduler.\<close>

definition new_cluster ::
    "(('c, after_func list) plugin_world, 's) informers \<Rightarrow> (('c, after_func list) plugin_world, 's) scheduler
       \<Rightarrow> 'c \<Rightarrow> time \<Rightarrow> ('c, 's) cluster" where
  "new_cluster informerFactory s c now =
     \<lparr>clNodes = [], clPods = [], clInformers = informerFactory,
      clState = \<lparr>sched = s, wpHeap = [], world = \<lparr>cycleState = c, pluginState = []\<rparr>\<rparr>,
      clTimers = [], clGoroutines = [], clNow = now, clCrash = None\<rparr>"

section \<open>The scenario succeeds\<close>

lemma move_all_nothing:
  assumes "unschedulableQ (SchedulingQueue s) = Map.empty"
  shows "move_all fw ev clk [] s = s"
  by (simp add: move_all_def MoveAllToActiveOrBackoffQueue_def)

lemma cluster_create_nodes:
  assumes "nodeInformer (clInformers c) = [handler]" and "AddFunc handler = Some (move_all fw ev)"
    and "unschedulableQ (SchedulingQueue (sched (clState c))) = Map.empty" and "keys Map.empty = []"
  shows "create_nodes (cluster_client fw keys rnd) ids c =
     (None, c\<lparr>clNodes := clNodes c @ map unschedulable_node ids\<rparr>)"
  using assms(1,3)
proof (induction ids arbitrary: c)
  case (Cons i ids)
  show ?case
    using Cons.prems Cons.IH [of "c\<lparr>clNodes := clNodes c @ [unschedulable_node i]\<rparr>"]
    by (simp add: cluster_client_def cluster_CreateNode_def assms(2,4) move_all_nothing unschedulable_node_def)
qed simp


text \<open>A sleep in which the one active pod fits no node: it is parked.\<close>

lemma sleep_parks:
  fixes c :: "('c, 's) cluster"
  assumes "framework_laws fw" and "default_plugins fw (name, f) h (sched (clState c))"
    and "SchedulingQueue (sched (clState c)) = queue_Add fw t0 pod q" and "activeQ q = []"
    and "feasible fw f pod (clNodes c) = []" and "clTimers c = []" and "clGoroutines c = []"
  obtains diag where "cluster_Sleep fw rnd d c =
      c\<lparr>clState := ErrorFunc (clNow c) pod (Some (FitError pod diag))
          (new_cycle fw ((clState c)\<lparr>sched := (sched (clState c))\<lparr>SchedulingQueue := q\<rparr>\<rparr>)),
        clNow := time_Add (clNow c) d\<rparr>"
    and "set (diagUnschedulablePlugins diag) \<subseteq> {name}"
proof -
  let ?st = "(clState c)\<lparr>sched := (sched (clState c))\<lparr>SchedulingQueue := q\<rparr>\<rparr>"
  have "default_plugins fw (name, f) h (sched ?st)"
    using assms(2) by (simp add: default_plugins_def)
  moreover have "envNodes (cluster_env rnd c) = Inr (clNodes c)" and now: "envNow (cluster_env rnd c) = clNow c"
    by (simp_all add: cluster_env_def)
  ultimately obtain diag where cycle: "schedule_pod fw (cluster_env rnd c) pod ?st =
      Inr (None, ErrorFunc (clNow c) pod (Some (FitError pod diag)) (new_cycle fw ?st))"
    and diag: "set (diagUnschedulablePlugins diag) \<subseteq> {name}"
    using default_pod_does_not_fit [OF assms(1) _ _ assms(5), of name h ?st "cluster_env rnd c"] by metis
  have "NextPod (queue_Add fw t0 pod q) = Some (pod, q)" and one: "length (activeQ (queue_Add fw t0 pod q)) = 1"
    using assms(4) by (cases q; simp add: NextPod_def queue_Add_def newQueuedPodInfo_def)+
  then have "scheduleOne fw (cluster_env rnd c) (clState c) =
      Some (Inr (None, ErrorFunc (clNow c) pod (Some (FitError pod diag)) (new_cycle fw ?st)))"
    using cycle by (simp add: scheduleOne_def assms(3))
  then have "cluster_cycle fw rnd c = c\<lparr>clState := ErrorFunc (clNow c) pod (Some (FitError pod diag)) (new_cycle fw ?st)\<rparr>"
    using assms(6,7) by (simp add: cluster_cycle_def ErrorFunc_eq)
  then show thesis
    using assms(6,7) one by (intro that [OF _ diag]) (simp add: cluster_Sleep_def assms(3) cluster_fire_def)
qed

text \<open>A sleep in which the one active pod fits exactly one node: it is bound to it.\<close>

lemma sleep_binds:
  fixes c :: "('c, 's) cluster"
  assumes "framework_laws fw" and "default_plugins fw (name, f) h (sched (clState c))"
    and "wpHeap (clState c) = []" and "pluginState (world (clState c)) = []"
    and "waitingPods (sched (clState c)) (podUID pod) = None"
    and "map Pod (activeQ (SchedulingQueue (sched (clState c)))) = [pod]"
    and "suffix_digit (podName pod) = Some k" and "feasible fw f pod (clNodes c) = [new]"
    and "\<forall>n \<in> set (clNodes c). nodeName n \<noteq> []"
    and "clTimers c = []" and "clGoroutines c = []"
    and "\<And>j. suffix_digit (nodeName new) = Some j \<Longrightarrow> time_Add (clNow c) (of_nat j * Second) \<le> time_Add (clNow c) d"
  shows "\<exists>r st. bindNamespace r = podNamespace pod \<and> bindName r = podName pod \<and>
     bindTarget r = nodeName new \<and>
     cluster_Sleep fw rnd d c = c\<lparr>clState := st, clNow := time_Add (clNow c) d, clPods := bind_pod r (clPods c)\<rparr>"
proof -
  obtain q where "NextPod (SchedulingQueue (sched (clState c))) = Some (pod, q)"
    using assms(6) by (auto simp: NextPod_def)
  moreover have "envNodes (cluster_env rnd c) = Inr (clNodes c)" "\<forall>i. envOrder (cluster_env rnd c) i = [Name]"
    by (simp_all add: cluster_env_def)
  ultimately obtain b st3 st4 st5 where run: "scheduleOne fw (cluster_env rnd c) (clState c) = Some (Inr (Some b, st3))"
    and delay: "\<forall>af \<in> set (pluginState (world st3)).
        \<exists>j. suffix_digit (nodeName new) = Some j \<and> afDelay af = of_nat j * Second"
    and afs: "run_after_funcs fw (pluginState (world st3)) st3 = Inr st4"
    and bind: "binding_goroutine fw (\<lambda>_. None) (time_Add (clNow c) d) b st4 =
       Some (Some \<lparr>bindNamespace = podNamespace pod, bindName = podName pod, bindUID = podUID pod,
                   bindKind = ''Node'', bindTarget = nodeName new\<rparr>, st5)"
    using default_pod_bound [OF assms(1-5) _ assms(7) _ assms(8,9), of q "cluster_env rnd c" "time_Add (clNow c) d"]
    by blast
  let ?timers = "map (\<lambda>af. (time_Add (clNow c) (afDelay af), af)) (pluginState (world st3))"
  have cycle: "cluster_cycle fw rnd c = c\<lparr>clState := st3, clTimers := ?timers, clGoroutines := [b]\<rparr>"
    using run assms(4,10,11) by (simp add: cluster_cycle_def)
  have due: "\<forall>x \<in> set ?timers. fst x \<le> time_Add (clNow c) d"
    using delay assms(12) by fastforce
  then have "filter (\<lambda>(t, af). t \<le> time_Add (clNow c) d) ?timers = ?timers"
    "filter (\<lambda>(t, af). \<not> t \<le> time_Add (clNow c) d) ?timers = []"
    by (auto simp: filter_id_conv filter_empty_conv)
  moreover have "map snd ?timers = pluginState (world st3)"
    by (simp add: comp_def)
  ultimately have fire: "cluster_fire fw (c\<lparr>clState := st3, clTimers := ?timers, clGoroutines := [b],
        clNow := time_Add (clNow c) d\<rparr>) =
      c\<lparr>clState := st4, clGoroutines := [b], clNow := time_Add (clNow c) d\<rparr>"
    using afs assms(10) by (simp add: cluster_fire_def)
  have one: "length (activeQ (SchedulingQueue (sched (clState c)))) = 1"
    using assms(6) by auto
  show ?thesis
    by (intro exI [of _ "\<lparr>bindNamespace = podNamespace pod, bindName = podName pod, bindUID = podUID pod,
          bindKind = ''Node'', bindTarget = nodeName new\<rparr>"] exI [of _ st5])
       (use one cycle fire bind assms(11) in \<open>simp add: cluster_Sleep_def\<close>)
qed


lemma range_keys:
  assumes "\<forall>m. finite (dom m) \<longrightarrow> range_order (keys m) m"
  shows "keys Map.empty = []" and "keys [k \<mapsto> v] = [k]"
  using assms [THEN spec [of _ Map.empty]] assms [THEN spec [of _ "[k \<mapsto> v]"]] by simp_all

text \<open>What \<open>New\<close> hands over: a scheduler with an empty queue, and its two informer handlers.\<close>

abbreviation node_added :: "('s, 'c) framework \<Rightarrow> cluster_event" where
  "node_added fw \<equiv> \<lparr>Resource = NodeGVK fw, ActionType = ActionAdd fw, Label = ''NodeAdd''\<rparr>"

definition started_scheduler ::
    "('s, 'c) framework \<Rightarrow> string \<times> (pod \<Rightarrow> node_info \<Rightarrow> 's option) \<Rightarrow> nat
       \<Rightarrow> (('c, after_func list) plugin_world, 's) scheduler
       \<Rightarrow> (('c, after_func list) plugin_world, 's) informers \<Rightarrow> bool" where
  "started_scheduler fw spec h s informerFactory \<longleftrightarrow>
     default_plugins fw spec h s \<and> waitingPods s = Map.empty \<and>
     activeQ (SchedulingQueue s) = [] \<and> podBackoffQ (SchedulingQueue s) = [] \<and>
     unschedulableQ (SchedulingQueue s) = Map.empty \<and>
     (\<forall>q info. clusterEventMap q = clusterEventMap (SchedulingQueue s) \<longrightarrow>
        set (UnschedulablePlugins info) \<subseteq> {fst spec} \<longrightarrow> movable fw q (node_added fw) info) \<and>
     podInformer informerFactory = [\<lparr>FilterFunc = unassigned_filter, PodAddFunc = addPodToSchedulingQueue fw\<rparr>] \<and>
     (\<exists>handler. nodeInformer informerFactory = [handler] \<and> AddFunc handler = Some (move_all fw (node_added fw)))"

lemma New_started:
  assumes "framework_laws fw"
    and "asFilter p = Some (stateless_filter (plName p, f))" and "asEnqueue p = Some evs"
    and "orders_ok ords (registered_events fw (plName p) evs)"
    and "New fw (Some p, None) h ords no_informers no_plugins = Inr (Inr (s, informerFactory), g)"
  shows "started_scheduler fw (plName p, f) h s informerFactory"
proof -
  obtain handler where "nodeInformer informerFactory = nodeInformer no_informers @ [handler]"
      "AddFunc handler = Some (move_all fw (node_added fw))"
    and "\<And>q info. clusterEventMap q = clusterEventMap (SchedulingQueue s) \<Longrightarrow>
      set (UnschedulablePlugins info) \<subseteq> {plName p} \<Longrightarrow> movable fw q (node_added fw) info"
    by (rule New_node_handler [OF assms]) (rule that)
  moreover have "first_handle fw p h h no_plugins"
    by (simp add: first_handle_def no_plugins_def)
  from New_eq [OF assms(2,3) this, of ords no_informers] assms(5)
  have "default_plugins fw (plName p, f) h s" "waitingPods s = Map.empty"
    "activeQ (SchedulingQueue s) = []" "podBackoffQ (SchedulingQueue s) = []"
    "unschedulableQ (SchedulingQueue s) = Map.empty"
    "podInformer informerFactory = [\<lparr>FilterFunc = unassigned_filter, PodAddFunc = addPodToSchedulingQueue fw\<rparr>]"
    by (auto simp: default_plugins_def queue_New_def addAllEventHandlers_def no_informers_def)
  ultimately show ?thesis
    by (simp add: started_scheduler_def no_informers_def)
qed

abbreviation pod1 :: "string \<Rightarrow> pod" where
  "pod1 nodename \<equiv> \<lparr>podName = ''pod1'', podNamespace = ''default'', podUID = ''defaultpod1'',
     podNodeName = nodename\<rparr>"

abbreviation pod1_key :: string where
  "pod1_key \<equiv> pod_key ''pod1'' ''default''"

abbreviation node10 :: node where
  "node10 \<equiv> \<lparr>nodeName = ''node10'', nodeUnschedulable = False\<rparr>"

abbreviation first_nodes :: "node list" where
  "first_nodes \<equiv> map unschedulable_node [0..<9]"

lemma scenario_seconds: "sint (3 * Second) = 3000000000" "sint (5 * Second) = 5000000000"
  by (simp_all add: Second_def)

lemma scenario_digits: "suffix_digit ''pod1'' = Some 1" "suffix_digit ''node10'' = Some 0"
  by (simp_all add: suffix_digit_def digit_val_def)

lemma first_nodes_unfit:
  "\<forall>pod ni. IsSuccess fw (f pod ni) \<longleftrightarrow> \<not> nodeUnschedulable (Node ni) \<Longrightarrow> feasible fw f pod first_nodes = []"
  by (simp add: feasible_def unschedulable_node_def filter_empty_conv)

text \<open>The cluster with \<open>pod1\<close> in the queue \<open>q\<close>, seconds after it was created.\<close>

definition pod1_cluster ::
    "(('c, after_func list) plugin_world, 's) informers
       \<Rightarrow> (('c, after_func list) plugin_world, 's) scheduler \<Rightarrow> node list \<Rightarrow> sched_queue \<Rightarrow> 'c \<Rightarrow> time
       \<Rightarrow> ('c, 's) cluster" where
  "pod1_cluster informerFactory s nodes q c now =
     (new_cluster informerFactory (s\<lparr>SchedulingQueue := q\<rparr>) c now)\<lparr>clNodes := nodes, clPods := [pod1 []]\<rparr>"

lemma scenario_first_half:
  assumes "framework_laws fw" and started: "started_scheduler fw (name, f) h s informerFactory"
    and "\<forall>pod ni. IsSuccess fw (f pod ni) \<longleftrightarrow> \<not> nodeUnschedulable (Node ni)"
    and "\<forall>m. finite (dom m) \<longrightarrow> range_order (keys m) m"
  obtains err c1 c2 where "set (diag_plugins err) \<subseteq> {name}"
    and "create_nodes (cluster_client fw keys rnd) [0..<9] (new_cluster informerFactory s c now) = (None, c1)"
    and "\<And>containers. CreatePod (cluster_client fw keys rnd) ''default'' ''pod1'' containers c1 = (None, c2)"
    and "Sleep (cluster_client fw keys rnd) (3 * Second) c2 =
      pod1_cluster informerFactory s first_nodes
        (AddUnschedulable now (parked_info (pod1 []) err) (SchedulingQueue s)) (NewCycleState fw) (now + 3000000000)"
proof -
  let ?q = "SchedulingQueue s"
  let ?c0 = "new_cluster informerFactory s c now" and ?cl = "cluster_client fw keys rnd"
  let ?c2 = "pod1_cluster informerFactory s first_nodes (queue_Add fw now (pod1 []) ?q) c now"
  obtain handler where handler: "nodeInformer informerFactory = [handler]"
      "AddFunc handler = Some (move_all fw (node_added fw))"
    using started by (auto simp: started_scheduler_def)
  have step1: "create_nodes ?cl [0..<9] ?c0 = (None, ?c0\<lparr>clNodes := first_nodes\<rparr>)"
    using cluster_create_nodes [where c = ?c0 and handler = handler and ev = "node_added fw" and keys = keys
        and fw = fw and rnd = rnd] handler started range_keys(1) [OF assms(4)]
    by (simp add: new_cluster_def started_scheduler_def)
  have step2: "CreatePod ?cl ''default'' ''pod1'' containers (?c0\<lparr>clNodes := first_nodes\<rparr>) = (None, ?c2)" for containers
    using started
    by (simp add: cluster_client_def cluster_CreatePod_def pod1_cluster_def new_cluster_def started_scheduler_def
        unassigned_filter_def assignedPod_def addPodToSchedulingQueue_def Let_def)
  obtain diag where sleep: "cluster_Sleep fw rnd (3 * Second) ?c2 =
      ?c2\<lparr>clState := ErrorFunc (clNow ?c2) (pod1 []) (Some (FitError (pod1 []) diag))
          (new_cycle fw ((clState ?c2)\<lparr>sched := (sched (clState ?c2))\<lparr>SchedulingQueue := ?q\<rparr>\<rparr>)),
        clNow := time_Add (clNow ?c2) (3 * Second)\<rparr>"
    and diag: "set (diagUnschedulablePlugins diag) \<subseteq> {name}"
    by (rule sleep_parks [OF assms(1), of name f h ?c2 now "pod1 []" ?q])
       (use started first_nodes_unfit [OF assms(3)] in
         \<open>simp_all add: pod1_cluster_def new_cluster_def started_scheduler_def default_plugins_def\<close>)
  show ?thesis
  proof (rule that [OF _ step1 step2])
    show "set (diag_plugins (Some (FitError (pod1 []) diag))) \<subseteq> {name}"
      using diag by (simp add: diag_plugins_def)
  qed (simp add: cluster_client_def sleep,
       simp add: pod1_cluster_def new_cluster_def ErrorFunc_eq time_Add_def scenario_seconds)
qed

lemma scenario_second_half:
  assumes "framework_laws fw" and started: "started_scheduler fw (name, f) h s informerFactory"
    and "\<forall>pod ni. IsSuccess fw (f pod ni) \<longleftrightarrow> \<not> nodeUnschedulable (Node ni)"
    and "\<forall>m. finite (dom m) \<longrightarrow> range_order (keys m) m" and "set (diag_plugins err) \<subseteq> {name}"
    and c3: "c3 = pod1_cluster informerFactory s first_nodes
      (AddUnschedulable now (parked_info (pod1 []) err) (SchedulingQueue s)) cs (now + 3000000000)"
  obtains c5 c6 where "CreateNode (cluster_client fw keys rnd) node10 c3 = (None, c5)"
    and "Sleep (cluster_client fw keys rnd) (5 * Second) c5 = c6"
    and "clPods c6 = [pod1 ''node10'']" and "clNodes c6 = first_nodes @ [node10]"
    and "clCrash c6 = None" and "clGoroutines c6 = []" and "clTimers c6 = []"
proof -
  let ?q3 = "AddUnschedulable now (parked_info (pod1 []) err) (SchedulingQueue s)"
  let ?q5 = "MoveAllToActiveOrBackoffQueue fw (\<lambda>_. now + 3000000000) [pod1_key] (node_added fw) ?q3"
  let ?c5 = "pod1_cluster informerFactory s (first_nodes @ [node10]) ?q5 cs (now + 3000000000)"
  note q = started [unfolded started_scheduler_def]
  have "unschedulableQ ?q3 = [pod1_key \<mapsto> (parked_info (pod1 []) err)\<lparr>Timestamp := now\<rparr>]"
    using q by (simp add: queue_simps keyFunc_pod_key)
  then have keys3: "keys (unschedulableQ ?q3) = [pod1_key]"
    by (simp add: range_keys [OF assms(4)])
  have step5: "CreateNode (cluster_client fw keys rnd) node10 c3 = (None, ?c5)"
    using q keys3
    by (auto simp: cluster_client_def cluster_CreateNode_def c3 pod1_cluster_def new_cluster_def move_all_def)
  have "movable fw ?q3 (node_added fw) ((parked_info (pod1 []) err)\<lparr>Timestamp := now\<rparr>)"
    using q assms(5) by (simp add: queue_simps)
  then have q5: "map Pod (activeQ ?q5) = [pod1 []]"
    using parked_pod_moved(3) [of "SchedulingQueue s" fw now "pod1 []" err "node_added fw" "\<lambda>_. now + 3000000000"] q
    by simp
  have "feasible fw f (pod1 []) (first_nodes @ [node10]) = [node10]"
    using first_nodes_unfit [OF assms(3), of "pod1 []"] assms(3) by (simp add: feasible_def)
  then obtain r st where r: "bindNamespace r = ''default''" "bindName r = ''pod1''" "bindTarget r = ''node10''"
    and sleep: "cluster_Sleep fw rnd (5 * Second) ?c5 =
      ?c5\<lparr>clState := st, clNow := time_Add (clNow ?c5) (5 * Second), clPods := bind_pod r (clPods ?c5)\<rparr>"
    using sleep_binds [OF assms(1), of name f h ?c5 "pod1 []" 1 node10 "5 * Second" rnd] q q5 scenario_digits
    by (auto simp: pod1_cluster_def new_cluster_def default_plugins_def unschedulable_node_def
        time_Add_def scenario_seconds)
  show ?thesis
    by (rule that [OF step5 refl])
       (simp_all add: cluster_client_def sleep, simp_all add: pod1_cluster_def new_cluster_def bind_pod_def r)
qed

text \<open>
  The scenario of \<open>sched.go\<close>, run in a cluster with the scheduler that \<open>New\<close> builds,
  succeeds: pod1 is parked while all nodes are unschedulable, the creation of node10 makes it
  active again, and at the end it is bound to node10.  Nothing has panicked, and no goroutine
  waits.
\<close>

theorem scenario_binds_pod1:
  assumes "framework_laws fw"
    and "asFilter p = Some (stateless_filter (plName p, f))" and "asEnqueue p = Some evs"
    and "orders_ok ords (registered_events fw (plName p) evs)"
    and "New fw (Some p, None) h ords no_informers no_plugins = Inr (Inr (s, informerFactory), g)"
    and "\<forall>pod ni. IsSuccess fw (f pod ni) \<longleftrightarrow> \<not> nodeUnschedulable (Node ni)"
    and "\<forall>m. finite (dom m) \<longrightarrow> range_order (keys m) m"
  shows "\<exists>cl. scenario (cluster_client fw keys rnd) (new_cluster informerFactory s c now) = (None, cl) \<and>
     clPods cl = [pod1 ''node10''] \<and>
     clNodes cl = map unschedulable_node [0..<9] @ [node10] \<and>
     clCrash cl = None \<and> clGoroutines cl = [] \<and> clTimers cl = []"
proof -
  let ?cl = "cluster_client fw keys rnd"
  note started = New_started [OF assms(1-5)]
  obtain err c1 c2 where err: "set (diag_plugins err) \<subseteq> {plName p}"
    and steps: "create_nodes ?cl [0..<9] (new_cluster informerFactory s c now) = (None, c1)"
      "\<And>containers. CreatePod ?cl ''default'' ''pod1'' containers c1 = (None, c2)"
      "Sleep ?cl (3 * Second) c2 = pod1_cluster informerFactory s first_nodes
        (AddUnschedulable now (parked_info (pod1 []) err) (SchedulingQueue s)) (NewCycleState fw) (now + 3000000000)"
      (is "_ = ?c3")
    by (rule scenario_first_half [OF assms(1) started assms(6,7)]) (rule that)
  obtain c5 c6 where steps': "CreateNode ?cl node10 ?c3 = (None, c5)" "Sleep ?cl (5 * Second) c5 = c6"
    and c6: "clPods c6 = [pod1 ''node10'']" "clNodes c6 = first_nodes @ [node10]"
      "clCrash c6 = None" "clGoroutines c6 = []" "clTimers c6 = []"
    by (rule scenario_second_half [OF assms(1) started assms(6,7) err refl])
       (rule that)
  have "client.GetPod ?cl ''default'' ''pod1'' ?c3 = (Inr (pod1 []), ?c3)"
    "client.GetPod ?cl ''default'' ''pod1'' c6 = (Inr (pod1 ''node10''), c6)"
    using c6 by (simp_all add: cluster_client_def cluster_GetPod_def pod1_cluster_def)
  with c6 steps steps' show ?thesis
    by (intro exI [of _ c6]) (simp add: scenario_def Let_def)
qed

text \<open>What the examples of this theory share.\<close>

abbreviation sample_keys :: "(string \<rightharpoonup> queued_pod_info) \<Rightarrow> string list" where
  "sample_keys \<equiv> \<lambda>m. sorted_list_of_set (dom m)"

lemma sample_New:
  obtains s informerFactory g where "New sample_framework (Some sample_nodeunschedulable, None) 1
      sample_orders no_informers no_plugins = Inr (Inr (s, informerFactory), g)"
  using New_eq [of sample_nodeunschedulable _ _ sample_framework 1 1 no_plugins sample_orders no_informers]
  by (auto simp: first_handle_def no_plugins_def)

lemma sample_scenario:
  "asFilter sample_nodeunschedulable =
     Some (stateless_filter (plName sample_nodeunschedulable, snd sample_filter))"
  "\<forall>pod ni. IsSuccess sample_framework (snd sample_filter pod ni) \<longleftrightarrow> \<not> nodeUnschedulable (Node ni)"
  "\<forall>m. finite (dom m) \<longrightarrow> range_order (sample_keys m) m"
  by (simp_all add: sample_filter_def range_order_def)

theorem scenario_binds_pod1_witness:
  "\<exists>s informerFactory g cl.
     New sample_framework (Some sample_nodeunschedulable, None) 1 sample_orders no_informers no_plugins =
       Inr (Inr (s, informerFactory), g) \<and>
     scenario (cluster_client sample_framework sample_keys (\<lambda>_. 0))
       (new_cluster informerFactory s Map.empty 0) = (None, cl) \<and>
     clPods cl = [pod1 ''node10'']"
proof -
  obtain s informerFactory g where new: "New sample_framework (Some sample_nodeunschedulable, None) 1
      sample_orders no_informers no_plugins = Inr (Inr (s, informerFactory), g)"
    by (rule sample_New)
  show ?thesis
    using scenario_binds_pod1 [OF sample_framework_laws sample_scenario(1) _ sample_orders_ok new
        sample_scenario(2,3), where rnd = "\<lambda>_. 0" and c = Map.empty and now = 0] new
    by auto
qed

section \<open>The whole program\<close>

text \<open>What \<open>start\<close> does when nothing of what it starts fails.\<close>

lemma start_succeeds:
  assumes "NewConfig (Getenv lib) (atoiErr lib) = Inr cfg"
    and "StartAPIServer (apiSources lib) (apiLib lib) (serverURL lib) (EtcdURL cfg) (apiWorld0 lib) = Inr (Inr rc, st)"
    and "clientsetErr lib = None" and "newController lib = None"
    and "newScheduler lib (process.world (hProc h)) = Inr (Inr sch, x)"
    and "scenario (startClient lib) (hCluster h) = (None, c)"
  shows "\<exists>h'. start lib h = Inr (None, h') \<and> hCluster h' = c \<and> hApi h' \<noteq> None \<and>
     schedulers (hProc h') = schedulers (hProc h) @ [(Suc (nextContext (hProc h)), sch)]"
proof -
  have "\<not> stopClosed st" using StartAPIServer_closes [OF assms(2)] by simp
  then obtain st' where "closeFn (apiLib lib) st = Inr st'" using closeFn_ok by blast
  with assms show ?thesis
    by (simp add: start_def defer_call_def StartPersistentVolumeController_def WithCancel_def StartScheduler_def
        run_scenario_def api_shutdown_def shutdownFunc_def ShutdownScheduler_def cancel_def Let_def)
qed


text \<open>The parameters of the example of \<open>Startup\<close>, with the scheduler and the cluster of this theory.\<close>

definition program_lib where
  "program_lib =
     \<lparr>Getenv = Getenv sample_start_lib, atoiErr = atoiErr sample_start_lib,
      apiSources = apiSources sample_start_lib, apiLib = apiLib sample_start_lib,
      serverURL = serverURL sample_start_lib, apiWorld0 = apiWorld0 sample_start_lib,
      clientsetErr = None, newController = None, defaultConfig = (),
      newScheduler = New sample_framework (Some sample_nodeunschedulable, None) 1 sample_orders no_informers,
      startClient = cluster_client sample_framework sample_keys (\<lambda>_. 0)\<rparr>"

definition program_host where
  "program_host c =
     \<lparr>hApi = hApi sample_host, hProc = \<lparr>nextContext = 0, cancelled = {}, recording = [], informersStarted = [],
        schedulers = [], world = no_plugins\<rparr>, hControllers = [], hCluster = c\<rparr>"


end
