(* ===== verification/Permit_Race.thy ===== *)
theory Permit_Race
  imports Default_Scheduler
begin

text \<open>
  The permit phase of one pod, an access of the scheduler's map of waiting pods at a time: the
  cycle that calls the permit plugins and then registers the waiting pod, the goroutine that
  waits for the verdict, the function that \<open>NodeNumber\<close> gave to \<open>time.AfterFunc\<close>, which looks
  the waiting pod up in that map, and the timer of the waiting pod itself.  None of them takes
  a lock for the map.  The permit plugins are those that \<open>New\<close> creates, \<open>NodeNumber\<close> alone: there
  is one function to run and one timer.
\<close>

section \<open>The goroutines and the timers\<close>

text \<open>
  The cycle and the goroutine it starts: before the permit plugins, before the registration with
  the wait times the plugins asked for, before the lookup of \<open>WaitOnPermit\<close>, waiting on the
  waiting pod at an address, or with a status.
\<close>

datatype 's permit_pc =
    CPermit
  | CRegister "string \<rightharpoonup> duration"
  | CLookup
  | CWait nat
  | CReturned "'s option"

text \<open>
  The function of \<open>time.AfterFunc\<close>: not set up, due at a time, about to call \<open>Allow\<close> on what
  \<open>GetWaitingPod\<close> returned, or done.
\<close>

datatype after_pc = FNone | FArmed time after_func | FAllow after_func "nat option" | FDone

text \<open>The timer of the waiting pod at an address: due at a time, about to call \<open>Reject\<close>, or done.\<close>

datatype timeout_pc = RNone | RArmed time nat | RReject duration nat | RDone

record ('c, 's) permit_race =
  pSt :: "('c, after_func list, 's) sched_state"
  pPc :: "'s permit_pc"
  pAfter :: after_pc
  pTimeout :: timeout_pc
  pNow :: time

text \<open>
  The next access of the cycle and of the goroutine that it starts.  What \<open>Permit\<close> armed becomes due when its delay has passed,
  and so does the timer for \<open>NodeNumber\<close> that \<open>NewWaitingPod\<close> starts.
\<close>

definition permit_instr ::
    "('s, 'c) framework \<Rightarrow> pod \<Rightarrow> string \<Rightarrow> ('c, 's) permit_race \<Rightarrow> panic + ('c, 's) permit_race" where
  "permit_instr fw pod nodename r =
     (let st = pSt r in
      case pPc r of
        CPermit \<Rightarrow>
          (case permit_loop fw (permitPlugins (sched st)) pod nodename Map.empty Success (world st) of
             Inl e \<Rightarrow> Inl e
           | Inr (res, w) \<Rightarrow>
               let armed = drop (length (pluginState (world st))) (pluginState w);
                   r = r\<lparr>pSt := st\<lparr>world := w\<rparr>,
                         pAfter := (case armed of
                            [] \<Rightarrow> pAfter r | af # _ \<Rightarrow> FArmed (time_Add (pNow r) (afDelay af)) af)\<rparr>
               in case res of
                    Inl status \<Rightarrow> Inr (r\<lparr>pPc := CReturned status\<rparr>)
                  | Inr (m, code) \<Rightarrow>
                      Inr (r\<lparr>pPc := (if code = Wait then CRegister m else CLookup)\<rparr>))
      | CRegister m \<Rightarrow>
          let addr = length (wpHeap st)
          in Inr (r\<lparr>pSt := st\<lparr>wpHeap := wpHeap st @ [NewWaitingPod pod m],
                       sched := (sched st)\<lparr>waitingPods := (waitingPods (sched st))(podUID pod \<mapsto> addr)\<rparr>\<rparr>,
                    pPc := CLookup,
                    pTimeout := (case m Name of
                       None \<Rightarrow> pTimeout r | Some d \<Rightarrow> RArmed (time_Add (pNow r) d) addr)\<rparr>)
      | CLookup \<Rightarrow>
          Inr (r\<lparr>pPc := (case GetWaitingPod (podUID pod) st of
                            None \<Rightarrow> CReturned None | Some addr \<Rightarrow> CWait addr)\<rparr>)
      | CWait addr \<Rightarrow>
          (case wait_on fw pod addr st of
             None \<Rightarrow> Inr r
           | Some (status, st) \<Rightarrow> Inr (r\<lparr>pSt := st, pPc := CReturned status\<rparr>))
      | CReturned status \<Rightarrow> Inr r)"

text \<open>The next access of the function of \<open>time.AfterFunc\<close>, once its time has come.\<close>

definition after_instr ::
    "('s, 'c) framework \<Rightarrow> ('c, 's) permit_race \<Rightarrow> panic + ('c, 's) permit_race" where
  "after_instr fw r =
     (let st = pSt r in
      case pAfter r of
        FArmed t af \<Rightarrow>
          Inr (if t \<le> pNow r then r\<lparr>pAfter := FAllow af (GetWaitingPod (afUID af) st)\<rparr> else r)
      | FAllow af addr \<Rightarrow>
          (case delayed_allow fw (afPlugin af) (map_option (\<lambda>a. wpHeap st ! a) addr) of
             Inl e \<Rightarrow> Inl e
           | Inr w \<Rightarrow> Inr (r\<lparr>pSt := st\<lparr>wpHeap := (wpHeap st)[the addr := w]\<rparr>, pAfter := FDone\<rparr>))
      | _ \<Rightarrow> Inr r)"

text \<open>The timer of the waiting pod; one that was stopped does not expire.\<close>

definition timeout_instr ::
    "('s, 'c) framework \<Rightarrow> ('c, 's) permit_race \<Rightarrow> ('c, 's) permit_race" where
  "timeout_instr fw r =
     (let st = pSt r in
      case pTimeout r of
        RArmed t addr \<Rightarrow>
          let w = wpHeap st ! addr
          in (case pendingPlugins w Name of
                None \<Rightarrow> r
              | Some tm \<Rightarrow>
                  if armed tm \<and> t \<le> pNow r
                  then r\<lparr>pSt := st\<lparr>wpHeap := (wpHeap st)[addr := w\<lparr>pendingPlugins :=
                           (pendingPlugins w)(Name \<mapsto> tm\<lparr>armed := False\<rparr>)\<rparr>]\<rparr>, pTimeout := RReject (waitTime tm) addr\<rparr>
                  else r)
      | RReject d addr \<Rightarrow>
          r\<lparr>pSt := st\<lparr>wpHeap := (wpHeap st)[addr :=
               Reject fw Name (timeout_msg d Name) (wpHeap st ! addr)]\<rparr>, pTimeout := RDone\<rparr>
      | _ \<Rightarrow> r)"

datatype permit_event = Cycle | After | Timeout | Tick nat

fun permit_step ::
    "('s, 'c) framework \<Rightarrow> pod \<Rightarrow> string \<Rightarrow> permit_event \<Rightarrow> ('c, 's) permit_race
       \<Rightarrow> panic + ('c, 's) permit_race" where
  "permit_step fw pod nodename Cycle r = permit_instr fw pod nodename r"
| "permit_step fw pod nodename After r = after_instr fw r"
| "permit_step fw pod nodename Timeout r = Inr (timeout_instr fw r)"
| "permit_step fw pod nodename (Tick n) r = Inr (r\<lparr>pNow := pNow r + int n\<rparr>)"

fun permit_run ::
    "('s, 'c) framework \<Rightarrow> pod \<Rightarrow> string \<Rightarrow> permit_event list \<Rightarrow> ('c, 's) permit_race
       \<Rightarrow> panic + ('c, 's) permit_race" where
  "permit_run fw pod nodename [] r = Inr r"
| "permit_run fw pod nodename (e # es) r =
     (case permit_step fw pod nodename e r of
        Inl err \<Rightarrow> Inl err | Inr r \<Rightarrow> permit_run fw pod nodename es r)"

text \<open>
  A schedule is prompt if time passes only while no goroutine can go on and no timer is due, and
  not past the next timer: goroutines take no time.
\<close>

definition blocked_pc :: "('c, 's) permit_race \<Rightarrow> bool" where
  "blocked_pc r \<longleftrightarrow>
     (case pPc r of CWait addr \<Rightarrow> GetSignal (wpHeap (pSt r) ! addr) = None | CReturned s \<Rightarrow> True | _ \<Rightarrow> False)"

definition prompt_tick :: "('c, 's) permit_race \<Rightarrow> nat \<Rightarrow> bool" where
  "prompt_tick r n \<longleftrightarrow> blocked_pc r \<and>
     (case pAfter r of FArmed t af \<Rightarrow> pNow r < t \<and> pNow r + int n \<le> t | FAllow af a \<Rightarrow> False | _ \<Rightarrow> True) \<and>
     (case pTimeout r of
        RArmed t addr \<Rightarrow> pendingPlugins (wpHeap (pSt r) ! addr) Name \<noteq> None \<longrightarrow>
          pNow r < t \<and> pNow r + int n \<le> t
      | RReject d addr \<Rightarrow> False | _ \<Rightarrow> True)"

fun prompt ::
    "('s, 'c) framework \<Rightarrow> pod \<Rightarrow> string \<Rightarrow> permit_event list \<Rightarrow> ('c, 's) permit_race \<Rightarrow> bool" where
  "prompt fw pod nodename [] r \<longleftrightarrow> True"
| "prompt fw pod nodename (e # es) r \<longleftrightarrow>
     (\<forall>n. e = Tick n \<longrightarrow> prompt_tick r n) \<and>
     (case permit_step fw pod nodename e r of
        Inl err \<Rightarrow> True | Inr r \<Rightarrow> prompt fw pod nodename es r)"

definition permit_start ::
    "('c, after_func list, 's) sched_state \<Rightarrow> time \<Rightarrow> ('c, 's) permit_race" where
  "permit_start st now = \<lparr>pSt = st, pPc = CPermit, pAfter = FNone, pTimeout = RNone, pNow = now\<rparr>"

section \<open>Alone, the accesses are the atomic operations\<close>

text \<open>
  Without interruption the accesses of the cycle have the effect of \<open>RunPermitPlugins\<close>, and
  those of the goroutine the effect of \<open>WaitOnPermit\<close>.
\<close>

lemma permit_alone:
  assumes "status_laws fw" and "permit_run fw pod nodename [Cycle, Cycle] (permit_start st now) = Inr r"
    and "RunPermitPlugins fw pod nodename st = Inr (status, st')" and "Code fw status = Wait"
  shows "pSt r = st' \<and> pPc r = CLookup"
proof -
  obtain m w where loop: "permit_loop fw (permitPlugins (sched st)) pod nodename Map.empty Success (world st) =
      Inr (Inr (m, Wait), w)"
    using assms(3,4) permit_loop_refused [OF assms(1), of "permitPlugins (sched st)" pod nodename Map.empty Success "world st"]
    by (auto simp: RunPermitPlugins_def status_laws_simps [OF assms(1)] Let_def split: sum.splits if_splits)
  show ?thesis
    using assms(2,3) loop
    by (auto simp: permit_start_def permit_instr_def RunPermitPlugins_def Let_def)
qed

lemma wait_alone:
  assumes "pPc r = CLookup"
  shows "permit_run fw pod nodename [Cycle, Cycle] r =
     (case WaitOnPermit fw pod (pSt r) of
        None \<Rightarrow> Inr (r\<lparr>pPc := CWait (the (GetWaitingPod (podUID pod) (pSt r)))\<rparr>)
      | Some (status, st) \<Rightarrow> Inr (r\<lparr>pSt := st, pPc := CReturned status\<rparr>))"
  using assms
  by (auto simp: permit_instr_def WaitOnPermit_def GetWaitingPod_def split: option.split)

section \<open>The permit phase with \<open>NodeNumber\<close>\<close>

lemma suffix_digit_less: "suffix_digit s = Some d \<Longrightarrow> d < 10"
  by (auto simp: suffix_digit_def digit_val_def Let_def split: if_splits)

lemma sint_seconds:
  assumes "d \<le> 10"
  shows "sint (of_nat d * Second) = int d * 1000000000"
proof -
  have "d \<in> {0, 1, 2, 3, 4, 5, 6, 7, 8, 9, 10}" using assms by (simp, presburger)
  then show ?thesis by (auto simp: Second_def)
qed

lemma sint_ten_seconds: "sint (10 * Second) = 10000000000"
  by (simp add: Second_def)

text \<open>The function that \<open>Permit\<close> arms, and the scheduler's state once it is armed.\<close>

definition permit_func :: "nat \<Rightarrow> pod \<Rightarrow> nat \<Rightarrow> after_func" where
  "permit_func h pod d = \<lparr>afDelay = of_nat d * Second, afHandle = h, afUID = podUID pod, afPlugin = Name\<rparr>"

definition permit_armed ::
    "nat \<Rightarrow> pod \<Rightarrow> nat \<Rightarrow> ('c, after_func list, 's) sched_state \<Rightarrow> ('c, after_func list, 's) sched_state" where
  "permit_armed h pod d st =
     st\<lparr>world := (world st)\<lparr>pluginState := pluginState (world st) @ [permit_func h pod d]\<rparr>\<rparr>"

definition permit_registered ::
    "nat \<Rightarrow> pod \<Rightarrow> nat \<Rightarrow> ('c, after_func list, 's) sched_state \<Rightarrow> ('c, after_func list, 's) sched_state" where
  "permit_registered h pod d st =
     (permit_armed h pod d st)\<lparr>wpHeap := wpHeap st @ [NewWaitingPod pod [Name \<mapsto> 10 * Second]],
        sched := (sched st)\<lparr>waitingPods :=
          (waitingPods (sched st))(podUID pod \<mapsto> length (wpHeap st))\<rparr>\<rparr>"

text \<open>What the waiting pod is once it was allowed, and once the verdict was received.\<close>

definition wp_allowed :: "('s, 'c) framework \<Rightarrow> pod \<Rightarrow> 's waiting_pod" where
  "wp_allowed fw pod = \<lparr>wpPod = pod, pendingPlugins = Map.empty, signal = [NewStatus fw Success []]\<rparr>"

definition permit_allowed ::
    "('s, 'c) framework \<Rightarrow> nat \<Rightarrow> pod \<Rightarrow> nat \<Rightarrow> ('c, after_func list, 's) sched_state
       \<Rightarrow> ('c, after_func list, 's) sched_state" where
  "permit_allowed fw h pod d st = (permit_registered h pod d st)\<lparr>wpHeap := wpHeap st @ [wp_allowed fw pod]\<rparr>"

definition permit_received ::
    "('s, 'c) framework \<Rightarrow> nat \<Rightarrow> pod \<Rightarrow> nat \<Rightarrow> ('c, after_func list, 's) sched_state
       \<Rightarrow> ('c, after_func list, 's) sched_state" where
  "permit_received fw h pod d st =
     (permit_allowed fw h pod d st)\<lparr>wpHeap := wpHeap st @ [(wp_allowed fw pod)\<lparr>signal := []\<rparr>],
        sched := (sched st)\<lparr>waitingPods := (waitingPods (sched st))(podUID pod := None)\<rparr>\<rparr>"

lemmas permit_state_defs =
  permit_received_def permit_allowed_def permit_registered_def permit_armed_def wp_allowed_def

lemma permit_called:
  assumes "status_laws fw" and "permitPlugins (sched st) = [nodenumber_permit fw \<lparr>nnHandle = h\<rparr>]"
    and "suffix_digit nodename = Some d"
  shows "permit_instr fw pod nodename (permit_start st now) =
     Inr \<lparr>pSt = permit_armed h pod d st, pPc = CRegister [Name \<mapsto> 10 * Second],
          pAfter = FArmed (now + int d * 1000000000) (permit_func h pod d), pTimeout = RNone, pNow = now\<rparr>"
proof -
  have "nodename \<noteq> []" using assms(3) by (auto simp: suffix_digit_def)
  moreover have "\<not> IsUnschedulable fw (Some (NewStatus fw Wait []))"
    using IsUnschedulable_code [OF assms(1), of "Some (NewStatus fw Wait [])"]
    by (auto simp: status_laws_simps [OF assms(1)])
  moreover have "sint (of_nat d * Second) = int d * 1000000000"
    using suffix_digit_less [OF assms(3)] by (intro sint_seconds) simp
  ultimately show ?thesis
    using assms(3)
    by (simp add: permit_instr_def permit_start_def assms(2) nodenumber_permit_def NodeNumber_Permit_eq
          status_laws_simps [OF assms(1)] permit_armed_def permit_func_def time_Add_def)
qed

text \<open>
  The states of a prompt run for a digit \<open>d\<close>, from the time \<open>now\<close> at which \<open>Permit\<close> was called:
  the function is armed, the pod is registered, the goroutine waits, the function has looked
  the pod up, it has allowed it, and the goroutine has received the verdict.
\<close>

definition s_armed ::
    "nat \<Rightarrow> pod \<Rightarrow> nat \<Rightarrow> ('c, after_func list, 's) sched_state \<Rightarrow> time
       \<Rightarrow> ('c, 's) permit_race" where
  "s_armed h pod d st now = \<lparr>pSt = permit_armed h pod d st, pPc = CRegister [Name \<mapsto> 10 * Second],
     pAfter = FArmed (now + int d * 1000000000) (permit_func h pod d), pTimeout = RNone, pNow = now\<rparr>"

definition s_registered ::
    "nat \<Rightarrow> pod \<Rightarrow> nat \<Rightarrow> ('c, after_func list, 's) sched_state \<Rightarrow> time
       \<Rightarrow> ('c, 's) permit_race" where
  "s_registered h pod d st now = \<lparr>pSt = permit_registered h pod d st, pPc = CLookup,
     pAfter = FArmed (now + int d * 1000000000) (permit_func h pod d),
     pTimeout = RArmed (now + 10000000000) (length (wpHeap st)), pNow = now\<rparr>"

definition s_waiting ::
    "nat \<Rightarrow> pod \<Rightarrow> nat \<Rightarrow> ('c, after_func list, 's) sched_state \<Rightarrow> time \<Rightarrow> time
       \<Rightarrow> ('c, 's) permit_race" where
  "s_waiting h pod d st now t = \<lparr>pSt = permit_registered h pod d st, pPc = CWait (length (wpHeap st)),
     pAfter = FArmed (now + int d * 1000000000) (permit_func h pod d),
     pTimeout = RArmed (now + 10000000000) (length (wpHeap st)), pNow = t\<rparr>"

definition s_found ::
    "nat \<Rightarrow> pod \<Rightarrow> nat \<Rightarrow> ('c, after_func list, 's) sched_state \<Rightarrow> time
       \<Rightarrow> ('c, 's) permit_race" where
  "s_found h pod d st now = \<lparr>pSt = permit_registered h pod d st, pPc = CWait (length (wpHeap st)),
     pAfter = FAllow (permit_func h pod d) (Some (length (wpHeap st))),
     pTimeout = RArmed (now + 10000000000) (length (wpHeap st)), pNow = now + int d * 1000000000\<rparr>"

definition s_allowed ::
    "('s, 'c) framework \<Rightarrow> nat \<Rightarrow> pod \<Rightarrow> nat \<Rightarrow> ('c, after_func list, 's) sched_state \<Rightarrow> time
       \<Rightarrow> ('c, 's) permit_race" where
  "s_allowed fw h pod d st now = \<lparr>pSt = permit_allowed fw h pod d st, pPc = CWait (length (wpHeap st)),
     pAfter = FDone,
     pTimeout = RArmed (now + 10000000000) (length (wpHeap st)), pNow = now + int d * 1000000000\<rparr>"

definition s_received ::
    "('s, 'c) framework \<Rightarrow> nat \<Rightarrow> pod \<Rightarrow> nat \<Rightarrow> ('c, after_func list, 's) sched_state \<Rightarrow> time \<Rightarrow> time
       \<Rightarrow> ('c, 's) permit_race" where
  "s_received fw h pod d st now t = \<lparr>pSt = permit_received fw h pod d st, pPc = CReturned None,
     pAfter = FDone, pTimeout = RArmed (now + 10000000000) (length (wpHeap st)), pNow = t\<rparr>"

lemmas instr_defs = permit_instr_def after_instr_def timeout_instr_def Let_def

lemma called_step:
  assumes "status_laws fw" and "permitPlugins (sched st) = [nodenumber_permit fw \<lparr>nnHandle = h\<rparr>]"
    and "suffix_digit nodename = Some d"
  shows "permit_step fw pod nodename Cycle (permit_start st now) = Inr (s_armed h pod d st now)"
  using permit_called [OF assms, of pod now] by (simp add: s_armed_def)

lemma start_steps:
  "permit_step fw pod nodename After (permit_start st now) = Inr (permit_start st now)"
  "permit_step fw pod nodename Timeout (permit_start st now) = Inr (permit_start st now)"
  "\<not> prompt_tick (permit_start st now) n"
  by (simp_all add: instr_defs permit_start_def prompt_tick_def blocked_pc_def)

lemma armed_steps:
  assumes "0 < d"
  shows "permit_step fw pod nodename Cycle (s_armed h pod d st now) = Inr (s_registered h pod d st now)"
    and "permit_step fw pod nodename After (s_armed h pod d st now) = Inr (s_armed h pod d st now)"
    and "permit_step fw pod nodename Timeout (s_armed h pod d st now) = Inr (s_armed h pod d st now)"
    and "\<not> prompt_tick (s_armed h pod d st now) n"
  using assms
  by (simp_all add: instr_defs s_armed_def s_registered_def permit_registered_def permit_armed_def
      time_Add_def sint_ten_seconds prompt_tick_def blocked_pc_def)

lemma registered_steps:
  assumes "0 < d"
  shows "permit_step fw pod nodename Cycle (s_registered h pod d st now) = Inr (s_waiting h pod d st now now)"
    and "permit_step fw pod nodename After (s_registered h pod d st now) = Inr (s_registered h pod d st now)"
    and "permit_step fw pod nodename Timeout (s_registered h pod d st now) = Inr (s_registered h pod d st now)"
    and "\<not> prompt_tick (s_registered h pod d st now) n"
  using assms
  by (simp_all add: instr_defs s_waiting_def s_registered_def permit_registered_def permit_armed_def
      GetWaitingPod_def NewWaitingPod_def prompt_tick_def blocked_pc_def)

lemma waiting_steps:
  assumes "d < 10" and "t \<le> now + int d * 1000000000"
  shows "permit_step fw pod nodename Cycle (s_waiting h pod d st now t) = Inr (s_waiting h pod d st now t)"
    and "permit_step fw pod nodename After (s_waiting h pod d st now t) =
      Inr (if t = now + int d * 1000000000 then s_found h pod d st now else s_waiting h pod d st now t)"
    and "permit_step fw pod nodename Timeout (s_waiting h pod d st now t) = Inr (s_waiting h pod d st now t)"
    and "permit_step fw pod nodename (Tick n) (s_waiting h pod d st now t) = Inr (s_waiting h pod d st now (t + int n))"
    and "prompt_tick (s_waiting h pod d st now t) n \<Longrightarrow> t + int n \<le> now + int d * 1000000000"
  using assms
  by (simp_all add: instr_defs s_waiting_def s_found_def permit_registered_def permit_armed_def permit_func_def
      GetWaitingPod_def NewWaitingPod_def wait_on_def GetSignal_def prompt_tick_def blocked_pc_def)

lemma found_steps:
  assumes "d < 10"
  shows "permit_step fw pod nodename Cycle (s_found h pod d st now) = Inr (s_found h pod d st now)"
    and "permit_step fw pod nodename After (s_found h pod d st now) = Inr (s_allowed fw h pod d st now)"
    and "permit_step fw pod nodename Timeout (s_found h pod d st now) = Inr (s_found h pod d st now)"
    and "\<not> prompt_tick (s_found h pod d st now) n"
  using assms
  by (simp_all add: instr_defs s_found_def s_allowed_def permit_state_defs permit_func_def NewWaitingPod_def
      wait_on_def GetSignal_def delayed_allow_def Allow_eq send_nonblocking_def prompt_tick_def fun_eq_iff)

lemma allowed_steps:
  assumes "status_laws fw"
  shows "permit_step fw pod nodename Cycle (s_allowed fw h pod d st now) =
      Inr (s_received fw h pod d st now (now + int d * 1000000000))"
    and "permit_step fw pod nodename After (s_allowed fw h pod d st now) = Inr (s_allowed fw h pod d st now)"
    and "permit_step fw pod nodename Timeout (s_allowed fw h pod d st now) = Inr (s_allowed fw h pod d st now)"
    and "\<not> prompt_tick (s_allowed fw h pod d st now) n"
  by (simp_all add: instr_defs s_allowed_def s_received_def permit_state_defs wait_on_def GetSignal_def
      wait_status_def status_laws_simps [OF assms] prompt_tick_def blocked_pc_def)

lemma received_steps:
  "permit_step fw pod nodename Cycle (s_received fw h pod d st now t) = Inr (s_received fw h pod d st now t)"
  "permit_step fw pod nodename After (s_received fw h pod d st now t) = Inr (s_received fw h pod d st now t)"
  "permit_step fw pod nodename Timeout (s_received fw h pod d st now t) = Inr (s_received fw h pod d st now t)"
  "permit_step fw pod nodename (Tick n) (s_received fw h pod d st now t) = Inr (s_received fw h pod d st now (t + int n))"
  by (simp_all add: instr_defs s_received_def permit_state_defs)

definition permit_phase ::
    "('s, 'c) framework \<Rightarrow> nat \<Rightarrow> pod \<Rightarrow> nat \<Rightarrow> ('c, after_func list, 's) sched_state \<Rightarrow> time
       \<Rightarrow> ('c, 's) permit_race \<Rightarrow> bool" where
  "permit_phase fw h pod d st now r \<longleftrightarrow>
     r = permit_start st now \<or> r = s_armed h pod d st now \<or> r = s_registered h pod d st now \<or>
     (\<exists>t. t \<le> now + int d * 1000000000 \<and> r = s_waiting h pod d st now t) \<or>
     r = s_found h pod d st now \<or> r = s_allowed fw h pod d st now \<or>
     (\<exists>t. now + int d * 1000000000 \<le> t \<and> r = s_received fw h pod d st now t)"

lemma permit_phaseI:
  "permit_phase fw h pod d st now (permit_start st now)"
  "permit_phase fw h pod d st now (s_armed h pod d st now)"
  "permit_phase fw h pod d st now (s_registered h pod d st now)"
  "t \<le> now + int d * 1000000000 \<Longrightarrow> permit_phase fw h pod d st now (s_waiting h pod d st now t)"
  "permit_phase fw h pod d st now (s_found h pod d st now)"
  "permit_phase fw h pod d st now (s_allowed fw h pod d st now)"
  "now + int d * 1000000000 \<le> t \<Longrightarrow> permit_phase fw h pod d st now (s_received fw h pod d st now t)"
  unfolding permit_phase_def by blast+

lemma permit_phase_step:
  assumes laws: "status_laws fw"
    and plugins: "permitPlugins (sched st) = [nodenumber_permit fw \<lparr>nnHandle = h\<rparr>]"
    and digit: "suffix_digit nodename = Some d" and pos: "0 < d"
    and phase: "permit_phase fw h pod d st now r" and tick: "\<forall>n. e = Tick n \<longrightarrow> prompt_tick r n"
  shows "\<exists>r'. permit_step fw pod nodename e r = Inr r' \<and> permit_phase fw h pod d st now r'"
proof -
  note less = suffix_digit_less [OF digit]
  have go: ?thesis if "permit_step fw pod nodename e r = Inr r'" "permit_phase fw h pod d st now r'" for r'
    using that by blast
  note called = called_step [OF laws plugins digit, of pod now]
  note steps = called start_steps armed_steps [OF pos] registered_steps [OF pos] found_steps [OF less]
    allowed_steps [OF laws] received_steps
  show ?thesis
    using phase [unfolded permit_phase_def]
  proof (elim disjE exE conjE)
    fix t
    assume t: "t \<le> now + int d * 1000000000" and r: "r = s_waiting h pod d st now t"
    show ?thesis
      using tick t waiting_steps(5) [OF less t] unfolding r
      by (cases e) (auto simp del: permit_step.simps simp: waiting_steps(1-4) [OF less t] intro!: permit_phaseI)
  qed (use tick in \<open>cases e; auto simp del: permit_step.simps simp: steps intro!: permit_phaseI\<close>)+
qed

lemma permit_phase_run:
  assumes "status_laws fw"
    and "permitPlugins (sched st) = [nodenumber_permit fw \<lparr>nnHandle = h\<rparr>]"
    and "suffix_digit nodename = Some d" and "0 < d"
    and "permit_phase fw h pod d st now r" and "prompt fw pod nodename es r"
  shows "\<exists>r'. permit_run fw pod nodename es r = Inr r' \<and> permit_phase fw h pod d st now r'"
  using assms(5,6)
proof (induction es arbitrary: r)
  case (Cons e es)
  from Cons.prems obtain r' where "permit_step fw pod nodename e r = Inr r'" "permit_phase fw h pod d st now r'"
    using permit_phase_step [OF assms(1-4), of pod now r e] by auto
  with Cons show ?case by (simp del: permit_step.simps)
qed simp

text \<open>What the phases say of the goroutine, and that each of them leads to the next.\<close>

lemmas phase_state_defs =
  permit_start_def s_armed_def s_registered_def s_waiting_def s_found_def s_allowed_def s_received_def

lemma permit_phase_returned:
  assumes "permit_phase fw h pod d st now r"
  shows "pPc r = CReturned s \<Longrightarrow> s = None \<and> now + int d * 1000000000 \<le> pNow r \<and> GetWaitingPod (podUID pod) (pSt r) = None"
    and "now + int d * 1000000000 < pNow r \<Longrightarrow> pPc r = CReturned None"
  using assms unfolding permit_phase_def
  by (elim disjE exE conjE; simp add: phase_state_defs permit_state_defs GetWaitingPod_def)+

definition permit_finishes ::
    "('s, 'c) framework \<Rightarrow> pod \<Rightarrow> string \<Rightarrow> ('c, 's) permit_race \<Rightarrow> bool" where
  "permit_finishes fw pod nodename r \<longleftrightarrow>
     (\<exists>es r'. prompt fw pod nodename es r \<and> permit_run fw pod nodename es r = Inr r' \<and> pPc r' = CReturned None)"

lemma permit_finishes_now: "pPc r = CReturned None \<Longrightarrow> permit_finishes fw pod nodename r"
  unfolding permit_finishes_def by (rule exI [of _ "[]"]) simp

lemma permit_finishes_step:
  assumes "permit_step fw pod nodename e r = Inr r1" and "permit_finishes fw pod nodename r1"
    and "\<forall>n. e = Tick n \<longrightarrow> prompt_tick r n"
  shows "permit_finishes fw pod nodename r"
proof -
  obtain es r' where "prompt fw pod nodename es r1" "permit_run fw pod nodename es r1 = Inr r'" "pPc r' = CReturned None"
    using assms(2) unfolding permit_finishes_def by blast
  with assms(1,3) show ?thesis
    unfolding permit_finishes_def by (intro exI [of _ "e # es"]) (simp del: permit_step.simps)
qed

lemma waiting_tick_prompt:
  assumes "d < 10" and "t < now + int d * 1000000000" and "t + int n \<le> now + int d * 1000000000"
  shows "prompt_tick (s_waiting h pod d st now t) n"
  using assms
  by (simp add: prompt_tick_def s_waiting_def blocked_pc_def GetSignal_def permit_registered_def permit_armed_def
      NewWaitingPod_def)

lemma permit_phase_finishes:
  assumes laws: "status_laws fw"
    and plugins: "permitPlugins (sched st) = [nodenumber_permit fw \<lparr>nnHandle = h\<rparr>]"
    and digit: "suffix_digit nodename = Some d" and pos: "0 < d"
    and phase: "permit_phase fw h pod d st now r"
  shows "permit_finishes fw pod nodename r"
proof -
  note less = suffix_digit_less [OF digit]
  define due where "due = now + int d * 1000000000"
  have received: "permit_finishes fw pod nodename (s_received fw h pod d st now t)" for t
    by (rule permit_finishes_now) (simp add: s_received_def)
  have allowed: "permit_finishes fw pod nodename (s_allowed fw h pod d st now)"
    by (rule permit_finishes_step [OF allowed_steps(1) [OF laws] received]) simp
  have found: "permit_finishes fw pod nodename (s_found h pod d st now)"
    by (rule permit_finishes_step [OF found_steps(2) [OF less] allowed]) simp
  have after_step: "permit_step fw pod nodename After (s_waiting h pod d st now due) = Inr (s_found h pod d st now)"
    using waiting_steps(2) [OF less, of due now fw pod nodename h st] by (simp add: due_def del: permit_step.simps)
  have at_due: "permit_finishes fw pod nodename (s_waiting h pod d st now due)"
    by (rule permit_finishes_step [OF after_step found]) simp
  have waiting: "permit_finishes fw pod nodename (s_waiting h pod d st now t)" if t: "t \<le> due" for t
  proof (cases "t = due")
    case False
    then have "t < due" using t by simp
    then have tick: "permit_step fw pod nodename (Tick (nat (due - t))) (s_waiting h pod d st now t) =
        Inr (s_waiting h pod d st now due)"
      using waiting_steps(4) [OF less, of t now fw pod nodename "nat (due - t)" h st]
      by (simp add: due_def del: permit_step.simps)
    show ?thesis
      by (rule permit_finishes_step [OF tick at_due])
        (use \<open>t < due\<close> in \<open>simp add: due_def waiting_tick_prompt less\<close>)
  qed (use at_due in simp)
  have registered: "permit_finishes fw pod nodename (s_registered h pod d st now)"
    by (rule permit_finishes_step [OF registered_steps(1) [OF pos] waiting]) (simp_all add: due_def)
  have armed: "permit_finishes fw pod nodename (s_armed h pod d st now)"
    by (rule permit_finishes_step [OF armed_steps(1) [OF pos] registered]) simp
  have start: "permit_finishes fw pod nodename (permit_start st now)"
    by (rule permit_finishes_step [OF called_step [OF laws plugins digit] armed]) simp
  show ?thesis
    using phase received allowed found waiting registered armed start
    unfolding permit_phase_def due_def by blast
qed

text \<open>A node whose name ends in 0: the function runs before the pod is registered.\<close>

lemma early_timer_panics:
  assumes "status_laws fw"
    and "permitPlugins (sched st) = [nodenumber_permit fw \<lparr>nnHandle = h\<rparr>]"
    and "suffix_digit nodename = Some 0" and "waitingPods (sched st) (podUID pod) = None"
  shows "prompt fw pod nodename [Cycle, After, After] (permit_start st now)"
    and "permit_run fw pod nodename [Cycle, After, After] (permit_start st now) = Inl NilDeref"
  using permit_called [OF assms(1-3), of pod now] assms(4)
  by (simp_all add: instr_defs permit_armed_def permit_func_def GetWaitingPod_def delayed_allow_def)

text \<open>A function that runs late, after the timeout has rejected the pod.\<close>

lemma late_timer_panics:
  assumes "status_laws fw"
    and "permitPlugins (sched st) = [nodenumber_permit fw \<lparr>nnHandle = h\<rparr>]"
    and "suffix_digit nodename = Some d"
  shows "permit_run fw pod nodename
     [Cycle, Cycle, Cycle, Tick 10000000000, Timeout, Timeout, Cycle, After, After] (permit_start st now) =
       Inl NilDeref"
  using permit_called [OF assms, of pod now] suffix_digit_less [OF assms(3)]
  by (simp add: instr_defs permit_armed_def permit_func_def GetWaitingPod_def delayed_allow_def NewWaitingPod_def
      time_Add_def sint_ten_seconds Reject_def send_nonblocking_def wait_on_def GetSignal_def)

text \<open>A scheduler with \<open>NodeNumber\<close> as its only permit plugin, for the witnesses.\<close>

definition permit_sample :: "(string \<rightharpoonup> state_data, after_func list, sample_status) sched_state" where
  "permit_sample =
     \<lparr>sched = \<lparr>SchedulingQueue = queue_New [], waitingPods = Map.empty, filterPlugins = [],
        preScorePlugins = [], scorePlugins = [],
        permitPlugins = [nodenumber_permit sample_framework \<lparr>nnHandle = 0\<rparr>]\<rparr>,
      wpHeap = [], world = \<lparr>cycleState = Map.empty, pluginState = []\<rparr>\<rparr>"





end
