(* ===== verification/Queue_Race.thy ===== *)
theory Queue_Race
  imports Scheduling_Queue
begin

text \<open>
  \<open>Add\<close> holds the lock of the queue and \<open>NextPod\<close> does not take it.  Here the two run
  concurrently, one instruction at a time: the event handler's goroutine that appends a pod,
  and the scheduling goroutine that removes the head.  \<open>race_run\<close> runs them under a
  schedule, which says whose instruction is next.
\<close>

datatype next_pc =
    NSpin                                         \<comment> \<open>\<open>for len(s.activeQ) == 0\<close>\<close>
  | NHead                                         \<comment> \<open>\<open>p := s.activeQ[0]\<close>\<close>
  | NTail queued_pod_info                         \<comment> \<open>read \<open>s.activeQ[1:]\<close>\<close>
  | NStore queued_pod_info "queued_pod_info list" \<comment> \<open>assign it to \<open>s.activeQ\<close>\<close>
  | NReturned pod

datatype add_pc =
    AAppend queued_pod_info        \<comment> \<open>read \<open>append(s.activeQ, podInfo)\<close>, lock held\<close>
  | AStore "queued_pod_info list"  \<comment> \<open>assign it to \<open>s.activeQ\<close>\<close>
  | AReturned

record race =
  shared :: "queued_pod_info list"
  npc :: next_pc
  apc :: add_pc

datatype thread = NextThread | AddThread

fun next_instr :: "race \<Rightarrow> panic + race" where
  "next_instr s =
     (case npc s of
        NSpin \<Rightarrow> Inr (if shared s = [] then s else s\<lparr>npc := NHead\<rparr>)
      | NHead \<Rightarrow> (case shared s of [] \<Rightarrow> Inl IndexOutOfRange | p # _ \<Rightarrow> Inr (s\<lparr>npc := NTail p\<rparr>))
      | NTail p \<Rightarrow> (case shared s of
            [] \<Rightarrow> Inl IndexOutOfRange | _ # rest \<Rightarrow> Inr (s\<lparr>npc := NStore p rest\<rparr>))
      | NStore p rest \<Rightarrow> Inr (s\<lparr>shared := rest, npc := NReturned (Pod p)\<rparr>)
      | NReturned p \<Rightarrow> Inr s)"

fun add_instr :: "race \<Rightarrow> race" where
  "add_instr s =
     (case apc s of
        AAppend p \<Rightarrow> s\<lparr>apc := AStore (shared s @ [p])\<rparr>
      | AStore q \<Rightarrow> s\<lparr>shared := q, apc := AReturned\<rparr>
      | AReturned \<Rightarrow> s)"

fun race_run :: "thread list \<Rightarrow> race \<Rightarrow> panic + race" where
  "race_run [] s = Inr s"
| "race_run (AddThread # ts) s = race_run ts (add_instr s)"
| "race_run (NextThread # ts) s =
     (case next_instr s of Inl e \<Rightarrow> Inl e | Inr s' \<Rightarrow> race_run ts s')"

text \<open>One pod is active and a second one arrives while the scheduler takes the first.\<close>

definition race_init :: "queued_pod_info \<Rightarrow> queued_pod_info \<Rightarrow> race" where
  "race_init p1 p2 = \<lparr>shared = [p1], npc = NSpin, apc = AAppend p2\<rparr>"

text \<open>
  The states that a schedule can reach: which list each goroutine has read depends on how
  far the other one was.
\<close>

definition race_inv :: "queued_pod_info \<Rightarrow> queued_pod_info \<Rightarrow> race \<Rightarrow> bool" where
  "race_inv p1 p2 s \<longleftrightarrow>
     (case npc s of
        NReturned x \<Rightarrow> x = Pod p1 \<and>
          (case apc s of
             AAppend p \<Rightarrow> p = p2 \<and> shared s = []
           | AStore q \<Rightarrow> shared s = [] \<and> (q = [p1, p2] \<or> q = [p2])
           | AReturned \<Rightarrow> shared s = [p2] \<or> shared s = [] \<or> shared s = [p1, p2])
      | NStore p rest \<Rightarrow> p = p1 \<and> (rest = [] \<or> rest = [p2] \<and> apc s = AReturned) \<and>
          (case apc s of
             AAppend q \<Rightarrow> q = p2 \<and> shared s = [p1]
           | AStore q \<Rightarrow> q = [p1, p2] \<and> shared s = [p1]
           | AReturned \<Rightarrow> shared s = [p1, p2])
      | pc \<Rightarrow> (\<forall>p. pc = NTail p \<longrightarrow> p = p1) \<and>
          (case apc s of
             AAppend q \<Rightarrow> q = p2 \<and> shared s = [p1]
           | AStore q \<Rightarrow> q = [p1, p2] \<and> shared s = [p1]
           | AReturned \<Rightarrow> shared s = [p1, p2]))"

lemma race_inv_add: "race_inv p1 p2 s \<Longrightarrow> race_inv p1 p2 (add_instr s)"
  by (auto simp: race_inv_def split: next_pc.splits add_pc.splits)

lemma race_inv_next: "race_inv p1 p2 s \<Longrightarrow> next_instr s = Inr s' \<Longrightarrow> race_inv p1 p2 s'"
  by (auto simp: race_inv_def split: next_pc.splits add_pc.splits list.splits if_splits)

lemma race_inv_run: "race_inv p1 p2 s \<Longrightarrow> race_run ts s = Inr s' \<Longrightarrow> race_inv p1 p2 s'"
  by (induction ts s rule: race_run.induct)
     (auto split: sum.splits intro: race_inv_add race_inv_next simp del: next_instr.simps add_instr.simps)

text \<open>
  C35: when a pod is added while the scheduler takes one, three outcomes are possible, because
  \<open>NextPod\<close> updates the active queue without the lock: the new pod is queued (as it should
  be), the new pod is lost, or the pod that was handed out is still queued and will be handed
  out again.  No other outcome is.
\<close>

theorem unlocked_NextPod_outcomes:
  "(\<exists>ts s. race_run ts (race_init p1 p2) = Inr s \<and> npc s = NReturned p \<and> apc s = AReturned \<and>
      shared s = q) \<longleftrightarrow>
   p = Pod p1 \<and> (q = [p2] \<or> q = [] \<or> q = [p1, p2])"
  (is "?lhs \<longleftrightarrow> ?rhs")
proof
  assume ?lhs
  then obtain ts s where run: "race_run ts (race_init p1 p2) = Inr s"
    and s: "npc s = NReturned p" "apc s = AReturned" "shared s = q"
    by blast
  have "race_inv p1 p2 (race_init p1 p2)"
    by (simp add: race_inv_def race_init_def)
  from race_inv_run [OF this run] s show ?rhs
    by (auto simp: race_inv_def)
next
  let ?N = NextThread and ?A = AddThread
  assume ?rhs
  then have p: "p = Pod p1" and "q = [p2] \<or> q = [] \<or> q = [p1, p2]" by simp_all
  moreover have "\<exists>ts. race_run ts (race_init p1 p2) =
      Inr \<lparr>shared = [p2], npc = NReturned (Pod p1), apc = AReturned\<rparr>"
    by (rule exI [of _ "[?N, ?N, ?N, ?N, ?A, ?A]"]) (simp add: race_init_def)
  moreover have "\<exists>ts. race_run ts (race_init p1 p2) =
      Inr \<lparr>shared = [], npc = NReturned (Pod p1), apc = AReturned\<rparr>"
    by (rule exI [of _ "[?N, ?N, ?N, ?A, ?A, ?N]"]) (simp add: race_init_def)
  moreover have "\<exists>ts. race_run ts (race_init p1 p2) =
      Inr \<lparr>shared = [p1, p2], npc = NReturned (Pod p1), apc = AReturned\<rparr>"
    by (rule exI [of _ "[?N, ?N, ?N, ?A, ?N, ?A]"]) (simp add: race_init_def)
  ultimately show ?lhs by fastforce
qed

end
