(* ===== verification/Result_Store.thy ===== *)
theory Result_Store
  imports Framework "HOL-Library.List_Lexorder" "HOL-Library.Char_ord"
begin

text \<open>
  The store of scheduling results, \<open>scheduler/plugin/resultstore/store.go\<close>, with
  \<open>scheduler/plugin/annotation/annotation.go\<close> and \<open>util/retry.go\<close>: results are recorded
  under the key of a pod and written to the pod's annotations when the pod is updated.  The
  interface that the recording plugins rely on is the locale \<open>result_store\<close>, interpreted
  here on the model of the code.
\<close>

section \<open>State\<close>

text \<open>From the name of a node to the name of a plugin to the text recorded for both.\<close>

type_synonym result_map = "string \<rightharpoonup> (string \<rightharpoonup> string)"

record result =
  rScore :: result_map
  rFinalscore :: result_map
  rFilter :: result_map

record store =
  results :: "string \<rightharpoonup> result"
  scorePluginWeight :: "string \<rightharpoonup> 32 word"

definition PassedFilterMessage :: string where
  "PassedFilterMessage = ''passed''"

definition store_New :: "(string \<rightharpoonup> 32 word) \<Rightarrow> store" where
  "store_New weights = \<lparr>results = Map.empty, scorePluginWeight = weights\<rparr>"

definition newKey :: "string \<Rightarrow> string \<Rightarrow> string" where
  "newKey namespace podname = namespace @ ''/'' @ podname"

text \<open>A namespace holds no slash, so the key determines the namespace and the name.\<close>

definition ns_ok :: "string \<Rightarrow> bool" where
  "ns_ok namespace \<longleftrightarrow> CHR ''/'' \<notin> set namespace"

interpretation nk: pair_key newKey "\<lambda>namespace podname. ns_ok namespace"
proof (unfold_locales, goal_cases)
  case (1 a b a' b')
  then show ?case
    using append_sep_inject [of a "CHR ''/''" b a' b'] by (simp add: newKey_def ns_ok_def)
qed

definition newData :: result where
  "newData = \<lparr>rScore = Map.empty, rFinalscore = Map.empty, rFilter = Map.empty\<rparr>"

section \<open>Recording\<close>

text \<open>The result under a key, which is created if there is none.\<close>

definition ensure_result :: "string \<Rightarrow> store \<Rightarrow> store" where
  "ensure_result k s =
     (if results s k = None then s\<lparr>results := (results s)(k \<mapsto> newData)\<rparr> else s)"

text \<open>\<open>m[nodeName][pluginName] = v\<close>, where the inner map is created if there is none.\<close>

definition set_entry :: "string \<Rightarrow> string \<Rightarrow> string \<Rightarrow> result_map \<Rightarrow> result_map" where
  "set_entry nodename pluginname v m =
     (let m = (if m nodename = None then m(nodename \<mapsto> Map.empty) else m)
      in m(nodename \<mapsto> (the (m nodename))(pluginname \<mapsto> v)))"

definition update_result :: "string \<Rightarrow> (result \<Rightarrow> result) \<Rightarrow> store \<Rightarrow> store" where
  "update_result k f s =
     (let s = ensure_result k s
      in s\<lparr>results := (results s)(k \<mapsto> f (the (results s k)))\<rparr>)"

definition applyWeightOnScore :: "store \<Rightarrow> string \<Rightarrow> int64 \<Rightarrow> int64" where
  "applyWeightOnScore s pluginname score =
     (let weight = (case scorePluginWeight s pluginname of None \<Rightarrow> 0 | Some w \<Rightarrow> w)
      in score * scast weight)"

definition AddFilterResult :: "string \<Rightarrow> string \<Rightarrow> string \<Rightarrow> string \<Rightarrow> string \<Rightarrow> store \<Rightarrow> store" where
  "AddFilterResult namespace podname nodename pluginname reason s =
     update_result (newKey namespace podname)
       (\<lambda>r. r\<lparr>rFilter := set_entry nodename pluginname reason (rFilter r)\<rparr>) s"

definition addNormalizedScoreResultWithoutLock ::
    "string \<Rightarrow> string \<Rightarrow> string \<Rightarrow> string \<Rightarrow> int64 \<Rightarrow> store \<Rightarrow> store" where
  "addNormalizedScoreResultWithoutLock namespace podname nodename pluginname normalizedscore s =
     (let finalscore = applyWeightOnScore s pluginname normalizedscore
      in update_result (newKey namespace podname)
           (\<lambda>r. r\<lparr>rFinalscore :=
              set_entry nodename pluginname (FormatInt (sint finalscore)) (rFinalscore r)\<rparr>) s)"

definition AddNormalizedScoreResult ::
    "string \<Rightarrow> string \<Rightarrow> string \<Rightarrow> string \<Rightarrow> int64 \<Rightarrow> store \<Rightarrow> store" where
  "AddNormalizedScoreResult = addNormalizedScoreResultWithoutLock"

definition AddScoreResult :: "string \<Rightarrow> string \<Rightarrow> string \<Rightarrow> string \<Rightarrow> int64 \<Rightarrow> store \<Rightarrow> store" where
  "AddScoreResult namespace podname nodename pluginname score s =
     addNormalizedScoreResultWithoutLock namespace podname nodename pluginname score
       (update_result (newKey namespace podname)
          (\<lambda>r. r\<lparr>rScore := set_entry nodename pluginname (FormatInt (sint score)) (rScore r)\<rparr>) s)"

definition DeleteData :: "string \<Rightarrow> store \<Rightarrow> store" where
  "DeleteData k s = s\<lparr>results := (results s)(k := None)\<rparr>"

section \<open>The contract of the store\<close>

text \<open>What is recorded for a pod, a node and a plugin.\<close>

definition recorded ::
    "(result \<Rightarrow> result_map) \<Rightarrow> store \<Rightarrow> string \<Rightarrow> string \<Rightarrow> string \<Rightarrow> string \<Rightarrow> string option" where
  "recorded field s namespace podname nodename pluginname =
     (case results s (newKey namespace podname) of
        None \<Rightarrow> None
      | Some r \<Rightarrow> (case field r nodename of None \<Rightarrow> None | Some m \<Rightarrow> m pluginname))"

lemma set_entry_lookup:
  "(case set_entry n p v m n' of None \<Rightarrow> None | Some x \<Rightarrow> x p') =
     (if n' = n \<and> p' = p then Some v else case m n' of None \<Rightarrow> None | Some x \<Rightarrow> x p')"
  by (auto simp: set_entry_def Let_def split: option.split)

lemma recorded_update:
  assumes "ns_ok ns" and "ns_ok ns'"
    and "\<And>r. field (f r) = (if hit then set_entry n pl v (field r) else field r)"
    and "field newData = Map.empty"
  shows "recorded field (update_result (newKey ns p) f s) ns' p' n' pl' =
     (if hit \<and> ns' = ns \<and> p' = p \<and> n' = n \<and> pl' = pl then Some v
      else recorded field s ns' p' n' pl')"
proof (cases "ns' = ns \<and> p' = p")
  case True
  show ?thesis
  proof (cases "results s (newKey ns p)")
    case None
    then show ?thesis
      using True assms(3) [of newData] assms(4) set_entry_lookup [where n = n and p = pl and v = v and m = Map.empty and n' = n' and p' = pl']
      by (auto simp: recorded_def update_result_def ensure_result_def Let_def)
  next
    case (Some r)
    then show ?thesis
      using True assms(3) [of r] set_entry_lookup [where n = n and p = pl and v = v and m = "field r" and n' = n' and p' = pl']
      by (auto simp: recorded_def update_result_def ensure_result_def Let_def)
  qed
next
  case False
  then have "newKey ns' p' \<noteq> newKey ns p"
    using nk.key_eq_iff [OF assms(2,1)] by blast
  then show ?thesis
    using False by (auto simp: recorded_def update_result_def ensure_result_def Let_def)
qed

lemma recorded_hit:
  assumes "ns_ok ns" and "ns_ok ns'"
  shows "recorded rFilter (update_result (newKey ns p)
             (\<lambda>r. r\<lparr>rFilter := set_entry n pl v (rFilter r)\<rparr>) s) ns' p' n' pl' =
           (if ns' = ns \<and> p' = p \<and> n' = n \<and> pl' = pl then Some v else recorded rFilter s ns' p' n' pl')"
    and "recorded rScore (update_result (newKey ns p)
             (\<lambda>r. r\<lparr>rScore := set_entry n pl v (rScore r)\<rparr>) s) ns' p' n' pl' =
           (if ns' = ns \<and> p' = p \<and> n' = n \<and> pl' = pl then Some v else recorded rScore s ns' p' n' pl')"
    and "recorded rFinalscore (update_result (newKey ns p)
             (\<lambda>r. r\<lparr>rFinalscore := set_entry n pl v (rFinalscore r)\<rparr>) s) ns' p' n' pl' =
           (if ns' = ns \<and> p' = p \<and> n' = n \<and> pl' = pl then Some v else recorded rFinalscore s ns' p' n' pl')"
  using recorded_update [OF assms, where hit = True and n = n and pl = pl and v = v]
  by (simp_all add: newData_def)

lemma recorded_miss:
  assumes "ns_ok ns" and "ns_ok ns'" and "\<And>r. field (f r) = field r" and "field newData = Map.empty"
  shows "recorded field (update_result (newKey ns p) f s) ns' p' n' pl' = recorded field s ns' p' n' pl'"
  using recorded_update [OF assms(1,2), where hit = False] assms(3,4) by simp

locale result_store =
  fixes add_filter :: "string \<Rightarrow> string \<Rightarrow> string \<Rightarrow> string \<Rightarrow> string \<Rightarrow> 'st \<Rightarrow> 'st"
    and add_score :: "string \<Rightarrow> string \<Rightarrow> string \<Rightarrow> string \<Rightarrow> int64 \<Rightarrow> 'st \<Rightarrow> 'st"
    and add_normalized :: "string \<Rightarrow> string \<Rightarrow> string \<Rightarrow> string \<Rightarrow> int64 \<Rightarrow> 'st \<Rightarrow> 'st"
    and filter_of :: "'st \<Rightarrow> string \<Rightarrow> string \<Rightarrow> string \<Rightarrow> string \<Rightarrow> string option"
    and score_of :: "'st \<Rightarrow> string \<Rightarrow> string \<Rightarrow> string \<Rightarrow> string \<Rightarrow> string option"
    and final_of :: "'st \<Rightarrow> string \<Rightarrow> string \<Rightarrow> string \<Rightarrow> string \<Rightarrow> string option"
    and weighted :: "'st \<Rightarrow> string \<Rightarrow> int64 \<Rightarrow> int64"
    and ok :: "string \<Rightarrow> bool"
  assumes filter_of_add_filter: "ok ns \<Longrightarrow> ok ns' \<Longrightarrow>
        filter_of (add_filter ns p n pl r s) ns' p' n' pl' =
          (if ns' = ns \<and> p' = p \<and> n' = n \<and> pl' = pl then Some r else filter_of s ns' p' n' pl')"
    and score_of_add_score: "ok ns \<Longrightarrow> ok ns' \<Longrightarrow>
        score_of (add_score ns p n pl v s) ns' p' n' pl' =
          (if ns' = ns \<and> p' = p \<and> n' = n \<and> pl' = pl then Some (FormatInt (sint v))
           else score_of s ns' p' n' pl')"
    and final_of_add_score: "ok ns \<Longrightarrow> ok ns' \<Longrightarrow>
        final_of (add_score ns p n pl v s) ns' p' n' pl' =
          (if ns' = ns \<and> p' = p \<and> n' = n \<and> pl' = pl then Some (FormatInt (sint (weighted s pl v)))
           else final_of s ns' p' n' pl')"
    and final_of_add_normalized: "ok ns \<Longrightarrow> ok ns' \<Longrightarrow>
        final_of (add_normalized ns p n pl v s) ns' p' n' pl' =
          (if ns' = ns \<and> p' = p \<and> n' = n \<and> pl' = pl then Some (FormatInt (sint (weighted s pl v)))
           else final_of s ns' p' n' pl')"
    and score_of_add_filter: "ok ns \<Longrightarrow> ok ns' \<Longrightarrow>
        score_of (add_filter ns p n pl r s) ns' p' n' pl' = score_of s ns' p' n' pl'"
    and final_of_add_filter: "ok ns \<Longrightarrow> ok ns' \<Longrightarrow>
        final_of (add_filter ns p n pl r s) ns' p' n' pl' = final_of s ns' p' n' pl'"
    and filter_of_add_score: "ok ns \<Longrightarrow> ok ns' \<Longrightarrow>
        filter_of (add_score ns p n pl v s) ns' p' n' pl' = filter_of s ns' p' n' pl'"
    and score_of_add_normalized: "ok ns \<Longrightarrow> ok ns' \<Longrightarrow>
        score_of (add_normalized ns p n pl v s) ns' p' n' pl' = score_of s ns' p' n' pl'"
    and filter_of_add_normalized: "ok ns \<Longrightarrow> ok ns' \<Longrightarrow>
        filter_of (add_normalized ns p n pl v s) ns' p' n' pl' = filter_of s ns' p' n' pl'"
    and weighted_add_filter: "weighted (add_filter ns p n pl r s) = weighted s"
    and weighted_add_score: "weighted (add_score ns p n pl v s) = weighted s"
    and weighted_add_normalized: "weighted (add_normalized ns p n pl v s) = weighted s"
begin

text \<open>A client that records the filter results of a list of nodes, one after the other.\<close>

primrec record_filters :: "string \<Rightarrow> string \<Rightarrow> string \<Rightarrow> (string \<times> string) list \<Rightarrow> 'st \<Rightarrow> 'st" where
  "record_filters ns p pl [] s = s"
| "record_filters ns p pl (x # xs) s = record_filters ns p pl xs (add_filter ns p (fst x) pl (snd x) s)"

lemma filter_of_record_filters:
  "ok ns \<Longrightarrow> ok ns' \<Longrightarrow> distinct (map fst xs) \<Longrightarrow>
     filter_of (record_filters ns p pl xs s) ns' p' n' pl' =
       (if ns' = ns \<and> p' = p \<and> pl' = pl \<and> n' \<in> fst ` set xs then map_of xs n'
        else filter_of s ns' p' n' pl')"
  by (induction xs arbitrary: s) (auto simp: filter_of_add_filter)

end

lemma weight_update [simp]: "scorePluginWeight (update_result k f s) = scorePluginWeight s"
  by (simp add: update_result_def ensure_result_def Let_def)

lemma applyWeight_update [simp]: "applyWeightOnScore (update_result k f s) = applyWeightOnScore s"
  by (simp add: applyWeightOnScore_def fun_eq_iff)

interpretation rs: result_store AddFilterResult AddScoreResult AddNormalizedScoreResult
    "recorded rFilter" "recorded rScore" "recorded rFinalscore" applyWeightOnScore ns_ok
  by unfold_locales
     (simp_all add: AddFilterResult_def AddScoreResult_def AddNormalizedScoreResult_def
        addNormalizedScoreResultWithoutLock_def Let_def fun_eq_iff newData_def
        recorded_hit recorded_miss)

section \<open>Encoding results\<close>

text \<open>
  \<open>json.Marshal\<close> on a map: an object with the keys in ascending order.  Characters that
  JSON or HTML treat specially are escaped; the model is for strings of ASCII characters,
  which the names of Kubernetes objects are.
\<close>

definition json_char :: "char \<Rightarrow> string" where
  "json_char c =
     (let n = of_char c :: nat
      in if n = 34 \<or> n = 92 then [CHR 0x5C, c]
         else if n = 10 then [CHR 0x5C, CHR ''n'']
         else if n = 13 then [CHR 0x5C, CHR ''r'']
         else if n = 9 then [CHR 0x5C, CHR ''t'']
         else if n < 32 \<or> n = 38 \<or> n = 60 \<or> n = 62
         then [CHR 0x5C, CHR ''u'', CHR ''0'', CHR ''0'', hex_digit (n div 16), hex_digit (n mod 16)]
         else [c])"

definition json_string :: "string \<Rightarrow> string" where
  "json_string s = [CHR 0x22] @ concat (map json_char s) @ [CHR 0x22]"

fun comma_separated :: "string list \<Rightarrow> string" where
  "comma_separated [] = []"
| "comma_separated [x] = x"
| "comma_separated (x # y # xs) = x @ [CHR '',''] @ comma_separated (y # xs)"

definition json_object :: "(string \<times> string) list \<Rightarrow> string" where
  "json_object kvs =
     [CHR 0x7B] @ comma_separated (map (\<lambda>(k, v). json_string k @ [CHR '':''] @ v) kvs) @ [CHR 0x7D]"

definition json_map :: "('v \<Rightarrow> string) \<Rightarrow> (string \<rightharpoonup> 'v) \<Rightarrow> string" where
  "json_map enc m = json_object (map (\<lambda>k. (k, enc (the (m k)))) (sorted_list_of_set (dom m)))"

definition json_marshal :: "result_map \<Rightarrow> string" where
  "json_marshal = json_map (json_map json_string)"

section \<open>Reflecting results on the pod\<close>

definition FilterResultAnnotationKey :: string where
  "FilterResultAnnotationKey = ''scheduler-simulator/filter-result''"

definition ScoreResultAnnotationKey :: string where
  "ScoreResultAnnotationKey = ''scheduler-simulator/score-result''"

definition FinalScoreResultAnnotationKey :: string where
  "FinalScoreResultAnnotationKey = ''scheduler-simulator/finalscore-result''"

record api_pod = pod +
  podAnnotations :: "string \<rightharpoonup> string"

datatype watched_obj = WatchedPod api_pod | WatchedOther nat

text \<open>
  \<open>wait.Backoff\<close>, and the library functions that the code calls: a condition reports whether
  it holds, or an error; \<open>'w\<close> is the state of the API server.
\<close>

record backoff =
  bDuration :: duration
  bFactor :: nat
  bJitter :: nat
  bSteps :: nat

type_synonym 'w condition = "'w \<Rightarrow> (bool \<times> goerror option) \<times> 'w"

record 'w store_lib =
  SetMetaDataAnnotation :: "api_pod \<Rightarrow> string \<Rightarrow> string \<Rightarrow> api_pod"
  UpdatePod :: "api_pod \<Rightarrow> 'w \<Rightarrow> goerror option \<times> 'w"
  ExponentialBackoff :: "backoff \<Rightarrow> 'w condition \<Rightarrow> 'w \<Rightarrow> goerror option \<times> 'w"

definition RetryWithExponentialBackOff ::
    "'w store_lib \<Rightarrow> 'w condition \<Rightarrow> 'w \<Rightarrow> goerror option \<times> 'w" where
  "RetryWithExponentialBackOff lib fn w =
     (let backoff = \<lparr>bDuration = 100000000, bFactor = 3, bJitter = 0, bSteps = 6\<rparr>
      in ExponentialBackoff lib backoff fn w)"

definition result_annotation ::
    "'w store_lib \<Rightarrow> string \<Rightarrow> (result \<Rightarrow> result_map) \<Rightarrow> store \<Rightarrow> api_pod \<Rightarrow> panic + api_pod" where
  "result_annotation lib annotation field s pod =
     (case results s (newKey (podNamespace pod) (podName pod)) of
        None \<Rightarrow> Inl NilDeref
      | Some r \<Rightarrow> Inr (SetMetaDataAnnotation lib pod annotation (json_marshal (field r))))"

definition addFilterResultToPod :: "'w store_lib \<Rightarrow> store \<Rightarrow> api_pod \<Rightarrow> panic + api_pod" where
  "addFilterResultToPod lib = result_annotation lib FilterResultAnnotationKey rFilter"

definition addScoreResultToPod :: "'w store_lib \<Rightarrow> store \<Rightarrow> api_pod \<Rightarrow> panic + api_pod" where
  "addScoreResultToPod lib = result_annotation lib ScoreResultAnnotationKey rScore"

definition addFinalScoreResultToPod :: "'w store_lib \<Rightarrow> store \<Rightarrow> api_pod \<Rightarrow> panic + api_pod" where
  "addFinalScoreResultToPod lib = result_annotation lib FinalScoreResultAnnotationKey rFinalscore"

definition updateFunc :: "'w store_lib \<Rightarrow> api_pod \<Rightarrow> 'w condition" where
  "updateFunc lib pod w =
     (let (err, w) = UpdatePod lib pod w
      in if err \<noteq> None then ((False, Some (Errorf ''update pod: %v'' [] err)), w)
         else ((True, None), w))"

definition addSchedulingResultToPod ::
    "'w store_lib \<Rightarrow> watched_obj \<Rightarrow> store \<Rightarrow> 'w \<Rightarrow> panic + store \<times> 'w" where
  "addSchedulingResultToPod lib newObj s w =
     (case newObj of
        WatchedOther i \<Rightarrow> Inr (s, w)
      | WatchedPod pod \<Rightarrow>
          let k = newKey (podNamespace pod) (podName pod)
          in if results s k = None then Inr (s, w)
             else case addFilterResultToPod lib s pod of
                 Inl e \<Rightarrow> Inl e
               | Inr pod \<Rightarrow>
                   (case addScoreResultToPod lib s pod of
                      Inl e \<Rightarrow> Inl e
                    | Inr pod \<Rightarrow>
                        (case addFinalScoreResultToPod lib s pod of
                           Inl e \<Rightarrow> Inl e
                         | Inr pod \<Rightarrow>
                             let (err, w) = RetryWithExponentialBackOff lib (updateFunc lib pod) w
                             in if err \<noteq> None then Inr (s, w) else Inr (DeleteData k s, w))))"

text \<open>
  What the libraries document: an annotation is set on the pod and nothing else changes; the
  backoff returns at once when the condition holds or returns an error.
\<close>

definition store_lib_laws :: "'w store_lib \<Rightarrow> bool" where
  "store_lib_laws lib \<longleftrightarrow>
     (\<forall>pod k v. SetMetaDataAnnotation lib pod k v =
        pod\<lparr>podAnnotations := (podAnnotations pod)(k \<mapsto> v)\<rparr>) \<and>
     (\<forall>b fn w ok err w'. 0 < bSteps b \<longrightarrow> fn w = ((ok, err), w') \<longrightarrow> ok \<or> err \<noteq> None \<longrightarrow>
        ExponentialBackoff lib b fn w = (err, w'))"

lemma backoff_returns:
  assumes "store_lib_laws lib" and "0 < bSteps b"
    and "fn w = ((ok, err), w')" and "ok \<or> err \<noteq> None"
  shows "ExponentialBackoff lib b fn w = (err, w')"
  using assms unfolding store_lib_laws_def by metis

lemma retry_update:
  assumes "store_lib_laws lib" and "UpdatePod lib pod w = (err, w')"
  shows "RetryWithExponentialBackOff lib (updateFunc lib pod) w =
           (map_option (\<lambda>e. Errorf ''update pod: %v'' [] (Some e)) err, w')"
proof -
  let ?err = "map_option (\<lambda>e. Errorf ''update pod: %v'' [] (Some e)) err"
  have "updateFunc lib pod w = ((err = None, ?err), w')"
    using assms(2) by (cases err) (simp_all add: updateFunc_def)
  then show ?thesis
    unfolding RetryWithExponentialBackOff_def Let_def
    by (intro backoff_returns [OF assms(1), where ok = "err = None"]) auto
qed

text \<open>
  A client whose updates succeed, and keeps the pods it was sent; its backoff tries once.
\<close>

definition sample_lib :: "api_pod list store_lib" where
  "sample_lib =
     \<lparr>SetMetaDataAnnotation = \<lambda>pod k v. pod\<lparr>podAnnotations := (podAnnotations pod)(k \<mapsto> v)\<rparr>,
      UpdatePod = \<lambda>pod w. (None, w @ [pod]),
      ExponentialBackoff = \<lambda>b fn w. (let ((ok, err), w') = fn w in (err, w'))\<rparr>"

lemma sample_lib_laws: "store_lib_laws sample_lib"
  by (simp add: store_lib_laws_def sample_lib_def)

definition sample_api_pod :: api_pod where
  "sample_api_pod = \<lparr>podName = ''pod1'', podNamespace = ''default'', podUID = ''u1'', podNodeName = [],
     podAnnotations = Map.empty\<rparr>"

section \<open>What the store promises\<close>



text \<open>
  C30: when a pod with results is updated, the update that is sent carries the three results
  as JSON in its annotations, and the results are forgotten exactly if it succeeds.  It is
  sent once: the function given to \<open>RetryWithExponentialBackOff\<close> returns the error of the
  update, which ends the retries, so a failed update is never repeated.
\<close>

theorem addSchedulingResultToPod_effect:
  assumes "store_lib_laws lib"
  shows "case results s (newKey (podNamespace pod) (podName pod)) of
       None \<Rightarrow> addSchedulingResultToPod lib (WatchedPod pod) s w = Inr (s, w)
     | Some r \<Rightarrow>
         (let (err, w') = UpdatePod lib (pod\<lparr>podAnnotations := (podAnnotations pod)
                (FilterResultAnnotationKey \<mapsto> json_marshal (rFilter r),
                 ScoreResultAnnotationKey \<mapsto> json_marshal (rScore r),
                 FinalScoreResultAnnotationKey \<mapsto> json_marshal (rFinalscore r))\<rparr>) w
          in addSchedulingResultToPod lib (WatchedPod pod) s w =
               Inr (if err = None then DeleteData (newKey (podNamespace pod) (podName pod)) s else s, w'))"
proof (cases "results s (newKey (podNamespace pod) (podName pod))")
  case (Some r)
  let ?pod = "pod\<lparr>podAnnotations := (podAnnotations pod)
                (FilterResultAnnotationKey \<mapsto> json_marshal (rFilter r),
                 ScoreResultAnnotationKey \<mapsto> json_marshal (rScore r),
                 FinalScoreResultAnnotationKey \<mapsto> json_marshal (rFinalscore r))\<rparr>"
  obtain err w' where upd: "UpdatePod lib ?pod w = (err, w')" by (cases "UpdatePod lib ?pod w")
  have set: "SetMetaDataAnnotation lib p k v = p\<lparr>podAnnotations := (podAnnotations p)(k \<mapsto> v)\<rparr>" for p k v
    using assms by (simp add: store_lib_laws_def)
  from retry_update [OF assms upd] Some upd show ?thesis
    by (cases err) (simp_all add: addSchedulingResultToPod_def addFilterResultToPod_def addScoreResultToPod_def
          addFinalScoreResultToPod_def result_annotation_def set Let_def)
qed (simp add: addSchedulingResultToPod_def)

theorem addSchedulingResultToPod_effect_witness:
  "\<exists>pod. addSchedulingResultToPod sample_lib (WatchedPod sample_api_pod)
      (AddFilterResult ''default'' ''pod1'' ''node1'' ''NodeUnschedulable'' PassedFilterMessage (store_New Map.empty)) [] =
    Inr (store_New Map.empty, [pod])"
proof -
  let ?s = "AddFilterResult ''default'' ''pod1'' ''node1'' ''NodeUnschedulable'' PassedFilterMessage (store_New Map.empty)"
  obtain r where r: "results ?s (newKey ''default'' ''pod1'') = Some r"
    by (simp add: AddFilterResult_def update_result_def Let_def)
  have del: "DeleteData (newKey ''default'' ''pod1'') ?s = store_New Map.empty"
    by (simp add: DeleteData_def AddFilterResult_def update_result_def ensure_result_def Let_def store_New_def)
  show ?thesis
    using addSchedulingResultToPod_effect
        [OF sample_lib_laws, where s = ?s and pod = sample_api_pod and w = "[]"] r del
    by (auto simp: sample_api_pod_def sample_lib_def)
qed

end
