(* ===== verification/Store_Race.thy ===== *)
theory Store_Race
  imports Result_Store
begin

text \<open>
  The recording methods of the store hold its mutex; \<open>addSchedulingResultToPod\<close>, which runs in
  the goroutine of the pod informer, does not take it.  Here it runs one access of the store at
  a time, with recording methods in between, as a schedule says.  Alone it does what the model
  in \<open>Result_Store\<close> does in one step.
\<close>

section \<open>The accesses, one at a time\<close>

text \<open>A call of a recording method.\<close>

datatype record_op =
    RecFilter string string string string string
  | RecScore string string string string int64
  | RecNormalized string string string string int64

fun op_key :: "record_op \<Rightarrow> string" where
  "op_key (RecFilter ns p n pl r) = newKey ns p"
| "op_key (RecScore ns p n pl v) = newKey ns p"
| "op_key (RecNormalized ns p n pl v) = newKey ns p"

fun do_record :: "record_op \<Rightarrow> store \<Rightarrow> store" where
  "do_record (RecFilter ns p n pl r) s = AddFilterResult ns p n pl r s"
| "do_record (RecScore ns p n pl v) s = AddScoreResult ns p n pl v s"
| "do_record (RecNormalized ns p n pl v) s = AddNormalizedScoreResult ns p n pl v s"

abbreviation do_records :: "record_op list \<Rightarrow> store \<Rightarrow> store" where
  "do_records \<equiv> fold do_record"

text \<open>
  Where \<open>addSchedulingResultToPod\<close> is, with the key it computed and its pod: before the
  lookup, before each of the three annotations, before the update is sent, before
  \<open>DeleteData\<close>, or at a \<open>return\<close>.
\<close>

datatype updater_pc =
    ULookup api_pod
  | UFilter string api_pod
  | UScore string api_pod
  | UFinal string api_pod
  | USend string api_pod
  | UDelete string
  | UReturned

record 'w store_race =
  uStore :: store
  uWorld :: 'w
  uPc :: updater_pc

abbreviation pod_result_key :: "api_pod \<Rightarrow> string" where
  "pod_result_key pod \<equiv> newKey (podNamespace pod) (podName pod)"

fun update_instr :: "'w store_lib \<Rightarrow> 'w store_race \<Rightarrow> panic + 'w store_race" where
  "update_instr lib st =
     (case uPc st of
        ULookup pod \<Rightarrow>
          (let k = newKey (podNamespace pod) (podName pod)
           in Inr (st\<lparr>uPc := (if results (uStore st) k = None then UReturned else UFilter k pod)\<rparr>))
      | UFilter k pod \<Rightarrow>
          (case addFilterResultToPod lib (uStore st) pod of
             Inl e \<Rightarrow> Inl e | Inr pod \<Rightarrow> Inr (st\<lparr>uPc := UScore k pod\<rparr>))
      | UScore k pod \<Rightarrow>
          (case addScoreResultToPod lib (uStore st) pod of
             Inl e \<Rightarrow> Inl e | Inr pod \<Rightarrow> Inr (st\<lparr>uPc := UFinal k pod\<rparr>))
      | UFinal k pod \<Rightarrow>
          (case addFinalScoreResultToPod lib (uStore st) pod of
             Inl e \<Rightarrow> Inl e | Inr pod \<Rightarrow> Inr (st\<lparr>uPc := USend k pod\<rparr>))
      | USend k pod \<Rightarrow>
          (let (err, w) = RetryWithExponentialBackOff lib (updateFunc lib pod) (uWorld st)
           in Inr (st\<lparr>uWorld := w, uPc := (if err \<noteq> None then UReturned else UDelete k)\<rparr>))
      | UDelete k \<Rightarrow> Inr (st\<lparr>uStore := DeleteData k (uStore st), uPc := UReturned\<rparr>)
      | UReturned \<Rightarrow> Inr st)"

datatype store_event = Rec record_op | Upd

fun store_step :: "'w store_lib \<Rightarrow> store_event \<Rightarrow> 'w store_race \<Rightarrow> panic + 'w store_race" where
  "store_step lib (Rec op) st = Inr (st\<lparr>uStore := do_record op (uStore st)\<rparr>)"
| "store_step lib Upd st = update_instr lib st"

fun store_run :: "'w store_lib \<Rightarrow> store_event list \<Rightarrow> 'w store_race \<Rightarrow> panic + 'w store_race" where
  "store_run lib [] st = Inr st"
| "store_run lib (e # es) st =
     (case store_step lib e st of Inl err \<Rightarrow> Inl err | Inr st \<Rightarrow> store_run lib es st)"

declare update_instr.simps [simp del]

lemma store_run_append:
  "store_run lib (es @ es') st =
     (case store_run lib es st of Inl err \<Rightarrow> Inl err | Inr st \<Rightarrow> store_run lib es' st)"
  by (induction es arbitrary: st) (auto split: sum.split)

text \<open>The recording methods of a schedule.\<close>

fun recs :: "store_event list \<Rightarrow> record_op list" where
  "recs [] = []"
| "recs (Rec op # es) = op # recs es"
| "recs (Upd # es) = recs es"


lemma store_run_recs:
  "store_run lib (map Rec ops @ es) st = store_run lib es (st\<lparr>uStore := do_records ops (uStore st)\<rparr>)"
  by (induction ops arbitrary: st) auto

lemma store_run_Upd:
  "store_run lib (Upd # es) st =
     (case update_instr lib st of Inl err \<Rightarrow> Inl err | Inr st \<Rightarrow> store_run lib es st)"
  by simp

lemma store_run_returned:
  "uPc st = UReturned \<Longrightarrow> store_run lib es st = Inr (st\<lparr>uStore := do_records (recs es) (uStore st)\<rparr>)"
  by (induction es arbitrary: st rule: recs.induct) (auto simp: update_instr.simps)

section \<open>Alone, the accesses are the atomic step\<close>

text \<open>
  Run without interruption, the accesses have the effect of \<open>addSchedulingResultToPod\<close> as
  one step: the same panics, the same store and the same requests.
\<close>

theorem update_alone_is_atomic:
  "addSchedulingResultToPod lib (WatchedPod pod) s w =
     (case store_run lib (replicate 6 Upd) \<lparr>uStore = s, uWorld = w, uPc = ULookup pod\<rparr> of
        Inl e \<Rightarrow> Inl e
      | Inr st \<Rightarrow> Inr (uStore st, uWorld st))"
  by (auto simp: addSchedulingResultToPod_def update_instr.simps eval_nat_numeral Let_def
      split: sum.split option.split prod.split)

section \<open>What interrupts the update\<close>

lemma results_do_record_other: "op_key op \<noteq> k \<Longrightarrow> results (do_record op s) k = results s k"
  by (cases op)
     (simp_all add: AddFilterResult_def AddScoreResult_def AddNormalizedScoreResult_def
       addNormalizedScoreResultWithoutLock_def update_result_def ensure_result_def Let_def)

lemma results_do_record_kept: "results s k \<noteq> None \<Longrightarrow> results (do_record op s) k \<noteq> None"
  by (cases op)
     (simp_all add: AddFilterResult_def AddScoreResult_def AddNormalizedScoreResult_def
       addNormalizedScoreResultWithoutLock_def update_result_def ensure_result_def Let_def)

lemma results_do_records_kept: "results s k \<noteq> None \<Longrightarrow> results (do_records ops s) k \<noteq> None"
proof (induction ops arbitrary: s)
  case (Cons op ops)
  from Cons.IH [OF results_do_record_kept [OF Cons.prems]] show ?case by simp
qed simp

text \<open>A call for the pod with key \<open>k\<close> is undone by the deletion of \<open>k\<close>.\<close>

lemma DeleteData_do_record: "op_key op = k \<Longrightarrow> DeleteData k (do_record op s) = DeleteData k s"
  by (cases op)
     (auto simp: AddFilterResult_def AddScoreResult_def AddNormalizedScoreResult_def DeleteData_def
       addNormalizedScoreResultWithoutLock_def update_result_def ensure_result_def Let_def)

lemma DeleteData_do_records:
  "\<forall>op \<in> set ops. op_key op = k \<Longrightarrow> DeleteData k (do_records ops s) = DeleteData k s"
  by (induction ops arbitrary: s) (simp_all add: DeleteData_do_record)

text \<open>The pod as it is sent, with the results \<open>rf\<close>, \<open>rs\<close> and \<open>rn\<close> read for the three annotations.\<close>

definition annotated :: "result \<Rightarrow> result \<Rightarrow> result \<Rightarrow> api_pod \<Rightarrow> api_pod" where
  "annotated rf rs rn pod = pod\<lparr>podAnnotations := (podAnnotations pod)
     (FilterResultAnnotationKey \<mapsto> json_marshal (rFilter rf),
      ScoreResultAnnotationKey \<mapsto> json_marshal (rScore rs),
      FinalScoreResultAnnotationKey \<mapsto> json_marshal (rFinalscore rn))\<rparr>"

lemma result_annotation_Some:
  assumes "store_lib_laws lib" and "results s (pod_result_key pod) = Some r"
  shows "result_annotation lib a field s pod =
     Inr (pod\<lparr>podAnnotations := (podAnnotations pod)(a \<mapsto> json_marshal (field r))\<rparr>)"
  using assms by (simp add: result_annotation_def store_lib_laws_def)

lemmas annotation_steps = addFilterResultToPod_def addScoreResultToPod_def addFinalScoreResultToPod_def

text \<open>
  The schedules: recording methods between any two of the six accesses, \<open>o0\<close> before the first
  and \<open>o5\<close> before the last.
\<close>

definition update_schedule ::
    "record_op list \<Rightarrow> record_op list \<Rightarrow> record_op list \<Rightarrow> record_op list \<Rightarrow> record_op list \<Rightarrow>
     record_op list \<Rightarrow> store_event list \<Rightarrow> store_event list" where
  "update_schedule o0 o1 o2 o3 o4 o5 rest =
     map Rec o0 @ Upd # map Rec o1 @ Upd # map Rec o2 @ Upd # map Rec o3 @ Upd #
     map Rec o4 @ Upd # map Rec o5 @ Upd # rest"

lemma update_schedule_run:
  assumes laws: "store_lib_laws lib"
    and k: "k = newKey (podNamespace pod) (podName pod)"
    and known: "results (do_records o0 s) k \<noteq> None"
  obtains rf rs rn where "results (do_records (o0 @ o1) s) k = Some rf"
    and "results (do_records (o0 @ o1 @ o2) s) k = Some rs"
    and "results (do_records (o0 @ o1 @ o2 @ o3) s) k = Some rn"
    and "\<And>err w' o4 o5 rest. UpdatePod lib (annotated rf rs rn pod) w = (err, w') \<Longrightarrow>
       store_run lib (update_schedule o0 o1 o2 o3 o4 o5 rest) \<lparr>uStore = s, uWorld = w, uPc = ULookup pod\<rparr> =
       Inr \<lparr>uStore = do_records (recs rest)
               (let s' = do_records (o0 @ o1 @ o2 @ o3 @ o4 @ o5) s
                in if err = None then DeleteData k s' else s'),
            uWorld = w', uPc = UReturned\<rparr>"
proof -
  obtain r0 where r0: "results (do_records o0 s) k = Some r0" using known by auto
  obtain rf where rf: "results (do_records o1 (do_records o0 s)) k = Some rf"
    using results_do_records_kept [OF known, where ops = o1] by auto
  obtain rs where rs: "results (do_records o2 (do_records o1 (do_records o0 s))) k = Some rs"
    using results_do_records_kept [where ops = o2 and k = k and s = "do_records o1 (do_records o0 s)"] rf by auto
  obtain rn where rn: "results (do_records o3 (do_records o2 (do_records o1 (do_records o0 s)))) k = Some rn"
    using results_do_records_kept
      [where ops = o3 and k = k and s = "do_records o2 (do_records o1 (do_records o0 s))"] rs by auto
  have run: "store_run lib (update_schedule o0 o1 o2 o3 o4 o5 rest) \<lparr>uStore = s, uWorld = w, uPc = ULookup pod\<rparr> =
       Inr \<lparr>uStore = do_records (recs rest)
               (let s' = do_records (o0 @ o1 @ o2 @ o3 @ o4 @ o5) s
                in if err = None then DeleteData k s' else s'),
            uWorld = w', uPc = UReturned\<rparr>"
    if upd: "UpdatePod lib (annotated rf rs rn pod) w = (err, w')" for err w' o4 o5 rest
    using k r0 rf rs rn retry_update [OF laws upd]
    by (cases err)
       (simp_all add: update_schedule_def store_run_recs store_run_Upd update_instr.simps annotation_steps
          result_annotation_Some [OF laws] annotated_def store_run_returned Let_def)
  show ?thesis
    by (rule that [of rf rs rn]) (use rf rs rn run in simp_all)
qed

text \<open>
  C28: between any two accesses of \<open>addSchedulingResultToPod\<close> recording methods may run.  No
  such schedule panics.  The update carries each kind of result as it was when its annotation
  was written: filter results recorded up to \<open>o1\<close>, scores up to \<open>o2\<close>, final scores up to \<open>o3\<close>.
  If the update succeeds, the results of the pod are deleted as they are then, whatever has
  been recorded up to \<open>o5\<close>; if it fails, they are kept.
\<close>

theorem interleaved_update:
  assumes "store_lib_laws lib"
    and "k = newKey (podNamespace pod) (podName pod)"
    and "results (do_records o0 s) k \<noteq> None"
  shows "\<exists>rf rs rn err w'.
     results (do_records (o0 @ o1) s) k = Some rf \<and>
     results (do_records (o0 @ o1 @ o2) s) k = Some rs \<and>
     results (do_records (o0 @ o1 @ o2 @ o3) s) k = Some rn \<and>
     UpdatePod lib (annotated rf rs rn pod) w = (err, w') \<and>
     store_run lib (update_schedule o0 o1 o2 o3 o4 o5 rest) \<lparr>uStore = s, uWorld = w, uPc = ULookup pod\<rparr> =
       Inr \<lparr>uStore = do_records (recs rest)
               (let s' = do_records (o0 @ o1 @ o2 @ o3 @ o4 @ o5) s
                in if err = None then DeleteData k s' else s'),
            uWorld = w', uPc = UReturned\<rparr>"
proof -
  obtain rf rs rn where *: "results (do_records (o0 @ o1) s) k = Some rf"
    "results (do_records (o0 @ o1 @ o2) s) k = Some rs"
    "results (do_records (o0 @ o1 @ o2 @ o3) s) k = Some rn"
    and run: "\<And>err w'. UpdatePod lib (annotated rf rs rn pod) w = (err, w') \<Longrightarrow>
       store_run lib (update_schedule o0 o1 o2 o3 o4 o5 rest) \<lparr>uStore = s, uWorld = w, uPc = ULookup pod\<rparr> =
       Inr \<lparr>uStore = do_records (recs rest)
               (let s' = do_records (o0 @ o1 @ o2 @ o3 @ o4 @ o5) s
                in if err = None then DeleteData k s' else s'),
            uWorld = w', uPc = UReturned\<rparr>"
    by (rule update_schedule_run [OF assms]) (rule that)
  obtain err w' where upd: "UpdatePod lib (annotated rf rs rn pod) w = (err, w')"
    by (cases "UpdatePod lib (annotated rf rs rn pod) w")
  show ?thesis
    using * upd run [OF upd]
    by (intro exI [of _ rf] exI [of _ rs] exI [of _ rn] exI [of _ err] exI [of _ w']) simp
qed

abbreviation late_score :: record_op where
  "late_score \<equiv> RecScore ''default'' ''pod1'' ''node1'' ''NodeNumber'' 10"

abbreviation early_filter :: record_op where
  "early_filter \<equiv> RecFilter ''default'' ''pod1'' ''node1'' ''NodeUnschedulable'' PassedFilterMessage"

lemma early_filter_known:
  "results (do_records [early_filter] (store_New Map.empty)) (newKey ''default'' ''pod1'') \<noteq> None"
  by (simp add: AddFilterResult_def update_result_def ensure_result_def Let_def)

theorem interleaved_update_witness:
  "\<exists>pod. store_run sample_lib (update_schedule [early_filter] [] [] [late_score] [] [] [])
         \<lparr>uStore = store_New Map.empty, uWorld = [], uPc = ULookup sample_api_pod\<rparr> =
       Inr \<lparr>uStore = store_New Map.empty, uWorld = [pod], uPc = UReturned\<rparr>"
proof -
  have keys: "newKey (podNamespace sample_api_pod) (podName sample_api_pod) = newKey ''default'' ''pod1''"
    by (simp add: sample_api_pod_def)
  have del: "DeleteData (newKey ''default'' ''pod1'') (do_record late_score (do_record early_filter (store_New Map.empty))) =
      store_New Map.empty"
    by (simp only: DeleteData_do_record op_key.simps) (simp add: DeleteData_def store_New_def)
  show ?thesis
    using interleaved_update [OF sample_lib_laws keys [symmetric] early_filter_known,
        where ?o1.0 = "[]" and ?o2.0 = "[]" and ?o3.0 = "[late_score]" and ?o4.0 = "[]" and ?o5.0 = "[]"
          and w = "[]" and rest = "[]"] del
    by (auto simp: sample_lib_def Let_def simp del: do_record.simps)
qed

text \<open>
  C29: what is recorded for the pod after the last annotation was written and before the results
  are deleted is lost, if the update succeeds: the run is the same, in the update sent and in
  what the store holds at the end, as if it had never been recorded.
\<close>

theorem late_records_are_lost:
  assumes "store_lib_laws lib" and "\<forall>pod w. fst (UpdatePod lib pod w) = None"
    and "k = newKey (podNamespace pod) (podName pod)"
    and "results (do_records o0 s) k \<noteq> None"
    and "\<forall>op \<in> set (o4 @ o5). op_key op = k"
  shows "store_run lib (update_schedule o0 o1 o2 o3 o4 o5 rest) \<lparr>uStore = s, uWorld = w, uPc = ULookup pod\<rparr> =
         store_run lib (update_schedule o0 o1 o2 o3 [] [] rest) \<lparr>uStore = s, uWorld = w, uPc = ULookup pod\<rparr>"
proof -
  obtain rf rs rn where
    run: "\<And>err w' o4 o5 rest. UpdatePod lib (annotated rf rs rn pod) w = (err, w') \<Longrightarrow>
       store_run lib (update_schedule o0 o1 o2 o3 o4 o5 rest) \<lparr>uStore = s, uWorld = w, uPc = ULookup pod\<rparr> =
       Inr \<lparr>uStore = do_records (recs rest)
               (let s' = do_records (o0 @ o1 @ o2 @ o3 @ o4 @ o5) s
                in if err = None then DeleteData k s' else s'),
            uWorld = w', uPc = UReturned\<rparr>"
    by (rule update_schedule_run [OF assms(1,3,4)]) (rule that)
  obtain w' where upd: "UpdatePod lib (annotated rf rs rn pod) w = (None, w')"
    using assms(2) by (metis prod.collapse)
  have "DeleteData k (do_records ((o0 @ o1 @ o2 @ o3) @ (o4 @ o5)) s) =
        DeleteData k (do_records (o0 @ o1 @ o2 @ o3) s)"
    using DeleteData_do_records [OF assms(5)] by (simp only: fold_append o_apply)
  then show ?thesis
    by (simp add: run [OF upd] Let_def)
qed

theorem late_records_are_lost_witness:
  "store_run sample_lib (update_schedule [early_filter] [] [] [] [] [late_score] [])
       \<lparr>uStore = store_New Map.empty, uWorld = [], uPc = ULookup sample_api_pod\<rparr> =
   store_run sample_lib (update_schedule [early_filter] [] [] [] [] [] [])
       \<lparr>uStore = store_New Map.empty, uWorld = [], uPc = ULookup sample_api_pod\<rparr>"
proof -
  have keys: "newKey ''default'' ''pod1'' = newKey (podNamespace sample_api_pod) (podName sample_api_pod)"
    by (simp add: sample_api_pod_def)
  have upd: "\<forall>pod w. fst (UpdatePod sample_lib pod w) = None"
    by (simp add: sample_lib_def)
  have late: "\<forall>op \<in> set ([] @ [late_score]). op_key op = newKey ''default'' ''pod1''"
    by simp
  show ?thesis
    by (rule late_records_are_lost [OF sample_lib_laws upd keys early_filter_known late])
qed

end
