(* ===== verification/Simulator_Plugin.thy ===== *)
theory Simulator_Plugin
  imports Plugin_Runs Result_Store Initialize
begin

text \<open>
  The plugins of the simulator, \<open>scheduler/plugin/plugins.go\<close> from \<open>store\<close> to the end: a
  \<open>simulatorPlugin\<close> runs an original filter and score plugin and records what they answer in
  a store.  The store is an interface in the code; here it is the record \<open>store_ops\<close>, and its
  contract is the locale \<open>result_store\<close> of theory \<open>Result_Store\<close>, whose facts about the
  model of the code's store carry the properties of recording.
\<close>

section \<open>The plugin\<close>

record 'st store_ops =
  sAddNormalizedScoreResult :: "string \<Rightarrow> string \<Rightarrow> string \<Rightarrow> string \<Rightarrow> int64 \<Rightarrow> 'st \<Rightarrow> 'st"
  sAddFilterResult :: "string \<Rightarrow> string \<Rightarrow> string \<Rightarrow> string \<Rightarrow> string \<Rightarrow> 'st \<Rightarrow> 'st"
  sAddScoreResult :: "string \<Rightarrow> string \<Rightarrow> string \<Rightarrow> string \<Rightarrow> int64 \<Rightarrow> 'st \<Rightarrow> 'st"

record ('w, 's, 'st) simulator_plugin =
  simName :: string
  originalFilterPlugin :: "('w, 's) filter_plugin option"
  originalScorePlugin :: "('w, 's) score_plugin option"
  simWeight :: "32 word"
  simStore :: "'st store_ops"

definition pluginSuffix :: string where
  "pluginSuffix = ''ForSimulator''"

definition pluginName :: "string \<Rightarrow> string" where
  "pluginName name = name @ pluginSuffix"

definition newSimulatorPlugin ::
    "'st store_ops \<Rightarrow> ('w, 's) plugin_obj option \<Rightarrow> 32 word \<Rightarrow> panic + ('w, 's, 'st) simulator_plugin" where
  "newSimulatorPlugin s p weight =
     (case p of
        None \<Rightarrow> Inl NilDeref
      | Some p \<Rightarrow>
          let plg = \<lparr>simName = pluginName (plName p), originalFilterPlugin = None,
                originalScorePlugin = None, simWeight = weight, simStore = s\<rparr>;
              plg = (case asFilter p of None \<Rightarrow> plg | Some fp \<Rightarrow> plg\<lparr>originalFilterPlugin := Some fp\<rparr>);
              plg = (case asScore p of None \<Rightarrow> plg | Some sp \<Rightarrow> plg\<lparr>originalScorePlugin := Some sp\<rparr>)
          in Inr plg)"

text \<open>A call of the original plugin, in a state that also has the store.\<close>

definition with_store :: "('w, 'a) go \<Rightarrow> ('w \<times> 'st, 'a) go" where
  "with_store f ws =
     (case f (fst ws) of Inl e \<Rightarrow> Inl e | Inr (a, w) \<Rightarrow> Inr (a, (w, snd ws)))"

definition simulator_ScoreExtensions ::
    "('w, 's, 'st) simulator_plugin
       \<Rightarrow> (pod \<Rightarrow> node_score list \<Rightarrow> ('w \<times> 'st, node_score list \<times> 's option) go) option" where
  "simulator_ScoreExtensions pl =
     (case originalScorePlugin pl of
        Some sp \<Rightarrow> map_option (\<lambda>f pod scores. with_store (f pod scores)) (ScoreExtensions sp)
      | None \<Rightarrow> None)"

text \<open>The last loop of \<open>NormalizeScore\<close>.\<close>

fun record_normalized ::
    "'st store_ops \<Rightarrow> pod \<Rightarrow> string \<Rightarrow> node_score list \<Rightarrow> 'st \<Rightarrow> 'st" where
  "record_normalized ops pod name [] st = st"
| "record_normalized ops pod name (s # scores) st =
     record_normalized ops pod name scores
       (sAddNormalizedScoreResult ops (podNamespace pod) (podName pod) (nsName s) name (nsScore s) st)"

definition simulator_NormalizeScore ::
    "('s, 'c) framework \<Rightarrow> ('w, 's, 'st) simulator_plugin \<Rightarrow> pod \<Rightarrow> node_score list
       \<Rightarrow> ('w \<times> 'st, node_score list \<times> 's option) go" where
  "simulator_NormalizeScore fw pl pod scores ws =
     (case originalScorePlugin pl of
        None \<Rightarrow> Inr ((scores, None), ws)
      | Some sp \<Rightarrow>
          (case ScoreExtensions sp of
             None \<Rightarrow> Inl NilDeref
           | Some normalizeScore \<Rightarrow>
               (case with_store (normalizeScore pod scores) ws of
                  Inl e \<Rightarrow> Inl e
                | Inr ((scores, s), (w, st)) \<Rightarrow>
                    if \<not> IsSuccess fw s then Inr ((scores, s), (w, st))
                    else Inr ((scores, None),
                      (w, record_normalized (simStore pl) pod (scoreName sp) scores st)))))"

definition simulator_Score ::
    "('s, 'c) framework \<Rightarrow> ('w, 's, 'st) simulator_plugin \<Rightarrow> pod \<Rightarrow> string
       \<Rightarrow> ('w \<times> 'st, int64 \<times> 's option) go" where
  "simulator_Score fw pl pod nodename ws =
     (case originalScorePlugin pl of
        None \<Rightarrow> Inr ((0, None), ws)
      | Some sp \<Rightarrow>
          (case with_store (Score sp pod nodename) ws of
             Inl e \<Rightarrow> Inl e
           | Inr ((score, s), (w, st)) \<Rightarrow>
               if \<not> IsSuccess fw s then Inr ((score, s), (w, st))
               else Inr ((score, s),
                 (w, sAddScoreResult (simStore pl) (podNamespace pod) (podName pod) nodename
                       (scoreName sp) score st))))"

definition simulator_Filter ::
    "('s, 'c) framework \<Rightarrow> ('w, 's, 'st) simulator_plugin \<Rightarrow> pod \<Rightarrow> node_info
       \<Rightarrow> ('w \<times> 'st, 's option) go" where
  "simulator_Filter fw pl pod nodeInfo ws =
     (case originalFilterPlugin pl of
        None \<Rightarrow> Inr (None, ws)
      | Some fp \<Rightarrow>
          (case with_store (Filter fp pod nodeInfo) ws of
             Inl e \<Rightarrow> Inl e
           | Inr (s, (w, st)) \<Rightarrow>
               if IsSuccess fw s
               then Inr (s, (w, sAddFilterResult (simStore pl) (podNamespace pod) (podName pod)
                      (nodeName (Node nodeInfo)) (filterName fp) PassedFilterMessage st))
               else Inr (s, (w, sAddFilterResult (simStore pl) (podNamespace pod) (podName pod)
                      (nodeName (Node nodeInfo)) (filterName fp) (Message fw s) st))))"

text \<open>The plugin as the scheduler sees it at an extension point; \<open>Name\<close> returns \<open>pl.name\<close>.\<close>

definition simulator_filter_plugin ::
    "('s, 'c) framework \<Rightarrow> ('w, 's, 'st) simulator_plugin \<Rightarrow> ('w \<times> 'st, 's) filter_plugin" where
  "simulator_filter_plugin fw pl = \<lparr>filterName = simName pl, Filter = simulator_Filter fw pl\<rparr>"

definition simulator_score_plugin ::
    "('s, 'c) framework \<Rightarrow> ('w, 's, 'st) simulator_plugin \<Rightarrow> ('w \<times> 'st, 's) score_plugin" where
  "simulator_score_plugin fw pl =
     \<lparr>scoreName = simName pl, Score = simulator_Score fw pl,
      ScoreExtensions = simulator_ScoreExtensions pl\<rparr>"

text \<open>The store of the code.\<close>

definition result_store_ops :: "store store_ops" where
  "result_store_ops =
     \<lparr>sAddNormalizedScoreResult = AddNormalizedScoreResult, sAddFilterResult = AddFilterResult,
      sAddScoreResult = AddScoreResult\<rparr>"

lemma newSimulatorPlugin_eq:
  "newSimulatorPlugin s (Some p) weight =
     Inr \<lparr>simName = pluginName (plName p), originalFilterPlugin = asFilter p,
       originalScorePlugin = asScore p, simWeight = weight, simStore = s\<rparr>"
  by (simp add: newSimulatorPlugin_def Let_def split: option.split)

section \<open>Filtering through the simulator\<close>

text \<open>A simulator plugin around a filter plugin.\<close>

definition simulates_filter ::
    "('w, 's, 'st) simulator_plugin \<Rightarrow> ('w, 's) filter_plugin \<Rightarrow> bool" where
  "simulates_filter pl fp \<longleftrightarrow>
     originalFilterPlugin pl = Some fp \<and> simName pl = pluginName (filterName fp)"

text \<open>The same diagnosis, with the names of the simulator's plugins.\<close>

definition diagnosis_sim :: "diagnosis \<Rightarrow> diagnosis \<Rightarrow> bool" where
  "diagnosis_sim d d' \<longleftrightarrow>
     set (diagUnschedulablePlugins d') = pluginName ` set (diagUnschedulablePlugins d)"

definition status_sim :: "('s, 'c) framework \<Rightarrow> 's option \<Rightarrow> 's option \<Rightarrow> bool" where
  "status_sim fw s s' \<longleftrightarrow> IsSuccess fw s' = IsSuccess fw s"

lemma simulator_Filter_sim:
  assumes "simulates_filter pl fp"
  shows "case Filter fp pod ni w of
       Inl e \<Rightarrow> simulator_Filter fw pl pod ni (w, st) = Inl e
     | Inr (s, w') \<Rightarrow> \<exists>st'. simulator_Filter fw pl pod ni (w, st) = Inr (s, (w', st'))"
  using assms
  by (auto simp: simulates_filter_def simulator_Filter_def with_store_def split: sum.splits)

lemma run_filters_sim:
  assumes "status_laws fw" and "sets_laws fw"
    and "list_all2 simulates_filter pls fps" and "status_sim fw s s'" and "diagnosis_sim d d'"
  shows "case run_filters fw fps pod ni s d w of
       Inl e \<Rightarrow> run_filters fw (map (simulator_filter_plugin fw) pls) pod ni s' d' (w, st) = Inl e
     | Inr ((s1, d1), w1) \<Rightarrow> \<exists>s2 d2 st2.
         run_filters fw (map (simulator_filter_plugin fw) pls) pod ni s' d' (w, st) =
           Inr ((s2, d2), (w1, st2)) \<and> status_sim fw s1 s2 \<and> diagnosis_sim d1 d2"
  using assms(3-5)
proof (induction pls fps arbitrary: s s' d d' w st rule: list_all2_induct)
  case Nil
  then show ?case by simp
next
  case (Cons pl pls fp fps)
  note sim = simulator_Filter_sim [OF Cons.hyps(1), where pod = pod and ni = ni and w = w and fw = fw and st = st]
  have name: "filterName (simulator_filter_plugin fw pl) = pluginName (filterName fp)"
    using Cons.hyps(1) by (simp add: simulator_filter_plugin_def simulates_filter_def)
  show ?case
  proof (cases "Filter fp pod ni w")
    case (Inl e)
    then show ?thesis using sim by (simp add: simulator_filter_plugin_def)
  next
    case (Inr r)
    obtain x w1 where r: "r = (x, w1)" by (cases r)
    with Inr sim obtain st1 where call: "simulator_Filter fw pl pod ni (w, st) = Inr (x, (w1, st1))"
      by auto
    show ?thesis
    proof (cases "IsSuccess fw x")
      case True
      then have "run_filters fw (map (simulator_filter_plugin fw) (pl # pls)) pod ni s' d' (w, st) =
            run_filters fw (map (simulator_filter_plugin fw) pls) pod ni x d' (w1, st1)"
          and "run_filters fw (fp # fps) pod ni s d w = run_filters fw fps pod ni x d w1"
        using Inr r call by (simp_all add: simulator_filter_plugin_def)
      moreover have "status_sim fw x x" by (simp add: status_sim_def)
      ultimately show ?thesis
        using Cons.IH [OF _ Cons.prems(2)] by (simp only:)
    next
      case False
      then obtain y where y: "x = Some y"
        using status_laws_simps(1,2) [OF assms(1)] by (cases x) auto
      have "diagnosis_sim (d\<lparr>diagUnschedulablePlugins := setsInsert fw (diagUnschedulablePlugins d) (filterName fp)\<rparr>)
          (d'\<lparr>diagUnschedulablePlugins := setsInsert fw (diagUnschedulablePlugins d') (pluginName (filterName fp))\<rparr>)"
        using Cons.prems(2) by (simp add: diagnosis_sim_def sets_laws_simps [OF assms(2)])
      with False Inr r y call name show ?thesis
        by (simp add: simulator_filter_plugin_def status_sim_def Let_def status_laws_simps [OF assms(1)])
    qed
  qed
qed

lemma filter_nodes_sim:
  assumes "status_laws fw" and "sets_laws fw"
    and "list_all2 simulates_filter pls fps" and "diagnosis_sim d d'"
  shows "case filter_nodes fw fps pod nodes feas d w of
       Inl e \<Rightarrow> filter_nodes fw (map (simulator_filter_plugin fw) pls) pod nodes feas d' (w, st) = Inl e
     | Inr ((feas1, d1), w1) \<Rightarrow> \<exists>d2 st2.
         filter_nodes fw (map (simulator_filter_plugin fw) pls) pod nodes feas d' (w, st) =
           Inr ((feas1, d2), (w1, st2)) \<and> diagnosis_sim d1 d2"
  using assms(4)
proof (induction nodes arbitrary: feas d d' w st)
  case Nil
  then show ?case by simp
next
  case (Cons n nodes)
  let ?s = "Some (NewStatus fw Success [])"
  have "status_sim fw ?s ?s" by (simp add: status_sim_def)
  note sim = run_filters_sim [OF assms(1-3) this Cons.prems,
      where pod = pod and ni = "\<lparr>Node = n\<rparr>" and w = w and st = st]
  show ?case
  proof (cases "run_filters fw fps pod \<lparr>Node = n\<rparr> ?s d w")
    case (Inl e)
    then show ?thesis using sim by (simp add: Let_def)
  next
    case (Inr r)
    obtain s1 d1 w1 where r: "r = ((s1, d1), w1)" by (cases r) auto
    with Inr sim obtain s2 d2 st2 where
      call: "run_filters fw (map (simulator_filter_plugin fw) pls) pod \<lparr>Node = n\<rparr> ?s d' (w, st) =
           Inr ((s2, d2), (w1, st2))"
      and s12: "IsSuccess fw s2 = IsSuccess fw s1" and d12: "diagnosis_sim d1 d2"
      by (auto simp: status_sim_def)
    let ?feas = "if IsSuccess fw s1 then feas @ [n] else feas"
    have "filter_nodes fw (map (simulator_filter_plugin fw) pls) pod (n # nodes) feas d' (w, st) =
          filter_nodes fw (map (simulator_filter_plugin fw) pls) pod nodes ?feas d2 (w1, st2)"
        and "filter_nodes fw fps pod (n # nodes) feas d w = filter_nodes fw fps pod nodes ?feas d1 w1"
      using Inr r call s12 by (simp_all add: Let_def)
    then show ?thesis
      using Cons.IH [OF d12, where w = w1 and st = st2 and feas = ?feas] by (simp only:)
  qed
qed

text \<open>The same outcome, up to the names of the plugins in a diagnosis.\<close>

fun filter_outcome_sim :: "goerror + node list \<Rightarrow> goerror + node list \<Rightarrow> bool" where
  "filter_outcome_sim (Inr feas) r = (r = Inr feas)"
| "filter_outcome_sim (Inl (FitError pod d)) r =
     (\<exists>d'. r = Inl (FitError pod d') \<and> diagnosis_sim d d')"
| "filter_outcome_sim (Inl e) r = (r = Inl e)"

text \<open>
  Filtering with the simulator's plugins is filtering with the originals: the same nodes
  are feasible, the originals go through the same states and panic in the same cases; the only
  difference is that an unschedulable pod is attributed to the simulator's names.
\<close>

theorem simulator_filters_transparent:
  assumes "status_laws fw" and "sets_laws fw" and "list_all2 simulates_filter pls fps"
  shows "case RunFilterPlugins fw fps pod nodes w of
       Inl e \<Rightarrow> RunFilterPlugins fw (map (simulator_filter_plugin fw) pls) pod nodes (w, st) = Inl e
     | Inr (r, w') \<Rightarrow> \<exists>r' st'.
         RunFilterPlugins fw (map (simulator_filter_plugin fw) pls) pod nodes (w, st) =
           Inr (r', (w', st')) \<and> filter_outcome_sim r r'"
proof -
  let ?d = "\<lparr>diagUnschedulablePlugins = setsNewString fw []\<rparr>"
  have "diagnosis_sim ?d ?d"
    by (simp add: diagnosis_sim_def sets_laws_simps [OF assms(2)])
  note sim = filter_nodes_sim [OF assms this, where pod = pod and nodes = nodes and w = w
      and st = st and feas = "[]"]
  show ?thesis
  proof (cases "filter_nodes fw fps pod nodes [] ?d w")
    case (Inl e)
    then show ?thesis using sim by (simp add: RunFilterPlugins_def)
  next
    case (Inr r)
    obtain feas1 d1 w1 where r: "r = ((feas1, d1), w1)" by (cases r) auto
    with Inr sim obtain d2 st2 where
      "filter_nodes fw (map (simulator_filter_plugin fw) pls) pod nodes [] ?d (w, st) =
           Inr ((feas1, d2), (w1, st2))" and "diagnosis_sim d1 d2"
      by auto
    with Inr r show ?thesis by (simp add: RunFilterPlugins_def)
  qed
qed

text \<open>A filter plugin that fails unschedulable nodes, and its simulator plugin.\<close>

definition sample_unsched :: "(unit, sample_status) filter_plugin" where
  "sample_unsched = stateless_filter (''NodeUnschedulable'', \<lambda>pod ni.
     if nodeUnschedulable (Node ni) then Some (NewStatus sample_framework Unschedulable ''no'') else None)"

definition sample_simulator :: "(unit, sample_status, store) simulator_plugin" where
  "sample_simulator =
     \<lparr>simName = ''NodeUnschedulableForSimulator'', originalFilterPlugin = Some sample_unsched,
      originalScorePlugin = None, simWeight = 0, simStore = result_store_ops\<rparr>"

lemma sample_simulates: "list_all2 simulates_filter [sample_simulator] [sample_unsched]"
  by (simp add: simulates_filter_def sample_simulator_def sample_unsched_def stateless_filter_def
        pluginName_def pluginSuffix_def)

theorem simulator_filters_transparent_witness:
  "\<exists>r st'. RunFilterPlugins sample_framework [simulator_filter_plugin sample_framework sample_simulator]
      (sample_pod ''p'') [\<lparr>nodeName = ''a'', nodeUnschedulable = False\<rparr>, \<lparr>nodeName = ''b'', nodeUnschedulable = True\<rparr>]
      ((), store_New Map.empty) = Inr (r, ((), st')) \<and>
    r = Inr [\<lparr>nodeName = ''a'', nodeUnschedulable = False\<rparr>]"
  using simulator_filters_transparent [OF sample_laws(1,4) sample_simulates,
      where pod = "sample_pod ''p''" and w = "()" and st = "store_New Map.empty"
      and nodes = "[\<lparr>nodeName = ''a'', nodeUnschedulable = False\<rparr>, \<lparr>nodeName = ''b'', nodeUnschedulable = True\<rparr>]"]
  by (simp add: RunFilterPlugins_def sample_unsched_def stateless_filter_def)

section \<open>Scoring through the simulator\<close>

definition simulates_score ::
    "('w, 's, 'st) simulator_plugin \<Rightarrow> ('w, 's) score_plugin \<Rightarrow> bool" where
  "simulates_score pl sp \<longleftrightarrow>
     originalScorePlugin pl = Some sp \<and> simName pl = pluginName (scoreName sp)"

text \<open>The same scores, under the names of the simulator's plugins.\<close>

definition scores_sim :: "scores_map \<Rightarrow> scores_map \<Rightarrow> bool" where
  "scores_sim m m' \<longleftrightarrow> (\<forall>k. m' (pluginName k) = m k)"

lemma pluginName_inject [simp]: "pluginName a = pluginName b \<longleftrightarrow> a = b"
  by (simp add: pluginName_def)

lemma scores_sim_upd: "scores_sim m m' \<Longrightarrow> scores_sim (m(k \<mapsto> v)) (m'(pluginName k \<mapsto> v))"
  by (simp add: scores_sim_def)

lemma simulator_Score_sim:
  assumes "simulates_score pl sp"
  shows "case Score sp pod n w of
       Inl e \<Rightarrow> simulator_Score fw pl pod n (w, st) = Inl e
     | Inr (r, w') \<Rightarrow> \<exists>st'. simulator_Score fw pl pod n (w, st) = Inr (r, (w', st'))"
  using assms
  by (auto simp: simulates_score_def simulator_Score_def with_store_def split: sum.splits)

lemma score_node_sim:
  assumes "list_all2 simulates_score pls sps" and "scores_sim m m'"
  shows "case score_node fw sps pod index n m w of
       Inl e \<Rightarrow> score_node fw (map (simulator_score_plugin fw) pls) pod index n m' (w, st) = Inl e
     | Inr (Inl s, w1) \<Rightarrow> \<exists>st1.
         score_node fw (map (simulator_score_plugin fw) pls) pod index n m' (w, st) = Inr (Inl s, (w1, st1))
     | Inr (Inr m1, w1) \<Rightarrow> \<exists>m2 st1.
         score_node fw (map (simulator_score_plugin fw) pls) pod index n m' (w, st) =
           Inr (Inr m2, (w1, st1)) \<and> scores_sim m1 m2"
  using assms
proof (induction pls sps arbitrary: m m' w st rule: list_all2_induct)
  case Nil
  then show ?case by simp
next
  case (Cons pl pls sp sps)
  note sim = simulator_Score_sim [OF Cons.hyps(1), where pod = pod and n = "nodeName n" and w = w
      and fw = fw and st = st]
  let ?sim = "simulator_score_plugin fw pl" and ?sims = "map (simulator_score_plugin fw) pls"
  have name: "scoreName ?sim = pluginName (scoreName sp)"
    and score: "Score ?sim = simulator_Score fw pl"
    and ext: "ScoreExtensions ?sim =
        map_option (\<lambda>f pod scores. with_store (f pod scores)) (ScoreExtensions sp)"
    using Cons.hyps(1)
    by (simp_all add: simulator_score_plugin_def simulates_score_def simulator_ScoreExtensions_def)
  show ?case
  proof (cases "Score sp pod (nodeName n) w")
    case (Inl e)
    then show ?thesis using sim by (simp add: score)
  next
    case (Inr r)
    obtain v x w1 where r: "r = ((v, x), w1)" by (cases r) auto
    with Inr sim obtain st1 where
      call: "simulator_Score fw pl pod (nodeName n) (w, st) = Inr ((v, x), (w1, st1))" by auto
    have lookup: "m' (pluginName (scoreName sp)) = m (scoreName sp)"
      using Cons.prems by (simp add: scores_sim_def)
    show ?thesis
    proof (cases "\<not> IsSuccess fw x \<or> m (scoreName sp) = None \<or> length (the (m (scoreName sp))) \<le> index")
      case True
      then show ?thesis using Inr r call by (auto simp: name score lookup split: option.split)
    next
      case False
      then obtain l where l: "m (scoreName sp) = Some l" "\<not> length l \<le> index" and x: "IsSuccess fw x"
        by auto
      let ?l = "l[index := \<lparr>nsName = nodeName n, nsScore = v\<rparr>]"
      show ?thesis
      proof (cases "ScoreExtensions sp")
        case None
        then have "score_node fw (?sim # ?sims) pod index n m' (w, st) =
              score_node fw ?sims pod index n (m'(pluginName (scoreName sp) \<mapsto> ?l)) (w1, st1)"
            and "score_node fw (sp # sps) pod index n m w =
              score_node fw sps pod index n (m(scoreName sp \<mapsto> ?l)) w1"
          using Inr r call l x by (simp_all add: name score ext lookup Let_def)
        then show ?thesis
          using Cons.IH [OF scores_sim_upd [OF Cons.prems], where w = w1 and st = st1]
          by (simp only: list.map)
      next
        case (Some f)
        show ?thesis
        proof (cases "f pod ?l w1")
          case (Inl e)
          then show ?thesis
            using Inr r call l x Some by (simp add: name score ext lookup Let_def with_store_def)
        next
          case norm: (Inr q)
          obtain l2 y w2 where q: "q = ((l2, y), w2)" by (cases q) auto
          show ?thesis
          proof (cases "IsSuccess fw y")
            case False
            then show ?thesis
              using Inr r call l x Some norm q
              by (simp add: name score ext lookup Let_def with_store_def)
          next
            case True
            then have "score_node fw (?sim # ?sims) pod index n m' (w, st) =
                  score_node fw ?sims pod index n (m'(pluginName (scoreName sp) \<mapsto> l2)) (w2, st1)"
                and "score_node fw (sp # sps) pod index n m w =
                  score_node fw sps pod index n (m(scoreName sp \<mapsto> l2)) w2"
              using Inr r call l x Some norm q
              by (simp_all add: name score ext lookup Let_def with_store_def)
            then show ?thesis
              using Cons.IH [OF scores_sim_upd [OF Cons.prems], where w = w2 and st = st1]
              by (simp only: list.map)
          qed
        qed
      qed
    qed
  qed
qed

lemma score_nodes_sim:
  assumes "list_all2 simulates_score pls sps" and "scores_sim m m'"
  shows "case score_nodes fw sps pod index nodes m w of
       Inl e \<Rightarrow> score_nodes fw (map (simulator_score_plugin fw) pls) pod index nodes m' (w, st) = Inl e
     | Inr (Inl s, w1) \<Rightarrow> \<exists>st1.
         score_nodes fw (map (simulator_score_plugin fw) pls) pod index nodes m' (w, st) = Inr (Inl s, (w1, st1))
     | Inr (Inr m1, w1) \<Rightarrow> \<exists>m2 st1.
         score_nodes fw (map (simulator_score_plugin fw) pls) pod index nodes m' (w, st) =
           Inr (Inr m2, (w1, st1)) \<and> scores_sim m1 m2"
  using assms(2)
proof (induction nodes arbitrary: index m m' w st)
  case Nil
  then show ?case by simp
next
  case (Cons n nodes)
  note sim = score_node_sim [OF assms(1) Cons.prems, where fw = fw and pod = pod and index = index
      and n = n and w = w and st = st]
  show ?case
  proof (cases "score_node fw sps pod index n m w")
    case (Inl e)
    then show ?thesis using sim by simp
  next
    case (Inr r)
    obtain x w1 where r: "r = (x, w1)" by (cases r)
    show ?thesis
    proof (cases x)
      case (Inl s)
      then show ?thesis using sim Inr r by auto
    next
      case x: (Inr m1)
      with sim Inr r obtain m2 st1 where
        call: "score_node fw (map (simulator_score_plugin fw) pls) pod index n m' (w, st) =
           Inr (Inr m2, (w1, st1))" and m12: "scores_sim m1 m2"
        by auto
      have "score_nodes fw (map (simulator_score_plugin fw) pls) pod index (n # nodes) m' (w, st) =
            score_nodes fw (map (simulator_score_plugin fw) pls) pod (Suc index) nodes m2 (w1, st1)"
          and "score_nodes fw sps pod index (n # nodes) m w =
            score_nodes fw sps pod (Suc index) nodes m1 w1"
        using call Inr r x by simp_all
      then show ?thesis
        using Cons.IH [OF m12, where index = "Suc index" and w = w1 and st = st1] by (simp only:)
    qed
  qed
qed

lemma sum_scores_sim:
  "scores_sim m m' \<Longrightarrow> sum_scores (map pluginName ks) m' i acc = sum_scores ks m i acc"
  by (induction ks arbitrary: acc) (simp_all add: scores_sim_def split: option.split)

lemma total_scores_sim:
  "scores_sim m m' \<Longrightarrow>
     total_scores (\<lambda>i. map pluginName (order i)) m' i nodes result = total_scores order m i nodes result"
  by (induction nodes arbitrary: i result) (simp_all add: sum_scores_sim split: sum.split)

lemma foldl_scores_sim:
  "list_all2 simulates_score pls sps \<Longrightarrow> scores_sim m m' \<Longrightarrow>
     scores_sim (foldl (\<lambda>m pl. m(scoreName pl \<mapsto> v)) m sps)
       (foldl (\<lambda>m pl. m(scoreName pl \<mapsto> v)) m' (map (simulator_score_plugin fw) pls))"
proof (induction pls sps arbitrary: m m' rule: list_all2_induct)
  case (Cons pl pls sp sps)
  have "scoreName (simulator_score_plugin fw pl) = pluginName (scoreName sp)"
    using Cons.hyps(1) by (simp add: simulator_score_plugin_def simulates_score_def)
  then show ?case
    using Cons.IH [OF scores_sim_upd [OF Cons.prems, of "scoreName sp" v]]
    by (simp only: list.map foldl_Cons)
qed simp

lemma createPluginToNodeScores_sim:
  assumes "list_all2 simulates_score pls sps"
  shows "scores_sim (createPluginToNodeScores sps nodes)
     (createPluginToNodeScores (map (simulator_score_plugin fw) pls) nodes)"
  unfolding createPluginToNodeScores_def
  by (rule foldl_scores_sim [OF assms]) (simp add: scores_sim_def)

text \<open>
  C8: scoring with the simulator's plugins gives every node the score the originals give it,
  fails with the same status and panics in the same cases: recording does not affect which
  node is chosen.
\<close>

theorem simulator_scores_transparent:
  assumes "list_all2 simulates_score pls sps"
  shows "case RunScorePlugins fw sps order pod nodes w of
       Inl e \<Rightarrow> RunScorePlugins fw (map (simulator_score_plugin fw) pls)
           (\<lambda>i. map pluginName (order i)) pod nodes (w, st) = Inl e
     | Inr (r, w') \<Rightarrow> \<exists>st'. RunScorePlugins fw (map (simulator_score_plugin fw) pls)
           (\<lambda>i. map pluginName (order i)) pod nodes (w, st) = Inr (r, (w', st'))"
proof -
  let ?m = "createPluginToNodeScores sps nodes"
  note sim = score_nodes_sim [OF assms createPluginToNodeScores_sim [OF assms, of nodes fw],
      where fw = fw and pod = pod and index = 0 and nodes = nodes and w = w and st = st]
  show ?thesis
  proof (cases "score_nodes fw sps pod 0 nodes ?m w")
    case (Inl e)
    then show ?thesis using sim by (simp add: RunScorePlugins_def)
  next
    case (Inr r)
    obtain x w1 where r: "r = (x, w1)" by (cases r)
    show ?thesis
    proof (cases x)
      case (Inl s)
      then show ?thesis using sim Inr r by (auto simp: RunScorePlugins_def)
    next
      case x: (Inr m1)
      with sim Inr r show ?thesis
        by (auto simp: RunScorePlugins_def total_scores_sim split: sum.split)
    qed
  qed
qed

definition sample_scorer :: "(unit, sample_status) score_plugin" where
  "sample_scorer = stateless_score (''Fixed'', \<lambda>pod n. (7, None))"

definition sample_score_simulator :: "(unit, sample_status, store) simulator_plugin" where
  "sample_score_simulator =
     \<lparr>simName = ''FixedForSimulator'', originalFilterPlugin = None,
      originalScorePlugin = Some sample_scorer, simWeight = 3, simStore = result_store_ops\<rparr>"

lemma sample_simulates_score: "list_all2 simulates_score [sample_score_simulator] [sample_scorer]"
  by (simp add: simulates_score_def sample_score_simulator_def sample_scorer_def
        pluginName_def pluginSuffix_def)

theorem simulator_scores_transparent_witness:
  "\<exists>st'. RunScorePlugins sample_framework [simulator_score_plugin sample_framework sample_score_simulator]
      (\<lambda>i. [''FixedForSimulator'']) (sample_pod ''p'') [\<lparr>nodeName = ''a'', nodeUnschedulable = False\<rparr>]
      ((), store_New Map.empty) =
    Inr (([\<lparr>nsName = ''a'', nsScore = 7\<rparr>], None), ((), st'))"
  using simulator_scores_transparent [OF sample_simulates_score, where fw = sample_framework
      and pod = "sample_pod ''p''" and w = "()" and st = "store_New Map.empty"
      and order = "\<lambda>i. [''Fixed'']" and nodes = "[\<lparr>nodeName = ''a'', nodeUnschedulable = False\<rparr>]"]
  by (simp add: RunScorePlugins_def createPluginToNodeScores_def sample_scorer_def
        pluginName_def pluginSuffix_def)

section \<open>What is recorded\<close>

text \<open>Over any store that keeps the contract.\<close>

context result_store
begin

lemma simulator_Filter_records:
  assumes "ok (podNamespace pod)" and "ok ns'"
    and "originalFilterPlugin pl = Some fp" and "sAddFilterResult (simStore pl) = add_filter"
    and "simulator_Filter fw pl pod ni (w, st) = Inr (s, (w', st'))"
  shows "filter_of st' ns' p' n' pl' =
     (if (ns', p', n', pl') = (podNamespace pod, podName pod, nodeName (Node ni), filterName fp)
      then Some (if IsSuccess fw s then PassedFilterMessage else Message fw s)
      else filter_of st ns' p' n' pl')"
proof -
  have "st' = sAddFilterResult (simStore pl) (podNamespace pod) (podName pod) (nodeName (Node ni))
      (filterName fp) (if IsSuccess fw s then PassedFilterMessage else Message fw s) st"
    using assms(3,5) by (auto simp: simulator_Filter_def with_store_def split: sum.splits if_splits)
  then show ?thesis by (simp add: assms(4) filter_of_add_filter [OF assms(1,2)])
qed

lemma simulator_Score_records:
  assumes "ok (podNamespace pod)" and "ok ns'"
    and "originalScorePlugin pl = Some sp" and "sAddScoreResult (simStore pl) = add_score"
    and "simulator_Score fw pl pod n (w, st) = Inr ((v, s), (w', st'))" and "IsSuccess fw s"
  shows "score_of st' ns' p' n' pl' =
       (if (ns', p', n', pl') = (podNamespace pod, podName pod, n, scoreName sp)
        then Some (FormatInt (sint v)) else score_of st ns' p' n' pl') \<and>
     final_of st' ns' p' n' pl' =
       (if (ns', p', n', pl') = (podNamespace pod, podName pod, n, scoreName sp)
        then Some (FormatInt (sint (weighted st (scoreName sp) v))) else final_of st ns' p' n' pl')"
proof -
  have "st' = sAddScoreResult (simStore pl) (podNamespace pod) (podName pod) n (scoreName sp) v st"
    using assms(3,5,6) by (auto simp: simulator_Score_def with_store_def split: sum.splits if_splits)
  then show ?thesis
    by (simp add: assms(4) score_of_add_score [OF assms(1,2)] final_of_add_score [OF assms(1,2)])
qed

end

text \<open>
  Every call of a simulator plugin's filter leaves the verdict of the original plugin in
  the store, under the pod, the node and the original's name: "passed", or the message of the
  status that it failed with; nothing else in the store changes.
\<close>

theorem simulator_filter_recorded:
  assumes "ns_ok (podNamespace pod)" and "ns_ok ns'"
    and "originalFilterPlugin pl = Some fp" and "simStore pl = result_store_ops"
    and "simulator_Filter fw pl pod ni (w, st) = Inr (s, (w', st'))"
  shows "recorded rFilter st' ns' p' n' pl' =
     (if (ns', p', n', pl') = (podNamespace pod, podName pod, nodeName (Node ni), filterName fp)
      then Some (if IsSuccess fw s then PassedFilterMessage else Message fw s)
      else recorded rFilter st ns' p' n' pl')"
  by (rule rs.simulator_Filter_records [OF assms(1-3) _ assms(5)])
     (simp add: assms(4) result_store_ops_def)

theorem simulator_filter_recorded_witness:
  "\<exists>s st'. simulator_Filter sample_framework sample_simulator (sample_pod ''p'')
        \<lparr>Node = \<lparr>nodeName = ''a'', nodeUnschedulable = True\<rparr>\<rparr> ((), store_New Map.empty) = Inr (s, ((), st')) \<and>
      recorded rFilter st' ''default'' ''p'' ''a'' ''NodeUnschedulable'' = Some ''no''"
proof -
  let ?ni = "\<lparr>Node = \<lparr>nodeName = ''a'', nodeUnschedulable = True\<rparr>\<rparr>"
  obtain s st' where call: "simulator_Filter sample_framework sample_simulator (sample_pod ''p'')
        ?ni ((), store_New Map.empty) = Inr (s, ((), st'))" and s: "\<not> IsSuccess sample_framework s"
      "Message sample_framework s = ''no''"
    by (simp add: simulator_Filter_def with_store_def sample_simulator_def sample_unsched_def
          stateless_filter_def)
  have ns: "ns_ok (podNamespace (sample_pod ''p''))" and ns': "ns_ok ''default''"
    by (simp_all add: sample_pod_def ns_ok_def)
  have "originalFilterPlugin sample_simulator = Some sample_unsched" "simStore sample_simulator = result_store_ops"
    by (simp_all add: sample_simulator_def)
  from simulator_filter_recorded [OF ns ns' this call, of "''p''" "''a''" "''NodeUnschedulable''"] s call
  show ?thesis by (auto simp: sample_pod_def sample_unsched_def stateless_filter_def)
qed

text \<open>
  Every final score in the store is the weight of the plugin times the raw score.
\<close>

definition weighted_from :: "(int64 \<Rightarrow> int64) \<Rightarrow> string option \<Rightarrow> string option \<Rightarrow> bool" where
  "weighted_from weigh raw final \<longleftrightarrow>
     (case raw of
        None \<Rightarrow> final = None
      | Some t \<Rightarrow> \<exists>v. t = FormatInt (sint v) \<and> final = Some (FormatInt (sint (weigh v))))"

definition finals_weighted :: "store \<Rightarrow> bool" where
  "finals_weighted s \<longleftrightarrow> (\<forall>ns p n pl. ns_ok ns \<longrightarrow>
     weighted_from (applyWeightOnScore s pl) (recorded rScore s ns p n pl)
       (recorded rFinalscore s ns p n pl))"

lemma finals_weighted_New: "finals_weighted (store_New weights)"
  by (simp add: finals_weighted_def weighted_from_def recorded_def store_New_def)

lemma finals_weighted_AddFilterResult:
  "ns_ok ns \<Longrightarrow> finals_weighted s \<Longrightarrow> finals_weighted (AddFilterResult ns p n pl r s)"
  by (simp add: finals_weighted_def rs.score_of_add_filter rs.final_of_add_filter
        rs.weighted_add_filter)

lemma finals_weighted_AddScoreResult:
  "ns_ok ns \<Longrightarrow> finals_weighted s \<Longrightarrow> finals_weighted (AddScoreResult ns p n pl v s)"
  by (auto simp: finals_weighted_def rs.score_of_add_score rs.final_of_add_score
        rs.weighted_add_score weighted_from_def)

text \<open>What the plugins preserve, a run of the score plugins preserves.\<close>

lemma score_node_invariant:
  assumes "\<And>pl n w r w'. pl \<in> set pls \<Longrightarrow> I w \<Longrightarrow> Score pl pod n w = Inr (r, w') \<Longrightarrow> I w'"
    and "\<And>pl f l w r w'. pl \<in> set pls \<Longrightarrow> ScoreExtensions pl = Some f \<Longrightarrow> I w \<Longrightarrow> f pod l w = Inr (r, w') \<Longrightarrow> I w'"
    and "I w" and "score_node fw pls pod index n m w = Inr (r, w')"
  shows "I w'"
  using assms
proof (induction pls arbitrary: m w)
  case (Cons pl pls)
  have IH: "I w1 \<Longrightarrow> score_node fw pls pod index n m1 w1 = Inr (r, w') \<Longrightarrow> I w'" for m1 w1
    using Cons.IH [of w1 m1] Cons.prems(1,2) by (meson list.set_intros(2))
  have score: "I w1" if "Score pl pod (nodeName n) w = Inr (x, w1)" for x w1
    using Cons.prems(1) [OF _ Cons.prems(3) that] by simp
  have ext: "I w2" if "ScoreExtensions pl = Some f" "I w1" "f pod l w1 = Inr (x, w2)" for f l x w1 w2
    using Cons.prems(2) [OF _ that] by simp
  show ?case
    using Cons.prems(4) score ext IH
    by (auto simp: Let_def split: sum.splits prod.splits option.splits if_splits) blast+
qed simp

lemma score_nodes_invariant:
  assumes "\<And>pl n w r w'. pl \<in> set pls \<Longrightarrow> I w \<Longrightarrow> Score pl pod n w = Inr (r, w') \<Longrightarrow> I w'"
    and "\<And>pl f l w r w'. pl \<in> set pls \<Longrightarrow> ScoreExtensions pl = Some f \<Longrightarrow> I w \<Longrightarrow> f pod l w = Inr (r, w') \<Longrightarrow> I w'"
    and "I w" and "score_nodes fw pls pod index nodes m w = Inr (r, w')"
  shows "I w'"
  using assms(3,4)
proof (induction nodes arbitrary: index m w)
  case (Cons n nodes)
  have step: "I w1" if "score_node fw pls pod index n m w = Inr (x, w1)" for x w1
    by (rule score_node_invariant [where I = I, OF assms(1,2) Cons.prems(1) that])
  show ?case
    using Cons.prems(2) step Cons.IH by (auto split: sum.splits prod.splits)
qed simp

lemma RunScorePlugins_invariant:
  assumes "\<And>pl n w r w'. pl \<in> set pls \<Longrightarrow> I w \<Longrightarrow> Score pl pod n w = Inr (r, w') \<Longrightarrow> I w'"
    and "\<And>pl f l w r w'. pl \<in> set pls \<Longrightarrow> ScoreExtensions pl = Some f \<Longrightarrow> I w \<Longrightarrow> f pod l w = Inr (r, w') \<Longrightarrow> I w'"
    and "I w" and "RunScorePlugins fw pls order pod nodes w = Inr (r, w')"
  shows "I w'"
proof -
  obtain x where run: "score_nodes fw pls pod 0 nodes (createPluginToNodeScores pls nodes) w = Inr (x, w')"
    using assms(4) by (auto simp: RunScorePlugins_def split: sum.splits)
  show ?thesis
    by (rule score_nodes_invariant [where I = I, OF _ _ assms(3) run]) (fact assms(1), fact assms(2))
qed

text \<open>
  C19: the final scores in the store are the weighted raw scores, whatever the original
  plugins normalise: \<open>NormalizeScore\<close> of \<open>simulatorPlugin\<close> would record the normalised
  ones, but \<open>ScoreExtensions\<close> returns those of the original plugin, so the scheduler never
  calls it.
\<close>

theorem normalized_scores_not_recorded:
  assumes "ns_ok (podNamespace pod)" and "finals_weighted st"
    and "\<forall>pl \<in> set pls. simStore pl = result_store_ops"
    and "RunScorePlugins fw (map (simulator_score_plugin fw) pls) order pod nodes (w, st) = Inr (r, (w', st'))"
  shows "finals_weighted st'"
proof -
  have "finals_weighted (snd (w', st'))"
  proof (rule RunScorePlugins_invariant [where I = "\<lambda>ws. finals_weighted (snd ws)", OF _ _ _ assms(4)])
    fix pl n ws x ws'
    assume "pl \<in> set (map (simulator_score_plugin fw) pls)" and I: "finals_weighted (snd ws)"
      and call: "Score pl pod n ws = Inr (x, ws')"
    then obtain sim where "pl = simulator_score_plugin fw sim" and "simStore sim = result_store_ops"
      using assms(3) by auto
    with call I show "finals_weighted (snd ws')"
      by (auto simp: simulator_score_plugin_def simulator_Score_def with_store_def result_store_ops_def
            finals_weighted_AddScoreResult [OF assms(1) I] split: option.splits sum.splits if_splits)
  next
    fix pl f l ws x ws'
    assume "pl \<in> set (map (simulator_score_plugin fw) pls)" and I: "finals_weighted (snd ws)"
      and "ScoreExtensions pl = Some f" and "f pod l ws = Inr (x, ws')"
    then show "finals_weighted (snd ws')"
      by (auto simp: simulator_score_plugin_def simulator_ScoreExtensions_def with_store_def
            split: option.splits sum.splits)
  qed (simp add: assms(2))
  then show ?thesis by simp
qed

definition sample_normalizer :: "(unit, sample_status, store) simulator_plugin" where
  "sample_normalizer =
     \<lparr>simName = ''PForSimulator'', originalFilterPlugin = None,
      originalScorePlugin = Some (normalizing_score ''P'' (\<lambda>p n. 10) (\<lambda>x. 2 * x)), simWeight = 3,
      simStore = result_store_ops\<rparr>"

theorem normalized_scores_not_recorded_witness:
  "\<exists>st'. RunScorePlugins sample_framework [simulator_score_plugin sample_framework sample_normalizer]
      (\<lambda>i. [''PForSimulator'']) (sample_pod ''p'') [\<lparr>nodeName = ''a'', nodeUnschedulable = False\<rparr>]
      ((), store_New [''P'' \<mapsto> 3]) = Inr (([\<lparr>nsName = ''a'', nsScore = 20\<rparr>], None), ((), st')) \<and>
    finals_weighted st'"
proof -
  obtain st' where run: "RunScorePlugins sample_framework [simulator_score_plugin sample_framework sample_normalizer]
      (\<lambda>i. [''PForSimulator'']) (sample_pod ''p'') [\<lparr>nodeName = ''a'', nodeUnschedulable = False\<rparr>]
      ((), store_New [''P'' \<mapsto> 3]) = Inr (([\<lparr>nsName = ''a'', nsScore = 20\<rparr>], None), ((), st'))"
    by (simp add: RunScorePlugins_def createPluginToNodeScores_def simulator_score_plugin_def
          simulator_Score_def simulator_ScoreExtensions_def with_store_def sample_normalizer_def
          normalizing_score_def Let_def)
  moreover have "finals_weighted st'"
    by (rule normalized_scores_not_recorded [where pls = "[sample_normalizer]" and fw = sample_framework
          and pod = "sample_pod ''p''", OF _ finals_weighted_New])
       (use run in \<open>simp_all add: sample_pod_def ns_ok_def sample_normalizer_def\<close>)
  ultimately show ?thesis by blast
qed

end
