(* ===== verification/Simulator_Config.thy ===== *)
theory Simulator_Config
  imports Simulator_Plugin
begin

text \<open>
  The configuration of the simulator's plugins: \<open>scheduler/defaultconfig/defaultconfig.go\<close>,
  the functions \<open>NewRegistry\<close>, \<open>NewPluginConfig\<close>, \<open>ConvertForSimulator\<close> and
  \<open>defaultFilterScorePlugins\<close> of \<open>scheduler/plugin/plugins.go\<close>, and
  \<open>convertConfigurationForSimulator\<close> of \<open>scheduler/scheduler.go\<close>.  A call may panic, and
  otherwise returns an error or a value.
\<close>

section \<open>Configurations\<close>

text \<open>
  The types of \<open>v1beta2\<close>: \<open>'obj\<close> is \<open>runtime.Object\<close>, \<open>'o\<close> the extension points other
  than filter and score, and \<open>'k\<close> the fields of a configuration other than the profiles.
\<close>

record v1_plugin =
  plgName :: string
  plgWeight :: "32 word option"

record plugin_set =
  Enabled :: "v1_plugin list"
  Disabled :: "v1_plugin list"

record 'o plugins =
  psFilter :: plugin_set
  psScore :: plugin_set
  psOther :: 'o

record 'obj raw_extension =
  Raw :: string
  Object :: "'obj option"

record 'obj plugin_config =
  pcName :: string
  pcArgs :: "'obj raw_extension"

record ('obj, 'o) profile =
  SchedulerName :: "string option"
  profPlugins :: "'o plugins option"
  profPluginConfig :: "'obj plugin_config list"

record ('obj, 'o, 'k) kube_config =
  Profiles :: "('obj, 'o) profile list"
  kcOther :: 'k

text \<open>
  What the libraries provide: the configuration that \<open>scheme.Scheme.Default\<close> makes of an empty
  one, decoding JSON into an object, setting defaults, converting to the internal type, the
  name of the default scheduler and the zero value of the other extension points.
\<close>

record ('obj, 'o, 'k, 'cfg) config_lib =
  defaulted :: "('obj, 'o, 'k) kube_config"
  Unmarshal :: "string \<Rightarrow> 'obj option \<Rightarrow> goerror + 'obj option"
  SetDefaults_KubeSchedulerConfiguration :: "('obj, 'o, 'k) kube_config \<Rightarrow> ('obj, 'o, 'k) kube_config"
  Convert :: "('obj, 'o, 'k) kube_config \<Rightarrow> goerror + 'cfg"
  DefaultSchedulerName :: string
  noOther :: 'o

type_synonym 'a result_of = "panic + (goerror + 'a)"

text \<open>\<open>return nil, xerrors.Errorf(format, err)\<close> on an error, and the rest of the function.\<close>

definition check_err :: "string \<Rightarrow> 'a result_of \<Rightarrow> ('a \<Rightarrow> 'b result_of) \<Rightarrow> 'b result_of" where
  "check_err msg r k =
     (case r of
        Inl e \<Rightarrow> Inl e
      | Inr (Inl err) \<Rightarrow> Inr (Inl (Errorf msg [] (Some err)))
      | Inr (Inr x) \<Rightarrow> k x)"

lemma check_err_simps [simp]:
  "check_err msg (Inl e) k = Inl e"
  "check_err msg (Inr (Inl err)) k = Inr (Inl (Errorf msg [] (Some err)))"
  "check_err msg (Inr (Inr x)) k = k x"
  by (simp_all add: check_err_def)

lemma check_err_success:
  "check_err msg r k = Inr (Inr y) \<longleftrightarrow> (\<exists>x. r = Inr (Inr x) \<and> k x = Inr (Inr y))"
  by (auto simp: check_err_def split: sum.splits)

section \<open>Default plugins\<close>

definition DefaultSchedulerConfig ::
    "('obj, 'o, 'k, 'cfg) config_lib \<Rightarrow> ('obj, 'o, 'k) kube_config" where
  "DefaultSchedulerConfig lib = defaulted lib"

definition default_plugin_set ::
    "('o plugins \<Rightarrow> plugin_set) \<Rightarrow> ('obj, 'o, 'k, 'cfg) config_lib \<Rightarrow> v1_plugin list result_of" where
  "default_plugin_set point lib =
     (let defaultConfig = DefaultSchedulerConfig lib
      in if length (Profiles defaultConfig) \<noteq> 1
         then Inr (Inl (Errorf ''get default scheduler configuration: %w'' [] None))
         else case profPlugins (hd (Profiles defaultConfig)) of
             None \<Rightarrow> Inl NilDeref
           | Some pls \<Rightarrow> Inr (Inr (Enabled (point pls))))"

definition DefaultFilterPlugins ::
    "('obj, 'o, 'k, 'cfg) config_lib \<Rightarrow> v1_plugin list result_of" where
  "DefaultFilterPlugins = default_plugin_set psFilter"

definition DefaultScorePlugins ::
    "('obj, 'o, 'k, 'cfg) config_lib \<Rightarrow> v1_plugin list result_of" where
  "DefaultScorePlugins = default_plugin_set psScore"

definition defaultFilterScorePlugins ::
    "('obj, 'o, 'k, 'cfg) config_lib \<Rightarrow> v1_plugin list result_of" where
  "defaultFilterScorePlugins lib =
     check_err ''get default filter plugins: %w'' (DefaultFilterPlugins lib) (\<lambda>defaultfilterpls.
     check_err ''get default score plugins: %w'' (DefaultScorePlugins lib) (\<lambda>defaultscorepls.
       Inr (Inr (defaultscorepls @ defaultfilterpls))))"

text \<open>A library whose default configuration has one profile, with these plugins.\<close>

definition defaults_are ::
    "('obj, 'o, 'k, 'cfg) config_lib \<Rightarrow> v1_plugin list \<Rightarrow> v1_plugin list \<Rightarrow> 'obj plugin_config list \<Rightarrow> bool" where
  "defaults_are lib filterpls scorepls cfgs \<longleftrightarrow>
     (\<exists>p pls. Profiles (defaulted lib) = [p] \<and> profPlugins p = Some pls \<and> profPluginConfig p = cfgs \<and>
        Enabled (psFilter pls) = filterpls \<and> Enabled (psScore pls) = scorepls)"

lemma defaults_areD:
  assumes "defaults_are lib filterpls scorepls cfgs"
  shows "DefaultFilterPlugins lib = Inr (Inr filterpls)"
    and "DefaultScorePlugins lib = Inr (Inr scorepls)"
    and "defaultFilterScorePlugins lib = Inr (Inr (scorepls @ filterpls))"
    and "length (Profiles (defaulted lib)) = 1"
    and "profPluginConfig (hd (Profiles (defaulted lib))) = cfgs"
  using assms
  by (auto simp: defaults_are_def DefaultFilterPlugins_def DefaultScorePlugins_def
        default_plugin_set_def DefaultSchedulerConfig_def defaultFilterScorePlugins_def)

section \<open>Enabled plugins of the simulator\<close>

definition disabledMap :: "v1_plugin list \<Rightarrow> string \<Rightarrow> bool" where
  "disabledMap pls = foldl (\<lambda>m p. m(plgName p := True)) (\<lambda>_. False) pls"

text \<open>The same code for score and for filter.\<close>

definition convert_set ::
    "v1_plugin list result_of \<Rightarrow> string \<Rightarrow> plugin_set \<Rightarrow> plugin_set result_of" where
  "convert_set defaults msg ps =
     (let disabled = disabledMap (Disabled ps);
          off = [\<lparr>plgName = ''*'', plgWeight = None\<rparr>]
      in if \<not> disabled ''*''
         then check_err msg defaults (\<lambda>defaultpls.
           let ret = map (\<lambda>dp. \<lparr>plgName = pluginName (plgName dp), plgWeight = plgWeight dp\<rparr>)
                       (filter (\<lambda>dp. \<not> disabled (plgName dp)) defaultpls)
           in Inr (Inr (ps\<lparr>Enabled := ret, Disabled := off\<rparr>)))
         else Inr (Inr (ps\<lparr>Disabled := off\<rparr>)))"

definition ConvertForSimulator ::
    "('obj, 'o, 'k, 'cfg) config_lib \<Rightarrow> 'o plugins \<Rightarrow> 'o plugins result_of" where
  "ConvertForSimulator lib pls =
     (case convert_set (DefaultScorePlugins lib) ''get default score plugins: %w'' (psScore pls) of
        Inl e \<Rightarrow> Inl e
      | Inr (Inl err) \<Rightarrow> Inr (Inl err)
      | Inr (Inr score) \<Rightarrow>
          (case convert_set (DefaultFilterPlugins lib) ''get default filter plugins: %w'' (psFilter pls) of
             Inl e \<Rightarrow> Inl e
           | Inr (Inl err) \<Rightarrow> Inr (Inl err)
           | Inr (Inr filt) \<Rightarrow> Inr (Inr (pls\<lparr>psScore := score, psFilter := filt\<rparr>))))"

lemma foldl_disabled: "foldl (\<lambda>m p. m(plgName p := True)) m pls n \<longleftrightarrow> m n \<or> n \<in> plgName ` set pls"
  by (induction pls arbitrary: m) auto

lemma disabledMap_iff: "disabledMap pls n \<longleftrightarrow> n \<in> plgName ` set pls"
  by (simp add: disabledMap_def foldl_disabled)

text \<open>What becomes of the plugins of an extension point.\<close>

definition simulator_set :: "v1_plugin list \<Rightarrow> plugin_set \<Rightarrow> plugin_set" where
  "simulator_set defaultpls ps =
     \<lparr>Enabled =
        (if ''*'' \<in> plgName ` set (Disabled ps) then Enabled ps
         else map (\<lambda>dp. \<lparr>plgName = pluginName (plgName dp), plgWeight = plgWeight dp\<rparr>)
                (filter (\<lambda>dp. plgName dp \<notin> plgName ` set (Disabled ps)) defaultpls)),
      Disabled = [\<lparr>plgName = ''*'', plgWeight = None\<rparr>]\<rparr>"

lemma convert_set_eq: "convert_set (Inr (Inr defaultpls)) msg ps = Inr (Inr (simulator_set defaultpls ps))"
  by (cases ps) (simp add: convert_set_def simulator_set_def disabledMap_iff Let_def)

lemma ConvertForSimulator_eq:
  assumes "defaults_are lib filterpls scorepls cfgs"
  shows "ConvertForSimulator lib pls =
     Inr (Inr (pls\<lparr>psScore := simulator_set scorepls (psScore pls),
                   psFilter := simulator_set filterpls (psFilter pls)\<rparr>))"
  by (simp add: ConvertForSimulator_def defaults_areD [OF assms] convert_set_eq)

lemma simulator_set_idem: "simulator_set defaultpls (simulator_set defaultpls ps) = simulator_set defaultpls ps"
  by (simp add: simulator_set_def)

text \<open>
  C23: converting plugins for the simulator enables, at filter and score, the simulator's
  plugin of every default plugin that is not disabled, whatever is enabled, and leaves the
  enabled plugins as they are if everything ("*") is disabled; the scheduler's own defaults
  are then always disabled, so a second conversion changes nothing.  The other extension
  points are not touched.
\<close>

theorem ConvertForSimulator_spec:
  assumes "defaults_are lib filterpls scorepls cfgs"
  shows "\<exists>pls'. ConvertForSimulator lib pls = Inr (Inr pls') \<and>
     psScore pls' = simulator_set scorepls (psScore pls) \<and>
     psFilter pls' = simulator_set filterpls (psFilter pls) \<and> psOther pls' = psOther pls \<and>
     ConvertForSimulator lib pls' = Inr (Inr pls')"
  by (simp add: ConvertForSimulator_eq [OF assms] simulator_set_idem)

definition sample_config_lib :: "(unit, unit, unit, (unit, unit, unit) kube_config) config_lib" where
  "sample_config_lib =
     \<lparr>defaulted = \<lparr>Profiles =
        [\<lparr>SchedulerName = Some ''default-scheduler'',
          profPlugins = Some \<lparr>
            psFilter = \<lparr>Enabled = [\<lparr>plgName = ''NodeName'', plgWeight = None\<rparr>], Disabled = []\<rparr>,
            psScore = \<lparr>Enabled = [\<lparr>plgName = ''ImageLocality'', plgWeight = Some 1\<rparr>,
                                   \<lparr>plgName = ''NodeAffinity'', plgWeight = Some 2\<rparr>], Disabled = []\<rparr>,
            psOther = ()\<rparr>,
          profPluginConfig = [\<lparr>pcName = ''NodeAffinity'', pcArgs = \<lparr>Raw = [], Object = Some ()\<rparr>\<rparr>]\<rparr>],
        kcOther = ()\<rparr>,
      Unmarshal = (\<lambda>raw obj. Inr obj), SetDefaults_KubeSchedulerConfiguration = id, Convert = Inr,
      DefaultSchedulerName = ''default-scheduler'', noOther = ()\<rparr>"

lemma sample_defaults:
  "defaults_are sample_config_lib [\<lparr>plgName = ''NodeName'', plgWeight = None\<rparr>]
     [\<lparr>plgName = ''ImageLocality'', plgWeight = Some 1\<rparr>, \<lparr>plgName = ''NodeAffinity'', plgWeight = Some 2\<rparr>]
     [\<lparr>pcName = ''NodeAffinity'', pcArgs = \<lparr>Raw = [], Object = Some ()\<rparr>\<rparr>]"
  by (simp add: defaults_are_def sample_config_lib_def)

theorem ConvertForSimulator_spec_witness:
  "\<exists>pls'. ConvertForSimulator sample_config_lib
      \<lparr>psFilter = \<lparr>Enabled = [], Disabled = []\<rparr>,
       psScore = \<lparr>Enabled = [], Disabled = [\<lparr>plgName = ''ImageLocality'', plgWeight = None\<rparr>]\<rparr>, psOther = ()\<rparr> =
      Inr (Inr pls') \<and>
    Enabled (psScore pls') = [\<lparr>plgName = ''NodeAffinityForSimulator'', plgWeight = Some 2\<rparr>]"
proof -
  let ?pls = "\<lparr>psFilter = \<lparr>Enabled = [], Disabled = []\<rparr>,
       psScore = \<lparr>Enabled = [], Disabled = [\<lparr>plgName = ''ImageLocality'', plgWeight = None\<rparr>]\<rparr>, psOther = ()\<rparr>"
  obtain pls' where "ConvertForSimulator sample_config_lib ?pls = Inr (Inr pls')"
    and "psScore pls' = simulator_set
      [\<lparr>plgName = ''ImageLocality'', plgWeight = Some 1\<rparr>, \<lparr>plgName = ''NodeAffinity'', plgWeight = Some 2\<rparr>]
      (psScore ?pls)"
    using ConvertForSimulator_spec [OF sample_defaults, of ?pls] by blast
  then show ?thesis
    by (simp add: simulator_set_def pluginName_def pluginSuffix_def)
qed

section \<open>Arguments of the plugins\<close>

text \<open>
  The map \<open>pluginConfig\<close> from names to pointers, which may be nil: \<open>Some None\<close>.
\<close>

type_synonym 'obj config_map = "string \<rightharpoonup> 'obj raw_extension option"

definition default_config_map :: "'obj plugin_config list \<Rightarrow> 'obj config_map" where
  "default_config_map cfgs = foldl (\<lambda>m c. m(pcName c \<mapsto> Some (pcArgs c))) Map.empty cfgs"

text \<open>
  The loop over the given configuration, which overrides the defaults; \<open>override_one\<close> is its
  body, where \<open>ret\<close> is the copy of the pointer in the map.
\<close>

definition override_one ::
    "('obj, 'o, 'k, 'cfg) config_lib \<Rightarrow> 'obj raw_extension \<Rightarrow> 'obj raw_extension option
       \<Rightarrow> 'obj raw_extension option result_of" where
  "override_one lib args ret =
     (let unmarshalled =
            (if Raw args \<noteq> []
             then case ret of
                 None \<Rightarrow> Inl NilDeref
               | Some r \<Rightarrow>
                   (case Unmarshal lib (Raw args) (Object r) of
                      Inl err \<Rightarrow> Inr (Inl err)
                    | Inr obj \<Rightarrow> Inr (Inr (Some (r\<lparr>Object := obj\<rparr>))))
             else Inr (Inr ret))
      in case unmarshalled of
           Inl e \<Rightarrow> Inl e
         | Inr (Inl err) \<Rightarrow> Inr (Inl err)
         | Inr (Inr ret) \<Rightarrow>
             if Object args \<noteq> None
             then (case ret of
                     None \<Rightarrow> Inl NilDeref
                   | Some r \<Rightarrow> Inr (Inr (Some (r\<lparr>Object := Object args\<rparr>))))
             else Inr (Inr ret))"

fun override_args ::
    "('obj, 'o, 'k, 'cfg) config_lib \<Rightarrow> 'obj plugin_config list \<Rightarrow> 'obj config_map
       \<Rightarrow> 'obj config_map result_of" where
  "override_args lib [] m = Inr (Inr m)"
| "override_args lib (c # pc) m =
     (let name = pcName c;
          ret = (case m name of None \<Rightarrow> None | Some r \<Rightarrow> r)
      in case override_one lib (pcArgs c) ret of
           Inl e \<Rightarrow> Inl e
         | Inr (Inl err) \<Rightarrow> Inr (Inl err)
         | Inr (Inr ret) \<Rightarrow> override_args lib pc (m(name \<mapsto> ret)))"

text \<open>The loop \<open>for name, arg := range pluginConfig\<close>; dereferencing a nil pointer panics.\<close>

fun config_list :: "string list \<Rightarrow> 'obj config_map \<Rightarrow> 'obj plugin_config list result_of" where
  "config_list [] m = Inr (Inr [])"
| "config_list (name # order) m =
     (case m name of
        None \<Rightarrow> config_list order m
      | Some None \<Rightarrow> Inl NilDeref
      | Some (Some arg) \<Rightarrow>
          (case config_list order m of
             Inl e \<Rightarrow> Inl e
           | Inr (Inl err) \<Rightarrow> Inr (Inl err)
           | Inr (Inr ret) \<Rightarrow> Inr (Inr (\<lparr>pcName = name, pcArgs = arg\<rparr> # ret))))"

text \<open>The loop over the default plugins, which also forgets the names it has seen.\<close>

fun simulator_configs :: "v1_plugin list \<Rightarrow> 'obj config_map \<Rightarrow> 'obj plugin_config list result_of" where
  "simulator_configs [] m = Inr (Inr [])"
| "simulator_configs (p # pls) m =
     (let name = plgName p
      in case m name of
           None \<Rightarrow> simulator_configs pls m
         | Some None \<Rightarrow> Inl NilDeref
         | Some (Some arg) \<Rightarrow>
             (case simulator_configs pls (m(name := None)) of
                Inl e \<Rightarrow> Inl e
              | Inr (Inl err) \<Rightarrow> Inr (Inl err)
              | Inr (Inr ret) \<Rightarrow> Inr (Inr (\<lparr>pcName = pluginName name, pcArgs = arg\<rparr> # ret))))"

definition NewPluginConfig ::
    "('obj, 'o, 'k, 'cfg) config_lib \<Rightarrow> string list \<Rightarrow> 'obj plugin_config list
       \<Rightarrow> 'obj plugin_config list result_of" where
  "NewPluginConfig lib order pc =
     (let defaultcfg = DefaultSchedulerConfig lib
      in if length (Profiles defaultcfg) \<noteq> 1
         then Inr (Inl (Errorf ''get default scheduler configuration: %w'' [] None))
         else
           (case override_args lib pc (default_config_map (profPluginConfig (hd (Profiles defaultcfg)))) of
              Inl e \<Rightarrow> Inl e
            | Inr (Inl err) \<Rightarrow> Inr (Inl err)
            | Inr (Inr pluginConfig) \<Rightarrow>
                (case config_list order pluginConfig of
                   Inl e \<Rightarrow> Inl e
                 | Inr (Inl err) \<Rightarrow> Inr (Inl err)
                 | Inr (Inr ret) \<Rightarrow>
                     check_err ''get default score/filter plugins: %w'' (defaultFilterScorePlugins lib)
                       (\<lambda>defaultpls.
                         (case simulator_configs defaultpls pluginConfig of
                            Inl e \<Rightarrow> Inl e
                          | Inr (Inl err) \<Rightarrow> Inr (Inl err)
                          | Inr (Inr ret') \<Rightarrow> Inr (Inr (ret @ ret')))))))"

lemma foldl_config_map:
  "foldl (\<lambda>m c. m(pcName c \<mapsto> Some (pcArgs c))) m cfgs n \<noteq> None \<longleftrightarrow>
     m n \<noteq> None \<or> n \<in> pcName ` set cfgs"
  by (induction cfgs arbitrary: m) auto

lemma default_config_map_dom: "default_config_map cfgs n = None \<longleftrightarrow> n \<notin> pcName ` set cfgs"
  unfolding default_config_map_def using foldl_config_map [of Map.empty cfgs n] by auto

text \<open>A name that is absent, or has a nil pointer, has no arguments at the end.\<close>

definition no_args :: "'obj config_map \<Rightarrow> string \<Rightarrow> bool" where
  "no_args m n \<longleftrightarrow> m n = None \<or> m n = Some None"

lemma override_one_nil: "override_one lib args None = Inr (Inr ret) \<Longrightarrow> ret = None"
  by (auto simp: override_one_def split: if_splits)

lemma override_args_nil:
  "override_args lib pc m = Inr (Inr m') \<Longrightarrow> no_args m n \<Longrightarrow>
     m' n = (if n \<in> pcName ` set pc then Some None else m n)"
proof (induction pc arbitrary: m)
  case (Cons c pc)
  obtain ret where one: "override_one lib (pcArgs c) (case m (pcName c) of None \<Rightarrow> None | Some r \<Rightarrow> r) = Inr (Inr ret)"
    and run: "override_args lib pc (m(pcName c \<mapsto> ret)) = Inr (Inr m')"
    using Cons.prems(1) by (auto simp: Let_def split: sum.splits)
  have "ret = None" if "n = pcName c"
    using one that Cons.prems(2) by (auto simp: no_args_def dest: override_one_nil)
  then have "no_args (m(pcName c \<mapsto> ret)) n"
    using Cons.prems(2) by (auto simp: no_args_def)
  from Cons.IH [OF run this] \<open>n = pcName c \<Longrightarrow> ret = None\<close> show ?case by auto
qed simp

lemma config_list_nil: "m n = Some None \<Longrightarrow> n \<in> set order \<Longrightarrow> config_list order m \<noteq> Inr (Inr ret)"
  by (induction order arbitrary: ret) (auto split: option.splits sum.splits)

lemma override_args_dom:
  "override_args lib pc m = Inr (Inr m') \<Longrightarrow> dom m' = dom m \<union> pcName ` set pc"
  by (induction pc arbitrary: m) (auto simp: Let_def split: sum.splits)

lemma config_list_set:
  "config_list order m = Inr (Inr ret) \<Longrightarrow>
     set ret = {\<lparr>pcName = n, pcArgs = a\<rparr> | n a. n \<in> set order \<and> m n = Some (Some a)}"
  by (induction order arbitrary: ret) (auto split: option.splits sum.splits)

lemma collect_update:
  assumes "m q = Some (Some a)"
  shows "{f n b | n b. n \<in> insert q S \<and> m n = Some (Some b)} =
     insert (f q a) {f n b | n b. n \<in> S \<and> (m(q := None)) n = Some (Some b)}"
proof -
  have "n \<in> insert q S \<and> m n = Some (Some b) \<longleftrightarrow>
      n = q \<and> b = a \<or> n \<in> S \<and> (m(q := None)) n = Some (Some b)" for n b
    using assms by (cases "n = q") auto
  then show ?thesis by (simp only:) blast
qed

lemma simulator_configs_set:
  "simulator_configs pls m = Inr (Inr ret) \<Longrightarrow>
     set ret = {\<lparr>pcName = pluginName n, pcArgs = a\<rparr> | n a. n \<in> plgName ` set pls \<and> m n = Some (Some a)}"
proof (induction pls arbitrary: m ret)
  case (Cons p pls)
  show ?case
  proof (cases "m (plgName p)")
    case None
    then show ?thesis using Cons by auto
  next
    case (Some x)
    then obtain a ret' where x: "x = Some a" and ret: "ret = \<lparr>pcName = pluginName (plgName p), pcArgs = a\<rparr> # ret'"
      and run: "simulator_configs pls (m(plgName p := None)) = Inr (Inr ret')"
      using Cons.prems by (auto simp: Let_def split: option.splits sum.splits)
    show ?thesis
      unfolding ret list.set image_insert Cons.IH [OF run]
      using collect_update [of m "plgName p" a "\<lambda>n a. \<lparr>pcName = pluginName n, pcArgs = a\<rparr>"] Some x
      by simp
  qed
qed simp



section \<open>The registry of plugins\<close>

text \<open>
  A factory makes a plugin of a configuration and a handle; \<open>rs\<close> is the registry of the
  in-tree plugins, where a missing name gives a nil function, whose call panics.
\<close>

type_synonym ('x, 'h, 'p) factory = "'x \<Rightarrow> 'h \<Rightarrow> panic + 'p option \<times> goerror option"

definition simulator_factory ::
    "(string \<rightharpoonup> ('x, 'h, ('w, 's) plugin_obj) factory) \<Rightarrow> v1_plugin
       \<Rightarrow> ('x, 'h, ('w, 's, store) simulator_plugin) factory" where
  "simulator_factory rs pl configuration f =
     (case rs (plgName pl) of
        None \<Rightarrow> Inl NilDeref
      | Some r \<Rightarrow>
          (case r configuration f of
             Inl e \<Rightarrow> Inl e
           | Inr (p, err) \<Rightarrow>
               if err \<noteq> None then Inr (None, Some (Errorf ''create original plugin: %w'' [] err))
               else
                 let weight = (case plgWeight pl of None \<Rightarrow> 0 | Some x \<Rightarrow> x)
                 in case newSimulatorPlugin result_store_ops p weight of
                      Inl e \<Rightarrow> Inl e
                    | Inr plg \<Rightarrow> Inr (Some plg, None)))"

fun register_plugins ::
    "(string \<rightharpoonup> ('x, 'h, ('w, 's) plugin_obj) factory) \<Rightarrow> v1_plugin list
       \<Rightarrow> (string \<rightharpoonup> ('x, 'h, ('w, 's, store) simulator_plugin) factory)
       \<Rightarrow> (string \<rightharpoonup> ('x, 'h, ('w, 's, store) simulator_plugin) factory)" where
  "register_plugins rs [] ret = ret"
| "register_plugins rs (pl # pls) ret =
     (if ret (pluginName (plgName pl)) \<noteq> None then register_plugins rs pls ret
      else register_plugins rs pls (ret(pluginName (plgName pl) \<mapsto> simulator_factory rs pl)))"

definition record_weight :: "(string \<rightharpoonup> 32 word) \<Rightarrow> v1_plugin \<Rightarrow> (string \<rightharpoonup> 32 word)" where
  "record_weight m p =
     (let m = m(plgName p \<mapsto> 0)
      in case plgWeight p of None \<Rightarrow> m | Some x \<Rightarrow> m(plgName p \<mapsto> x))"

definition score_weights :: "v1_plugin list \<Rightarrow> string \<rightharpoonup> 32 word" where
  "score_weights pls = foldl record_weight Map.empty pls"

text \<open>The store that all the plugins share, and the registry.\<close>

definition NewRegistry ::
    "('obj, 'o, 'k, 'cfg) config_lib \<Rightarrow> (string \<rightharpoonup> ('x, 'h, ('w, 's) plugin_obj) factory)
       \<Rightarrow> (store \<times> (string \<rightharpoonup> ('x, 'h, ('w, 's, store) simulator_plugin) factory)) result_of" where
  "NewRegistry lib rs =
     check_err ''get default score plugins: %w'' (DefaultScorePlugins lib) (\<lambda>defaultScorePlugin.
       let defaultScorePluginWeight = score_weights defaultScorePlugin
       in check_err ''get default score/filter plugins: %w'' (defaultFilterScorePlugins lib) (\<lambda>defaultpls.
         Inr (Inr (store_New defaultScorePluginWeight, register_plugins rs defaultpls Map.empty))))"

lemma register_plugins_lookup:
  "register_plugins rs pls ret (pluginName n) =
     (case ret (pluginName n) of
        Some f \<Rightarrow> Some f
      | None \<Rightarrow> map_option (simulator_factory rs) (find (\<lambda>p. plgName p = n) pls))"
  by (induction pls arbitrary: ret) (auto split: option.split)

lemma record_weight_eq:
  "record_weight m p = m(plgName p \<mapsto> (case plgWeight p of None \<Rightarrow> 0 | Some x \<Rightarrow> x))"
  by (simp add: record_weight_def split: option.split)

lemma foldl_weights_other: "n \<notin> plgName ` set pls \<Longrightarrow> foldl record_weight m pls n = m n"
  by (induction pls arbitrary: m) (simp_all add: record_weight_eq)

lemma foldl_weights:
  "distinct (map plgName pls) \<Longrightarrow> pl \<in> set pls \<Longrightarrow>
     foldl record_weight m pls (plgName pl) = Some (case plgWeight pl of None \<Rightarrow> 0 | Some x \<Rightarrow> x)"
  by (induction pls arbitrary: m) (auto simp: foldl_weights_other record_weight_eq)



section \<open>Converting a whole configuration\<close>

text \<open>
  The loop over the profiles, which it changes in place: the error, if any, and the profiles
  as they are then.  \<open>order i\<close> is the order in which \<open>NewPluginConfig\<close> visits its map in
  the round of profile \<open>i\<close>.
\<close>

fun convert_profiles ::
    "('obj, 'o, 'k, 'cfg) config_lib \<Rightarrow> (nat \<Rightarrow> string list) \<Rightarrow> nat \<Rightarrow> ('obj, 'o) profile list
       \<Rightarrow> panic + goerror option \<times> ('obj, 'o) profile list" where
  "convert_profiles lib order i [] = Inr (None, [])"
| "convert_profiles lib order i (p # ps) =
     (let no_plugins = \<lparr>psFilter = \<lparr>Enabled = [], Disabled = []\<rparr>,
            psScore = \<lparr>Enabled = [], Disabled = []\<rparr>, psOther = noOther lib\<rparr>;
          pls = (case profPlugins p of None \<Rightarrow> no_plugins | Some pls \<Rightarrow> pls);
          p = p\<lparr>profPlugins := Some pls\<rparr>
      in case ConvertForSimulator lib pls of
           Inl e \<Rightarrow> Inl e
         | Inr (Inl err) \<Rightarrow> Inr (Some (Errorf ''convert plugins for simulator: %w'' [] (Some err)), p # ps)
         | Inr (Inr plugins) \<Rightarrow>
             let p = p\<lparr>profPlugins := Some plugins\<rparr>
             in case NewPluginConfig lib (order i) (profPluginConfig p) of
                  Inl e \<Rightarrow> Inl e
                | Inr (Inl err) \<Rightarrow> Inr (Some (Errorf ''get plugin configs: %w'' [] (Some err)), p # ps)
                | Inr (Inr config) \<Rightarrow>
                    (let p = p\<lparr>profPluginConfig := config\<rparr>
                     in case convert_profiles lib order (Suc i) ps of
                          Inl e \<Rightarrow> Inl e
                        | Inr (err, ps) \<Rightarrow> Inr (err, p # ps)))"

text \<open>
  The result, and the caller's configuration, which the function changes.  (What
  \<open>SetDefaults_KubeSchedulerConfiguration\<close> may do to the profiles, which the two share, is the
  library's.)
\<close>

definition convertConfigurationForSimulator ::
    "('obj, 'o, 'k, 'cfg) config_lib \<Rightarrow> (nat \<Rightarrow> string list) \<Rightarrow> ('obj, 'o, 'k) kube_config
       \<Rightarrow> panic + (goerror + 'cfg) \<times> ('obj, 'o, 'k) kube_config" where
  "convertConfigurationForSimulator lib order versioned =
     (let versioned =
            (if length (Profiles versioned) = 0
             then versioned\<lparr>Profiles :=
                    [\<lparr>SchedulerName = Some (DefaultSchedulerName lib),
                      profPlugins = Some \<lparr>psFilter = \<lparr>Enabled = [], Disabled = []\<rparr>,
                        psScore = \<lparr>Enabled = [], Disabled = []\<rparr>, psOther = noOther lib\<rparr>,
                      profPluginConfig = []\<rparr>]\<rparr>
             else versioned)
      in case convert_profiles lib order 0 (Profiles versioned) of
           Inl e \<Rightarrow> Inl e
         | Inr (Some err, ps) \<Rightarrow> Inr (Inl err, versioned\<lparr>Profiles := ps\<rparr>)
         | Inr (None, ps) \<Rightarrow>
             let versioned = versioned\<lparr>Profiles := ps\<rparr>;
                 defaultCfg = DefaultSchedulerConfig lib;
                 defaultCfg = defaultCfg\<lparr>Profiles := Profiles versioned\<rparr>;
                 cfg = SetDefaults_KubeSchedulerConfiguration lib defaultCfg
             in case Convert lib cfg of
                  Inl err \<Rightarrow> Inr (Inl (Errorf ''convert configuration: %w'' [] (Some err)), versioned)
                | Inr cfg \<Rightarrow> Inr (Inr cfg, versioned))"

text \<open>A profile whose filter and score plugins are the simulator's.\<close>

definition simulator_profile ::
    "v1_plugin list \<Rightarrow> v1_plugin list \<Rightarrow> ('obj, 'o) profile \<Rightarrow> ('obj, 'o) profile \<Rightarrow> bool" where
  "simulator_profile filterpls scorepls p p' \<longleftrightarrow>
     SchedulerName p' = SchedulerName p \<and>
     (\<exists>pls'. profPlugins p' = Some pls' \<and>
        (case profPlugins p of
           Some pls \<Rightarrow> psFilter pls' = simulator_set filterpls (psFilter pls) \<and>
             psScore pls' = simulator_set scorepls (psScore pls) \<and> psOther pls' = psOther pls
         | None \<Rightarrow> psFilter pls' = simulator_set filterpls \<lparr>Enabled = [], Disabled = []\<rparr> \<and>
             psScore pls' = simulator_set scorepls \<lparr>Enabled = [], Disabled = []\<rparr>))"

lemma convert_profiles_spec:
  assumes "defaults_are lib filterpls scorepls cfgs"
  shows "convert_profiles lib order i ps = Inr (None, ps') \<Longrightarrow>
     list_all2 (simulator_profile filterpls scorepls) ps ps'"
proof (induction ps arbitrary: i ps')
  case (Cons p ps)
  then obtain config ps'' where
    rest: "convert_profiles lib order (Suc i) ps = Inr (None, ps'')"
    and ps': "ps' = p\<lparr>profPlugins := Some
        ((case profPlugins p of None \<Rightarrow> \<lparr>psFilter = \<lparr>Enabled = [], Disabled = []\<rparr>,
            psScore = \<lparr>Enabled = [], Disabled = []\<rparr>, psOther = noOther lib\<rparr> | Some pls \<Rightarrow> pls)
         \<lparr>psScore := simulator_set scorepls (psScore (case profPlugins p of
             None \<Rightarrow> \<lparr>psFilter = \<lparr>Enabled = [], Disabled = []\<rparr>,
               psScore = \<lparr>Enabled = [], Disabled = []\<rparr>, psOther = noOther lib\<rparr> | Some pls \<Rightarrow> pls)),
          psFilter := simulator_set filterpls (psFilter (case profPlugins p of
             None \<Rightarrow> \<lparr>psFilter = \<lparr>Enabled = [], Disabled = []\<rparr>,
               psScore = \<lparr>Enabled = [], Disabled = []\<rparr>, psOther = noOther lib\<rparr> | Some pls \<Rightarrow> pls))\<rparr>),
        profPluginConfig := config\<rparr> # ps''"
    by (auto simp: ConvertForSimulator_eq [OF assms] Let_def split: sum.splits)
  then show ?case
    using Cons.IH [OF rest] by (simp add: simulator_profile_def split: option.split)
qed simp

text \<open>
  A converted configuration depends only on the profiles of the given one, every other
  field being the default; and every profile keeps its name and runs only the simulator's
  plugins at filter and score, the scheduler's own ones being disabled.
\<close>

theorem convertConfiguration_profiles_only:
  assumes "defaults_are lib filterpls scorepls cfgs"
    and "convertConfigurationForSimulator lib order v = Inr (Inr cfg, v')"
    and "Profiles v \<noteq> []" and "Profiles w = Profiles v"
  shows "(\<exists>w'. convertConfigurationForSimulator lib order w = Inr (Inr cfg, w')) \<and>
     list_all2 (simulator_profile filterpls scorepls) (Profiles v) (Profiles v') \<and>
     Convert lib (SetDefaults_KubeSchedulerConfiguration lib ((defaulted lib)\<lparr>Profiles := Profiles v'\<rparr>)) = Inr cfg"
proof -
  obtain ps where ps: "convert_profiles lib order 0 (Profiles v) = Inr (None, ps)"
    and v': "v' = v\<lparr>Profiles := ps\<rparr>"
    and cfg: "Convert lib (SetDefaults_KubeSchedulerConfiguration lib ((defaulted lib)\<lparr>Profiles := ps\<rparr>)) = Inr cfg"
    using assms(2,3)
    by (auto simp: convertConfigurationForSimulator_def DefaultSchedulerConfig_def Let_def
          split: sum.splits option.splits)
  have "convertConfigurationForSimulator lib order w = Inr (Inr cfg, w\<lparr>Profiles := ps\<rparr>)"
    using assms(3,4) ps cfg
    by (simp add: convertConfigurationForSimulator_def DefaultSchedulerConfig_def)
  then show ?thesis
    using convert_profiles_spec [OF assms(1) ps] v' cfg by simp
qed

theorem convertConfiguration_profiles_only_witness:
  "\<exists>p'. list_all2 (simulator_profile [\<lparr>plgName = ''NodeName'', plgWeight = None\<rparr>]
       [\<lparr>plgName = ''ImageLocality'', plgWeight = Some 1\<rparr>, \<lparr>plgName = ''NodeAffinity'', plgWeight = Some 2\<rparr>])
     [\<lparr>SchedulerName = Some ''mine'', profPlugins = None, profPluginConfig = []\<rparr> :: (unit, unit) profile] [p']"
proof -
  let ?p = "\<lparr>SchedulerName = Some ''mine'', profPlugins = None, profPluginConfig = []\<rparr> :: (unit, unit) profile"
  let ?v = "\<lparr>Profiles = [?p], kcOther = ()\<rparr>"
  obtain cfg v' where run: "convertConfigurationForSimulator sample_config_lib (\<lambda>_. [''NodeAffinity'']) ?v = Inr (Inr cfg, v')"
    by (simp add: convertConfigurationForSimulator_def ConvertForSimulator_eq [OF sample_defaults]
          NewPluginConfig_def DefaultSchedulerConfig_def defaults_areD [OF sample_defaults]
          default_config_map_def Let_def) (simp add: sample_config_lib_def)
  from convertConfiguration_profiles_only [OF sample_defaults run, of ?v] show ?thesis
    by (auto simp: list_all2_Cons1)
qed

end
